(* ===== verification/Prelude.thy ===== *)
theory Prelude
  imports Main "HOL-Library.AList" "HOL-Library.Multiset"
begin

text \<open>
  Shared vocabulary of the development: the type of Python exceptions the modelled code
  raises, dictionaries as insertion-ordered association lists, UTC timestamps, and the lemma
  collections the component theories fill.

  A Python \<open>dict\<close> keeps its insertion order and the code iterates over it, so a dictionary
  is an association list with \<^const>\<open>AList.update\<close> (replace in place, or append at the end),
  \<^const>\<open>AList.delete\<close> and \<^const>\<open>map_of\<close>; \<open>distinct_keys\<close> is its well-formedness.
  A timestamp is an \<open>int\<close>, the number of microseconds since the epoch in UTC (the resolution
  of \<open>datetime\<close>), so \<open>ensure_utc\<close> is the identity on it.
\<close>

named_theorems inv_intros \<open>preservation lemmas of the component invariants\<close>
named_theorems frame_simps \<open>fields an operation does not touch\<close>

subsection \<open>Exceptions\<close>

datatype py_error =
    KeyError string
  | ValueError string
  | ConfigurationError string
  | LiveTradingDisabledError
  | InsufficientDataError
  | AccountingInvariantError

subsection \<open>Timestamps\<close>

type_synonym timestamp = int

definition seconds :: "int \<Rightarrow> int" where
  "seconds n = n * 1000000"

subsection \<open>Insertion-ordered dictionaries\<close>

type_synonym ('k, 'v) dict = "('k \<times> 'v) list"

definition distinct_keys :: "('k, 'v) dict \<Rightarrow> bool" where
  "distinct_keys d \<longleftrightarrow> distinct (map fst d)"

definition dict_values :: "('k, 'v) dict \<Rightarrow> 'v list" where
  "dict_values d = map snd d"

lemma distinct_keys_Nil [simp]: "distinct_keys []"
  by (simp add: distinct_keys_def)

lemma distinct_keys_update [simp]: "distinct_keys d \<Longrightarrow> distinct_keys (AList.update k v d)"
  by (simp add: distinct_keys_def distinct_update)

lemma distinct_keys_delete [simp]: "distinct_keys d \<Longrightarrow> distinct_keys (AList.delete k d)"
  by (simp add: distinct_keys_def distinct_delete)

lemma map_of_update_same [simp]: "map_of (AList.update k v d) k = Some v"
  by (simp add: update_conv')

lemma map_of_update_other [simp]:
  "k' \<noteq> k \<Longrightarrow> map_of (AList.update k v d) k' = map_of d k'"
  by (simp add: update_conv')

lemma map_of_update_if:
  "map_of (AList.update k v d) k' = (if k' = k then Some v else map_of d k')"
  by (simp add: update_conv')

lemma map_of_delete_if:
  "map_of (AList.delete k d) k' = (if k' = k then None else map_of d k')"
  by (simp add: delete_conv')

lemma map_of_Some_value: "map_of d k = Some v \<Longrightarrow> v \<in> set (dict_values d)"
  unfolding dict_values_def by (force dest: map_of_SomeD)

lemma dict_values_mapD:
  "distinct_keys d \<Longrightarrow> v \<in> set (dict_values d) \<Longrightarrow> \<exists>k. map_of d k = Some v"
  unfolding dict_values_def distinct_keys_def by (auto intro: map_of_is_SomeI)

text \<open>Replacing one value of a dictionary replaces one summand of a sum over its values.\<close>

lemma sum_list_update_dict:
  fixes f :: "'v \<Rightarrow> 'a :: ab_group_add"
  assumes "distinct_keys d" and "map_of d k = Some v"
  shows "sum_list (map f (dict_values (AList.update k v' d)))
         = sum_list (map f (dict_values d)) - f v + f v'"
  using assms
proof (induction d)
  case Nil
  then show ?case by simp
next
  case (Cons p d)
  obtain a b where p: "p = (a, b)" by (cases p)
  show ?case
  proof (cases "a = k")
    case True
    with Cons.prems p show ?thesis by (simp add: dict_values_def algebra_simps)
  next
    case False
    with Cons p show ?thesis by (simp add: dict_values_def distinct_keys_def algebra_simps)
  qed
qed

lemma sum_list_insert_dict:
  fixes f :: "'v \<Rightarrow> 'a :: ab_group_add"
  assumes "map_of d k = None"
  shows "sum_list (map f (dict_values (AList.update k v' d)))
         = sum_list (map f (dict_values d)) + f v'"
  using assms
  by (induction d) (auto simp: dict_values_def algebra_simps split: if_splits)

end
