(* ===== verification/Decimal_Arith.thy ===== *)
theory Decimal_Arith
  imports Prelude Complex_Main
begin

text \<open>
  Python's \<open>decimal.Decimal\<close> under its default context: every arithmetic result is rounded to
  28 significant digits, half to even. A finite decimal is represented by its numeric value, a
  rational; \<open>ctx\<close> is the context's rounding, and \<open>dadd\<close>, \<open>dsub\<close>, \<open>dmul\<close>, \<open>ddiv\<close> are the
  operators \<open>+ - * /\<close> of the source, each one rounding. Comparison, \<open>max\<close> and \<open>min\<close>
  are exact, as in Python. \<open>quantize\<close> and \<open>quantize_down\<close> are \<open>Decimal.quantize\<close> with
  \<open>ROUND_HALF_EVEN\<close> (the default) and \<open>ROUND_DOWN\<close>.

  Outside the representation: NaN and the infinities (rejected by the code's validators), the
  exponent limits of the context (\<open>10 ^ 999999\<close>), the \<open>InvalidOperation\<close> that \<open>quantize\<close>
  raises when its result needs more than 28 digits (an amount of \<open>10 ^ 20\<close> or more at eight
  places), and trailing zeros, which no comparison and no operation of the modelled code sees.
\<close>

type_synonym decimal = rat

subsection \<open>Rounding to an integer\<close>

lemma floor_rat_numeral [simp]:
  "\<lfloor>numeral a / numeral b :: rat\<rfloor> = numeral a div numeral b"
  "\<lfloor>1 / numeral b :: rat\<rfloor> = 1 div numeral b"
  "\<lfloor>- (numeral a / numeral b) :: rat\<rfloor> = (- numeral a) div numeral b"
  "\<lfloor>- (1 / numeral b) :: rat\<rfloor> = (- 1) div numeral b"
  using floor_divide_of_int_eq [where ?'a = rat, of "numeral a" "numeral b"]
    floor_divide_of_int_eq [where ?'a = rat, of 1 "numeral b"]
    floor_divide_of_int_eq [where ?'a = rat, of "- numeral a" "numeral b"]
    floor_divide_of_int_eq [where ?'a = rat, of "- 1" "numeral b"]
  by simp_all

lemma ceiling_rat_numeral [simp]:
  "\<lceil>numeral a / numeral b :: rat\<rceil> = - ((- numeral a) div numeral b)"
  "\<lceil>1 / numeral b :: rat\<rceil> = - ((- 1) div numeral b)"
  "\<lceil>- (numeral a / numeral b) :: rat\<rceil> = - (numeral a div numeral b)"
  "\<lceil>- (1 / numeral b) :: rat\<rceil> = - (1 div numeral b)"
  by (simp_all add: ceiling_def)

definition half_even :: "rat \<Rightarrow> int" where
  "half_even x =
     (let f = \<lfloor>x\<rfloor>; r = x - of_int f in
      if r < 1 / 2 then f else if 1 / 2 < r then f + 1 else if even f then f else f + 1)"

definition trunc_zero :: "rat \<Rightarrow> int" where
  "trunc_zero x = (if 0 \<le> x then \<lfloor>x\<rfloor> else \<lceil>x\<rceil>)"

lemma half_even_bounds: "of_int (half_even x) \<le> x + 1 / 2" "x - 1 / 2 \<le> of_int (half_even x)"
proof -
  define f r where "f = (of_int \<lfloor>x\<rfloor> :: rat)" and "r = x - f"
  have fr: "0 \<le> r" "r < 1" "x = f + r"
    using floor_correct [of x] by (simp_all add: f_def r_def algebra_simps)
  have "of_int (half_even x) = (if r < 1 / 2 then f else if 1 / 2 < r then f + 1
          else if even \<lfloor>x\<rfloor> then f else f + 1)"
    by (simp add: half_even_def Let_def f_def r_def)
  with fr show "of_int (half_even x) \<le> x + 1 / 2" "x - 1 / 2 \<le> of_int (half_even x)"
    by (auto split: if_splits)
qed

lemma half_even_error: "\<bar>of_int (half_even x) - x\<bar> \<le> 1 / 2"
  using half_even_bounds [of x] by (simp only: abs_le_iff) linarith

lemma half_even_of_int [simp]: "half_even (of_int k) = k"
  by (simp add: half_even_def)

lemma half_even_mono:
  assumes "x \<le> y"
  shows "half_even x \<le> half_even y"
proof (cases "\<lfloor>x\<rfloor> = \<lfloor>y\<rfloor>")
  case True
  with assms show ?thesis by (auto simp: half_even_def Let_def)
next
  case False
  with floor_mono [OF assms] have less: "\<lfloor>x\<rfloor> + 1 \<le> \<lfloor>y\<rfloor>" by linarith
  have "half_even x \<le> \<lfloor>x\<rfloor> + 1" by (simp add: half_even_def Let_def)
  moreover have "\<lfloor>y\<rfloor> \<le> half_even y" by (simp add: half_even_def Let_def)
  ultimately show ?thesis using less by linarith
qed

lemma half_even_uminus: "half_even (- x) = - half_even x"
proof (cases "x = of_int \<lfloor>x\<rfloor>")
  case True
  then show ?thesis using half_even_of_int [of "- \<lfloor>x\<rfloor>"] half_even_of_int [of "\<lfloor>x\<rfloor>"] by simp
next
  case False
  then have *: "\<lfloor>- x\<rfloor> = - \<lfloor>x\<rfloor> - 1"
  proof (intro floor_unique)
    have "of_int \<lfloor>x\<rfloor> \<le> x" "x < of_int \<lfloor>x\<rfloor> + 1" using floor_correct [of x] by auto
    with False have "of_int \<lfloor>x\<rfloor> < x" by linarith
    then show "- x < of_int (- \<lfloor>x\<rfloor> - 1) + 1" by simp
    show "of_int (- \<lfloor>x\<rfloor> - 1) \<le> - x" using \<open>x < of_int \<lfloor>x\<rfloor> + 1\<close> by simp
  qed
  show ?thesis unfolding half_even_def Let_def * by (auto simp: algebra_simps)
qed

lemma trunc_zero_of_int [simp]: "trunc_zero (of_int k) = k"
  by (simp add: trunc_zero_def)

lemma trunc_zero_le: "0 \<le> x \<Longrightarrow> of_int (trunc_zero x) \<le> x"
  by (simp add: trunc_zero_def)

lemma trunc_zero_nonneg: "0 \<le> x \<Longrightarrow> 0 \<le> trunc_zero x"
  by (simp add: trunc_zero_def)

lemma trunc_zero_mono: "x \<le> y \<Longrightarrow> trunc_zero x \<le> trunc_zero y"
proof -
  assume le: "x \<le> y"
  show ?thesis
  proof (cases "x < 0 \<and> 0 \<le> y")
    case True
    then have "\<lceil>x\<rceil> \<le> 0" "0 \<le> \<lfloor>y\<rfloor>" by (auto simp: ceiling_le_iff)
    then have "\<lceil>x\<rceil> \<le> \<lfloor>y\<rfloor>" by linarith
    with True show ?thesis by (simp add: trunc_zero_def)
  qed (use le in \<open>auto simp: trunc_zero_def floor_mono ceiling_mono\<close>)
qed

lemma abs_trunc_zero_le:
  assumes "\<bar>x\<bar> \<le> of_int k"
  shows "\<bar>trunc_zero x\<bar> \<le> k"
proof -
  have "x \<le> of_int k" "of_int (- k) \<le> x" using assms by (auto simp: abs_le_iff)
  then have "trunc_zero x \<le> trunc_zero (of_int k)" "trunc_zero (of_int (- k)) \<le> trunc_zero x"
    by (simp_all only: trunc_zero_mono)
  then have "trunc_zero x \<le> k" "- k \<le> trunc_zero x" by (simp_all only: trunc_zero_of_int)
  then show ?thesis by linarith
qed

subsection \<open>The exponent of a result\<close>

fun digits10 :: "nat \<Rightarrow> nat" where
  "digits10 n = (if n < 10 then 1 else Suc (digits10 (n div 10)))"

declare digits10.simps [simp del]

lemma digits10_small [simp]: "n < 10 \<Longrightarrow> digits10 n = 1"
  by (simp add: digits10.simps)

lemma digits10_step: "10 \<le> n \<Longrightarrow> digits10 n = Suc (digits10 (n div 10))"
  by (subst digits10.simps) simp

lemma digits10_bounds: "0 < n \<Longrightarrow> 10 ^ (digits10 n - 1) \<le> n \<and> n < 10 ^ digits10 n"
proof (induction n rule: digits10.induct)
  case (1 n)
  show ?case
  proof (cases "n < 10")
    case True
    with 1 show ?thesis by (simp add: digits10.simps [of n])
  next
    case False
    with 1 have IH: "10 ^ (digits10 (n div 10) - 1) \<le> n div 10 \<and> n div 10 < 10 ^ digits10 (n div 10)"
      by simp
    have pos: "0 < digits10 (n div 10)" by (simp add: digits10.simps)
    then have "(10::nat) ^ digits10 (n div 10) = 10 * 10 ^ (digits10 (n div 10) - 1)"
      by (metis Suc_diff_1 power_Suc)
    with IH have lo: "10 ^ digits10 (n div 10) \<le> n"
      using div_times_less_eq_dividend [of n 10] by linarith
    have "n < 10 * 10 ^ digits10 (n div 10)"
      using IH by (metis less_mult_imp_div_less div_less_iff_less_mult mult.commute zero_less_numeral)
    with lo False show ?thesis by (simp add: digits10.simps [of n])
  qed
qed

definition scale :: "int \<Rightarrow> rat" where
  "scale e = 10 powi e"

lemma scale_pos [simp]: "0 < scale e"
  by (simp add: scale_def)

lemma scale_nonzero [simp]: "scale e \<noteq> 0"
  using scale_pos [of e] by linarith

lemma scale_of_nat: "scale (int n) = 10 ^ n"
  by (simp add: scale_def)

lemma scale_add: "scale (a + b) = scale a * scale b"
  by (simp add: scale_def power_int_add)

lemma scale_mono: "a \<le> b \<Longrightarrow> scale a \<le> scale b"
  by (simp add: scale_def power_int_increasing)

text \<open>
  \<open>places x\<close> is the number of decimal places kept: scaling by it makes the coefficient a
  number of 28 digits.
\<close>

definition places :: "rat \<Rightarrow> int" where
  "places x =
     (let a = \<bar>x\<bar> in
      if 1 \<le> a then 28 - int (digits10 (nat \<lfloor>a\<rfloor>))
      else 27 + int (digits10 (nat (\<lceil>1 / a\<rceil> - 1))))"

lemma places_bounds_large:
  assumes "1 \<le> \<bar>x\<bar>"
  shows "10 ^ 27 \<le> \<bar>x\<bar> * scale (places x) \<and> \<bar>x\<bar> * scale (places x) < 10 ^ 28"
proof -
  let ?a = "\<bar>x\<bar>"
  note True = assms
  have a: "0 < ?a" using assms by linarith
  let ?n = "nat \<lfloor>?a\<rfloor>" let ?k = "digits10 ?n"
  have n: "0 < ?n" using True by (simp add: le_floor_iff)
  have of_n: "of_nat ?n = (of_int \<lfloor>?a\<rfloor> :: rat)" using a by simp
  have k: "0 < ?k" by (simp add: digits10.simps)
  have "10 ^ (?k - 1) \<le> ?n" and hi: "?n < 10 ^ ?k" using digits10_bounds [OF n] by auto
  then have "(of_nat (10 ^ (?k - 1)) :: rat) \<le> of_nat ?n" by (simp only: of_nat_le_iff)
  then have "(10 ^ (?k - 1) :: rat) \<le> of_nat ?n" by (simp only: of_nat_power of_nat_numeral)
  then have lo: "10 ^ (?k - 1) \<le> ?a" using of_n of_int_floor_le [of ?a] by linarith
  have "?n + 1 \<le> 10 ^ ?k" using hi by (simp del: zero_less_nat_eq nat_less_numeral_power_cancel_iff)
  then have "(of_nat (?n + 1) :: rat) \<le> of_nat (10 ^ ?k)" by (simp only: of_nat_le_iff)
  then have "(of_nat ?n + 1 :: rat) \<le> 10 ^ ?k"
    by (simp only: of_nat_power of_nat_numeral of_nat_add of_nat_1)
  then have hi': "?a < 10 ^ ?k" using of_n floor_correct [of ?a] by linarith
  have p: "scale (places x) * 10 ^ ?k = 10 ^ 28"
    using True scale_add [of "28 - int ?k" "int ?k"] scale_of_nat [of 28] scale_of_nat [of ?k]
    by (simp add: places_def del: power_numeral)
  have p': "scale (places x) * 10 ^ (?k - 1) = 10 ^ 27"
    using p k by (cases ?k) auto
  have "scale (places x) * 10 ^ (?k - 1) \<le> scale (places x) * ?a"
      and "scale (places x) * ?a < scale (places x) * 10 ^ ?k"
    using lo hi' by (simp_all only: mult_le_cancel_left_pos mult_less_cancel_left_pos scale_pos)
  then have "10 ^ 27 \<le> scale (places x) * ?a \<and> scale (places x) * ?a < 10 ^ 28"
    by (simp only: p p' simp_thms)
  then show ?thesis by (simp only: mult.commute [of ?a "scale (places x)"])
qed

lemma places_bounds_small:
  assumes "x \<noteq> 0" and "\<not> 1 \<le> \<bar>x\<bar>"
  shows "10 ^ 27 \<le> \<bar>x\<bar> * scale (places x) \<and> \<bar>x\<bar> * scale (places x) < 10 ^ 28"
proof -
  let ?a = "\<bar>x\<bar>"
  note False = assms(2)
  have a: "0 < ?a" using assms(1) by simp
  let ?m = "nat (\<lceil>1 / ?a\<rceil> - 1)" let ?k = "digits10 ?m"
  have one: "1 < 1 / ?a" using False a by simp
  then have m: "0 < ?m" by (simp add: less_ceiling_iff)
  have "int ?m = \<lceil>1 / ?a\<rceil> - 1" using m by linarith
  then have of_m: "of_nat ?m = (of_int \<lceil>1 / ?a\<rceil> - 1 :: rat)"
    by (metis of_int_1 of_int_diff of_int_of_nat_eq)
  have k: "0 < ?k" by (simp add: digits10.simps)
  note bm = digits10_bounds [OF m]
  have "10 ^ (?k - 1) \<le> ?m" by (rule bm [THEN conjunct1])
  moreover have "?m + 1 \<le> 10 ^ ?k" using bm [THEN conjunct2] by (simp only: Suc_eq_plus1 [symmetric] Suc_le_eq)
  ultimately have "(of_nat (10 ^ (?k - 1)) :: rat) \<le> of_nat ?m"
      and "(of_nat (?m + 1) :: rat) \<le> of_nat (10 ^ ?k)" by (simp_all only: of_nat_le_iff)
  then have b: "(10 ^ (?k - 1) :: rat) \<le> of_nat ?m" "(of_nat ?m + 1 :: rat) \<le> 10 ^ ?k"
    by (simp_all only: of_nat_power of_nat_numeral of_nat_add of_nat_1)
  have c: "of_int \<lceil>1 / ?a\<rceil> - 1 < 1 / ?a" "1 / ?a \<le> of_int \<lceil>1 / ?a\<rceil>"
    using ceiling_correct [of "1 / ?a"] by auto
  have lo: "10 ^ (?k - 1) < 1 / ?a" using b(1) of_m c(1) by linarith
  have hi: "1 / ?a \<le> 10 ^ ?k" using b(2) of_m c(2) by linarith
  have p: "scale (places x) = 10 ^ 27 * 10 ^ ?k"
    using False scale_add [of 27 "int ?k"] scale_of_nat [of 27] scale_of_nat [of ?k]
    by (simp add: places_def del: power_numeral)
  have p': "scale (places x) = 10 ^ 28 * 10 ^ (?k - 1)"
    using p k by (cases ?k) auto
  have "1 \<le> ?a * 10 ^ ?k" using hi a by (simp add: field_simps)
  moreover have "?a * 10 ^ (?k - 1) < 1" using lo a by (simp add: field_simps)
  ultimately have "10 ^ 27 * 1 \<le> 10 ^ 27 * (?a * 10 ^ ?k)"
      and "10 ^ 28 * (?a * 10 ^ (?k - 1)) < 10 ^ 28 * (1 :: rat)"
    by (simp_all only: mult_le_cancel_left_pos mult_less_cancel_left_pos zero_less_power zero_less_numeral)
  moreover have "?a * scale (places x) = 10 ^ 27 * (?a * 10 ^ ?k)"
    unfolding p by (simp only: mult.left_commute)
  moreover have "?a * scale (places x) = 10 ^ 28 * (?a * 10 ^ (?k - 1))"
    unfolding p' by (simp only: mult.left_commute)
  ultimately show ?thesis by (metis mult.right_neutral)
qed

lemma places_bounds:
  assumes "x \<noteq> 0"
  shows "10 ^ 27 \<le> \<bar>x\<bar> * scale (places x)" and "\<bar>x\<bar> * scale (places x) < 10 ^ 28"
  using places_bounds_large [of x] places_bounds_small [OF assms] by blast+

subsection \<open>The context's rounding\<close>

definition ctx :: "rat \<Rightarrow> decimal" where
  "ctx x = (if x = 0 then 0 else of_int (half_even (x * scale (places x))) / scale (places x))"

text \<open>A number of the form \<open>k / 10 ^ d\<close> with a coefficient of at most 28 digits.\<close>

definition representable :: "rat \<Rightarrow> bool" where
  "representable x \<longleftrightarrow> (\<exists>k d. x = of_int k / scale d \<and> \<bar>k\<bar> < 10 ^ 28)"

lemma representableI: "\<bar>k\<bar> < 10 ^ 28 \<Longrightarrow> representable (of_int k / scale d)"
  unfolding representable_def by blast

lemma ctx_0 [simp]: "ctx 0 = 0"
  by (simp add: ctx_def)

lemma places_uminus [simp]: "places (- x) = places x"
  by (simp add: places_def)

lemma ctx_uminus [simp]: "ctx (- x) = - ctx x"
  using half_even_uminus [of "x * scale (places x)"] by (simp add: ctx_def)

text \<open>The coefficient of a rounded positive number lies between \<open>10 ^ 27\<close> and \<open>10 ^ 28\<close>.\<close>

lemma coefficient_bounds:
  assumes "0 < x"
  shows "10 ^ 27 \<le> half_even (x * scale (places x))" and "half_even (x * scale (places x)) \<le> 10 ^ 28"
proof -
  have "of_int (10 ^ 27) \<le> x * scale (places x)" "x * scale (places x) \<le> of_int (10 ^ 28)"
    using places_bounds [of x] assms by simp_all
  from this [THEN half_even_mono]
  show "10 ^ 27 \<le> half_even (x * scale (places x))" and "half_even (x * scale (places x)) \<le> 10 ^ 28"
    by (simp_all only: half_even_of_int)
qed

lemma places_antimono:
  assumes "0 < x" and "x \<le> y"
  shows "places y \<le> places x"
proof (rule ccontr)
  assume "\<not> places y \<le> places x"
  then have "scale (places x + 1) \<le> scale (places y)" by (intro scale_mono) simp
  then have "10 * scale (places x) \<le> scale (places y)"
    using scale_add [of "places x" 1] by (simp add: scale_def)
  then have "x * (10 * scale (places x)) \<le> y * scale (places y)"
    using assms by (intro mult_mono) (auto simp: less_imp_le)
  moreover have "y * scale (places y) < 10 ^ 28" "10 ^ 27 \<le> x * scale (places x)"
    using places_bounds [of y] places_bounds [of x] assms by auto
  ultimately show False by simp
qed

lemma ctx_pos_mono:
  assumes "0 < x" and "x \<le> y"
  shows "ctx x \<le> ctx y"
proof (cases "places x = places y")
  case True
  have "half_even (x * scale (places x)) \<le> half_even (y * scale (places x))"
    using assms by (intro half_even_mono) simp
  with True assms show ?thesis by (simp add: ctx_def divide_right_mono less_imp_le)
next
  case False
  with places_antimono [OF assms] have "scale (places y + 1) \<le> scale (places x)"
    by (intro scale_mono) simp
  then have s: "10 * scale (places y) \<le> scale (places x)"
    using scale_add [of "places y" 1] by (simp add: scale_def)
  have "of_int (half_even (x * scale (places x))) \<le> (of_int (10 ^ 28) :: rat)"
    using coefficient_bounds(2) [OF assms(1)] by (simp only: of_int_le_iff)
  then have "ctx x \<le> 10 ^ 28 / scale (places x)"
    using assms by (simp add: ctx_def divide_right_mono less_imp_le)
  also have "\<dots> \<le> 10 ^ 28 / (10 * scale (places y))"
    using s by (intro divide_left_mono) auto
  also have "\<dots> = 10 ^ 27 / scale (places y)" by simp
  also have "\<dots> \<le> ctx y"
  proof -
    have "(of_int (10 ^ 27) :: rat) \<le> of_int (half_even (y * scale (places y)))"
      using coefficient_bounds(1) [of y] assms by (simp only: of_int_le_iff)
    with assms show ?thesis by (simp add: ctx_def divide_right_mono less_imp_le)
  qed
  finally show ?thesis .
qed

lemma ctx_pos: "0 < x \<Longrightarrow> 0 < ctx x"
proof -
  assume x: "0 < x"
  have "0 < half_even (x * scale (places x))"
    using coefficient_bounds(1) [OF x] by (rule less_le_trans [rotated]) simp
  with x show ?thesis by (simp add: ctx_def)
qed

lemma ctx_mono: "x \<le> y \<Longrightarrow> ctx x \<le> ctx y"
proof -
  assume le: "x \<le> y"
  consider "0 < x" | "x \<le> 0" "0 \<le> y" | "y < 0" by linarith
  then show ?thesis
  proof cases
    case 1
    with le show ?thesis by (rule ctx_pos_mono [rotated])
  next
    case 2
    have "ctx x \<le> 0" using ctx_pos [of "- x"] 2 by (cases "x = 0") auto
    moreover have "0 \<le> ctx y" using ctx_pos [of y] 2 by (cases "y = 0") auto
    ultimately show ?thesis by linarith
  next
    case 3
    with le ctx_pos_mono [of "- y" "- x"] show ?thesis by simp
  qed
qed

lemma ctx_error: "\<bar>ctx x - x\<bar> \<le> \<bar>x\<bar> * (5 / 10 ^ 28)"
proof (cases "x = 0")
  case False
  let ?s = "scale (places x)"
  have "ctx x - x = (of_int (half_even (x * ?s)) - x * ?s) / ?s"
    using False by (simp add: ctx_def field_simps)
  then have "\<bar>ctx x - x\<bar> = \<bar>of_int (half_even (x * ?s)) - x * ?s\<bar> / ?s"
    by (simp add: abs_divide less_imp_le)
  also have "\<dots> \<le> (1 / 2) / ?s"
    by (intro divide_right_mono half_even_error) (simp add: less_imp_le)
  also have "\<dots> \<le> \<bar>x\<bar> * (5 / 10 ^ 28)"
    using places_bounds(1) [OF False] by (simp add: field_simps)
  finally show ?thesis .
qed simp

lemma ctx_representable:
  assumes "representable x"
  shows "ctx x = x"
proof (cases "x = 0")
  case False
  from assms obtain k d where x: "x = of_int k / scale d" and k: "\<bar>k\<bar> < 10 ^ 28"
    unfolding representable_def by blast
  have kx: "\<bar>x\<bar> * scale d = of_int \<bar>k\<bar>" by (simp add: x abs_mult less_imp_le)
  have "d \<le> places x"
  proof (rule ccontr)
    assume "\<not> d \<le> places x"
    then have "scale (places x + 1) \<le> scale d" by (intro scale_mono) simp
    then have "10 * scale (places x) \<le> scale d"
      using scale_add [of "places x" 1] by (simp add: scale_def)
    then have "\<bar>x\<bar> * (10 * scale (places x)) \<le> of_int \<bar>k\<bar>"
      unfolding kx [symmetric] by (intro mult_left_mono) auto
    moreover have "10 ^ 27 \<le> \<bar>x\<bar> * scale (places x)" by (rule places_bounds [OF False])
    moreover have "of_int \<bar>k\<bar> < (of_int (10 ^ 28) :: rat)" using k by (simp only: of_int_less_iff)
    ultimately show False by simp
  qed
  then have "scale (places x) = scale d * 10 ^ nat (places x - d)"
    using scale_add [of d "places x - d"] by (simp add: scale_def power_int_def)
  then have i: "x * scale (places x) = of_int (k * 10 ^ nat (places x - d))"
    by (simp add: x)
  show ?thesis unfolding ctx_def i half_even_of_int using False
    by (simp add: i [symmetric] del: of_int_mult)
qed simp

lemma representable_ctx: "representable (ctx x)"
proof -
  have pos: "representable (ctx x)" if "0 < x" for x
  proof (cases "half_even (x * scale (places x)) = 10 ^ 28")
    case True
    have "scale (places x) = 10 * scale (places x - 1)"
      using scale_add [of "places x - 1" 1] by (simp add: scale_def)
    then have "ctx x = of_int (10 ^ 27) / scale (places x - 1)"
      using that True by (simp add: ctx_def)
    moreover have "\<bar>10 ^ 27 :: int\<bar> < 10 ^ 28" by simp
    ultimately show ?thesis by (simp only: representableI)
  next
    case False
    with coefficient_bounds [OF that] have "\<bar>half_even (x * scale (places x))\<bar> < 10 ^ 28" by simp
    with that show ?thesis by (simp add: ctx_def representableI)
  qed
  have neg: "representable (- y)" if "representable y" for y
    using that unfolding representable_def by (metis abs_minus_cancel minus_divide_left of_int_minus)
  consider "0 < x" | "x = 0" | "x < 0" by linarith
  then show ?thesis
  proof cases
    case 2
    have "representable (of_int 0 / scale 0)" by (rule representableI) simp
    with 2 show ?thesis by simp
  next
    case 3
    with pos [of "- x"] neg show ?thesis by fastforce
  qed (rule pos)
qed

subsection \<open>What the components use of a rounding\<close>

text \<open>
  The components only need a rounding to be monotone, odd, sign-preserving, and exact on the
  representable numbers it produces. Comparing a rounded result with a representable bound is
  then the same as comparing the exact result with it.
\<close>

locale rounding =
  fixes rnd :: "rat \<Rightarrow> rat"
    and rep :: "rat \<Rightarrow> bool"
  assumes rnd_mono: "x \<le> y \<Longrightarrow> rnd x \<le> rnd y"
    and rnd_rep: "rep x \<Longrightarrow> rnd x = x"
    and rep_rnd: "rep (rnd x)"
    and rnd_uminus: "rnd (- x) = - rnd x"
    and rnd_pos: "0 < x \<Longrightarrow> 0 < rnd x"
begin

lemma rnd_0: "rnd 0 = 0"
  using rnd_uminus [of 0] by simp

lemma rnd_nonneg: "0 \<le> x \<Longrightarrow> 0 \<le> rnd x"
  using rnd_mono [of 0 x] by (simp add: rnd_0)

lemma rnd_nonpos: "x \<le> 0 \<Longrightarrow> rnd x \<le> 0"
  using rnd_mono [of x 0] by (simp add: rnd_0)

lemma rnd_pos_iff: "0 < rnd x \<longleftrightarrow> 0 < x"
  using rnd_pos [of x] rnd_nonpos [of x] by linarith

lemma rnd_nonneg_iff: "0 \<le> rnd x \<longleftrightarrow> 0 \<le> x"
  using rnd_nonneg [of x] rnd_pos [of "- x"] rnd_uminus [of x] by linarith

lemma rnd_idem: "rnd (rnd x) = rnd x"
  by (rule rnd_rep [OF rep_rnd])

lemma rnd_le_rep: "rep c \<Longrightarrow> x \<le> c \<Longrightarrow> rnd x \<le> c"
  using rnd_mono [of x c] by (simp add: rnd_rep)

lemma rep_le_rnd: "rep c \<Longrightarrow> c \<le> x \<Longrightarrow> c \<le> rnd x"
  using rnd_mono [of c x] by (simp add: rnd_rep)

lemma rnd_less_repD: "rep c \<Longrightarrow> rnd x < c \<Longrightarrow> x < c"
  using rep_le_rnd [of c x] by linarith

lemma rep_less_rndD: "rep c \<Longrightarrow> c < rnd x \<Longrightarrow> c < x"
  using rnd_le_rep [of c x] by linarith

end

interpretation ctx: rounding ctx representable
  by unfold_locales (simp_all add: ctx_mono ctx_representable representable_ctx ctx_pos)

subsection \<open>The operators of the source\<close>

definition dadd :: "decimal \<Rightarrow> decimal \<Rightarrow> decimal" where
  "dadd a b = ctx (a + b)"

definition dsub :: "decimal \<Rightarrow> decimal \<Rightarrow> decimal" where
  "dsub a b = ctx (a - b)"

definition dmul :: "decimal \<Rightarrow> decimal \<Rightarrow> decimal" where
  "dmul a b = ctx (a * b)"

text \<open>Division; every division of the modelled code has a divisor its guards make nonzero.\<close>

definition ddiv :: "decimal \<Rightarrow> decimal \<Rightarrow> decimal" where
  "ddiv a b = ctx (a / b)"

definition dneg :: "decimal \<Rightarrow> decimal" where
  "dneg a = ctx (- a)"

definition dabs :: "decimal \<Rightarrow> decimal" where
  "dabs a = ctx \<bar>a\<bar>"

text \<open>\<open>sum(xs, Decimal("0"))\<close>: a left fold, one rounding per element.\<close>

definition dsum :: "decimal list \<Rightarrow> decimal" where
  "dsum xs = foldl dadd 0 xs"

definition quantize :: "nat \<Rightarrow> decimal \<Rightarrow> decimal" where
  "quantize d x = of_int (half_even (x * 10 ^ d)) / 10 ^ d"

definition quantize_down :: "nat \<Rightarrow> decimal \<Rightarrow> decimal" where
  "quantize_down d x = of_int (trunc_zero (x * 10 ^ d)) / 10 ^ d"

definition to_integral :: "decimal \<Rightarrow> decimal" where
  "to_integral x = of_int (half_even x)"

definition to_integral_down :: "decimal \<Rightarrow> decimal" where
  "to_integral_down x = of_int (trunc_zero x)"

lemmas dec_ops = dadd_def dsub_def dmul_def ddiv_def dneg_def dabs_def

lemma dadd_nonneg: "0 \<le> a \<Longrightarrow> 0 \<le> b \<Longrightarrow> 0 \<le> dadd a b"
  by (simp add: dadd_def ctx.rnd_nonneg)

lemma dadd_pos: "0 < a \<Longrightarrow> 0 \<le> b \<Longrightarrow> 0 < dadd a b"
  by (simp add: dadd_def ctx_pos)

lemma dsub_nonneg_iff [simp]: "0 \<le> dsub a b \<longleftrightarrow> b \<le> a"
  by (simp add: dsub_def ctx.rnd_nonneg_iff)

lemma dsub_pos_iff [simp]: "0 < dsub a b \<longleftrightarrow> b < a"
  by (simp add: dsub_def ctx.rnd_pos_iff)

lemma dsub_le_0_iff [simp]: "dsub a b \<le> 0 \<longleftrightarrow> a \<le> b"
  using dsub_pos_iff [of b a] by (simp add: linorder_not_less [symmetric])

lemma dsub_self [simp]: "dsub a a = 0"
  by (simp add: dsub_def)

lemma dmul_nonneg: "0 \<le> a \<Longrightarrow> 0 \<le> b \<Longrightarrow> 0 \<le> dmul a b"
  by (simp add: dmul_def ctx.rnd_nonneg)

lemma dmul_pos: "0 < a \<Longrightarrow> 0 < b \<Longrightarrow> 0 < dmul a b"
  by (simp add: dmul_def ctx_pos)

lemma dmul_0 [simp]: "dmul 0 b = 0" "dmul a 0 = 0"
  by (simp_all add: dmul_def)

lemma ddiv_nonneg: "0 \<le> a \<Longrightarrow> 0 \<le> b \<Longrightarrow> 0 \<le> ddiv a b"
  by (simp add: ddiv_def ctx.rnd_nonneg)

lemma ddiv_pos: "0 < a \<Longrightarrow> 0 < b \<Longrightarrow> 0 < ddiv a b"
  by (simp add: ddiv_def ctx_pos)

lemma dabs_nonneg [simp]: "0 \<le> dabs a"
  by (simp add: dabs_def ctx.rnd_nonneg)

lemma dec_ops_representable [simp]:
  "representable (dadd a b)" "representable (dsub a b)" "representable (dmul a b)"
  "representable (ddiv a b)" "representable (dneg a)" "representable (dabs a)"
  by (simp_all only: dec_ops representable_ctx)

lemma dsum_nonneg: "(\<And>x. x \<in> set xs \<Longrightarrow> 0 \<le> x) \<Longrightarrow> 0 \<le> dsum xs"
proof -
  have "0 \<le> s \<Longrightarrow> (\<And>x. x \<in> set xs \<Longrightarrow> 0 \<le> x) \<Longrightarrow> 0 \<le> foldl dadd s xs" for s
    by (induction xs arbitrary: s) (auto simp: dadd_nonneg)
  then show "(\<And>x. x \<in> set xs \<Longrightarrow> 0 \<le> x) \<Longrightarrow> 0 \<le> dsum xs" by (simp add: dsum_def)
qed

lemma quantize_nonneg: "0 \<le> x \<Longrightarrow> 0 \<le> quantize d x"
proof -
  assume "0 \<le> x"
  then have "half_even 0 \<le> half_even (x * 10 ^ d)" by (intro half_even_mono) simp
  then show ?thesis using half_even_of_int [of 0] by (simp add: quantize_def)
qed

lemma quantize_down_le: "0 \<le> x \<Longrightarrow> quantize_down d x \<le> x"
  using trunc_zero_le [of "x * 10 ^ d"] by (simp add: quantize_down_def field_simps)

lemma quantize_down_nonneg: "0 \<le> x \<Longrightarrow> 0 \<le> quantize_down d x"
  by (simp add: quantize_down_def trunc_zero_nonneg)

lemma quantize_down_mono: "x \<le> y \<Longrightarrow> quantize_down d x \<le> quantize_down d y"
  by (simp add: quantize_down_def divide_right_mono trunc_zero_mono)

lemma quantize_error: "\<bar>quantize d x - x\<bar> \<le> 1 / (2 * 10 ^ d)"
proof -
  have "\<bar>quantize d x - x\<bar> = \<bar>of_int (half_even (x * 10 ^ d)) - x * 10 ^ d\<bar> / 10 ^ d"
    by (simp add: quantize_def abs_divide [symmetric] field_simps)
  also have "\<dots> \<le> (1 / 2) / 10 ^ d"
    by (intro divide_right_mono half_even_error) simp
  finally show ?thesis by simp
qed

text \<open>The relative error of one rounding, in the two directions the bounds need.\<close>

lemma ctx_upper: "0 \<le> x \<Longrightarrow> ctx x \<le> x * (1 + 1 / 10 ^ 27)"
proof -
  assume x: "0 \<le> x"
  then have "ctx x \<le> x + x * (5 / 10 ^ 28)"
    using ctx_error [of x] abs_ge_self [of "ctx x - x"] by (simp only: abs_of_nonneg)
  also have "\<dots> \<le> x * (1 + 1 / 10 ^ 27)" using x by (simp add: algebra_simps)
  finally show ?thesis .
qed

lemma ctx_lower: "0 \<le> x \<Longrightarrow> x \<le> ctx x * (1 + 1 / 10 ^ 27)"
proof -
  assume x: "0 \<le> x"
  then have "x * (1 - 5 / 10 ^ 28) \<le> ctx x" using ctx_error [of x] by (simp add: algebra_simps abs_if split: if_splits)
  then have "x * (1 - 5 / 10 ^ 28) * (1 + 1 / 10 ^ 27) \<le> ctx x * (1 + 1 / 10 ^ 27)"
    by (rule mult_right_mono) simp
  moreover have "x * 1 \<le> x * ((1 - 5 / 10 ^ 28) * (1 + 1 / 10 ^ 27))"
    using x by (intro mult_left_mono) simp_all
  ultimately show ?thesis by (simp only: mult.assoc mult.right_neutral)
qed

lemma representable_quantize_down:
  assumes "representable x"
  shows "representable (quantize_down d x)"
proof -
  obtain k e where x: "x = of_int k / scale e" and k: "\<bar>k\<bar> < 10 ^ 28"
    using assms unfolding representable_def by blast
  show ?thesis
  proof (cases "e \<le> int d")
    case True
    have "scale (int d) = scale e * 10 ^ nat (int d - e)"
      using True scale_add [of e "int d - e"] by (simp add: scale_def power_int_def)
    then have "x * 10 ^ d = of_int (k * 10 ^ nat (int d - e))"
      by (simp add: x scale_of_nat)
    then have "quantize_down d x = x * 10 ^ d / 10 ^ d"
      unfolding quantize_down_def by (metis trunc_zero_of_int)
    with assms show ?thesis by simp
  next
    case False
    have "scale (int d) \<le> scale e" using False by (intro scale_mono) simp
    then have "\<bar>x\<bar> * 10 ^ d \<le> \<bar>x\<bar> * scale e" by (intro mult_left_mono) (simp_all add: scale_of_nat)
    also have "\<bar>x\<bar> * scale e = of_int \<bar>k\<bar>" by (simp add: x less_imp_le)
    finally have le: "\<bar>x * 10 ^ d\<bar> \<le> of_int \<bar>k\<bar>" by (simp add: abs_mult)
    have "\<bar>trunc_zero (x * 10 ^ d)\<bar> \<le> \<bar>k\<bar>" by (rule abs_trunc_zero_le [OF le])
    with k show ?thesis
      using representableI [of "trunc_zero (x * 10 ^ d)" "int d"] by (simp add: quantize_down_def scale_of_nat)
  qed
qed

subsection \<open>Numbers with at most \<open>d\<close> decimal places\<close>

definition on_grid :: "nat \<Rightarrow> rat \<Rightarrow> bool" where
  "on_grid d x \<longleftrightarrow> (\<exists>k. x = of_int k / 10 ^ d)"

lemma on_grid_quantize [simp]: "on_grid d (quantize d x)" "on_grid d (quantize_down d x)"
  by (auto simp: on_grid_def quantize_def quantize_down_def)

lemma on_grid_0 [simp]: "on_grid d 0"
  unfolding on_grid_def by (rule exI [of _ 0]) simp

lemma on_grid_add: "on_grid d x \<Longrightarrow> on_grid d y \<Longrightarrow> on_grid d (x + y)"
  unfolding on_grid_def by (metis add_divide_distrib of_int_add)

lemma on_grid_diff: "on_grid d x \<Longrightarrow> on_grid d y \<Longrightarrow> on_grid d (x - y)"
  unfolding on_grid_def by (metis diff_divide_distrib of_int_diff)

lemma on_grid_uminus: "on_grid d x \<Longrightarrow> on_grid d (- x)"
  using on_grid_diff [of d 0 x] by simp

lemma on_grid_mult: "on_grid d x \<Longrightarrow> on_grid e y \<Longrightarrow> on_grid (d + e) (x * y)"
proof -
  assume "on_grid d x" and "on_grid e y"
  then obtain k l where "x = of_int k / 10 ^ d" "y = of_int l / 10 ^ e"
    unfolding on_grid_def by blast
  then have "x * y = of_int (k * l) / 10 ^ (d + e)" by (simp add: power_add)
  then show ?thesis unfolding on_grid_def by blast
qed

lemma on_grid_weaken: "on_grid d x \<Longrightarrow> d \<le> e \<Longrightarrow> on_grid e x"
proof -
  assume "on_grid d x" and le: "d \<le> e"
  then obtain k where k: "x = of_int k / 10 ^ d" unfolding on_grid_def by blast
  have "(10::rat) ^ e = 10 ^ d * 10 ^ (e - d)" using le by (simp add: power_add [symmetric])
  with k have "x = of_int (k * 10 ^ (e - d)) / 10 ^ e" by simp
  then show ?thesis unfolding on_grid_def by blast
qed

lemma ctx_on_grid: "on_grid d x \<Longrightarrow> \<bar>x\<bar> * 10 ^ d < 10 ^ 28 \<Longrightarrow> ctx x = x"
proof -
  assume "on_grid d x" and b: "\<bar>x\<bar> * 10 ^ d < 10 ^ 28"
  then obtain k where k: "x = of_int k / 10 ^ d" unfolding on_grid_def by blast
  have "of_int \<bar>k\<bar> < (of_int (10 ^ 28) :: rat)" using b by (simp add: k)
  then have "\<bar>k\<bar> < 10 ^ 28" by (simp only: of_int_less_iff)
  then have "representable (of_int k / scale (int d))" by (rule representableI)
  then show ?thesis by (simp add: k scale_of_nat ctx_representable)
qed

text \<open>Evaluation on literals with at most 20 places and 8 digits before the point.\<close>

lemma ctx_numeral [simp]: "(numeral a :: int) < 10 ^ 28 \<Longrightarrow> ctx (numeral a) = numeral a"
  by (rule ctx_on_grid [of 0]) (auto simp: on_grid_def intro: exI [of _ "numeral a"])

lemma ctx_1 [simp]: "ctx 1 = 1"
  using ctx_numeral [of num.One] by simp

lemma ctx_int_fraction:
  fixes a b :: int
  assumes "b dvd 10 ^ d" and "\<bar>a * (10 ^ d div b)\<bar> < 10 ^ 28"
  shows "ctx (of_int a / of_int b) = of_int a / of_int b"
proof -
  obtain c where c: "10 ^ d = b * c" using assms(1) by blast
  then have nz: "b \<noteq> 0" "c \<noteq> 0" by auto
  have "(of_int (10 ^ d) :: rat) = of_int (b * c)" using c by (simp only:)
  then have r: "(10 ^ d :: rat) = of_int b * of_int c" by simp
  have x: "(of_int a / of_int b :: rat) = of_int (a * c) / 10 ^ d"
    unfolding r using nz by simp
  have "\<bar>a * c\<bar> < 10 ^ 28" using assms(2) nz by (simp add: c)
  then have "of_int \<bar>a * c\<bar> < (of_int (10 ^ 28) :: rat)" by (simp only: of_int_less_iff)
  then have "of_int \<bar>a * c\<bar> < (10 ^ 28 :: rat)" by (simp only: of_int_power of_int_numeral)
  moreover have "\<bar>of_int (a * c) / 10 ^ d\<bar> * 10 ^ d = (of_int \<bar>a * c\<bar> :: rat)" by simp
  ultimately show ?thesis unfolding x
    by (intro ctx_on_grid [of d]) (unfold on_grid_def, blast, simp only:)
qed

lemma ctx_fraction [simp]:
  "(10 ^ 20 :: int) mod numeral b = 0 \<Longrightarrow> numeral a * (10 ^ 20 div numeral b) < (10 ^ 28 :: int)
   \<Longrightarrow> ctx (numeral a / numeral b) = numeral a / numeral b"
proof -
  assume "(10 ^ 20 :: int) mod numeral b = 0"
  then have "(numeral b :: int) dvd 10 ^ 20" by (rule dvd_eq_mod_eq_0 [THEN iffD2])
  moreover assume "numeral a * (10 ^ 20 div numeral b) < (10 ^ 28 :: int)"
  moreover have "0 \<le> (numeral a * (10 ^ 20 div numeral b) :: int)"
    by (intro mult_nonneg_nonneg) (simp_all only: pos_imp_zdiv_nonneg_iff zero_le_numeral zero_less_numeral zero_le_power)
  ultimately show ?thesis using ctx_int_fraction [of "numeral b" 20 "numeral a"]
    by (simp only: of_int_numeral abs_of_nonneg)
qed

lemma ctx_unit_fraction [simp]:
  "(10 ^ 20 :: int) mod numeral b = 0 \<Longrightarrow> 10 ^ 20 div numeral b < (10 ^ 28 :: int)
   \<Longrightarrow> ctx (1 / numeral b) = 1 / numeral b"
  using ctx_fraction [of b num.One] by simp

end
