(* ===== verification/Domain.thy ===== *)
theory Domain
  imports Decimal_Arith
begin

text \<open>
  The domain models of \<open>app/models/domain\<close>: the enums and reason codes (\<open>enums.py\<close>), candles
  and symbol information (\<open>market.py\<close>), signals, orders, fills, positions, portfolio snapshots
  and risk evaluations (\<open>trading.py\<close>). A pydantic model is a record whose fields carry the
  model's initial as a prefix, an optional field an \<open>option\<close>. A model whose validators can
  reject its input has a constructor that returns the exception or the record
  (\<open>make_candle\<close>, \<open>make_signal\<close>).

  The free-form \<open>metadata\<close> of orders is a record of the keys the code reads or writes:
  \<open>None\<close> is an absent key, and a \<open>str(Decimal)\<close> stored there and read back with
  \<open>Decimal(str(...))\<close> is the decimal itself. Human-readable texts (the messages and the
  \<open>checks\<close> diagnostics of a risk evaluation, the rationale of a signal) are not modelled where
  no code reads them, and so are the other fields no modelled code reads (the price and validity
  texts of a signal, the fee asset of a fill, \<open>fees_paid\<close>, \<open>exposure\<close>, \<open>asset_balances\<close>
  and \<open>as_of\<close> of a portfolio snapshot).
\<close>

subsection \<open>Enums\<close>

datatype signal_direction = SigBuy | SigSell | SigHold | SigExit

primrec signal_direction_value :: "signal_direction \<Rightarrow> string" where
  "signal_direction_value SigBuy = ''buy''"
| "signal_direction_value SigSell = ''sell''"
| "signal_direction_value SigHold = ''hold''"
| "signal_direction_value SigExit = ''exit''"

datatype order_side = Buy | Sell

datatype order_type = Market | Limit | StopLoss | TakeProfit

datatype order_status =
    Created | RiskPending | Approved | Submitted | PartiallyFilled
  | Filled | Rejected | Cancelled | Expired | Failed

datatype risk_decision = RApproved | RRejected | RReduced | RHalted

datatype risk_reason =
    OK | KILL_SWITCH_ACTIVE | LIVE_TRADING_DISABLED | LIVE_GATING_INCOMPLETE | DATA_STALE
  | DUPLICATE_ORDER | INVALID_PRICE | INVALID_QUANTITY | MIN_ORDER_SIZE | PRECISION_INVALID
  | MAX_RISK_PER_TRADE | MAX_POSITION_EXPOSURE | MAX_PORTFOLIO_EXPOSURE | MAX_OPEN_POSITIONS
  | DAILY_LOSS_LIMIT_REACHED | MAX_DRAWDOWN_REACHED | MAX_CONSECUTIVE_LOSSES
  | MAX_ORDER_FREQUENCY | CIRCUIT_BREAKER_OPEN | RISK_ENGINE_UNHEALTHY
  | MARKET_DATA_UNHEALTHY | DATABASE_UNHEALTHY | RECONCILIATION_UNHEALTHY
  | INVALID_CREDENTIALS | INVALID_LIVE_APPROVAL | NEWS_EXTREME_UNCERTAINTY
  | SIZE_REDUCED_BY_NEWS | SIZE_REDUCED_BY_RISK | SYMBOL_NOT_ALLOWED
  | SHORT_SELLING_DISABLED | LEVERAGE_NOT_ALLOWED | UNSUPPORTED_SIDE | INSUFFICIENT_BALANCE
  | ORDER_COOLDOWN | STOP_LOSS_REQUIRED | MIN_REWARD_RISK | DAILY_TRADE_LIMIT

text \<open>The statuses after which the paper engine never fills, cancels or expires an order.\<close>

definition terminal_status :: "order_status \<Rightarrow> bool" where
  "terminal_status s \<longleftrightarrow> s \<in> {Filled, Rejected, Cancelled, Expired, Failed}"

subsection \<open>Market data\<close>

record candle =
  c_symbol :: string
  c_timeframe :: string
  c_open_time :: timestamp
  c_open :: decimal
  c_high :: decimal
  c_low :: decimal
  c_close :: decimal
  c_volume :: decimal
  c_close_time :: "timestamp option"
  c_quote_volume :: "decimal option"
  c_trade_count :: "int option"
  c_is_closed :: bool

text \<open>
  The validators of \<open>Candle\<close>, on fields that are already finite decimals: positive prices, then
  the order of low, open, close and high, then a volume that is not negative.
\<close>

definition ohlc_sane :: "candle \<Rightarrow> bool" where
  "ohlc_sane c \<longleftrightarrow>
     \<not> (c_low c > c_open c \<or> c_low c > c_close c)
   \<and> \<not> (c_high c < c_open c \<or> c_high c < c_close c)
   \<and> \<not> c_high c < c_low c
   \<and> \<not> c_volume c < 0"

definition make_candle :: "candle \<Rightarrow> py_error + candle" where
  "make_candle c =
     (if c_open c \<le> 0 \<or> c_high c \<le> 0 \<or> c_low c \<le> 0 \<or> c_close c \<le> 0
      then Inl (ValueError ''price must be > 0'')
      else if c_low c > c_open c \<or> c_low c > c_close c
      then Inl (ValueError ''low must be <= open and close'')
      else if c_high c < c_open c \<or> c_high c < c_close c
      then Inl (ValueError ''high must be >= open and close'')
      else if c_high c < c_low c then Inl (ValueError ''high must be >= low'')
      else if c_volume c < 0 then Inl (ValueError ''volume must be >= 0'')
      else Inr c)"

definition candle_ok :: "candle \<Rightarrow> bool" where
  "candle_ok c \<longleftrightarrow> 0 < c_low c \<and> ohlc_sane c"

lemma make_candle_ok: "make_candle c = Inr c' \<Longrightarrow> c' = c \<and> candle_ok c"
  by (auto simp: make_candle_def candle_ok_def ohlc_sane_def split: if_splits)

lemma candle_ok_bounds:
  assumes "candle_ok c"
  shows "0 < c_low c" "c_low c \<le> c_open c" "c_low c \<le> c_close c"
    "c_open c \<le> c_high c" "c_close c \<le> c_high c" "c_low c \<le> c_high c" "0 \<le> c_volume c"
    "0 < c_close c" "0 < c_open c" "0 < c_high c"
  using assms by (auto simp: candle_ok_def ohlc_sane_def)

lemma make_candle_iff: "(\<exists>c'. make_candle c = Inr c') \<longleftrightarrow> candle_ok c"
  by (auto simp: make_candle_def candle_ok_def ohlc_sane_def)

record symbol_info =
  si_symbol :: string
  si_base :: string
  si_quote :: string
  si_price_precision :: nat
  si_quantity_precision :: nat
  si_min_quantity :: decimal
  si_min_notional :: decimal
  si_tick_size :: decimal
  si_step_size :: decimal
  si_active :: bool

subsection \<open>Signals, orders, fills and positions\<close>

text \<open>
  The \<open>input_data_fingerprint\<close> of a signal (\<open>Strategy.fingerprint\<close>), kept as the values its text
  is made of: symbol, time frame, open time and close of the last candle and the number of
  candles. The parameters, its last part, are the same for every signal of a configured strategy.
\<close>

datatype fingerprint = FpEmpty | FpOf string string timestamp decimal nat

definition strategy_fingerprint :: "candle list \<Rightarrow> fingerprint" where
  "strategy_fingerprint candles =
     (if candles = [] then FpEmpty
      else let last_candle = last candles in
        FpOf (c_symbol last_candle) (c_timeframe last_candle) (c_open_time last_candle)
          (c_close last_candle) (length candles))"

record trade_signal =
  sg_strategy_name :: string
  sg_strategy_version :: string
  sg_symbol :: string
  sg_timestamp :: timestamp
  sg_direction :: signal_direction
  sg_confidence :: decimal
  sg_rationale :: string
  sg_suggested_stop :: "decimal option"
  sg_suggested_target :: "decimal option"
  sg_suggested_entry :: "decimal option"
  sg_fingerprint :: fingerprint

text \<open>The \<open>ge=0, le=1\<close> bounds of the \<open>confidence\<close> field.\<close>

definition make_signal :: "trade_signal \<Rightarrow> py_error + trade_signal" where
  "make_signal s =
     (if 0 \<le> sg_confidence s \<and> sg_confidence s \<le> 1 then Inr s
      else Inl (ValueError ''confidence''))"

record order_meta =
  m_reservation_open :: bool
  m_reserved_notional :: "decimal option"
  m_reserved_remaining :: "decimal option"
  m_error :: "string option"
  m_exit_pair_id :: "string option"
  m_safety_code :: "string option"
  m_safety_reason :: "string option"

definition empty_meta :: order_meta where
  "empty_meta = \<lparr>m_reservation_open = False, m_reserved_notional = None,
     m_reserved_remaining = None, m_error = None, m_exit_pair_id = None,
     m_safety_code = None, m_safety_reason = None\<rparr>"

record order_request =
  rq_symbol :: string
  rq_side :: order_side
  rq_order_type :: order_type
  rq_quantity :: decimal
  rq_price :: "decimal option"
  rq_stop_loss :: "decimal option"
  rq_take_profit :: "decimal option"
  rq_strategy_name :: "string option"
  rq_signal_id :: "string option"
  rq_idempotency_key :: string
  rq_client_order_id :: "string option"
  rq_reduce_only :: bool
  rq_metadata :: order_meta

record risk_evaluation =
  ev_decision :: risk_decision
  ev_reason_code :: risk_reason
  ev_approved_quantity :: "decimal option"

record order =
  o_id :: string
  o_client_order_id :: string
  o_idempotency_key :: string
  o_symbol :: string
  o_side :: order_side
  o_order_type :: order_type
  o_quantity :: decimal
  o_filled_quantity :: decimal
  o_price :: "decimal option"
  o_average_fill_price :: "decimal option"
  o_status :: order_status
  o_strategy_name :: "string option"
  o_signal_id :: "string option"
  o_risk_decision :: "risk_decision option"
  o_risk_reason_code :: "risk_reason option"
  o_created_at :: timestamp
  o_updated_at :: timestamp
  o_fees :: decimal
  o_metadata :: order_meta

record fill =
  f_id :: string
  f_order_id :: string
  f_symbol :: string
  f_side :: order_side
  f_quantity :: decimal
  f_price :: decimal
  f_fee :: decimal
  f_timestamp :: timestamp

record position =
  p_symbol :: string
  p_quantity :: decimal
  p_entry_price :: decimal
  p_current_price :: decimal
  p_unrealized_pnl :: decimal
  p_realized_pnl :: decimal
  p_opened_at :: timestamp
  p_strategy_name :: "string option"
  p_stop_loss :: "decimal option"
  p_take_profit :: "decimal option"

record portfolio_state =
  pf_cash_balance :: decimal
  pf_equity :: decimal
  pf_realized_pnl :: decimal
  pf_unrealized_pnl :: decimal
  pf_daily_pnl :: decimal
  pf_peak_equity :: decimal
  pf_drawdown :: decimal
  pf_open_positions :: "position list"
  pf_consecutive_losses :: nat

text \<open>
  Python's \<open>or\<close> on optional decimals: the first operand when it is neither \<open>None\<close> nor zero,
  else the second.
\<close>

definition truthy_or :: "decimal option \<Rightarrow> decimal option \<Rightarrow> decimal option" where
  "truthy_or a b = (case a of Some x \<Rightarrow> if x \<noteq> 0 then a else b | None \<Rightarrow> b)"

text \<open>The same with a fallback that is always a number, as in \<open>approved_quantity or quantity\<close>.\<close>

definition or_else :: "decimal option \<Rightarrow> decimal \<Rightarrow> decimal" where
  "or_else a b = (case a of Some x \<Rightarrow> if x \<noteq> 0 then x else b | None \<Rightarrow> b)"

end
