(* ===== verification/Config_Safety.thy ===== *)
theory Config_Safety
  imports Domain
begin

text \<open>
  Settings and the guards that keep the program on paper: the validators and the derived
  properties of \<open>Settings\<close> (\<open>app/core/config.py\<close>), the runtime-mode resolution
  (\<open>app/core/runtime_mode.py\<close>), the safety guard (\<open>app/core/safety.py\<close>), the live trading
  gate (\<open>app/execution/live_gate.py\<close>) and the leverage primitives
  (\<open>app/execution/futures.py\<close>).

  Text settings are ASCII strings; \<open>py_lower\<close>, \<open>py_upper\<close> and \<open>py_strip\<close> are Python's
  methods on those. The settings the modelled code never reads (host, port, URLs, log level,
  alert hooks) are left out of the record, as is the decoding of the environment itself.
\<close>

subsection \<open>String methods\<close>

definition lower_char :: "char \<Rightarrow> char" where
  "lower_char c = (let n = of_char c :: nat in
     if 65 \<le> n \<and> n \<le> 90 then char_of (n + 32) else c)"

definition upper_char :: "char \<Rightarrow> char" where
  "upper_char c = (let n = of_char c :: nat in
     if 97 \<le> n \<and> n \<le> 122 then char_of (n - 32) else c)"

definition is_space :: "char \<Rightarrow> bool" where
  "is_space c \<longleftrightarrow> (let n = of_char c :: nat in n = 32 \<or> (9 \<le> n \<and> n \<le> 13) \<or> (28 \<le> n \<and> n \<le> 31))"

definition py_lower :: "string \<Rightarrow> string" where
  "py_lower s = map lower_char s"

definition py_upper :: "string \<Rightarrow> string" where
  "py_upper s = map upper_char s"

definition py_strip :: "string \<Rightarrow> string" where
  "py_strip s = rev (dropWhile is_space (rev (dropWhile is_space s)))"

subsection \<open>The settings\<close>

record settings =
  st_trading_mode :: string
  st_live_trading_enabled :: bool
  st_trading_enabled :: bool
  st_kill_switch_enabled :: bool
  st_exchange_env :: string
  st_live_startup_ack :: string
  st_atlas_runtime_mode :: "string option"
  st_exchange_api_key :: "string option"
  st_exchange_api_secret :: "string option"
  st_market_data_stale_seconds :: int
  st_order_cooldown_seconds :: int
  st_enable_trading_scheduler :: bool
  st_paper_cycle_interval_seconds :: int
  st_enable_reconciliation :: bool
  st_scheduler_failure_threshold :: int
  st_cycle_lock_ttl_seconds :: int
  st_cycle_lock_fail_closed :: bool
  st_paper_starting_balance :: decimal
  st_paper_fee_bps :: decimal
  st_paper_slippage_bps :: decimal
  st_max_risk_per_trade :: decimal
  st_max_position_exposure :: decimal
  st_max_portfolio_exposure :: decimal
  st_max_open_positions :: int
  st_max_daily_loss :: decimal
  st_max_drawdown :: decimal
  st_max_consecutive_losses :: int
  st_max_orders_per_minute :: int
  st_min_order_notional :: decimal
  st_default_leverage :: decimal
  st_supported_symbols :: "string list"
  st_supported_timeframes :: "string list"
  st_default_symbol :: string
  st_default_timeframe :: string
  st_fast_ema_period :: int
  st_slow_ema_period :: int
  st_rsi_period :: int
  st_stop_loss_percent :: decimal
  st_take_profit_percent :: decimal

text \<open>The defaults of the fields.\<close>

definition default_settings :: settings where
  "default_settings = \<lparr>
     st_trading_mode = ''paper'', st_live_trading_enabled = False, st_trading_enabled = False,
     st_kill_switch_enabled = False, st_exchange_env = ''paper'', st_live_startup_ack = '''',
     st_atlas_runtime_mode = None, st_exchange_api_key = None, st_exchange_api_secret = None,
     st_market_data_stale_seconds = 30, st_order_cooldown_seconds = 0,
     st_enable_trading_scheduler = False, st_paper_cycle_interval_seconds = 60,
     st_enable_reconciliation = True, st_scheduler_failure_threshold = 5,
     st_cycle_lock_ttl_seconds = 120, st_cycle_lock_fail_closed = True,
     st_paper_starting_balance = 10000, st_paper_fee_bps = 10, st_paper_slippage_bps = 5,
     st_max_risk_per_trade = 1 / 100, st_max_position_exposure = 1 / 5,
     st_max_portfolio_exposure = 4 / 5, st_max_open_positions = 3, st_max_daily_loss = 3 / 100,
     st_max_drawdown = 1 / 10, st_max_consecutive_losses = 5, st_max_orders_per_minute = 10,
     st_min_order_notional = 10, st_default_leverage = 1,
     st_supported_symbols = [''BTC/USDT''],
     st_supported_timeframes = [''1m'', ''5m'', ''15m'', ''1h'', ''4h''],
     st_default_symbol = ''BTC/USDT'', st_default_timeframe = ''5m'',
     st_fast_ema_period = 9, st_slow_ema_period = 21, st_rsi_period = 14,
     st_stop_loss_percent = 1, st_take_profit_percent = 2\<rparr>"

definition bps_to_rate :: "decimal \<Rightarrow> decimal" where
  "bps_to_rate bps = ddiv bps 10000"

definition paper_fee_rate :: "settings \<Rightarrow> decimal" where
  "paper_fee_rate st = bps_to_rate (st_paper_fee_bps st)"

definition paper_slippage_rate :: "settings \<Rightarrow> decimal" where
  "paper_slippage_rate st = bps_to_rate (st_paper_slippage_bps st)"

definition has_exchange_credentials :: "settings \<Rightarrow> bool" where
  "has_exchange_credentials st =
     (let key = (case st_exchange_api_key st of None \<Rightarrow> '''' | Some k \<Rightarrow> k);
          secret = (case st_exchange_api_secret st of None \<Rightarrow> '''' | Some k \<Rightarrow> k)
      in py_strip key \<noteq> [] \<and> py_strip secret \<noteq> [])"

subsection \<open>The field validators\<close>

definition normalize_trading_mode :: "string option \<Rightarrow> string" where
  "normalize_trading_mode value =
     (case value of
        None \<Rightarrow> ''paper''
      | Some v \<Rightarrow>
          if py_strip v = [] then ''paper''
          else let normalized = py_strip (py_lower v) in
            if normalized \<notin> {''paper'', ''live''} then ''paper'' else normalized)"

definition normalize_exchange_env :: "string option \<Rightarrow> string" where
  "normalize_exchange_env value =
     (case value of
        None \<Rightarrow> ''paper''
      | Some v \<Rightarrow>
          if py_strip v = [] then ''paper''
          else let raw = py_strip (py_lower v) in
            if raw \<in> {''true'', ''1'', ''yes''} then ''testnet''
            else if raw \<in> {''false'', ''0'', ''no''} then ''paper''
            else if raw \<notin> {''paper'', ''testnet'', ''live'', ''backtest''} then ''paper''
            else raw)"

definition normalize_runtime_mode_field :: "string option \<Rightarrow> string option" where
  "normalize_runtime_mode_field value =
     (case value of
        None \<Rightarrow> None
      | Some v \<Rightarrow> if py_strip v = [] then None else Some (py_upper (py_strip v)))"

definition normalize_percent_or_fraction :: "decimal \<Rightarrow> py_error + decimal" where
  "normalize_percent_or_fraction value =
     (if value < 0 then Inl (ValueError ''risk percentages must be non-negative'')
      else if value > 100 then Inl (ValueError ''risk percentage out of range'')
      else if value \<ge> 1 then Inr (ddiv value 100)
      else Inr value)"

text \<open>\<open>dict.fromkeys\<close> on a list: the first occurrence of each element, in order.\<close>

definition dedup :: "'a list \<Rightarrow> 'a list" where
  "dedup xs = rev (remdups (rev xs))"

definition validate_paper_invariants :: "settings \<Rightarrow> py_error + settings" where
  "validate_paper_invariants st =
     (if st_paper_starting_balance st \<le> 0
      then Inl (ConfigurationError ''PAPER_STARTING_BALANCE must be > 0'')
      else if st_paper_fee_bps st < 0 \<or> st_paper_slippage_bps st < 0
      then Inl (ConfigurationError ''PAPER fee/slippage bps must be >= 0'')
      else if st_default_leverage st \<noteq> 1
      then Inl (ConfigurationError ''default_leverage must be 1'')
      else if st_fast_ema_period st \<ge> st_slow_ema_period st
      then Inl (ConfigurationError ''FAST_EMA_PERIOD must be < SLOW_EMA_PERIOD'')
      else if st_stop_loss_percent st \<le> 0 \<or> st_take_profit_percent st \<le> 0
      then Inl (ConfigurationError ''STOP_LOSS_PERCENT and TAKE_PROFIT_PERCENT must be > 0'')
      else
        let st' = (if st_default_symbol st \<noteq> [] \<and> st_default_symbol st \<notin> set (st_supported_symbols st)
                   then st\<lparr>st_supported_symbols := dedup (st_supported_symbols st @ [st_default_symbol st])\<rparr>
                   else st)
        in if st_default_timeframe st' \<notin> set (st_supported_timeframes st')
           then Inl (ConfigurationError ''DEFAULT_TIMEFRAME not in supported timeframes'')
           else Inr st')"

subsection \<open>Runtime modes\<close>

datatype runtime_mode = MBacktest | MPaper | MTestnet | MLive

definition normalize_runtime_mode :: "string option \<Rightarrow> runtime_mode" where
  "normalize_runtime_mode raw =
     (case raw of
        None \<Rightarrow> MPaper
      | Some r \<Rightarrow>
          if py_strip r = [] then MPaper
          else let value = py_upper (py_strip r) in
            if value = ''BACKTEST'' then MBacktest
            else if value = ''PAPER'' then MPaper
            else if value = ''TESTNET'' then MTestnet
            else if value = ''LIVE'' then MLive
            else MPaper)"

definition derive_runtime_mode :: "string option \<Rightarrow> string \<Rightarrow> string \<Rightarrow> runtime_mode" where
  "derive_runtime_mode explicit trading_mode exchange_env =
     (if explicit \<noteq> None \<and> py_strip (the explicit) \<noteq> [] then normalize_runtime_mode explicit
      else
        let tm = py_strip (py_lower (if trading_mode = [] then ''paper'' else trading_mode));
            ee = py_strip (py_lower (if exchange_env = [] then ''paper'' else exchange_env))
        in if tm = ''live'' then MLive
           else if ee = ''testnet'' then MTestnet
           else if ee = ''backtest'' \<or> tm = ''backtest'' then MBacktest
           else MPaper)"

definition allows_simulated_orders :: "runtime_mode \<Rightarrow> bool" where
  "allows_simulated_orders m \<longleftrightarrow> m \<in> {MBacktest, MPaper, MTestnet}"

definition allows_live_orders :: "runtime_mode \<Rightarrow> bool" where
  "allows_live_orders m \<longleftrightarrow> m = MLive"

definition settings_runtime_mode :: "settings \<Rightarrow> runtime_mode" where
  "settings_runtime_mode st =
     derive_runtime_mode (st_atlas_runtime_mode st) (st_trading_mode st) (st_exchange_env st)"

subsection \<open>The safety guard\<close>

definition assert_paper_only :: "settings \<Rightarrow> py_error + unit" where
  "assert_paper_only st =
     (if st_trading_mode st \<noteq> ''paper'' then Inl LiveTradingDisabledError
      else if st_live_trading_enabled st then Inl LiveTradingDisabledError
      else if settings_runtime_mode st = MLive then Inl LiveTradingDisabledError
      else Inr ())"

definition assert_startup_safe :: "settings \<Rightarrow> py_error + unit" where
  "assert_startup_safe st =
     (case assert_paper_only st of
        Inl e \<Rightarrow> Inl e
      | Inr _ \<Rightarrow>
          if settings_runtime_mode st = MLive \<or> st_exchange_env st = ''live''
          then Inl LiveTradingDisabledError
          else if st_trading_mode st = ''live'' then Inl LiveTradingDisabledError
          else Inr ())"

record safety_decision =
  sd_allowed :: bool
  sd_reason :: string
  sd_code :: string

definition check_order_intent ::
  "settings \<Rightarrow> string \<Rightarrow> decimal \<Rightarrow> string \<Rightarrow> py_error + safety_decision" where
  "check_order_intent st market_type leverage action =
     (case assert_paper_only st of
        Inl e \<Rightarrow> Inl e
      | Inr _ \<Rightarrow>
          let market = py_strip (py_lower (if market_type = [] then ''spot'' else market_type)) in
          if market \<in> {''future'', ''futures'', ''swap'', ''perpetual'', ''perp''}
          then Inr \<lparr>sd_allowed = False,
                    sd_reason = ''Futures trading is disabled in the paper MVP'',
                    sd_code = ''FUTURES_BLOCKED''\<rparr>
          else if py_strip (py_lower action) \<in> {''withdraw'', ''withdrawal'', ''transfer_out''}
          then Inr \<lparr>sd_allowed = False, sd_reason = ''Withdrawals are disabled'',
                    sd_code = ''WITHDRAWALS_BLOCKED''\<rparr>
          else if leverage \<noteq> 1
          then Inr \<lparr>sd_allowed = False,
                    sd_reason = ''Leverage must be 1x; leveraged trading is disabled'',
                    sd_code = ''LEVERAGE_BLOCKED''\<rparr>
          else Inr \<lparr>sd_allowed = True, sd_reason = ''paper spot order permitted'',
                    sd_code = ''OK''\<rparr>)"

subsection \<open>The live trading gate\<close>

datatype live_condition =
    TradingModeLive | LiveTradingEnabled | LiveStartupAck | KillSwitchOff | ValidCredentials
  | RiskEngineHealthy | MarketDataHealthy | DatabaseHealthy | ReconciliationHealthy
  | ValidLiveApprovalToken

record readiness =
  rd_risk_engine_healthy :: bool
  rd_market_data_healthy :: bool
  rd_database_healthy :: bool
  rd_reconciliation_healthy :: bool
  rd_live_approval_valid :: bool

record live_gate_result =
  lg_allowed :: bool
  lg_failed :: "live_condition list"
  lg_reason :: "risk_reason option"
  lg_checklist_complete :: bool

fun reason_for :: "live_condition \<Rightarrow> risk_reason" where
  "reason_for TradingModeLive = LIVE_GATING_INCOMPLETE"
| "reason_for LiveTradingEnabled = LIVE_TRADING_DISABLED"
| "reason_for LiveStartupAck = LIVE_GATING_INCOMPLETE"
| "reason_for KillSwitchOff = KILL_SWITCH_ACTIVE"
| "reason_for ValidCredentials = INVALID_CREDENTIALS"
| "reason_for RiskEngineHealthy = RISK_ENGINE_UNHEALTHY"
| "reason_for MarketDataHealthy = MARKET_DATA_UNHEALTHY"
| "reason_for DatabaseHealthy = DATABASE_UNHEALTHY"
| "reason_for ReconciliationHealthy = RECONCILIATION_UNHEALTHY"
| "reason_for ValidLiveApprovalToken = INVALID_LIVE_APPROVAL"

definition live_checks :: "settings \<Rightarrow> readiness \<Rightarrow> (live_condition \<times> bool) list" where
  "live_checks st rd =
     [(TradingModeLive, st_trading_mode st = ''live''),
      (LiveTradingEnabled, st_live_trading_enabled st),
      (LiveStartupAck, py_strip (st_live_startup_ack st) = ''I_UNDERSTAND_LIVE_TRADING_RISKS''),
      (KillSwitchOff, \<not> st_kill_switch_enabled st),
      (ValidCredentials, has_exchange_credentials st),
      (RiskEngineHealthy, rd_risk_engine_healthy rd),
      (MarketDataHealthy, rd_market_data_healthy rd),
      (DatabaseHealthy, rd_database_healthy rd),
      (ReconciliationHealthy, rd_reconciliation_healthy rd),
      (ValidLiveApprovalToken, rd_live_approval_valid rd)]"

definition live_gate_evaluate :: "settings \<Rightarrow> readiness \<Rightarrow> live_gate_result" where
  "live_gate_evaluate st rd =
     (let failed = [name. (name, ok) \<leftarrow> live_checks st rd, \<not> ok] in
      case failed of
        f # _ \<Rightarrow> \<lparr>lg_allowed = False, lg_failed = failed, lg_reason = Some (reason_for f),
                 lg_checklist_complete = False\<rparr>
      | [] \<Rightarrow> \<lparr>lg_allowed = False, lg_failed = [], lg_reason = Some LIVE_TRADING_DISABLED,
                lg_checklist_complete = True\<rparr>)"

subsection \<open>Leverage primitives\<close>

definition liquidation_price_long :: "decimal \<Rightarrow> decimal \<Rightarrow> decimal \<Rightarrow> py_error + decimal" where
  "liquidation_price_long entry leverage maintenance_rate =
     (if leverage \<le> 0 then Inl (ValueError ''leverage must be > 0'')
      else Inr (dmul entry (dadd (dsub 1 (ddiv 1 leverage)) maintenance_rate)))"

record leverage_check =
  lc_ok :: bool
  lc_leverage :: decimal
  lc_liquidation_price :: "decimal option"

definition validate_leverage ::
  "settings \<Rightarrow> decimal \<Rightarrow> decimal \<Rightarrow> decimal option \<Rightarrow> decimal \<Rightarrow> decimal \<Rightarrow> py_error + leverage_check"
where
  "validate_leverage st requested entry max_leverage maintenance_rate min_distance =
     (let cap = (case max_leverage of Some m \<Rightarrow> m | None \<Rightarrow> st_default_leverage st) in
      if requested > cap
      then Inr \<lparr>lc_ok = False, lc_leverage = requested, lc_liquidation_price = None\<rparr>
      else if requested < 1
      then Inr \<lparr>lc_ok = False, lc_leverage = requested, lc_liquidation_price = None\<rparr>
      else case liquidation_price_long entry requested maintenance_rate of
        Inl e \<Rightarrow> Inl e
      | Inr liq \<Rightarrow>
          let distance = (if entry > 0 then ddiv (dsub entry liq) entry else 0) in
          if distance < min_distance
          then Inr \<lparr>lc_ok = False, lc_leverage = requested, lc_liquidation_price = Some liq\<rparr>
          else Inr \<lparr>lc_ok = True, lc_leverage = requested, lc_liquidation_price = Some liq\<rparr>)"

definition funding_fee :: "decimal \<Rightarrow> decimal \<Rightarrow> decimal" where
  "funding_fee notional funding_rate = dmul notional funding_rate"

end
