(* ===== verification/Config_Properties.thy ===== *)
theory Config_Properties
  imports Config_Safety
begin

text \<open>
  What keeps the program on paper: the start-up check and the order-intent guard as exact
  conditions, the live gate that never opens, the settings validators, and the resolution of the
  runtime mode.
\<close>

lemma paper_only_iff:
  "assert_paper_only st = Inr () \<longleftrightarrow>
     st_trading_mode st = ''paper'' \<and> \<not> st_live_trading_enabled st \<and> settings_runtime_mode st \<noteq> MLive"
  by (simp add: assert_paper_only_def)

lemma paper_only_cases: "assert_paper_only st = Inl LiveTradingDisabledError \<or> assert_paper_only st = Inr ()"
  by (simp add: assert_paper_only_def)

text \<open>
  Start-up is safe exactly when everything says paper: the check passes if and only if the
  trading mode is \<open>paper\<close>, live trading is not enabled, the resolved runtime mode is not LIVE
  and the exchange environment is not \<open>live\<close>; otherwise it raises the one live-trading error.
\<close>

lemma startup_safe_iff:
  "(assert_startup_safe st = Inr () \<longleftrightarrow>
      st_trading_mode st = ''paper'' \<and> \<not> st_live_trading_enabled st
      \<and> settings_runtime_mode st \<noteq> MLive \<and> st_exchange_env st \<noteq> ''live'')
   \<and> (assert_startup_safe st \<noteq> Inr () \<longrightarrow> assert_startup_safe st = Inl LiveTradingDisabledError)"
  by (simp add: assert_startup_safe_def assert_paper_only_def)

lemma startup_safe_iff_witness:
  "assert_startup_safe default_settings = Inr ()
   \<and> assert_startup_safe (default_settings\<lparr>st_live_trading_enabled := True\<rparr>) = Inl LiveTradingDisabledError"
proof -
  have "settings_runtime_mode default_settings \<noteq> MLive"
    by (simp add: settings_runtime_mode_def derive_runtime_mode_def default_settings_def
        py_lower_def py_strip_def lower_char_def is_space_def Let_def)
  then show ?thesis
    using startup_safe_iff [of default_settings]
      startup_safe_iff [of "default_settings\<lparr>st_live_trading_enabled := True\<rparr>"]
    by (simp add: default_settings_def)
qed

text \<open>
  An order intent is permitted exactly for an unlevered spot order that is not a withdrawal,
  on a paper-only configuration.
\<close>

lemma order_intent_allowed_iff:
  "(\<exists>d. check_order_intent st market leverage action = Inr d \<and> sd_allowed d) \<longleftrightarrow>
     st_trading_mode st = ''paper'' \<and> \<not> st_live_trading_enabled st \<and> settings_runtime_mode st \<noteq> MLive
   \<and> py_strip (py_lower (if market = [] then ''spot'' else market))
       \<notin> {''future'', ''futures'', ''swap'', ''perpetual'', ''perp''}
   \<and> py_strip (py_lower action) \<notin> {''withdraw'', ''withdrawal'', ''transfer_out''}
   \<and> leverage = 1"
proof -
  define m where "m = py_strip (py_lower (if market = [] then ''spot'' else market))"
  define a where "a = py_strip (py_lower action)"
  show ?thesis
    using paper_only_cases [of st] paper_only_iff [of st]
    unfolding check_order_intent_def Let_def m_def [symmetric] a_def [symmetric]
    by (auto split: if_splits)
qed

text \<open>
  The live gate never opens. Its failed conditions are exactly those that do not hold, in
  the order of the checklist; the checklist is complete exactly when all ten hold; and the reason
  is that of the first failed condition, or that live trading is disabled when none failed.
\<close>

lemma live_gate_never_allows:
  "\<not> lg_allowed (live_gate_evaluate st rd)
   \<and> lg_failed (live_gate_evaluate st rd) = map fst (filter (\<lambda>(_, ok). \<not> ok) (live_checks st rd))
   \<and> (lg_checklist_complete (live_gate_evaluate st rd) \<longleftrightarrow> (\<forall>(_, ok) \<in> set (live_checks st rd). ok))
   \<and> lg_reason (live_gate_evaluate st rd)
       = Some (case lg_failed (live_gate_evaluate st rd) of [] \<Rightarrow> LIVE_TRADING_DISABLED | c # _ \<Rightarrow> reason_for c)"
proof -
  have failed: "[name. (name, ok) \<leftarrow> cs, \<not> ok] = map fst (filter (\<lambda>(_, ok). \<not> ok) cs)"
    for cs :: "(live_condition \<times> bool) list"
    by (induction cs) auto
  have empty: "filter (\<lambda>(_, ok). \<not> ok) cs = [] \<longleftrightarrow> (\<forall>(_, ok) \<in> set cs. ok)"
    for cs :: "(live_condition \<times> bool) list"
    by (auto simp: filter_empty_conv)
  show ?thesis
    unfolding live_gate_evaluate_def Let_def failed
    using empty [of "live_checks st rd"] by (auto split: list.split)
qed

lemma live_gate_never_allows_witness:
  "\<not> lg_allowed (live_gate_evaluate default_settings
      \<lparr>rd_risk_engine_healthy = True, rd_market_data_healthy = True, rd_database_healthy = True,
       rd_reconciliation_healthy = True, rd_live_approval_valid = True\<rparr>)"
  using live_gate_never_allows by blast

lemma set_dedup [simp]: "set (dedup xs) = set xs"
  by (simp add: dedup_def)

text \<open>
  What a validated configuration satisfies: a positive starting balance, fees and slippage
  that are not negative, leverage one, a fast EMA shorter than the slow one, positive stop and
  target percentages, the default timeframe supported, and the default symbol on the allowlist,
  which only ever grows by that symbol; validating it again changes nothing.
\<close>

lemma validated_settings:
  assumes "validate_paper_invariants st = Inr st'"
  shows "0 < st_paper_starting_balance st' \<and> 0 \<le> st_paper_fee_bps st' \<and> 0 \<le> st_paper_slippage_bps st'
    \<and> st_default_leverage st' = 1 \<and> st_fast_ema_period st' < st_slow_ema_period st'
    \<and> 0 < st_stop_loss_percent st' \<and> 0 < st_take_profit_percent st'
    \<and> st_default_timeframe st' \<in> set (st_supported_timeframes st')
    \<and> (st_default_symbol st' \<noteq> [] \<longrightarrow> st_default_symbol st' \<in> set (st_supported_symbols st'))
    \<and> set (st_supported_symbols st) \<subseteq> set (st_supported_symbols st')
    \<and> set (st_supported_symbols st') \<subseteq> insert (st_default_symbol st) (set (st_supported_symbols st))
    \<and> validate_paper_invariants st' = Inr st'"
  using assms by (auto simp: validate_paper_invariants_def Let_def not_le not_less split: if_splits)

lemma validated_settings_witness:
  "\<exists>st'. validate_paper_invariants (default_settings\<lparr>st_default_symbol := ''ETH/USDT''\<rparr>) = Inr st'
     \<and> ''ETH/USDT'' \<in> set (st_supported_symbols st')"
proof -
  let ?st = "default_settings\<lparr>st_default_symbol := ''ETH/USDT''\<rparr>"
  obtain st' where v: "validate_paper_invariants ?st = Inr st'" "st_default_symbol st' = ''ETH/USDT''"
    by (simp add: validate_paper_invariants_def default_settings_def)
  from validated_settings [OF v(1)] v show ?thesis by auto
qed

text \<open>
  A risk percentage that is accepted becomes a fraction between zero and one. Values below
  one are taken as fractions and values from one on as whole percents, so the reading is not
  monotone: half a percent written \<open>0.5\<close> becomes a larger limit than \<open>1\<close>.
\<close>

lemma percent_normalized:
  assumes "normalize_percent_or_fraction v = Inr r"
  shows "0 \<le> r \<and> r \<le> 1 \<and> 0 \<le> v \<and> v \<le> 100
    \<and> (v < 1 \<longrightarrow> r = v) \<and> (1 \<le> v \<longrightarrow> r = ddiv v 100)
    \<and> normalize_percent_or_fraction (1 / 2) = Inr (1 / 2)
    \<and> normalize_percent_or_fraction 1 = Inr (1 / 100)"
proof -
  have "ddiv v 100 \<le> 1" if "v \<le> 100"
  proof -
    have "ddiv v 100 \<le> ctx 1" unfolding ddiv_def using that by (intro ctx_mono) simp
    then show ?thesis by simp
  qed
  moreover have "0 \<le> ddiv v 100" if "0 \<le> v" using that by (intro ddiv_nonneg) simp_all
  moreover have "ddiv 1 100 = 1 / 100" by (simp add: ddiv_def)
  ultimately show ?thesis
    using assms by (auto simp: normalize_percent_or_fraction_def split: if_splits)
qed

lemma percent_normalized_witness:
  "normalize_percent_or_fraction 20 = Inr (1 / 5) \<and> (1 / 5 :: rat) \<le> 1"
proof -
  have e: "normalize_percent_or_fraction 20 = Inr (1 / 5)"
    by (simp add: normalize_percent_or_fraction_def ddiv_def)
  from percent_normalized [OF e] e show ?thesis by simp
qed

text \<open>
  An explicit runtime mode that is not one of the four names means PAPER, whatever the
  trading mode and the exchange environment say; they are consulted only when the explicit mode
  is missing or blank. The resolved mode is LIVE only when the explicit mode is, or there is none
  and the trading mode is.
\<close>

lemma runtime_mode_resolution:
  "(explicit = Some raw \<and> py_strip raw \<noteq> []
      \<and> py_upper (py_strip raw) \<notin> {''BACKTEST'', ''PAPER'', ''TESTNET'', ''LIVE''} \<longrightarrow>
      derive_runtime_mode explicit tm ee = MPaper)
   \<and> (derive_runtime_mode explicit tm ee = MLive \<longleftrightarrow>
        (case explicit of
           Some r \<Rightarrow> if py_strip r \<noteq> [] then py_upper (py_strip r) = ''LIVE''
                     else py_strip (py_lower (if tm = [] then ''paper'' else tm)) = ''live''
         | None \<Rightarrow> py_strip (py_lower (if tm = [] then ''paper'' else tm)) = ''live''))"
  by (auto simp: derive_runtime_mode_def normalize_runtime_mode_def Let_def split: option.split)

lemma runtime_mode_resolution_witness:
  "derive_runtime_mode (Some ''prod'') ''live'' ''paper'' = MPaper"
proof -
  have s: "py_strip ''prod'' = ''prod''" by (simp add: py_strip_def is_space_def)
  have "py_upper ''prod'' = ''PROD''" by code_simp
  with s runtime_mode_resolution [of "Some ''prod''" "''prod''" "''live''" "''paper''"] show ?thesis
    by simp
qed

text \<open>
  With the leverage the settings allow, the leverage check accepts nothing but one: a request
  is accepted only between one and the cap, and at one the liquidation price is the maintenance
  share of the entry.
\<close>

lemma leverage_capped:
  assumes "validate_leverage st requested entry max_leverage mr min_distance = Inr c" and "lc_ok c"
  shows "1 \<le> requested
    \<and> requested \<le> (case max_leverage of Some m \<Rightarrow> m | None \<Rightarrow> st_default_leverage st)
    \<and> (max_leverage = None \<and> st_default_leverage st = 1 \<longrightarrow>
         requested = 1 \<and> lc_liquidation_price c = Some (dmul entry (ctx mr)))"
  using assms
  by (auto simp: validate_leverage_def liquidation_price_long_def Let_def dec_ops split: if_splits option.splits)

lemma leverage_capped_witness:
  "\<exists>c. validate_leverage default_settings 1 50000 None (1 / 200) (1 / 10) = Inr c \<and> lc_ok c
     \<and> lc_liquidation_price c = Some 250"
proof -
  obtain c where c: "validate_leverage default_settings 1 50000 None (1 / 200) (1 / 10) = Inr c" "lc_ok c"
    by (simp add: validate_leverage_def liquidation_price_long_def default_settings_def dec_ops)
  have "st_default_leverage default_settings = 1" by (simp add: default_settings_def)
  with leverage_capped [OF c] c show ?thesis by (simp add: dec_ops)
qed

end
