(* ===== verification/Risk_Engine.thy ===== *)
theory Risk_Engine
  imports Config_Safety
begin

text \<open>
  The risk engine, \<open>app/risk/engine.py\<close>. \<open>RiskEngine.evaluate\<close> is one long method of early
  returns; the model keeps its order and splits it at the method's own comments:
  \<open>check_gates\<close>, \<open>check_health\<close>, \<open>check_validity\<close>, \<open>check_precision\<close>, \<open>check_frequency\<close>,
  \<open>check_losses\<close>, then the sizing steps \<open>size_by_risk\<close>, \<open>cap_position\<close>, \<open>cap_portfolio\<close> and
  \<open>check_final\<close>. A check returns \<open>Some\<close> evaluation for an early return and \<open>None\<close> to go on;
  a sizing step returns \<open>Inl\<close> an early return or \<open>Inr\<close> the size so far. The clock is read twice
  by the method, for the age of the market data and for the order frequency: both readings are
  arguments. \<open>risk_runs\<close> is a sequence of evaluations against one engine.
\<close>

subsection \<open>State and context\<close>

record risk_state =
  rs_recent_order_times :: "timestamp list"
  rs_seen_idempotency_keys :: "string set"
  rs_circuit_breaker_open :: bool
  rs_circuit_breaker_reason :: string
  rs_risk_engine_healthy :: bool
  rs_market_data_healthy :: bool
  rs_database_healthy :: bool
  rs_reconciliation_healthy :: bool
  rs_last_market_data_ts :: "timestamp option"

definition initial_risk_state :: risk_state where
  "initial_risk_state = \<lparr>rs_recent_order_times = [], rs_seen_idempotency_keys = {},
     rs_circuit_breaker_open = False, rs_circuit_breaker_reason = '''',
     rs_risk_engine_healthy = True, rs_market_data_healthy = True,
     rs_database_healthy = True, rs_reconciliation_healthy = True,
     rs_last_market_data_ts = None\<rparr>"

record risk_context =
  cx_portfolio :: portfolio_state
  cx_symbol_info :: "symbol_info option"
  cx_mark_price :: "decimal option"
  cx_market_data_ts :: "timestamp option"
  cx_trading_mode :: string
  cx_live_trading_enabled :: bool
  cx_kill_switch_enabled :: bool
  cx_has_exchange_credentials :: bool
  cx_live_approval_valid :: bool

definition reject :: "risk_reason \<Rightarrow> risk_evaluation" where
  "reject code = \<lparr>ev_decision = RRejected, ev_reason_code = code, ev_approved_quantity = None\<rparr>"

definition halt :: "risk_reason \<Rightarrow> risk_evaluation" where
  "halt code = \<lparr>ev_decision = RHalted, ev_reason_code = code, ev_approved_quantity = None\<rparr>"

definition open_circuit_breaker :: "string \<Rightarrow> risk_state \<Rightarrow> risk_state" where
  "open_circuit_breaker reason s =
     s\<lparr>rs_circuit_breaker_open := True, rs_circuit_breaker_reason := reason\<rparr>"

definition close_circuit_breaker :: "risk_state \<Rightarrow> risk_state" where
  "close_circuit_breaker s =
     s\<lparr>rs_circuit_breaker_open := False, rs_circuit_breaker_reason := ''''\<rparr>"

subsection \<open>The checks\<close>

definition check_live_gating :: "settings \<Rightarrow> risk_state \<Rightarrow> risk_context \<Rightarrow> risk_evaluation option" where
  "check_live_gating st s cx =
     (if \<not> (cx_live_trading_enabled cx \<or> st_live_trading_enabled st)
      then Some (reject LIVE_TRADING_DISABLED)
      else if cx_kill_switch_enabled cx \<or> st_kill_switch_enabled st
      then Some (halt KILL_SWITCH_ACTIVE)
      else if \<not> (cx_has_exchange_credentials cx \<or> has_exchange_credentials st)
      then Some (reject INVALID_CREDENTIALS)
      else if \<not> rs_risk_engine_healthy s then Some (reject RISK_ENGINE_UNHEALTHY)
      else if \<not> rs_market_data_healthy s then Some (reject MARKET_DATA_UNHEALTHY)
      else if \<not> rs_database_healthy s then Some (reject DATABASE_UNHEALTHY)
      else if \<not> rs_reconciliation_healthy s then Some (reject RECONCILIATION_UNHEALTHY)
      else if \<not> cx_live_approval_valid cx then Some (reject INVALID_LIVE_APPROVAL)
      else None)"

definition holds_long :: "string \<Rightarrow> position list \<Rightarrow> bool" where
  "holds_long sy ps \<longleftrightarrow> (\<exists>p \<in> set ps. p_symbol p = sy \<and> p_quantity p > 0)"

definition check_gates ::
  "settings \<Rightarrow> risk_state \<Rightarrow> order_request \<Rightarrow> risk_context \<Rightarrow> risk_evaluation option" where
  "check_gates st s rq cx =
     (if \<not> rs_risk_engine_healthy s then Some (halt RISK_ENGINE_UNHEALTHY)
      else if st_kill_switch_enabled st \<or> cx_kill_switch_enabled cx
      then Some (halt KILL_SWITCH_ACTIVE)
      else if rs_circuit_breaker_open s then Some (halt CIRCUIT_BREAKER_OPEN)
      else
        let live = (if cx_trading_mode cx = ''live'' \<or> st_trading_mode st = ''live''
                    then check_live_gating st s cx else None)
        in if live \<noteq> None then live
        else if st_supported_symbols st \<noteq> [] \<and> rq_symbol rq \<notin> set (st_supported_symbols st)
        then Some (reject SYMBOL_NOT_ALLOWED)
        else if rq_side rq \<notin> {Buy, Sell} then Some (reject UNSUPPORTED_SIDE)
        else if rq_side rq = Sell \<and> \<not> rq_reduce_only rq
             \<and> \<not> holds_long (rq_symbol rq) (pf_open_positions (cx_portfolio cx))
        then Some (reject SHORT_SELLING_DISABLED)
        else if st_default_leverage st \<noteq> 1 then Some (reject LEVERAGE_NOT_ALLOWED)
        else None)"

definition check_health ::
  "settings \<Rightarrow> risk_state \<Rightarrow> risk_context \<Rightarrow> timestamp \<Rightarrow> risk_evaluation option" where
  "check_health st s cx now =
     (if \<not> rs_market_data_healthy s then Some (reject MARKET_DATA_UNHEALTHY)
      else if \<not> rs_database_healthy s then Some (reject DATABASE_UNHEALTHY)
      else if \<not> rs_reconciliation_healthy s then Some (reject RECONCILIATION_UNHEALTHY)
      else
        let md_ts = (case cx_market_data_ts cx of Some t \<Rightarrow> Some t | None \<Rightarrow> rs_last_market_data_ts s)
        in case md_ts of
             None \<Rightarrow> None
           | Some t \<Rightarrow>
               if now - t > seconds (st_market_data_stale_seconds st)
               then Some (reject DATA_STALE) else None)"

definition check_validity :: "risk_state \<Rightarrow> order_request \<Rightarrow> risk_context \<Rightarrow> risk_evaluation option" where
  "check_validity s rq cx =
     (if rq_idempotency_key rq \<in> rs_seen_idempotency_keys s then Some (reject DUPLICATE_ORDER)
      else if rq_quantity rq \<le> 0 then Some (reject INVALID_QUANTITY)
      else if rq_order_type rq = Limit
           \<and> (case rq_price rq of None \<Rightarrow> True | Some p \<Rightarrow> p \<le> 0)
      then Some (reject INVALID_PRICE)
      else if rq_order_type rq \<in> {StopLoss, TakeProfit}
           \<and> (case truthy_or (truthy_or (rq_price rq) (rq_stop_loss rq)) (rq_take_profit rq) of
                None \<Rightarrow> True | Some t \<Rightarrow> t \<le> 0)
      then Some (reject INVALID_PRICE)
      else if (case cx_mark_price cx of None \<Rightarrow> False | Some m \<Rightarrow> m \<le> 0)
      then Some (reject INVALID_PRICE)
      else None)"

text \<open>The price of the order, \<open>request.price if request.price is not None else mark\<close>.\<close>

definition order_price :: "order_request \<Rightarrow> risk_context \<Rightarrow> decimal option" where
  "order_price rq cx = (case rq_price rq of Some p \<Rightarrow> Some p | None \<Rightarrow> cx_mark_price cx)"

definition check_precision ::
  "settings \<Rightarrow> order_request \<Rightarrow> risk_context \<Rightarrow> decimal \<Rightarrow> risk_evaluation option" where
  "check_precision st rq cx price =
     (let qty = rq_quantity rq in
      case cx_symbol_info cx of
        Some info \<Rightarrow>
          if si_step_size info > 0
             \<and> dmul (to_integral_down (ddiv qty (si_step_size info))) (si_step_size info) \<noteq> qty
          then Some (reject PRECISION_INVALID)
          else if qty < si_min_quantity info then Some (reject MIN_ORDER_SIZE)
          else if dmul qty price < max (si_min_notional info) (st_min_order_notional st)
          then Some (reject MIN_ORDER_SIZE)
          else (case rq_price rq of
                  Some p \<Rightarrow>
                    if si_tick_size info > 0
                       \<and> ddiv p (si_tick_size info) \<noteq> to_integral (ddiv p (si_tick_size info))
                    then Some (reject PRECISION_INVALID) else None
                | None \<Rightarrow> None)
      | None \<Rightarrow>
          if dmul qty price < st_min_order_notional st then Some (reject MIN_ORDER_SIZE) else None)"

definition prune_order_times :: "timestamp \<Rightarrow> timestamp list \<Rightarrow> timestamp list" where
  "prune_order_times now ts = filter (\<lambda>t. t \<ge> now - seconds 60) ts"

definition check_frequency :: "settings \<Rightarrow> timestamp list \<Rightarrow> timestamp \<Rightarrow> risk_evaluation option" where
  "check_frequency st recent now =
     (if int (length recent) \<ge> st_max_orders_per_minute st then Some (reject MAX_ORDER_FREQUENCY)
      else
        let cooldown = st_order_cooldown_seconds st in
        if cooldown > 0 \<and> recent \<noteq> [] \<and> now - Max (set recent) < seconds cooldown
        then Some (reject ORDER_COOLDOWN) else None)"

definition check_losses :: "settings \<Rightarrow> order_request \<Rightarrow> portfolio_state \<Rightarrow> risk_evaluation option" where
  "check_losses st rq pf =
     (let daily_loss_pct = (if pf_daily_pnl pf < 0 then ddiv (dneg (pf_daily_pnl pf)) (pf_peak_equity pf)
                            else 0) in
      if pf_peak_equity pf > 0 \<and> daily_loss_pct \<ge> st_max_daily_loss st
      then Some (reject DAILY_LOSS_LIMIT_REACHED)
      else if pf_peak_equity pf > 0 \<and> pf_drawdown pf \<ge> st_max_drawdown st
      then Some (reject MAX_DRAWDOWN_REACHED)
      else if int (pf_consecutive_losses pf) \<ge> st_max_consecutive_losses st
      then Some (reject MAX_CONSECUTIVE_LOSSES)
      else
        let reducing = rq_reduce_only rq \<or> holds_long (rq_symbol rq) (pf_open_positions pf) in
        if \<not> reducing \<and> int (length (pf_open_positions pf)) \<ge> st_max_open_positions st
        then Some (reject MAX_OPEN_POSITIONS) else None)"

subsection \<open>Sizing\<close>

record sizing =
  sz_quantity :: decimal
  sz_decision :: risk_decision
  sz_reason :: risk_reason

definition reduced_to :: "decimal \<Rightarrow> sizing" where
  "reduced_to q = \<lparr>sz_quantity = q, sz_decision = RReduced, sz_reason = SIZE_REDUCED_BY_RISK\<rparr>"

definition sizing_equity :: "portfolio_state \<Rightarrow> decimal" where
  "sizing_equity pf = (if pf_equity pf > 0 then pf_equity pf else pf_cash_balance pf)"

definition size_by_risk ::
  "settings \<Rightarrow> order_request \<Rightarrow> decimal \<Rightarrow> decimal \<Rightarrow> risk_evaluation + sizing" where
  "size_by_risk st rq price equity =
     (let qty = rq_quantity rq;
          sz = \<lparr>sz_quantity = qty, sz_decision = RApproved, sz_reason = OK\<rparr>;
          risk_budget = dmul equity (st_max_risk_per_trade st)
      in case rq_stop_loss rq of
           Some sl \<Rightarrow>
             if sl > 0 then
               let per_unit_risk = dabs (dsub price sl) in
               if per_unit_risk > 0 then
                 let max_qty = quantize_down 8 (ddiv risk_budget per_unit_risk) in
                 if max_qty \<le> 0 then Inl (reject MAX_RISK_PER_TRADE)
                 else if max_qty < qty then Inr (reduced_to max_qty)
                 else Inr sz
               else Inr sz
             else
               let max_qty = quantize_down 8 (ddiv risk_budget price) in
               if max_qty < qty then Inr (reduced_to max_qty) else Inr sz
         | None \<Rightarrow>
             let max_qty = quantize_down 8 (ddiv risk_budget price) in
             if max_qty < qty then Inr (reduced_to max_qty) else Inr sz)"

definition cap_position ::
  "settings \<Rightarrow> decimal \<Rightarrow> decimal \<Rightarrow> sizing \<Rightarrow> risk_evaluation + sizing" where
  "cap_position st price equity sz =
     (let max_pos_notional = dmul equity (st_max_position_exposure st) in
      if dmul (sz_quantity sz) price > max_pos_notional then
        let reduced = quantize_down 8 (ddiv max_pos_notional price) in
        if reduced \<le> 0 then Inl (reject MAX_POSITION_EXPOSURE)
        else Inr (reduced_to reduced)
      else Inr sz)"

text \<open>\<open>sum(p.quantity * (context.mark_price or p.current_price))\<close> over the open positions.\<close>

definition current_notional :: "risk_context \<Rightarrow> decimal" where
  "current_notional cx =
     dsum (map (\<lambda>p. dmul (p_quantity p) (or_else (cx_mark_price cx) (p_current_price p)))
             (pf_open_positions (cx_portfolio cx)))"

definition cap_portfolio ::
  "settings \<Rightarrow> risk_context \<Rightarrow> decimal \<Rightarrow> decimal \<Rightarrow> sizing \<Rightarrow> risk_evaluation + sizing" where
  "cap_portfolio st cx price equity sz =
     (let max_port_notional = dmul equity (st_max_portfolio_exposure st);
          current = current_notional cx in
      if dadd current (dmul (sz_quantity sz) price) > max_port_notional then
        let room = dsub max_port_notional current in
        if room \<le> 0 then Inl (reject MAX_PORTFOLIO_EXPOSURE)
        else
          let reduced = quantize_down 8 (ddiv room price) in
          if reduced \<le> 0 then Inl (reject MAX_PORTFOLIO_EXPOSURE)
          else Inr (reduced_to reduced)
      else Inr sz)"

definition check_final ::
  "order_request \<Rightarrow> portfolio_state \<Rightarrow> decimal \<Rightarrow> sizing \<Rightarrow> risk_evaluation option" where
  "check_final rq pf price sz =
     (if sz_quantity sz \<le> 0 then Some (reject INVALID_QUANTITY)
      else if rq_side rq = Buy \<and> \<not> rq_reduce_only rq
           \<and> dmul (sz_quantity sz) price > pf_cash_balance pf
      then Some (reject INSUFFICIENT_BALANCE)
      else None)"

text \<open>The sizing steps in sequence, each early return cutting the rest.\<close>

definition size_order ::
  "settings \<Rightarrow> order_request \<Rightarrow> risk_context \<Rightarrow> decimal \<Rightarrow> risk_evaluation + sizing" where
  "size_order st rq cx price =
     (let equity = sizing_equity (cx_portfolio cx) in
      case size_by_risk st rq price equity of
        Inl e \<Rightarrow> Inl e
      | Inr sz1 \<Rightarrow>
          (case cap_position st price equity sz1 of
             Inl e \<Rightarrow> Inl e
           | Inr sz2 \<Rightarrow> cap_portfolio st cx price equity sz2))"

subsection \<open>The evaluation\<close>

definition accepted :: "sizing \<Rightarrow> risk_evaluation" where
  "accepted sz = \<lparr>ev_decision = sz_decision sz, ev_reason_code = sz_reason sz,
                  ev_approved_quantity = Some (sz_quantity sz)\<rparr>"

text \<open>The method up to the price and precision checks: an early return, or the order's price.\<close>

definition pre_checks ::
  "settings \<Rightarrow> order_request \<Rightarrow> risk_context \<Rightarrow> timestamp \<Rightarrow> risk_state \<Rightarrow> risk_evaluation + decimal" where
  "pre_checks st rq cx md_now s =
     (case check_gates st s rq cx of Some e \<Rightarrow> Inl e | None \<Rightarrow>
      case check_health st s cx md_now of Some e \<Rightarrow> Inl e | None \<Rightarrow>
      case check_validity s rq cx of Some e \<Rightarrow> Inl e | None \<Rightarrow>
      case order_price rq cx of None \<Rightarrow> Inl (reject INVALID_PRICE) | Some price \<Rightarrow>
      if price \<le> 0 then Inl (reject INVALID_PRICE) else
      case check_precision st rq cx price of Some e \<Rightarrow> Inl e | None \<Rightarrow> Inr price)"

text \<open>The rest of the method, from the order frequency on.\<close>

definition limit_checks ::
  "settings \<Rightarrow> order_request \<Rightarrow> risk_context \<Rightarrow> timestamp list \<Rightarrow> timestamp \<Rightarrow> decimal
   \<Rightarrow> risk_evaluation + sizing" where
  "limit_checks st rq cx recent now price =
     (case check_frequency st recent now of Some e \<Rightarrow> Inl e | None \<Rightarrow>
      case check_losses st rq (cx_portfolio cx) of Some e \<Rightarrow> Inl e | None \<Rightarrow>
      case size_order st rq cx price of Inl e \<Rightarrow> Inl e | Inr sz \<Rightarrow>
      case check_final rq (cx_portfolio cx) price sz of Some e \<Rightarrow> Inl e | None \<Rightarrow> Inr sz)"

definition evaluate ::
  "settings \<Rightarrow> order_request \<Rightarrow> risk_context \<Rightarrow> timestamp \<Rightarrow> timestamp \<Rightarrow> risk_state
   \<Rightarrow> risk_evaluation \<times> risk_state" where
  "evaluate st rq cx md_now now s =
     (case pre_checks st rq cx md_now s of Inl e \<Rightarrow> (e, s) | Inr price \<Rightarrow>
      let recent = prune_order_times now (rs_recent_order_times s);
          s' = s\<lparr>rs_recent_order_times := recent\<rparr> in
      case limit_checks st rq cx recent now price of Inl e \<Rightarrow> (e, s') | Inr sz \<Rightarrow>
        (accepted sz,
         s'\<lparr>rs_seen_idempotency_keys := insert (rq_idempotency_key rq) (rs_seen_idempotency_keys s),
            rs_recent_order_times := recent @ [now]\<rparr>))"

definition is_accepting :: "risk_evaluation \<Rightarrow> bool" where
  "is_accepting e \<longleftrightarrow> ev_decision e \<in> {RApproved, RReduced}"

subsection \<open>Early returns never accept\<close>

lemma reject_not_accepting [simp]: "\<not> is_accepting (reject c)"
  by (simp add: is_accepting_def reject_def)

lemma halt_not_accepting [simp]: "\<not> is_accepting (halt c)"
  by (simp add: is_accepting_def halt_def)

lemma check_live_gating_not_accepting: "check_live_gating st s cx = Some e \<Longrightarrow> \<not> is_accepting e"
  by (auto simp: check_live_gating_def split: if_splits)

lemma check_gates_not_accepting: "check_gates st s rq cx = Some e \<Longrightarrow> \<not> is_accepting e"
  by (auto simp: check_gates_def Let_def dest: check_live_gating_not_accepting split: if_splits)

lemma check_health_not_accepting: "check_health st s cx now = Some e \<Longrightarrow> \<not> is_accepting e"
  by (auto simp: check_health_def Let_def split: if_splits option.splits)

lemma check_validity_not_accepting: "check_validity s rq cx = Some e \<Longrightarrow> \<not> is_accepting e"
  by (auto simp: check_validity_def split: if_splits)

lemma check_precision_not_accepting: "check_precision st rq cx price = Some e \<Longrightarrow> \<not> is_accepting e"
  by (auto simp: check_precision_def Let_def split: if_splits option.splits)

lemma check_frequency_not_accepting: "check_frequency st recent now = Some e \<Longrightarrow> \<not> is_accepting e"
  by (auto simp: check_frequency_def Let_def split: if_splits)

lemma check_losses_not_accepting: "check_losses st rq pf = Some e \<Longrightarrow> \<not> is_accepting e"
  by (auto simp: check_losses_def Let_def split: if_splits)

lemma size_order_not_accepting: "size_order st rq cx price = Inl e \<Longrightarrow> \<not> is_accepting e"
  by (auto simp: size_order_def size_by_risk_def cap_position_def cap_portfolio_def Let_def
      split: if_splits option.splits sum.splits)

lemma check_final_not_accepting: "check_final rq pf price sz = Some e \<Longrightarrow> \<not> is_accepting e"
  by (auto simp: check_final_def split: if_splits)

lemmas checks_not_accepting =
  check_gates_not_accepting check_health_not_accepting check_validity_not_accepting
  check_precision_not_accepting check_frequency_not_accepting check_losses_not_accepting
  size_order_not_accepting check_final_not_accepting

subsection \<open>What an acceptance went through\<close>

lemma pre_checks_InlD: "pre_checks st rq cx md_now s = Inl e \<Longrightarrow> \<not> is_accepting e"
  unfolding pre_checks_def
  by (auto dest: checks_not_accepting split: option.split_asm if_split_asm)

lemma pre_checks_InrD:
  assumes "pre_checks st rq cx md_now s = Inr price"
  shows "check_gates st s rq cx = None" "check_health st s cx md_now = None"
    "check_validity s rq cx = None" "order_price rq cx = Some price" "0 < price"
    "check_precision st rq cx price = None"
  using assms unfolding pre_checks_def by (auto split: option.split_asm if_split_asm)

lemma limit_checks_InlD: "limit_checks st rq cx recent now price = Inl e \<Longrightarrow> \<not> is_accepting e"
  unfolding limit_checks_def
  by (auto dest: checks_not_accepting split: option.split_asm sum.split_asm)

lemma limit_checks_InrD:
  assumes "limit_checks st rq cx recent now price = Inr sz"
  shows "check_frequency st recent now = None" "check_losses st rq (cx_portfolio cx) = None"
    "size_order st rq cx price = Inr sz" "check_final rq (cx_portfolio cx) price sz = None"
  using assms unfolding limit_checks_def by (auto split: option.split_asm sum.split_asm)

lemma size_order_decision:
  "size_order st rq cx price = Inr sz \<Longrightarrow> sz_decision sz \<in> {RApproved, RReduced}"
  by (auto simp: size_order_def size_by_risk_def cap_position_def cap_portfolio_def
      reduced_to_def Let_def split: if_splits option.splits sum.splits)

text \<open>
  The two outcomes of an evaluation: either it accepts, all checks have passed and the key and
  the time are recorded, or it does not and the state at most loses old order times.
\<close>

lemma evaluate_cases:
  assumes "evaluate st rq cx md_now now s = (e, s')"
  obtains (accept) price sz where
      "is_accepting e" "pre_checks st rq cx md_now s = Inr price"
      "limit_checks st rq cx (prune_order_times now (rs_recent_order_times s)) now price = Inr sz"
      "e = accepted sz"
      "s' = s\<lparr>rs_seen_idempotency_keys := insert (rq_idempotency_key rq) (rs_seen_idempotency_keys s),
              rs_recent_order_times := prune_order_times now (rs_recent_order_times s) @ [now]\<rparr>"
  | (refuse) "\<not> is_accepting e"
      "s' = s \<or> s' = s\<lparr>rs_recent_order_times := prune_order_times now (rs_recent_order_times s)\<rparr>"
proof (cases "pre_checks st rq cx md_now s")
  case (Inl e0)
  with assms pre_checks_InlD [OF Inl] refuse show thesis by (simp add: evaluate_def)
next
  case (Inr price)
  let ?recent = "prune_order_times now (rs_recent_order_times s)"
  show thesis
  proof (cases "limit_checks st rq cx ?recent now price")
    case (Inl e0)
    with assms \<open>pre_checks st rq cx md_now s = Inr price\<close> limit_checks_InlD [OF Inl] refuse
    show thesis by (simp add: evaluate_def)
  next
    case (Inr sz)
    with size_order_decision [OF limit_checks_InrD(3) [OF Inr]]
    have "is_accepting (accepted sz)" by (simp add: is_accepting_def accepted_def)
    with assms \<open>pre_checks st rq cx md_now s = Inr price\<close> Inr show thesis
      by (intro accept [of price sz]) (auto simp: evaluate_def Let_def)
  qed
qed

lemma evaluate_acceptingE:
  assumes "evaluate st rq cx md_now now s = (e, s')" and "is_accepting e"
  obtains price sz where "pre_checks st rq cx md_now s = Inr price"
    "limit_checks st rq cx (prune_order_times now (rs_recent_order_times s)) now price = Inr sz"
    "e = accepted sz"
    "s' = s\<lparr>rs_seen_idempotency_keys := insert (rq_idempotency_key rq) (rs_seen_idempotency_keys s),
            rs_recent_order_times := prune_order_times now (rs_recent_order_times s) @ [now]\<rparr>"
  using assms by (cases rule: evaluate_cases) auto

end
