(* ===== verification/Risk_Sizing.thy ===== *)
theory Risk_Sizing
  imports Risk_Engine
begin

text \<open>
  How the sizing steps of the risk engine relate to its limits: every step only shrinks the
  order, and the size that comes out is within the risk, position and portfolio budgets up to
  the rounding of the decimal context. \<open>risk_budget\<close> and \<open>unit_risk\<close> name the two factors of
  the first step.
\<close>

subsection \<open>Sizing lemmas\<close>

lemma quantize_down_ratio_bound:
  assumes "0 \<le> m" "0 < p"
  shows "quantize_down 8 (ddiv m p) * p \<le> m * (1 + 1 / 10 ^ 27)"
proof -
  have "quantize_down 8 (ddiv m p) \<le> ddiv m p"
    using assms by (intro quantize_down_le ddiv_nonneg) auto
  also have "\<dots> \<le> m / p * (1 + 1 / 10 ^ 27)"
    unfolding ddiv_def using assms by (intro ctx_upper) simp
  finally have "quantize_down 8 (ddiv m p) * p \<le> m / p * (1 + 1 / 10 ^ 27) * p"
    using assms by (intro mult_right_mono) auto
  with assms show ?thesis by (simp add: field_simps)
qed

lemma quantize_down_ratio_le:
  assumes "representable q" "representable m" "0 \<le> m" "0 < p" "m < dmul q p"
  shows "quantize_down 8 (ddiv m p) \<le> q"
proof (rule ccontr)
  assume "\<not> ?thesis"
  then have "q < ddiv m p"
    using quantize_down_le [of "ddiv m p" 8] assms ddiv_nonneg [of m p] by linarith
  then have "q < m / p" unfolding ddiv_def by (rule ctx.rep_less_rndD [OF assms(1)])
  then have "q * p \<le> m" using assms(4) by (simp add: field_simps)
  then have "dmul q p \<le> m" unfolding dmul_def by (rule ctx.rnd_le_rep [OF assms(2)])
  with assms(5) show False by simp
qed

text \<open>
  A sizing that only shrinks: from a sizing of the request (approved at the requested size, or
  reduced), a step returns one that is at most as large.
\<close>

definition sizing_ok :: "decimal \<Rightarrow> sizing \<Rightarrow> bool" where
  "sizing_ok q sz \<longleftrightarrow> representable (sz_quantity sz) \<and> sz_quantity sz \<le> q
     \<and> (sz_decision sz = RApproved \<longrightarrow> sz_quantity sz = q \<and> sz_reason sz = OK)
     \<and> (sz_decision sz \<noteq> RApproved \<longrightarrow> sz_decision sz = RReduced \<and> sz_reason sz = SIZE_REDUCED_BY_RISK
          \<and> on_grid 8 (sz_quantity sz))"

lemma sizing_ok_reduced:
  "representable r \<Longrightarrow> r \<le> q \<Longrightarrow> sizing_ok q (reduced_to (quantize_down 8 r'))
    \<longleftrightarrow> representable (quantize_down 8 r') \<and> quantize_down 8 r' \<le> q"
  by (auto simp: sizing_ok_def reduced_to_def)

lemma size_by_risk_ok:
  assumes "representable (rq_quantity rq)" and "size_by_risk st rq price equity = Inr sz"
  shows "sizing_ok (rq_quantity rq) sz"
proof -
  have "sizing_ok (rq_quantity rq) (reduced_to (quantize_down 8 (ddiv a b)))"
    if "quantize_down 8 (ddiv a b) < rq_quantity rq" for a b
    using that by (simp add: sizing_ok_def reduced_to_def representable_quantize_down)
  with assms show ?thesis
    by (auto simp: size_by_risk_def Let_def sizing_ok_def split: option.splits if_splits)
qed

lemma cap_position_ok:
  assumes "sizing_ok q sz" "0 < price" "0 \<le> equity" "0 \<le> st_max_position_exposure st"
    and "cap_position st price equity sz = Inr sz'"
  shows "sizing_ok q sz'" and "sz_quantity sz' \<le> sz_quantity sz"
    and "0 < sz_quantity sz \<Longrightarrow> 0 < sz_quantity sz'"
    and "sz_quantity sz' * price \<le> dmul equity (st_max_position_exposure st) * (1 + 1 / 10 ^ 27)
      \<or> sz_quantity sz' \<le> 0"
proof -
  let ?m = "dmul equity (st_max_position_exposure st)"
  let ?r = "quantize_down 8 (ddiv ?m price)"
  have m: "0 \<le> ?m" using assms by (simp add: dmul_nonneg)
  have bound: "sz_quantity sz * price \<le> ?m * (1 + 1 / 10 ^ 27)"
    if "\<not> ?m < dmul (sz_quantity sz) price" "0 < sz_quantity sz"
  proof -
    have "sz_quantity sz * price \<le> ctx (sz_quantity sz * price) * (1 + 1 / 10 ^ 27)"
      using that assms(2) by (intro ctx_lower) simp
    also have "\<dots> \<le> ?m * (1 + 1 / 10 ^ 27)"
      using that(1) by (intro mult_right_mono) (simp_all add: dmul_def)
    finally show ?thesis .
  qed
  show "sizing_ok q sz'" and "sz_quantity sz' \<le> sz_quantity sz"
    and "0 < sz_quantity sz \<Longrightarrow> 0 < sz_quantity sz'"
    and "sz_quantity sz' * price \<le> ?m * (1 + 1 / 10 ^ 27) \<or> sz_quantity sz' \<le> 0"
    using assms(1,5) quantize_down_ratio_le [of "sz_quantity sz" ?m price] m assms(2)
      quantize_down_ratio_bound [OF m assms(2)] bound
    by (auto simp: cap_position_def Let_def sizing_ok_def reduced_to_def representable_quantize_down
        split: if_splits)
qed

text \<open>
  Two different numbers with eight places differ by at least one unit in the last place; that
  unit absorbs three roundings as long as the smaller number is below \<open>10 ^ 18\<close>.
\<close>

lemma on_grid_less: "on_grid d x \<Longrightarrow> on_grid d y \<Longrightarrow> x < y \<Longrightarrow> x + 1 / 10 ^ d \<le> y"
proof -
  assume "on_grid d x" "on_grid d y" and less: "x < y"
  then obtain k l where k: "x = of_int k / 10 ^ d" and l: "y = of_int l / 10 ^ d"
    unfolding on_grid_def by blast
  with less have "k + 1 \<le> l" by (simp add: divide_less_cancel)
  then have "(of_int k + 1 :: rat) \<le> of_int l" by (metis of_int_1 of_int_add of_int_le_iff)
  then show ?thesis by (simp add: k l add_divide_distrib [symmetric] divide_right_mono)
qed

lemma grid_gap_absorbs:
  fixes s :: rat
  assumes "0 < s" "s < 10 ^ 18"
  shows "s * (1 + 1 / 10 ^ 27) * ((1 + 1 / 10 ^ 27) * (1 + 1 / 10 ^ 27)) \<le> s + 1 / 10 ^ 8"
proof -
  have "s * ((1 + 1 / 10 ^ 27) * ((1 + 1 / 10 ^ 27) * (1 + 1 / 10 ^ 27)) - 1)
        \<le> 10 ^ 18 * ((1 + 1 / 10 ^ 27) * ((1 + 1 / 10 ^ 27) * (1 + 1 / 10 ^ 27)) - 1)"
    using assms by (intro mult_right_mono) simp_all
  also have "\<dots> \<le> 1 / 10 ^ 8" by simp
  finally show ?thesis by (simp only: right_diff_distrib mult.assoc mult.right_neutral)
qed

lemma cap_portfolio_shrinks:
  assumes s: "on_grid 8 s" "0 < s" "s < 10 ^ 18" and p: "0 < p" and c: "0 \<le> c"
    and m: "representable m" and over: "m < dadd c (dmul s p)" and room: "0 < dsub m c"
  shows "quantize_down 8 (ddiv (dsub m c) p) \<le> s"
proof (rule ccontr)
  let ?e = "1 + 1 / 10 ^ 27 :: rat" and ?r = "quantize_down 8 (ddiv (dsub m c) p)"
  assume "\<not> ?r \<le> s"
  then have "s + 1 / 10 ^ 8 \<le> ?r" by (intro on_grid_less) (simp_all add: s)
  also have "?r \<le> ddiv (dsub m c) p"
    using room p by (intro quantize_down_le ddiv_nonneg) auto
  also have "\<dots> \<le> dsub m c / p * ?e"
    unfolding ddiv_def using room p by (intro ctx_upper) simp
  also have "\<dots> \<le> ((m - c) * ?e) / p * ?e"
    using room p unfolding dsub_def ctx.rnd_pos_iff
    by (intro mult_right_mono divide_right_mono ctx_upper) auto
  finally have "s * ?e * (?e * ?e) \<le> ((m - c) * ?e) / p * ?e"
    using grid_gap_absorbs [OF s(2,3)] by linarith
  then have "(s * ?e) * (?e * ?e) \<le> ((m - c) / p) * (?e * ?e)"
    by (simp only: times_divide_eq_left mult.assoc)
  then have "s * ?e \<le> (m - c) / p" by (rule mult_right_le_imp_le) simp
  then have "s * p * ?e \<le> m - c" using p by (simp only: pos_le_divide_eq) (simp only: mult_ac)
  moreover have "dmul s p \<le> s * p * ?e"
    unfolding dmul_def using s(2) p by (intro ctx_upper) simp
  ultimately have "c + dmul s p \<le> m" by linarith
  then have "dadd c (dmul s p) \<le> m" unfolding dadd_def by (rule ctx.rnd_le_rep [OF m])
  with over show False by simp
qed

lemma cap_portfolio_ok:
  assumes ok: "sizing_ok q sz" and g: "on_grid 8 (sz_quantity sz)" "0 < sz_quantity sz" "sz_quantity sz < 10 ^ 18"
    and p: "0 < price" and c: "0 \<le> current_notional cx" and eq: "0 \<le> equity" "0 \<le> st_max_portfolio_exposure st"
    and r: "cap_portfolio st cx price equity sz = Inr sz'"
  shows "sizing_ok q sz'" and "sz_quantity sz' \<le> sz_quantity sz" and "0 < sz_quantity sz'"
    and "current_notional cx + sz_quantity sz' * price
         \<le> dmul equity (st_max_portfolio_exposure st) * (1 + 1 / 10 ^ 26)"
proof -
  let ?e = "1 + 1 / 10 ^ 27 :: rat"
  let ?m = "dmul equity (st_max_portfolio_exposure st)" and ?c = "current_notional cx"
  let ?r = "quantize_down 8 (ddiv (dsub ?m ?c) price)"
  have m: "0 \<le> ?m" using eq by (simp add: dmul_nonneg)
  have ee: "?e * ?e \<le> 1 + 1 / 10 ^ 26" by simp
  consider (keep) "\<not> ?m < dadd ?c (dmul (sz_quantity sz) price)" "sz' = sz"
    | (cut) "?m < dadd ?c (dmul (sz_quantity sz) price)" "0 < dsub ?m ?c" "0 < ?r" "sz' = reduced_to ?r"
    using r by (auto simp: cap_portfolio_def Let_def split: if_splits)
  then have "sizing_ok q sz' \<and> sz_quantity sz' \<le> sz_quantity sz \<and> 0 < sz_quantity sz'
    \<and> ?c + sz_quantity sz' * price \<le> ?m * (1 + 1 / 10 ^ 26)"
  proof cases
    case keep
    let ?q = "sz_quantity sz"
    have qp: "?q * price \<le> dmul ?q price * ?e"
      unfolding dmul_def using g p by (intro ctx_lower) simp
    have "?c + dmul ?q price \<le> dadd ?c (dmul ?q price) * ?e"
      unfolding dadd_def using c g p by (intro ctx_lower add_nonneg_nonneg dmul_nonneg) auto
    also have "\<dots> \<le> ?m * ?e" using keep(1) by (intro mult_right_mono) simp_all
    finally have 1: "(?c + dmul ?q price) * ?e \<le> ?m * ?e * ?e" by (rule mult_right_mono) simp
    have "?c + ?q * price \<le> ?c * ?e + dmul ?q price * ?e"
      using c qp by (intro add_mono) simp_all
    also have "\<dots> \<le> ?m * (?e * ?e)" using 1 by (simp only: distrib_right mult.assoc)
    also have "\<dots> \<le> ?m * (1 + 1 / 10 ^ 26)" using m ee by (intro mult_left_mono)
    finally show ?thesis using keep ok g by simp
  next
    case cut
    have rq: "?r * price \<le> dsub ?m ?c * ?e"
      using cut p by (intro quantize_down_ratio_bound) auto
    have "dsub ?m ?c * ?e \<le> (?m - ?c) * ?e * ?e"
      using cut(2) unfolding dsub_def ctx.rnd_pos_iff by (intro mult_right_mono ctx_upper) auto
    also have "\<dots> = (?m - ?c) * (?e * ?e)" by (simp only: mult.assoc)
    also have "\<dots> \<le> (?m - ?c) * (1 + 1 / 10 ^ 26)"
      using cut(2) ee by (intro mult_left_mono) simp_all
    finally have "?c + ?r * price \<le> ?c + (?m - ?c) * (1 + 1 / 10 ^ 26)" using rq by linarith
    also have "\<dots> \<le> ?m * (1 + 1 / 10 ^ 26)"
    proof -
      have "?c * 1 \<le> ?c * (1 + 1 / 10 ^ 26)" using c by (intro mult_left_mono) simp_all
      then show ?thesis unfolding left_diff_distrib by linarith
    qed
    finally have bound: "?c + ?r * price \<le> ?m * (1 + 1 / 10 ^ 26)" .
    have "?r \<le> sz_quantity sz"
      using cut by (intro cap_portfolio_shrinks g p c) simp_all
    with cut bound ok show ?thesis
      by (auto simp: sizing_ok_def reduced_to_def representable_quantize_down)
  qed
  then show "sizing_ok q sz'" and "sz_quantity sz' \<le> sz_quantity sz" and "0 < sz_quantity sz'"
    and "?c + sz_quantity sz' * price \<le> ?m * (1 + 1 / 10 ^ 26)" by auto
qed

lemma representable_0 [simp]: "representable 0"
  using representable_ctx [of 0] by simp

lemma representable_dsum [simp]: "representable (dsum xs)"
proof -
  have "representable s \<Longrightarrow> representable (foldl dadd s xs)" for s
    by (induction xs arbitrary: s) auto
  then show ?thesis by (simp add: dsum_def)
qed

lemma current_notional_nonneg:
  assumes "\<And>p. p \<in> set (pf_open_positions (cx_portfolio cx)) \<Longrightarrow> 0 \<le> p_quantity p \<and> 0 \<le> p_current_price p"
    and "\<And>m. cx_mark_price cx = Some m \<Longrightarrow> 0 \<le> m"
  shows "0 \<le> current_notional cx"
  unfolding current_notional_def
  by (rule dsum_nonneg) (auto simp: or_else_def assms dmul_nonneg split: option.splits)

text \<open>The first sizing step bounds what a trade can lose; the caps only shrink it further.\<close>

definition risk_budget :: "settings \<Rightarrow> portfolio_state \<Rightarrow> decimal" where
  "risk_budget st pf = dmul (sizing_equity pf) (st_max_risk_per_trade st)"

definition unit_risk :: "order_request \<Rightarrow> decimal \<Rightarrow> decimal" where
  "unit_risk rq price =
     (case rq_stop_loss rq of
        Some sl \<Rightarrow> if sl > 0 then dabs (dsub price sl) else price
      | None \<Rightarrow> price)"

lemma unit_risk_nonneg: "0 < price \<Longrightarrow> 0 \<le> unit_risk rq price"
  by (auto simp: unit_risk_def split: option.split)

lemma below_ratio_bound:
  assumes "q \<le> quantize_down 8 (ddiv m p)" "0 \<le> m" "0 < p"
  shows "q * p \<le> m * (1 + 1 / 10 ^ 27)"
proof -
  have "q * p \<le> quantize_down 8 (ddiv m p) * p" using assms by (intro mult_right_mono) auto
  with quantize_down_ratio_bound [OF assms(2,3)] show ?thesis by linarith
qed

lemma size_by_risk_bound:
  assumes "size_by_risk st rq price (sizing_equity pf) = Inr sz" and "0 < price"
    and "0 \<le> risk_budget st pf"
  shows "sz_quantity sz * unit_risk rq price \<le> risk_budget st pf * (1 + 1 / 10 ^ 27)"
proof (cases "unit_risk rq price = 0")
  case True
  with assms(3) show ?thesis by simp
next
  case False
  with unit_risk_nonneg [OF assms(2)] have pos: "0 < unit_risk rq price" by (simp add: order_le_neq_trans)
  have "sz_quantity sz \<le> quantize_down 8 (ddiv (risk_budget st pf) (unit_risk rq price))"
    using assms(1) pos
    by (auto simp: size_by_risk_def risk_budget_def unit_risk_def Let_def reduced_to_def
        split: option.splits if_splits)
  then show ?thesis using pos assms(3) by (intro below_ratio_bound)
qed

text \<open>The sizing steps together.\<close>

lemma size_order_ok:
  assumes sz: "size_order st rq cx price = Inr sz" and pos: "0 < sz_quantity sz"
    and rq: "on_grid 8 (rq_quantity rq)" "0 < rq_quantity rq" "rq_quantity rq < 10 ^ 18"
    and price: "0 < price" and cash: "0 \<le> pf_cash_balance (cx_portfolio cx)"
    and cur: "0 \<le> current_notional cx"
    and lim: "0 \<le> st_max_position_exposure st" "0 \<le> st_max_portfolio_exposure st"
      "0 \<le> st_max_risk_per_trade st"
  shows "sizing_ok (rq_quantity rq) sz"
    and "sz_quantity sz * unit_risk rq price
         \<le> risk_budget st (cx_portfolio cx) * (1 + 1 / 10 ^ 27)"
    and "sz_quantity sz * price
         \<le> dmul (sizing_equity (cx_portfolio cx)) (st_max_position_exposure st) * (1 + 1 / 10 ^ 27)"
    and "current_notional cx + sz_quantity sz * price
         \<le> dmul (sizing_equity (cx_portfolio cx)) (st_max_portfolio_exposure st) * (1 + 1 / 10 ^ 26)"
proof -
  let ?eq = "sizing_equity (cx_portfolio cx)"
  have eq: "0 \<le> ?eq" using cash by (simp add: sizing_equity_def)
  from sz obtain sz1 sz2 where s1: "size_by_risk st rq price ?eq = Inr sz1"
    and s2: "cap_position st price ?eq sz1 = Inr sz2" and s3: "cap_portfolio st cx price ?eq sz2 = Inr sz"
    by (auto simp: size_order_def Let_def split: sum.split_asm)
  have "\<bar>rq_quantity rq\<bar> * 10 ^ 8 < 10 ^ 28" using rq by simp
  with rq(1) have "ctx (rq_quantity rq) = rq_quantity rq" by (intro ctx_on_grid)
  with representable_ctx [of "rq_quantity rq"] have rep: "representable (rq_quantity rq)" by simp
  note ok1 = size_by_risk_ok [OF rep s1]
  note cp = cap_position_ok [OF ok1 price eq lim(1) s2]
  have pos2: "0 < sz_quantity sz2"
  proof (rule ccontr)
    assume n: "\<not> 0 < sz_quantity sz2"
    then have "dadd (current_notional cx) (dmul (sz_quantity sz2) price) \<le> current_notional cx"
      unfolding dadd_def using price
      by (intro ctx.rnd_le_rep) (auto simp: current_notional_def dmul_def ctx.rnd_nonpos mult_nonpos_nonneg)
    then have "sz = sz2 \<or> (\<exists>e. cap_portfolio st cx price ?eq sz2 = Inl e)"
      using s3 by (auto simp: cap_portfolio_def Let_def split: if_splits)
    with s3 pos n show False by auto
  qed
  have grid2: "on_grid 8 (sz_quantity sz2)"
    using cp(1) rq(1) by (cases "sz_decision sz2 = RApproved") (auto simp: sizing_ok_def)
  have lt2: "sz_quantity sz2 < 10 ^ 18" using cp(1) rq(3) by (simp add: sizing_ok_def)
  note cf = cap_portfolio_ok [OF cp(1) grid2 pos2 lt2 price cur eq lim(2) s3]
  show "sizing_ok (rq_quantity rq) sz" by (rule cf)
  show "current_notional cx + sz_quantity sz * price
         \<le> dmul ?eq (st_max_portfolio_exposure st) * (1 + 1 / 10 ^ 26)" by (rule cf)
  have "sz_quantity sz * price \<le> sz_quantity sz2 * price"
    using cf(2) price by (intro mult_right_mono) auto
  with cp(4) pos2 show "sz_quantity sz * price \<le> dmul ?eq (st_max_position_exposure st) * (1 + 1 / 10 ^ 27)"
    by linarith
  have "0 \<le> risk_budget st (cx_portfolio cx)" using eq lim(3) by (simp add: risk_budget_def dmul_nonneg)
  note rb = size_by_risk_bound [OF s1 price this]
  have "sz_quantity sz * unit_risk rq price \<le> sz_quantity sz1 * unit_risk rq price"
    using cf(2) cp(2) unit_risk_nonneg [OF price] by (intro mult_right_mono) auto
  with rb show "sz_quantity sz * unit_risk rq price \<le> risk_budget st (cx_portfolio cx) * (1 + 1 / 10 ^ 27)"
    by linarith
qed

text \<open>The size of an accepted order, for the components behind the engine.\<close>

lemma accept_sizing:
  assumes "evaluate st rq cx md_now now s = (e, s')" and "is_accepting e"
    and grid: "on_grid 8 (rq_quantity rq)" "rq_quantity rq < 10 ^ 18"
    and cash: "0 \<le> pf_cash_balance (cx_portfolio cx)"
    and pos: "list_all (\<lambda>p. 0 \<le> p_quantity p \<and> 0 \<le> p_current_price p) (pf_open_positions (cx_portfolio cx))"
    and lim: "0 \<le> st_max_risk_per_trade st" "0 \<le> st_max_position_exposure st" "0 \<le> st_max_portfolio_exposure st"
  obtains sz where "e = accepted sz" "0 < sz_quantity sz" "sizing_ok (rq_quantity rq) sz"
proof -
  from assms(1,2) obtain price sz where pre: "pre_checks st rq cx md_now s = Inr price"
    and l: "limit_checks st rq cx (prune_order_times now (rs_recent_order_times s)) now price = Inr sz"
    and e: "e = accepted sz"
    by (rule evaluate_acceptingE)
  note pd = pre_checks_InrD [OF pre] and ld = limit_checks_InrD [OF l]
  have q: "0 < sz_quantity sz" using ld(4) by (auto simp: check_final_def split: if_split_asm)
  have qty: "0 < rq_quantity rq" and mark: "\<And>m. cx_mark_price cx = Some m \<Longrightarrow> 0 \<le> m"
    using pd(3) by (auto simp: check_validity_def split: if_split_asm)
  have cur: "0 \<le> current_notional cx"
    by (rule current_notional_nonneg) (use pos mark in \<open>auto simp: list_all_iff\<close>)
  have "sizing_ok (rq_quantity rq) sz"
    by (rule size_order_ok(1) [OF ld(3) q grid(1) qty grid(2) pd(5) cash cur lim(2,3,1)])
  with e q that show thesis by blast
qed

end
