(* ===== verification/Risk_Properties.thy ===== *)
theory Risk_Properties
  imports Risk_Sizing
begin

text \<open>
  What the risk engine guarantees: an accepted order has passed every gate; its size is positive,
  at most the requested one, and within the risk, position, portfolio and cash limits; a key is
  accepted at most once and at most \<open>max_orders_per_minute\<close> orders are accepted in any minute
  of a run. One consequence of the sizing code is stated as it is: an over-exposed account
  cannot reduce its exposure.
\<close>

subsection \<open>Runs\<close>

record risk_call =
  rc_request :: order_request
  rc_context :: risk_context
  rc_md_now :: timestamp
  rc_now :: timestamp

text \<open>The evaluations of one engine, each call with the readings of the clock it makes.\<close>

fun accepted_calls :: "settings \<Rightarrow> risk_call list \<Rightarrow> risk_state \<Rightarrow> risk_call list" where
  "accepted_calls st [] s = []"
| "accepted_calls st (c # cs) s =
     (case evaluate st (rc_request c) (rc_context c) (rc_md_now c) (rc_now c) s of
        (e, s') \<Rightarrow> (if is_accepting e then [c] else []) @ accepted_calls st cs s')"

definition accepted_in :: "timestamp \<Rightarrow> risk_call list \<Rightarrow> nat" where
  "accepted_in t cs = length (filter (\<lambda>c. t - seconds 60 \<le> rc_now c \<and> rc_now c \<le> t) cs)"

lemma accepted_calls_keys:
  "distinct (map (rq_idempotency_key \<circ> rc_request) (accepted_calls st cs s))
   \<and> (\<forall>c \<in> set (accepted_calls st cs s).
        rq_idempotency_key (rc_request c) \<notin> rs_seen_idempotency_keys s)"
proof (induction cs arbitrary: s)
  case (Cons c cs)
  obtain e s' where ev: "evaluate st (rc_request c) (rc_context c) (rc_md_now c) (rc_now c) s = (e, s')"
    by fastforce
  from ev show ?case
  proof (cases rule: evaluate_cases)
    case (accept price sz)
    from pre_checks_InrD(3) [OF accept(2)]
    have "rq_idempotency_key (rc_request c) \<notin> rs_seen_idempotency_keys s"
      by (auto simp: check_validity_def split: if_splits)
    with accept Cons.IH [of s'] ev show ?thesis by auto
  next
    case refuse
    with Cons.IH [of s'] ev show ?thesis by auto
  qed
qed simp

text \<open>
  The invariant of the rate limit: after accepting \<open>acc\<close>, the latest no later than \<open>clk\<close>, the
  engine's list of recent times agrees with the accepted ones on every window that can still be
  asked about, and no window holds more than the limit.
\<close>

definition rate_inv :: "settings \<Rightarrow> risk_call list \<Rightarrow> timestamp \<Rightarrow> risk_state \<Rightarrow> bool" where
  "rate_inv st acc clk s \<longleftrightarrow>
     (\<forall>now \<ge> clk. prune_order_times now (rs_recent_order_times s)
                     = prune_order_times now (map rc_now acc))
   \<and> (\<forall>c \<in> set acc. rc_now c \<le> clk)
   \<and> (\<forall>t. int (accepted_in t acc) \<le> st_max_orders_per_minute st)"

lemma prune_prune: "now \<le> now' \<Longrightarrow> prune_order_times now' (prune_order_times now ts) = prune_order_times now' ts"
  by (auto simp: prune_order_times_def intro!: filter_cong)

lemma accepted_in_le_prune:
  assumes "\<forall>c \<in> set acc. rc_now c \<le> now" and "now \<le> t"
  shows "accepted_in t acc \<le> length (prune_order_times now (map rc_now acc))"
proof -
  have "length (filter (\<lambda>c. t - seconds 60 \<le> rc_now c \<and> rc_now c \<le> t) acc)
        \<le> length (filter (\<lambda>c. now - seconds 60 \<le> rc_now c) acc)"
    using assms(2)
    by (induction acc) auto
  then show ?thesis by (simp add: accepted_in_def prune_order_times_def filter_map comp_def)
qed

lemma rate_inv_accept:
  assumes inv: "rate_inv st acc clk s" and now: "clk \<le> rc_now c"
    and freq: "check_frequency st (prune_order_times (rc_now c) (rs_recent_order_times s)) (rc_now c) = None"
  shows "rate_inv st (acc @ [c]) (rc_now c)
    (s\<lparr>rs_seen_idempotency_keys := k,
       rs_recent_order_times := prune_order_times (rc_now c) (rs_recent_order_times s) @ [rc_now c]\<rparr>)"
proof -
  let ?n = "rc_now c"
  have p: "prune_order_times ?n (rs_recent_order_times s) = prune_order_times ?n (map rc_now acc)"
    using inv now by (simp add: rate_inv_def)
  have le: "\<forall>d \<in> set acc. rc_now d \<le> ?n" using inv now by (auto simp: rate_inv_def)
  have room: "int (length (prune_order_times ?n (map rc_now acc))) < st_max_orders_per_minute st"
    using freq by (simp add: check_frequency_def p split: if_splits)
  have "int (accepted_in t (acc @ [c])) \<le> st_max_orders_per_minute st" for t
  proof (cases "?n \<le> t")
    case True
    from accepted_in_le_prune [OF le True] room show ?thesis by (simp add: accepted_in_def)
  next
    case False
    then have "accepted_in t (acc @ [c]) = accepted_in t acc" by (simp add: accepted_in_def)
    with inv show ?thesis by (simp add: rate_inv_def)
  qed
  moreover have "prune_order_times now (prune_order_times ?n (map rc_now acc) @ [?n])
      = prune_order_times now (map rc_now (acc @ [c]))" if "?n \<le> now" for now
    using prune_prune [OF that, of "map rc_now acc"] by (simp add: prune_order_times_def)
  ultimately show ?thesis using le by (auto simp: rate_inv_def p)
qed

lemma rate_inv_run:
  assumes "rate_inv st acc clk s" and "sorted (map rc_now cs)"
    and "\<forall>c \<in> set cs. clk \<le> rc_now c"
  shows "int (accepted_in t (acc @ accepted_calls st cs s)) \<le> st_max_orders_per_minute st"
  using assms
proof (induction cs arbitrary: acc clk s)
  case Nil
  then show ?case by (simp add: rate_inv_def)
next
  case (Cons c cs)
  obtain e s' where ev: "evaluate st (rc_request c) (rc_context c) (rc_md_now c) (rc_now c) s = (e, s')"
    by fastforce
  from ev show ?case
  proof (cases rule: evaluate_cases)
    case (accept price sz)
    have "rate_inv st (acc @ [c]) (rc_now c) s'"
      unfolding accept(5) using Cons.prems limit_checks_InrD(1) [OF accept(3)]
      by (intro rate_inv_accept [of _ _ clk]) auto
    from Cons.IH [OF this] Cons.prems accept ev show ?thesis by simp
  next
    case refuse
    have "rate_inv st acc (rc_now c) s'"
      using refuse Cons.prems by (auto simp: rate_inv_def prune_prune)
    from Cons.IH [OF this] Cons.prems refuse ev show ?thesis by simp
  qed
qed

subsection \<open>Properties\<close>


text \<open>
  C3. The size of an accepted order: positive, at most the requested quantity and equal to it
  when the decision is \<open>APPROVED\<close>; within the risk, position and portfolio budgets, each
  up to the relative rounding error of the 28-digit context; and a buy that is not reduce-only
  costs at most the cash. The hypotheses are the ranges the settings and the ledger keep, and a
  quantity with at most eight decimal places below \<open>10 ^ 18\<close>.
\<close>

theorem risk_accept_size:
  assumes "evaluate st rq cx md_now now s = (e, s')" and "is_accepting e"
    and "order_price rq cx = Some price" and "ev_approved_quantity e = Some q"
    and "on_grid 8 (rq_quantity rq)" and "rq_quantity rq < 10 ^ 18"
    and "0 \<le> pf_cash_balance (cx_portfolio cx)"
    and "list_all (\<lambda>p. 0 \<le> p_quantity p \<and> 0 \<le> p_current_price p) (pf_open_positions (cx_portfolio cx))"
    and "0 \<le> st_max_risk_per_trade st" and "0 \<le> st_max_position_exposure st"
    and "0 \<le> st_max_portfolio_exposure st"
  shows "0 < q \<and> q \<le> rq_quantity rq
    \<and> (ev_decision e = RApproved \<longrightarrow> q = rq_quantity rq)
    \<and> q * unit_risk rq price \<le> risk_budget st (cx_portfolio cx) * (1 + 1 / 10 ^ 27)
    \<and> q * price \<le> dmul (sizing_equity (cx_portfolio cx)) (st_max_position_exposure st)
                   * (1 + 1 / 10 ^ 27)
    \<and> current_notional cx + q * price
        \<le> dmul (sizing_equity (cx_portfolio cx)) (st_max_portfolio_exposure st) * (1 + 1 / 10 ^ 26)
    \<and> (rq_side rq = Buy \<and> \<not> rq_reduce_only rq \<longrightarrow> dmul q price \<le> pf_cash_balance (cx_portfolio cx))"
proof -
  from assms(1,2) obtain pr sz where pre: "pre_checks st rq cx md_now s = Inr pr"
    and lim: "limit_checks st rq cx (prune_order_times now (rs_recent_order_times s)) now pr = Inr sz"
    and e: "e = accepted sz"
    by (rule evaluate_acceptingE)
  note pd = pre_checks_InrD [OF pre] and ld = limit_checks_InrD [OF lim]
  from pd(4) assms(3) have pr: "pr = price" by simp
  from e assms(4) have q: "q = sz_quantity sz" by (simp add: accepted_def)
  have fin: "0 < sz_quantity sz"
    "rq_side rq = Buy \<and> \<not> rq_reduce_only rq \<longrightarrow> dmul q price \<le> pf_cash_balance (cx_portfolio cx)"
    using ld(4) by (auto simp: check_final_def pr q split: if_split_asm)
  have qty: "0 < rq_quantity rq" and mark: "\<And>m. cx_mark_price cx = Some m \<Longrightarrow> 0 \<le> m"
    using pd(3) by (auto simp: check_validity_def split: if_split_asm)
  have cur: "0 \<le> current_notional cx"
    by (rule current_notional_nonneg) (use assms(8) mark in \<open>auto simp: list_all_iff\<close>)
  note sz = size_order_ok [OF ld(3) fin(1) assms(5) qty assms(6) pd(5) assms(7) cur assms(10,11,9)]
  from sz(1) have "q \<le> rq_quantity rq" "ev_decision e = RApproved \<longrightarrow> q = rq_quantity rq"
    by (auto simp: sizing_ok_def q e accepted_def)
  with fin sz(2-4) show ?thesis by (simp add: q pr)
qed

text \<open>
  An idempotency key is accepted at most once: along any run of evaluations, from any state,
  the accepted requests have pairwise different keys, whatever was rejected in between.
\<close>

lemma risk_keys_once:
  "distinct (map (rq_idempotency_key \<circ> rc_request) (accepted_calls st cs s))"
  by (rule accepted_calls_keys [THEN conjunct1])

text \<open>
  The order frequency limit holds on every window: along a run of a fresh engine whose clock
  does not go backwards, at most \<open>max_orders_per_minute\<close> orders are accepted in any period of
  sixty seconds, whichever instant it ends at.
\<close>

lemma risk_rate_limit:
  assumes "sorted (map rc_now cs)" and "0 \<le> st_max_orders_per_minute st"
  shows "int (accepted_in t (accepted_calls st cs initial_risk_state)) \<le> st_max_orders_per_minute st"
proof (cases cs)
  case (Cons c cs')
  have "rate_inv st [] (rc_now c) initial_risk_state"
    using assms(2) by (simp add: rate_inv_def initial_risk_state_def prune_order_times_def accepted_in_def)
  from rate_inv_run [OF this, of cs t] assms(1) Cons show ?thesis by simp
qed (use assms(2) in \<open>simp add: accepted_in_def\<close>)

text \<open>
  An account whose open positions are worth more than the portfolio cap gets no order
  accepted, not even a reduce-only sell that would bring the exposure down: the cap is applied to
  every side, so nothing but a change of price or equity leads out of the state.
\<close>

lemma risk_overexposed_locked:
  assumes "dmul (sizing_equity (cx_portfolio cx)) (st_max_portfolio_exposure st) < current_notional cx"
  shows "\<not> is_accepting (fst (evaluate st rq cx md_now now s))"
proof
  assume acc: "is_accepting (fst (evaluate st rq cx md_now now s))"
  obtain e s' where ev: "evaluate st rq cx md_now now s = (e, s')" by fastforce
  with acc have "is_accepting e" by simp
  with ev obtain price sz where pre: "pre_checks st rq cx md_now s = Inr price"
    and lim: "limit_checks st rq cx (prune_order_times now (rs_recent_order_times s)) now price = Inr sz"
    by (rule evaluate_acceptingE)
  note pd = pre_checks_InrD [OF pre] and ld = limit_checks_InrD [OF lim]
  from ld(4) have pos: "0 < sz_quantity sz" by (auto simp: check_final_def split: if_split_asm)
  from ld(3) obtain sz2 where
    cap: "cap_portfolio st cx price (sizing_equity (cx_portfolio cx)) sz2 = Inr sz"
    by (auto simp: size_order_def Let_def split: sum.split_asm)
  with assms have sz: "sz = sz2" by (auto simp: cap_portfolio_def Let_def split: if_split_asm)
  have "current_notional cx \<le> dadd (current_notional cx) (dmul (sz_quantity sz) price)"
    unfolding dadd_def using pos pd(5)
    by (intro ctx.rep_le_rnd) (simp_all add: current_notional_def dmul_nonneg)
  with assms cap sz show False by (auto simp: cap_portfolio_def Let_def split: if_split_asm)
qed

subsection \<open>A concrete evaluation\<close>

definition sample_portfolio :: portfolio_state where
  "sample_portfolio = \<lparr>pf_cash_balance = 10000, pf_equity = 10000, pf_realized_pnl = 0,
     pf_unrealized_pnl = 0, pf_daily_pnl = 0, pf_peak_equity = 10000, pf_drawdown = 0,
     pf_open_positions = [], pf_consecutive_losses = 0\<rparr>"

definition sample_context :: risk_context where
  "sample_context = \<lparr>cx_portfolio = sample_portfolio, cx_symbol_info = None,
     cx_mark_price = Some 50000, cx_market_data_ts = Some 0, cx_trading_mode = ''paper'',
     cx_live_trading_enabled = False, cx_kill_switch_enabled = False,
     cx_has_exchange_credentials = False, cx_live_approval_valid = False\<rparr>"

definition sample_request :: order_request where
  "sample_request = \<lparr>rq_symbol = ''BTC/USDT'', rq_side = Buy, rq_order_type = Market,
     rq_quantity = 1 / 100, rq_price = None, rq_stop_loss = Some 49500, rq_take_profit = None,
     rq_strategy_name = None, rq_signal_id = None, rq_idempotency_key = ''k1'',
     rq_client_order_id = None, rq_reduce_only = False, rq_metadata = empty_meta\<rparr>"

lemmas sample_defs = sample_portfolio_def sample_context_def sample_request_def

lemma sample_pre_checks:
  "pre_checks default_settings sample_request sample_context 0 initial_risk_state = Inr 50000"
  by (simp add: pre_checks_def check_gates_def check_health_def check_validity_def order_price_def
      check_precision_def sample_defs default_settings_def initial_risk_state_def seconds_def dec_ops)

lemma sample_size_order:
  "size_order default_settings sample_request sample_context 50000
    = Inr \<lparr>sz_quantity = 1 / 100, sz_decision = RApproved, sz_reason = OK\<rparr>"
  by (simp add: size_order_def size_by_risk_def cap_position_def cap_portfolio_def sizing_equity_def
      current_notional_def dsum_def reduced_to_def quantize_down_def trunc_zero_def
      sample_defs default_settings_def dec_ops)

lemma sample_limit_checks:
  "limit_checks default_settings sample_request sample_context [] 0 50000
    = Inr \<lparr>sz_quantity = 1 / 100, sz_decision = RApproved, sz_reason = OK\<rparr>"
  unfolding limit_checks_def sample_size_order
  by (simp add: check_frequency_def check_losses_def check_final_def
      sample_defs default_settings_def dec_ops)

lemma sample_evaluate:
  "evaluate default_settings sample_request sample_context 0 0 initial_risk_state
    = (\<lparr>ev_decision = RApproved, ev_reason_code = OK, ev_approved_quantity = Some (1 / 100)\<rparr>,
       initial_risk_state\<lparr>rs_seen_idempotency_keys := {''k1''}, rs_recent_order_times := [0]\<rparr>)"
proof -
  have "prune_order_times 0 (rs_recent_order_times initial_risk_state) = []"
    by (simp add: prune_order_times_def initial_risk_state_def)
  then show ?thesis unfolding evaluate_def sample_pre_checks Let_def
    by (simp add: sample_limit_checks accepted_def) (simp add: sample_request_def initial_risk_state_def)
qed


theorem risk_accept_size_witness:
  "(1 / 100 :: rat) * 500 \<le> 100 * (1 + 1 / 10 ^ 27) \<and> dmul (1 / 100) 50000 \<le> 10000"
proof -
  have g: "on_grid 8 (1 / 100)" unfolding on_grid_def by (rule exI [of _ 1000000]) simp
  show ?thesis
    using risk_accept_size [OF sample_evaluate, of 50000 "1 / 100"] g
    by (simp add: is_accepting_def sample_defs default_settings_def order_price_def unit_risk_def
        risk_budget_def sizing_equity_def dec_ops)
qed

definition sample_calls :: "risk_call list" where
  "sample_calls = [\<lparr>rc_request = sample_request, rc_context = sample_context, rc_md_now = 0, rc_now = 0\<rparr>]"

lemma sample_accepted: "accepted_calls default_settings sample_calls initial_risk_state = sample_calls"
  by (simp add: sample_calls_def sample_evaluate is_accepting_def)

lemma risk_rate_limit_witness:
  "accepted_in 5 (accepted_calls default_settings sample_calls initial_risk_state) = 1
   \<and> int (accepted_in 5 (accepted_calls default_settings sample_calls initial_risk_state)) \<le> 10"
proof -
  have "int (accepted_in 5 (accepted_calls default_settings sample_calls initial_risk_state))
      \<le> st_max_orders_per_minute default_settings"
    by (rule risk_rate_limit) (simp_all add: sample_calls_def default_settings_def)
  then show ?thesis
    by (simp add: sample_accepted) (simp add: accepted_in_def sample_calls_def seconds_def)
qed

definition overexposed_context :: risk_context where
  "overexposed_context = sample_context\<lparr>cx_portfolio := sample_portfolio\<lparr>pf_open_positions :=
     [\<lparr>p_symbol = ''BTC/USDT'', p_quantity = 1 / 5, p_entry_price = 40000, p_current_price = 50000,
       p_unrealized_pnl = 2000, p_realized_pnl = 0, p_opened_at = 0, p_strategy_name = None,
       p_stop_loss = None, p_take_profit = None\<rparr>]\<rparr>\<rparr>"

lemma risk_overexposed_locked_witness:
  "\<not> is_accepting (fst (evaluate default_settings
     (sample_request\<lparr>rq_side := Sell, rq_reduce_only := True\<rparr>) overexposed_context 0 0
     initial_risk_state))"
  by (rule risk_overexposed_locked)
    (simp add: overexposed_context_def current_notional_def dsum_def or_else_def sizing_equity_def
      sample_defs default_settings_def dec_ops)

end
