(* ===== verification/Paper_Engine.thy ===== *)
theory Paper_Engine
  imports Domain
begin

text \<open>
  The paper trading engine, \<open>app/execution/paper/engine.py\<close>. The ledger is explicit state: every
  operation takes it and returns the new one. \<open>PaperConfig.mark_prices\<close> is the one field of the
  configuration the engine changes, so it is part of the state; the other fields are the
  argument \<open>pc\<close>. What the engine reads from outside is the argument \<open>v\<close>: the clock (one reading
  stands for all readings of a call), the fresh identifiers of \<open>uuid4\<close>, and the draw of the
  random generator. The simulated latency is a sleep and has no counterpart.

  An order is a value: \<open>model_copy\<close> returns a new one, and the one in the ledger changes only
  where the code assigns \<open>state.orders[...]\<close>. The operations keep that difference.
\<close>

subsection \<open>Configuration and state\<close>

record paper_config =
  pc_initial_cash :: decimal
  pc_fee_rate :: decimal
  pc_maker_fee_rate :: "decimal option"
  pc_taker_fee_rate :: "decimal option"
  pc_slippage_rate :: decimal
  pc_spread_rate :: decimal
  pc_partial_fill_fraction :: decimal
  pc_reject_probability :: decimal

definition default_paper_config :: paper_config where
  "default_paper_config = \<lparr>pc_initial_cash = 10000, pc_fee_rate = 1 / 1000,
     pc_maker_fee_rate = None, pc_taker_fee_rate = None, pc_slippage_rate = 5 / 10000,
     pc_spread_rate = 2 / 10000, pc_partial_fill_fraction = 1, pc_reject_probability = 0\<rparr>"

datatype journal_event =
    JOrderCreated order
  | JOrderStatus string order_status
  | JReserve string decimal string
  | JReserveRelease string decimal decimal
  | JFill fill
  | JOrderCancelled string
  | JOrderExpired string

record paper_state =
  ps_cash :: decimal
  ps_reserved_cash :: decimal
  ps_positions :: "(string, position) dict"
  ps_orders :: "(string, order) dict"
  ps_fills :: "fill list"
  ps_journal :: "(timestamp \<times> journal_event) list"
  ps_idempotency_index :: "(string, string) dict"
  ps_realized_pnl :: decimal
  ps_mark_prices :: "(string, decimal) dict"

record paper_env =
  pv_now :: timestamp
  pv_order_id :: string
  pv_fill_id :: "string \<Rightarrow> string"
  pv_draw :: decimal

definition new_engine :: "paper_config \<Rightarrow> paper_state" where
  "new_engine pc = \<lparr>ps_cash = pc_initial_cash pc, ps_reserved_cash = 0, ps_positions = [],
     ps_orders = [], ps_fills = [], ps_journal = [], ps_idempotency_index = [],
     ps_realized_pnl = 0, ps_mark_prices = []\<rparr>"

definition total_cash :: "paper_state \<Rightarrow> decimal" where
  "total_cash s = dadd (ps_cash s) (ps_reserved_cash s)"

definition journal :: "timestamp \<Rightarrow> journal_event \<Rightarrow> paper_state \<Rightarrow> paper_state" where
  "journal now ev s = s\<lparr>ps_journal := ps_journal s @ [(now, ev)]\<rparr>"

definition store_order :: "order \<Rightarrow> paper_state \<Rightarrow> paper_state" where
  "store_order od s = s\<lparr>ps_orders := AList.update (o_id od) od (ps_orders s)\<rparr>"

subsection \<open>Order updates\<close>

definition update_order ::
  "timestamp \<Rightarrow> order \<Rightarrow> order_status \<Rightarrow> risk_evaluation \<Rightarrow> string option \<Rightarrow> paper_state
   \<Rightarrow> order \<times> paper_state" where
  "update_order now od status risk extra s =
     (let updated = od\<lparr>o_status := status, o_risk_decision := Some (ev_decision risk),
            o_risk_reason_code := Some (ev_reason_code risk), o_updated_at := now,
            o_metadata := (case extra of None \<Rightarrow> o_metadata od
                           | Some e \<Rightarrow> (o_metadata od)\<lparr>m_error := Some e\<rparr>)\<rparr>
      in (updated, journal now (JOrderStatus (o_id updated) status) (store_order updated s)))"

definition fee_rate :: "paper_config \<Rightarrow> bool \<Rightarrow> decimal" where
  "fee_rate pc is_maker =
     (case (if is_maker then pc_maker_fee_rate pc else None) of Some r \<Rightarrow> r | None \<Rightarrow>
      case (if \<not> is_maker then pc_taker_fee_rate pc else None) of Some r \<Rightarrow> r | None \<Rightarrow>
      pc_fee_rate pc)"

definition fill_price :: "paper_config \<Rightarrow> decimal \<Rightarrow> order_type \<Rightarrow> order_side \<Rightarrow> decimal option \<Rightarrow> decimal" where
  "fill_price pc mark ty side price =
     (let half_spread = ddiv (dmul mark (pc_spread_rate pc)) 2;
          slip = dmul mark (pc_slippage_rate pc) in
      if ty = Limit \<and> price \<noteq> None then the price
      else if side = Buy then dadd (dadd mark half_spread) slip
      else dsub (dsub mark half_spread) slip)"

subsection \<open>Reservations\<close>

definition reserve_price :: "order_request \<Rightarrow> decimal option \<Rightarrow> decimal option" where
  "reserve_price rq mark =
     (if rq_order_type rq = Limit \<and> rq_price rq \<noteq> None then rq_price rq
      else if rq_order_type rq \<in> {StopLoss, TakeProfit}
      then truthy_or (truthy_or (truthy_or (rq_price rq) (rq_stop_loss rq)) (rq_take_profit rq)) mark
      else mark)"

text \<open>The returned flag is the code's \<open>ok\<close>: whether the order may go on.\<close>

definition reserve_buy ::
  "timestamp \<Rightarrow> order \<Rightarrow> decimal \<Rightarrow> decimal \<Rightarrow> risk_evaluation \<Rightarrow> paper_state
   \<Rightarrow> order \<times> bool \<times> paper_state" where
  "reserve_buy now od qty price risk s =
     (let meta = o_metadata od in
      if m_reservation_open meta then (od, True, s)
      else
        let amount = quantize 8 (dmul qty price) in
        if amount \<le> 0 then (od, True, s)
        else if ps_cash s < amount then
          (case update_order now od Failed risk (Some ''insufficient_for_reserve'') s of
             (failed, s') \<Rightarrow> (failed, False, s'))
        else
          let s1 = s\<lparr>ps_cash := dsub (ps_cash s) amount,
                     ps_reserved_cash := dadd (ps_reserved_cash s) amount\<rparr>;
              s2 = journal now (JReserve (o_id od) amount (o_symbol od)) s1;
              updated = od\<lparr>o_metadata := meta\<lparr>m_reserved_notional := Some amount,
                               m_reserved_remaining := Some amount, m_reservation_open := True\<rparr>,
                           o_updated_at := now\<rparr>
          in (updated, True, store_order updated s2))"

definition reserved_left :: "order_meta \<Rightarrow> decimal" where
  "reserved_left meta =
     (case m_reserved_remaining meta of Some r \<Rightarrow> r
      | None \<Rightarrow> (case m_reserved_notional meta of Some n \<Rightarrow> n | None \<Rightarrow> 0))"

definition release_reservation ::
  "timestamp \<Rightarrow> order \<Rightarrow> decimal option \<Rightarrow> paper_state \<Rightarrow> order \<times> paper_state" where
  "release_reservation now od amount s =
     (let meta = o_metadata od in
      if \<not> m_reservation_open meta then (od, s)
      else
        let remaining = reserved_left meta in
        if remaining \<le> 0 then
          let updated = od\<lparr>o_metadata := meta\<lparr>m_reservation_open := False,
                              m_reserved_remaining := Some 0\<rparr>, o_updated_at := now\<rparr>
          in (updated, store_order updated s)
        else
          let wanted = (case amount of None \<Rightarrow> remaining | Some a \<Rightarrow> min a remaining);
              release = (if wanted > ps_reserved_cash s then ps_reserved_cash s else wanted);
              s1 = s\<lparr>ps_reserved_cash := dsub (ps_reserved_cash s) release,
                     ps_cash := dadd (ps_cash s) release\<rparr>;
              new_remaining = dsub remaining release;
              meta' = (if new_remaining \<le> 0
                       then meta\<lparr>m_reservation_open := False, m_reserved_remaining := Some 0\<rparr>
                       else meta\<lparr>m_reserved_remaining := Some new_remaining\<rparr>);
              s2 = journal now (JReserveRelease (o_id od) release (reserved_left meta')) s1;
              updated = od\<lparr>o_metadata := meta', o_updated_at := now\<rparr>
          in (updated, store_order updated s2))"

subsection \<open>Fills\<close>

definition open_position ::
  "timestamp \<Rightarrow> order \<Rightarrow> decimal \<Rightarrow> decimal \<Rightarrow> position" where
  "open_position now od qty price =
     \<lparr>p_symbol = o_symbol od, p_quantity = qty, p_entry_price = price, p_current_price = price,
      p_unrealized_pnl = 0, p_realized_pnl = 0, p_opened_at = now,
      p_strategy_name = o_strategy_name od, p_stop_loss = None, p_take_profit = None\<rparr>"

definition increase_position :: "position \<Rightarrow> decimal \<Rightarrow> decimal \<Rightarrow> position" where
  "increase_position p qty price =
     (let new_qty = dadd (p_quantity p) qty;
          new_entry = ddiv (dadd (dmul (p_entry_price p) (p_quantity p)) (dmul price qty)) new_qty
      in p\<lparr>p_quantity := new_qty, p_entry_price := new_entry, p_current_price := price,
           p_unrealized_pnl := dmul (dsub price new_entry) new_qty\<rparr>)"

text \<open>
  The buy side of \<open>_apply_fill\<close>: the order after the reservation was consumed, whether the cost
  was covered, and the ledger.
\<close>

definition fill_buy ::
  "timestamp \<Rightarrow> order \<Rightarrow> decimal \<Rightarrow> decimal \<Rightarrow> decimal \<Rightarrow> risk_evaluation \<Rightarrow> paper_state
   \<Rightarrow> order \<times> bool \<times> paper_state" where
  "fill_buy now od qty price fee risk s =
     (let total_reserved = (case m_reserved_notional (o_metadata od) of Some n \<Rightarrow> n | None \<Rightarrow> 0);
          (od1, s1) =
            (if total_reserved > 0 \<and> m_reservation_open (o_metadata od) \<and> o_quantity od > 0
             then release_reservation now od
                    (Some (quantize 8 (ddiv (dmul total_reserved qty) (o_quantity od)))) s
             else (od, s));
          cost = dadd (dmul price qty) fee
      in if cost > ps_cash s1 then
           (let (od2, s2) = release_reservation now od1 None s1;
                (od3, s3) = update_order now od2 Failed risk (Some ''insufficient'') s2
            in (od3, False, s3))
         else
           let s2 = s1\<lparr>ps_cash := dsub (ps_cash s1) cost\<rparr>;
               p' = (case map_of (ps_positions s2) (o_symbol od1) of
                       Some p \<Rightarrow> increase_position p qty price
                     | None \<Rightarrow> open_position now od1 qty price)
           in (od1, True, s2\<lparr>ps_positions := AList.update (o_symbol od1) p' (ps_positions s2)\<rparr>))"

definition fill_sell ::
  "timestamp \<Rightarrow> order \<Rightarrow> decimal \<Rightarrow> decimal \<Rightarrow> decimal \<Rightarrow> risk_evaluation \<Rightarrow> paper_state
   \<Rightarrow> order \<times> bool \<times> paper_state" where
  "fill_sell now od qty price fee risk s =
     (case map_of (ps_positions s) (o_symbol od) of
        None \<Rightarrow>
          (let (od1, s1) = update_order now od Failed risk (Some ''no position'') s in (od1, False, s1))
      | Some p \<Rightarrow>
          if p_quantity p < qty then
            (let (od1, s1) = update_order now od Failed risk (Some ''no position'') s
             in (od1, False, s1))
          else
            let proceeds = dsub (dmul price qty) fee;
                realized = dsub (dmul (dsub price (p_entry_price p)) qty) fee;
                remaining = dsub (p_quantity p) qty;
                s1 = s\<lparr>ps_cash := dadd (ps_cash s) proceeds,
                       ps_realized_pnl := dadd (ps_realized_pnl s) realized\<rparr>
            in (od, True,
                s1\<lparr>ps_positions :=
                  (if remaining = 0 then AList.delete (o_symbol od) (ps_positions s1)
                   else AList.update (o_symbol od)
                          (p\<lparr>p_quantity := remaining, p_current_price := price,
                             p_unrealized_pnl := dmul (dsub price (p_entry_price p)) remaining,
                             p_realized_pnl := dadd (p_realized_pnl p) realized\<rparr>)
                          (ps_positions s1))\<rparr>))"

text \<open>
  The order after a fill. It is a \<open>model_copy\<close>: the ledger still holds the one from before.
\<close>

definition filled_copy :: "timestamp \<Rightarrow> order \<Rightarrow> decimal \<Rightarrow> decimal \<Rightarrow> decimal \<Rightarrow> order" where
  "filled_copy now od qty price fee =
     (let filled = dadd (o_filled_quantity od) qty;
          avg = (case o_average_fill_price od of
                   None \<Rightarrow> price
                 | Some a \<Rightarrow> ddiv (dadd (dmul a (o_filled_quantity od)) (dmul price qty)) filled)
      in od\<lparr>o_filled_quantity := filled, o_average_fill_price := Some avg,
            o_fees := dadd (o_fees od) fee, o_updated_at := now\<rparr>)"

definition apply_fill ::
  "paper_config \<Rightarrow> paper_env \<Rightarrow> order \<Rightarrow> decimal \<Rightarrow> decimal \<Rightarrow> risk_evaluation \<Rightarrow> bool \<Rightarrow> paper_state
   \<Rightarrow> order \<times> paper_state" where
  "apply_fill pc v od qty price risk is_maker s =
     (let now = pv_now v;
          fee = quantize 8 (dmul (dmul price qty) (fee_rate pc is_maker));
          fl = \<lparr>f_id = pv_fill_id v (o_id od), f_order_id = o_id od, f_symbol = o_symbol od,
                f_side = o_side od, f_quantity = qty, f_price = price, f_fee = fee,
                f_timestamp = now\<rparr>;
          s1 = journal now (JFill fl) (s\<lparr>ps_fills := ps_fills s @ [fl]\<rparr>);
          (od1, ok, s2) =
            (if o_side od = Buy then fill_buy now od qty price fee risk s1
             else fill_sell now od qty price fee risk s1)
      in if ok then (filled_copy now od1 qty price fee, s2) else (od1, s2))"

definition execute_fill ::
  "paper_config \<Rightarrow> paper_env \<Rightarrow> order \<Rightarrow> order_request \<Rightarrow> risk_evaluation \<Rightarrow> decimal \<Rightarrow> paper_state
   \<Rightarrow> order \<times> paper_state" where
  "execute_fill pc v od rq risk mark s =
     (let now = pv_now v;
          price = fill_price pc mark (rq_order_type rq) (rq_side rq) (rq_price rq);
          qty = quantize_down 8 (dmul (rq_quantity rq) (pc_partial_fill_fraction pc))
      in if qty \<le> 0 then update_order now od Failed risk None s
         else
           let (od1, s1) = apply_fill pc v od qty price risk (rq_order_type rq = Limit) s
           in if o_status od1 = Failed then (od1, s1)
              else if qty < rq_quantity rq then update_order now od1 PartiallyFilled risk None s1
              else
                let (od2, s2) = release_reservation now od1 None s1
                in update_order now od2 Filled risk None s2)"

subsection \<open>Marks and resting orders\<close>

definition rest_triggered :: "string \<Rightarrow> decimal \<Rightarrow> order \<Rightarrow> bool" where
  "rest_triggered sy mark od \<longleftrightarrow>
     o_symbol od = sy \<and> o_status od \<in> {Submitted, PartiallyFilled}
   \<and> dsub (o_quantity od) (o_filled_quantity od) > 0
   \<and> (case o_price od of
        None \<Rightarrow> False
      | Some price \<Rightarrow>
          (case o_order_type od of
             Limit \<Rightarrow> \<not> (o_side od = Buy \<and> mark > price) \<and> \<not> (o_side od = Sell \<and> mark < price)
           | StopLoss \<Rightarrow> \<not> (o_side od = Sell \<and> mark > price) \<and> \<not> (o_side od = Buy \<and> mark < price)
           | TakeProfit \<Rightarrow> \<not> (o_side od = Sell \<and> mark < price) \<and> \<not> (o_side od = Buy \<and> mark > price)
           | Market \<Rightarrow> False))"

definition trigger_order ::
  "paper_config \<Rightarrow> paper_env \<Rightarrow> string \<Rightarrow> decimal \<Rightarrow> order \<Rightarrow> paper_state \<Rightarrow> paper_state" where
  "trigger_order pc v sy mark od s =
     (if \<not> rest_triggered sy mark od then s
      else
        let now = pv_now v;
            remaining = dsub (o_quantity od) (o_filled_quantity od);
            risk = \<lparr>ev_decision = (case o_risk_decision od of Some d \<Rightarrow> d | None \<Rightarrow> RApproved),
                    ev_reason_code = (case o_risk_reason_code od of Some c \<Rightarrow> c | None \<Rightarrow> OK),
                    ev_approved_quantity = Some remaining\<rparr>;
            price = fill_price pc mark (o_order_type od) (o_side od) (o_price od);
            qty = (if pc_partial_fill_fraction pc < 1
                   then quantize_down 8 (dmul remaining (pc_partial_fill_fraction pc))
                   else remaining)
        in if qty \<le> 0 then s
           else
             let (od1, s1) = apply_fill pc v od qty price risk (o_order_type od = Limit) s
             in if o_status od1 = Failed then s1
                else if qty < remaining then snd (update_order now od1 PartiallyFilled risk None s1)
                else
                  let (od2, s2) = release_reservation now od1 None s1
                  in snd (update_order now od2 Filled risk None s2))"

text \<open>The loop runs over the orders as they are when it starts.\<close>

definition try_trigger_resting ::
  "paper_config \<Rightarrow> paper_env \<Rightarrow> string \<Rightarrow> decimal \<Rightarrow> paper_state \<Rightarrow> paper_state" where
  "try_trigger_resting pc v sy mark s =
     fold (trigger_order pc v sy mark) (dict_values (ps_orders s)) s"

definition set_mark_price ::
  "paper_config \<Rightarrow> paper_env \<Rightarrow> string \<Rightarrow> decimal \<Rightarrow> paper_state \<Rightarrow> paper_state" where
  "set_mark_price pc v sy price s =
     (let s1 = s\<lparr>ps_mark_prices := AList.update sy price (ps_mark_prices s)\<rparr>;
          s2 = (case map_of (ps_positions s1) sy of
                  None \<Rightarrow> s1
                | Some p \<Rightarrow>
                    s1\<lparr>ps_positions := AList.update sy
                         (p\<lparr>p_current_price := price,
                            p_unrealized_pnl := dmul (dsub price (p_entry_price p)) (p_quantity p)\<rparr>)
                         (ps_positions s1)\<rparr>)
      in try_trigger_resting pc v sy price s2)"

subsection \<open>Submission\<close>

definition new_order :: "paper_env \<Rightarrow> order_request \<Rightarrow> order" where
  "new_order v rq =
     \<lparr>o_id = pv_order_id v,
      o_client_order_id = (case rq_client_order_id rq of
          Some c \<Rightarrow> if c \<noteq> [] then c else ''paper-'' @ take 12 (pv_order_id v)
        | None \<Rightarrow> ''paper-'' @ take 12 (pv_order_id v)),
      o_idempotency_key = rq_idempotency_key rq, o_symbol = rq_symbol rq, o_side = rq_side rq,
      o_order_type = rq_order_type rq, o_quantity = rq_quantity rq, o_filled_quantity = 0,
      o_price = rq_price rq, o_average_fill_price = None, o_status = RiskPending,
      o_strategy_name = rq_strategy_name rq, o_signal_id = rq_signal_id rq,
      o_risk_decision = None, o_risk_reason_code = None, o_created_at = pv_now v,
      o_updated_at = pv_now v, o_fees = 0, o_metadata = rq_metadata rq\<rparr>"

definition register_order ::
  "paper_env \<Rightarrow> order_request \<Rightarrow> paper_state \<Rightarrow> order \<times> paper_state" where
  "register_order v rq s =
     (let od = new_order v rq;
          s1 = store_order od (journal (pv_now v) (JOrderCreated od) s)
      in (od, s1\<lparr>ps_idempotency_index :=
                    AList.update (rq_idempotency_key rq) (pv_order_id v) (ps_idempotency_index s1)\<rparr>))"

text \<open>The reservation step of a buy; other orders pass.\<close>

definition lock_notional ::
  "paper_env \<Rightarrow> order_request \<Rightarrow> risk_evaluation \<Rightarrow> decimal option \<Rightarrow> order \<Rightarrow> paper_state
   \<Rightarrow> order \<times> bool \<times> paper_state" where
  "lock_notional v rq risk mark od s =
     (if rq_side rq = Buy then
        (case reserve_price rq mark of
           Some px \<Rightarrow> reserve_buy (pv_now v) od (or_else (ev_approved_quantity risk) (rq_quantity rq)) px risk s
         | None \<Rightarrow> (od, True, s))
      else (od, True, s))"

text \<open>
  Whether an order with a known mark rests (\<open>Some True\<close>), is to be filled (\<open>Some False\<close>), or has
  no trigger price (\<open>None\<close>, which the code rejects).
\<close>

definition rests_at :: "order_request \<Rightarrow> decimal \<Rightarrow> bool option" where
  "rests_at rq mark =
     (case rq_order_type rq of
        Market \<Rightarrow> Some False
      | Limit \<Rightarrow>
          (case rq_price rq of
             None \<Rightarrow> Some False
           | Some p \<Rightarrow> Some (rq_side rq = Buy \<and> mark > p \<or> rq_side rq = Sell \<and> mark < p))
      | StopLoss \<Rightarrow>
          (case truthy_or (rq_price rq) (rq_stop_loss rq) of
             None \<Rightarrow> None
           | Some t \<Rightarrow> Some (rq_side rq = Sell \<and> mark > t \<or> rq_side rq = Buy \<and> mark < t))
      | TakeProfit \<Rightarrow>
          (case truthy_or (rq_price rq) (rq_take_profit rq) of
             None \<Rightarrow> None
           | Some t \<Rightarrow> Some (rq_side rq = Sell \<and> mark < t \<or> rq_side rq = Buy \<and> mark > t)))"

definition fill_or_rest ::
  "paper_config \<Rightarrow> paper_env \<Rightarrow> order_request \<Rightarrow> risk_evaluation \<Rightarrow> decimal \<Rightarrow> order \<Rightarrow> paper_state
   \<Rightarrow> order \<times> paper_state" where
  "fill_or_rest pc v rq risk mark od s =
     (case rests_at rq mark of
        Some True \<Rightarrow> (od, s)
      | Some False \<Rightarrow> execute_fill pc v od rq risk mark s
      | None \<Rightarrow>
          (let (od1, s1) = release_reservation (pv_now v) od None s
           in update_order (pv_now v) od1 Rejected risk
                (Some (if rq_order_type rq = StopLoss then ''no_stop_trigger'' else ''no_tp_trigger'')) s1))"

text \<open>The submitted order: the optional liquidity rejection, the mark, the lock, the fill.\<close>

definition place_order ::
  "paper_config \<Rightarrow> paper_env \<Rightarrow> order_request \<Rightarrow> risk_evaluation \<Rightarrow> order \<Rightarrow> paper_state
   \<Rightarrow> order \<times> paper_state" where
  "place_order pc v rq risk od s =
     (if pc_reject_probability pc > 0 \<and> pv_draw v < pc_reject_probability pc
      then update_order (pv_now v) od Rejected risk (Some ''insufficient_liquidity'') s
      else
        let known = map_of (ps_mark_prices s) (rq_symbol rq);
            mark = (if known = None \<and> rq_order_type rq = Limit \<and> rq_price rq \<noteq> None
                    then rq_price rq else known)
        in case mark of
             None \<Rightarrow>
               if rq_order_type rq \<in> {StopLoss, TakeProfit}
               then (let (od1, _, s1) = lock_notional v rq risk mark od s in (od1, s1))
               else update_order (pv_now v) od Failed risk (Some ''no mark'') s
           | Some m \<Rightarrow>
               let (od1, ok, s1) = lock_notional v rq risk mark od s
               in if ok then fill_or_rest pc v rq risk m od1 s1 else (od1, s1))"

definition submit ::
  "paper_config \<Rightarrow> paper_env \<Rightarrow> order_request \<Rightarrow> risk_evaluation \<Rightarrow> paper_state
   \<Rightarrow> py_error + order \<times> paper_state" where
  "submit pc v rq risk s =
     (case map_of (ps_idempotency_index s) (rq_idempotency_key rq) of
        Some existing_id \<Rightarrow>
          (case map_of (ps_orders s) existing_id of
             Some od \<Rightarrow> Inr (od, s)
           | None \<Rightarrow> Inl (KeyError existing_id))
      | None \<Rightarrow>
          let (od, s1) = register_order v rq s in
          if ev_decision risk \<in> {RRejected, RHalted}
          then Inr (update_order (pv_now v) od Rejected risk None s1)
          else
            let (od2, s2) = update_order (pv_now v) od Approved risk None s1;
                (od3, s3) = update_order (pv_now v) od2 Submitted risk None s2
            in Inr (place_order pc v rq risk od3 s3))"

subsection \<open>Cancelling and expiring\<close>

definition cancel :: "timestamp \<Rightarrow> string \<Rightarrow> paper_state \<Rightarrow> py_error + order \<times> paper_state" where
  "cancel now oid s =
     (case map_of (ps_orders s) oid of
        None \<Rightarrow> Inl (KeyError oid)
      | Some od \<Rightarrow>
          if o_status od \<notin> {Created, RiskPending, Approved, Submitted, PartiallyFilled}
          then Inr (od, s)
          else
            let (od1, s1) = release_reservation now od None s;
                updated = od1\<lparr>o_status := Cancelled, o_updated_at := now\<rparr>
            in Inr (updated, journal now (JOrderCancelled oid)
                      (s1\<lparr>ps_orders := AList.update oid updated (ps_orders s1)\<rparr>)))"

definition expire :: "timestamp \<Rightarrow> string \<Rightarrow> paper_state \<Rightarrow> py_error + order \<times> paper_state" where
  "expire now oid s =
     (case map_of (ps_orders s) oid of
        None \<Rightarrow> Inl (KeyError oid)
      | Some od \<Rightarrow>
          if o_status od \<notin> {Submitted, PartiallyFilled, Approved}
          then Inr (od, s)
          else
            let (od1, s1) = release_reservation now od None s;
                updated = od1\<lparr>o_status := Expired, o_updated_at := now\<rparr>
            in Inr (updated, journal now (JOrderExpired oid)
                      (s1\<lparr>ps_orders := AList.update oid updated (ps_orders s1)\<rparr>)))"

end
