(* ===== verification/Paper_Ledger.thy ===== *)
theory Paper_Ledger
  imports Paper_Engine
begin

text \<open>
  The well-formedness of the paper ledger and its preservation by the engine's steps on one
  order. An order is well formed (\<open>order_ok\<close>) when its open reservation is a non-negative amount
  with eight places held by a buy that is not yet terminal, its filled quantity is within its
  quantity, and its price is not negative. The ledger (\<open>ledger_ok\<close>) never has negative cash, an empty position or a negative price, and its
  reserved cash is exactly the sum of the open reservations.

  \<open>keeps od s r\<close> is the contract every step shares: from a well-formed ledger \<open>s\<close> whose order
  agrees with the working copy \<open>od\<close>, the result \<open>r\<close> is again such a pair for the same order, and
  no other order changed. Contracts compose by \<open>keeps_trans\<close>.
\<close>

subsection \<open>Arithmetic of eight-place amounts\<close>

abbreviation amount_limit :: rat where
  "amount_limit \<equiv> 10 ^ 20"

lemma ctx_amount: "on_grid 8 x \<Longrightarrow> 0 \<le> x \<Longrightarrow> x < amount_limit \<Longrightarrow> ctx x = x"
  by (rule ctx_on_grid [of 8]) simp_all

lemma dadd_amount:
  "on_grid 8 x \<Longrightarrow> on_grid 8 y \<Longrightarrow> 0 \<le> x + y \<Longrightarrow> x + y < amount_limit \<Longrightarrow> dadd x y = x + y"
  unfolding dadd_def by (intro ctx_amount on_grid_add)

lemma dsub_amount:
  "on_grid 8 x \<Longrightarrow> on_grid 8 y \<Longrightarrow> y \<le> x \<Longrightarrow> x - y < amount_limit \<Longrightarrow> dsub x y = x - y"
  unfolding dsub_def by (intro ctx_amount on_grid_diff) simp_all

lemma on_grid_sum_list: "(\<And>x. x \<in> set xs \<Longrightarrow> on_grid d (f x)) \<Longrightarrow> on_grid d (sum_list (map f xs))"
  by (induction xs) (simp_all add: on_grid_add)

lemma quantize_amount_le:
  assumes "0 \<le> x" "0 \<le> r" "r \<le> 1 / 4"
  shows "quantize 8 (dmul x r) \<le> x"
proof (cases "dmul x r \<le> 1 / (2 * 10 ^ 8)")
  case True
  then have "half_even (dmul x r * 10 ^ 8) \<le> half_even (1 / 2)" by (intro half_even_mono) simp
  then have "half_even (dmul x r * 10 ^ 8) \<le> 0" by (simp add: half_even_def)
  then have "quantize 8 (dmul x r) \<le> 0" by (simp add: quantize_def)
  with assms(1) show ?thesis by linarith
next
  case False
  have "dmul x r \<le> x * r * (1 + 1 / 10 ^ 27)"
    unfolding dmul_def using assms by (intro ctx_upper) simp
  also have "\<dots> \<le> x * (1 / 4) * (1 + 1 / 10 ^ 27)"
    using assms by (intro mult_right_mono mult_left_mono) simp_all
  finally have "2 * dmul x r \<le> x" using assms(1) by simp
  moreover have "quantize 8 (dmul x r) \<le> dmul x r + 1 / (2 * 10 ^ 8)"
    using quantize_error [of 8 "dmul x r"] abs_ge_self [of "quantize 8 (dmul x r) - dmul x r"]
    by linarith
  ultimately show ?thesis using False by linarith
qed

subsection \<open>Well-formed ledgers\<close>

definition order_reserved :: "order \<Rightarrow> decimal" where
  "order_reserved od =
     (if m_reservation_open (o_metadata od) then reserved_left (o_metadata od) else 0)"

definition order_ok :: "order \<Rightarrow> bool" where
  "order_ok od \<longleftrightarrow>
     (m_reservation_open (o_metadata od) \<longrightarrow>
        on_grid 8 (reserved_left (o_metadata od)) \<and> 0 \<le> reserved_left (o_metadata od)
        \<and> o_side od = Buy \<and> \<not> terminal_status (o_status od))
   \<and> on_grid 8 (o_quantity od) \<and> o_quantity od < amount_limit
   \<and> on_grid 8 (o_filled_quantity od) \<and> 0 \<le> o_filled_quantity od
   \<and> o_filled_quantity od \<le> o_quantity od
   \<and> pred_option (\<lambda>p. 0 \<le> p) (o_price od)"

definition reservations_ok :: "paper_state \<Rightarrow> bool" where
  "reservations_ok s \<longleftrightarrow>
     distinct_keys (ps_orders s)
   \<and> (\<forall>k od. map_of (ps_orders s) k = Some od \<longrightarrow> o_id od = k \<and> order_ok od)
   \<and> ps_reserved_cash s = sum_list (map order_reserved (dict_values (ps_orders s)))
   \<and> ps_reserved_cash s < amount_limit"

definition holdings_ok :: "paper_state \<Rightarrow> bool" where
  "holdings_ok s \<longleftrightarrow>
     0 \<le> ps_cash s \<and> distinct_keys (ps_positions s)
   \<and> (\<forall>k p. map_of (ps_positions s) k = Some p \<longrightarrow>
          p_symbol p = k \<and> 0 < p_quantity p \<and> 0 \<le> p_entry_price p \<and> 0 \<le> p_current_price p)"

definition ledger_ok :: "paper_state \<Rightarrow> bool" where
  "ledger_ok s \<longleftrightarrow> reservations_ok s \<and> holdings_ok s"

text \<open>The working copy of an order agrees with the ledger on what is reserved for it.\<close>

definition current :: "paper_state \<Rightarrow> order \<Rightarrow> bool" where
  "current s od \<longleftrightarrow> order_ok od
   \<and> (\<exists>od'. map_of (ps_orders s) (o_id od) = Some od' \<and> o_metadata od' = o_metadata od)"

definition keeps :: "order \<Rightarrow> paper_state \<Rightarrow> order \<times> paper_state \<Rightarrow> bool" where
  "keeps od s r \<longleftrightarrow>
     (case r of (od', s') \<Rightarrow>
        ledger_ok s' \<and> current s' od' \<and> o_id od' = o_id od
      \<and> (\<forall>k. k \<noteq> o_id od \<longrightarrow> map_of (ps_orders s') k = map_of (ps_orders s) k)
      \<and> ps_idempotency_index s' = ps_idempotency_index s
      \<and> ps_mark_prices s' = ps_mark_prices s)"

lemma keeps_refl: "ledger_ok s \<Longrightarrow> current s od \<Longrightarrow> keeps od s (od, s)"
  by (simp add: keeps_def)

lemma keeps_trans:
  assumes "keeps od s (od1, s1)" and "keeps od1 s1 r"
  shows "keeps od s r"
  using assms by (auto simp: keeps_def)

lemma keepsD:
  assumes "keeps od s (od', s')"
  shows "ledger_ok s'" "current s' od'" "o_id od' = o_id od"
    "\<And>k. k \<noteq> o_id od \<Longrightarrow> map_of (ps_orders s') k = map_of (ps_orders s) k"
    "ps_idempotency_index s' = ps_idempotency_index s" "ps_mark_prices s' = ps_mark_prices s"
  using assms by (auto simp: keeps_def)

lemma ledger_order:
  assumes "ledger_ok s" and m: "map_of (ps_orders s) k = Some od"
  shows "o_id od = k" and "order_ok od" and "current s od"
proof -
  show "o_id od = k" and "order_ok od"
    using assms unfolding ledger_ok_def reservations_ok_def by blast+
  with m show "current s od" by (simp add: current_def)
qed

text \<open>Facts about the reserved sum of a well-formed ledger.\<close>

lemma order_reserved_nonneg: "order_ok od \<Longrightarrow> 0 \<le> order_reserved od"
  by (simp add: order_ok_def order_reserved_def)

lemma order_reserved_grid: "order_ok od \<Longrightarrow> on_grid 8 (order_reserved od)"
  by (simp add: order_ok_def order_reserved_def)

lemma reservations_order_ok:
  "reservations_ok s \<Longrightarrow> od \<in> set (dict_values (ps_orders s)) \<Longrightarrow> order_ok od"
  unfolding reservations_ok_def by (metis dict_values_mapD)

lemma reserved_nonneg: "reservations_ok s \<Longrightarrow> 0 \<le> ps_reserved_cash s"
proof -
  assume ok: "reservations_ok s"
  then have "0 \<le> sum_list (map order_reserved (dict_values (ps_orders s)))"
    by (intro sum_list_nonneg) (auto dest: reservations_order_ok order_reserved_nonneg)
  with ok show ?thesis by (simp add: reservations_ok_def)
qed

lemma reserved_grid: "reservations_ok s \<Longrightarrow> on_grid 8 (ps_reserved_cash s)"
proof -
  assume ok: "reservations_ok s"
  then have "on_grid 8 (sum_list (map order_reserved (dict_values (ps_orders s))))"
    by (intro on_grid_sum_list) (auto dest: reservations_order_ok order_reserved_grid)
  with ok show ?thesis by (simp add: reservations_ok_def)
qed

lemma order_reserved_le:
  assumes ok: "reservations_ok s" and m: "map_of (ps_orders s) k = Some od"
  shows "order_reserved od \<le> ps_reserved_cash s"
proof -
  have "order_reserved od \<in> set (map order_reserved (dict_values (ps_orders s)))"
    using map_of_Some_value [OF m] by simp
  then have "order_reserved od \<le> sum_list (map order_reserved (dict_values (ps_orders s)))"
    by (intro member_le_sum_list) (auto dest!: reservations_order_ok [OF ok] order_reserved_nonneg)
  with ok show ?thesis by (simp add: reservations_ok_def)
qed

lemma current_reserved_le:
  assumes "reservations_ok s" and "current s od"
  shows "order_reserved od \<le> ps_reserved_cash s"
proof -
  from assms(2) obtain od' where m: "map_of (ps_orders s) (o_id od) = Some od'"
    and e: "o_metadata od' = o_metadata od" by (auto simp: current_def)
  have "order_reserved od' = order_reserved od" by (simp add: order_reserved_def e)
  with order_reserved_le [OF assms(1) m] show ?thesis by simp
qed

text \<open>Writing an order back, with the reserved cash moved by the change of its reservation.\<close>

lemma reservations_ok_write:
  assumes ok: "reservations_ok s" and cur: "current s od0" and id: "o_id od = o_id od0"
    and od: "order_ok od"
    and ord: "ps_orders s' = AList.update (o_id od) od (ps_orders s)"
    and res: "ps_reserved_cash s' = ps_reserved_cash s - order_reserved od0 + order_reserved od"
    and lim: "ps_reserved_cash s' < amount_limit"
  shows "reservations_ok s'" and "current s' od"
proof -
  from cur obtain od1 where m: "map_of (ps_orders s) (o_id od) = Some od1"
    and e: "o_metadata od1 = o_metadata od0" by (auto simp: current_def id)
  have r: "order_reserved od1 = order_reserved od0" by (simp add: order_reserved_def e)
  have dk: "distinct_keys (ps_orders s)" using ok by (simp add: reservations_ok_def)
  show "reservations_ok s'"
    using ok od lim unfolding reservations_ok_def res ord
    by (auto simp: sum_list_update_dict [OF dk m] r map_of_update_if split: if_splits)
  show "current s' od" using od by (simp add: current_def ord)
qed

lemma reservations_ok_insert:
  assumes ok: "reservations_ok s" and new: "map_of (ps_orders s) (o_id od) = None"
    and od: "order_ok od" "order_reserved od = 0"
    and ord: "ps_orders s' = AList.update (o_id od) od (ps_orders s)"
    and res: "ps_reserved_cash s' = ps_reserved_cash s"
  shows "reservations_ok s'" and "current s' od"
  using ok od unfolding reservations_ok_def res ord current_def
  by (auto simp: sum_list_insert_dict [OF new] map_of_update_if split: if_splits)

lemma current_frame: "ps_orders s' = ps_orders s \<Longrightarrow> current s' od \<longleftrightarrow> current s od"
  by (simp add: current_def)

lemma reservations_frame:
  "ps_orders s' = ps_orders s \<Longrightarrow> ps_reserved_cash s' = ps_reserved_cash s \<Longrightarrow>
   reservations_ok s' \<longleftrightarrow> reservations_ok s"
  by (simp add: reservations_ok_def)

lemma holdings_frame:
  "ps_cash s' = ps_cash s \<Longrightarrow> ps_positions s' = ps_positions s \<Longrightarrow> holdings_ok s' \<longleftrightarrow> holdings_ok s"
  by (simp add: holdings_ok_def)

text \<open>What the auxiliary writes leave alone.\<close>

lemma journal_frame [simp, frame_simps]:
  "ps_cash (journal now ev s) = ps_cash s"
  "ps_reserved_cash (journal now ev s) = ps_reserved_cash s"
  "ps_positions (journal now ev s) = ps_positions s"
  "ps_orders (journal now ev s) = ps_orders s"
  "ps_fills (journal now ev s) = ps_fills s"
  "ps_idempotency_index (journal now ev s) = ps_idempotency_index s"
  "ps_realized_pnl (journal now ev s) = ps_realized_pnl s"
  "ps_mark_prices (journal now ev s) = ps_mark_prices s"
  by (simp_all add: journal_def)

lemma store_order_frame [simp, frame_simps]:
  "ps_cash (store_order od s) = ps_cash s"
  "ps_reserved_cash (store_order od s) = ps_reserved_cash s"
  "ps_positions (store_order od s) = ps_positions s"
  "ps_orders (store_order od s) = AList.update (o_id od) od (ps_orders s)"
  "ps_fills (store_order od s) = ps_fills s"
  "ps_journal (store_order od s) = ps_journal s"
  "ps_idempotency_index (store_order od s) = ps_idempotency_index s"
  "ps_realized_pnl (store_order od s) = ps_realized_pnl s"
  "ps_mark_prices (store_order od s) = ps_mark_prices s"
  by (simp_all add: store_order_def)

subsection \<open>The steps keep the ledger\<close>

lemma update_order_keeps:
  assumes "ledger_ok s" and "current s od"
    and "terminal_status status \<Longrightarrow> \<not> m_reservation_open (o_metadata od)"
  shows "keeps od s (update_order now od status risk extra s)"
proof -
  define od' where "od' = od\<lparr>o_status := status, o_risk_decision := Some (ev_decision risk),
            o_risk_reason_code := Some (ev_reason_code risk), o_updated_at := now,
            o_metadata := (case extra of None \<Rightarrow> o_metadata od
                           | Some e \<Rightarrow> (o_metadata od)\<lparr>m_error := Some e\<rparr>)\<rparr>"
  define s' where "s' = journal now (JOrderStatus (o_id od') status) (store_order od' s)"
  have r: "update_order now od status risk extra s = (od', s')"
    by (simp add: update_order_def od'_def s'_def Let_def)
  have id: "o_id od' = o_id od" by (simp add: od'_def)
  have left: "reserved_left (o_metadata od') = reserved_left (o_metadata od)"
    "m_reservation_open (o_metadata od') = m_reservation_open (o_metadata od)"
    by (auto simp: od'_def reserved_left_def split: option.splits)
  have ok': "order_ok od'"
    using assms(2,3) left by (auto simp: current_def order_ok_def od'_def)
  have res: "reservations_ok s" and hold: "holdings_ok s" using assms(1) by (simp_all add: ledger_ok_def)
  have eq: "order_reserved od' = order_reserved od" by (simp add: order_reserved_def left)
  have "ps_reserved_cash s < amount_limit" using res by (simp add: reservations_ok_def)
  then have "reservations_ok s'" "current s' od'"
    using reservations_ok_write [OF res assms(2) id ok', of s'] by (simp_all add: s'_def eq)
  moreover have "holdings_ok s'" using hold by (simp add: s'_def holdings_ok_def)
  ultimately show ?thesis
    by (simp add: r keeps_def ledger_ok_def id) (simp add: s'_def id map_of_update_if)
qed

lemma update_order_status [simp]:
  "o_status (fst (update_order now od status risk extra s)) = status"
  "o_id (fst (update_order now od status risk extra s)) = o_id od"
  by (simp_all add: update_order_def Let_def)

text \<open>
  A release moves an amount from the reserved to the available cash. Its shape on a well-formed
  ledger: the cap at the reserved cash never binds, and releasing everything closes the
  reservation.
\<close>

lemma release_closed: "\<not> m_reservation_open (o_metadata od) \<Longrightarrow> release_reservation now od amount s = (od, s)"
  by (simp add: release_reservation_def Let_def)

lemma release_meta [simp]:
  "o_id (fst (release_reservation now od amount s)) = o_id od"
  "o_status (fst (release_reservation now od amount s)) = o_status od"
  "o_side (fst (release_reservation now od amount s)) = o_side od"
  "o_symbol (fst (release_reservation now od amount s)) = o_symbol od"
  "o_quantity (fst (release_reservation now od amount s)) = o_quantity od"
  "o_filled_quantity (fst (release_reservation now od amount s)) = o_filled_quantity od"
  "ps_positions (snd (release_reservation now od amount s)) = ps_positions s"
  "ps_idempotency_index (snd (release_reservation now od amount s)) = ps_idempotency_index s"
  "ps_mark_prices (snd (release_reservation now od amount s)) = ps_mark_prices s"
  "ps_fills (snd (release_reservation now od amount s)) = ps_fills s"
  by (simp_all add: release_reservation_def Let_def)

lemma release_shape:
  assumes ok: "reservations_ok s" and cur: "current s od"
    and a: "pred_option (\<lambda>x. on_grid 8 x \<and> 0 \<le> x) amount"
    and op: "m_reservation_open (o_metadata od)"
    and r: "release_reservation now od amount s = (od', s')"
  defines "d \<equiv> (case amount of None \<Rightarrow> order_reserved od | Some x \<Rightarrow> min x (order_reserved od))"
  shows "order_reserved od' = order_reserved od - d" and "0 \<le> d" and "d \<le> order_reserved od"
    and "ps_reserved_cash s' = ps_reserved_cash s - d" and "on_grid 8 d"
    and "ps_cash s' = (if order_reserved od \<le> 0 then ps_cash s else dadd (ps_cash s) d)"
    and "ps_orders s' = AList.update (o_id od) od' (ps_orders s)" and "order_ok od'"
    and "amount = None \<Longrightarrow> \<not> m_reservation_open (o_metadata od')"
proof -
  let ?rem = "reserved_left (o_metadata od)"
  have od: "order_ok od" using cur by (simp add: current_def)
  have R: "order_reserved od = ?rem" using op by (simp add: order_reserved_def)
  have rem: "0 \<le> ?rem" "on_grid 8 ?rem" using od op by (simp_all add: order_ok_def)
  have le: "?rem \<le> ps_reserved_cash s" using current_reserved_le [OF ok cur] R by simp
  have lim: "ps_reserved_cash s < amount_limit" using ok by (simp add: reservations_ok_def)
  have d: "0 \<le> d" "d \<le> ?rem" "on_grid 8 d"
    using a rem by (auto simp: d_def R min_def split: option.split)
  have new: "dsub ?rem d = ?rem - d"
    using rem d le lim by (intro dsub_amount) auto
  have res: "dsub (ps_reserved_cash s) d = ps_reserved_cash s - d"
    using reserved_grid [OF ok] d le lim by (intro dsub_amount) auto
  have wanted: "(case amount of None \<Rightarrow> ?rem | Some a \<Rightarrow> min a ?rem) = d"
    by (cases amount) (simp_all add: d_def R)
  have nocap: "\<not> ps_reserved_cash s < d" using d le by linarith
  define meta' where "meta' = (if ?rem - d \<le> 0
      then (o_metadata od)\<lparr>m_reservation_open := False, m_reserved_remaining := Some 0\<rparr>
      else (o_metadata od)\<lparr>m_reserved_remaining := Some (?rem - d)\<rparr>)"
  have od': "od' = od\<lparr>o_metadata := meta', o_updated_at := now\<rparr>"
    and s': "ps_reserved_cash s' = ps_reserved_cash s - d"
      "ps_cash s' = (if ?rem \<le> 0 then ps_cash s else dadd (ps_cash s) d)"
      "ps_orders s' = AList.update (o_id od) od' (ps_orders s)"
    using r op rem d by (auto simp: release_reservation_def Let_def wanted nocap res new meta'_def
        reserved_left_def [of "meta\<lparr>m_reserved_remaining := Some x\<rparr>" for meta x] split: if_splits)
  have meta_left: "m_reservation_open meta' \<longleftrightarrow> \<not> ?rem - d \<le> 0"
    "\<not> ?rem - d \<le> 0 \<Longrightarrow> reserved_left meta' = ?rem - d"
    using op by (simp_all add: meta'_def reserved_left_def)
  show "order_reserved od' = order_reserved od - d"
    using d R meta_left by (auto simp: od' order_reserved_def)
  show "order_ok od'"
    using od op meta_left on_grid_diff [OF rem(2) d(3)] by (auto simp: od' order_ok_def)
  show "amount = None \<Longrightarrow> \<not> m_reservation_open (o_metadata od')"
    using R meta_left by (simp add: od' d_def)
  show "0 \<le> d" "d \<le> order_reserved od" "on_grid 8 d" using d R by simp_all
  show "ps_reserved_cash s' = ps_reserved_cash s - d" by (rule s')
  show "ps_cash s' = (if order_reserved od \<le> 0 then ps_cash s else dadd (ps_cash s) d)"
    by (simp add: s' R)
  show "ps_orders s' = AList.update (o_id od) od' (ps_orders s)" by (rule s')
qed

lemma release_keeps:
  assumes ok: "ledger_ok s" and cur: "current s od"
    and a: "pred_option (\<lambda>x. on_grid 8 x \<and> 0 \<le> x) amount"
  shows "keeps od s (release_reservation now od amount s)"
proof (cases "m_reservation_open (o_metadata od)")
  case False
  with ok cur show ?thesis by (simp add: release_closed keeps_refl)
next
  case True
  obtain od' s' where r: "release_reservation now od amount s = (od', s')" by fastforce
  have res: "reservations_ok s" and hold: "holdings_ok s" using ok by (simp_all add: ledger_ok_def)
  note shape = release_shape [OF res cur a True r]
  have id: "o_id od' = o_id od" using release_meta(1) [of now od amount s] by (simp add: r)
  have "ps_reserved_cash s' < amount_limit"
    using res shape(2) unfolding shape(4) reservations_ok_def by linarith
  then have "reservations_ok s'" "current s' od'"
    using reservations_ok_write [OF res cur id shape(8)] shape(1,4,7) id by simp_all
  moreover have "holdings_ok s'"
    using hold shape(2,6) release_meta(7) [of now od amount s]
    by (auto simp: holdings_ok_def r dadd_nonneg split: if_splits)
  ultimately show ?thesis
    using shape(7) release_meta(8,9) [of now od amount s] by (auto simp: keeps_def ledger_ok_def r id map_of_update_if)
qed

lemma release_all_closed:
  assumes "ledger_ok s" and "current s od"
  shows "\<not> m_reservation_open (o_metadata (fst (release_reservation now od None s)))"
proof (cases "m_reservation_open (o_metadata od)")
  case False
  then show ?thesis by (simp add: release_closed)
next
  case True
  obtain od' s' where r: "release_reservation now od None s = (od', s')" by fastforce
  from release_shape(9) [OF _ assms(2) _ True r] assms(1) show ?thesis
    by (simp add: ledger_ok_def r)
qed

text \<open>Reserving: the flag is false exactly when the order was marked failed.\<close>

lemma reserve_buy_keeps:
  assumes ok: "ledger_ok s" and cur: "current s od" and od: "o_side od = Buy"
    "\<not> terminal_status (o_status od)" "\<not> m_reservation_open (o_metadata od)"
    and lim: "ps_cash s + ps_reserved_cash s < amount_limit"
    and r: "reserve_buy now od qty price risk s = (od', good, s')"
  shows "keeps od s (od', s')" and "good \<Longrightarrow> o_status od' = o_status od"
    and "\<not> good \<Longrightarrow> o_status od' = Failed"
    and "o_side od' = o_side od" "o_quantity od' = o_quantity od"
      "o_filled_quantity od' = o_filled_quantity od" "o_symbol od' = o_symbol od"
proof -
  let ?amount = "quantize 8 (dmul qty price)"
  consider (none) "?amount \<le> 0" "(od', good, s') = (od, True, s)"
    | (poor) "0 < ?amount" "ps_cash s < ?amount" "\<not> good"
        "(od', s') = update_order now od Failed risk (Some ''insufficient_for_reserve'') s"
    | (lock) "0 < ?amount" "?amount \<le> ps_cash s" "good"
    using r od(3) by (auto simp: reserve_buy_def Let_def split: if_splits prod.splits)
  then have "keeps od s (od', s') \<and> (good \<longrightarrow> o_status od' = o_status od)
    \<and> (\<not> good \<longrightarrow> o_status od' = Failed) \<and> o_side od' = o_side od \<and> o_quantity od' = o_quantity od
    \<and> o_filled_quantity od' = o_filled_quantity od \<and> o_symbol od' = o_symbol od"
  proof cases
    case none
    with ok cur show ?thesis by (simp add: keeps_refl)
  next
    case poor
    have "keeps od s (update_order now od Failed risk (Some ''insufficient_for_reserve'') s)"
      using ok cur od by (intro update_order_keeps)
    with poor show ?thesis by (auto simp: update_order_def Let_def)
  next
    case lock
    have res: "reservations_ok s" and hold: "holdings_ok s" using ok by (simp_all add: ledger_ok_def)
    have g: "on_grid 8 ?amount" by simp
    have sum: "dadd (ps_reserved_cash s) ?amount = ps_reserved_cash s + ?amount"
      using lock lim reserved_nonneg [OF res] by (intro dadd_amount reserved_grid [OF res] g) linarith+
    have od': "od' = od\<lparr>o_metadata := (o_metadata od)\<lparr>m_reserved_notional := Some ?amount,
          m_reserved_remaining := Some ?amount, m_reservation_open := True\<rparr>, o_updated_at := now\<rparr>"
      and s': "ps_orders s' = AList.update (o_id od) od' (ps_orders s)"
        "ps_reserved_cash s' = ps_reserved_cash s + ?amount"
        "ps_cash s' = dsub (ps_cash s) ?amount" "ps_positions s' = ps_positions s"
        "ps_idempotency_index s' = ps_idempotency_index s" "ps_mark_prices s' = ps_mark_prices s"
      using r lock od(3) sum by (auto simp: reserve_buy_def Let_def split: if_splits)
    have id: "o_id od' = o_id od" by (simp add: od')
    have ok': "order_ok od'"
      using cur od lock(1) g by (auto simp: current_def order_ok_def od' reserved_left_def)
    have "order_reserved od = 0" "order_reserved od' = ?amount"
      using od by (simp_all add: order_reserved_def od' reserved_left_def)
    then have "reservations_ok s'" "current s' od'"
      using reservations_ok_write [OF res cur id ok'] lock(2) lim s' id by simp_all
    moreover have "holdings_ok s'"
      using hold lock(2) by (simp add: holdings_ok_def s')
    ultimately show ?thesis using lock s' id by (auto simp: keeps_def ledger_ok_def map_of_update_if od')
  qed
  then show "keeps od s (od', s')" and "good \<Longrightarrow> o_status od' = o_status od"
    and "\<not> good \<Longrightarrow> o_status od' = Failed"
    and "o_side od' = o_side od" "o_quantity od' = o_quantity od"
      "o_filled_quantity od' = o_filled_quantity od" "o_symbol od' = o_symbol od" by auto
qed

text \<open>A position changes nothing about the reservations.\<close>

lemma keeps_holdings:
  assumes "keeps od s (od', s1)" and "holdings_ok s2"
    and "ps_orders s2 = ps_orders s1" "ps_reserved_cash s2 = ps_reserved_cash s1"
      "ps_idempotency_index s2 = ps_idempotency_index s1" "ps_mark_prices s2 = ps_mark_prices s1"
  shows "keeps od s (od', s2)"
  using assms by (simp add: keeps_def ledger_ok_def current_frame [of s2 s1] reservations_frame [of s2 s1])

definition same_order :: "order \<Rightarrow> order \<Rightarrow> bool" where
  "same_order a b \<longleftrightarrow> o_id a = o_id b \<and> o_side a = o_side b \<and> o_symbol a = o_symbol b
     \<and> o_quantity a = o_quantity b \<and> o_filled_quantity a = o_filled_quantity b
     \<and> o_status a = o_status b"

lemma release_same: "same_order (fst (release_reservation now od amount s)) od"
  by (simp add: same_order_def)

text \<open>The two steps a buy may take on its reservation: consuming a part of it, and giving it up.\<close>

lemma consume_keeps:
  assumes "ledger_ok s" and "current s od" and "b \<Longrightarrow> 0 \<le> consume" and "on_grid 8 consume"
  shows "keeps od s (if b then release_reservation now od (Some consume) s else (od, s))"
    and "same_order (fst (if b then release_reservation now od (Some consume) s else (od, s))) od"
proof -
  show "keeps od s (if b then release_reservation now od (Some consume) s else (od, s))"
    using assms keeps_refl [of s od] release_keeps [of s od "Some consume" now] by simp
  show "same_order (fst (if b then release_reservation now od (Some consume) s else (od, s))) od"
    by (simp add: release_same) (simp add: same_order_def)
qed

lemma give_up_keeps:
  assumes "ledger_ok s" and "current s od"
    and "release_reservation now od None s = (od2, s2)"
    and "update_order now od2 Failed risk why s2 = (od3, s3)"
  shows "keeps od s (od3, s3)" and "o_status od3 = Failed"
proof -
  have k2: "keeps od s (od2, s2)" using release_keeps [OF assms(1,2), of None now] by (simp add: assms(3))
  have "\<not> m_reservation_open (o_metadata od2)" using release_all_closed [OF assms(1,2), of now] by (simp add: assms(3))
  with keepsD [OF k2] have "keeps od2 s2 (update_order now od2 Failed risk why s2)" by (intro update_order_keeps)
  with keeps_trans [OF k2] show "keeps od s (od3, s3)" by (simp add: assms(4))
  show "o_status od3 = Failed" using assms(4) by (auto simp: update_order_def Let_def)
qed

lemma fill_buy_keeps:
  assumes ok: "ledger_ok s" and cur: "current s od" and pos: "0 < qty" "0 < o_quantity od" "0 \<le> price"
    and r: "fill_buy now od qty price fee risk s = (od', good, s')"
  shows "keeps od s (od', s')" and "good \<Longrightarrow> same_order od' od" and "\<not> good \<Longrightarrow> o_status od' = Failed"
proof -
  let ?total = "case m_reserved_notional (o_metadata od) of Some n \<Rightarrow> n | None \<Rightarrow> 0"
  let ?consume = "quantize 8 (ddiv (dmul ?total qty) (o_quantity od))"
  define rel where "rel = (if ?total > 0 \<and> m_reservation_open (o_metadata od) \<and> o_quantity od > 0
             then release_reservation now od (Some ?consume) s else (od, s))"
  obtain od1 s1 where rel': "rel = (od1, s1)" by fastforce
  have "0 \<le> ?consume" if "?total > 0" using that pos by (intro quantize_nonneg ddiv_nonneg dmul_nonneg) auto
  then have "keeps od s rel \<and> same_order (fst rel) od"
    unfolding rel_def using consume_keeps [OF ok cur, of "?total > 0 \<and> m_reservation_open (o_metadata od) \<and> o_quantity od > 0" ?consume now]
    by simp
  then have k1: "keeps od s (od1, s1)" and same: "same_order od1 od" by (simp_all add: rel')
  note k1' = keepsD [OF k1]
  let ?cost = "dadd (dmul price qty) fee"
  have unf: "fill_buy now od qty price fee risk s =
     (if ?cost > ps_cash s1 then
           (let (od2, s2) = release_reservation now od1 None s1;
                (od3, s3) = update_order now od2 Failed risk (Some ''insufficient'') s2
            in (od3, False, s3))
         else
           let s2 = s1\<lparr>ps_cash := dsub (ps_cash s1) ?cost\<rparr>;
               p' = (case map_of (ps_positions s2) (o_symbol od1) of
                       Some p \<Rightarrow> increase_position p qty price
                     | None \<Rightarrow> open_position now od1 qty price)
           in (od1, True, s2\<lparr>ps_positions := AList.update (o_symbol od1) p' (ps_positions s2)\<rparr>))"
    unfolding fill_buy_def Let_def rel_def [symmetric] rel' by simp
  have "keeps od s (od', s') \<and> (good \<longrightarrow> same_order od' od) \<and> (\<not> good \<longrightarrow> o_status od' = Failed)"
  proof (cases "?cost > ps_cash s1")
    case True
    obtain od2 s2 where r2: "release_reservation now od1 None s1 = (od2, s2)" by fastforce
    obtain od3 s3 where r3: "update_order now od2 Failed risk (Some ''insufficient'') s2 = (od3, s3)" by fastforce
    have "(od', good, s') = (od3, False, s3)" using r unf True r2 r3 by simp
    with give_up_keeps [OF k1'(1,2) r2 r3] keeps_trans [OF k1] show ?thesis by simp
  next
    case False
    let ?p = "case map_of (ps_positions s1) (o_symbol od1) of
                Some p \<Rightarrow> increase_position p qty price | None \<Rightarrow> open_position now od1 qty price"
    have res: "od' = od1" "good"
        "s' = s1\<lparr>ps_cash := dsub (ps_cash s1) ?cost,
                ps_positions := AList.update (o_symbol od1) ?p (ps_positions s1)\<rparr>"
      using r unf False by (auto simp: Let_def)
    have hold: "holdings_ok s1" using k1'(1) by (simp add: ledger_ok_def)
    then have "p_symbol ?p = o_symbol od1 \<and> 0 < p_quantity ?p \<and> 0 \<le> p_entry_price ?p
        \<and> 0 \<le> p_current_price ?p"
      using pos by (auto simp: holdings_ok_def increase_position_def open_position_def Let_def less_imp_le
          intro!: dadd_pos dadd_nonneg ddiv_nonneg dmul_nonneg split: option.split)
    with hold False have "holdings_ok s'"
      unfolding res holdings_ok_def by (simp add: map_of_update_if)
    from keeps_holdings [OF k1 this]
    show ?thesis using same by (simp add: res)
  qed
  then show "keeps od s (od', s')" and "good \<Longrightarrow> same_order od' od"
    and "\<not> good \<Longrightarrow> o_status od' = Failed" by auto
qed

lemma fill_sell_keeps:
  assumes ok: "ledger_ok s" and cur: "current s od" and od: "o_side od = Sell"
    and pos: "0 < qty" "0 \<le> price" and fee: "fee \<le> dmul price qty"
    and r: "fill_sell now od qty price fee risk s = (od', good, s')"
  shows "keeps od s (od', s')" and "good \<Longrightarrow> same_order od' od" and "\<not> good \<Longrightarrow> o_status od' = Failed"
proof -
  have closed: "\<not> m_reservation_open (o_metadata od)"
    using cur od by (auto simp: current_def order_ok_def)
  have fail: "keeps od s (update_order now od Failed risk (Some ''no position'') s)"
    using ok cur closed by (intro update_order_keeps)
  consider (fail) "(od', s') = update_order now od Failed risk (Some ''no position'') s" "\<not> good"
    | (sold) p where "map_of (ps_positions s) (o_symbol od) = Some p" "\<not> p_quantity p < qty"
        "od' = od" "good"
    using r by (auto simp: fill_sell_def Let_def split: option.splits if_splits prod.splits)
  then have "keeps od s (od', s') \<and> (good \<longrightarrow> same_order od' od) \<and> (\<not> good \<longrightarrow> o_status od' = Failed)"
  proof cases
    case fail
    with \<open>keeps od s (update_order now od Failed risk (Some ''no position'') s)\<close>
      update_order_status(1) [of now od Failed risk "Some ''no position''" s]
    show ?thesis by (metis fst_conv)
  next
    case sold
    let ?rem = "dsub (p_quantity p) qty"
    let ?p = "p\<lparr>p_quantity := ?rem, p_current_price := price,
                p_unrealized_pnl := dmul (dsub price (p_entry_price p)) ?rem,
                p_realized_pnl := dadd (p_realized_pnl p) (dsub (dmul (dsub price (p_entry_price p)) qty) fee)\<rparr>"
    have s': "ps_cash s' = dadd (ps_cash s) (dsub (dmul price qty) fee)"
        "ps_positions s' = (if ?rem = 0 then AList.delete (o_symbol od) (ps_positions s)
            else AList.update (o_symbol od) ?p (ps_positions s))"
        "ps_orders s' = ps_orders s" "ps_reserved_cash s' = ps_reserved_cash s"
        "ps_idempotency_index s' = ps_idempotency_index s" "ps_mark_prices s' = ps_mark_prices s"
      using r sold by (auto simp: fill_sell_def Let_def)
    have hold: "holdings_ok s" using ok by (simp add: ledger_ok_def)
    have rem: "?rem \<noteq> 0 \<longrightarrow> qty < p_quantity p"
      using sold(2) by (cases "qty = p_quantity p") auto
    have "0 \<le> ps_cash s'"
      unfolding s' using hold fee by (intro dadd_nonneg) (simp_all add: holdings_ok_def)
    moreover have "p_symbol p = o_symbol od" "0 \<le> p_entry_price p"
      using hold sold by (simp_all add: holdings_ok_def)
    ultimately have "holdings_ok s'"
      using hold rem pos(2) unfolding holdings_ok_def s'
      by (auto simp: map_of_update_if map_of_delete_if split: if_splits)
    from keeps_holdings [OF keeps_refl [OF ok cur] this] sold show ?thesis
      by (simp add: s' same_order_def)
  qed
  then show "keeps od s (od', s')" and "good \<Longrightarrow> same_order od' od"
    and "\<not> good \<Longrightarrow> o_status od' = Failed" by auto
qed

end
