(* ===== verification/Paper_Steps.thy ===== *)
theory Paper_Steps
  imports Paper_Ledger
begin

text \<open>
  The public operations of the paper engine keep the ledger well formed. The configuration has
  rates that leave prices and proceeds non-negative (\<open>pc_ok\<close>); a request has a positive quantity
  with eight places, a price that is not negative and no reservation in its own metadata
  (\<open>request_ok\<close>). \<open>paper_step\<close> is one call of an operation on such input, and every ledger
  reachable by steps from a new engine is well formed.
\<close>

subsection \<open>Prices and quantities\<close>

definition pc_ok :: "paper_config \<Rightarrow> bool" where
  "pc_ok pc \<longleftrightarrow>
     0 \<le> fee_rate pc True \<and> fee_rate pc True \<le> 1 / 4
   \<and> 0 \<le> fee_rate pc False \<and> fee_rate pc False \<le> 1 / 4
   \<and> 0 \<le> pc_spread_rate pc \<and> pc_spread_rate pc \<le> 1 / 2
   \<and> 0 \<le> pc_slippage_rate pc \<and> pc_slippage_rate pc \<le> 1 / 4
   \<and> 0 \<le> pc_partial_fill_fraction pc \<and> pc_partial_fill_fraction pc \<le> 1
   \<and> 0 \<le> pc_initial_cash pc"

lemma fee_rate_bounds: "pc_ok pc \<Longrightarrow> 0 \<le> fee_rate pc b \<and> fee_rate pc b \<le> 1 / 4"
  by (cases b) (simp_all add: pc_ok_def)

lemma sell_price_nonneg:
  assumes "0 \<le> mark" "0 \<le> sp" "sp \<le> 1 / 2" "0 \<le> sl" "sl \<le> 1 / 4"
  shows "0 \<le> dsub (dsub mark (ddiv (dmul mark sp) 2)) (dmul mark sl)"
proof -
  have "dmul mark sp \<le> mark * sp * (1 + 1 / 10 ^ 27)"
    unfolding dmul_def using assms by (intro ctx_upper) simp
  also have "\<dots> \<le> mark * (1 / 2) * (1 + 1 / 10 ^ 27)"
    using assms by (intro mult_right_mono mult_left_mono) simp_all
  finally have "dmul mark sp \<le> mark" using assms(1) by simp
  then have "dmul mark sp / 2 \<le> mark / 2" by simp
  moreover have "ddiv (dmul mark sp) 2 \<le> dmul mark sp / 2 * (1 + 1 / 10 ^ 27)"
    unfolding ddiv_def using assms by (intro ctx_upper) (simp add: dmul_nonneg)
  ultimately have "ddiv (dmul mark sp) 2 \<le> mark / 2 * (1 + 1 / 10 ^ 27)"
    using mult_right_mono [of "dmul mark sp / 2" "mark / 2" "1 + 1 / 10 ^ 27"] by simp
  then have "mark * (1 / 4) \<le> mark - ddiv (dmul mark sp) 2" using assms(1) by simp
  moreover have "mark * sl \<le> mark * (1 / 4)" using assms by (intro mult_left_mono)
  ultimately have "dmul mark sl \<le> dsub mark (ddiv (dmul mark sp) 2)"
    unfolding dmul_def [of mark sl] dsub_def by (intro ctx_mono) simp
  then show ?thesis by simp
qed

lemma fill_price_nonneg:
  assumes "pc_ok pc" "0 \<le> mark" "pred_option (\<lambda>p. 0 \<le> p) price"
  shows "0 \<le> fill_price pc mark ty side price"
  using assms sell_price_nonneg [of mark "pc_spread_rate pc" "pc_slippage_rate pc"]
  by (auto simp: fill_price_def Let_def pc_ok_def intro!: dadd_nonneg dmul_nonneg ddiv_nonneg)

text \<open>The part of a quantity that one fill takes.\<close>

lemma ctx_quantity: "on_grid 8 q \<Longrightarrow> 0 \<le> q \<Longrightarrow> q < amount_limit \<Longrightarrow> representable q"
  using ctx_amount representable_ctx by metis

lemma part_le:
  assumes "on_grid 8 q" "0 \<le> q" "q < amount_limit" "0 \<le> f" "f \<le> 1"
  shows "quantize_down 8 (dmul q f) \<le> q"
proof -
  have "q * f \<le> q" using assms by (simp add: mult_left_le)
  then have "dmul q f \<le> q" unfolding dmul_def using assms by (intro ctx.rnd_le_rep ctx_quantity)
  moreover have "quantize_down 8 (dmul q f) \<le> dmul q f"
    using assms by (intro quantize_down_le dmul_nonneg)
  ultimately show ?thesis by linarith
qed

lemma order_remaining:
  assumes "order_ok od"
  shows "dsub (o_quantity od) (o_filled_quantity od) = o_quantity od - o_filled_quantity od"
    "on_grid 8 (o_quantity od - o_filled_quantity od)"
    "o_quantity od - o_filled_quantity od < amount_limit"
  using assms by (auto simp: order_ok_def intro!: dsub_amount on_grid_diff)

subsection \<open>Fills\<close>

lemma filled_copy_current:
  assumes cur: "current s od" and q: "0 < qty" "on_grid 8 qty"
    "o_filled_quantity od + qty \<le> o_quantity od"
  shows "current s (filled_copy now od qty price fee)"
    and "o_filled_quantity (filled_copy now od qty price fee) = o_filled_quantity od + qty"
proof -
  have od: "order_ok od" using cur by (simp add: current_def)
  have f: "dadd (o_filled_quantity od) qty = o_filled_quantity od + qty"
    using od q by (intro dadd_amount) (auto simp: order_ok_def)
  have "on_grid 8 (o_filled_quantity od + qty)" using od q by (intro on_grid_add) (auto simp: order_ok_def)
  with cur od q f show "current s (filled_copy now od qty price fee)"
    by (auto simp: current_def order_ok_def filled_copy_def Let_def)
  show "o_filled_quantity (filled_copy now od qty price fee) = o_filled_quantity od + qty"
    using f by (simp add: filled_copy_def Let_def)
qed

lemma filled_copy_frame [simp]:
  "o_id (filled_copy now od qty price fee) = o_id od"
  "o_status (filled_copy now od qty price fee) = o_status od"
  "o_quantity (filled_copy now od qty price fee) = o_quantity od"
  "o_side (filled_copy now od qty price fee) = o_side od"
  "o_metadata (filled_copy now od qty price fee) = o_metadata od"
  by (simp_all add: filled_copy_def Let_def)

lemma ledger_ok_log: "ledger_ok (journal now ev (s\<lparr>ps_fills := fs\<rparr>)) = ledger_ok s"
  by (simp add: ledger_ok_def holdings_ok_def reservations_ok_def)

lemma keeps_log:
  "keeps od (journal now ev (s\<lparr>ps_fills := fs\<rparr>)) r = keeps od s r"
  by (simp add: keeps_def)

lemma apply_fill_keeps:
  assumes pc: "pc_ok pc" and ok: "ledger_ok s" and cur: "current s od"
    and q: "0 < qty" "on_grid 8 qty" "o_filled_quantity od + qty \<le> o_quantity od"
    and price: "0 \<le> price" and st: "o_status od \<noteq> Failed"
    and r: "apply_fill pc v od qty price risk mk s = (od', s')"
  shows "keeps od s (od', s')"
    and "o_status od' \<noteq> Failed \<Longrightarrow> o_status od' = o_status od \<and> o_quantity od' = o_quantity od
           \<and> o_filled_quantity od' = o_filled_quantity od + qty"
proof -
  let ?fee = "quantize 8 (dmul (dmul price qty) (fee_rate pc mk))"
  define s1 where "s1 = journal (pv_now v)
    (JFill \<lparr>f_id = pv_fill_id v (o_id od), f_order_id = o_id od, f_symbol = o_symbol od,
       f_side = o_side od, f_quantity = qty, f_price = price, f_fee = ?fee, f_timestamp = pv_now v\<rparr>)
    (s\<lparr>ps_fills := ps_fills s @ [\<lparr>f_id = pv_fill_id v (o_id od), f_order_id = o_id od,
       f_symbol = o_symbol od, f_side = o_side od, f_quantity = qty, f_price = price,
       f_fee = ?fee, f_timestamp = pv_now v\<rparr>]\<rparr>)"
  have ok1: "ledger_ok s1" and cur1: "current s1 od" and log: "\<And>r. keeps od s1 r = keeps od s r"
    using ok cur by (simp_all add: s1_def ledger_ok_log keeps_log) (simp add: current_def)
  obtain od1 good s2 where f: "(if o_side od = Buy then fill_buy (pv_now v) od qty price ?fee risk s1
             else fill_sell (pv_now v) od qty price ?fee risk s1) = (od1, good, s2)"
    by (metis prod_cases3)
  have fee: "?fee \<le> dmul price qty"
    using fee_rate_bounds [OF pc, of mk] q price by (intro quantize_amount_le dmul_nonneg) auto
  have oq: "0 < o_quantity od" using cur q by (simp add: current_def order_ok_def)
  have k: "keeps od s1 (od1, s2) \<and> (good \<longrightarrow> same_order od1 od) \<and> (\<not> good \<longrightarrow> o_status od1 = Failed)"
  proof (cases "o_side od = Buy")
    case True
    with f have "fill_buy (pv_now v) od qty price ?fee risk s1 = (od1, good, s2)" by simp
    from fill_buy_keeps [OF ok1 cur1 q(1) oq price this] show ?thesis by blast
  next
    case False
    then have side: "o_side od = Sell" using order_side.exhaust by blast
    with f have "fill_sell (pv_now v) od qty price ?fee risk s1 = (od1, good, s2)" by simp
    from fill_sell_keeps [OF ok1 cur1 side q(1) price fee this] show ?thesis by blast
  qed
  have res: "(od', s') = (if good then (filled_copy (pv_now v) od1 qty price ?fee, s2) else (od1, s2))"
    using r unfolding apply_fill_def Let_def s1_def [symmetric] f by simp
  show "keeps od s (od', s')"
  proof (cases good)
    case True
    with k have "same_order od1 od" and k1: "keeps od s (od1, s2)" by (simp_all add: log)
    with q have "o_filled_quantity od1 + qty \<le> o_quantity od1" by (simp add: same_order_def)
    from filled_copy_current(1) [OF keepsD(2) [OF k1] q(1,2) this] keepsD(1,3) [OF k1]
    have "keeps od1 s2 (filled_copy (pv_now v) od1 qty price ?fee, s2)" by (simp add: keeps_def)
    from keeps_trans [OF k1 this] True res show ?thesis by simp
  next
    case False
    with k res show ?thesis by (simp add: log)
  qed
  assume nf: "o_status od' \<noteq> Failed"
  with k res have good by (cases good) auto
  with k have so: "same_order od1 od" and k1: "keeps od s (od1, s2)" by (simp_all add: log)
  with q have "o_filled_quantity od1 + qty \<le> o_quantity od1" by (simp add: same_order_def)
  from filled_copy_current(2) [OF keepsD(2) [OF k1] q(1,2) this] so \<open>good\<close> res
  show "o_status od' = o_status od \<and> o_quantity od' = o_quantity od
           \<and> o_filled_quantity od' = o_filled_quantity od + qty"
    by (simp add: same_order_def)
qed

text \<open>The two ways a successful fill ends.\<close>

lemma finish_filled_keeps:
  assumes "ledger_ok s" and "current s od"
  shows "keeps od s (case release_reservation now od None s of (od2, s2) \<Rightarrow>
           update_order now od2 Filled risk None s2)"
proof -
  obtain od2 s2 where r: "release_reservation now od None s = (od2, s2)" by fastforce
  have k: "keeps od s (od2, s2)" using release_keeps [OF assms, of None now] by (simp add: r)
  have "\<not> m_reservation_open (o_metadata od2)" using release_all_closed [OF assms, of now] by (simp add: r)
  then have "keeps od2 s2 (update_order now od2 Filled risk None s2)"
    using keepsD [OF k] by (intro update_order_keeps)
  from keeps_trans [OF k this] show ?thesis by (simp add: r)
qed

lemma finish_partial_keeps:
  "ledger_ok s \<Longrightarrow> current s od \<Longrightarrow> keeps od s (update_order now od PartiallyFilled risk None s)"
  by (rule update_order_keeps) (simp_all add: terminal_status_def)

lemma execute_fill_keeps:
  assumes pc: "pc_ok pc" and ok: "ledger_ok s" and cur: "current s od"
    and rq: "o_quantity od = rq_quantity rq" "o_filled_quantity od = 0" "0 < rq_quantity rq"
    and some: "0 < quantize_down 8 (dmul (rq_quantity rq) (pc_partial_fill_fraction pc))"
    and price: "pred_option (\<lambda>p. 0 \<le> p) (rq_price rq)" "0 \<le> mark" and st: "o_status od \<noteq> Failed"
  shows "keeps od s (execute_fill pc v od rq risk mark s)"
proof -
  let ?q = "quantize_down 8 (dmul (rq_quantity rq) (pc_partial_fill_fraction pc))"
  let ?px = "fill_price pc mark (rq_order_type rq) (rq_side rq) (rq_price rq)"
  obtain od1 s1 where f: "apply_fill pc v od ?q ?px risk (rq_order_type rq = Limit) s = (od1, s1)"
    by fastforce
  have "order_ok od" using cur by (simp add: current_def)
  then have "?q \<le> rq_quantity rq"
    using rq pc by (intro part_le) (auto simp: order_ok_def pc_ok_def)
  then have fit: "o_filled_quantity od + ?q \<le> o_quantity od" using rq by simp
  note k = apply_fill_keeps(1) [OF pc ok cur some on_grid_quantize(2) fit
      fill_price_nonneg [OF pc price(2,1)] st f]
  note kd = keepsD(1,2) [OF k]
  show ?thesis
    using k keeps_trans [OF k finish_partial_keeps [OF kd]] keeps_trans [OF k finish_filled_keeps [OF kd]] some
    by (simp add: execute_fill_def Let_def f split: prod.splits)
qed

subsection \<open>Resting orders\<close>

lemma trigger_order_keeps:
  assumes pc: "pc_ok pc" and ok: "ledger_ok s" and cur: "map_of (ps_orders s) (o_id od) = Some od"
    and mark: "0 \<le> mark"
  shows "ledger_ok (trigger_order pc v sy mark od s)"
    and "k \<noteq> o_id od \<Longrightarrow> map_of (ps_orders (trigger_order pc v sy mark od s)) k = map_of (ps_orders s) k"
    and "ps_idempotency_index (trigger_order pc v sy mark od s) = ps_idempotency_index s"
    and "ps_mark_prices (trigger_order pc v sy mark od s) = ps_mark_prices s"
    and "map_of (ps_orders s) k \<noteq> None \<Longrightarrow> map_of (ps_orders (trigger_order pc v sy mark od s)) k \<noteq> None"
proof -
  let ?rem = "dsub (o_quantity od) (o_filled_quantity od)"
  let ?q = "if pc_partial_fill_fraction pc < 1
            then quantize_down 8 (dmul ?rem (pc_partial_fill_fraction pc)) else ?rem"
  let ?px = "fill_price pc mark (o_order_type od) (o_side od) (o_price od)"
  have od: "order_ok od" and cur': "current s od"
    using ledger_order [OF ok cur] by simp_all
  note rem = order_remaining [OF od]
  have goal: "\<exists>r. trigger_order pc v sy mark od s = snd r \<and> keeps od s r"
  proof (cases "rest_triggered sy mark od \<and> 0 < ?q")
    case False
    then have "trigger_order pc v sy mark od s = s"
      by (auto simp: trigger_order_def Let_def)
    with keeps_refl [OF ok cur'] show ?thesis by (intro exI [of _ "(od, s)"]) simp
  next
    case True
    define risk where "risk = \<lparr>ev_decision = (case o_risk_decision od of Some d \<Rightarrow> d | None \<Rightarrow> RApproved),
                    ev_reason_code = (case o_risk_reason_code od of Some c \<Rightarrow> c | None \<Rightarrow> OK),
                    ev_approved_quantity = Some ?rem\<rparr>"
    obtain od1 s1 where f: "apply_fill pc v od ?q ?px risk (o_order_type od = Limit) s = (od1, s1)"
      by fastforce
    have "0 < ?rem" and st: "o_status od \<noteq> Failed" using True by (auto simp: rest_triggered_def)
    then have le: "?q \<le> ?rem"
      using pc rem by (auto simp: pc_ok_def intro!: part_le)
    then have fit: "o_filled_quantity od + ?q \<le> o_quantity od" using rem(1) by linarith
    have grid: "on_grid 8 ?q" using rem by simp
    have price: "0 \<le> ?px" using od mark by (intro fill_price_nonneg [OF pc]) (auto simp: order_ok_def)
    note k = apply_fill_keeps(1) [OF pc ok cur' _ grid fit price st f]
    have k: "keeps od s (od1, s1)" by (rule k) (use True in simp)
    note kd = keepsD(1,2) [OF k]
    define rp where "rp = update_order (pv_now v) od1 PartiallyFilled risk None s1"
    define rf where "rf = (case release_reservation (pv_now v) od1 None s1 of (od2, s2) \<Rightarrow>
                    update_order (pv_now v) od2 Filled risk None s2)"
    have kp: "keeps od s rp" and kf: "keeps od s rf"
      unfolding rp_def rf_def
      by (rule keeps_trans [OF k finish_partial_keeps [OF kd]] keeps_trans [OF k finish_filled_keeps [OF kd]])+
    have q: "\<not> ?q \<le> 0" using True by simp
    have "trigger_order pc v sy mark od s =
        (let (od1, s1) = apply_fill pc v od ?q ?px risk (o_order_type od = Limit) s
         in if o_status od1 = Failed then s1
            else if ?q < ?rem then snd (update_order (pv_now v) od1 PartiallyFilled risk None s1)
            else let (od2, s2) = release_reservation (pv_now v) od1 None s1
                 in snd (update_order (pv_now v) od2 Filled risk None s2))"
      unfolding trigger_order_def Let_def risk_def [symmetric] if_not_P [OF q]
      using True by (simp only: if_False not_True_eq_False simp_thms)
    then have "trigger_order pc v sy mark od s =
       (if o_status od1 = Failed then s1 else if ?q < ?rem then snd rp else snd rf)"
      unfolding f Let_def rp_def rf_def by (simp add: case_prod_beta)
    then show ?thesis using k kp kf by (metis snd_conv)
  qed
  then obtain r where "trigger_order pc v sy mark od s = snd r" "keeps od s r" by blast
  then show "ledger_ok (trigger_order pc v sy mark od s)"
    and "k \<noteq> o_id od \<Longrightarrow> map_of (ps_orders (trigger_order pc v sy mark od s)) k = map_of (ps_orders s) k"
    and "ps_idempotency_index (trigger_order pc v sy mark od s) = ps_idempotency_index s"
    and "ps_mark_prices (trigger_order pc v sy mark od s) = ps_mark_prices s"
    using keepsD [of od s "fst r" "snd r"] by simp_all
  show "map_of (ps_orders (trigger_order pc v sy mark od s)) k \<noteq> None" if "map_of (ps_orders s) k \<noteq> None"
    using that keepsD(2-4) [of od s "fst r" "snd r"] \<open>keeps od s r\<close>
      \<open>trigger_order pc v sy mark od s = snd r\<close>
    by (cases "k = o_id od") (auto simp: current_def)
qed

lemma fold_trigger_keeps:
  assumes "pc_ok pc" and "0 \<le> mark" and "ledger_ok s"
    and "\<forall>od \<in> set ods. map_of (ps_orders s) (o_id od) = Some od"
    and "distinct (map o_id ods)"
  shows "ledger_ok (fold (trigger_order pc v sy mark) ods s)
    \<and> (\<forall>k. k \<notin> o_id ` set ods \<longrightarrow>
          map_of (ps_orders (fold (trigger_order pc v sy mark) ods s)) k = map_of (ps_orders s) k)
    \<and> ps_idempotency_index (fold (trigger_order pc v sy mark) ods s) = ps_idempotency_index s
    \<and> ps_mark_prices (fold (trigger_order pc v sy mark) ods s) = ps_mark_prices s
    \<and> (\<forall>k. map_of (ps_orders s) k \<noteq> None \<longrightarrow>
          map_of (ps_orders (fold (trigger_order pc v sy mark) ods s)) k \<noteq> None)"
  using assms(3-5)
proof (induction ods arbitrary: s)
  case (Cons od ods)
  have m: "map_of (ps_orders s) (o_id od) = Some od" using Cons.prems(2) by simp
  note t = trigger_order_keeps [OF assms(1) Cons.prems(1) m assms(2), where v = v and sy = sy]
  have "\<forall>od' \<in> set ods. map_of (ps_orders (trigger_order pc v sy mark od s)) (o_id od') = Some od'"
  proof
    fix od' assume od': "od' \<in> set ods"
    with Cons.prems(3) have "o_id od' \<noteq> o_id od" by (metis distinct.simps(2) image_eqI list.simps(9) set_map)
    from t(2) [OF this] Cons.prems(2) od'
    show "map_of (ps_orders (trigger_order pc v sy mark od s)) (o_id od') = Some od'" by simp
  qed
  from Cons.IH [OF t(1) this] Cons.prems(3)
  have IH: "ledger_ok (fold (trigger_order pc v sy mark) (od # ods) s)"
    "\<forall>k. k \<notin> o_id ` set ods \<longrightarrow> map_of (ps_orders (fold (trigger_order pc v sy mark) (od # ods) s)) k
       = map_of (ps_orders (trigger_order pc v sy mark od s)) k"
    "ps_idempotency_index (fold (trigger_order pc v sy mark) (od # ods) s)
       = ps_idempotency_index (trigger_order pc v sy mark od s)"
    "ps_mark_prices (fold (trigger_order pc v sy mark) (od # ods) s)
       = ps_mark_prices (trigger_order pc v sy mark od s)"
    "\<forall>k. map_of (ps_orders (trigger_order pc v sy mark od s)) k \<noteq> None \<longrightarrow>
       map_of (ps_orders (fold (trigger_order pc v sy mark) (od # ods) s)) k \<noteq> None"
    by (simp_all del: not_None_eq)
  have "map_of (ps_orders (fold (trigger_order pc v sy mark) (od # ods) s)) k = map_of (ps_orders s) k"
    if "k \<notin> o_id ` set (od # ods)" for k
    using that IH(2) t(2) [of k] by simp
  with IH(1,3,4,5) t(3,4,5) show ?case by metis
qed simp

lemma ledger_orders_stored:
  assumes ok: "ledger_ok s" and od: "od \<in> set (dict_values (ps_orders s))"
  shows "map_of (ps_orders s) (o_id od) = Some od"
proof -
  obtain k where "map_of (ps_orders s) k = Some od"
    using ok od dict_values_mapD unfolding ledger_ok_def reservations_ok_def by metis
  with ledger_order(1) [OF ok this] show ?thesis by simp
qed

lemma ledger_ids: "ledger_ok s \<Longrightarrow> map o_id (dict_values (ps_orders s)) = map fst (ps_orders s)"
proof -
  assume ok: "ledger_ok s"
  then have dk: "distinct (map fst (ps_orders s))"
    by (simp add: ledger_ok_def reservations_ok_def distinct_keys_def)
  have "o_id (snd x) = fst x" if "x \<in> set (ps_orders s)" for x
    using ledger_order(1) [OF ok] map_of_is_SomeI [OF dk, of "fst x" "snd x"] that by simp
  then show ?thesis by (simp add: dict_values_def)
qed

text \<open>
  A mark update: the ledger stays well formed, and an order that cannot be triggered keeps its
  entry.
\<close>

lemma trigger_order_idle: "\<not> rest_triggered sy mark od \<Longrightarrow> trigger_order pc v sy mark od s = s"
  by (simp add: trigger_order_def)

lemma fold_trigger_filter:
  "fold (trigger_order pc v sy mark) ods s
    = fold (trigger_order pc v sy mark) (filter (rest_triggered sy mark) ods) s"
  by (induction ods arbitrary: s) (simp_all add: trigger_order_idle)

definition marked :: "string \<Rightarrow> decimal \<Rightarrow> paper_state \<Rightarrow> paper_state" where
  "marked sy price s =
     (let s1 = s\<lparr>ps_mark_prices := AList.update sy price (ps_mark_prices s)\<rparr>
      in case map_of (ps_positions s1) sy of
                  None \<Rightarrow> s1
                | Some p \<Rightarrow>
                    s1\<lparr>ps_positions := AList.update sy
                         (p\<lparr>p_current_price := price,
                            p_unrealized_pnl := dmul (dsub price (p_entry_price p)) (p_quantity p)\<rparr>)
                         (ps_positions s1)\<rparr>)"

lemma set_mark_price_marked: "set_mark_price pc v sy price s = try_trigger_resting pc v sy price (marked sy price s)"
  by (simp add: set_mark_price_def marked_def Let_def)

lemma marked_frame [simp]:
  "ps_orders (marked sy price s) = ps_orders s" "ps_cash (marked sy price s) = ps_cash s"
  "ps_reserved_cash (marked sy price s) = ps_reserved_cash s"
  "ps_idempotency_index (marked sy price s) = ps_idempotency_index s"
  "ps_fills (marked sy price s) = ps_fills s"
  "ps_mark_prices (marked sy price s) = AList.update sy price (ps_mark_prices s)"
  by (simp_all add: marked_def Let_def split: option.split)

lemma marked_ok: "ledger_ok s \<Longrightarrow> 0 \<le> price \<Longrightarrow> ledger_ok (marked sy price s)"
proof -
  assume ok: "ledger_ok s" and "0 \<le> price"
  then have "reservations_ok (marked sy price s)"
    by (simp add: ledger_ok_def reservations_frame [of "marked sy price s" s])
  moreover have "holdings_ok (marked sy price s)"
    using ok \<open>0 \<le> price\<close> by (auto simp: ledger_ok_def holdings_ok_def marked_def Let_def map_of_update_if
        split: option.split if_splits)
  ultimately show ?thesis by (simp add: ledger_ok_def)
qed

lemma set_mark_price_keeps:
  assumes pc: "pc_ok pc" and ok: "ledger_ok s" and price: "0 \<le> price"
  shows "ledger_ok (set_mark_price pc v sy price s)"
    and "ps_idempotency_index (set_mark_price pc v sy price s) = ps_idempotency_index s"
    and "ps_mark_prices (set_mark_price pc v sy price s) = AList.update sy price (ps_mark_prices s)"
    and "map_of (ps_orders s) k \<noteq> None \<Longrightarrow> map_of (ps_orders (set_mark_price pc v sy price s)) k \<noteq> None"
    and "map_of (ps_orders s) k = Some od \<Longrightarrow> \<not> rest_triggered sy price od \<Longrightarrow>
         map_of (ps_orders (set_mark_price pc v sy price s)) k = Some od"
    and "map_of (ps_orders s) k = None \<Longrightarrow> map_of (ps_orders (set_mark_price pc v sy price s)) k = None"
proof -
  let ?s = "marked sy price s"
  let ?ods = "filter (rest_triggered sy price) (dict_values (ps_orders s))"
  have ok': "ledger_ok ?s" by (rule marked_ok [OF ok price])
  have "\<forall>od \<in> set ?ods. map_of (ps_orders ?s) (o_id od) = Some od"
    using ledger_orders_stored [OF ok] by simp
  moreover have "distinct (map o_id (dict_values (ps_orders s)))"
    using ok unfolding ledger_ids [OF ok] by (simp add: ledger_ok_def reservations_ok_def distinct_keys_def)
  then have "distinct (map o_id ?ods)" by (simp add: distinct_map_filter)
  ultimately have "ledger_ok (fold (trigger_order pc v sy price) ?ods ?s)
    \<and> (\<forall>k. k \<notin> o_id ` set ?ods \<longrightarrow>
          map_of (ps_orders (fold (trigger_order pc v sy price) ?ods ?s)) k = map_of (ps_orders ?s) k)
    \<and> ps_idempotency_index (fold (trigger_order pc v sy price) ?ods ?s) = ps_idempotency_index ?s
    \<and> ps_mark_prices (fold (trigger_order pc v sy price) ?ods ?s) = ps_mark_prices ?s
    \<and> (\<forall>k. map_of (ps_orders ?s) k \<noteq> None \<longrightarrow>
          map_of (ps_orders (fold (trigger_order pc v sy price) ?ods ?s)) k \<noteq> None)"
    by (intro fold_trigger_keeps [OF pc price ok'])
  moreover have "set_mark_price pc v sy price s = fold (trigger_order pc v sy price) ?ods ?s"
    unfolding set_mark_price_marked try_trigger_resting_def marked_frame by (rule fold_trigger_filter)
  ultimately have F: "ledger_ok (set_mark_price pc v sy price s)
    \<and> (\<forall>k. k \<notin> o_id ` set ?ods \<longrightarrow>
          map_of (ps_orders (set_mark_price pc v sy price s)) k = map_of (ps_orders s) k)
    \<and> ps_idempotency_index (set_mark_price pc v sy price s) = ps_idempotency_index s
    \<and> ps_mark_prices (set_mark_price pc v sy price s) = AList.update sy price (ps_mark_prices s)
    \<and> (\<forall>k. map_of (ps_orders s) k \<noteq> None \<longrightarrow> map_of (ps_orders (set_mark_price pc v sy price s)) k \<noteq> None)"
    by (simp del: not_None_eq)
  then show "ledger_ok (set_mark_price pc v sy price s)"
    and "ps_idempotency_index (set_mark_price pc v sy price s) = ps_idempotency_index s"
    and "ps_mark_prices (set_mark_price pc v sy price s) = AList.update sy price (ps_mark_prices s)"
    and "map_of (ps_orders s) k \<noteq> None \<Longrightarrow> map_of (ps_orders (set_mark_price pc v sy price s)) k \<noteq> None"
    by (simp_all del: not_None_eq)
  show "map_of (ps_orders (set_mark_price pc v sy price s)) k = Some od"
    if m: "map_of (ps_orders s) k = Some od" and idle: "\<not> rest_triggered sy price od"
  proof -
    have "k \<notin> o_id ` set ?ods"
    proof
      assume "k \<in> o_id ` set ?ods"
      then obtain od' where "od' \<in> set ?ods" and k: "k = o_id od'" by blast
      then have "rest_triggered sy price od'" "map_of (ps_orders s) k = Some od'"
        using ledger_orders_stored [OF ok] by simp_all
      with m idle show False by simp
    qed
    with F m show ?thesis by simp
  qed
  show "map_of (ps_orders (set_mark_price pc v sy price s)) k = None" if m: "map_of (ps_orders s) k = None"
  proof -
    have "k \<notin> o_id ` set ?ods" using ledger_orders_stored [OF ok] m by fastforce
    with F m show ?thesis by simp
  qed
qed

subsection \<open>Submission\<close>

definition request_ok :: "paper_config \<Rightarrow> order_request \<Rightarrow> bool" where
  "request_ok pc rq \<longleftrightarrow>
     on_grid 8 (rq_quantity rq) \<and> 0 < rq_quantity rq \<and> rq_quantity rq < amount_limit
   \<and> 0 < quantize_down 8 (dmul (rq_quantity rq) (pc_partial_fill_fraction pc))
   \<and> pred_option (\<lambda>p. 0 \<le> p) (rq_price rq)
   \<and> \<not> m_reservation_open (rq_metadata rq)"

definition marks_ok :: "paper_state \<Rightarrow> bool" where
  "marks_ok s \<longleftrightarrow> (\<forall>k m. map_of (ps_mark_prices s) k = Some m \<longrightarrow> 0 \<le> m)"

lemma register_order_keeps:
  assumes ok: "ledger_ok s" and rq: "request_ok pc rq"
    and new: "map_of (ps_orders s) (pv_order_id v) = None"
    and r: "register_order v rq s = (od, s1)"
  shows "od = new_order v rq" and "ledger_ok s1" and "current s1 od"
    and "ps_cash s1 = ps_cash s" "ps_reserved_cash s1 = ps_reserved_cash s"
    and "k \<noteq> pv_order_id v \<Longrightarrow> map_of (ps_orders s1) k = map_of (ps_orders s) k"
    and "ps_idempotency_index s1 = AList.update (rq_idempotency_key rq) (pv_order_id v) (ps_idempotency_index s)"
    and "ps_mark_prices s1 = ps_mark_prices s"
proof -
  show od: "od = new_order v rq" using r by (simp add: register_order_def Let_def)
  have ord: "ps_orders s1 = AList.update (o_id od) od (ps_orders s)"
    and eqs: "ps_cash s1 = ps_cash s" "ps_reserved_cash s1 = ps_reserved_cash s"
      "ps_positions s1 = ps_positions s" "ps_mark_prices s1 = ps_mark_prices s"
      "ps_idempotency_index s1 = AList.update (rq_idempotency_key rq) (pv_order_id v) (ps_idempotency_index s)"
    using r by (auto simp: register_order_def Let_def)
  have id: "o_id od = pv_order_id v" by (simp add: od new_order_def)
  have "order_ok od" "order_reserved od = 0"
    using rq by (simp_all add: od order_ok_def new_order_def request_ok_def order_reserved_def)
  with ok new id eqs ord have "reservations_ok s1" "current s1 od"
    using reservations_ok_insert [of s od s1] by (simp_all add: ledger_ok_def)
  moreover have "holdings_ok s1" using ok eqs by (simp add: ledger_ok_def holdings_ok_def)
  ultimately show "ledger_ok s1" "current s1 od" by (simp_all add: ledger_ok_def)
  show "ps_cash s1 = ps_cash s" "ps_reserved_cash s1 = ps_reserved_cash s"
    "ps_mark_prices s1 = ps_mark_prices s"
    "ps_idempotency_index s1 = AList.update (rq_idempotency_key rq) (pv_order_id v) (ps_idempotency_index s)"
    by (fact eqs)+
  show "k \<noteq> pv_order_id v \<Longrightarrow> map_of (ps_orders s1) k = map_of (ps_orders s) k"
    by (simp add: ord id map_of_update_if)
qed

text \<open>An order of the request that has not been filled, reserved for or finished yet.\<close>

definition fresh_for :: "order_request \<Rightarrow> order \<Rightarrow> bool" where
  "fresh_for rq od \<longleftrightarrow>
     o_side od = rq_side rq \<and> o_quantity od = rq_quantity rq \<and> o_filled_quantity od = 0
   \<and> \<not> terminal_status (o_status od)"

lemma lock_notional_keeps:
  assumes ok: "ledger_ok s" and cur: "current s od" and fresh: "fresh_for rq od"
    and closed: "\<not> m_reservation_open (o_metadata od)"
    and lim: "ps_cash s + ps_reserved_cash s < amount_limit"
    and r: "lock_notional v rq risk mark od s = (od', good, s')"
  shows "keeps od s (od', s')" and "good \<Longrightarrow> fresh_for rq od'"
proof -
  have "keeps od s (od', s') \<and> (good \<longrightarrow> fresh_for rq od')"
  proof (cases "rq_side rq = Buy \<and> reserve_price rq mark \<noteq> None")
    case False
    with r have "(od', good, s') = (od, True, s)" by (auto simp: lock_notional_def split: if_splits)
    with ok cur fresh show ?thesis by (simp add: keeps_refl)
  next
    case True
    then obtain px where "reserve_price rq mark = Some px" by blast
    with True r have f: "reserve_buy (pv_now v) od (or_else (ev_approved_quantity risk) (rq_quantity rq))
        px risk s = (od', good, s')"
      by (simp add: lock_notional_def)
    have "o_side od = Buy" "\<not> terminal_status (o_status od)" using True fresh by (simp_all add: fresh_for_def)
    note k = reserve_buy_keeps [OF ok cur this closed lim f]
    show ?thesis using k fresh by (auto simp: fresh_for_def)
  qed
  then show "keeps od s (od', s')" and "good \<Longrightarrow> fresh_for rq od'" by auto
qed

lemma fill_or_rest_keeps:
  assumes pc: "pc_ok pc" and ok: "ledger_ok s" and cur: "current s od" and fresh: "fresh_for rq od"
    and rq: "request_ok pc rq" and mark: "0 \<le> mark"
  shows "keeps od s (fill_or_rest pc v rq risk mark od s)"
proof (cases "rests_at rq mark")
  case None
  obtain od1 s1 where r: "release_reservation (pv_now v) od None s = (od1, s1)" by fastforce
  have k: "keeps od s (od1, s1)" using release_keeps [OF ok cur, of None "pv_now v"] by (simp add: r)
  have "\<not> m_reservation_open (o_metadata od1)"
    using release_all_closed [OF ok cur, of "pv_now v"] by (simp add: r)
  with keepsD [OF k] have "keeps od1 s1 (update_order (pv_now v) od1 Rejected risk x s1)" for x
    by (intro update_order_keeps)
  from keeps_trans [OF k this] show ?thesis by (simp add: fill_or_rest_def None r)
next
  case (Some b)
  have "keeps od s (execute_fill pc v od rq risk mark s)"
    using fresh rq mark by (intro execute_fill_keeps [OF pc ok cur])
      (auto simp: fresh_for_def request_ok_def terminal_status_def)
  with Some ok cur show ?thesis by (cases b) (simp_all add: fill_or_rest_def keeps_refl)
qed

lemma place_order_keeps:
  assumes pc: "pc_ok pc" and ok: "ledger_ok s" and cur: "current s od" and fresh: "fresh_for rq od"
    and closed: "\<not> m_reservation_open (o_metadata od)" and rq: "request_ok pc rq"
    and lim: "ps_cash s + ps_reserved_cash s < amount_limit" and marks: "marks_ok s"
  shows "keeps od s (place_order pc v rq risk od s)"
proof -
  have fail: "keeps od s (update_order (pv_now v) od st risk x s)" for st x
    using ok cur closed by (intro update_order_keeps)
  let ?known = "map_of (ps_mark_prices s) (rq_symbol rq)"
  let ?mark = "if ?known = None \<and> rq_order_type rq = Limit \<and> rq_price rq \<noteq> None then rq_price rq else ?known"
  obtain od1 good s1 where l: "lock_notional v rq risk ?mark od s = (od1, good, s1)" by (metis prod_cases3)
  note k = lock_notional_keeps [OF ok cur fresh closed lim l]
  have "keeps od s (fill_or_rest pc v rq risk m od1 s1)" if "?mark = Some m" "good" for m
  proof -
    have "0 \<le> m" using that marks rq by (auto simp: marks_ok_def request_ok_def split: if_splits)
    from keeps_trans [OF k(1) fill_or_rest_keeps [OF pc keepsD(1,2) [OF k(1)] k(2) [OF that(2)] rq this]]
    show ?thesis .
  qed
  with fail k(1) l show ?thesis
    unfolding place_order_def Let_def by (auto split: option.split prod.split)
qed

lemma submit_keeps:
  assumes pc: "pc_ok pc" and ok: "ledger_ok s" and rq: "request_ok pc rq" and marks: "marks_ok s"
    and lim: "ps_cash s + ps_reserved_cash s < amount_limit"
    and fresh: "map_of (ps_orders s) (pv_order_id v) = None"
    and new: "map_of (ps_idempotency_index s) (rq_idempotency_key rq) = None"
    and r: "submit pc v rq risk s = Inr (od, s')"
  shows "ledger_ok s'" and "o_id od = pv_order_id v" and "marks_ok s'" and "current s' od"
    and "k \<noteq> pv_order_id v \<Longrightarrow> map_of (ps_orders s') k = map_of (ps_orders s) k"
    and "ps_idempotency_index s'
         = AList.update (rq_idempotency_key rq) (pv_order_id v) (ps_idempotency_index s)"
proof -
  obtain od1 s1 where reg: "register_order v rq s = (od1, s1)" by fastforce
  note g = register_order_keeps [OF ok rq fresh reg]
  have id1: "o_id od1 = pv_order_id v" and closed: "\<not> m_reservation_open (o_metadata od1)"
    and st: "\<not> terminal_status (o_status od1)" and f1: "fresh_for rq od1"
    using rq by (simp_all add: g(1) new_order_def request_ok_def fresh_for_def terminal_status_def)
  have "keeps od1 s1 (od, s')"
  proof (cases "ev_decision risk \<in> {RRejected, RHalted}")
    case True
    with r new reg have "(od, s') = update_order (pv_now v) od1 Rejected risk None s1"
      by (simp add: submit_def)
    with update_order_keeps [OF g(2,3)] closed show ?thesis by simp
  next
    case False
    define a where "a = update_order (pv_now v) od1 Approved risk None s1"
    define b where "b = update_order (pv_now v) (fst a) Submitted risk None (snd a)"
    have ka: "keeps od1 s1 (fst a, snd a)"
      unfolding a_def prod.collapse by (rule update_order_keeps [OF g(2,3)]) (rule closed)
    have kb: "keeps od1 s1 (fst b, snd b)"
      unfolding b_def prod.collapse
      by (rule keeps_trans [OF ka update_order_keeps [OF keepsD(1,2) [OF ka]]])
        (simp add: terminal_status_def)
    have b: "fresh_for rq (fst b)" "\<not> m_reservation_open (o_metadata (fst b))"
        "ps_cash (snd b) = ps_cash s1" "ps_reserved_cash (snd b) = ps_reserved_cash s1"
      using f1 closed by (simp_all add: b_def a_def update_order_def Let_def fresh_for_def terminal_status_def)
    have "marks_ok (snd b)" using marks g(8) keepsD(6) [OF kb] by (simp add: marks_ok_def)
    with b lim g(4,5) have "keeps (fst b) (snd b) (place_order pc v rq risk (fst b) (snd b))"
      by (intro place_order_keeps [OF pc keepsD(1,2) [OF kb] b(1,2) rq]) simp_all
    moreover have "(od, s') = place_order pc v rq risk (fst b) (snd b)"
      using r new reg False by (simp add: submit_def b_def a_def case_prod_beta)
    ultimately show ?thesis using keeps_trans [OF kb] by simp
  qed
  note k = keepsD [OF this]
  show "ledger_ok s'" and "current s' od" by (rule k)+
  show "o_id od = pv_order_id v" using k(3) id1 by simp
  show "marks_ok s'" using marks g(8) k(6) by (simp add: marks_ok_def)
  show "ps_idempotency_index s'
         = AList.update (rq_idempotency_key rq) (pv_order_id v) (ps_idempotency_index s)"
    using k(5) g(7) by simp
  show "k \<noteq> pv_order_id v \<Longrightarrow> map_of (ps_orders s') k = map_of (ps_orders s) k"
    using k(4) g(6) id1 by simp
qed

subsection \<open>Cancelling and expiring\<close>

text \<open>Both operations release the whole reservation and write a terminal status.\<close>

lemma close_keeps:
  assumes ok: "ledger_ok s" and cur: "current s od" and st: "\<not> terminal_status (o_status od)"
    and r: "release_reservation now od None s = (od1, s1)"
    and s': "ps_orders s' = AList.update (o_id od) (od1\<lparr>o_status := status, o_updated_at := now\<rparr>) (ps_orders s1)"
      "ps_reserved_cash s' = ps_reserved_cash s1" "ps_cash s' = ps_cash s1"
      "ps_positions s' = ps_positions s1" "ps_mark_prices s' = ps_mark_prices s1"
      "ps_idempotency_index s' = ps_idempotency_index s1"
  shows "keeps od s (od1\<lparr>o_status := status, o_updated_at := now\<rparr>, s')"
proof -
  let ?od = "od1\<lparr>o_status := status, o_updated_at := now\<rparr>"
  have k: "keeps od s (od1, s1)" using release_keeps [OF ok cur, of None now] by (simp add: r)
  note kd = keepsD [OF k]
  have closed: "\<not> m_reservation_open (o_metadata od1)"
    using release_all_closed [OF ok cur, of now] by (simp add: r)
  have ok': "order_ok ?od" using kd(2) closed by (simp add: current_def order_ok_def)
  have "order_reserved od1 = 0" "order_reserved ?od = 0" using closed by (simp_all add: order_reserved_def)
  moreover have res1: "reservations_ok s1" "holdings_ok s1" using kd(1) by (simp_all add: ledger_ok_def)
  moreover have "ps_reserved_cash s1 < amount_limit" using res1 by (simp add: reservations_ok_def)
  ultimately have "reservations_ok s'" "current s' ?od"
    using reservations_ok_write [OF res1(1) kd(2), of ?od s'] ok' s' kd(3) by simp_all
  moreover have "holdings_ok s'" using res1(2) s' by (simp add: holdings_ok_def)
  ultimately have "keeps od1 s1 (?od, s')"
    using s' kd(3) by (simp add: keeps_def ledger_ok_def map_of_update_if)
  from keeps_trans [OF k this] show ?thesis .
qed

lemma cancel_keeps:
  assumes ok: "ledger_ok s" and r: "cancel now oid s = Inr (od, s')"
  shows "ledger_ok s'" and "map_of (ps_orders s') oid \<noteq> None" and "ps_mark_prices s' = ps_mark_prices s"
    and "ps_idempotency_index s' = ps_idempotency_index s"
    and "k \<noteq> oid \<Longrightarrow> map_of (ps_orders s') k = map_of (ps_orders s) k"
proof -
  from r obtain od0 where m: "map_of (ps_orders s) oid = Some od0"
    by (auto simp: cancel_def split: option.splits)
  note o = ledger_order [OF ok m]
  have "keeps od0 s (od, s')"
  proof (cases "o_status od0 \<in> {Created, RiskPending, Approved, Submitted, PartiallyFilled}")
    case False
    with r m have "od = od0" "s' = s" by (simp_all add: cancel_def)
    with keeps_refl [OF ok o(3)] show ?thesis by simp
  next
    case True
    obtain od1 s1 where rel: "release_reservation now od0 None s = (od1, s1)" by fastforce
    have "od = od1\<lparr>o_status := Cancelled, o_updated_at := now\<rparr>"
      "s' = journal now (JOrderCancelled oid) (s1\<lparr>ps_orders := AList.update oid od (ps_orders s1)\<rparr>)"
      using r m True rel by (auto simp: cancel_def Let_def)
    moreover from this o(1) True have "keeps od0 s (od1\<lparr>o_status := Cancelled, o_updated_at := now\<rparr>, s')"
      by (intro close_keeps [OF ok o(3) _ rel]) (auto simp: terminal_status_def)
    ultimately show ?thesis by simp
  qed
  from keepsD [OF this] o(1)
  show "ledger_ok s'" and "map_of (ps_orders s') oid \<noteq> None" and "ps_mark_prices s' = ps_mark_prices s"
    and "ps_idempotency_index s' = ps_idempotency_index s"
    and "k \<noteq> oid \<Longrightarrow> map_of (ps_orders s') k = map_of (ps_orders s) k"
    by (auto simp: current_def)
qed

lemma expire_keeps:
  assumes ok: "ledger_ok s" and r: "expire now oid s = Inr (od, s')"
  shows "ledger_ok s'" and "map_of (ps_orders s') oid \<noteq> None" and "ps_mark_prices s' = ps_mark_prices s"
    and "ps_idempotency_index s' = ps_idempotency_index s"
    and "k \<noteq> oid \<Longrightarrow> map_of (ps_orders s') k = map_of (ps_orders s) k"
proof -
  from r obtain od0 where m: "map_of (ps_orders s) oid = Some od0"
    by (auto simp: expire_def split: option.splits)
  note o = ledger_order [OF ok m]
  have "keeps od0 s (od, s')"
  proof (cases "o_status od0 \<in> {Submitted, PartiallyFilled, Approved}")
    case False
    with r m have "od = od0" "s' = s" by (simp_all add: expire_def)
    with keeps_refl [OF ok o(3)] show ?thesis by simp
  next
    case True
    obtain od1 s1 where rel: "release_reservation now od0 None s = (od1, s1)" by fastforce
    have "od = od1\<lparr>o_status := Expired, o_updated_at := now\<rparr>"
      "s' = journal now (JOrderExpired oid) (s1\<lparr>ps_orders := AList.update oid od (ps_orders s1)\<rparr>)"
      using r m True rel by (auto simp: expire_def Let_def)
    moreover from this o(1) True have "keeps od0 s (od1\<lparr>o_status := Expired, o_updated_at := now\<rparr>, s')"
      by (intro close_keeps [OF ok o(3) _ rel]) (auto simp: terminal_status_def)
    ultimately show ?thesis by simp
  qed
  from keepsD [OF this] o(1)
  show "ledger_ok s'" and "map_of (ps_orders s') oid \<noteq> None" and "ps_mark_prices s' = ps_mark_prices s"
    and "ps_idempotency_index s' = ps_idempotency_index s"
    and "k \<noteq> oid \<Longrightarrow> map_of (ps_orders s') k = map_of (ps_orders s) k"
    by (auto simp: current_def)
qed

subsection \<open>Steps\<close>

inductive paper_step :: "paper_config \<Rightarrow> paper_state \<Rightarrow> paper_state \<Rightarrow> bool" for pc where
  step_submit: "request_ok pc rq \<Longrightarrow> map_of (ps_orders s) (pv_order_id v) = None \<Longrightarrow>
    ps_cash s + ps_reserved_cash s < amount_limit \<Longrightarrow>
    submit pc v rq risk s = Inr (od, s') \<Longrightarrow> paper_step pc s s'"
| step_mark: "0 \<le> price \<Longrightarrow> paper_step pc s (set_mark_price pc v sy price s)"
| step_cancel: "cancel now oid s = Inr (od, s') \<Longrightarrow> paper_step pc s s'"
| step_expire: "expire now oid s = Inr (od, s') \<Longrightarrow> paper_step pc s s'"

inductive_cases paper_stepE: "paper_step pc s s'"

text \<open>What holds in every reachable state: the ledger, the marks, and the index of keys.\<close>

definition index_ok :: "paper_state \<Rightarrow> bool" where
  "index_ok s \<longleftrightarrow>
     (\<forall>key oid. map_of (ps_idempotency_index s) key = Some oid \<longrightarrow> map_of (ps_orders s) oid \<noteq> None)"

definition engine_ok :: "paper_state \<Rightarrow> bool" where
  "engine_ok s \<longleftrightarrow> ledger_ok s \<and> marks_ok s \<and> index_ok s"

lemma new_engine_ok: "pc_ok pc \<Longrightarrow> engine_ok (new_engine pc)"
  by (simp add: new_engine_def engine_ok_def ledger_ok_def reservations_ok_def holdings_ok_def
      marks_ok_def index_ok_def pc_ok_def dict_values_def)

lemma step_engine_ok [inv_intros]:
  assumes pc: "pc_ok pc" and step: "paper_step pc s s'" and ok: "engine_ok s"
  shows "engine_ok s'"
  using step
proof cases
  case (step_submit rq v risk od)
  have l: "ledger_ok s" and m: "marks_ok s" and i: "index_ok s" using ok by (simp_all add: engine_ok_def)
  show ?thesis
  proof (cases "map_of (ps_idempotency_index s) (rq_idempotency_key rq)")
    case None
    note k = submit_keeps [OF pc l step_submit(1) m step_submit(3,2) None step_submit(4)]
    have "map_of (ps_orders s') (pv_order_id v) \<noteq> None" using k(2,4) by (auto simp: current_def)
    then have "map_of (ps_orders s') oid \<noteq> None" if "map_of (ps_orders s) oid \<noteq> None" for oid
      using that k(5) [of oid] by (cases "oid = pv_order_id v") auto
    with i k(6) \<open>map_of (ps_orders s') (pv_order_id v) \<noteq> None\<close> have "index_ok s'"
      unfolding index_ok_def by (simp add: map_of_update_if del: not_None_eq)
    with k(1,3) show ?thesis by (simp add: engine_ok_def)
  next
    case (Some oid)
    with step_submit(4) have "s' = s" by (auto simp: submit_def split: option.splits)
    with ok show ?thesis by simp
  qed
next
  case (step_mark price v sy)
  have l: "ledger_ok s" using ok by (simp add: engine_ok_def)
  note k = set_mark_price_keeps [OF pc l step_mark(2), where v = v and sy = sy]
  have "index_ok (set_mark_price pc v sy price s)"
    using ok k(4) by (simp add: engine_ok_def index_ok_def k(2) del: not_None_eq)
  moreover have "marks_ok (set_mark_price pc v sy price s)"
    using ok step_mark(2) by (simp add: engine_ok_def marks_ok_def k(3) map_of_update_if)
  ultimately show ?thesis using k(1) step_mark(1) by (simp add: engine_ok_def)
next
  case (step_cancel now oid od)
  have l: "ledger_ok s" using ok by (simp add: engine_ok_def)
  note k = cancel_keeps [OF l step_cancel]
  have "map_of (ps_orders s') x \<noteq> None" if "map_of (ps_orders s) x \<noteq> None" for x
    using that k(2) k(5) [of x] by (cases "x = oid") auto
  with ok k(1,3,4) show ?thesis
    by (simp add: engine_ok_def marks_ok_def index_ok_def del: not_None_eq)
next
  case (step_expire now oid od)
  have l: "ledger_ok s" using ok by (simp add: engine_ok_def)
  note k = expire_keeps [OF l step_expire]
  have "map_of (ps_orders s') x \<noteq> None" if "map_of (ps_orders s) x \<noteq> None" for x
    using that k(2) k(5) [of x] by (cases "x = oid") auto
  with ok k(1,3,4) show ?thesis
    by (simp add: engine_ok_def marks_ok_def index_ok_def del: not_None_eq)
qed

lemma reachable_engine_ok:
  assumes "pc_ok pc" and "(paper_step pc)\<^sup>*\<^sup>* (new_engine pc) s"
  shows "engine_ok s"
  using assms(2) by (induction rule: rtranclp_induct) (auto intro: new_engine_ok assms(1) step_engine_ok)

end
