(* ===== verification/Paper_Properties.thy ===== *)
theory Paper_Properties
  imports Paper_Steps
begin

text \<open>
  What the paper engine guarantees in every reachable state, and what each public operation
  does. Three behaviours of the code are stated that its comments do not promise: a fill that
  rounds to nothing leaves a failed order holding its reservation, a failed sell leaves a fill
  in the log, and a stop or take-profit order without a \<open>price\<close> never triggers.
\<close>

subsection \<open>The returned order is the one in the ledger\<close>

definition stored :: "order \<times> paper_state \<Rightarrow> bool" where
  "stored r \<longleftrightarrow> map_of (ps_orders (snd r)) (o_id (fst r)) = Some (fst r)"

lemma update_order_stored [simp]: "stored (update_order now od status risk extra s)"
  by (simp add: stored_def update_order_def Let_def)

lemma fill_failed_stored:
  "fill_buy now od q p fee risk s = (od1, False, s1) \<Longrightarrow> stored (od1, s1)"
  "fill_sell now od q p fee risk s = (od1, False, s1) \<Longrightarrow> stored (od1, s1)"
  by (auto simp: fill_buy_def fill_sell_def Let_def split: if_splits prod.splits option.splits)
    (metis update_order_stored)+

lemma release_status: "release_reservation now od a s = (od1, s1) \<Longrightarrow> o_status od1 = o_status od"
  by (metis release_meta(2) fst_conv)

lemma fill_good_status:
  "fill_buy now od q p fee risk s = (od1, True, s1) \<Longrightarrow> o_status od1 = o_status od"
  "fill_sell now od q p fee risk s = (od1, True, s1) \<Longrightarrow> o_status od1 = o_status od"
  by (auto simp: fill_buy_def fill_sell_def Let_def dest: release_status
      split: if_splits prod.splits option.splits)

lemma apply_fill_failed_stored:
  assumes "apply_fill pc v od q p risk mk s = (od1, s1)" "o_status od \<noteq> Failed" "o_status od1 = Failed"
  shows "stored (od1, s1)"
  using assms fill_failed_stored fill_good_status
  by (auto simp: apply_fill_def Let_def split: if_splits prod.splits)

lemma execute_fill_stored:
  "o_status od \<noteq> Failed \<Longrightarrow> stored (execute_fill pc v od rq risk mark s)"
  using apply_fill_failed_stored
  by (auto simp: execute_fill_def Let_def split: prod.split)

lemma place_order_stored:
  assumes "stored (od, s)" and "o_status od \<noteq> Failed"
  shows "stored (place_order pc v rq risk od s)"
proof -
  have lock: "stored (od1, s1) \<and> (ok \<longrightarrow> o_status od1 \<noteq> Failed)"
    if "lock_notional v rq risk mark od s = (od1, ok, s1)" for mark od1 ok s1
    using that assms
    by (auto simp: lock_notional_def reserve_buy_def Let_def split: if_splits option.splits prod.splits)
      (metis update_order_stored, simp add: stored_def)
  have fr: "stored (fill_or_rest pc v rq risk m od1 s1)" if "stored (od1, s1)" "o_status od1 \<noteq> Failed" for m od1 s1
    using that by (auto simp: fill_or_rest_def execute_fill_stored split: option.split prod.split bool.split)
  show ?thesis
    unfolding place_order_def Let_def using lock fr
    by (auto split: option.split prod.split)
qed

lemma submit_stored:
  assumes "submit pc v rq risk s = Inr r" and "engine_ok s"
  shows "stored r"
proof (cases "map_of (ps_idempotency_index s) (rq_idempotency_key rq)")
  case (Some oid)
  with assms obtain od where "map_of (ps_orders s) oid = Some od" "r = (od, s)"
    by (auto simp: submit_def split: option.splits)
  moreover have "ledger_ok s" using assms(2) by (simp add: engine_ok_def)
  ultimately show ?thesis using ledger_order(1) by (simp add: stored_def)
next
  case None
  define a where "a = update_order (pv_now v) (fst (register_order v rq s)) Approved risk None
                        (snd (register_order v rq s))"
  define b where "b = update_order (pv_now v) (fst a) Submitted risk None (snd a)"
  have "stored (place_order pc v rq risk (fst b) (snd b))"
    by (rule place_order_stored) (simp_all add: b_def)
  with assms(1) None show ?thesis
    by (auto simp: submit_def case_prod_beta a_def b_def split: if_splits)
qed

text \<open>A key that was not in the index is mapped to the new order by a submission.\<close>

lemma update_order_frame [simp]:
  "ps_idempotency_index (snd (update_order now od status risk extra s)) = ps_idempotency_index s"
  "ps_fills (snd (update_order now od status risk extra s)) = ps_fills s"
  "ps_positions (snd (update_order now od status risk extra s)) = ps_positions s"
  "ps_cash (snd (update_order now od status risk extra s)) = ps_cash s"
  "ps_reserved_cash (snd (update_order now od status risk extra s)) = ps_reserved_cash s"
  by (simp_all add: update_order_def Let_def)

subsection \<open>What a mark update fills\<close>

lemma fill_side_fills:
  "fill_buy now od q p fee risk s = (od1, ok, s1) \<Longrightarrow> ps_fills s1 = ps_fills s"
  "fill_sell now od q p fee risk s = (od1, ok, s1) \<Longrightarrow> ps_fills s1 = ps_fills s"
proof -
  assume "fill_buy now od q p fee risk s = (od1, ok, s1)"
  then have "ps_fills s1 = ps_fills (snd (snd (fill_buy now od q p fee risk s)))" by simp
  also have "\<dots> = ps_fills s" by (simp add: fill_buy_def Let_def case_prod_beta)
  finally show "ps_fills s1 = ps_fills s" .
next
  assume "fill_sell now od q p fee risk s = (od1, ok, s1)"
  then have "ps_fills s1 = ps_fills (snd (snd (fill_sell now od q p fee risk s)))" by simp
  also have "\<dots> = ps_fills s"
    by (simp add: fill_sell_def Let_def case_prod_beta split: option.split)
  finally show "ps_fills s1 = ps_fills s" .
qed

lemma apply_fill_fills:
  assumes "apply_fill pc v od q p risk mk s = (od1, s1)"
  obtains f where "ps_fills s1 = ps_fills s @ [f]" "f_order_id f = o_id od" "f_side f = o_side od"
    "f_quantity f = q" "f_price f = p"
  using assms fill_side_fills
  by (auto simp: apply_fill_def Let_def split: if_splits prod.splits)

definition fill_of :: "string \<Rightarrow> decimal \<Rightarrow> order \<Rightarrow> fill \<Rightarrow> bool" where
  "fill_of sy mark od f \<longleftrightarrow>
     rest_triggered sy mark od \<and> f_order_id f = o_id od \<and> f_side f = o_side od
   \<and> 0 < f_quantity f \<and> f_quantity f \<le> o_quantity od - o_filled_quantity od
   \<and> (o_order_type od = Limit \<longrightarrow>
        o_price od = Some (f_price f)
        \<and> (if o_side od = Buy then mark \<le> f_price f else f_price f \<le> mark))"

lemma trigger_order_fills:
  assumes pc: "pc_ok pc" and od: "order_ok od"
  shows "ps_fills (trigger_order pc v sy mark od s) = ps_fills s
    \<or> (\<exists>f. ps_fills (trigger_order pc v sy mark od s) = ps_fills s @ [f] \<and> fill_of sy mark od f)"
proof (cases "trigger_order pc v sy mark od s = s")
  case False
  let ?rem = "dsub (o_quantity od) (o_filled_quantity od)"
  let ?q = "if pc_partial_fill_fraction pc < 1
            then quantize_down 8 (dmul ?rem (pc_partial_fill_fraction pc)) else ?rem"
  let ?px = "fill_price pc mark (o_order_type od) (o_side od) (o_price od)"
  have trig: "rest_triggered sy mark od" and q: "0 < ?q"
    using False by (auto simp: trigger_order_def Let_def split: if_splits)
  note rem = order_remaining [OF od]
  have "0 < ?rem" using trig by (simp add: rest_triggered_def)
  with pc rem have le: "?q \<le> o_quantity od - o_filled_quantity od"
    by (auto simp: pc_ok_def intro!: part_le)
  define risk where "risk = \<lparr>ev_decision = (case o_risk_decision od of Some d \<Rightarrow> d | None \<Rightarrow> RApproved),
                    ev_reason_code = (case o_risk_reason_code od of Some c \<Rightarrow> c | None \<Rightarrow> OK),
                    ev_approved_quantity = Some ?rem\<rparr>"
  obtain od1 s1 where f: "apply_fill pc v od ?q ?px risk (o_order_type od = Limit) s = (od1, s1)"
    by fastforce
  then obtain fl where fl: "ps_fills s1 = ps_fills s @ [fl]" "f_order_id fl = o_id od"
    "f_side fl = o_side od" "f_quantity fl = ?q" "f_price fl = ?px"
    by (rule apply_fill_fills)
  have "ps_fills (trigger_order pc v sy mark od s) = ps_fills s1"
    using trig q unfolding trigger_order_def Let_def risk_def [symmetric] f
    by (simp add: case_prod_beta)
  moreover have "fill_of sy mark od fl"
    using trig q le fl
    by (auto simp: fill_of_def fill_price_def rest_triggered_def Let_def split: option.splits)
      (metis order_side.exhaust not_le)+
  ultimately show ?thesis using fl(1) by auto
qed simp

lemma fold_trigger_fills:
  assumes "pc_ok pc" and "\<forall>od \<in> set ods. order_ok od" and "distinct (map o_id ods)"
  shows "\<exists>fs. ps_fills (fold (trigger_order pc v sy mark) ods s) = ps_fills s @ fs
    \<and> distinct (map f_order_id fs) \<and> (\<forall>f \<in> set fs. \<exists>od \<in> set ods. fill_of sy mark od f)"
  using assms(2,3)
proof (induction ods arbitrary: s)
  case (Cons od ods)
  then obtain fs where fs: "ps_fills (fold (trigger_order pc v sy mark) (od # ods) s)
        = ps_fills (trigger_order pc v sy mark od s) @ fs"
    "distinct (map f_order_id fs)" "\<forall>f \<in> set fs. \<exists>od \<in> set ods. fill_of sy mark od f"
    by fastforce
  have new: "f_order_id f \<noteq> o_id od" if "f \<in> set fs" for f
    using that fs(3) Cons.prems(2) by (fastforce simp: fill_of_def)
  have "order_ok od" using Cons.prems(1) by simp
  from trigger_order_fills [OF assms(1) this, of v sy mark s] show ?case
  proof
    assume "ps_fills (trigger_order pc v sy mark od s) = ps_fills s"
    with fs show ?thesis by (intro exI [of _ fs]) auto
  next
    assume "\<exists>f. ps_fills (trigger_order pc v sy mark od s) = ps_fills s @ [f] \<and> fill_of sy mark od f"
    then obtain f where f: "ps_fills (trigger_order pc v sy mark od s) = ps_fills s @ [f]"
      "fill_of sy mark od f" by blast
    then have "f_order_id f = o_id od" by (simp add: fill_of_def)
    then have "f_order_id f \<notin> f_order_id ` set fs" using new by fastforce
    with f fs show ?thesis by (intro exI [of _ "f # fs"]) simp
  qed
qed simp

subsection \<open>Properties\<close>


text \<open>
  Submission is idempotent: once a request with some key has been submitted, submitting any
  request with that key again, under any risk evaluation, clock and prices, returns the same
  order and changes nothing.
\<close>

lemma paper_submit_idempotent:
  assumes "pc_ok pc" and "engine_ok s" and "request_ok pc rq"
    and "map_of (ps_orders s) (pv_order_id v) = None"
    and "ps_cash s + ps_reserved_cash s < amount_limit"
    and "submit pc v rq risk s = Inr (od, s')" and "rq_idempotency_key rq' = rq_idempotency_key rq"
  shows "submit pc v' rq' risk' s' = Inr (od, s')"
proof -
  have st: "map_of (ps_orders s') (o_id od) = Some od"
    using submit_stored [OF assms(6,2)] by (simp add: stored_def)
  have e: "ledger_ok s" "marks_ok s" using assms(2) by (simp_all add: engine_ok_def)
  show ?thesis
  proof (cases "map_of (ps_idempotency_index s) (rq_idempotency_key rq)")
    case None
    note k = submit_keeps [OF assms(1) e(1) assms(3) e(2) assms(5,4) None assms(6)]
    have "map_of (ps_idempotency_index s') (rq_idempotency_key rq') = Some (o_id od)"
      by (simp add: k(6) k(2) assms(7))
    with st show ?thesis by (simp add: submit_def)
  next
    case (Some oid)
    with assms(6,7) show ?thesis by (auto simp: submit_def split: option.splits)
  qed
qed

text \<open>
  Cancelling an open order gives back exactly what it still had reserved, marks it cancelled
  with a closed reservation, and a second cancellation or expiry changes nothing more.
\<close>

lemma paper_cancel_releases_once:
  assumes "engine_ok s" and "map_of (ps_orders s) oid = Some od" and "\<not> terminal_status (o_status od)"
  shows "\<exists>od' s'. cancel now oid s = Inr (od', s')
    \<and> o_status od' = Cancelled \<and> order_reserved od' = 0
    \<and> ps_reserved_cash s' = ps_reserved_cash s - order_reserved od
    \<and> ps_cash s' = (if order_reserved od = 0 then ps_cash s else dadd (ps_cash s) (order_reserved od))
    \<and> ps_positions s' = ps_positions s \<and> ps_fills s' = ps_fills s
    \<and> cancel now' oid s' = Inr (od', s') \<and> expire now' oid s' = Inr (od', s')"
proof -
  have ok: "ledger_ok s" using assms(1) by (simp add: engine_ok_def)
  then have res: "reservations_ok s" by (simp add: ledger_ok_def)
  note o = ledger_order [OF ok assms(2)]
  obtain od1 s1 where rel: "release_reservation now od None s = (od1, s1)" by fastforce
  let ?od = "od1\<lparr>o_status := Cancelled, o_updated_at := now\<rparr>"
  let ?s = "journal now (JOrderCancelled oid) (s1\<lparr>ps_orders := AList.update oid ?od (ps_orders s1)\<rparr>)"
  have st: "o_status od \<in> {Created, RiskPending, Approved, Submitted, PartiallyFilled}"
    using assms(3) by (cases "o_status od") (simp_all add: terminal_status_def)
  have c: "cancel now oid s = Inr (?od, ?s)" using assms(2) st rel by (auto simp: cancel_def Let_def)
  have closed: "\<not> m_reservation_open (o_metadata od1)"
    using release_all_closed [OF ok o(3), of now] by (simp add: rel)
  have r: "ps_reserved_cash s1 = ps_reserved_cash s - order_reserved od
      \<and> ps_cash s1 = (if order_reserved od = 0 then ps_cash s else dadd (ps_cash s) (order_reserved od))"
  proof (cases "m_reservation_open (o_metadata od)")
    case True
    from release_shape(4,6) [OF res o(3) _ True rel] order_reserved_nonneg [OF o(2)] show ?thesis
      by simp
  next
    case False
    with rel show ?thesis by (simp add: release_closed order_reserved_def)
  qed
  have fr: "ps_positions s1 = ps_positions s" "ps_fills s1 = ps_fills s"
    using release_meta(7,10) [of now od None s] by (simp_all add: rel)
  show ?thesis
    by (intro exI [of _ ?od] exI [of _ ?s] conjI)
      (use c r fr closed in \<open>simp_all add: order_reserved_def cancel_def expire_def\<close>)
qed

text \<open>
  A terminal order is final: no mark update, cancellation or expiry changes a filled,
  rejected, cancelled, expired or failed order.
\<close>

lemma paper_terminal_final:
  assumes "pc_ok pc" and "engine_ok s" and "0 \<le> price"
    and "map_of (ps_orders s) k = Some od" and "terminal_status (o_status od)"
  shows "map_of (ps_orders (set_mark_price pc v sy price s)) k = Some od
    \<and> cancel now k s = Inr (od, s) \<and> expire now k s = Inr (od, s)"
proof -
  have "\<not> rest_triggered sy price od" using assms(5) by (auto simp: rest_triggered_def terminal_status_def)
  with set_mark_price_keeps(5) [OF assms(1) _ assms(3,4)] assms(2)
  have "map_of (ps_orders (set_mark_price pc v sy price s)) k = Some od" by (simp add: engine_ok_def)
  moreover have "o_status od \<notin> {Created, RiskPending, Approved, Submitted, PartiallyFilled}"
    using assms(5) by (auto simp: terminal_status_def)
  ultimately show ?thesis using assms(4) by (simp add: cancel_def expire_def)
qed

text \<open>
  A mark update only fills what it triggers: the fills it adds belong to different resting
  orders of the symbol whose trigger condition the mark meets, each takes a positive part of what
  the order has left, and a limit order fills at its own price, which is never worse than the
  mark was required to be.
\<close>

lemma paper_mark_fills_triggered:
  assumes "pc_ok pc" and "engine_ok s"
  shows "\<exists>fs. ps_fills (set_mark_price pc v sy mark s) = ps_fills s @ fs
    \<and> distinct (map f_order_id fs)
    \<and> (\<forall>f \<in> set fs. \<exists>od. map_of (ps_orders s) (f_order_id f) = Some od \<and> fill_of sy mark od f)"
proof -
  have ok: "ledger_ok s" using assms(2) by (simp add: engine_ok_def)
  then have res: "reservations_ok s" by (simp add: ledger_ok_def)
  have "distinct (map o_id (dict_values (ps_orders s)))"
    using res unfolding ledger_ids [OF ok] by (simp add: reservations_ok_def distinct_keys_def)
  with fold_trigger_fills [OF assms(1), of "dict_values (ps_orders s)" v sy mark "marked sy mark s"]
    reservations_order_ok [OF res]
  obtain fs where fs: "ps_fills (set_mark_price pc v sy mark s) = ps_fills s @ fs"
    "distinct (map f_order_id fs)"
    "\<forall>f \<in> set fs. \<exists>od \<in> set (dict_values (ps_orders s)). fill_of sy mark od f"
    by (auto simp: set_mark_price_marked try_trigger_resting_def)
  have "\<exists>od. map_of (ps_orders s) (f_order_id f) = Some od \<and> fill_of sy mark od f" if "f \<in> set fs" for f
    using fs(3) that ledger_orders_stored [OF ok] by (metis fill_of_def)
  with fs show ?thesis by blast
qed

text \<open>
  Simulated prices are against the trader: a market buy fills at or above the mark, a market
  sell at or below it but never at a negative price, and an order with a limit price at that
  price.
\<close>

lemma paper_fill_price_adverse:
  assumes "pc_ok pc" and "0 \<le> mark" and "representable mark"
  shows "mark \<le> fill_price pc mark Market Buy p
    \<and> 0 \<le> fill_price pc mark Market Sell p \<and> fill_price pc mark Market Sell p \<le> mark
    \<and> fill_price pc mark Limit side (Some l) = l"
proof -
  have h: "0 \<le> ddiv (dmul mark (pc_spread_rate pc)) 2" "0 \<le> dmul mark (pc_slippage_rate pc)"
    using assms by (auto simp: pc_ok_def intro!: ddiv_nonneg dmul_nonneg)
  have "mark \<le> dadd mark (ddiv (dmul mark (pc_spread_rate pc)) 2)"
    unfolding dadd_def using h by (intro ctx.rep_le_rnd [OF assms(3)]) simp
  also have "\<dots> \<le> dadd \<dots> (dmul mark (pc_slippage_rate pc))"
    unfolding dadd_def [of "dadd _ _"] using h by (intro ctx.rep_le_rnd) simp_all
  finally have buy: "mark \<le> fill_price pc mark Market Buy p" by (simp add: fill_price_def Let_def)
  have "dsub mark (ddiv (dmul mark (pc_spread_rate pc)) 2) \<le> mark"
    unfolding dsub_def using h by (intro ctx.rnd_le_rep [OF assms(3)]) simp
  with h have "dsub (dsub mark (ddiv (dmul mark (pc_spread_rate pc)) 2)) (dmul mark (pc_slippage_rate pc)) \<le> mark"
    unfolding dsub_def [of "dsub _ _"] by (intro ctx.rnd_le_rep [OF assms(3)]) linarith
  moreover have "0 \<le> fill_price pc mark Market Sell p"
    using sell_price_nonneg [of mark "pc_spread_rate pc" "pc_slippage_rate pc"] assms
    by (simp add: fill_price_def Let_def pc_ok_def)
  ultimately show ?thesis using buy by (simp add: fill_price_def Let_def)
qed

subsection \<open>Behaviours the documentation does not promise\<close>

text \<open>
  A buy whose fill rounds to nothing keeps its reservation: with a mark, enough cash and a
  quantity whose fillable part is below the eighth place, the order is failed while its
  reservation is still open, and neither cancelling nor expiring it gives the cash back.
\<close>

lemma paper_zero_fill_leaks:
  assumes "map_of (ps_idempotency_index s) (rq_idempotency_key rq) = None"
    and "ev_decision risk = RApproved" and "ev_approved_quantity risk = Some (rq_quantity rq)"
    and "rq_side rq = Buy" and "rq_order_type rq = Market" and "\<not> m_reservation_open (rq_metadata rq)"
    and "map_of (ps_mark_prices s) (rq_symbol rq) = Some m"
    and "pc_reject_probability pc = 0" and "rq_quantity rq \<noteq> 0"
    and "quantize_down 8 (dmul (rq_quantity rq) (pc_partial_fill_fraction pc)) \<le> 0"
    and "0 < quantize 8 (dmul (rq_quantity rq) m)" and "quantize 8 (dmul (rq_quantity rq) m) \<le> ps_cash s"
  shows "\<exists>od s'. submit pc v rq risk s = Inr (od, s') \<and> o_status od = Failed
    \<and> m_reservation_open (o_metadata od)
    \<and> ps_cash s' = dsub (ps_cash s) (quantize 8 (dmul (rq_quantity rq) m))
    \<and> ps_reserved_cash s' = dadd (ps_reserved_cash s) (quantize 8 (dmul (rq_quantity rq) m))
    \<and> cancel now (o_id od) s' = Inr (od, s') \<and> expire now (o_id od) s' = Inr (od, s')"
  using assms
  by (simp add: submit_def register_order_def new_order_def place_order_def lock_notional_def
      reserve_price_def reserve_buy_def fill_or_rest_def rests_at_def execute_fill_def Let_def or_else_def
      update_order_def cancel_def expire_def not_less)

text \<open>
  A sell of a symbol the account does not hold is failed without touching cash or positions,
  but its fill has already been appended to the fill log.
\<close>

lemma paper_failed_sell_logs_fill:
  assumes "o_side od = Sell" and "map_of (ps_positions s) (o_symbol od) = None"
  shows "\<exists>od' s' f. apply_fill pc v od qty price risk mk s = (od', s') \<and> o_status od' = Failed
    \<and> o_filled_quantity od' = o_filled_quantity od
    \<and> ps_cash s' = ps_cash s \<and> ps_positions s' = ps_positions s
    \<and> ps_fills s' = ps_fills s @ [f] \<and> f_order_id f = o_id od \<and> f_quantity f = qty"
  using assms by (simp add: apply_fill_def fill_sell_def update_order_def Let_def)

text \<open>
  A resting order without a \<open>price\<close> never triggers: a stop-loss sell submitted with only a
  \<open>stop_loss\<close> below the mark is accepted and rests, and no later mark, however low, changes it.
\<close>

lemma paper_stop_without_price_never_triggers:
  assumes "pc_ok pc" and "engine_ok s" and "request_ok pc rq"
    and "map_of (ps_orders s) (pv_order_id v) = None"
    and "ps_cash s + ps_reserved_cash s < amount_limit"
    and "map_of (ps_idempotency_index s) (rq_idempotency_key rq) = None"
    and "ev_decision risk = RApproved" and "pc_reject_probability pc = 0"
    and "rq_side rq = Sell" and "rq_order_type rq = StopLoss" and "rq_price rq = None"
    and "rq_stop_loss rq = Some t" and "t \<noteq> 0"
    and "map_of (ps_mark_prices s) (rq_symbol rq) = Some m" and "t < m" and "0 \<le> m'"
  shows "\<exists>od s'. submit pc v rq risk s = Inr (od, s') \<and> o_status od = Submitted
    \<and> map_of (ps_orders (set_mark_price pc v' (rq_symbol rq) m' s')) (o_id od) = Some od"
proof -
  obtain od s' where sub: "submit pc v rq risk s = Inr (od, s')" and od: "o_status od = Submitted" "o_price od = None"
    using assms(6-15)
    by (simp add: submit_def register_order_def new_order_def place_order_def lock_notional_def
        fill_or_rest_def rests_at_def truthy_or_def Let_def update_order_def)
  have e: "ledger_ok s" "marks_ok s" using assms(2) by (simp_all add: engine_ok_def)
  note k = submit_keeps [OF assms(1) e(1) assms(3) e(2) assms(5,4,6) sub]
  have st: "map_of (ps_orders s') (o_id od) = Some od"
    using submit_stored [OF sub assms(2)] by (simp add: stored_def)
  have "\<not> rest_triggered (rq_symbol rq) m' od" using od(2) by (simp add: rest_triggered_def)
  from set_mark_price_keeps(5) [OF assms(1) k(1) assms(16) st this] sub od(1) show ?thesis by blast
qed

subsection \<open>A concrete ledger\<close>

definition sample_engine :: paper_state where
  "sample_engine = (new_engine default_paper_config)\<lparr>ps_mark_prices := [(''BTC/USDT'', 50000)]\<rparr>"

definition sample_env :: paper_env where
  "sample_env = \<lparr>pv_now = 0, pv_order_id = ''order-1'', pv_fill_id = (\<lambda>oid. oid @ ''-fill''), pv_draw = 0\<rparr>"

definition sample_buy :: order_request where
  "sample_buy = \<lparr>rq_symbol = ''BTC/USDT'', rq_side = Buy, rq_order_type = Limit,
     rq_quantity = 1 / 100, rq_price = Some 40000, rq_stop_loss = None, rq_take_profit = None,
     rq_strategy_name = None, rq_signal_id = None, rq_idempotency_key = ''k1'',
     rq_client_order_id = None, rq_reduce_only = False, rq_metadata = empty_meta\<rparr>"

definition sample_risk :: "decimal \<Rightarrow> risk_evaluation" where
  "sample_risk q = \<lparr>ev_decision = RApproved, ev_reason_code = OK, ev_approved_quantity = Some q\<rparr>"

definition sample_order :: order where
  "sample_order = \<lparr>o_id = ''order-1'', o_client_order_id = ''paper-order-1'',
     o_idempotency_key = ''k1'', o_symbol = ''BTC/USDT'', o_side = Buy, o_order_type = Limit,
     o_quantity = 1 / 100, o_filled_quantity = 0, o_price = Some 40000,
     o_average_fill_price = None, o_status = Submitted, o_strategy_name = None, o_signal_id = None,
     o_risk_decision = Some RApproved, o_risk_reason_code = Some OK, o_created_at = 0,
     o_updated_at = 0, o_fees = 0,
     o_metadata = empty_meta\<lparr>m_reservation_open := True, m_reserved_notional := Some 400,
       m_reserved_remaining := Some 400\<rparr>\<rparr>"

lemma sample_engine_facts [simp]:
  "ps_cash sample_engine = 10000" "ps_reserved_cash sample_engine = 0"
  "ps_orders sample_engine = []" "ps_idempotency_index sample_engine = []"
  "ps_mark_prices sample_engine = [(''BTC/USDT'', 50000)]" "ps_positions sample_engine = []"
  by (simp_all add: sample_engine_def new_engine_def default_paper_config_def)

lemma default_paper_config_ok: "pc_ok default_paper_config"
  by (simp add: pc_ok_def default_paper_config_def fee_rate_def)

lemma sample_engine_ok: "engine_ok sample_engine"
  by (simp add: engine_ok_def ledger_ok_def reservations_ok_def holdings_ok_def marks_ok_def
      index_ok_def dict_values_def)

lemma on_grid_8_simps [simp]: "on_grid 8 (1 / 100)" "on_grid 8 1"
  unfolding on_grid_def by (rule exI [of _ 1000000], simp) (rule exI [of _ "10 ^ 8"], simp)

lemma sample_buy_ok: "request_ok default_paper_config sample_buy"
  by (simp add: request_ok_def sample_buy_def default_paper_config_def empty_meta_def
      dec_ops quantize_down_def trunc_zero_def)

lemma sample_submit:
  "\<exists>s'. submit default_paper_config sample_env sample_buy (sample_risk (1 / 100)) sample_engine
        = Inr (sample_order, s') \<and> ps_cash s' = 9600 \<and> ps_reserved_cash s' = 400"
  by (simp add: submit_def register_order_def new_order_def place_order_def lock_notional_def
      reserve_price_def reserve_buy_def fill_or_rest_def rests_at_def Let_def or_else_def
      update_order_def sample_buy_def sample_env_def sample_risk_def default_paper_config_def
      sample_order_def empty_meta_def dec_ops quantize_def half_even_def)

lemma sample_reachable:
  "(paper_step default_paper_config)\<^sup>*\<^sup>* (new_engine default_paper_config) sample_engine"
proof -
  have "paper_step default_paper_config (new_engine default_paper_config)
    (set_mark_price default_paper_config sample_env ''BTC/USDT'' 50000 (new_engine default_paper_config))"
    by (rule step_mark) simp
  moreover have "set_mark_price default_paper_config sample_env ''BTC/USDT'' 50000
      (new_engine default_paper_config) = sample_engine"
    by (simp add: set_mark_price_def try_trigger_resting_def dict_values_def sample_engine_def new_engine_def)
  ultimately show ?thesis by simp
qed

definition sample_resting :: paper_state where
  "sample_resting = (case submit default_paper_config sample_env sample_buy (sample_risk (1 / 100)) sample_engine of
     Inr (_, s') \<Rightarrow> s' | Inl _ \<Rightarrow> sample_engine)"

lemma sample_resting_eq:
  "submit default_paper_config sample_env sample_buy (sample_risk (1 / 100)) sample_engine
    = Inr (sample_order, sample_resting)"
  "ps_cash sample_resting = 9600" "ps_reserved_cash sample_resting = 400"
  using sample_submit by (auto simp: sample_resting_def)

lemma sample_resting_ok: "engine_ok sample_resting"
  by (rule step_engine_ok [OF default_paper_config_ok
        step_submit [OF sample_buy_ok _ _ sample_resting_eq(1)] sample_engine_ok]) simp_all

lemma sample_resting_order: "map_of (ps_orders sample_resting) ''order-1'' = Some sample_order"
  using submit_stored [OF sample_resting_eq(1) sample_engine_ok]
  by (simp add: stored_def) (simp add: sample_order_def)

lemma sample_resting_reachable:
  "(paper_step default_paper_config)\<^sup>*\<^sup>* (new_engine default_paper_config) sample_resting"
  by (rule rtranclp.rtrancl_into_rtrancl [OF sample_reachable
        step_submit [OF sample_buy_ok _ _ sample_resting_eq(1)]]) simp_all


lemma paper_submit_idempotent_witness:
  "submit default_paper_config (sample_env\<lparr>pv_order_id := ''order-2''\<rparr>)
     (sample_buy\<lparr>rq_quantity := 1\<rparr>) (sample_risk 1) sample_resting = Inr (sample_order, sample_resting)"
  by (rule paper_submit_idempotent [OF default_paper_config_ok sample_engine_ok sample_buy_ok
        _ _ sample_resting_eq(1)]) (simp_all add: sample_buy_def)

lemma paper_cancel_releases_once_witness:
  "\<exists>od' s'. cancel 7 ''order-1'' sample_resting = Inr (od', s') \<and> o_status od' = Cancelled
     \<and> ps_cash s' = 10000 \<and> ps_reserved_cash s' = 0"
  using paper_cancel_releases_once [OF sample_resting_ok sample_resting_order, of 7 8]
  by (simp add: sample_resting_eq)
    (auto simp: sample_resting_eq sample_order_def terminal_status_def order_reserved_def reserved_left_def dec_ops)

definition cancelled_order :: order where
  "cancelled_order = sample_order\<lparr>o_status := Cancelled,
     o_metadata := empty_meta\<rparr>"

definition cancelled_engine :: paper_state where
  "cancelled_engine = sample_engine\<lparr>ps_orders := [(''order-1'', cancelled_order)]\<rparr>"

lemma cancelled_engine_ok: "engine_ok cancelled_engine"
proof -
  have g: "on_grid 8 (1 / 100 :: rat)" by simp
  show ?thesis
    by (simp add: engine_ok_def ledger_ok_def reservations_ok_def holdings_ok_def marks_ok_def
        index_ok_def dict_values_def cancelled_engine_def cancelled_order_def sample_order_def
        order_ok_def order_reserved_def empty_meta_def distinct_keys_def)
qed

lemma paper_terminal_final_witness:
  "map_of (ps_orders (set_mark_price default_paper_config sample_env ''BTC/USDT'' 30000 cancelled_engine))
     ''order-1'' = Some cancelled_order
   \<and> cancel 7 ''order-1'' cancelled_engine = Inr (cancelled_order, cancelled_engine)"
  using paper_terminal_final [OF default_paper_config_ok cancelled_engine_ok, of 30000 "''order-1''" cancelled_order]
  by (simp add: cancelled_engine_def cancelled_order_def terminal_status_def)

lemma paper_mark_fills_triggered_witness:
  "\<exists>fs. ps_fills (set_mark_price default_paper_config sample_env ''BTC/USDT'' 39000 sample_resting)
     = ps_fills sample_resting @ fs \<and> distinct (map f_order_id fs)"
  using paper_mark_fills_triggered [OF default_paper_config_ok sample_resting_ok] by blast

lemma paper_fill_price_adverse_witness:
  "(50000 :: rat) \<le> fill_price default_paper_config 50000 Market Buy None"
proof -
  have "representable (ctx 50000)" by (rule representable_ctx)
  then have "representable 50000" by simp
  then show ?thesis
    using paper_fill_price_adverse [OF default_paper_config_ok, of 50000] by simp
qed

definition dust_request :: order_request where
  "dust_request = sample_buy\<lparr>rq_order_type := Market, rq_price := None, rq_quantity := 5 / 10 ^ 9\<rparr>"

lemma paper_zero_fill_leaks_witness:
  "\<exists>od s'. submit default_paper_config sample_env dust_request (sample_risk (5 / 10 ^ 9)) sample_engine
      = Inr (od, s') \<and> o_status od = Failed \<and> ps_reserved_cash s' = 25 / 100000
      \<and> cancel 7 (o_id od) s' = Inr (od, s')"
  using paper_zero_fill_leaks [of sample_engine dust_request "sample_risk (5 / 10 ^ 9)" 50000
      default_paper_config sample_env 7]
  by (auto simp: dust_request_def sample_buy_def sample_risk_def default_paper_config_def empty_meta_def
      dec_ops quantize_def quantize_down_def half_even_def trunc_zero_def)

lemma paper_failed_sell_logs_fill_witness:
  "\<exists>od' s' f. apply_fill default_paper_config sample_env (sample_order\<lparr>o_side := Sell\<rparr>) 1 50000
      (sample_risk 1) False sample_engine = (od', s') \<and> o_status od' = Failed
      \<and> ps_fills s' = ps_fills sample_engine @ [f] \<and> f_quantity f = 1"
  using paper_failed_sell_logs_fill [of "sample_order\<lparr>o_side := Sell\<rparr>" sample_engine
      default_paper_config sample_env 1 50000 "sample_risk 1" False]
  by auto

definition stop_request :: order_request where
  "stop_request = sample_buy\<lparr>rq_side := Sell, rq_order_type := StopLoss, rq_price := None,
     rq_stop_loss := Some 45000\<rparr>"

lemma paper_stop_without_price_never_triggers_witness:
  "\<exists>od s'. submit default_paper_config sample_env stop_request (sample_risk (1 / 100)) sample_engine
      = Inr (od, s') \<and> o_status od = Submitted
      \<and> map_of (ps_orders (set_mark_price default_paper_config sample_env ''BTC/USDT'' 10000 s')) (o_id od)
        = Some od"
proof -
  have "request_ok default_paper_config stop_request"
    using sample_buy_ok by (simp add: request_ok_def stop_request_def)
  then show ?thesis
    using paper_stop_without_price_never_triggers [OF default_paper_config_ok sample_engine_ok,
        of stop_request sample_env "sample_risk (1 / 100)" 45000 50000 10000 sample_env]
    by (simp add: stop_request_def sample_buy_def sample_risk_def default_paper_config_def)
qed

end
