(* ===== verification/Gateway.thy ===== *)
theory Gateway
  imports Risk_Properties Paper_Properties
begin

text \<open>
  The single entry point for orders, \<open>OrderGateway\<close> (\<open>app/execution/gateway.py\<close>), and the
  broker over the paper engine, \<open>PaperBroker\<close> (\<open>app/execution/broker.py\<close>). The gateway takes
  its backend as an argument, the \<open>ExecutionBackend\<close> protocol; the locale
  \<open>execution_backend\<close> states what it relies on and is interpreted on the paper engine. The
  gateway's results are pairs of an outcome and the states of the risk engine and the backend,
  since both can have changed when an exception is raised.
\<close>

subsection \<open>The gateway\<close>

datatype gateway_error = RiskBlocked risk_evaluation | BackendError py_error

definition approved_request :: "order_request \<Rightarrow> risk_evaluation \<Rightarrow> order_request" where
  "approved_request rq ev =
     (if ev_decision ev = RReduced then
        (case ev_approved_quantity ev of Some q \<Rightarrow> rq\<lparr>rq_quantity := q\<rparr> | None \<Rightarrow> rq)
      else rq)"

definition tag_outcome :: "risk_evaluation \<Rightarrow> order \<Rightarrow> order" where
  "tag_outcome ev od =
     od\<lparr>o_risk_decision := Some (ev_decision ev), o_risk_reason_code := Some (ev_reason_code ev),
        o_status := (if o_status od \<noteq> Created then o_status od else Approved)\<rparr>"

definition gateway_submit ::
  "settings \<Rightarrow> (order_request \<Rightarrow> risk_evaluation \<Rightarrow> 's \<Rightarrow> py_error + order \<times> 's)
   \<Rightarrow> order_request \<Rightarrow> risk_context \<Rightarrow> timestamp \<Rightarrow> timestamp \<Rightarrow> risk_state \<Rightarrow> 's
   \<Rightarrow> (gateway_error + order) \<times> risk_state \<times> 's" where
  "gateway_submit st backend rq cx md_now now rs bs =
     (let (ev, rs') = evaluate st rq cx md_now now rs in
      if ev_decision ev \<in> {RRejected, RHalted} then (Inl (RiskBlocked ev), rs', bs)
      else
        case backend (approved_request rq ev) ev bs of
          Inl e \<Rightarrow> (Inl (BackendError e), rs', bs)
        | Inr (od, bs') \<Rightarrow> (Inr (tag_outcome ev od), rs', bs'))"

subsection \<open>The contract of a backend\<close>

text \<open>
  \<open>inv\<close> is the backend's own invariant, \<open>admits rq s\<close> says that it may be given the request in this
  state, and \<open>replays key s\<close> that it answers this key with an order of before. A submission keeps the
  invariant, and a request whose key is not replayed yields an order of exactly its quantity, symbol,
  side and key.
\<close>

locale order_backend =
  fixes backend :: "order_request \<Rightarrow> risk_evaluation \<Rightarrow> 's \<Rightarrow> py_error + order \<times> 's"
    and inv :: "'s \<Rightarrow> bool"
    and admits :: "order_request \<Rightarrow> 's \<Rightarrow> bool"
    and replays :: "string \<Rightarrow> 's \<Rightarrow> bool"
  assumes backend_inv: "inv s \<Longrightarrow> admits rq s \<Longrightarrow> backend rq ev s = Inr (od, s') \<Longrightarrow> inv s'"
    and backend_order: "inv s \<Longrightarrow> admits rq s \<Longrightarrow> \<not> replays (rq_idempotency_key rq) s \<Longrightarrow>
      backend rq ev s = Inr (od, s') \<Longrightarrow>
      o_quantity od = rq_quantity rq \<and> o_symbol od = rq_symbol rq \<and> o_side od = rq_side rq
      \<and> o_idempotency_key od = rq_idempotency_key rq"
begin

text \<open>Every order behind the gateway was accepted by the risk engine, at the approved size.\<close>

lemma gateway_orderE:
  assumes "gateway_submit st backend rq cx md_now now rs bs = (Inr od, rs', bs')"
  obtains ev od0 where "evaluate st rq cx md_now now rs = (ev, rs')" "is_accepting ev"
    "backend (approved_request rq ev) ev bs = Inr (od0, bs')" "od = tag_outcome ev od0"
proof -
  obtain ev rs0 where ev: "evaluate st rq cx md_now now rs = (ev, rs0)" by fastforce
  have acc: "ev_decision ev \<notin> {RRejected, RHalted}"
    using assms ev by (auto simp: gateway_submit_def)
  then have "is_accepting ev" by (cases "ev_decision ev") (auto simp: is_accepting_def)
  moreover from assms ev acc obtain od0 where
    "backend (approved_request rq ev) ev bs = Inr (od0, bs')" "od = tag_outcome ev od0" "rs0 = rs'"
    by (auto simp: gateway_submit_def split: sum.splits)
  ultimately show thesis using that ev by blast
qed

lemma gateway_blocked:
  assumes "gateway_submit st backend rq cx md_now now rs bs = (Inl (RiskBlocked ev), rs', bs')"
  shows "bs' = bs" and "\<not> is_accepting ev"
  using assms by (auto simp: gateway_submit_def is_accepting_def split: prod.splits if_splits sum.splits)

lemma approved_request_fields [simp]:
  "rq_symbol (approved_request rq ev) = rq_symbol rq"
  "rq_side (approved_request rq ev) = rq_side rq"
  "rq_idempotency_key (approved_request rq ev) = rq_idempotency_key rq"
  by (auto simp: approved_request_def split: option.split)

lemma gateway_keeps_inv:
  assumes "gateway_submit st backend rq cx md_now now rs bs = (out, rs', bs')" and "inv bs"
    and "\<And>ev. fst (evaluate st rq cx md_now now rs) = ev \<Longrightarrow> is_accepting ev \<Longrightarrow>
      admits (approved_request rq ev) bs"
  shows "inv bs'"
proof (cases out)
  case (Inl e)
  with assms(1,2) show ?thesis
    by (auto simp: gateway_submit_def split: prod.splits if_splits sum.splits)
next
  case (Inr od)
  with assms(1) obtain ev od0 where "evaluate st rq cx md_now now rs = (ev, rs')" "is_accepting ev"
    "backend (approved_request rq ev) ev bs = Inr (od0, bs')"
    by (auto elim: gateway_orderE)
  with backend_inv assms(2,3) show ?thesis by force
qed

lemma gateway_order:
  assumes "gateway_submit st backend rq cx md_now now rs bs = (Inr od, rs', bs')" and "inv bs"
    and "\<not> replays (rq_idempotency_key rq) bs"
    and "\<And>ev. fst (evaluate st rq cx md_now now rs) = ev \<Longrightarrow> is_accepting ev \<Longrightarrow>
      admits (approved_request rq ev) bs"
  shows "o_symbol od = rq_symbol rq \<and> o_side od = rq_side rq
    \<and> o_idempotency_key od = rq_idempotency_key rq
    \<and> o_quantity od = rq_quantity (approved_request rq (fst (evaluate st rq cx md_now now rs)))"
proof -
  from assms(1) obtain ev od0 where "evaluate st rq cx md_now now rs = (ev, rs')" "is_accepting ev"
    "backend (approved_request rq ev) ev bs = Inr (od0, bs')" "od = tag_outcome ev od0"
    by (rule gateway_orderE)
  with backend_order [OF assms(2), of "approved_request rq ev" ev od0 bs'] assms(3,4)
  show ?thesis by (simp add: tag_outcome_def)
qed

end

text \<open>A backend that remembers keys replays every key it has been given.\<close>

locale execution_backend = order_backend backend inv admits replays
  for backend :: "order_request \<Rightarrow> risk_evaluation \<Rightarrow> 's \<Rightarrow> py_error + order \<times> 's"
    and inv :: "'s \<Rightarrow> bool"
    and admits :: "order_request \<Rightarrow> 's \<Rightarrow> bool"
    and replays :: "string \<Rightarrow> 's \<Rightarrow> bool" +
  assumes backend_known: "inv s \<Longrightarrow> admits rq s \<Longrightarrow> backend rq ev s = Inr (od, s') \<Longrightarrow>
      replays (rq_idempotency_key rq) s'"
    and backend_replay: "inv s \<Longrightarrow> replays (rq_idempotency_key rq) s \<Longrightarrow> backend rq ev s = Inr (od, s') \<Longrightarrow> s' = s"
begin

text \<open>Sending a request through the gateway again changes nothing behind it.\<close>

lemma gateway_repeat:
  assumes "gateway_submit st backend rq cx md_now now rs bs = (Inr od, rs', bs')" and "inv bs"
    and "\<And>ev. fst (evaluate st rq cx md_now now rs) = ev \<Longrightarrow> is_accepting ev \<Longrightarrow>
      admits (approved_request rq ev) bs"
    and "rq_idempotency_key rq2 = rq_idempotency_key rq"
    and "gateway_submit st2 backend rq2 cx2 md_now2 now2 rs2 bs' = (out2, rs2', bs2)"
  shows "bs2 = bs'"
proof -
  from assms(1) obtain ev od0 where ev: "evaluate st rq cx md_now now rs = (ev, rs')" "is_accepting ev"
    "backend (approved_request rq ev) ev bs = Inr (od0, bs')" by (rule gateway_orderE)
  then have ad: "admits (approved_request rq ev) bs" using assms(3) by simp
  have inv: "inv bs'" by (rule backend_inv [OF assms(2) ad ev(3)])
  have known: "replays (rq_idempotency_key rq) bs'" using backend_known [OF assms(2) ad ev(3)] by simp
  show ?thesis
  proof (cases out2)
    case (Inl e)
    with assms(5) show ?thesis by (auto simp: gateway_submit_def split: prod.splits if_splits sum.splits)
  next
    case (Inr od2)
    with assms(5) obtain ev2 od1 where "backend (approved_request rq2 ev2) ev2 bs' = Inr (od1, bs2)"
      by (auto elim: gateway_orderE)
    with backend_replay [OF inv, of "approved_request rq2 ev2"] known assms(4) show ?thesis by simp
  qed
qed

end

subsection \<open>The paper engine is a backend\<close>

definition paper_admits :: "paper_config \<Rightarrow> paper_env \<Rightarrow> order_request \<Rightarrow> paper_state \<Rightarrow> bool" where
  "paper_admits pc v rq s \<longleftrightarrow>
     pc_ok pc \<and> request_ok pc rq \<and> map_of (ps_orders s) (pv_order_id v) = None
   \<and> ps_cash s + ps_reserved_cash s < amount_limit"

definition paper_known :: "string \<Rightarrow> paper_state \<Rightarrow> bool" where
  "paper_known key s \<longleftrightarrow> map_of (ps_idempotency_index s) key \<noteq> None"

text \<open>What a submission fixes of the order for good.\<close>

definition of_request :: "order_request \<Rightarrow> order \<Rightarrow> bool" where
  "of_request rq od \<longleftrightarrow> o_quantity od = rq_quantity rq \<and> o_symbol od = rq_symbol rq
     \<and> o_side od = rq_side rq \<and> o_idempotency_key od = rq_idempotency_key rq"

lemma update_order_of_request [simp]:
  "of_request rq (fst (update_order now od status risk extra s)) = of_request rq od"
  by (simp add: of_request_def update_order_def Let_def)

lemma release_of_request [simp]:
  "of_request rq (fst (release_reservation now od amount s)) = of_request rq od"
  by (simp add: of_request_def release_reservation_def Let_def)

lemma fill_of_request:
  "of_request rq od \<Longrightarrow> of_request rq (fst (fill_buy now od q p fee risk s))"
  "of_request rq od \<Longrightarrow> of_request rq (fst (fill_sell now od q p fee risk s))"
  by (simp_all add: fill_buy_def fill_sell_def Let_def case_prod_beta split: option.split)

lemma apply_fill_of_request:
  "of_request rq od \<Longrightarrow> of_request rq (fst (apply_fill pc v od q p risk mk s))"
  using fill_of_request [of rq od]
  by (simp add: apply_fill_def Let_def case_prod_beta) (simp add: of_request_def filled_copy_def Let_def)

lemma execute_fill_of_request:
  "of_request rq od \<Longrightarrow> of_request rq (fst (execute_fill pc v od rq' risk m s))"
  by (simp add: execute_fill_def Let_def case_prod_beta apply_fill_of_request)

lemma place_order_of_request:
  assumes "of_request rq od"
  shows "of_request rq (fst (place_order pc v rq' risk od s))"
proof -
  have lock: "of_request rq (fst (lock_notional v rq' risk mark od s))" for mark
    using assms
    by (simp add: lock_notional_def reserve_buy_def Let_def case_prod_beta split: option.split)
      (simp add: of_request_def)
  have fr: "of_request rq od1 \<Longrightarrow> of_request rq (fst (fill_or_rest pc v rq' risk m od1 s1))" for m od1 s1
    by (simp add: fill_or_rest_def Let_def case_prod_beta execute_fill_of_request split: option.split bool.split)
  show ?thesis
    using assms lock fr by (simp add: place_order_def Let_def case_prod_beta split: option.split)
qed

lemma submit_of_request:
  assumes "submit pc v rq risk s = Inr (od, s')" and "\<not> paper_known (rq_idempotency_key rq) s"
  shows "of_request rq od"
proof -
  define a where "a = update_order (pv_now v) (fst (register_order v rq s)) Approved risk None
                        (snd (register_order v rq s))"
  define b where "b = update_order (pv_now v) (fst a) Submitted risk None (snd a)"
  have reg: "of_request rq (fst (register_order v rq s))"
    by (simp add: register_order_def new_order_def of_request_def Let_def)
  then have "of_request rq (fst b)" by (simp add: b_def a_def)
  from place_order_of_request [OF this]
  have "of_request rq (fst (place_order pc v rq risk (fst b) (snd b)))" .
  moreover have "(od, s') = (if ev_decision risk \<in> {RRejected, RHalted}
      then update_order (pv_now v) (fst (register_order v rq s)) Rejected risk None (snd (register_order v rq s))
      else place_order pc v rq risk (fst b) (snd b))"
    using assms by (auto simp: submit_def paper_known_def case_prod_beta a_def b_def split: if_splits)
  ultimately show ?thesis
    using reg update_order_of_request [of rq "pv_now v" _ Rejected risk None]
    by (metis fst_conv)
qed

interpretation paper: execution_backend "submit pc v" engine_ok "paper_admits pc v" paper_known
  for pc v
proof
  fix rq ev s od s'
  assume s: "engine_ok s" and ad: "paper_admits pc v rq s" and r: "submit pc v rq ev s = Inr (od, s')"
  from ad have a: "pc_ok pc" "request_ok pc rq" "map_of (ps_orders s) (pv_order_id v) = None"
    "ps_cash s + ps_reserved_cash s < amount_limit"
    by (simp_all add: paper_admits_def)
  show "engine_ok s'" by (rule step_engine_ok [OF a(1) step_submit [OF a(2,3,4) r] s])
  show "paper_known (rq_idempotency_key rq) s'"
  proof (cases "paper_known (rq_idempotency_key rq) s")
    case True
    with r have "s' = s" by (auto simp: submit_def paper_known_def split: option.splits)
    with True show ?thesis by simp
  next
    case False
    then have n: "map_of (ps_idempotency_index s) (rq_idempotency_key rq) = None" by (simp add: paper_known_def)
    have e: "ledger_ok s" "marks_ok s" using s by (simp_all add: engine_ok_def)
    from submit_keeps(6) [OF a(1) e(1) a(2) e(2) a(4,3) n r] show ?thesis by (simp add: paper_known_def)
  qed
  show "o_quantity od = rq_quantity rq \<and> o_symbol od = rq_symbol rq \<and> o_side od = rq_side rq
      \<and> o_idempotency_key od = rq_idempotency_key rq"
    if "\<not> paper_known (rq_idempotency_key rq) s"
    using submit_of_request [OF r that] by (simp add: of_request_def)
next
  fix rq ev s od s'
  assume s: "engine_ok s" and kn: "paper_known (rq_idempotency_key rq) s" and r: "submit pc v rq ev s = Inr (od, s')"
  from kn r show "s' = s" by (auto simp: submit_def paper_known_def split: option.splits)
qed

subsection \<open>The broker\<close>

datatype broker_result = BrokerError py_error | BrokerOrder order | BrokerNone

definition blocked_order :: "string \<Rightarrow> string \<Rightarrow> timestamp \<Rightarrow> order_request \<Rightarrow> safety_decision \<Rightarrow> order" where
  "blocked_order uid client_uid now rq d =
     \<lparr>o_id = uid,
      o_client_order_id = (case rq_client_order_id rq of
          Some c \<Rightarrow> if c \<noteq> [] then c else ''blocked-'' @ take 8 client_uid
        | None \<Rightarrow> ''blocked-'' @ take 8 client_uid),
      o_idempotency_key = rq_idempotency_key rq, o_symbol = rq_symbol rq, o_side = rq_side rq,
      o_order_type = rq_order_type rq, o_quantity = rq_quantity rq, o_filled_quantity = 0,
      o_price = None, o_average_fill_price = None, o_status = Rejected,
      o_strategy_name = None, o_signal_id = None, o_risk_decision = Some RRejected,
      o_risk_reason_code = Some LIVE_TRADING_DISABLED, o_created_at = now, o_updated_at = now,
      o_fees = 0,
      o_metadata = empty_meta\<lparr>m_safety_code := Some (sd_code d), m_safety_reason := Some (sd_reason d)\<rparr>\<rparr>"

definition broker_submit ::
  "settings \<Rightarrow> paper_config \<Rightarrow> paper_env \<Rightarrow> string \<Rightarrow> order_request \<Rightarrow> risk_evaluation \<Rightarrow> paper_state
   \<Rightarrow> broker_result \<times> paper_state" where
  "broker_submit st pc v client_uid rq risk s =
     (case check_order_intent st ''spot'' 1 ''order'' of
        Inl e \<Rightarrow> (BrokerError e, s)
      | Inr d \<Rightarrow>
          if \<not> sd_allowed d
          then (BrokerOrder (blocked_order (pv_order_id v) client_uid (pv_now v) rq d), s)
          else (case submit pc v rq risk s of
                  Inl e \<Rightarrow> (BrokerError e, s)
                | Inr (od, s') \<Rightarrow> (BrokerOrder od, s')))"

definition broker_cancel_order :: "string \<Rightarrow> paper_state \<Rightarrow> order option \<times> paper_state" where
  "broker_cancel_order oid s =
     (case map_of (ps_orders s) oid of
        None \<Rightarrow> (None, s)
      | Some od \<Rightarrow>
          if o_status od \<in> {Filled, Cancelled, Rejected} then (Some od, s)
          else
            let updated = od\<lparr>o_status := Cancelled\<rparr>
            in (Some updated, s\<lparr>ps_orders := AList.update oid updated (ps_orders s)\<rparr>))"

record broker_balance =
  bb_cash :: decimal
  bb_equity :: decimal
  bb_realized_pnl :: decimal

definition broker_get_balance :: "paper_state \<Rightarrow> broker_balance" where
  "broker_get_balance s =
     \<lparr>bb_cash = ps_cash s,
      bb_equity = foldl (\<lambda>eq p. dadd eq (dmul (p_quantity p) (p_current_price p))) (ps_cash s)
                    (dict_values (ps_positions s)),
      bb_realized_pnl = ps_realized_pnl s\<rparr>"

definition close_request :: "string \<Rightarrow> string \<Rightarrow> string \<Rightarrow> decimal \<Rightarrow> order_request" where
  "close_request sy key_uid client_uid qty =
     \<lparr>rq_symbol = sy, rq_side = Sell, rq_order_type = Market, rq_quantity = qty, rq_price = None,
      rq_stop_loss = None, rq_take_profit = None, rq_strategy_name = None, rq_signal_id = None,
      rq_idempotency_key = ''close-'' @ sy @ ''-'' @ key_uid,
      rq_client_order_id = Some (''close-'' @ take 12 client_uid), rq_reduce_only = True,
      rq_metadata = empty_meta\<rparr>"

definition broker_close_position ::
  "settings \<Rightarrow> paper_config \<Rightarrow> paper_env \<Rightarrow> string \<Rightarrow> string \<Rightarrow> string \<Rightarrow> decimal \<Rightarrow> paper_state
   \<Rightarrow> broker_result \<times> paper_state" where
  "broker_close_position st pc v key_uid client_uid sy mark_price s =
     (case map_of (ps_positions s) sy of
        None \<Rightarrow> (BrokerNone, s)
      | Some p \<Rightarrow>
          if p_quantity p \<le> 0 then (BrokerNone, s)
          else broker_submit st pc v client_uid (close_request sy key_uid client_uid (p_quantity p))
                 \<lparr>ev_decision = RApproved, ev_reason_code = OK, ev_approved_quantity = Some (p_quantity p)\<rparr>
                 (set_mark_price pc v sy mark_price s))"

subsection \<open>Properties\<close>

text \<open>
  C5. The gateway never bypasses the risk engine: when the evaluation does not accept the order,
  the gateway raises with that evaluation and the paper engine is not touched; an order comes
  back, or the ledger changes, only for an accepted one.
\<close>

theorem gateway_risk_mandatory:
  assumes "gateway_submit st (submit pc v) rq cx md_now now rs bs = (out, rs', bs')"
  shows "(\<not> is_accepting (fst (evaluate st rq cx md_now now rs)) \<longrightarrow>
      out = Inl (RiskBlocked (fst (evaluate st rq cx md_now now rs))) \<and> bs' = bs)
    \<and> ((\<exists>od. out = Inr od) \<or> bs' \<noteq> bs \<longrightarrow> is_accepting (fst (evaluate st rq cx md_now now rs)))
    \<and> rs' = snd (evaluate st rq cx md_now now rs)"
proof -
  obtain ev rs1 where ev: "evaluate st rq cx md_now now rs = (ev, rs1)" by fastforce
  have "is_accepting ev \<longleftrightarrow> ev_decision ev \<notin> {RRejected, RHalted}"
    by (cases "ev_decision ev") (simp_all add: is_accepting_def)
  with assms ev show ?thesis
    by (auto simp: gateway_submit_def split: if_splits sum.splits)
qed

lemma approved_request_ok:
  assumes ev: "evaluate st rq cx md_now now rs = (ev, rs')" "is_accepting ev"
    and rq: "request_ok pc rq" "rq_quantity rq < 10 ^ 18" and full: "pc_partial_fill_fraction pc = 1"
    and cash: "0 \<le> pf_cash_balance (cx_portfolio cx)"
    and pos: "list_all (\<lambda>p. 0 \<le> p_quantity p \<and> 0 \<le> p_current_price p) (pf_open_positions (cx_portfolio cx))"
    and lim: "0 \<le> st_max_risk_per_trade st" "0 \<le> st_max_position_exposure st" "0 \<le> st_max_portfolio_exposure st"
  shows "request_ok pc (approved_request rq ev)"
    and "0 < rq_quantity (approved_request rq ev)"
    and "rq_quantity (approved_request rq ev) \<le> rq_quantity rq"
    and "ev_approved_quantity ev = Some (rq_quantity (approved_request rq ev))"
proof -
  have "on_grid 8 (rq_quantity rq)" using rq by (simp add: request_ok_def)
  from accept_sizing [OF ev this rq(2) cash pos lim] obtain sz where
    sz: "ev = accepted sz" "0 < sz_quantity sz" "sizing_ok (rq_quantity rq) sz" .
  let ?r = "approved_request rq ev"
  have q: "rq_quantity ?r = sz_quantity sz" and same: "rq_price ?r = rq_price rq" "rq_metadata ?r = rq_metadata rq"
    using sz by (auto simp: approved_request_def accepted_def sizing_ok_def)
  have g: "on_grid 8 (sz_quantity sz)" "sz_quantity sz \<le> rq_quantity rq"
    using sz(3) rq by (auto simp: sizing_ok_def request_ok_def)
  with rq have lt: "sz_quantity sz < amount_limit" by (simp add: request_ok_def)
  then have "dmul (sz_quantity sz) 1 = sz_quantity sz"
    unfolding dmul_def using sz(2) g by (simp add: ctx_amount)
  moreover have "quantize_down 8 (sz_quantity sz) = sz_quantity sz"
    using g(1) unfolding on_grid_def by (auto simp: quantize_down_def)
  ultimately show "request_ok pc ?r" "0 < rq_quantity ?r" "rq_quantity ?r \<le> rq_quantity rq"
    "ev_approved_quantity ev = Some (rq_quantity ?r)"
    using rq sz g lt q same by (simp_all add: request_ok_def full accepted_def)
qed

lemma gateway_paper_ok:
  assumes "gateway_submit st (submit pc v) rq cx md_now now rs bs = (out, rs', bs')"
    and "engine_ok bs" and "pc_ok pc" and "pc_partial_fill_fraction pc = 1"
    and "request_ok pc rq" and "rq_quantity rq < 10 ^ 18"
    and "map_of (ps_orders bs) (pv_order_id v) = None"
    and "ps_cash bs + ps_reserved_cash bs < amount_limit"
    and "0 \<le> pf_cash_balance (cx_portfolio cx)"
    and "list_all (\<lambda>p. 0 \<le> p_quantity p \<and> 0 \<le> p_current_price p) (pf_open_positions (cx_portfolio cx))"
    and "0 \<le> st_max_risk_per_trade st" and "0 \<le> st_max_position_exposure st"
    and "0 \<le> st_max_portfolio_exposure st"
  shows "engine_ok bs'"
    and "out = Inr od \<Longrightarrow> \<not> paper_known (rq_idempotency_key rq) bs \<Longrightarrow>
      o_symbol od = rq_symbol rq \<and> o_side od = rq_side rq
      \<and> ev_approved_quantity (fst (evaluate st rq cx md_now now rs)) = Some (o_quantity od)
      \<and> 0 < o_quantity od \<and> o_quantity od \<le> rq_quantity rq"
proof -
  have ok: "request_ok pc (approved_request rq ev) \<and> 0 < rq_quantity (approved_request rq ev)
    \<and> rq_quantity (approved_request rq ev) \<le> rq_quantity rq
    \<and> ev_approved_quantity ev = Some (rq_quantity (approved_request rq ev))"
    if "fst (evaluate st rq cx md_now now rs) = ev" "is_accepting ev" for ev
    using approved_request_ok [of st rq cx md_now now rs ev "snd (evaluate st rq cx md_now now rs)" pc]
      that assms(4-6,9-13) by (simp add: prod_eq_iff)
  have ad: "paper_admits pc v (approved_request rq ev) bs"
    if "fst (evaluate st rq cx md_now now rs) = ev" "is_accepting ev" for ev
    using ok [OF that] assms(3,7,8) by (simp add: paper_admits_def)
  show "engine_ok bs'" by (rule paper.gateway_keeps_inv [OF assms(1,2) ad])
  assume out: "out = Inr od" and new: "\<not> paper_known (rq_idempotency_key rq) bs"
  have "is_accepting (fst (evaluate st rq cx md_now now rs))"
    using assms(1) unfolding out by (rule paper.gateway_orderE) simp
  with ok [OF refl this] paper.gateway_order [OF assms(1) [unfolded out] assms(2) new ad]
  show "o_symbol od = rq_symbol rq \<and> o_side od = rq_side rq
      \<and> ev_approved_quantity (fst (evaluate st rq cx md_now now rs)) = Some (o_quantity od)
      \<and> 0 < o_quantity od \<and> o_quantity od \<le> rq_quantity rq"
    by auto
qed

text \<open>
  C17. Through the gateway the paper ledger stays well formed, and an order with a new key has
  exactly the quantity the risk engine approved, positive and at most the requested one.
\<close>

theorem gateway_paper_safe:
  assumes "gateway_submit st (submit pc v) rq cx md_now now rs bs = (out, rs', bs')"
    and "engine_ok bs" and "pc_ok pc" and "pc_partial_fill_fraction pc = 1"
    and "request_ok pc rq" and "rq_quantity rq < 10 ^ 18"
    and "map_of (ps_orders bs) (pv_order_id v) = None"
    and "ps_cash bs + ps_reserved_cash bs < amount_limit"
    and "0 \<le> pf_cash_balance (cx_portfolio cx)"
    and "list_all (\<lambda>p. 0 \<le> p_quantity p \<and> 0 \<le> p_current_price p) (pf_open_positions (cx_portfolio cx))"
    and "0 \<le> st_max_risk_per_trade st" and "0 \<le> st_max_position_exposure st"
    and "0 \<le> st_max_portfolio_exposure st"
  shows "engine_ok bs' \<and> (\<forall>od. out = Inr od \<and> \<not> paper_known (rq_idempotency_key rq) bs \<longrightarrow>
      o_symbol od = rq_symbol rq \<and> o_side od = rq_side rq
      \<and> ev_approved_quantity (fst (evaluate st rq cx md_now now rs)) = Some (o_quantity od)
      \<and> 0 < o_quantity od \<and> o_quantity od \<le> rq_quantity rq)"
  using gateway_paper_ok [OF assms] by blast

text \<open>
  C23. At most once: after an order came out of the gateway, any later submission with the same
  idempotency key through the same risk engine is blocked, and leaves the paper engine as it is.
\<close>

theorem gateway_at_most_once:
  assumes "gateway_submit st (submit pc v) rq cx md_now now rs bs = (Inr od, rs', bs')"
    and "rq_idempotency_key rq' = rq_idempotency_key rq"
  shows "\<exists>ev. gateway_submit st' (submit pc v') rq' cx' md_now' now' rs' bs2
    = (Inl (RiskBlocked ev), snd (evaluate st' rq' cx' md_now' now' rs'), bs2)"
proof -
  from assms(1) obtain e where "evaluate st rq cx md_now now rs = (e, rs')" "is_accepting e"
    by (rule paper.gateway_orderE)
  then have seen: "rq_idempotency_key rq' \<in> rs_seen_idempotency_keys rs'"
    by (cases rule: evaluate_cases) (simp_all add: assms(2))
  obtain ev rs2 where ev: "evaluate st' rq' cx' md_now' now' rs' = (ev, rs2)" by fastforce
  then have "\<not> is_accepting ev"
  proof (cases rule: evaluate_cases)
    case (accept price sz)
    from pre_checks_InrD(3) [OF accept(2)] seen show ?thesis
      by (simp add: check_validity_def split: if_splits)
  qed
  then have "ev_decision ev \<in> {RRejected, RHalted}"
    by (cases "ev_decision ev") (simp_all add: is_accepting_def)
  with ev show ?thesis by (simp add: gateway_submit_def)
qed

text \<open>
  Cancelling through the broker loses the reservation: a resting buy cancelled by
  \<open>PaperBroker.cancel_order\<close> is marked cancelled while its reserved cash stays reserved, and
  the engine's own \<open>cancel\<close> and \<open>expire\<close> then refuse to release it.
\<close>

lemma broker_cancel_keeps_reservation:
  assumes "map_of (ps_orders s) oid = Some od" and "\<not> terminal_status (o_status od)"
  shows "\<exists>s'. broker_cancel_order oid s = (Some (od\<lparr>o_status := Cancelled\<rparr>), s')
    \<and> ps_cash s' = ps_cash s \<and> ps_reserved_cash s' = ps_reserved_cash s
    \<and> order_reserved (od\<lparr>o_status := Cancelled\<rparr>) = order_reserved od
    \<and> cancel now oid s' = Inr (od\<lparr>o_status := Cancelled\<rparr>, s')
    \<and> expire now oid s' = Inr (od\<lparr>o_status := Cancelled\<rparr>, s')"
  using assms
  by (auto simp: broker_cancel_order_def Let_def cancel_def expire_def order_reserved_def terminal_status_def)

subsection \<open>A concrete order through the gateway\<close>

lemma sample_gateway:
  "\<exists>od bs'. gateway_submit default_settings (submit default_paper_config sample_env) sample_request
      sample_context 0 0 initial_risk_state sample_engine
    = (Inr od, initial_risk_state\<lparr>rs_seen_idempotency_keys := {''k1''}, rs_recent_order_times := [0]\<rparr>, bs')"
proof -
  have "\<exists>r. submit default_paper_config sample_env rq risk sample_engine = Inr r" for rq risk
    by (auto simp: submit_def case_prod_beta)
  then obtain r where "submit default_paper_config sample_env sample_request
      (accepted \<lparr>sz_quantity = 1 / 100, sz_decision = RApproved, sz_reason = OK\<rparr>) sample_engine = Inr r"
    by blast
  then show ?thesis
    by (simp add: gateway_submit_def sample_evaluate approved_request_def accepted_def split: prod.split)
qed

theorem gateway_risk_mandatory_witness:
  "is_accepting (fst (evaluate default_settings sample_request sample_context 0 0 initial_risk_state))"
  using sample_gateway gateway_risk_mandatory [of default_settings default_paper_config sample_env
      sample_request sample_context 0 0 initial_risk_state sample_engine]
  by blast

theorem gateway_paper_safe_witness:
  "engine_ok (snd (snd (gateway_submit default_settings (submit default_paper_config sample_env)
     sample_request sample_context 0 0 initial_risk_state sample_engine)))"
proof -
  have rq: "request_ok default_paper_config sample_request"
    by (simp add: request_ok_def sample_request_def default_paper_config_def empty_meta_def
        dec_ops quantize_down_def trunc_zero_def)
  show ?thesis
    by (rule gateway_paper_safe [OF prod.collapse [symmetric, THEN trans, OF arg_cong2 [of _ _ _ _ Pair, OF refl prod.collapse [symmetric]]]
          sample_engine_ok default_paper_config_ok _ rq, THEN conjunct1])
      (simp_all add: default_paper_config_def sample_request_def sample_context_def sample_portfolio_def default_settings_def)
qed

theorem gateway_at_most_once_witness:
  "\<exists>ev. gateway_submit default_settings (submit default_paper_config sample_env)
     (sample_request\<lparr>rq_quantity := 1\<rparr>) sample_context 90 90
     (initial_risk_state\<lparr>rs_seen_idempotency_keys := {''k1''}, rs_recent_order_times := [0]\<rparr>) sample_engine
   = (Inl (RiskBlocked ev), snd (evaluate default_settings (sample_request\<lparr>rq_quantity := 1\<rparr>)
        sample_context 90 90
        (initial_risk_state\<lparr>rs_seen_idempotency_keys := {''k1''}, rs_recent_order_times := [0]\<rparr>)), sample_engine)"
proof -
  obtain od bs' where g: "gateway_submit default_settings (submit default_paper_config sample_env)
      sample_request sample_context 0 0 initial_risk_state sample_engine
    = (Inr od, initial_risk_state\<lparr>rs_seen_idempotency_keys := {''k1''}, rs_recent_order_times := [0]\<rparr>, bs')"
    using sample_gateway by blast
  show ?thesis by (rule gateway_at_most_once [OF g]) simp
qed

lemma broker_cancel_keeps_reservation_witness:
  "\<exists>s'. broker_cancel_order ''order-1'' sample_resting
      = (Some (sample_order\<lparr>o_status := Cancelled\<rparr>), s')
    \<and> ps_cash s' = 9600 \<and> ps_reserved_cash s' = 400
    \<and> cancel 7 ''order-1'' s' = Inr (sample_order\<lparr>o_status := Cancelled\<rparr>, s')"
proof -
  have "\<not> terminal_status (o_status sample_order)" by (simp add: sample_order_def terminal_status_def)
  from broker_cancel_keeps_reservation [OF sample_resting_order this, of 7] sample_resting_eq(2,3)
  show ?thesis by metis
qed

end
