(* ===== verification/Accounting.thy ===== *)
theory Accounting
  imports Gateway
begin

text \<open>
  The checks on the paper ledger: the accounting invariants (\<open>app/accounting/invariants.py\<close>),
  the reconciliation against the fill log with its halt (\<open>app/services/reconciliation.py\<close>) and
  the portfolio snapshot (\<open>app/portfolio/service.py\<close>). A violation or a mismatch keeps its code
  or field and its severity; the texts are not modelled. Writing the reports to the database is
  left out.
\<close>

subsection \<open>Accounting invariants\<close>

datatype severity = Critical | High

datatype violation_code =
    EQUITY_IDENTITY | NEGATIVE_CASH | NEGATIVE_RESERVED | RESERVATION_MISMATCH
  | NEGATIVE_POSITION | NEGATIVE_PRICE | UNREALIZED_MISMATCH | DUPLICATE_FILL
  | DOUBLE_EXIT | STALE_RESERVATION

record violation =
  vi_code :: violation_code
  vi_severity :: severity

record invariant_report =
  ir_ok :: bool
  ir_equity :: decimal
  ir_cash :: decimal
  ir_reserved_cash :: decimal
  ir_marked :: decimal
  ir_violations :: "violation list"

definition report_if :: "bool \<Rightarrow> violation_code \<Rightarrow> severity \<Rightarrow> violation list" where
  "report_if b c sv = (if b then [\<lparr>vi_code = c, vi_severity = sv\<rparr>] else [])"

definition equity_from_cash_and_positions ::
  "decimal \<Rightarrow> (string, position) dict \<Rightarrow> decimal \<Rightarrow> decimal \<times> decimal" where
  "equity_from_cash_and_positions cash positions reserved =
     (let marked = dsum (map (\<lambda>p. dmul (p_quantity p) (p_current_price p)) (dict_values positions))
      in (dadd (dadd cash reserved) marked, marked))"

definition open_reservation_total :: "(string, order) dict \<Rightarrow> decimal" where
  "open_reservation_total orders =
     dsum (map (\<lambda>od. reserved_left (o_metadata od))
             (filter (\<lambda>od. m_reservation_open (o_metadata od)) (dict_values orders)))"

definition cash_violations ::
  "decimal \<Rightarrow> decimal \<Rightarrow> (string, order) dict \<Rightarrow> bool \<Rightarrow> violation list" where
  "cash_violations cash reserved orders allow_negative_cash =
     report_if (\<not> allow_negative_cash \<and> cash < 0) NEGATIVE_CASH Critical
   @ report_if (reserved < 0) NEGATIVE_RESERVED Critical
   @ report_if (dabs (dsub (open_reservation_total orders) reserved) > 1 / 10 ^ 8)
       RESERVATION_MISMATCH Critical"

definition position_violations :: "position \<Rightarrow> violation list" where
  "position_violations p =
     (let qty = p_quantity p; entry = p_entry_price p; mark = p_current_price p;
          expected = dmul (dsub mark entry) qty
      in report_if (qty < 0) NEGATIVE_POSITION Critical
       @ report_if (entry < 0 \<or> mark < 0) NEGATIVE_PRICE Critical
       @ report_if (dabs (dsub expected (p_unrealized_pnl p)) > 1 / 100) UNREALIZED_MISMATCH High)"

fun fill_violations :: "string set \<Rightarrow> fill list \<Rightarrow> violation list" where
  "fill_violations seen [] = []"
| "fill_violations seen (f # fs) =
     report_if (f_id f \<noteq> [] \<and> f_id f \<in> seen) DUPLICATE_FILL Critical
   @ fill_violations (if f_id f \<noteq> [] then insert (f_id f) seen else seen) fs"

definition order_violations :: "order list \<Rightarrow> order \<Rightarrow> violation list" where
  "order_violations orders od =
     (let pair = m_exit_pair_id (o_metadata od);
          siblings = filter (\<lambda>o'. m_exit_pair_id (o_metadata o') = pair \<and> o_status o' = Filled
                                 \<and> o_id o' \<noteq> o_id od) orders
      in report_if (pair \<noteq> None \<and> pair \<noteq> Some [] \<and> o_status od = Filled \<and> siblings \<noteq> [])
           DOUBLE_EXIT Critical
       @ report_if (terminal_status (o_status od) \<and> m_reservation_open (o_metadata od))
           STALE_RESERVATION Critical)"

definition check_cycle_invariants ::
  "decimal \<Rightarrow> (string, position) dict \<Rightarrow> fill list \<Rightarrow> (string, order) dict \<Rightarrow> decimal \<Rightarrow> bool
   \<Rightarrow> decimal \<Rightarrow> invariant_report" where
  "check_cycle_invariants cash positions fills orders reserved allow_negative_cash tolerance =
     (let (equity, marked) = equity_from_cash_and_positions cash positions reserved;
          recomputed = dadd (dadd cash reserved) marked;
          violations =
            report_if (dabs (dsub equity recomputed) > tolerance) EQUITY_IDENTITY Critical
          @ cash_violations cash reserved orders allow_negative_cash
          @ concat (map position_violations (dict_values positions))
          @ fill_violations {} fills
          @ concat (map (order_violations (dict_values orders)) (dict_values orders));
          critical = filter (\<lambda>x. vi_severity x = Critical) violations
      in \<lparr>ir_ok = (critical = []), ir_equity = equity, ir_cash = cash, ir_reserved_cash = reserved,
          ir_marked = marked, ir_violations = violations\<rparr>)"

definition assert_cycle_invariants ::
  "decimal \<Rightarrow> (string, position) dict \<Rightarrow> fill list \<Rightarrow> (string, order) dict \<Rightarrow> decimal \<Rightarrow> bool
   \<Rightarrow> decimal \<Rightarrow> py_error + invariant_report" where
  "assert_cycle_invariants cash positions fills orders reserved allow_negative_cash tolerance =
     (let report = check_cycle_invariants cash positions fills orders reserved allow_negative_cash tolerance
      in if ir_ok report then Inr report else Inl AccountingInvariantError)"

text \<open>The check as it is called on the paper engine, with the default tolerance.\<close>

definition check_paper :: "paper_state \<Rightarrow> invariant_report" where
  "check_paper s = check_cycle_invariants (ps_cash s) (ps_positions s) (ps_fills s) (ps_orders s)
     (ps_reserved_cash s) False (1 / 10 ^ 8)"

subsection \<open>Reconciliation\<close>

record mismatch =
  mm_field :: string
  mm_severity :: severity

datatype recon_detail =
    DetailOk | DetailOkWithWarnings | DetailDisabled | DetailNegativeCash
  | DetailInvalidPosition | DetailCashDrift decimal | DetailField string

record recon_result =
  rr_healthy :: bool
  rr_cash_ok :: bool
  rr_positions_ok :: bool
  rr_detail :: recon_detail
  rr_cash :: decimal
  rr_position_count :: nat
  rr_mismatches :: "mismatch list"
  rr_equity :: decimal
  rr_reconstructed_cash :: decimal

record recon_state =
  rc_healthy :: bool
  rc_halted :: bool
  rc_last_run_at :: "timestamp option"
  rc_last_result :: "recon_result option"

definition initial_recon_state :: recon_state where
  "initial_recon_state = \<lparr>rc_healthy = True, rc_halted = False, rc_last_run_at = None,
     rc_last_result = None\<rparr>"

definition is_reconciliation_healthy :: "recon_state \<Rightarrow> bool" where
  "is_reconciliation_healthy r \<longleftrightarrow> rc_healthy r \<and> \<not> rc_halted r"

definition apply_halt_from_storage :: "bool \<Rightarrow> recon_state \<Rightarrow> recon_state" where
  "apply_halt_from_storage halted r = r\<lparr>rc_halted := halted, rc_healthy := \<not> halted\<rparr>"

definition clear_reconciliation_halt :: "recon_state \<times> risk_state \<Rightarrow> recon_state \<times> risk_state" where
  "clear_reconciliation_halt x =
     ((fst x)\<lparr>rc_halted := False, rc_healthy := True\<rparr>, (snd x)\<lparr>rs_reconciliation_healthy := True\<rparr>)"

definition mismatch_if :: "bool \<Rightarrow> string \<Rightarrow> severity \<Rightarrow> mismatch list" where
  "mismatch_if b f sv = (if b then [\<lparr>mm_field = f, mm_severity = sv\<rparr>] else [])"

definition position_mismatches :: "string \<times> position \<Rightarrow> mismatch list" where
  "position_mismatches x =
     mismatch_if (p_quantity (snd x) < 0) (''position.'' @ fst x @ ''.quantity'') Critical
   @ mismatch_if (p_entry_price (snd x) \<le> 0 \<or> p_current_price (snd x) < 0)
       (''position.'' @ fst x @ ''.price'') Critical"

text \<open>The cash and the net quantity per symbol that the fill log explains.\<close>

definition rebuild_step :: "fill \<Rightarrow> decimal \<times> (string, decimal) dict \<Rightarrow> decimal \<times> (string, decimal) dict" where
  "rebuild_step f x =
     (let (cash, net) = x;
          notional = dmul (f_quantity f) (f_price f);
          q = (case map_of net (f_symbol f) of Some q \<Rightarrow> q | None \<Rightarrow> 0)
      in if f_side f = Buy
         then (dsub cash (dadd notional (f_fee f)), AList.update (f_symbol f) (dadd q (f_quantity f)) net)
         else (dadd cash (dsub notional (f_fee f)), AList.update (f_symbol f) (dsub q (f_quantity f)) net))"

definition rebuild :: "settings \<Rightarrow> fill list \<Rightarrow> decimal \<times> (string, decimal) dict" where
  "rebuild st fills = fold rebuild_step fills (st_paper_starting_balance st, [])"

definition unexplained :: "(string, decimal) dict \<Rightarrow> string \<times> position \<Rightarrow> bool" where
  "unexplained net x \<longleftrightarrow>
     dabs (dsub (case map_of net (fst x) of Some q \<Rightarrow> q | None \<Rightarrow> 0) (p_quantity (snd x))) > 1 / 10 ^ 8"

definition ledger_complete :: "(string, decimal) dict \<Rightarrow> (string, position) dict \<Rightarrow> bool" where
  "ledger_complete net positions \<longleftrightarrow>
     (\<forall>x \<in> set positions. \<not> unexplained net x)
   \<and> (\<forall>(sy, q) \<in> set net. \<not> (q > 0 \<and> map_of positions sy = None))"

definition overfilled :: "fill list \<Rightarrow> order \<Rightarrow> bool" where
  "overfilled fills od \<longleftrightarrow>
     dsum (map f_quantity (filter (\<lambda>f. f_order_id f = o_id od) fills)) > o_quantity od"

text \<open>Whether the cash explained by the fills agrees with the ledger, and the value reported.\<close>

definition drift_check ::
  "settings \<Rightarrow> paper_state \<Rightarrow> bool \<times> decimal \<times> decimal" where
  "drift_check st s =
     (let total = dadd (ps_cash s) (ps_reserved_cash s);
          (reconstructed, net) = rebuild st (ps_fills s);
          drift = dabs (dsub reconstructed total)
      in if ps_fills s = [] then (True, drift, total)
         else if \<not> ledger_complete net (ps_positions s) then (True, drift, reconstructed)
         else (drift \<le> 5 / 100, drift, reconstructed))"

definition recon_mismatches :: "settings \<Rightarrow> paper_state \<Rightarrow> mismatch list" where
  "recon_mismatches st s =
     (let (_, net) = rebuild st (ps_fills s) in
      mismatch_if (\<not> (ps_cash s \<ge> 0 \<and> ps_reserved_cash s \<ge> 0)) ''cash'' Critical
    @ concat (map position_mismatches (ps_positions s))
    @ concat (map (\<lambda>x. mismatch_if (unexplained net x) (''position.'' @ fst x @ ''.vs_fills'') High)
                (ps_positions s))
    @ mismatch_if (\<not> fst (drift_check st s)) ''cash_vs_fill_ledger'' Critical
    @ concat (map (\<lambda>od. mismatch_if (overfilled (ps_fills s) od)
                          (''order.'' @ o_id od @ ''.filled_qty'') Critical) (dict_values (ps_orders s))))"

definition recon_detail_of ::
  "bool \<Rightarrow> bool \<Rightarrow> bool \<Rightarrow> bool \<Rightarrow> decimal \<Rightarrow> mismatch list \<Rightarrow> recon_detail" where
  "recon_detail_of healthy cash_ok positions_ok drift_ok drift mms =
     (if \<not> healthy then
        (if \<not> cash_ok then DetailNegativeCash
         else if \<not> positions_ok then DetailInvalidPosition
         else if \<not> drift_ok then DetailCashDrift drift
         else DetailField (case filter (\<lambda>x. mm_severity x = Critical) mms of
                x # _ \<Rightarrow> mm_field x
              | [] \<Rightarrow> (case mms of x # _ \<Rightarrow> mm_field x | [] \<Rightarrow> ''reconciliation_failed'')))
      else if mms \<noteq> [] then DetailOkWithWarnings else DetailOk)"

definition reconcile :: "settings \<Rightarrow> paper_state \<Rightarrow> recon_result" where
  "reconcile st s =
     (let cash_ok = (ps_cash s \<ge> 0 \<and> ps_reserved_cash s \<ge> 0);
          positions_ok = (concat (map position_mismatches (ps_positions s)) = []
                          \<and> \<not> (\<exists>od \<in> set (dict_values (ps_orders s)). overfilled (ps_fills s) od));
          (drift_ok, drift, reconstructed) = drift_check st s;
          mms = recon_mismatches st s;
          total = dadd (ps_cash s) (ps_reserved_cash s);
          marked = dsum (map (\<lambda>p. dmul (p_quantity p) (p_current_price p)) (dict_values (ps_positions s)));
          healthy = (cash_ok \<and> positions_ok \<and> drift_ok
                     \<and> \<not> (\<exists>x \<in> set mms. mm_severity x = Critical))
      in \<lparr>rr_healthy = healthy, rr_cash_ok = (cash_ok \<and> drift_ok), rr_positions_ok = positions_ok,
          rr_detail = recon_detail_of healthy cash_ok positions_ok drift_ok drift mms,
          rr_cash = total, rr_position_count = length (ps_positions s), rr_mismatches = mms,
          rr_equity = dadd total marked, rr_reconstructed_cash = reconstructed\<rparr>)"

definition run_paper_reconciliation ::
  "settings \<Rightarrow> timestamp \<Rightarrow> paper_state \<Rightarrow> recon_state \<times> risk_state \<Rightarrow> recon_result \<times> recon_state \<times> risk_state"
where
  "run_paper_reconciliation st now s x =
     (let (r, rs) = x in
      if \<not> st_enable_reconciliation st then
        (let result = \<lparr>rr_healthy = True, rr_cash_ok = True, rr_positions_ok = True,
                rr_detail = DetailDisabled, rr_cash = 0, rr_position_count = 0, rr_mismatches = [],
                rr_equity = 0, rr_reconstructed_cash = 0\<rparr>
         in (result, r\<lparr>rc_healthy := True, rc_halted := False, rc_last_run_at := Some now,
                       rc_last_result := Some result\<rparr>, rs))
      else
        (let result = reconcile st s
         in (result, r\<lparr>rc_healthy := rr_healthy result, rc_halted := \<not> rr_healthy result,
                       rc_last_run_at := Some now, rc_last_result := Some result\<rparr>,
             rs\<lparr>rs_reconciliation_healthy := rr_healthy result\<rparr>)))"

subsection \<open>Portfolio snapshots\<close>

record portfolio_service =
  psv_cash :: decimal
  psv_positions :: "(string, position) dict"
  psv_realized_pnl :: decimal
  psv_daily_pnl :: decimal
  psv_consecutive_losses :: nat
  psv_peak_equity :: decimal

definition new_portfolio_service ::
  "decimal \<Rightarrow> position list \<Rightarrow> decimal \<Rightarrow> decimal \<Rightarrow> nat \<Rightarrow> portfolio_service" where
  "new_portfolio_service cash positions realized daily losses =
     \<lparr>psv_cash = cash,
      psv_positions = foldl (\<lambda>d p. AList.update (p_symbol p) p d) [] positions,
      psv_realized_pnl = realized, psv_daily_pnl = daily, psv_consecutive_losses = losses,
      psv_peak_equity = cash\<rparr>"

definition portfolio_snapshot :: "portfolio_service \<Rightarrow> portfolio_state \<times> portfolio_service" where
  "portfolio_snapshot ps =
     (let ps_list = dict_values (psv_positions ps);
          unrealized = dsum (map p_unrealized_pnl ps_list);
          equity = dadd (psv_cash ps) (dsum (map (\<lambda>p. dmul (p_quantity p) (p_current_price p)) ps_list));
          peak = max (psv_peak_equity ps) equity;
          drawdown = (if peak > 0 then ddiv (dsub peak equity) peak else 0)
      in (\<lparr>pf_cash_balance = psv_cash ps, pf_equity = equity, pf_realized_pnl = psv_realized_pnl ps,
           pf_unrealized_pnl = unrealized, pf_daily_pnl = psv_daily_pnl ps, pf_peak_equity = peak,
           pf_drawdown = drawdown, pf_open_positions = ps_list,
           pf_consecutive_losses = psv_consecutive_losses ps\<rparr>,
          ps\<lparr>psv_peak_equity := peak\<rparr>))"

text \<open>\<open>PortfolioManager._equity\<close> and \<open>to_portfolio_service\<close> on the paper ledger.\<close>

definition manager_equity :: "paper_state \<Rightarrow> decimal" where
  "manager_equity s =
     dadd (dadd (ps_cash s) (ps_reserved_cash s))
       (dsum (map (\<lambda>p. dmul (p_quantity p) (p_current_price p)) (dict_values (ps_positions s))))"

definition to_portfolio_service :: "decimal \<Rightarrow> nat \<Rightarrow> paper_state \<Rightarrow> portfolio_service" where
  "to_portfolio_service daily losses s =
     new_portfolio_service (ps_cash s) (dict_values (ps_positions s)) (ps_realized_pnl s) daily losses"

end
