(* ===== verification/Accounting_Properties.thy ===== *)
theory Accounting_Properties
  imports Accounting
begin

text \<open>
  What the accounting checks decide and how they fit the paper engine: the invariant check passes
  exactly on the ledgers its rules describe and on every reachable ledger; an unhealthy
  reconciliation blocks every later order; the snapshot's drawdown is a fraction. Two gaps are
  stated as they are: a failed sell leaves a fill that makes the reconciliation halt trading, and
  the portfolio service leaves reserved cash out of its equity.
\<close>

subsection \<open>Sums of amounts\<close>

lemma foldl_dadd_amounts:
  assumes "\<forall>x \<in> set xs. on_grid 8 x \<and> 0 \<le> x" and "on_grid 8 a" "0 \<le> a" and "a + sum_list xs < amount_limit"
  shows "foldl dadd a xs = a + sum_list xs"
  using assms
proof (induction xs arbitrary: a)
  case (Cons x xs)
  have nn: "0 \<le> sum_list xs" using Cons.prems(1) by (intro sum_list_nonneg) auto
  have "dadd a x = a + x"
    using Cons.prems nn by (intro dadd_amount) auto
  moreover have "foldl dadd (a + x) xs = (a + x) + sum_list xs"
    using Cons.prems by (intro Cons.IH) (auto intro: on_grid_add)
  ultimately show ?case by simp
qed simp

lemma dsum_amounts:
  assumes "\<forall>x \<in> set xs. on_grid 8 x \<and> 0 \<le> x" and "sum_list xs < amount_limit"
  shows "dsum xs = sum_list xs"
  using foldl_dadd_amounts [OF assms(1), of 0] assms(2) by (simp add: dsum_def)

lemma open_reservations_sum:
  "sum_list (map (\<lambda>od. reserved_left (o_metadata od)) (filter (\<lambda>od. m_reservation_open (o_metadata od)) ods))
    = sum_list (map order_reserved ods)"
  by (induction ods) (simp_all add: order_reserved_def)

lemma open_reservation_total_exact:
  assumes "reservations_ok s"
  shows "open_reservation_total (ps_orders s) = ps_reserved_cash s"
proof -
  let ?ods = "filter (\<lambda>od. m_reservation_open (o_metadata od)) (dict_values (ps_orders s))"
  have "\<forall>x \<in> set (map (\<lambda>od. reserved_left (o_metadata od)) ?ods). on_grid 8 x \<and> 0 \<le> x"
    using reservations_order_ok [OF assms] by (auto simp: order_ok_def)
  moreover have sum: "sum_list (map (\<lambda>od. reserved_left (o_metadata od)) ?ods) = ps_reserved_cash s"
    unfolding open_reservations_sum using assms by (simp add: reservations_ok_def)
  moreover have "ps_reserved_cash s < amount_limit" using assms by (simp add: reservations_ok_def)
  ultimately show ?thesis unfolding open_reservation_total_def by (simp only: dsum_amounts)
qed

subsection \<open>The rules one by one\<close>

definition no_critical :: "violation list \<Rightarrow> bool" where
  "no_critical vs \<longleftrightarrow> filter (\<lambda>x. vi_severity x = Critical) vs = []"

lemma no_critical_Nil [simp]: "no_critical []"
  by (simp add: no_critical_def)

lemma no_critical_append [simp]: "no_critical (a @ b) \<longleftrightarrow> no_critical a \<and> no_critical b"
  by (simp add: no_critical_def)

lemma no_critical_concat [simp]:
  "no_critical (concat (map f xs)) \<longleftrightarrow> (\<forall>x \<in> set xs. no_critical (f x))"
  by (induction xs) auto

lemma no_critical_report [simp]:
  "no_critical (report_if b c Critical) \<longleftrightarrow> \<not> b" "no_critical (report_if b c High)"
  by (simp_all add: no_critical_def report_if_def)

lemma no_critical_fills:
  "no_critical (fill_violations seen fs) \<longleftrightarrow>
     distinct (filter (\<lambda>i. i \<noteq> []) (map f_id fs)) \<and> (\<forall>f \<in> set fs. f_id f \<noteq> [] \<longrightarrow> f_id f \<notin> seen)"
proof (induction fs arbitrary: seen)
  case (Cons f fs)
  show ?case
  proof (cases "f_id f = []")
    case False
    have "f_id f \<in> set (filter (\<lambda>i. i \<noteq> []) (map f_id fs)) \<longleftrightarrow> (\<exists>g \<in> set fs. f_id g = f_id f)"
      using False by (simp add: image_iff) metis
    with False show ?thesis by (simp add: Cons.IH image_iff) metis
  qed (simp add: Cons.IH)
qed simp

definition single_exit :: "order list \<Rightarrow> bool" where
  "single_exit ods \<longleftrightarrow>
     (\<forall>a \<in> set ods. \<forall>b \<in> set ods. o_status a = Filled \<and> o_status b = Filled
        \<and> m_exit_pair_id (o_metadata a) = m_exit_pair_id (o_metadata b)
        \<and> m_exit_pair_id (o_metadata a) \<notin> {None, Some []} \<longrightarrow> o_id a = o_id b)"

lemma no_critical_order:
  "no_critical (order_violations ods od) \<longleftrightarrow>
     \<not> (m_exit_pair_id (o_metadata od) \<notin> {None, Some []} \<and> o_status od = Filled
        \<and> (\<exists>b \<in> set ods. m_exit_pair_id (o_metadata b) = m_exit_pair_id (o_metadata od)
              \<and> o_status b = Filled \<and> o_id b \<noteq> o_id od))
   \<and> (terminal_status (o_status od) \<longrightarrow> \<not> m_reservation_open (o_metadata od))"
  unfolding order_violations_def Let_def no_critical_append no_critical_report
  by (auto simp: filter_empty_conv)

lemma no_critical_orders:
  "(\<forall>od \<in> set ods. no_critical (order_violations ods od)) \<longleftrightarrow>
     single_exit ods \<and> (\<forall>od \<in> set ods. terminal_status (o_status od) \<longrightarrow> \<not> m_reservation_open (o_metadata od))"
proof
  assume ok: "\<forall>od \<in> set ods. no_critical (order_violations ods od)"
  then have "single_exit ods"
    unfolding single_exit_def no_critical_order by (metis (no_types))
  with ok show "single_exit ods \<and> (\<forall>od \<in> set ods. terminal_status (o_status od) \<longrightarrow>
      \<not> m_reservation_open (o_metadata od))"
    by (simp add: no_critical_order)
next
  assume ok: "single_exit ods \<and> (\<forall>od \<in> set ods. terminal_status (o_status od) \<longrightarrow>
      \<not> m_reservation_open (o_metadata od))"
  show "\<forall>od \<in> set ods. no_critical (order_violations ods od)"
  proof
    fix od assume od: "od \<in> set ods"
    have "o_id b = o_id od" if "m_exit_pair_id (o_metadata od) \<notin> {None, Some []}" "o_status od = Filled"
      "b \<in> set ods" "m_exit_pair_id (o_metadata b) = m_exit_pair_id (o_metadata od)" "o_status b = Filled" for b
      using ok od that unfolding single_exit_def by (metis (no_types))
    with ok od show "no_critical (order_violations ods od)" unfolding no_critical_order by blast
  qed
qed

lemma check_ok_iff:
  "ir_ok (check_paper s) \<longleftrightarrow>
     0 \<le> ps_cash s \<and> 0 \<le> ps_reserved_cash s
   \<and> dabs (dsub (open_reservation_total (ps_orders s)) (ps_reserved_cash s)) \<le> 1 / 10 ^ 8
   \<and> (\<forall>p \<in> set (dict_values (ps_positions s)).
        0 \<le> p_quantity p \<and> 0 \<le> p_entry_price p \<and> 0 \<le> p_current_price p)
   \<and> distinct (filter (\<lambda>i. i \<noteq> []) (map f_id (ps_fills s)))
   \<and> single_exit (dict_values (ps_orders s))
   \<and> (\<forall>od \<in> set (dict_values (ps_orders s)).
        terminal_status (o_status od) \<longrightarrow> \<not> m_reservation_open (o_metadata od))"
proof -
  have d0: "dabs 0 = 0" by (simp add: dabs_def)
  have ok: "ir_ok (check_paper s) \<longleftrightarrow>
      no_critical (cash_violations (ps_cash s) (ps_reserved_cash s) (ps_orders s) False)
    \<and> (\<forall>p \<in> set (dict_values (ps_positions s)). no_critical (position_violations p))
    \<and> no_critical (fill_violations {} (ps_fills s))
    \<and> (\<forall>od \<in> set (dict_values (ps_orders s)).
         no_critical (order_violations (dict_values (ps_orders s)) od))"
    unfolding check_paper_def check_cycle_invariants_def equity_from_cash_and_positions_def Let_def
    by (simp add: no_critical_def [symmetric] d0)
  have pos: "no_critical (position_violations p) \<longleftrightarrow>
      0 \<le> p_quantity p \<and> 0 \<le> p_entry_price p \<and> 0 \<le> p_current_price p" for p
    by (auto simp: position_violations_def Let_def not_less)
  show ?thesis
    unfolding ok no_critical_orders no_critical_fills pos
    by (auto simp: cash_violations_def not_less)
qed

lemma check_ok_of_engine:
  assumes ok: "engine_ok s" and ids: "distinct (map f_id (ps_fills s))"
    and ex: "\<forall>od \<in> set (dict_values (ps_orders s)). m_exit_pair_id (o_metadata od) = None"
  shows "ir_ok (check_paper s)"
proof -
  have l: "ledger_ok s" using ok by (simp add: engine_ok_def)
  then have res: "reservations_ok s" and hold: "holdings_ok s" by (simp_all add: ledger_ok_def)
  have pos: "\<forall>p \<in> set (dict_values (ps_positions s)).
      0 \<le> p_quantity p \<and> 0 \<le> p_entry_price p \<and> 0 \<le> p_current_price p"
  proof
    fix p assume "p \<in> set (dict_values (ps_positions s))"
    then obtain k where "map_of (ps_positions s) k = Some p"
      using hold dict_values_mapD unfolding holdings_ok_def by metis
    with hold show "0 \<le> p_quantity p \<and> 0 \<le> p_entry_price p \<and> 0 \<le> p_current_price p"
      by (auto simp: holdings_ok_def intro: less_imp_le)
  qed
  have st: "terminal_status (o_status od) \<longrightarrow> \<not> m_reservation_open (o_metadata od)"
    if "od \<in> set (dict_values (ps_orders s))" for od
    using reservations_order_ok [OF res that] by (auto simp: order_ok_def)
  have "single_exit (dict_values (ps_orders s))" using ex by (simp add: single_exit_def)
  moreover have "0 \<le> ps_cash s" using hold by (simp add: holdings_ok_def)
  ultimately show ?thesis
    unfolding check_ok_iff open_reservation_total_exact [OF res]
    using reserved_nonneg [OF res] pos ids st by (simp add: dabs_def distinct_filter)
qed

lemma fill_violations_code: "x \<in> set (fill_violations seen fs) \<Longrightarrow> vi_code x = DUPLICATE_FILL"
  by (induction fs arbitrary: seen) (auto simp: report_if_def split: if_splits)

subsection \<open>Properties\<close>

text \<open>
  The accounting check is exact: on a paper ledger it reports ok if and only if neither cash
  amount is negative, the open reservations add up to the reserved cash within the tolerance, no
  position has a negative quantity or price, no fill id occurs twice, no exit pair has two filled
  orders, and no terminal order still holds a reservation. Its equity rule can never fire, since
  it compares the sum with itself.
\<close>

lemma accounting_check_exact:
  "(ir_ok (check_paper s) \<longleftrightarrow>
     0 \<le> ps_cash s \<and> 0 \<le> ps_reserved_cash s
   \<and> dabs (dsub (open_reservation_total (ps_orders s)) (ps_reserved_cash s)) \<le> 1 / 10 ^ 8
   \<and> (\<forall>p \<in> set (dict_values (ps_positions s)).
        0 \<le> p_quantity p \<and> 0 \<le> p_entry_price p \<and> 0 \<le> p_current_price p)
   \<and> distinct (filter (\<lambda>i. i \<noteq> []) (map f_id (ps_fills s)))
   \<and> single_exit (dict_values (ps_orders s))
   \<and> (\<forall>od \<in> set (dict_values (ps_orders s)).
        terminal_status (o_status od) \<longrightarrow> \<not> m_reservation_open (o_metadata od)))
   \<and> EQUITY_IDENTITY \<notin> vi_code ` set (ir_violations (check_paper s))"
proof -
  have "EQUITY_IDENTITY \<notin> vi_code ` set (ir_violations (check_paper s))"
    unfolding check_paper_def check_cycle_invariants_def equity_from_cash_and_positions_def Let_def
    by (auto simp: report_if_def cash_violations_def position_violations_def order_violations_def Let_def
        dabs_def dest: fill_violations_code split: if_splits)
  with check_ok_iff [of s] show ?thesis by blast
qed

lemma accounting_check_exact_witness:
  "ir_ok (check_paper sample_resting) \<and> 0 \<le> ps_reserved_cash sample_resting"
proof -
  have fills: "ps_fills sample_resting = []"
    by (simp add: sample_resting_def submit_def register_order_def new_order_def place_order_def
        lock_notional_def reserve_price_def reserve_buy_def fill_or_rest_def rests_at_def Let_def
        or_else_def update_order_def sample_buy_def sample_env_def sample_risk_def
        default_paper_config_def empty_meta_def sample_engine_def new_engine_def)
  have only: "map_of (ps_orders sample_resting) k = Some od \<Longrightarrow> od = sample_order" for k od
    using submit_keeps(5) [OF default_paper_config_ok _ sample_buy_ok _ _ _ _ sample_resting_eq(1), of k]
      sample_engine_ok sample_resting_order
    by (cases "k = ''order-1''") (auto simp: engine_ok_def sample_env_def)
  have dk: "distinct_keys (ps_orders sample_resting)"
    using sample_resting_ok by (simp add: engine_ok_def ledger_ok_def reservations_ok_def)
  have "\<forall>od \<in> set (dict_values (ps_orders sample_resting)). m_exit_pair_id (o_metadata od) = None"
  proof
    fix od assume "od \<in> set (dict_values (ps_orders sample_resting))"
    with dict_values_mapD [OF dk] only have "od = sample_order" by blast
    then show "m_exit_pair_id (o_metadata od) = None" by (simp add: sample_order_def empty_meta_def)
  qed
  with fills have "ir_ok (check_paper sample_resting)"
    by (intro check_ok_of_engine sample_resting_ok) simp_all
  with accounting_check_exact [of sample_resting] show ?thesis by blast
qed



lemma reconciliation_required:
  "\<not> rs_reconciliation_healthy rs \<Longrightarrow> \<not> is_accepting (fst (evaluate st rq cx md_now now rs))"
proof
  assume un: "\<not> rs_reconciliation_healthy rs" and acc: "is_accepting (fst (evaluate st rq cx md_now now rs))"
  obtain e s' where "evaluate st rq cx md_now now rs = (e, s')" by fastforce
  with acc obtain price where "pre_checks st rq cx md_now rs = Inr price"
    by (metis evaluate_acceptingE fst_conv)
  from pre_checks_InrD(2) [OF this] un show False by (simp add: check_health_def split: if_splits)
qed

text \<open>
  C21. Reconciliation fails closed: a run is healthy exactly when no cash amount is negative, no
  position is invalid, no order has more fills than quantity and the cash agrees with the fill
  log; an unhealthy run leaves the halt set, and from then on the risk engine accepts no order.
\<close>

theorem reconciliation_fails_closed:
  assumes "st_enable_reconciliation st" and "run_paper_reconciliation st now s (r, rs) = (result, r', rs')"
  shows "(rr_healthy result \<longleftrightarrow>
      0 \<le> ps_cash s \<and> 0 \<le> ps_reserved_cash s
      \<and> (\<forall>x \<in> set (ps_positions s).
           0 \<le> p_quantity (snd x) \<and> 0 < p_entry_price (snd x) \<and> 0 \<le> p_current_price (snd x))
      \<and> (\<forall>od \<in> set (dict_values (ps_orders s)). \<not> overfilled (ps_fills s) od)
      \<and> fst (drift_check st s))
    \<and> (\<not> rr_healthy result \<longrightarrow> \<not> is_reconciliation_healthy r'
        \<and> (\<forall>st' rq cx md_now now'. \<not> is_accepting (fst (evaluate st' rq cx md_now now' rs'))))"
proof -
  have res: "result = reconcile st s" and r': "rc_halted r' \<longleftrightarrow> \<not> rr_healthy result"
    and rs': "rs_reconciliation_healthy rs' \<longleftrightarrow> rr_healthy result"
    using assms by (auto simp: run_paper_reconciliation_def Let_def)
  have pm: "position_mismatches x = [] \<longleftrightarrow>
      0 \<le> p_quantity (snd x) \<and> 0 < p_entry_price (snd x) \<and> 0 \<le> p_current_price (snd x)" for x
    by (auto simp: position_mismatches_def mismatch_if_def)
  have crit: "\<not> (\<exists>x \<in> set (recon_mismatches st s). mm_severity x = Critical)"
    if "0 \<le> ps_cash s" "0 \<le> ps_reserved_cash s" "\<forall>x \<in> set (ps_positions s). position_mismatches x = []"
      "\<forall>od \<in> set (dict_values (ps_orders s)). \<not> overfilled (ps_fills s) od" "fst (drift_check st s)"
    using that by (auto simp: recon_mismatches_def Let_def mismatch_if_def split: prod.splits if_splits)
  have "rr_healthy (reconcile st s) \<longleftrightarrow>
      0 \<le> ps_cash s \<and> 0 \<le> ps_reserved_cash s
      \<and> (\<forall>x \<in> set (ps_positions s). position_mismatches x = [])
      \<and> (\<forall>od \<in> set (dict_values (ps_orders s)). \<not> overfilled (ps_fills s) od)
      \<and> fst (drift_check st s)"
    using crit by (auto simp: reconcile_def Let_def concat_eq_Nil_conv split: prod.splits)
  with reconciliation_required rs' r' show ?thesis
    unfolding res pm by (auto simp: is_reconciliation_healthy_def)
qed

text \<open>
  A sell that fails for lack of a position halts trading: on an account that is flat and has
  traded nothing, the engine refuses the sell and keeps the cash, but the fill it logged makes
  the next reconciliation unhealthy whenever the sell's proceeds exceed five cents.
\<close>

lemma failed_sell_halts_reconciliation:
  assumes "ps_fills s = []" and "ps_positions s = []" and "o_side od = Sell"
    and "apply_fill pc v od qty price risk mk s = (od', s')"
    and "5 / 100 < dabs (dsub (dadd (st_paper_starting_balance st)
            (dsub (dmul qty price) (quantize 8 (dmul (dmul price qty) (fee_rate pc mk)))))
          (dadd (ps_cash s) (ps_reserved_cash s)))"
    and "0 \<le> qty"
  shows "o_status od' = Failed \<and> ps_cash s' = ps_cash s \<and> ps_positions s' = []
    \<and> \<not> rr_healthy (reconcile st s')"
proof -
  let ?fee = "quantize 8 (dmul (dmul price qty) (fee_rate pc mk))"
  let ?f = "\<lparr>f_id = pv_fill_id v (o_id od), f_order_id = o_id od, f_symbol = o_symbol od,
      f_side = Sell, f_quantity = qty, f_price = price, f_fee = ?fee, f_timestamp = pv_now v\<rparr>"
  have s': "o_status od' = Failed" "ps_cash s' = ps_cash s" "ps_positions s' = []"
      "ps_reserved_cash s' = ps_reserved_cash s" "ps_fills s' = [?f]"
    using assms(1-4) by (auto simp: apply_fill_def fill_sell_def update_order_def Let_def)
  have "ctx (- qty) \<le> 0" using assms(6) by (intro ctx.rnd_nonpos) simp
  then have "\<not> fst (drift_check st s')"
    using assms(5) s' by (simp add: drift_check_def rebuild_def rebuild_step_def ledger_complete_def Let_def
        dsub_def [of 0] not_less)
  then have "\<not> rr_healthy (reconcile st s')"
    by (auto simp: reconcile_def Let_def split: prod.splits)
  with s' show ?thesis by simp
qed

text \<open>
  The portfolio snapshot: the peak never falls and is at least the equity, and for an account
  with cash and positions that are not negative the drawdown is a fraction between zero and one.
\<close>

lemma portfolio_snapshot_bounds:
  assumes "portfolio_snapshot ps = (pf, ps')" and "0 \<le> psv_cash ps" and "representable (psv_peak_equity ps)"
    and "list_all (\<lambda>p. 0 \<le> p_quantity p \<and> 0 \<le> p_current_price p) (dict_values (psv_positions ps))"
  shows "0 \<le> pf_drawdown pf \<and> pf_drawdown pf \<le> 1
    \<and> pf_equity pf \<le> pf_peak_equity pf \<and> psv_peak_equity ps \<le> pf_peak_equity pf
    \<and> psv_peak_equity ps' = pf_peak_equity pf \<and> 0 \<le> pf_equity pf
    \<and> (pf_equity pf = pf_peak_equity pf \<longrightarrow> pf_drawdown pf = 0)"
proof -
  define eq where "eq = dadd (psv_cash ps)
    (dsum (map (\<lambda>p. dmul (p_quantity p) (p_current_price p)) (dict_values (psv_positions ps))))"
  define pk where "pk = max (psv_peak_equity ps) eq"
  have "0 \<le> eq" unfolding eq_def
    using assms(2,4) by (intro dadd_nonneg dsum_nonneg) (auto simp: list_all_iff dmul_nonneg)
  have pf: "pf_equity pf = eq" "pf_peak_equity pf = pk" "psv_peak_equity ps' = pk"
    "pf_drawdown pf = (if pk > 0 then ddiv (dsub pk eq) pk else 0)"
    using assms(1) by (auto simp: portfolio_snapshot_def Let_def eq_def pk_def)
  have rep: "representable pk" using assms(3) by (simp add: pk_def max_def eq_def)
  have le: "eq \<le> pk" by (simp add: pk_def)
  have "ddiv (dsub pk eq) pk \<le> 1" if "0 < pk"
  proof -
    have "dsub pk eq \<le> pk" unfolding dsub_def using \<open>0 \<le> eq\<close> by (intro ctx.rnd_le_rep [OF rep]) simp
    with that have "dsub pk eq / pk \<le> 1" by simp
    then have "ddiv (dsub pk eq) pk \<le> ctx 1" unfolding ddiv_def by (rule ctx_mono)
    then show ?thesis by simp
  qed
  moreover have "0 \<le> ddiv (dsub pk eq) pk" if "0 < pk" using that le by (intro ddiv_nonneg) simp_all
  moreover have "psv_peak_equity ps \<le> pk" by (simp add: pk_def)
  moreover have "ddiv (dsub pk pk) pk = 0" by (simp add: ddiv_def)
  ultimately show ?thesis using le \<open>0 \<le> eq\<close> by (simp add: pf)
qed

text \<open>
  The portfolio service does not count reserved cash: for a flat account its equity is short
  of the manager's equity by exactly the reserved cash.
\<close>

lemma service_omits_reserved:
  assumes "ledger_ok s" and "ps_positions s = []" and "on_grid 8 (ps_cash s)"
    and "ps_cash s + ps_reserved_cash s < amount_limit"
  shows "manager_equity s
    = pf_equity (fst (portfolio_snapshot (to_portfolio_service daily losses s))) + ps_reserved_cash s"
proof -
  have res: "reservations_ok s" and cash: "0 \<le> ps_cash s"
    using assms(1) by (simp_all add: ledger_ok_def holdings_ok_def)
  note r = reserved_nonneg [OF res] reserved_grid [OF res]
  have "dadd (ps_cash s) (ps_reserved_cash s) = ps_cash s + ps_reserved_cash s"
    using assms(3,4) cash r by (intro dadd_amount) simp_all
  moreover have "ctx (ps_cash s + ps_reserved_cash s) = ps_cash s + ps_reserved_cash s"
      "ctx (ps_cash s) = ps_cash s"
    using assms(3,4) cash r by (auto intro!: ctx_amount on_grid_add)
  ultimately show ?thesis
    by (simp add: manager_equity_def portfolio_snapshot_def to_portfolio_service_def
        new_portfolio_service_def assms(2) dict_values_def dsum_def Let_def)
      (simp add: dadd_def)
qed

subsection \<open>Concrete ledgers\<close>

theorem reconciliation_fails_closed_witness:
  "\<exists>result r' rs'. run_paper_reconciliation default_settings 5 (sample_engine\<lparr>ps_cash := - 1\<rparr>)
      (initial_recon_state, initial_risk_state) = (result, r', rs')
    \<and> \<not> rr_healthy result \<and> \<not> is_reconciliation_healthy r'
    \<and> \<not> is_accepting (fst (evaluate default_settings sample_request sample_context 0 0 rs'))"
proof -
  obtain result r' rs' where run: "run_paper_reconciliation default_settings 5 (sample_engine\<lparr>ps_cash := - 1\<rparr>)
      (initial_recon_state, initial_risk_state) = (result, r', rs')"
    by (metis prod_cases3)
  have "st_enable_reconciliation default_settings" by (simp add: default_settings_def)
  from reconciliation_fails_closed [OF this run] run show ?thesis by simp
qed

lemma failed_sell_halts_reconciliation_witness:
  "\<exists>od' s'. apply_fill default_paper_config sample_env (sample_order\<lparr>o_side := Sell\<rparr>) (1 / 100) 50000
      (sample_risk (1 / 100)) False sample_engine = (od', s')
    \<and> o_status od' = Failed \<and> ps_cash s' = 10000 \<and> \<not> rr_healthy (reconcile default_settings s')"
proof -
  obtain od' s' where f: "apply_fill default_paper_config sample_env (sample_order\<lparr>o_side := Sell\<rparr>)
      (1 / 100) 50000 (sample_risk (1 / 100)) False sample_engine = (od', s')"
    by fastforce
  have "ps_fills sample_engine = []" by (simp add: sample_engine_def new_engine_def)
  then show ?thesis
    using failed_sell_halts_reconciliation [OF _ _ _ f, of default_settings] f
    by (simp add: default_settings_def default_paper_config_def fee_rate_def dec_ops
        quantize_def half_even_def)
qed

lemma portfolio_snapshot_bounds_witness:
  "\<exists>pf ps'. portfolio_snapshot (new_portfolio_service 10000 [] 0 0 0) = (pf, ps')
     \<and> 0 \<le> pf_drawdown pf \<and> pf_drawdown pf \<le> 1"
proof -
  obtain pf ps' where s: "portfolio_snapshot (new_portfolio_service 10000 [] 0 0 0) = (pf, ps')"
    by fastforce
  have "representable (ctx 10000)" by (rule representable_ctx)
  then have "representable 10000" by simp
  with portfolio_snapshot_bounds [OF s] s show ?thesis
    by (simp add: new_portfolio_service_def dict_values_def)
qed

definition reserved_engine :: paper_state where
  "reserved_engine = sample_engine\<lparr>ps_cash := 9600, ps_reserved_cash := 400,
     ps_orders := [(''order-1'', sample_order)]\<rparr>"

lemma service_omits_reserved_witness:
  "manager_equity reserved_engine
    = pf_equity (fst (portfolio_snapshot (to_portfolio_service 0 0 reserved_engine))) + 400"
proof -
  have g: "on_grid 8 (400 :: rat)" "on_grid 8 (9600 :: rat)"
    unfolding on_grid_def
    by (rule exI [of _ "400 * 10 ^ 8"], simp) (rule exI [of _ "9600 * 10 ^ 8"], simp)
  then have "ledger_ok reserved_engine"
    by (simp add: reserved_engine_def ledger_ok_def reservations_ok_def holdings_ok_def
        sample_order_def order_ok_def order_reserved_def reserved_left_def terminal_status_def
        distinct_keys_def dict_values_def)
  from service_omits_reserved [OF this, of 0 0] g show ?thesis
    by (simp add: reserved_engine_def)
qed

end
