(* ===== verification/Decimal_Root.thy ===== *)
theory Decimal_Root
  imports Decimal_Arith
begin

text \<open>
  \<open>Decimal.sqrt\<close> under the default context: the square root rounded to 28 significant digits, half to
  even. It is computed on integers, as the specification of the decimal module does: the operand is
  scaled so that the integer root has 28 digits, and the exact remainder decides the rounding.
\<close>

subsection \<open>The integer square root\<close>

fun isqrt :: "nat \<Rightarrow> nat" where
  "isqrt n =
     (if n = 0 then 0
      else let r = 2 * isqrt (n div 4) in if (r + 1) * (r + 1) \<le> n then r + 1 else r)"

declare isqrt.simps [simp del]

lemma isqrt_bounds: "isqrt n * isqrt n \<le> n \<and> n < (isqrt n + 1) * (isqrt n + 1)"
proof (induction n rule: isqrt.induct)
  case (1 n)
  show ?case
  proof (cases "n = 0")
    case True
    then show ?thesis by (simp add: isqrt.simps)
  next
    case False
    define r where "r = isqrt (n div 4)"
    have IH: "r * r \<le> n div 4" "n div 4 < (r + 1) * (r + 1)" using 1 [OF False] by (simp_all add: r_def)
    have "4 * (r * r) \<le> n" using IH(1) by linarith
    moreover have "n < 4 * ((r + 1) * (r + 1))" using IH(2) by linarith
    ultimately have "(2 * r) * (2 * r) \<le> n" "n < (2 * r + 2) * (2 * r + 2)" by (simp_all add: algebra_simps)
    then show ?thesis
      using False by (simp add: isqrt.simps [of n] r_def [symmetric] Let_def)
  qed
qed

subsection \<open>The decimal square root\<close>

text \<open>The number of decimal places of the root of a positive operand.\<close>

definition root_places :: "rat \<Rightarrow> int" where
  "root_places x = (places x + 28) div 2"

definition round_root :: "rat \<Rightarrow> int \<Rightarrow> int" where
  "round_root y r =
     (let m = (of_int r + 1 / 2) * (of_int r + 1 / 2)
      in if y < m then r else if m < y then r + 1 else if even r then r else r + 1)"

definition dsqrt :: "decimal \<Rightarrow> decimal" where
  "dsqrt x =
     (if x \<le> 0 then 0
      else let y = x * scale (2 * root_places x); r = int (isqrt (nat \<lfloor>y\<rfloor>))
           in of_int (round_root y r) / scale (root_places x))"

lemma isqrt_rat:
  assumes "0 \<le> (y :: rat)"
  defines "r \<equiv> int (isqrt (nat \<lfloor>y\<rfloor>))"
  shows "of_int r * of_int r \<le> y" and "y < (of_int r + 1) * (of_int r + 1)"
proof -
  have n: "int (nat \<lfloor>y\<rfloor>) = \<lfloor>y\<rfloor>" using assms by simp
  have "int (isqrt (nat \<lfloor>y\<rfloor>) * isqrt (nat \<lfloor>y\<rfloor>)) \<le> int (nat \<lfloor>y\<rfloor>)"
    and "int (nat \<lfloor>y\<rfloor>) < int ((isqrt (nat \<lfloor>y\<rfloor>) + 1) * (isqrt (nat \<lfloor>y\<rfloor>) + 1))"
    using isqrt_bounds [of "nat \<lfloor>y\<rfloor>"] by (simp_all only: of_nat_le_iff of_nat_less_iff)
  then have b: "r * r \<le> \<lfloor>y\<rfloor>" "\<lfloor>y\<rfloor> + 1 \<le> (r + 1) * (r + 1)"
    using n by (simp_all add: r_def algebra_simps)
  have "of_int (r * r) \<le> y" using b(1) by (simp only: le_floor_iff)
  then show "of_int r * of_int r \<le> y" by simp
  have "y < of_int (\<lfloor>y\<rfloor> + 1)" using floor_correct [of y] by simp
  also have "\<dots> \<le> of_int ((r + 1) * (r + 1))" using b(2) by (simp only: of_int_le_iff)
  finally show "y < (of_int r + 1) * (of_int r + 1)" by simp
qed

text \<open>The rounded root is within half a unit of the root.\<close>

lemma round_root_bounds:
  assumes "of_int r * of_int r \<le> y" and "y < (of_int r + 1) * (of_int r + 1)" and "0 \<le> r"
  defines "k \<equiv> of_int (round_root y r) :: rat"
  shows "y \<le> (k + 1 / 2) * (k + 1 / 2)" and "0 < k \<Longrightarrow> (k - 1 / 2) * (k - 1 / 2) \<le> y" and "0 \<le> k"
proof -
  have cases: "k = of_int r \<and> y \<le> (of_int r + 1 / 2) * (of_int r + 1 / 2)
      \<or> k = of_int r + 1 \<and> (of_int r + 1 / 2) * (of_int r + 1 / 2) \<le> y"
    by (auto simp: k_def round_root_def Let_def)
  have r: "(0 :: rat) \<le> of_int r" using assms(3) by simp
  have up: "(of_int r + 1) * (of_int r + 1) \<le> (of_int r + 1 + 1 / 2) * (of_int r + 1 + 1 / 2 :: rat)"
    using r by (intro mult_mono) simp_all
  show "y \<le> (k + 1 / 2) * (k + 1 / 2)" using cases assms(2) up by auto
  show "0 \<le> k" using cases r by auto
  assume "0 < k"
  then have "1 \<le> r" if "k = of_int r" using that by (simp only: of_int_0_less_iff int_one_le_iff_zero_less)
  then have "(1 :: rat) \<le> of_int r" if "k = of_int r" using that by simp
  then have "(k - 1 / 2) * (k - 1 / 2) \<le> of_int r * of_int r" if "k = of_int r"
    using that by (intro mult_mono) auto
  moreover have "k - 1 / 2 = of_int r + 1 / 2" if "k = of_int r + 1" using that by simp
  ultimately show "(k - 1 / 2) * (k - 1 / 2) \<le> y" using cases assms(1) by (metis order_trans)
qed

text \<open>The scaled operand has 55 or 56 digits, so the integer root has 28.\<close>

lemma root_places_bounds:
  assumes "0 < x"
  shows "10 ^ 54 \<le> x * scale (2 * root_places x)" and "x * scale (2 * root_places x) < 10 ^ 56"
proof -
  let ?p = "places x"
  have b: "10 ^ 27 \<le> x * scale ?p" "x * scale ?p < 10 ^ 28" using places_bounds [of x] assms by simp_all
  have "2 * root_places x = ?p + 28 \<or> 2 * root_places x = ?p + 27"
    unfolding root_places_def by presburger
  then have "scale (2 * root_places x) = scale ?p * 10 ^ 28 \<or> scale (2 * root_places x) = scale ?p * 10 ^ 27"
    using scale_add [of ?p 28] scale_add [of ?p 27] scale_of_nat [of 28] scale_of_nat [of 27] by auto
  then have "x * scale (2 * root_places x) = (x * scale ?p) * 10 ^ 28
      \<or> x * scale (2 * root_places x) = (x * scale ?p) * 10 ^ 27" by (auto simp: mult.assoc)
  then show "10 ^ 54 \<le> x * scale (2 * root_places x)" and "x * scale (2 * root_places x) < 10 ^ 56"
    using b by auto
qed

text \<open>The result is the root rounded to 28 digits: its square root error is at most half a unit.\<close>

lemma dsqrt_rounded:
  assumes "0 < x"
  defines "u \<equiv> 1 / scale (root_places x)"
  shows "(dsqrt x - u / 2) * (dsqrt x - u / 2) \<le> x" and "x \<le> (dsqrt x + u / 2) * (dsqrt x + u / 2)"
    and "10 ^ 27 * u \<le> dsqrt x" and "dsqrt x \<le> 10 ^ 28 * u"
proof -
  define q where "q = root_places x"
  define y where "y = x * scale (2 * q)"
  define r where "r = int (isqrt (nat \<lfloor>y\<rfloor>))"
  define k where "k = (of_int (round_root y r) :: rat)"
  have d: "dsqrt x = k * u" using assms(1)
    by (simp add: dsqrt_def Let_def k_def y_def r_def q_def u_def)
  have sq: "scale (2 * q) = scale q * scale q" using scale_add [of q q] by simp
  have u: "0 < u" "u * scale q = 1" by (simp_all add: u_def q_def)
  have x: "x = y * (u * u)" using sq by (simp add: y_def u_def q_def)
  have yb: "10 ^ 54 \<le> y" "y < 10 ^ 56" using root_places_bounds [OF assms(1)] by (simp_all add: y_def q_def)
  then have y0: "0 \<le> y" using order_trans [of 0 "10 ^ 54" y] by simp
  note i = isqrt_rat [OF y0, folded r_def]
  have r0: "0 \<le> r" by (simp add: r_def)
  note b = round_root_bounds [OF i r0, folded k_def]
  have lo: "10 ^ 27 \<le> r"
  proof (rule ccontr)
    assume "\<not> 10 ^ 27 \<le> r"
    then have "(of_int (r + 1) :: rat) \<le> of_int (10 ^ 27)" by (simp only: of_int_le_iff)
    then have "(of_int r + 1) * (of_int r + 1) \<le> 10 ^ 27 * (10 ^ 27 :: rat)"
      using r0 by (intro mult_mono) simp_all
    with i(2) yb(1) show False by simp
  qed
  have hi: "r < 10 ^ 28"
  proof (rule ccontr)
    assume "\<not> r < 10 ^ 28"
    then have "(of_int (10 ^ 28) :: rat) \<le> of_int r" by (simp only: of_int_le_iff)
    then have "10 ^ 28 * 10 ^ 28 \<le> of_int r * (of_int r :: rat)" by (intro mult_mono) simp_all
    with i(1) yb(2) show False by simp
  qed
  have kr: "of_int r \<le> k" "k \<le> of_int (r + 1)" by (auto simp: k_def round_root_def Let_def)
  have "of_int (10 ^ 27) \<le> (of_int r :: rat)" "of_int (r + 1) \<le> (of_int (10 ^ 28) :: rat)"
    using lo hi by (simp_all only: of_int_le_iff)
  with kr have kb: "10 ^ 27 \<le> k" "k \<le> 10 ^ 28" by simp_all
  then have "0 < k" using less_le_trans [of 0 "10 ^ 27" k] by simp
  have "(dsqrt x - u / 2) * (dsqrt x - u / 2) = (k - 1 / 2) * (k - 1 / 2) * (u * u)"
    by (simp add: d algebra_simps)
  also have "\<dots> \<le> y * (u * u)" using b(2) [OF \<open>0 < k\<close>] by (intro mult_right_mono) simp_all
  finally show "(dsqrt x - u / 2) * (dsqrt x - u / 2) \<le> x" by (simp only: x)
  have "y * (u * u) \<le> (k + 1 / 2) * (k + 1 / 2) * (u * u)" using b(1) by (intro mult_right_mono) simp_all
  also have "\<dots> = (dsqrt x + u / 2) * (dsqrt x + u / 2)" by (simp add: d algebra_simps)
  finally show "x \<le> (dsqrt x + u / 2) * (dsqrt x + u / 2)" by (simp only: x)
  show "10 ^ 27 * u \<le> dsqrt x" "dsqrt x \<le> 10 ^ 28 * u"
    unfolding d using kb u(1) by (simp_all only: mult_le_cancel_right_pos)
qed

lemma dsqrt_0 [simp]: "dsqrt 0 = 0"
  by (simp add: dsqrt_def)

lemma dsqrt_pos: "0 < x \<Longrightarrow> 0 < dsqrt x"
  using dsqrt_rounded(3) [of x] by (meson less_le_trans mult_pos_pos scale_pos zero_less_divide_1_iff
      zero_less_numeral zero_less_power)

lemma dsqrt_nonpos [simp]: "x \<le> 0 \<Longrightarrow> dsqrt x = 0"
  by (simp add: dsqrt_def)

lemma dsqrt_nonneg [simp]: "0 \<le> dsqrt x"
  using dsqrt_pos [of x] by (cases "0 < x") (simp_all add: less_imp_le)

lemma dsqrt_eq_0_iff: "dsqrt x = 0 \<longleftrightarrow> x \<le> 0"
  using dsqrt_pos [of x] by (auto simp: dsqrt_def)

text \<open>The root of the square of a decimal of the context is that decimal.\<close>

lemma places_unique:
  assumes "0 < a" and "10 ^ 27 \<le> a * scale q" and "a * scale q < 10 ^ 28"
  shows "places a = q"
proof -
  have b: "10 ^ 27 \<le> a * scale (places a)" "a * scale (places a) < 10 ^ 28"
    using places_bounds [of a] assms(1) by simp_all
  have step: "a * scale r * 10 \<le> a * scale s" if "r < s" for r s
  proof -
    have "scale (r + 1) \<le> scale s" using that by (intro scale_mono) simp
    then have "scale r * 10 \<le> scale s" using scale_add [of r 1] by (simp add: scale_def)
    then show ?thesis using assms(1) by (simp add: mult.assoc)
  qed
  consider "places a < q" | "q < places a" | "places a = q" by linarith
  then show ?thesis
  proof cases
    case 1
    from step [OF this] b(1) assms(3) show ?thesis by simp
  next
    case 2
    from step [OF this] b(2) assms(2) show ?thesis by simp
  qed
qed

lemma square_le_iff: "0 \<le> a \<Longrightarrow> 0 \<le> b \<Longrightarrow> a * a \<le> b * b \<longleftrightarrow> a \<le> (b :: rat)"
  by (metis mult_mono mult_strict_mono' not_le)

lemma dsqrt_square:
  assumes "0 \<le> a" and "representable a"
  shows "dsqrt (a * a) = a"
proof (cases "a = 0")
  case False
  with assms(1) have a: "0 < a" by simp
  then have x: "0 < a * a" by simp
  define q where "q = root_places (a * a)"
  have sq: "a * a * scale (2 * q) = (a * scale q) * (a * scale q)" using scale_add [of q q] by simp
  have pos: "0 \<le> a * scale q" using a by (simp add: less_imp_le)
  have "10 ^ 27 * 10 ^ 27 \<le> (a * scale q) * (a * scale q)" "(a * scale q) * (a * scale q) < 10 ^ 28 * 10 ^ 28"
    using root_places_bounds [OF x, folded q_def] unfolding sq by simp_all
  then have "10 ^ 27 \<le> a * scale q" "a * scale q < 10 ^ 28"
    using pos square_le_iff [of "10 ^ 27" "a * scale q"] square_le_iff [of "10 ^ 28" "a * scale q"]
    by (simp_all add: not_le [symmetric])
  then have "places a = q" by (rule places_unique [OF a])
  with ctx_representable [OF assms(2)] a have j: "a = of_int (half_even (a * scale q)) / scale q"
    by (simp add: ctx_def)
  obtain k where k: "dsqrt (a * a) = of_int k / scale q"
    using x by (simp add: dsqrt_def Let_def q_def not_le)
  note r = dsqrt_rounded [OF x, folded q_def]
  have "(1 / scale q) / 2 \<le> 10 ^ 27 * (1 / scale q)" by (simp add: field_simps)
  with r(3) have "0 \<le> dsqrt (a * a) - 1 / scale q / 2" by linarith
  then have "dsqrt (a * a) - 1 / scale q / 2 \<le> a" using r(1) square_le_iff assms(1) by blast
  moreover have "0 \<le> dsqrt (a * a) + 1 / scale q / 2" by (simp add: add_nonneg_nonneg less_imp_le)
  then have "a \<le> dsqrt (a * a) + 1 / scale q / 2" using r(2) square_le_iff assms(1) by blast
  ultimately have "\<bar>of_int k / scale q - of_int (half_even (a * scale q)) / scale q\<bar> * scale q \<le> 1 / scale q / 2 * scale q"
    using j k by (intro mult_right_mono) (auto simp: abs_le_iff less_imp_le)
  then have "\<bar>of_int (k - half_even (a * scale q))\<bar> \<le> (1 / 2 :: rat)"
    by (simp add: diff_divide_distrib [symmetric] abs_divide less_imp_le)
  then have "k = half_even (a * scale q)" by (simp only: of_int_abs [symmetric])
  with j k show ?thesis by simp
qed simp

end
