(* ===== verification/Indicators.thy ===== *)
theory Indicators
  imports Domain Decimal_Root
begin

text \<open>
  The indicators of \<open>app/indicators\<close>: moving averages (\<open>base.py\<close>, \<open>moving_averages.py\<close>), RSI
  and MACD (\<open>momentum.py\<close>), true range, ATR, Bollinger bands and VWAP (\<open>volatility.py\<close>). A series is a list of
  decimals, an indicator the list of its values with \<open>None\<close> where there is not enough history,
  and the exceptions are the left summand. A period is a natural number; zero stands for every
  period the code rejects with \<open>period must be > 0\<close>.

  The loops that carry a smoothed value along the series are instances of \<open>scan\<close>. The square of a
  deviation in the Bollinger bands is taken as correctly rounded, which the decimal module documents
  for a power (its C version: almost always).
\<close>

subsection \<open>Loops over a series\<close>

fun scan :: "('s \<Rightarrow> 'x \<Rightarrow> 's) \<Rightarrow> 's \<Rightarrow> 'x list \<Rightarrow> 's list" where
  "scan f s [] = []"
| "scan f s (x # xs) = f s x # scan f (f s x) xs"

text \<open>A series with \<open>w\<close> missing values in front.\<close>

definition warmed :: "nat \<Rightarrow> 'a list \<Rightarrow> 'a option list" where
  "warmed w ys = replicate w None @ map Some ys"

text \<open>The slice \<open>xs[i - p + 1 : i + 1]\<close> for \<open>p - 1 \<le> i\<close>.\<close>

definition window :: "'a list \<Rightarrow> nat \<Rightarrow> nat \<Rightarrow> 'a list" where
  "window xs p i = take p (drop (i + 1 - p) xs)"

definition mean_of :: "decimal list \<Rightarrow> nat \<Rightarrow> decimal" where
  "mean_of xs p = ddiv (dsum xs) (of_nat p)"

subsection \<open>Moving averages\<close>

definition ensure_length :: "'a list \<Rightarrow> nat \<Rightarrow> py_error + unit" where
  "ensure_length xs minimum = (if length xs < minimum then Inl InsufficientDataError else Inr ())"

definition sma_at :: "decimal list \<Rightarrow> nat \<Rightarrow> nat \<Rightarrow> py_error + decimal option" where
  "sma_at xs period index =
     (if period = 0 then Inl (ValueError ''period must be > 0'')
      else if index + 1 < period \<or> index \<ge> length xs then Inr None
      else Inr (Some (mean_of (window xs period index) period)))"

text \<open>The list comprehension over \<open>sma_at\<close>; the period was checked, so no call raises.\<close>

definition sma :: "decimal list \<Rightarrow> nat \<Rightarrow> py_error + decimal option list" where
  "sma xs period =
     (if xs = [] then Inl InsufficientDataError
      else case ensure_length xs 1 of Inl e \<Rightarrow> Inl e | Inr _ \<Rightarrow>
      if period = 0 then Inl (ValueError ''period must be > 0'')
      else Inr (map (\<lambda>i. case sma_at xs period i of Inr v \<Rightarrow> v | Inl _ \<Rightarrow> None) [0..<length xs]))"

definition ema_step :: "decimal \<Rightarrow> decimal \<Rightarrow> decimal \<Rightarrow> decimal" where
  "ema_step multiplier prev x = dadd (dmul (dsub x prev) multiplier) prev"

definition ema :: "decimal list \<Rightarrow> nat \<Rightarrow> py_error + decimal option list" where
  "ema xs period =
     (if xs = [] then Inl InsufficientDataError
      else if period = 0 then Inl (ValueError ''period must be > 0'')
      else if length xs < period then Inr (replicate (length xs) None)
      else
        let seed = mean_of (take period xs) period;
            multiplier = ddiv 2 (dadd (of_nat period) 1)
        in Inr (warmed (period - 1) (seed # scan (ema_step multiplier) seed (drop period xs))))"

definition volume_ma :: "decimal list \<Rightarrow> nat \<Rightarrow> py_error + decimal option list" where
  "volume_ma volumes period = sma volumes period"

definition highest_high :: "decimal list \<Rightarrow> nat \<Rightarrow> py_error + decimal option list" where
  "highest_high xs period =
     (if xs = [] then Inl InsufficientDataError
      else if period = 0 then Inl (ValueError ''period must be > 0'')
      else Inr (map (\<lambda>i. if i + 1 < period then None else Some (Max (set (window xs period i))))
                  [0..<length xs]))"

definition lowest_low :: "decimal list \<Rightarrow> nat \<Rightarrow> py_error + decimal option list" where
  "lowest_low xs period =
     (if xs = [] then Inl InsufficientDataError
      else if period = 0 then Inl (ValueError ''period must be > 0'')
      else Inr (map (\<lambda>i. if i + 1 < period then None else Some (Min (set (window xs period i))))
                  [0..<length xs]))"

subsection \<open>Momentum\<close>

definition changes :: "decimal list \<Rightarrow> decimal list" where
  "changes xs = map (\<lambda>(a, b). dsub b a) (zip xs (tl xs))"

definition gain_of :: "decimal \<Rightarrow> decimal" where
  "gain_of change = (if change > 0 then change else 0)"

definition loss_of :: "decimal \<Rightarrow> decimal" where
  "loss_of change = (if change < 0 then dneg change else 0)"

definition rsi_value :: "decimal \<times> decimal \<Rightarrow> decimal" where
  "rsi_value x =
     (let (ag, al) = x in
      if al = 0 then 100
      else let rs = ddiv ag al in dsub 100 (ddiv 100 (dadd 1 rs)))"

definition smooth :: "nat \<Rightarrow> decimal \<Rightarrow> decimal \<Rightarrow> decimal" where
  "smooth period avg x = ddiv (dadd (dmul avg (of_nat (period - 1))) x) (of_nat period)"

definition rsi_step :: "nat \<Rightarrow> decimal \<times> decimal \<Rightarrow> decimal \<Rightarrow> decimal \<times> decimal" where
  "rsi_step period x change =
     (smooth period (fst x) (gain_of change), smooth period (snd x) (loss_of change))"

definition rsi :: "decimal list \<Rightarrow> nat \<Rightarrow> py_error + decimal option list" where
  "rsi xs period =
     (if xs = [] then Inl InsufficientDataError
      else if period = 0 then Inl (ValueError ''period must be > 0'')
      else if length xs < period + 1 then Inr (replicate (length xs) None)
      else
        let cs = changes xs;
            start = (mean_of (map gain_of (take period cs)) period,
                     mean_of (map loss_of (take period cs)) period)
        in Inr (warmed period (map rsi_value (start # scan (rsi_step period) start (drop period cs)))))"

record macd_result =
  md_macd :: "decimal option list"
  md_signal :: "decimal option list"
  md_histogram :: "decimal option list"

definition opt_sub :: "decimal option \<Rightarrow> decimal option \<Rightarrow> decimal option" where
  "opt_sub a b = (case a of Some x \<Rightarrow> (case b of Some y \<Rightarrow> Some (dsub x y) | None \<Rightarrow> None) | None \<Rightarrow> None)"

definition pad_to :: "nat \<Rightarrow> 'a option list \<Rightarrow> 'a option list" where
  "pad_to n xs = take n (xs @ replicate n None)"

definition macd :: "decimal list \<Rightarrow> nat \<Rightarrow> nat \<Rightarrow> nat \<Rightarrow> py_error + macd_result" where
  "macd xs fast slow signal_period =
     (if xs = [] then Inl InsufficientDataError
      else if min (min fast slow) signal_period = 0 then Inl (ValueError ''periods must be > 0'')
      else if fast \<ge> slow then Inl (ValueError ''fast period must be < slow period'')
      else
        case ema xs fast of Inl e \<Rightarrow> Inl e | Inr fast_ema \<Rightarrow>
        case ema xs slow of Inl e \<Rightarrow> Inl e | Inr slow_ema \<Rightarrow>
          let line = map (\<lambda>(f, s). opt_sub f s) (zip fast_ema slow_ema);
              none = replicate (length xs) None;
              first_valid = length (takeWhile (\<lambda>v. v = None) line);
              vals = [v. Some v \<leftarrow> drop first_valid line]
          in if first_valid = length line
             then Inr \<lparr>md_macd = line, md_signal = none, md_histogram = none\<rparr>
             else case ema vals signal_period of Inl e \<Rightarrow> Inl e | Inr sigs \<Rightarrow>
               let signal = pad_to (length xs) (replicate first_valid None @ sigs)
               in Inr \<lparr>md_macd = line, md_signal = signal,
                       md_histogram = map (\<lambda>(m, s). opt_sub m s) (zip line signal)\<rparr>)"

subsection \<open>Volatility\<close>

definition true_range :: "decimal list \<Rightarrow> decimal list \<Rightarrow> decimal list \<Rightarrow> nat \<Rightarrow> decimal" where
  "true_range highs lows closes index =
     (let high = highs ! index; low = lows ! index in
      if index = 0 then dsub high low
      else let prev_close = closes ! (index - 1) in
        max (max (dsub high low) (dabs (dsub high prev_close))) (dabs (dsub low prev_close)))"

definition atr :: "decimal list \<Rightarrow> decimal list \<Rightarrow> decimal list \<Rightarrow> nat \<Rightarrow> py_error + decimal option list"
where
  "atr highs lows closes period =
     (if highs = [] \<or> lows = [] \<or> closes = [] then Inl InsufficientDataError
      else if length highs \<noteq> length lows \<or> length lows \<noteq> length closes
      then Inl (ValueError ''highs/lows/closes length mismatch'')
      else if period = 0 then Inl (ValueError ''period must be > 0'')
      else if length closes < period then Inr (replicate (length closes) None)
      else
        let trs = map (true_range highs lows closes) [0..<length closes];
            seed = mean_of (take period trs) period
        in Inr (warmed (period - 1) (seed # scan (smooth period) seed (drop period trs))))"

record bollinger_result =
  bb_middle :: "decimal option list"
  bb_upper :: "decimal option list"
  bb_lower :: "decimal option list"

definition variance_of :: "decimal list \<Rightarrow> decimal \<Rightarrow> nat \<Rightarrow> decimal" where
  "variance_of win mean p = ddiv (dsum (map (\<lambda>x. dmul (dsub x mean) (dsub x mean)) win)) (of_nat p)"

definition bollinger_bands :: "decimal list \<Rightarrow> nat \<Rightarrow> decimal \<Rightarrow> py_error + bollinger_result" where
  "bollinger_bands xs period k =
     (if xs = [] then Inl InsufficientDataError
      else if period = 0 then Inl (ValueError ''period must be > 0'')
      else case sma xs period of
        Inl e \<Rightarrow> Inl e
      | Inr mid \<Rightarrow>
          let std = (\<lambda>i m. dsqrt (variance_of (window xs period i) m period));
              band = (\<lambda>f. map (\<lambda>i. case mid ! i of None \<Rightarrow> None | Some m \<Rightarrow> Some (f m (dmul k (std i m))))
                              [0..<length xs])
          in Inr \<lparr>bb_middle = mid, bb_upper = band dadd, bb_lower = band dsub\<rparr>)"

definition vwap_step :: "decimal \<times> decimal \<Rightarrow> decimal \<times> decimal \<Rightarrow> decimal \<times> decimal" where
  "vwap_step acc tv = (dadd (fst acc) (dmul (fst tv) (snd tv)), dadd (snd acc) (snd tv))"

definition vwap :: "decimal list \<Rightarrow> decimal list \<Rightarrow> decimal list \<Rightarrow> decimal list
  \<Rightarrow> py_error + decimal option list" where
  "vwap highs lows closes volumes =
     (if highs = [] then Inl InsufficientDataError
      else if length highs \<noteq> length lows \<or> length lows \<noteq> length closes \<or> length closes \<noteq> length volumes
      then Inl (ValueError ''series length mismatch'')
      else
        let typical = map (\<lambda>(h, l, c). ddiv (dadd (dadd h l) c) 3) (zip highs (zip lows closes))
        in Inr (map (\<lambda>(pv, v). if v = 0 then None else Some (ddiv pv v))
                  (scan vwap_step (0, 0) (zip typical volumes))))"

subsection \<open>Lemmas\<close>

lemma length_scan [simp]: "length (scan f s xs) = length xs"
  by (induction f s xs rule: scan.induct) simp_all

lemma take_scan: "take n (scan f s xs) = scan f s (take n xs)"
  by (induction f s xs arbitrary: n rule: scan.induct) (simp_all add: take_Cons split: nat.split)

lemma scan_inv:
  assumes "P s" and "\<And>s x. P s \<Longrightarrow> x \<in> set xs \<Longrightarrow> P (f s x)"
  shows "\<forall>y \<in> set (scan f s xs). P y"
  using assms by (induction f s xs rule: scan.induct) auto

lemma length_warmed [simp]: "length (warmed w ys) = w + length ys"
  by (simp add: warmed_def)

lemma set_warmed: "Some v \<in> set (warmed w ys) \<Longrightarrow> v \<in> set ys"
  by (auto simp: warmed_def)

lemma take_warmed: "take n (warmed w ys) = warmed (min n w) (take (n - w) ys)"
  by (simp add: warmed_def take_map)

text \<open>The seeded loops: cutting the series cuts the values.\<close>

lemma take_seeded:
  assumes "0 < p" and "p \<le> n"
  shows "take n (warmed (p - Suc 0) (seed # scan f seed (drop p xs)))
    = warmed (p - Suc 0) (seed # scan f seed (drop p (take n xs)))"
proof -
  have "n - (p - Suc 0) = Suc (n - p)" using assms by simp
  with assms show ?thesis by (simp add: take_warmed take_scan drop_take)
qed

lemma take_unseeded: "n \<le> w \<Longrightarrow> take n (warmed w ys) = replicate n None"
  by (simp add: take_warmed warmed_def min_def)

lemma window_take:
  assumes "i < n" "p \<le> Suc i"
  shows "window (take n xs) p i = window xs p i"
proof -
  have "p \<le> n - (Suc i - p)" using assms by simp
  then show ?thesis by (simp add: window_def drop_take min_def)
qed

lemma ema_take:
  assumes "ema xs p = Inr ys" and "0 < n" "n \<le> length xs"
  shows "ema (take n xs) p = Inr (take n ys)"
proof -
  have p: "0 < p" "xs \<noteq> []" using assms(1) by (auto simp: ema_def split: if_splits)
  consider "length xs < p" | "p \<le> length xs" "n < p" | "p \<le> n" using assms(3) by linarith
  then show ?thesis
  proof cases
    case 3
    with assms p show ?thesis by (auto simp: ema_def Let_def take_seeded min_def)
  qed (use assms p in \<open>auto simp: ema_def Let_def take_unseeded min_def\<close>)
qed

lemma sma_take:
  assumes "sma xs p = Inr ys" and "0 < n" "n \<le> length xs"
  shows "sma (take n xs) p = Inr (take n ys)"
  using assms
  by (auto simp: sma_def sma_at_def ensure_length_def take_map window_take split: if_splits)

lemma highest_high_take:
  assumes "highest_high xs p = Inr ys" and "0 < n" "n \<le> length xs"
  shows "highest_high (take n xs) p = Inr (take n ys)"
  using assms by (auto simp: highest_high_def take_map window_take split: if_splits)

lemma lowest_low_take:
  assumes "lowest_low xs p = Inr ys" and "0 < n" "n \<le> length xs"
  shows "lowest_low (take n xs) p = Inr (take n ys)"
  using assms by (auto simp: lowest_low_def take_map window_take split: if_splits)

lemma changes_Cons: "changes (x # y # zs) = dsub y x # changes (y # zs)"
  by (simp add: changes_def)

lemma changes_take: "changes (take (Suc n) xs) = take n (changes xs)"
proof (induction n arbitrary: xs)
  case 0
  then show ?case by (cases xs) (simp_all add: changes_def)
next
  case (Suc n)
  show ?case
  proof (cases xs)
    case (Cons x ys)
    with Suc[of ys] show ?thesis by (cases ys) (simp_all add: changes_Cons changes_def)
  qed (simp add: changes_def)
qed

lemma length_changes [simp]: "length (changes xs) = length xs - 1"
  by (simp add: changes_def)

lemma rsi_take:
  assumes "rsi xs p = Inr ys" and "0 < n" "n \<le> length xs"
  shows "rsi (take n xs) p = Inr (take n ys)"
proof -
  obtain k where k: "n = Suc k" using assms(2) by (cases n) auto
  have p: "0 < p" "xs \<noteq> []" using assms(1) by (auto simp: rsi_def split: if_splits)
  consider "length xs < Suc p" | "Suc p \<le> length xs" "n < Suc p" | "Suc p \<le> n"
    using assms(3) by linarith
  then show ?thesis
  proof cases
    case 3
    then have "Suc k - p = Suc (k - p)" and "p \<le> k" using k by (auto simp: Suc_diff_le)
    with 3 assms k p show ?thesis
      by (auto simp: rsi_def Let_def changes_take take_warmed take_map take_scan drop_take min_def)
  qed (use assms p in \<open>auto simp: rsi_def Let_def take_unseeded min_def\<close>)
qed

lemma true_range_take:
  "i < n \<Longrightarrow> true_range (take n hs) (take n ls) (take n cs) i = true_range hs ls cs i"
  by (simp add: true_range_def Let_def)

lemma true_ranges_take:
  assumes "n \<le> length cs"
  shows "map (true_range (take n hs) (take n ls) (take n cs)) [0..<n]
      = take n (map (true_range hs ls cs) [0..<length cs])"
  using assms by (auto simp: take_map true_range_take)

lemma atr_take:
  assumes "atr hs ls cs p = Inr ys" and "0 < n" "n \<le> length cs"
  shows "atr (take n hs) (take n ls) (take n cs) p = Inr (take n ys)"
proof -
  have p: "0 < p" and len: "length hs = length cs" "length ls = length cs" and ne: "cs \<noteq> []"
      "hs \<noteq> []" "ls \<noteq> []"
    using assms(1) by (auto simp: atr_def split: if_splits)
  let ?trs = "map (true_range hs ls cs) [0..<length cs]"
  consider "length cs < p" | "p \<le> length cs" "n < p" | "p \<le> n" using assms(3) by linarith
  then show ?thesis
  proof cases
    case 3
    have "ys = warmed (p - Suc 0) (mean_of (take p ?trs) p
        # scan (smooth p) (mean_of (take p ?trs) p) (drop p ?trs))"
      using 3 p len ne assms by (simp add: atr_def Let_def)
    moreover have "take p (take n ?trs) = take p ?trs" using 3 by (simp add: min_def)
    ultimately show ?thesis
      using 3 p len ne assms(2,3)
      by (simp add: atr_def Let_def true_ranges_take take_seeded min_absorb2 del: take_map)
  qed (use assms p len in \<open>auto simp: atr_def Let_def take_unseeded min_def\<close>)
qed

text \<open>What a simple moving average and a band are at a bar.\<close>

lemma sma_nth:
  assumes "sma xs p = Inr ys" and "i < length xs"
  shows "ys ! i = (if p \<le> Suc i then Some (mean_of (window xs p i) p) else None)"
  using assms by (auto simp: sma_def sma_at_def ensure_length_def split: if_splits)

definition band_at :: "(decimal \<Rightarrow> decimal \<Rightarrow> decimal) \<Rightarrow> decimal list \<Rightarrow> nat \<Rightarrow> decimal \<Rightarrow> nat \<Rightarrow> decimal option" where
  "band_at f xs p k i =
     (if p \<le> Suc i
      then let w = window xs p i; m = mean_of w p in Some (f m (dmul k (dsqrt (variance_of w m p))))
      else None)"

lemma bollinger_shape:
  assumes "bollinger_bands xs p k = Inr r"
  shows "sma xs p = Inr (bb_middle r) \<and> bb_upper r = map (band_at dadd xs p k) [0..<length xs]
    \<and> bb_lower r = map (band_at dsub xs p k) [0..<length xs] \<and> xs \<noteq> [] \<and> 0 < p"
  using assms
  by (auto simp: bollinger_bands_def Let_def band_at_def sma_nth split: if_splits sum.splits option.split)

lemma bollinger_total: "xs \<noteq> [] \<Longrightarrow> 0 < p \<Longrightarrow> \<exists>r. bollinger_bands xs p k = Inr r"
  by (simp add: bollinger_bands_def Let_def sma_def ensure_length_def)

lemma bollinger_take:
  assumes "bollinger_bands xs p k = Inr r" and "0 < n" "n \<le> length xs"
  shows "bollinger_bands (take n xs) p k
    = Inr \<lparr>bb_middle = take n (bb_middle r), bb_upper = take n (bb_upper r), bb_lower = take n (bb_lower r)\<rparr>"
proof -
  note sh = bollinger_shape [OF assms(1)]
  then obtain r' where r': "bollinger_bands (take n xs) p k = Inr r'"
    using bollinger_total [of "take n xs" p k] assms(2) by auto
  have band: "map (band_at f (take n xs) p k) [0..<n] = take n (map (band_at f xs p k) [0..<length xs])" for f
    using assms(3) by (auto simp: band_at_def window_take take_map min_def)
  note sh' = bollinger_shape [OF r']
  have "bb_middle r' = take n (bb_middle r)"
    using sh' sh sma_take [of xs p "bb_middle r" n] assms(2,3) by simp
  moreover have "bb_upper r' = take n (bb_upper r)" "bb_lower r' = take n (bb_lower r)"
    using sh' sh band assms(3) by (simp_all add: min_def)
  ultimately show ?thesis using r' by (cases r') simp
qed

lemma vwap_take:
  assumes "vwap hs ls cs vs = Inr ys" and "0 < n" "n \<le> length cs"
  shows "vwap (take n hs) (take n ls) (take n cs) (take n vs) = Inr (take n ys)"
proof -
  have len: "length hs = length cs" "length ls = length cs" "length vs = length cs" and ne: "hs \<noteq> []"
    using assms(1) by (auto simp: vwap_def split: if_splits)
  show ?thesis
    using assms len ne by (simp add: vwap_def Let_def take_map[symmetric] take_scan[symmetric] take_zip[symmetric])
qed

subsection \<open>MACD\<close>

lemma warmed_Nil [simp]: "warmed w [] = replicate w None"
  by (simp add: warmed_def)

lemma ema_shape:
  assumes "ema xs p = Inr ys"
  shows "0 < p \<and> length ys = length xs \<and> (\<exists>vs. ys = warmed (min (p - 1) (length xs)) vs)"
proof (cases "length xs < p")
  case True
  with assms show ?thesis
    by (auto simp: ema_def min_def split: if_splits intro!: exI[of _ "[]"])
qed (use assms in \<open>auto simp: ema_def Let_def min_def split: if_splits\<close>)

lemma map2_opt_sub_warmed:
  assumes "a \<le> b" and "a + length xs = b + length ys"
  shows "map2 opt_sub (warmed a xs) (warmed b ys) = warmed b (map2 dsub (drop (b - a) xs) ys)"
proof (rule nth_equalityI)
  fix i assume "i < length (map2 opt_sub (warmed a xs) (warmed b ys))"
  with assms show "map2 opt_sub (warmed a xs) (warmed b ys) ! i
      = warmed b (map2 dsub (drop (b - a) xs) ys) ! i"
    by (auto simp: warmed_def nth_append opt_sub_def)
qed (use assms in simp)

lemma takeWhile_warmed [simp]: "takeWhile (\<lambda>v. v = None) (warmed w ys) = replicate w None"
  by (cases ys) (simp_all add: warmed_def takeWhile_append)

lemma drop_warmed [simp]: "drop w (warmed w ys) = map Some ys"
  by (simp add: warmed_def)

lemma somes_of_map_Some [simp]: "concat (map (case_option [] (\<lambda>v. [v])) (map Some ys)) = ys"
  by (induction ys) simp_all

text \<open>The MACD lines, written out: a warm-up of missing values and the EMA of the rest.\<close>

definition macd_parts :: "decimal option list \<Rightarrow> nat \<Rightarrow> decimal list \<Rightarrow> nat \<Rightarrow> macd_result \<Rightarrow> bool" where
  "macd_parts line w vs signal_period r \<longleftrightarrow>
     line = warmed w vs \<and> md_macd r = line \<and> md_histogram r = map2 opt_sub line (md_signal r)
   \<and> (if vs = [] then md_signal r = replicate w None
      else \<exists>sigs. ema vs signal_period = Inr sigs \<and> md_signal r = replicate w None @ sigs)"

lemma opt_sub_None [simp]: "opt_sub None x = None"
  by (simp add: opt_sub_def)

lemma map2_opt_sub_None [simp]: "map2 opt_sub (replicate n None) (replicate n None) = replicate n None"
  by (induction n) simp_all

lemma ema_total: "xs \<noteq> [] \<Longrightarrow> 0 < p \<Longrightarrow> \<exists>ys. ema xs p = Inr ys"
  by (simp add: ema_def Let_def)

lemma macd_shape:
  assumes guard: "xs \<noteq> []" "0 < fast" "fast < slow" "0 < sp"
  obtains f s vs r where "macd xs fast slow sp = Inr r" "ema xs fast = Inr f" "ema xs slow = Inr s"
    "macd_parts (map2 opt_sub f s) (min (slow - 1) (length xs)) vs sp r"
    "min (slow - 1) (length xs) + length vs = length xs"
proof -
  let ?w = "min (slow - 1) (length xs)"
  obtain f s where e: "ema xs fast = Inr f" "ema xs slow = Inr s"
    using ema_total guard by (metis less_trans)
  obtain u v where uv: "f = warmed (min (fast - 1) (length xs)) u" "s = warmed ?w v"
    and len: "length f = length xs" "length s = length xs"
    using ema_shape[OF e(1)] ema_shape[OF e(2)] by blast
  define vs where "vs = map2 dsub (drop (?w - min (fast - 1) (length xs)) u) v"
  have line: "map2 opt_sub f s = warmed ?w vs"
    unfolding uv vs_def using guard len uv by (intro map2_opt_sub_warmed) auto
  have lvs: "?w + length vs = length xs" using arg_cong[OF line, of length] len by simp
  have "\<exists>r. macd xs fast slow sp = Inr r \<and> macd_parts (map2 opt_sub f s) ?w vs sp r"
  proof (cases "vs = []")
    case True
    with lvs have "?w = length xs" by simp
    with guard e line lvs True show ?thesis
      by (auto simp: macd_def Let_def macd_parts_def)
  next
    case False
    obtain sigs where sg: "ema vs sp = Inr sigs" using ema_total False guard by blast
    have pad: "pad_to (length xs) (replicate ?w None @ sigs) = replicate ?w None @ sigs"
      using ema_shape[OF sg] lvs by (simp add: pad_to_def)
    show ?thesis
      using guard e line lvs False sg pad
      by (auto simp: macd_def Let_def macd_parts_def simp del: map_map)
  qed
  with e lvs show ?thesis using that by blast
qed

lemma macd_guard: "macd xs fast slow sp = Inr r \<Longrightarrow> xs \<noteq> [] \<and> 0 < fast \<and> fast < slow \<and> 0 < sp"
  by (auto simp: macd_def split: if_splits)

lemma warmed_inj: "warmed w xs = warmed w ys \<longleftrightarrow> xs = ys"
  by (auto simp: warmed_def inj_map_eq_map)

lemma macd_parts_take:
  assumes big: "macd_parts line w vs sp r" and small: "macd_parts (take n line) (min w n) ws sp r'"
    and n: "0 < n" "n \<le> length line"
  shows "r' = \<lparr>md_macd = take n (md_macd r), md_signal = take n (md_signal r),
           md_histogram = take n (md_histogram r)\<rparr>"
proof -
  have line: "line = warmed w vs" and r: "md_macd r = line" and r': "md_macd r' = take n line"
    using big small by (auto simp: macd_parts_def)
  have ws: "ws = take (n - w) vs"
    using small n line warmed_inj unfolding macd_parts_def by (metis min.commute take_warmed)
  have "md_signal r' = take n (md_signal r)"
  proof (cases "ws = []")
    case True
    then have "n \<le> w" using ws n line by auto
    with True big small show ?thesis
      by (cases "vs = []") (auto simp: macd_parts_def min_def)
  next
    case False
    then have "w < n" and "vs \<noteq> []" using ws by (auto simp: not_le)
    with big obtain sigs where sg: "ema vs sp = Inr sigs" "md_signal r = replicate w None @ sigs"
      by (auto simp: macd_parts_def)
    have "ema ws sp = Inr (take (n - w) sigs)"
      unfolding ws using \<open>w < n\<close> n line by (intro ema_take sg(1)) auto
    with False small \<open>w < n\<close> sg show ?thesis by (auto simp: macd_parts_def min_def)
  qed
  with big small show ?thesis
    by (simp add: macd_parts_def take_map take_zip)
qed

lemma macd_take:
  assumes "macd xs fast slow sp = Inr r" and n: "0 < n" "n \<le> length xs"
  shows "macd (take n xs) fast slow sp
    = Inr \<lparr>md_macd = take n (md_macd r), md_signal = take n (md_signal r),
           md_histogram = take n (md_histogram r)\<rparr>"
proof -
  have g: "xs \<noteq> []" "0 < fast" "fast < slow" "0 < sp" using macd_guard[OF assms(1)] by auto
  obtain f s vs r0 where "macd xs fast slow sp = Inr r0"
    and e: "ema xs fast = Inr f" "ema xs slow = Inr s"
    and "macd_parts (map2 opt_sub f s) (min (slow - 1) (length xs)) vs sp r0"
    by (rule macd_shape[OF g])
  with assms(1) have parts: "macd_parts (map2 opt_sub f s) (min (slow - 1) (length xs)) vs sp r"
    by simp
  have e': "ema (take n xs) fast = Inr (take n f)" "ema (take n xs) slow = Inr (take n s)"
    using ema_take e n by auto
  have ne: "take n xs \<noteq> []" using g n by simp
  obtain f' s' ws r' where r': "macd (take n xs) fast slow sp = Inr r'"
    and "ema (take n xs) fast = Inr f'" "ema (take n xs) slow = Inr s'"
    and "macd_parts (map2 opt_sub f' s') (min (slow - 1) (length (take n xs))) ws sp r'"
    by (rule macd_shape[OF ne g(2-4)])
  with e' have parts': "macd_parts (map2 opt_sub (take n f) (take n s))
      (min (slow - 1) (length (take n xs))) ws sp r'" by simp
  have "length f = length xs" "length s = length xs" using ema_shape e by auto
  moreover have "min (slow - 1) (length (take n xs)) = min (min (slow - 1) (length xs)) n" using n by simp
  ultimately have "r' = \<lparr>md_macd = take n (md_macd r), md_signal = take n (md_signal r),
           md_histogram = take n (md_histogram r)\<rparr>"
    using parts parts' n by (intro macd_parts_take[OF parts]) (auto simp: take_map take_zip)
  with r' show ?thesis by simp
qed

subsection \<open>Bounds\<close>

lemma mean_of_nonneg: "\<forall>x \<in> set xs. 0 \<le> x \<Longrightarrow> 0 \<le> mean_of xs p"
  by (auto simp: mean_of_def intro!: ddiv_nonneg dsum_nonneg)

text \<open>A seeded loop whose step keeps values that are not negative.\<close>

lemma seeded_nonneg:
  assumes "\<forall>x \<in> set xs. 0 \<le> x"
    and step: "\<And>a x. representable a \<Longrightarrow> 0 \<le> a \<Longrightarrow> 0 \<le> x \<Longrightarrow> representable (f a x) \<and> 0 \<le> f a x"
  shows "\<forall>v \<in> set (mean_of (take p xs) p # scan f (mean_of (take p xs) p) (drop p xs)). 0 \<le> v"
proof -
  let ?s = "mean_of (take p xs) p"
  have seed: "representable ?s \<and> 0 \<le> ?s"
    using assms(1) mean_of_nonneg[of "take p xs"] by (auto simp: mean_of_def dest: in_set_takeD)
  then have "\<forall>v \<in> set (scan f ?s (drop p xs)). representable v \<and> 0 \<le> v"
    using step assms(1) by (intro scan_inv) (auto dest: in_set_dropD)
  with seed show ?thesis by simp
qed

lemma ema_step_nonneg:
  assumes "representable a" "0 \<le> a" "0 \<le> x" "0 < p"
  shows "0 \<le> ema_step (ddiv 2 (dadd (of_nat p) 1)) a x"
proof -
  let ?m = "ddiv 2 (dadd (of_nat p) 1)"
  have "1 \<le> (of_nat p :: decimal)" using assms(4) by (metis One_nat_def Suc_leI of_nat_1 of_nat_mono)
  then have "ctx 2 \<le> dadd (of_nat p) 1" unfolding dadd_def by (intro ctx_mono) simp
  then have d: "2 \<le> dadd (of_nat p) 1" by simp
  then have "2 / dadd (of_nat p) 1 \<le> 1" by simp
  then have "ctx (2 / dadd (of_nat p) 1) \<le> ctx 1" by (rule ctx_mono)
  then have m: "0 \<le> ?m" "?m \<le> 1" using d by (simp_all add: ddiv_def ctx.rnd_nonneg)
  have "ctx (- a) \<le> dsub x a" unfolding dsub_def using assms(3) by (intro ctx_mono) simp
  then have "- a \<le> dsub x a" using assms(1) ctx.rnd_rep ctx.rnd_uminus by simp
  then have "- a * ?m \<le> dsub x a * ?m" using m by (intro mult_right_mono) auto
  moreover have "- a \<le> - a * ?m" using m assms(2) by (simp add: mult_left_le)
  ultimately have "- a \<le> dsub x a * ?m" by linarith
  then have "ctx (- a) \<le> dmul (dsub x a) ?m" unfolding dmul_def by (rule ctx_mono)
  then have "0 \<le> dmul (dsub x a) ?m + a" using assms(1) ctx.rnd_rep ctx.rnd_uminus by simp
  then show ?thesis by (simp add: ema_step_def dadd_def ctx.rnd_nonneg)
qed

lemma smooth_nonneg: "0 \<le> a \<Longrightarrow> 0 \<le> x \<Longrightarrow> 0 \<le> smooth p a x"
  by (simp add: smooth_def ddiv_nonneg dadd_nonneg dmul_nonneg)

lemma ema_values:
  assumes "ema xs p = Inr ys" "Some v \<in> set ys"
  shows "v \<in> set (mean_of (take p xs) p
    # scan (ema_step (ddiv 2 (dadd (of_nat p) 1))) (mean_of (take p xs) p) (drop p xs))"
  using assms by (auto simp: ema_def Let_def split: if_splits dest!: set_warmed)

lemma atr_values:
  assumes "atr hs ls cs p = Inr ys" "Some v \<in> set ys" and "trs = map (true_range hs ls cs) [0..<length cs]"
  shows "v \<in> set (mean_of (take p trs) p # scan (smooth p) (mean_of (take p trs) p) (drop p trs))"
  using assms(1,2) unfolding assms(3) by (auto simp: atr_def Let_def split: if_splits dest!: set_warmed)

lemma rsi_values:
  assumes "rsi xs p = Inr ys" "Some v \<in> set ys"
  obtains x where "v = rsi_value x"
    "x \<in> set ((mean_of (map gain_of (take p (changes xs))) p, mean_of (map loss_of (take p (changes xs))) p)
      # scan (rsi_step p) (mean_of (map gain_of (take p (changes xs))) p,
          mean_of (map loss_of (take p (changes xs))) p) (drop p (changes xs)))"
  using assms by (fastforce simp: rsi_def Let_def split: if_splits dest!: set_warmed)

lemma ema_nonneg:
  assumes "ema xs p = Inr ys" "Some v \<in> set ys" "\<forall>x \<in> set xs. 0 \<le> x"
  shows "0 \<le> v"
proof -
  have p: "0 < p" using assms(1,2) by (auto simp: ema_def split: if_splits)
  have step: "representable (ema_step (ddiv 2 (dadd (of_nat p) 1)) a x)
      \<and> 0 \<le> ema_step (ddiv 2 (dadd (of_nat p) 1)) a x"
    if "representable a" "0 \<le> a" "0 \<le> x" for a x
    using ema_step_nonneg[OF that p] by (simp add: ema_step_def)
  show ?thesis using seeded_nonneg[where p = p and f = "ema_step (ddiv 2 (dadd (of_nat p) 1))", OF assms(3) step] ema_values[OF assms(1,2)] by blast
qed

lemma atr_nonneg:
  assumes "atr hs ls cs p = Inr ys" "Some v \<in> set ys" "\<forall>i < length cs. ls ! i \<le> hs ! i"
  shows "0 \<le> v"
proof -
  let ?trs = "map (true_range hs ls cs) [0..<length cs]"
  have trs: "\<forall>x \<in> set ?trs. 0 \<le> x"
    using assms(3) by (auto simp: true_range_def Let_def le_max_iff_disj)
  have step: "representable (smooth p a x) \<and> 0 \<le> smooth p a x"
    if "representable a" "0 \<le> a" "0 \<le> x" for a x
    using smooth_nonneg[OF that(2,3)] by (simp add: smooth_def)
  show ?thesis
    using seeded_nonneg[where p = p and f = "smooth p", OF trs step] atr_values[OF assms(1,2) refl] by blast
qed

lemma rsi_value_bounds:
  assumes "0 \<le> fst x" "0 \<le> snd x"
  shows "0 \<le> rsi_value x \<and> rsi_value x \<le> 100"
proof (cases x)
  case (Pair ag al)
  show ?thesis
  proof (cases "al = 0")
    case False
    let ?d = "dadd 1 (ddiv ag al)"
    have "0 \<le> ddiv ag al" using assms Pair by (simp add: ddiv_nonneg)
    then have "ctx 1 \<le> ?d" unfolding dadd_def by (intro ctx_mono) simp
    then have d: "1 \<le> ?d" by simp
    then have "100 / ?d \<le> 100" "0 \<le> 100 / ?d" by (auto simp: divide_le_eq)
    then have "ctx (100 / ?d) \<le> ctx 100" "0 \<le> ctx (100 / ?d)"
      using ctx_mono ctx.rnd_nonneg by blast+
    then have q: "0 \<le> ddiv 100 ?d" "ddiv 100 ?d \<le> 100" by (simp_all add: ddiv_def[of 100])
    from q have "dsub 100 (ddiv 100 ?d) \<le> ctx 100" unfolding dsub_def by (intro ctx_mono) simp
    moreover have "rsi_value x = dsub 100 (ddiv 100 ?d)"
      using False Pair by (simp add: rsi_value_def Let_def)
    ultimately show ?thesis using q by simp
  qed (simp add: rsi_value_def Pair)
qed

lemma rsi_bounds:
  assumes "rsi xs p = Inr ys" "Some v \<in> set ys"
  shows "0 \<le> v \<and> v \<le> 100"
proof -
  define ok where "ok x \<longleftrightarrow> 0 \<le> fst x \<and> 0 \<le> snd x" for x :: "decimal \<times> decimal"
  let ?cs = "changes xs"
  define s where "s = (mean_of (map gain_of (take p ?cs)) p, mean_of (map loss_of (take p ?cs)) p)"
  have gl: "0 \<le> gain_of c" "0 \<le> loss_of c" for c
    using ctx.rnd_nonneg[of "- c"] by (auto simp: gain_of_def loss_of_def dneg_def)
  have "ok s" by (auto simp: ok_def s_def gl intro!: mean_of_nonneg)
  moreover have "ok (rsi_step p a c)" if "ok a" for a c
    using that by (simp add: ok_def rsi_step_def smooth_nonneg gl)
  ultimately have all: "\<forall>x \<in> set (s # scan (rsi_step p) s (drop p ?cs)). ok x"
    using scan_inv[of ok s "drop p ?cs" "rsi_step p"] by simp
  obtain x where "v = rsi_value x" "x \<in> set (s # scan (rsi_step p) s (drop p ?cs))"
    using rsi_values[OF assms] unfolding s_def .
  with all show ?thesis using rsi_value_bounds[of x] unfolding ok_def by blast
qed

lemma channel_bounds:
  assumes "highest_high xs p = Inr hs" "lowest_low xs p = Inr ls" "p - 1 \<le> i" "i < length xs"
  obtains h l where "hs ! i = Some h" "ls ! i = Some l" "l \<le> xs ! i" "xs ! i \<le> h"
proof -
  have p: "0 < p" using assms(1) by (auto simp: highest_high_def split: if_splits)
  have "window xs p i ! (p - 1) = xs ! i" and "p - 1 < length (window xs p i)"
    using assms(3,4) p by (simp_all add: window_def)
  then have mem: "xs ! i \<in> set (window xs p i)" by (metis nth_mem)
  show ?thesis
    using assms p mem that[of "Max (set (window xs p i))" "Min (set (window xs p i))"]
    by (auto simp: highest_high_def lowest_low_def split: if_splits)
qed

subsection \<open>Properties\<close>

text \<open>
  C31. No indicator looks ahead: the values computed from the first \<open>n\<close> bars are the first
  \<open>n\<close> values computed from the whole series, for every moving average, channel, RSI, MACD, ATR,
  VWAP and Bollinger band the indicators accept.
\<close>

theorem indicators_no_lookahead:
  assumes "0 < n" and "n \<le> length xs"
  shows "(\<forall>p ys. sma xs p = Inr ys \<longrightarrow> sma (take n xs) p = Inr (take n ys))
    \<and> (\<forall>p ys. ema xs p = Inr ys \<longrightarrow> ema (take n xs) p = Inr (take n ys))
    \<and> (\<forall>p ys. highest_high xs p = Inr ys \<longrightarrow> highest_high (take n xs) p = Inr (take n ys))
    \<and> (\<forall>p ys. lowest_low xs p = Inr ys \<longrightarrow> lowest_low (take n xs) p = Inr (take n ys))
    \<and> (\<forall>p ys. rsi xs p = Inr ys \<longrightarrow> rsi (take n xs) p = Inr (take n ys))
    \<and> (\<forall>fast slow sp r. macd xs fast slow sp = Inr r \<longrightarrow> macd (take n xs) fast slow sp
      = Inr \<lparr>md_macd = take n (md_macd r), md_signal = take n (md_signal r),
             md_histogram = take n (md_histogram r)\<rparr>)
    \<and> (\<forall>hs ls p ys. atr hs ls xs p = Inr ys \<longrightarrow>
      atr (take n hs) (take n ls) (take n xs) p = Inr (take n ys))
    \<and> (\<forall>hs ls vs ys. vwap hs ls xs vs = Inr ys \<longrightarrow>
      vwap (take n hs) (take n ls) (take n xs) (take n vs) = Inr (take n ys))
    \<and> (\<forall>p k r. bollinger_bands xs p k = Inr r \<longrightarrow> bollinger_bands (take n xs) p k
      = Inr \<lparr>bb_middle = take n (bb_middle r), bb_upper = take n (bb_upper r), bb_lower = take n (bb_lower r)\<rparr>)"
  by (intro conjI allI impI;
      (erule sma_take | erule ema_take | erule highest_high_take | erule lowest_low_take
        | erule rsi_take | erule macd_take | erule atr_take | erule vwap_take
        | erule bollinger_take); rule assms)

theorem indicators_no_lookahead_witness:
  "sma [10, 20, 30] 2 = Inr [None, Some 15, Some 25] \<and> sma (take 2 [10, 20, 30]) 2 = Inr [None, Some 15]"
proof -
  have "sma [10, 20, 30] 2 = Inr [None, Some 15, Some 25]"
    by (simp add: sma_def sma_at_def ensure_length_def window_def mean_of_def dsum_def dec_ops upt_rec)
  with indicators_no_lookahead[of 2 "[10, 20, 30]"] show ?thesis by simp
qed

text \<open>
  The indicators stay in their range: RSI is in \<open>[0, 100]\<close>, an EMA of values that are not
  negative is not negative, ATR is not negative when no high is below its low, and from its first
  full window on, the channel holds the value of its last bar between its two bounds.
\<close>

lemma indicator_ranges:
  "(rsi xs p = Inr ys \<and> Some v \<in> set ys \<longrightarrow> 0 \<le> v \<and> v \<le> 100)
   \<and> (ema xs p = Inr ys \<and> Some v \<in> set ys \<and> (\<forall>x \<in> set xs. 0 \<le> x) \<longrightarrow> 0 \<le> v)
   \<and> (atr hs ls xs p = Inr ys \<and> Some v \<in> set ys \<and> (\<forall>i < length xs. ls ! i \<le> hs ! i) \<longrightarrow> 0 \<le> v)
   \<and> (highest_high xs p = Inr us \<and> lowest_low xs p = Inr ds \<and> p - 1 \<le> i \<and> i < length xs \<longrightarrow>
       (\<exists>h l. us ! i = Some h \<and> ds ! i = Some l \<and> l \<le> xs ! i \<and> xs ! i \<le> h))"
proof (intro conjI impI; elim conjE)
  show "0 \<le> v" if "rsi xs p = Inr ys" "Some v \<in> set ys" using rsi_bounds[OF that] by simp
  show "v \<le> 100" if "rsi xs p = Inr ys" "Some v \<in> set ys" using rsi_bounds[OF that] by simp
  show "0 \<le> v" if "ema xs p = Inr ys" "Some v \<in> set ys" "\<forall>x \<in> set xs. 0 \<le> x"
    by (rule ema_nonneg[OF that])
  show "0 \<le> v" if "atr hs ls xs p = Inr ys" "Some v \<in> set ys" "\<forall>i < length xs. ls ! i \<le> hs ! i"
    by (rule atr_nonneg[OF that])
  show "\<exists>h l. us ! i = Some h \<and> ds ! i = Some l \<and> l \<le> xs ! i \<and> xs ! i \<le> h"
    if "highest_high xs p = Inr us" "lowest_low xs p = Inr ds" "p - 1 \<le> i" "i < length xs"
    by (rule channel_bounds[OF that]) blast
qed

lemma indicator_ranges_witness:
  "\<exists>v. rsi [10, 14, 12] 2 = Inr [None, None, Some v] \<and> 0 \<le> v \<and> v \<le> 100"
proof -
  have "rsi [10, 14, 12] 2 = Inr [None, None, Some (rsi_value (2, 1))]"
    by (simp add: rsi_def changes_def gain_of_def loss_of_def mean_of_def dsum_def dec_ops warmed_def numeral_2_eq_2)
  with indicator_ranges[of "[10, 14, 12]" 2 "[None, None, Some (rsi_value (2, 1))]" "rsi_value (2, 1)"]
  show ?thesis by simp
qed

lemma variance_nonneg: "0 \<le> variance_of w m p"
  unfolding variance_of_def
  by (intro ddiv_nonneg dsum_nonneg) (auto simp: dmul_def ctx.rnd_nonneg)

lemma mean_representable: "representable (mean_of w p)"
  by (simp add: mean_of_def)

text \<open>
  C32. Bollinger bands enclose their middle: at every bar with a full window the bands of a width that
  is not negative are the mean plus and minus the width times the standard deviation, which is the root
  of the variance to within half a unit of its 28th digit; before that bar there is no band; and over a
  window without variance the three lines meet.
\<close>

theorem bollinger_encloses:
  assumes "bollinger_bands xs p k = Inr r" and "0 \<le> k" and "i < length xs"
  defines "m \<equiv> mean_of (window xs p i) p"
  defines "v \<equiv> variance_of (window xs p i) m p"
  defines "half \<equiv> 1 / scale (root_places v) / 2"
  shows "if p \<le> Suc i
    then \<exists>l u. bb_lower r ! i = Some l \<and> bb_middle r ! i = Some m \<and> bb_upper r ! i = Some u
      \<and> l = dsub m (dmul k (dsqrt v)) \<and> u = dadd m (dmul k (dsqrt v)) \<and> l \<le> m \<and> m \<le> u
      \<and> (if v = 0 then l = m \<and> u = m
         else (dsqrt v - half) * (dsqrt v - half) \<le> v \<and> v \<le> (dsqrt v + half) * (dsqrt v + half))
    else bb_lower r ! i = None \<and> bb_middle r ! i = None \<and> bb_upper r ! i = None"
proof -
  note sh = bollinger_shape [OF assms(1)]
  have w: "0 \<le> dmul k (dsqrt v)" using assms(2) by (simp add: dmul_nonneg)
  have "dsub m (dmul k (dsqrt v)) \<le> m" "m \<le> dadd m (dmul k (dsqrt v))"
    using w ctx.rnd_le_rep [OF mean_representable, of "m - dmul k (dsqrt v)" "window xs p i" p]
      ctx.rep_le_rnd [OF mean_representable, of "window xs p i" p "m + dmul k (dsqrt v)"]
    by (simp_all add: m_def dsub_def dadd_def)
  moreover have "dsub m 0 = m" "dadd m 0 = m"
    using ctx_representable [OF mean_representable, of "window xs p i" p] by (simp_all add: m_def dsub_def dadd_def)
  moreover have "(dsqrt v - half) * (dsqrt v - half) \<le> v \<and> v \<le> (dsqrt v + half) * (dsqrt v + half)" if "v \<noteq> 0"
  proof -
    have "0 < v" using variance_nonneg [of "window xs p i" m p] that by (simp add: v_def)
    from dsqrt_rounded(1,2) [OF this] show ?thesis unfolding half_def by blast
  qed
  ultimately show ?thesis
    using sh sma_nth [of xs p "bb_middle r" i] assms(3)
    by (auto simp: band_at_def Let_def m_def [symmetric] v_def [symmetric])
qed

theorem bollinger_encloses_witness:
  "bollinger_bands [1, 3] 2 2 = Inr \<lparr>bb_middle = [None, Some 2], bb_upper = [None, Some 4], bb_lower = [None, Some 0]\<rparr>
   \<and> (0 :: decimal) \<le> 2"
proof -
  have one: "dsqrt 1 = 1" using dsqrt_square [of 1] representable_ctx [of 1] by simp
  have b: "bollinger_bands [1, 3] 2 2
      = Inr \<lparr>bb_middle = [None, Some 2], bb_upper = [None, Some 4], bb_lower = [None, Some 0]\<rparr>"
    by (simp add: bollinger_bands_def sma_def sma_at_def ensure_length_def window_def mean_of_def variance_of_def
        dsum_def dec_ops upt_rec Let_def one ctx_uminus)
  with bollinger_encloses [OF b, of 1] show ?thesis by auto
qed

end
