(* ===== verification/Strategies.thy ===== *)
theory Strategies
  imports Indicators Config_Safety
begin

text \<open>
  The trading strategies of \<open>app/strategies\<close>: EMA crossover (\<open>ema_crossover.py\<close>), EMA crossover
  with RSI (\<open>ema_rsi.py\<close>), EMA trend (\<open>ema_trend.py\<close>), RSI mean reversion
  (\<open>rsi_mean_reversion.py\<close>), Donchian breakout (\<open>breakout.py\<close>), and the registry
  (\<open>registry.py\<close>).

  A strategy takes its parameters, its context and the time of the call, and returns the signal or
  the exception an indicator raises. The parameter dictionary is a record per strategy, already
  merged with the defaults; periods are natural numbers. The context has the candles, the position
  and the bars held; no strategy reads the portfolio. The rationale of a signal is its text
  without the numbers formatted into it, and its metadata is not modelled.

  The locale \<open>long_only_strategy\<close> is what the backtest and the orchestrator rely on.
\<close>

subsection \<open>Contexts\<close>

record strategy_context =
  cx_candles :: "candle list"
  cx_position :: "position option"
  cx_bars_held :: nat

definition context_symbol :: "strategy_context \<Rightarrow> string" where
  "context_symbol cx = (if cx_candles cx = [] then ''UNKNOWN'' else c_symbol (last (cx_candles cx)))"

definition has_long :: "position option \<Rightarrow> bool" where
  "has_long pos = (case pos of None \<Rightarrow> False | Some p \<Rightarrow> p_quantity p > 0)"

definition crossed_up :: "decimal \<Rightarrow> decimal \<Rightarrow> decimal \<Rightarrow> decimal \<Rightarrow> bool" where
  "crossed_up fast_prev slow_prev fast_cur slow_cur \<longleftrightarrow> fast_prev \<le> slow_prev \<and> fast_cur > slow_cur"

definition crossed_down :: "decimal \<Rightarrow> decimal \<Rightarrow> decimal \<Rightarrow> decimal \<Rightarrow> bool" where
  "crossed_down fast_prev slow_prev fast_cur slow_cur \<longleftrightarrow> fast_prev \<ge> slow_prev \<and> fast_cur < slow_cur"

subsection \<open>EMA crossover\<close>

record crossover_params =
  cr_fast_ema :: nat
  cr_slow_ema :: nat
  cr_warmup_margin :: nat
  cr_use_rsi_filter :: bool
  cr_rsi_period :: nat
  cr_rsi_buy_min :: decimal
  cr_use_atr_stop :: bool
  cr_atr_period :: nat
  cr_atr_stop_mult :: decimal
  cr_reward_risk :: decimal

definition crossover_defaults :: crossover_params where
  "crossover_defaults = \<lparr>
     cr_fast_ema = 9, cr_slow_ema = 21, cr_warmup_margin = 5, cr_use_rsi_filter = False,
     cr_rsi_period = 14, cr_rsi_buy_min = 45, cr_use_atr_stop = True, cr_atr_period = 14,
     cr_atr_stop_mult = 3 / 2, cr_reward_risk = 2\<rparr>"

definition crossover_signal :: "strategy_context \<Rightarrow> timestamp \<Rightarrow> signal_direction \<Rightarrow> string \<Rightarrow> decimal
  \<Rightarrow> decimal option \<Rightarrow> decimal option \<Rightarrow> decimal option \<Rightarrow> py_error + trade_signal" where
  "crossover_signal cx now direction reason confidence entry stop target = make_signal \<lparr>
     sg_strategy_name = ''EMA Crossover'', sg_strategy_version = ''1.1.0'',
     sg_symbol = context_symbol cx, sg_timestamp = now, sg_direction = direction,
     sg_confidence = confidence, sg_rationale = reason, sg_suggested_stop = stop,
     sg_suggested_target = target, sg_suggested_entry = entry,
     sg_fingerprint = strategy_fingerprint (cx_candles cx)\<rparr>"

text \<open>\<open>any(times[i] >= times[i + 1] ...)\<close>.\<close>

definition not_increasing :: "timestamp list \<Rightarrow> bool" where
  "not_increasing ts \<longleftrightarrow> list_ex (\<lambda>(a, b). a \<ge> b) (zip ts (tl ts))"

definition crossover_levels :: "crossover_params \<Rightarrow> decimal \<Rightarrow> decimal option
  \<Rightarrow> decimal option \<times> decimal option" where
  "crossover_levels p close atr_cur =
     (case atr_cur of
        None \<Rightarrow> (None, None)
      | Some a \<Rightarrow>
          if cr_use_atr_stop p \<and> a > 0
          then (Some (dsub close (dmul a (cr_atr_stop_mult p))),
                Some (dadd close (dmul (dmul a (cr_atr_stop_mult p)) (cr_reward_risk p))))
          else (None, None))"

definition crossover_decide :: "crossover_params \<Rightarrow> strategy_context \<Rightarrow> timestamp \<Rightarrow> decimal
  \<Rightarrow> bool \<Rightarrow> bool \<Rightarrow> decimal option \<Rightarrow> decimal option \<Rightarrow> py_error + trade_signal" where
  "crossover_decide p cx now close up down rsi_cur atr_cur =
     (let long = has_long (cx_position cx) in
      if up \<and> \<not> long then
        if cr_use_rsi_filter p \<and> (case rsi_cur of None \<Rightarrow> False | Some r \<Rightarrow> r < cr_rsi_buy_min p)
        then crossover_signal cx now SigHold ''EMA cross up but RSI below minimum'' (1 / 4) None None None
        else let (stop, target) = crossover_levels p close atr_cur in
          crossover_signal cx now SigBuy ''fast EMA crossed above slow EMA; no existing long'' 1
            (Some close) stop target
      else if down \<and> long
      then crossover_signal cx now SigSell ''fast EMA crossed below slow EMA; exit long'' 1 None None None
      else crossover_signal cx now SigHold
        (if up \<and> long then ''crossover up ignored - already long''
         else if down \<and> \<not> long then ''crossover down ignored - flat''
         else ''no EMA crossover on closed candle'') (1 / 2) None None None)"

definition crossover_evaluate :: "crossover_params \<Rightarrow> strategy_context \<Rightarrow> timestamp
  \<Rightarrow> py_error + trade_signal" where
  "crossover_evaluate p cx now =
     (let candles = cx_candles cx; open_times = map c_open_time candles; closes = map c_close candles;
          i = length closes - 1 in
      if length candles < cr_slow_ema p + cr_warmup_margin p
      then crossover_signal cx now SigHold ''insufficient history'' 0 None None None
      else if length open_times \<noteq> card (set open_times)
      then crossover_signal cx now SigHold ''duplicate candle open_time in window'' 0 None None None
      else if not_increasing open_times
      then crossover_signal cx now SigHold ''candles not strictly increasing by open_time'' 0 None None None
      else
        case ema closes (cr_fast_ema p) of Inl e \<Rightarrow> Inl e | Inr fast \<Rightarrow>
        case ema closes (cr_slow_ema p) of Inl e \<Rightarrow> Inl e | Inr slow \<Rightarrow>
        if None \<in> set [fast ! i, slow ! i, fast ! (i - 1), slow ! (i - 1)]
        then crossover_signal cx now SigHold ''indicators not ready'' 0 None None None
        else
          let fast_cur = the (fast ! i); slow_cur = the (slow ! i);
              fast_prev = the (fast ! (i - 1)); slow_prev = the (slow ! (i - 1)) in
          case rsi closes (cr_rsi_period p) of Inl e \<Rightarrow> Inl e | Inr rsi_series \<Rightarrow>
          case atr (map c_high candles) (map c_low candles) closes (cr_atr_period p) of
            Inl e \<Rightarrow> Inl e | Inr atr_series \<Rightarrow>
          crossover_decide p cx now (closes ! i)
            (crossed_up fast_prev slow_prev fast_cur slow_cur)
            (crossed_down fast_prev slow_prev fast_cur slow_cur)
            (rsi_series ! i) (atr_series ! i))"

subsection \<open>EMA crossover with RSI\<close>

record ema_rsi_params =
  er_fast_ema :: nat
  er_slow_ema :: nat
  er_rsi_period :: nat
  er_rsi_buy_min :: decimal
  er_warmup_margin :: nat
  er_stop_loss_percent :: decimal
  er_take_profit_percent :: decimal

definition ema_rsi_defaults :: "settings \<Rightarrow> ema_rsi_params" where
  "ema_rsi_defaults st = \<lparr>
     er_fast_ema = nat (st_fast_ema_period st), er_slow_ema = nat (st_slow_ema_period st),
     er_rsi_period = nat (st_rsi_period st), er_rsi_buy_min = 50, er_warmup_margin = 5,
     er_stop_loss_percent = st_stop_loss_percent st,
     er_take_profit_percent = st_take_profit_percent st\<rparr>"

definition ema_rsi_signal :: "strategy_context \<Rightarrow> timestamp \<Rightarrow> signal_direction \<Rightarrow> string \<Rightarrow> decimal
  \<Rightarrow> decimal option \<Rightarrow> decimal option \<Rightarrow> decimal option \<Rightarrow> py_error + trade_signal" where
  "ema_rsi_signal cx now direction reason confidence entry stop target = make_signal \<lparr>
     sg_strategy_name = ''EMA Crossover + RSI'', sg_strategy_version = ''1.0.0'',
     sg_symbol = context_symbol cx, sg_timestamp = now, sg_direction = direction,
     sg_confidence = confidence, sg_rationale = reason, sg_suggested_stop = stop,
     sg_suggested_target = target, sg_suggested_entry = entry,
     sg_fingerprint = strategy_fingerprint (cx_candles cx)\<rparr>"

definition ema_rsi_decide :: "ema_rsi_params \<Rightarrow> strategy_context \<Rightarrow> timestamp \<Rightarrow> decimal
  \<Rightarrow> bool \<Rightarrow> bool \<Rightarrow> decimal \<Rightarrow> py_error + trade_signal" where
  "ema_rsi_decide p cx now close up down rsi_cur =
     (let long = has_long (cx_position cx); rsi_min = er_rsi_buy_min p in
      if up \<and> rsi_cur > rsi_min \<and> \<not> long then
        let sl_pct = ddiv (er_stop_loss_percent p) 100;
            tp_pct = ddiv (er_take_profit_percent p) 100
        in ema_rsi_signal cx now SigBuy ''fast EMA crossed above slow EMA with RSI above minimum'' 1
             (Some close) (Some (dmul close (dsub 1 sl_pct))) (Some (dmul close (dadd 1 tp_pct)))
      else if down \<and> long
      then ema_rsi_signal cx now SigSell ''fast EMA crossed below slow EMA while long'' 1 None None None
      else ema_rsi_signal cx now SigHold
        (if up \<and> rsi_cur \<le> rsi_min then ''EMA cross up ignored - RSI not above minimum''
         else if up \<and> long then ''EMA cross up ignored - already long''
         else ''no EMA+RSI setup'') (1 / 2) None None None)"

definition ema_rsi_evaluate :: "ema_rsi_params \<Rightarrow> strategy_context \<Rightarrow> timestamp
  \<Rightarrow> py_error + trade_signal" where
  "ema_rsi_evaluate p cx now =
     (let candles = cx_candles cx; closes = map c_close candles; i = length closes - 1 in
      if length candles < max (er_slow_ema p) (er_rsi_period p) + er_warmup_margin p + 1
      then ema_rsi_signal cx now SigHold ''insufficient history'' 0 None None None
      else
        case ema closes (er_fast_ema p) of Inl e \<Rightarrow> Inl e | Inr fast \<Rightarrow>
        case ema closes (er_slow_ema p) of Inl e \<Rightarrow> Inl e | Inr slow \<Rightarrow>
        case rsi closes (er_rsi_period p) of Inl e \<Rightarrow> Inl e | Inr rsi_series \<Rightarrow>
        if None \<in> set [fast ! i, fast ! (i - 1), slow ! i, slow ! (i - 1), rsi_series ! i]
        then ema_rsi_signal cx now SigHold ''indicators not ready'' 0 None None None
        else
          let f_cur = the (fast ! i); f_prev = the (fast ! (i - 1));
              s_cur = the (slow ! i); s_prev = the (slow ! (i - 1)) in
          ema_rsi_decide p cx now (closes ! i)
            (crossed_up f_prev s_prev f_cur s_cur) (crossed_down f_prev s_prev f_cur s_cur)
            (the (rsi_series ! i)))"

subsection \<open>EMA trend\<close>

record trend_params =
  et_fast_ema :: nat
  et_slow_ema :: nat
  et_rsi_period :: nat
  et_rsi_min :: decimal
  et_rsi_max :: decimal
  et_atr_period :: nat
  et_min_atr :: decimal
  et_volume_ma_period :: nat
  et_stop_atr_multiple :: decimal
  et_target_atr_multiple :: decimal
  et_max_holding_bars :: nat

definition trend_defaults :: trend_params where
  "trend_defaults = \<lparr>
     et_fast_ema = 12, et_slow_ema = 26, et_rsi_period = 14, et_rsi_min = 40, et_rsi_max = 70,
     et_atr_period = 14, et_min_atr = 1 / 2, et_volume_ma_period = 20,
     et_stop_atr_multiple = 3 / 2, et_target_atr_multiple = 3, et_max_holding_bars = 48\<rparr>"

definition trend_signal :: "strategy_context \<Rightarrow> timestamp \<Rightarrow> signal_direction \<Rightarrow> string \<Rightarrow> decimal
  \<Rightarrow> decimal option \<Rightarrow> decimal option \<Rightarrow> decimal option \<Rightarrow> py_error + trade_signal" where
  "trend_signal cx now direction reason confidence entry stop target = make_signal \<lparr>
     sg_strategy_name = ''EMA Trend Strategy'', sg_strategy_version = ''1.0.0'',
     sg_symbol = context_symbol cx, sg_timestamp = now, sg_direction = direction,
     sg_confidence = confidence, sg_rationale = reason, sg_suggested_stop = stop,
     sg_suggested_target = target, sg_suggested_entry = entry,
     sg_fingerprint = strategy_fingerprint (cx_candles cx)\<rparr>"

definition trend_hold :: "strategy_context \<Rightarrow> timestamp \<Rightarrow> string \<Rightarrow> py_error + trade_signal" where
  "trend_hold cx now reason = trend_signal cx now SigHold reason 0 None None None"

text \<open>The exit rules for an open position: the first reason that holds, if any.\<close>

definition trend_exit_reason :: "trend_params \<Rightarrow> position \<Rightarrow> nat \<Rightarrow> decimal \<Rightarrow> bool \<Rightarrow> string option" where
  "trend_exit_reason p pos bars_held price cross_under =
     (let hit_stop = (case p_stop_loss pos of None \<Rightarrow> False | Some sl \<Rightarrow> price \<le> sl);
          hit_target = (case p_take_profit pos of None \<Rightarrow> False | Some tp \<Rightarrow> price \<ge> tp);
          max_hold = bars_held \<ge> et_max_holding_bars p
      in if cross_under then Some ''Exit: ema cross-under''
         else if hit_stop then Some ''Exit: stop-loss''
         else if hit_target then Some ''Exit: take-profit''
         else if max_hold then Some ''Exit: max holding period''
         else None)"

definition trend_decide :: "trend_params \<Rightarrow> strategy_context \<Rightarrow> timestamp \<Rightarrow> decimal \<Rightarrow> decimal
  \<Rightarrow> decimal \<times> decimal \<Rightarrow> decimal \<times> decimal \<Rightarrow> decimal \<Rightarrow> decimal \<Rightarrow> decimal
  \<Rightarrow> py_error + trade_signal" where
  "trend_decide p cx now price volume fast slow rsi_cur atr_val vma_cur =
     (let (fast_prev, fast_cur) = fast; (slow_prev, slow_cur) = slow;
          stop = dsub price (dmul atr_val (et_stop_atr_multiple p));
          target = dadd price (dmul atr_val (et_target_atr_multiple p)) in
      if has_long (cx_position cx) then
        case trend_exit_reason p (the (cx_position cx)) (cx_bars_held cx) price
               (crossed_down fast_prev slow_prev fast_cur slow_cur) of
          Some reason \<Rightarrow> trend_signal cx now SigExit reason (4 / 5) (Some price) (Some stop) (Some target)
        | None \<Rightarrow> trend_hold cx now ''position open, no exit trigger''
      else
        let trend_up = fast_cur > slow_cur \<and> price > slow_cur;
            rsi_ok = et_rsi_min p \<le> rsi_cur \<and> rsi_cur \<le> et_rsi_max p;
            atr_ok = atr_val \<ge> et_min_atr p;
            vol_ok = volume > vma_cur
        in if trend_up \<and> rsi_ok \<and> atr_ok \<and> vol_ok
           then trend_signal cx now SigBuy
             ''fast EMA > slow EMA, price > slow EMA, RSI in range, ATR above minimum, volume above volume MA''
             (3 / 4) (Some price) (Some stop) (Some target)
           else trend_hold cx now ''entry filters not met'')"

definition trend_evaluate :: "trend_params \<Rightarrow> strategy_context \<Rightarrow> timestamp
  \<Rightarrow> py_error + trade_signal" where
  "trend_evaluate p cx now =
     (let candles = cx_candles cx; closes = map c_close candles; volumes = map c_volume candles;
          i = length closes - 1 in
      if length candles < et_slow_ema p + 2 then trend_hold cx now ''insufficient history''
      else
        case ema closes (et_fast_ema p) of Inl e \<Rightarrow> Inl e | Inr fast \<Rightarrow>
        case ema closes (et_slow_ema p) of Inl e \<Rightarrow> Inl e | Inr slow \<Rightarrow>
        case rsi closes (et_rsi_period p) of Inl e \<Rightarrow> Inl e | Inr r \<Rightarrow>
        case atr (map c_high candles) (map c_low candles) closes (et_atr_period p) of
          Inl e \<Rightarrow> Inl e | Inr a \<Rightarrow>
        case volume_ma volumes (et_volume_ma_period p) of Inl e \<Rightarrow> Inl e | Inr vma \<Rightarrow>
        if None \<in> set [fast ! i, slow ! i, r ! i, a ! i, vma ! i, fast ! (i - 1), slow ! (i - 1)]
        then trend_hold cx now ''indicators not ready''
        else trend_decide p cx now (closes ! i) (volumes ! i)
          (the (fast ! (i - 1)), the (fast ! i)) (the (slow ! (i - 1)), the (slow ! i))
          (the (r ! i)) (the (a ! i)) (the (vma ! i)))"

subsection \<open>RSI mean reversion\<close>

record reversion_params =
  rv_rsi_period :: nat
  rv_oversold :: decimal
  rv_overbought :: decimal
  rv_warmup_margin :: nat

definition reversion_defaults :: reversion_params where
  "reversion_defaults = \<lparr>
     rv_rsi_period = 14, rv_oversold = 30, rv_overbought = 70, rv_warmup_margin = 5\<rparr>"

definition reversion_signal :: "strategy_context \<Rightarrow> timestamp \<Rightarrow> signal_direction \<Rightarrow> string \<Rightarrow> decimal
  \<Rightarrow> decimal option \<Rightarrow> py_error + trade_signal" where
  "reversion_signal cx now direction reason confidence entry = make_signal \<lparr>
     sg_strategy_name = ''RSI Mean Reversion'', sg_strategy_version = ''1.0.0'',
     sg_symbol = context_symbol cx, sg_timestamp = now, sg_direction = direction,
     sg_confidence = confidence, sg_rationale = reason, sg_suggested_stop = None,
     sg_suggested_target = None, sg_suggested_entry = entry,
     sg_fingerprint = strategy_fingerprint (cx_candles cx)\<rparr>"

definition reversion_decide :: "reversion_params \<Rightarrow> strategy_context \<Rightarrow> timestamp \<Rightarrow> decimal
  \<Rightarrow> decimal \<Rightarrow> decimal \<Rightarrow> py_error + trade_signal" where
  "reversion_decide p cx now close prev cur =
     (let long = has_long (cx_position cx) in
      if prev \<le> rv_oversold p \<and> rv_oversold p < cur \<and> \<not> long
      then reversion_signal cx now SigBuy ''RSI crossed up through oversold'' 1 (Some close)
      else if prev \<ge> rv_overbought p \<and> rv_overbought p > cur \<and> long
      then reversion_signal cx now SigSell ''RSI crossed down through overbought'' 1 None
      else reversion_signal cx now SigHold ''no RSI mean-reversion cross'' (1 / 2) None)"

definition reversion_evaluate :: "reversion_params \<Rightarrow> strategy_context \<Rightarrow> timestamp
  \<Rightarrow> py_error + trade_signal" where
  "reversion_evaluate p cx now =
     (let candles = cx_candles cx; closes = map c_close candles; i = length closes - 1 in
      if length candles < rv_rsi_period p + rv_warmup_margin p + 1
      then reversion_signal cx now SigHold ''insufficient history'' 0 None
      else
        case rsi closes (rv_rsi_period p) of Inl e \<Rightarrow> Inl e | Inr series \<Rightarrow>
        case series ! i of None \<Rightarrow> reversion_signal cx now SigHold ''RSI not ready'' 0 None | Some cur \<Rightarrow>
        case series ! (i - 1) of None \<Rightarrow> reversion_signal cx now SigHold ''RSI not ready'' 0 None | Some prev \<Rightarrow>
        reversion_decide p cx now (closes ! i) prev cur)"

subsection \<open>Donchian breakout\<close>

record breakout_params =
  bk_lookback :: nat
  bk_atr_period :: nat
  bk_atr_stop_mult :: decimal
  bk_warmup_margin :: nat

definition breakout_defaults :: breakout_params where
  "breakout_defaults = \<lparr>
     bk_lookback = 20, bk_atr_period = 14, bk_atr_stop_mult = 3 / 2, bk_warmup_margin = 2\<rparr>"

definition breakout_signal :: "strategy_context \<Rightarrow> timestamp \<Rightarrow> signal_direction \<Rightarrow> string \<Rightarrow> decimal
  \<Rightarrow> decimal option \<Rightarrow> decimal option \<Rightarrow> py_error + trade_signal" where
  "breakout_signal cx now direction reason confidence entry stop = make_signal \<lparr>
     sg_strategy_name = ''Donchian Breakout'', sg_strategy_version = ''1.0.0'',
     sg_symbol = context_symbol cx, sg_timestamp = now, sg_direction = direction,
     sg_confidence = confidence, sg_rationale = reason, sg_suggested_stop = stop,
     sg_suggested_target = None, sg_suggested_entry = entry,
     sg_fingerprint = strategy_fingerprint (cx_candles cx)\<rparr>"

definition breakout_decide :: "breakout_params \<Rightarrow> strategy_context \<Rightarrow> timestamp \<Rightarrow> decimal
  \<Rightarrow> decimal \<Rightarrow> decimal \<Rightarrow> decimal option \<Rightarrow> py_error + trade_signal" where
  "breakout_decide p cx now close prior_high prior_low atr_cur =
     (let long = has_long (cx_position cx) in
      if close > prior_high \<and> \<not> long then
        breakout_signal cx now SigBuy ''close broke above prior high'' 1 (Some close)
          (case atr_cur of None \<Rightarrow> None
             | Some a \<Rightarrow> if a > 0 then Some (dsub close (dmul a (bk_atr_stop_mult p))) else None)
      else if close < prior_low \<and> long
      then breakout_signal cx now SigSell ''close broke below prior low'' 1 None None
      else breakout_signal cx now SigHold ''inside Donchian channel'' (1 / 2) None None)"

text \<open>The prior window \<open>highs[i - lookback : i]\<close> excludes the current bar.\<close>

definition prior_window :: "decimal list \<Rightarrow> nat \<Rightarrow> nat \<Rightarrow> decimal list" where
  "prior_window xs lookback i = take lookback (drop (i - lookback) xs)"

definition breakout_evaluate :: "breakout_params \<Rightarrow> strategy_context \<Rightarrow> timestamp
  \<Rightarrow> py_error + trade_signal" where
  "breakout_evaluate p cx now =
     (let candles = cx_candles cx; highs = map c_high candles; lows = map c_low candles;
          closes = map c_close candles; i = length closes - 1; lookback = bk_lookback p in
      if length candles < lookback + bk_warmup_margin p + 1
      then breakout_signal cx now SigHold ''insufficient history'' 0 None None
      else if lookback = 0 then Inl (ValueError ''max() iterable argument is empty'')
      else
        let prior_high = Max (set (prior_window highs lookback i));
            prior_low = Min (set (prior_window lows lookback i)) in
        case atr highs lows closes (bk_atr_period p) of Inl e \<Rightarrow> Inl e | Inr atr_series \<Rightarrow>
        breakout_decide p cx now (closes ! i) prior_high prior_low (atr_series ! i))"

subsection \<open>Configured strategies and the registry\<close>

datatype strategy =
    EMACrossover crossover_params
  | EMARSI ema_rsi_params
  | EMATrend trend_params
  | RSIMeanReversion reversion_params
  | Breakout breakout_params

primrec strategy_id :: "strategy \<Rightarrow> string" where
  "strategy_id (EMACrossover p) = ''ema_crossover''"
| "strategy_id (EMARSI p) = ''ema_rsi''"
| "strategy_id (EMATrend p) = ''ema_trend''"
| "strategy_id (RSIMeanReversion p) = ''rsi_mean_reversion''"
| "strategy_id (Breakout p) = ''breakout''"

primrec strategy_name :: "strategy \<Rightarrow> string" where
  "strategy_name (EMACrossover p) = ''EMA Crossover''"
| "strategy_name (EMARSI p) = ''EMA Crossover + RSI''"
| "strategy_name (EMATrend p) = ''EMA Trend Strategy''"
| "strategy_name (RSIMeanReversion p) = ''RSI Mean Reversion''"
| "strategy_name (Breakout p) = ''Donchian Breakout''"

primrec strategy_evaluate :: "strategy \<Rightarrow> strategy_context \<Rightarrow> timestamp \<Rightarrow> py_error + trade_signal" where
  "strategy_evaluate (EMACrossover p) = crossover_evaluate p"
| "strategy_evaluate (EMARSI p) = ema_rsi_evaluate p"
| "strategy_evaluate (EMATrend p) = trend_evaluate p"
| "strategy_evaluate (RSIMeanReversion p) = reversion_evaluate p"
| "strategy_evaluate (Breakout p) = breakout_evaluate p"

type_synonym strategy_registry = "(string, strategy) dict"

definition register_strategy :: "strategy \<Rightarrow> strategy_registry \<Rightarrow> strategy_registry" where
  "register_strategy s reg = AList.update (strategy_id s) s reg"

definition get_strategy :: "strategy_registry \<Rightarrow> string \<Rightarrow> py_error + strategy" where
  "get_strategy reg key = (case map_of reg key of None \<Rightarrow> Inl (KeyError key) | Some s \<Rightarrow> Inr s)"

definition list_strategies :: "strategy_registry \<Rightarrow> strategy list" where
  "list_strategies reg = dict_values reg"

text \<open>The module runs \<open>bootstrap\<close> once on an empty registry; running it again changes nothing.\<close>

definition bootstrap_default_strategies :: "settings \<Rightarrow> strategy_registry \<Rightarrow> strategy_registry" where
  "bootstrap_default_strategies st reg =
     foldl (\<lambda>reg s. if map_of reg (strategy_id s) = None then register_strategy s reg else reg) reg
       [EMACrossover crossover_defaults, EMARSI (ema_rsi_defaults st), EMATrend trend_defaults,
        RSIMeanReversion reversion_defaults, Breakout breakout_defaults]"

subsection \<open>The interface of a strategy\<close>

lemma make_signal_eq: "0 \<le> sg_confidence s \<Longrightarrow> sg_confidence s \<le> 1 \<Longrightarrow> make_signal s = Inr s"
  by (simp add: make_signal_def)

lemmas signal_defs = crossover_signal_def ema_rsi_signal_def trend_hold_def trend_signal_def
  reversion_signal_def breakout_signal_def make_signal_def

text \<open>
  What the callers of a strategy rely on: it is long-only (it buys when flat and sells or exits
  when long), its confidence is a fraction, and the signal names the time of the call, the symbol
  and the data it was computed from.
\<close>

definition signal_sound :: "strategy_context \<Rightarrow> timestamp \<Rightarrow> trade_signal \<Rightarrow> bool" where
  "signal_sound cx now s \<longleftrightarrow>
     (sg_direction s = SigBuy \<longrightarrow> \<not> has_long (cx_position cx))
   \<and> (sg_direction s \<in> {SigSell, SigExit} \<longrightarrow> has_long (cx_position cx))
   \<and> 0 \<le> sg_confidence s \<and> sg_confidence s \<le> 1
   \<and> sg_timestamp s = now \<and> sg_symbol s = context_symbol cx
   \<and> sg_fingerprint s = strategy_fingerprint (cx_candles cx)"

locale long_only_strategy =
  fixes evaluate :: "strategy_context \<Rightarrow> timestamp \<Rightarrow> py_error + trade_signal"
  assumes sound: "evaluate cx now = Inr s \<Longrightarrow> signal_sound cx now s"
begin

lemma buy_when_flat: "evaluate cx now = Inr s \<Longrightarrow> sg_direction s = SigBuy \<Longrightarrow> \<not> has_long (cx_position cx)"
  using sound by (simp add: signal_sound_def)

lemma exit_when_long:
  "evaluate cx now = Inr s \<Longrightarrow> sg_direction s = SigSell \<or> sg_direction s = SigExit \<Longrightarrow>
   \<exists>p. cx_position cx = Some p \<and> 0 < p_quantity p"
  using sound[of cx now s] by (auto simp: signal_sound_def has_long_def split: option.splits)

lemma fingerprint_of: "evaluate cx now = Inr s \<Longrightarrow> sg_fingerprint s = strategy_fingerprint (cx_candles cx)"
  using sound by (simp add: signal_sound_def)

end

lemma signal_sound_hold:
  "sg_direction s = SigHold \<Longrightarrow> 0 \<le> sg_confidence s \<Longrightarrow> sg_confidence s \<le> 1 \<Longrightarrow> sg_timestamp s = now
   \<Longrightarrow> sg_symbol s = context_symbol cx \<Longrightarrow> sg_fingerprint s = strategy_fingerprint (cx_candles cx)
   \<Longrightarrow> signal_sound cx now s"
  by (simp add: signal_sound_def)

lemma crossover_decide_sound:
  "crossover_decide p cx now close up down rsi_cur atr_cur = Inr s \<Longrightarrow> signal_sound cx now s"
  by (auto simp: crossover_decide_def signal_defs Let_def signal_sound_def split: if_splits prod.splits)

lemma ema_rsi_decide_sound:
  "ema_rsi_decide p cx now close up down rsi_cur = Inr s \<Longrightarrow> signal_sound cx now s"
  by (auto simp: ema_rsi_decide_def signal_defs Let_def signal_sound_def split: if_splits)

lemma trend_decide_sound:
  "trend_decide p cx now price volume fast slow rsi_cur atr_val vma_cur = Inr s \<Longrightarrow> signal_sound cx now s"
  by (auto simp: trend_decide_def signal_defs Let_def signal_sound_def split: if_splits prod.splits option.splits)

lemma reversion_decide_sound:
  "reversion_decide p cx now close prev cur = Inr s \<Longrightarrow> signal_sound cx now s"
  by (auto simp: reversion_decide_def signal_defs Let_def signal_sound_def split: if_splits)

lemma breakout_decide_sound:
  "breakout_decide p cx now close h l a = Inr s \<Longrightarrow> signal_sound cx now s"
  by (auto simp: breakout_decide_def signal_defs Let_def signal_sound_def split: if_splits)

lemma crossover_hold_sound: "crossover_signal cx now SigHold r 0 None None None = Inr s \<Longrightarrow> signal_sound cx now s"
  by (auto simp: signal_defs intro: signal_sound_hold)

lemma ema_rsi_hold_sound: "ema_rsi_signal cx now SigHold r 0 None None None = Inr s \<Longrightarrow> signal_sound cx now s"
  by (auto simp: signal_defs intro: signal_sound_hold)

lemma trend_hold_sound: "trend_hold cx now r = Inr s \<Longrightarrow> signal_sound cx now s"
  by (auto simp: signal_defs intro: signal_sound_hold)

lemma reversion_hold_sound: "reversion_signal cx now SigHold r 0 None = Inr s \<Longrightarrow> signal_sound cx now s"
  by (auto simp: signal_defs intro: signal_sound_hold)

lemma breakout_hold_sound: "breakout_signal cx now SigHold r 0 None None = Inr s \<Longrightarrow> signal_sound cx now s"
  by (auto simp: signal_defs intro: signal_sound_hold)

interpretation crossover: long_only_strategy "crossover_evaluate p"
  by unfold_locales
    (auto simp: crossover_evaluate_def Let_def split: if_splits sum.splits
      dest: crossover_decide_sound crossover_hold_sound)

interpretation ema_rsi: long_only_strategy "ema_rsi_evaluate p"
  by unfold_locales
    (auto simp: ema_rsi_evaluate_def Let_def split: if_splits sum.splits
      dest: ema_rsi_decide_sound ema_rsi_hold_sound)

interpretation trend: long_only_strategy "trend_evaluate p"
  by unfold_locales
    (auto simp: trend_evaluate_def Let_def split: if_splits sum.splits
      dest: trend_decide_sound trend_hold_sound)

interpretation reversion: long_only_strategy "reversion_evaluate p"
  by unfold_locales
    (auto simp: reversion_evaluate_def Let_def split: if_splits sum.splits option.splits
      dest: reversion_decide_sound reversion_hold_sound)

interpretation breakout: long_only_strategy "breakout_evaluate p"
  by unfold_locales
    (auto simp: breakout_evaluate_def Let_def split: if_splits sum.splits
      dest: breakout_decide_sound breakout_hold_sound)

interpretation configured: long_only_strategy "strategy_evaluate st"
  by unfold_locales
    (cases st, simp_all add: crossover.sound ema_rsi.sound trend.sound reversion.sound breakout.sound)

subsection \<open>When the crossover strategy acts\<close>

lemma ema_ready:
  assumes "ema xs p = Inr ys" "p - 1 \<le> i" "i < length xs"
  shows "\<exists>v. ys ! i = Some v"
proof -
  obtain vs where "ys = warmed (min (p - 1) (length xs)) vs" "length ys = length xs"
    using ema_shape[OF assms(1)] by blast
  with assms(2,3) show ?thesis by (auto simp: warmed_def nth_append)
qed

lemma not_increasing_iff: "\<not> not_increasing ts \<longleftrightarrow> sorted_wrt (<) ts"
proof (induction ts)
  case (Cons t ts)
  then show ?case by (cases ts) (auto simp: not_increasing_def not_le intro: less_trans)
qed (simp add: not_increasing_def)

lemma card_set_iff: "length xs = card (set xs) \<longleftrightarrow> distinct xs"
  using distinct_card[of xs] card_distinct[of xs] by metis

text \<open>The history the strategy needs: enough candles, in strictly increasing order.\<close>

definition crossover_ready :: "crossover_params \<Rightarrow> candle list \<Rightarrow> bool" where
  "crossover_ready p cs \<longleftrightarrow>
     cr_slow_ema p + cr_warmup_margin p \<le> length cs \<and> sorted_wrt (<) (map c_open_time cs)"

lemma crossover_decide_direction:
  assumes "crossover_decide p cx now close up down rsi_cur atr_cur = Inr s"
  shows "(sg_direction s = SigBuy \<longleftrightarrow> up \<and> \<not> has_long (cx_position cx)
      \<and> (cr_use_rsi_filter p \<longrightarrow> (\<forall>r. rsi_cur = Some r \<longrightarrow> cr_rsi_buy_min p \<le> r)))
    \<and> (sg_direction s = SigSell \<longleftrightarrow> down \<and> has_long (cx_position cx) \<and> \<not> (up \<and> \<not> has_long (cx_position cx)))
    \<and> sg_direction s \<noteq> SigExit"
  using assms
  by (auto simp: crossover_decide_def signal_defs Let_def split: if_splits prod.splits option.splits)

lemma crossover_evaluate_cases:
  assumes "crossover_evaluate p cx now = Inr s"
    and "ema (map c_close (cx_candles cx)) (cr_fast_ema p) = Inr fast"
    and "ema (map c_close (cx_candles cx)) (cr_slow_ema p) = Inr slow"
    and "rsi (map c_close (cx_candles cx)) (cr_rsi_period p) = Inr rs"
    and "cr_fast_ema p \<le> cr_slow_ema p" "0 < cr_warmup_margin p"
    and "i = length (cx_candles cx) - 1"
  shows "if crossover_ready p (cx_candles cx)
    then \<exists>a. crossover_decide p cx now (map c_close (cx_candles cx) ! i)
      (crossed_up (the (fast ! (i - 1))) (the (slow ! (i - 1))) (the (fast ! i)) (the (slow ! i)))
      (crossed_down (the (fast ! (i - 1))) (the (slow ! (i - 1))) (the (fast ! i)) (the (slow ! i)))
      (rs ! i) a = Inr s
    else sg_direction s = SigHold"
proof (cases "crossover_ready p (cx_candles cx)")
  case True
  let ?xs = "map c_close (cx_candles cx)"
  have p: "0 < cr_slow_ema p" using ema_shape[OF assms(3)] by simp
  have len: "cr_slow_ema p - 1 \<le> i - 1" "i < length ?xs"
    using True assms(6,7) p by (auto simp: crossover_ready_def)
  have "\<exists>v. fast ! i = Some v" "\<exists>v. slow ! i = Some v" "\<exists>v. fast ! (i - 1) = Some v" "\<exists>v. slow ! (i - 1) = Some v"
    using len assms(5) by (auto intro!: ema_ready[OF assms(2)] ema_ready[OF assms(3)])
  moreover have "\<not> not_increasing (map c_open_time (cx_candles cx))"
      "distinct (map c_open_time (cx_candles cx))"
    using True by (auto simp: crossover_ready_def not_increasing_iff strict_sorted_iff)
  ultimately show ?thesis
    using assms(1-4,7) True card_set_iff[of "map c_open_time (cx_candles cx)"]
    by (auto simp: crossover_evaluate_def Let_def crossover_ready_def split: if_splits sum.splits)
next
  case False
  have "\<not> not_increasing (map c_open_time (cx_candles cx)) \<Longrightarrow> sorted_wrt (<) (map c_open_time (cx_candles cx))"
    by (simp add: not_increasing_iff)
  with False assms(1) show ?thesis
    by (auto simp: crossover_evaluate_def Let_def crossover_ready_def signal_defs split: if_splits)
qed

lemma rsi_total: "xs \<noteq> [] \<Longrightarrow> 0 < p \<Longrightarrow> \<exists>ys. rsi xs p = Inr ys"
  by (simp add: rsi_def Let_def)

lemma atr_total:
  "cs \<noteq> [] \<Longrightarrow> length hs = length cs \<Longrightarrow> length ls = length cs \<Longrightarrow> 0 < p \<Longrightarrow> \<exists>ys. atr hs ls cs p = Inr ys"
  by (auto simp: atr_def Let_def)

lemma crossover_decide_total: "\<exists>s. crossover_decide p cx now close up down r a = Inr s"
  by (cases "crossover_levels p close a") (simp add: crossover_decide_def signal_defs Let_def)

lemma crossover_total:
  assumes "cx_candles cx \<noteq> []" "0 < cr_fast_ema p" "0 < cr_slow_ema p" "0 < cr_rsi_period p" "0 < cr_atr_period p"
  shows "\<exists>s. crossover_evaluate p cx now = Inr s"
proof -
  let ?cs = "cx_candles cx"
  obtain f s r a where "ema (map c_close ?cs) (cr_fast_ema p) = Inr f" "ema (map c_close ?cs) (cr_slow_ema p) = Inr s"
    "rsi (map c_close ?cs) (cr_rsi_period p) = Inr r"
    "atr (map c_high ?cs) (map c_low ?cs) (map c_close ?cs) (cr_atr_period p) = Inr a"
    using ema_total[of "map c_close ?cs"] rsi_total[of "map c_close ?cs"]
      atr_total[of "map c_close ?cs" "map c_high ?cs" "map c_low ?cs"] assms by (metis length_map map_is_Nil_conv)
  then show ?thesis
    using crossover_decide_total by (simp add: crossover_evaluate_def Let_def signal_defs)
qed

subsection \<open>Properties\<close>

text \<open>
  C30. Every configured strategy is long-only and truthful: it buys only when there is no long
  position, sells or exits only when there is one, its confidence is a fraction, and its signal
  carries the time of the call, the symbol of the last candle and the fingerprint of the candles it
  was computed from.
\<close>

theorem strategies_long_only:
  assumes "strategy_evaluate st cx now = Inr s"
  shows "(sg_direction s = SigBuy \<longrightarrow> \<not> has_long (cx_position cx))
    \<and> (sg_direction s = SigSell \<or> sg_direction s = SigExit \<longrightarrow> has_long (cx_position cx))
    \<and> 0 \<le> sg_confidence s \<and> sg_confidence s \<le> 1
    \<and> sg_timestamp s = now \<and> sg_symbol s = context_symbol cx
    \<and> sg_fingerprint s = strategy_fingerprint (cx_candles cx)"
  using configured.sound[OF assms] by (simp add: signal_sound_def)

definition sample_candle :: "timestamp \<Rightarrow> decimal \<Rightarrow> candle" where
  "sample_candle t price = \<lparr>c_symbol = ''BTC/USDT'', c_timeframe = ''1m'', c_open_time = t,
     c_open = price, c_high = price, c_low = price, c_close = price, c_volume = 1,
     c_close_time = None, c_quote_volume = None, c_trade_count = None, c_is_closed = True\<rparr>"

definition sample_crossover :: crossover_params where
  "sample_crossover = crossover_defaults\<lparr>cr_fast_ema := 1, cr_slow_ema := 3, cr_warmup_margin := 1\<rparr>"

definition sample_strategy_context :: strategy_context where
  "sample_strategy_context = \<lparr>cx_candles = map2 sample_candle [1, 2, 3, 4] [12, 10, 8, 14],
     cx_position = None, cx_bars_held = 0\<rparr>"

theorem strategies_long_only_witness:
  "\<exists>s. strategy_evaluate (RSIMeanReversion reversion_defaults) sample_strategy_context 7 = Inr s
     \<and> 0 \<le> sg_confidence s \<and> sg_timestamp s = 7 \<and> sg_symbol s = ''BTC/USDT''"
proof -
  obtain s where "strategy_evaluate (RSIMeanReversion reversion_defaults) sample_strategy_context 7 = Inr s"
    by (simp add: reversion_evaluate_def reversion_defaults_def sample_strategy_context_def signal_defs Let_def)
  with strategies_long_only[OF this] show ?thesis
    by (simp add: context_symbol_def sample_strategy_context_def sample_candle_def)
qed

text \<open>
  The crossover strategy decides exactly its rule. On enough candles in strictly increasing
  order it buys if and only if there is no long position, the fast EMA was not above the slow one on
  the previous candle and is above it now, and the RSI filter (if on) finds an RSI that is not below
  its minimum; it sells if and only if there is a long position and the crossing goes the other
  way. On any other history it holds, and it never signals an exit.
\<close>

lemma crossover_signal_exact:
  assumes "crossover_evaluate p cx now = Inr s"
    and "ema (map c_close (cx_candles cx)) (cr_fast_ema p) = Inr fast"
    and "ema (map c_close (cx_candles cx)) (cr_slow_ema p) = Inr slow"
    and "rsi (map c_close (cx_candles cx)) (cr_rsi_period p) = Inr rs"
    and "cr_fast_ema p \<le> cr_slow_ema p" "0 < cr_warmup_margin p"
    and "i = length (cx_candles cx) - 1"
  shows "(sg_direction s = SigBuy \<longleftrightarrow>
        crossover_ready p (cx_candles cx) \<and> \<not> has_long (cx_position cx)
      \<and> the (fast ! (i - 1)) \<le> the (slow ! (i - 1)) \<and> the (slow ! i) < the (fast ! i)
      \<and> (cr_use_rsi_filter p \<longrightarrow> (\<forall>r. rs ! i = Some r \<longrightarrow> cr_rsi_buy_min p \<le> r)))
    \<and> (sg_direction s = SigSell \<longleftrightarrow>
        crossover_ready p (cx_candles cx) \<and> has_long (cx_position cx)
      \<and> the (slow ! (i - 1)) \<le> the (fast ! (i - 1)) \<and> the (fast ! i) < the (slow ! i))
    \<and> sg_direction s \<noteq> SigExit"
proof (cases "crossover_ready p (cx_candles cx)")
  case True
  with crossover_evaluate_cases[OF assms] crossover_decide_direction show ?thesis
    by (simp add: crossed_up_def crossed_down_def) blast
next
  case False
  with crossover_evaluate_cases[OF assms] show ?thesis by simp
qed

lemma crossover_signal_exact_witness:
  "\<exists>s. crossover_evaluate sample_crossover sample_strategy_context 7 = Inr s \<and> sg_direction s = SigBuy"
proof -
  let ?cs = "cx_candles sample_strategy_context"
  have closes: "map c_close ?cs = [12, 10, 8, 14]"
    by (simp add: sample_strategy_context_def sample_candle_def)
  have params: "cr_fast_ema sample_crossover = 1" "cr_slow_ema sample_crossover = 3"
      "cr_warmup_margin sample_crossover = 1" "cr_rsi_period sample_crossover = 14"
      "\<not> cr_use_rsi_filter sample_crossover" "cr_atr_period sample_crossover = 14"
    by (simp_all add: sample_crossover_def crossover_defaults_def)
  obtain s where s: "crossover_evaluate sample_crossover sample_strategy_context 7 = Inr s"
    using crossover_total[of sample_strategy_context sample_crossover 7] params closes by auto
  have f: "ema (map c_close ?cs) (cr_fast_ema sample_crossover) = Inr [Some 12, Some 10, Some 8, Some 14]"
    by (simp add: closes params ema_def mean_of_def ema_step_def dsum_def dec_ops warmed_def)
  have sl: "ema (map c_close ?cs) (cr_slow_ema sample_crossover) = Inr [None, None, Some 10, Some 12]"
    by (simp add: closes params ema_def mean_of_def ema_step_def dsum_def dec_ops warmed_def numeral_2_eq_2)
  obtain r where r: "rsi (map c_close ?cs) (cr_rsi_period sample_crossover) = Inr r"
    using rsi_total[of "map c_close ?cs" 14] by (auto simp: closes params)
  have "crossover_ready sample_crossover ?cs"
    by (simp add: crossover_ready_def params sample_strategy_context_def sample_candle_def)
  with crossover_signal_exact[OF s f sl r _ _ refl] params have "sg_direction s = SigBuy"
    by (simp add: sample_strategy_context_def has_long_def)
  with s show ?thesis by blast
qed

end
