(* ===== verification/Backtest.thy ===== *)
theory Backtest
  imports Strategies
begin

text \<open>
  The backtest: the event-driven engine \<open>app/backtesting/engine.py\<close> and its performance metrics
  \<open>app/backtesting/metrics.py\<close>. The engine takes the strategy as its \<open>evaluate\<close> function and its
  name, so that what holds for every strategy can be stated in \<open>long_only_strategy\<close>. The state of
  the loop is \<open>backtest_state\<close>, \<open>backtest_bar\<close> is the body of the loop for one index, and an
  exception of the strategy ends the run.

  Not modelled: the report files, the run id, and of the metrics the CAGR (floating point).
\<close>

subsection \<open>Configuration, trades and state\<close>

record backtest_config =
  bc_initial_cash :: decimal
  bc_fee_rate :: decimal
  bc_slippage_rate :: decimal
  bc_spread_rate :: decimal
  bc_position_size_fraction :: decimal

definition default_backtest_config :: backtest_config where
  "default_backtest_config = \<lparr>
     bc_initial_cash = 10000, bc_fee_rate = 1 / 1000, bc_slippage_rate = 5 / 10000,
     bc_spread_rate = 2 / 10000, bc_position_size_fraction = 1 / 10\<rparr>"

record backtest_trade =
  bt_symbol :: string
  bt_side :: string
  bt_entry_time :: timestamp
  bt_exit_time :: "timestamp option"
  bt_entry_price :: decimal
  bt_exit_price :: "decimal option"
  bt_quantity :: decimal
  bt_pnl :: decimal
  bt_fees :: decimal
  bt_slippage_cost :: decimal
  bt_reason :: string

record backtest_state =
  bs_cash :: decimal
  bs_position :: "position option"
  bs_open_trade :: "backtest_trade option"
  bs_trades :: "backtest_trade list"
  bs_equity_curve :: "(timestamp \<times> decimal) list"
  bs_bars_held :: nat
  bs_peak :: decimal

record fill_costs =
  fc_price :: decimal
  fc_fee :: decimal
  fc_slippage_cost :: decimal

subsection \<open>The engine\<close>

definition apply_costs :: "backtest_config \<Rightarrow> decimal \<Rightarrow> order_side \<Rightarrow> fill_costs" where
  "apply_costs cfg price side =
     (let half_spread = ddiv (dmul price (bc_spread_rate cfg)) 2;
          slip = dmul price (bc_slippage_rate cfg);
          fill_price = (if side = Buy then dadd (dadd price half_spread) slip
                        else dsub (dsub price half_spread) slip)
      in \<lparr>fc_price = fill_price, fc_fee = dmul fill_price (bc_fee_rate cfg), fc_slippage_cost = slip\<rparr>)"

definition size_position :: "backtest_config \<Rightarrow> decimal \<Rightarrow> decimal \<Rightarrow> decimal" where
  "size_position cfg cash price =
     (let notional = dmul cash (bc_position_size_fraction cfg)
      in if price \<le> 0 then 0 else quantize 8 (ddiv notional price))"

text \<open>The stop is looked at before the target when both are touched on the same bar.\<close>

definition check_stop_take :: "position \<Rightarrow> candle \<Rightarrow> (decimal \<times> string) option" where
  "check_stop_take pos bar =
     (case p_stop_loss pos of
        Some sl \<Rightarrow> if c_low bar \<le> sl then Some (sl, ''stop-loss'')
                  else (case p_take_profit pos of
                          Some tp \<Rightarrow> if c_high bar \<ge> tp then Some (tp, ''take-profit'') else None
                        | None \<Rightarrow> None)
      | None \<Rightarrow> (case p_take_profit pos of
                   Some tp \<Rightarrow> if c_high bar \<ge> tp then Some (tp, ''take-profit'') else None
                 | None \<Rightarrow> None))"

text \<open>Closing the position at a price: the same statements in the three places that close one.\<close>

definition close_position :: "backtest_config \<Rightarrow> position \<Rightarrow> decimal \<Rightarrow> timestamp \<Rightarrow> string
  \<Rightarrow> backtest_state \<Rightarrow> backtest_state" where
  "close_position cfg pos price time reason st =
     (let fill = apply_costs cfg price Sell;
          proceeds = dmul (fc_price fill) (p_quantity pos);
          fees = dmul (fc_fee fill) (p_quantity pos);
          slip = dmul (fc_slippage_cost fill) (p_quantity pos);
          pnl = dsub (dmul (dsub (fc_price fill) (p_entry_price pos)) (p_quantity pos)) fees;
          closed = (case bs_open_trade st of None \<Rightarrow> []
            | Some t \<Rightarrow> [t\<lparr>bt_exit_time := Some time, bt_exit_price := Some (fc_price fill), bt_pnl := pnl,
                bt_fees := dadd (bt_fees t) fees, bt_slippage_cost := dadd (bt_slippage_cost t) slip,
                bt_reason := reason\<rparr>])
      in st\<lparr>bs_cash := dadd (bs_cash st) (dsub proceeds fees), bs_trades := bs_trades st @ closed,
            bs_position := None, bs_open_trade := None, bs_bars_held := 0\<rparr>)"

text \<open>Stop and target of a position opened on an earlier bar.\<close>

definition exit_on_levels :: "backtest_config \<Rightarrow> candle \<Rightarrow> backtest_state \<Rightarrow> backtest_state" where
  "exit_on_levels cfg bar st =
     (case bs_position st of None \<Rightarrow> st
      | Some pos \<Rightarrow>
          if p_opened_at pos < c_open_time bar then
            (case check_stop_take pos bar of None \<Rightarrow> st
             | Some (exit_price, reason) \<Rightarrow> close_position cfg pos exit_price (c_open_time bar) reason st)
          else st)"

text \<open>Marking the position, the equity and the peak; the equity goes to the curve.\<close>

definition mark_bar :: "candle \<Rightarrow> backtest_state \<Rightarrow> backtest_state" where
  "mark_bar bar st =
     (let mark = c_close bar;
          st1 = (case bs_position st of None \<Rightarrow> st
            | Some pos \<Rightarrow> st\<lparr>bs_position := Some (pos\<lparr>p_current_price := mark,
                  p_unrealized_pnl := dmul (dsub mark (p_entry_price pos)) (p_quantity pos)\<rparr>),
                bs_bars_held := bs_bars_held st + 1\<rparr>);
          equity = dadd (bs_cash st1)
            (case bs_position st1 of None \<Rightarrow> 0 | Some pos \<Rightarrow> dmul (p_quantity pos) mark)
      in st1\<lparr>bs_peak := max (bs_peak st1) equity,
             bs_equity_curve := bs_equity_curve st1 @ [(c_open_time bar, equity)]\<rparr>)"

definition enter_position :: "backtest_config \<Rightarrow> string \<Rightarrow> candle \<Rightarrow> trade_signal \<Rightarrow> backtest_state
  \<Rightarrow> backtest_state" where
  "enter_position cfg name bar signal st =
     (let mark = c_close bar; qty = size_position cfg (bs_cash st) mark in
      if qty > 0 then
        let fill = apply_costs cfg mark Buy;
            cost = dmul (fc_price fill) qty;
            fees = dmul (fc_fee fill) qty;
            slip = dmul (fc_slippage_cost fill) qty
        in if dadd cost fees \<le> bs_cash st then
             st\<lparr>bs_cash := dsub (bs_cash st) (dadd cost fees),
                bs_position := Some \<lparr>p_symbol = c_symbol bar, p_quantity = qty,
                  p_entry_price = fc_price fill, p_current_price = mark, p_unrealized_pnl = 0,
                  p_realized_pnl = 0, p_opened_at = c_open_time bar, p_strategy_name = Some name,
                  p_stop_loss = sg_suggested_stop signal, p_take_profit = sg_suggested_target signal\<rparr>,
                bs_open_trade := Some \<lparr>bt_symbol = c_symbol bar, bt_side = ''buy'',
                  bt_entry_time = c_open_time bar, bt_exit_time = None, bt_entry_price = fc_price fill,
                  bt_exit_price = None, bt_quantity = qty, bt_pnl = 0, bt_fees = fees,
                  bt_slippage_cost = slip, bt_reason = sg_rationale signal\<rparr>,
                bs_bars_held := 0\<rparr>
           else st
      else st)"

definition act_on_signal :: "backtest_config \<Rightarrow> string \<Rightarrow> candle \<Rightarrow> trade_signal \<Rightarrow> backtest_state
  \<Rightarrow> backtest_state" where
  "act_on_signal cfg name bar signal st =
     (if sg_direction signal = SigBuy \<and> bs_position st = None then enter_position cfg name bar signal st
      else if sg_direction signal = SigExit \<or> sg_direction signal = SigSell then
        (case bs_position st of None \<Rightarrow> st
         | Some pos \<Rightarrow> close_position cfg pos (c_close bar) (c_open_time bar) (sg_rationale signal) st)
      else st)"

type_synonym strategy_function = "strategy_context \<Rightarrow> timestamp \<Rightarrow> py_error + trade_signal"

definition backtest_bar :: "strategy_function \<Rightarrow> string \<Rightarrow> backtest_config \<Rightarrow> timestamp \<Rightarrow> candle list
  \<Rightarrow> nat \<Rightarrow> backtest_state \<Rightarrow> py_error + backtest_state" where
  "backtest_bar evaluate name cfg now candles i st =
     (let window = take (i + 1) candles; bar = last window;
          st1 = mark_bar bar (exit_on_levels cfg bar st)
      in case evaluate \<lparr>cx_candles = window, cx_position = bs_position st1, cx_bars_held = bs_bars_held st1\<rparr> now of
           Inl e \<Rightarrow> Inl e
         | Inr signal \<Rightarrow> Inr (act_on_signal cfg name bar signal st1))"

fun backtest_bars :: "strategy_function \<Rightarrow> string \<Rightarrow> backtest_config \<Rightarrow> timestamp \<Rightarrow> candle list
  \<Rightarrow> nat list \<Rightarrow> backtest_state \<Rightarrow> py_error + backtest_state" where
  "backtest_bars evaluate name cfg now candles [] st = Inr st"
| "backtest_bars evaluate name cfg now candles (i # rest) st =
     (case backtest_bar evaluate name cfg now candles i st of
        Inl e \<Rightarrow> Inl e
      | Inr st' \<Rightarrow> backtest_bars evaluate name cfg now candles rest st')"

definition initial_backtest_state :: "backtest_config \<Rightarrow> backtest_state" where
  "initial_backtest_state cfg = \<lparr>bs_cash = bc_initial_cash cfg, bs_position = None, bs_open_trade = None,
     bs_trades = [], bs_equity_curve = [], bs_bars_held = 0, bs_peak = bc_initial_cash cfg\<rparr>"

text \<open>The position still open after the last bar is closed at its close.\<close>

definition force_close :: "backtest_config \<Rightarrow> candle list \<Rightarrow> backtest_state \<Rightarrow> backtest_state" where
  "force_close cfg candles st =
     (case bs_position st of None \<Rightarrow> st
      | Some pos \<Rightarrow> close_position cfg pos (c_close (last candles)) (c_open_time (last candles)) ''end-of-data'' st)"

subsection \<open>Metrics\<close>

record performance_metrics =
  pm_total_return :: decimal
  pm_net_return :: decimal
  pm_gross_profit :: decimal
  pm_gross_loss :: decimal
  pm_win_rate :: decimal
  pm_profit_factor :: decimal
  pm_expectancy :: decimal
  pm_max_drawdown :: decimal
  pm_sharpe :: decimal
  pm_sortino :: decimal
  pm_avg_win :: decimal
  pm_avg_loss :: decimal
  pm_risk_reward_ratio :: decimal
  pm_trade_count :: nat
  pm_exposure_time :: decimal
  pm_consecutive_wins :: nat
  pm_consecutive_losses :: nat
  pm_fees_paid :: decimal
  pm_slippage_cost :: decimal

fun max_streak_from :: "(decimal \<Rightarrow> bool) \<Rightarrow> nat \<Rightarrow> nat \<Rightarrow> decimal list \<Rightarrow> nat" where
  "max_streak_from ok best cur [] = best"
| "max_streak_from ok best cur (p # ps) =
     (if ok p then max_streak_from ok (max best (cur + 1)) (cur + 1) ps
      else max_streak_from ok best 0 ps)"

definition max_streak :: "decimal list \<Rightarrow> bool \<Rightarrow> nat" where
  "max_streak pnls winning = max_streak_from (\<lambda>p. if winning then p > 0 else p < 0) 0 0 pnls"

definition drawdown_step :: "decimal \<times> decimal \<Rightarrow> decimal \<Rightarrow> decimal \<times> decimal" where
  "drawdown_step acc equity =
     (let peak = max (fst acc) equity in
      (peak, if peak > 0 then max (snd acc) (ddiv (dsub peak equity) peak) else snd acc))"

definition max_drawdown :: "decimal \<Rightarrow> decimal list \<Rightarrow> decimal" where
  "max_drawdown initial_cash equities = snd (foldl drawdown_step (initial_cash, 0) equities)"

text \<open>The returns of the bars after one with a positive equity; their ratios to a deviation.\<close>

definition bar_returns :: "decimal list \<Rightarrow> decimal list" where
  "bar_returns equities =
     map (\<lambda>(prev, cur). ddiv (dsub cur prev) prev)
       (filter (\<lambda>(prev, cur). prev > 0) (zip (butlast equities) (tl equities)))"

definition mean_return :: "decimal list \<Rightarrow> decimal" where
  "mean_return rs = ddiv (dsum rs) (of_nat (length rs))"

definition ratio_to :: "decimal \<Rightarrow> decimal \<Rightarrow> decimal" where
  "ratio_to mean var = (let std = dsqrt var in if std = 0 then 0 else ddiv mean std)"

definition sharpe_ratio :: "decimal list \<Rightarrow> decimal" where
  "sharpe_ratio rs =
     (if length rs < 2 then 0
      else let mean = mean_return rs in
        ratio_to mean (ddiv (dsum (map (\<lambda>r. dmul (dsub r mean) (dsub r mean)) rs)) (of_nat (length rs - 1))))"

definition sortino_ratio :: "decimal list \<Rightarrow> decimal" where
  "sortino_ratio rs =
     (if length rs < 2 then 0
      else let downside = filter (\<lambda>r. r < 0) rs in
        if downside = [] then 0
        else ratio_to (mean_return rs) (ddiv (dsum (map (\<lambda>r. dmul r r) downside)) (of_nat (length downside))))"

definition bars_in_trade :: "timestamp list \<Rightarrow> backtest_trade \<Rightarrow> nat" where
  "bars_in_trade ts t =
     (case bt_exit_time t of None \<Rightarrow> 0
      | Some x \<Rightarrow> length (filter (\<lambda>u. bt_entry_time t \<le> u \<and> u \<le> x) ts))"

definition compute_metrics :: "backtest_trade list \<Rightarrow> (timestamp \<times> decimal) list \<Rightarrow> decimal \<Rightarrow> decimal
  \<Rightarrow> performance_metrics" where
  "compute_metrics trades curve initial_cash final_equity =
     (let pnls = map bt_pnl trades;
          wins = filter (\<lambda>p. p > 0) pnls;
          losses = filter (\<lambda>p. p < 0) pnls;
          n = length trades;
          gross_profit = dsum wins;
          gross_loss = dabs (dsum losses);
          expectancy = (if n \<noteq> 0 then ddiv (dsum pnls) (of_nat n) else 0);
          avg_win = (if wins \<noteq> [] then ddiv (dsum wins) (of_nat (length wins)) else 0);
          avg_loss = (if losses \<noteq> [] then ddiv (dsum losses) (of_nat (length losses)) else 0)
      in \<lparr>pm_total_return = (if initial_cash \<noteq> 0 then dsub (ddiv final_equity initial_cash) 1 else 0),
          pm_net_return = dsub final_equity initial_cash,
          pm_gross_profit = gross_profit,
          pm_gross_loss = gross_loss,
          pm_win_rate = (if n \<noteq> 0 then ddiv (of_nat (length wins)) (of_nat n) else 0),
          pm_profit_factor = (if gross_loss > 0 then ddiv gross_profit gross_loss
             else if gross_profit > 0 then 999999 else 0),
          pm_expectancy = expectancy,
          pm_max_drawdown = max_drawdown initial_cash (map snd curve),
          pm_sharpe = sharpe_ratio (bar_returns (map snd curve)),
          pm_sortino = sortino_ratio (bar_returns (map snd curve)),
          pm_avg_win = avg_win,
          pm_avg_loss = avg_loss,
          pm_risk_reward_ratio = (if avg_loss \<noteq> 0 then ddiv avg_win (dabs avg_loss) else 0),
          pm_trade_count = n,
          pm_exposure_time = (if curve \<noteq> [] \<and> trades \<noteq> []
             then ddiv (of_nat (sum_list (map (bars_in_trade (map fst curve)) trades))) (of_nat (length curve))
             else 0),
          pm_consecutive_wins = max_streak pnls True,
          pm_consecutive_losses = max_streak pnls False,
          pm_fees_paid = dsum (map bt_fees trades),
          pm_slippage_cost = dsum (map bt_slippage_cost trades)\<rparr>)"

record backtest_result =
  br_metrics :: performance_metrics
  br_trades :: "backtest_trade list"
  br_equity_curve :: "(timestamp \<times> decimal) list"
  br_final_equity :: decimal

definition run_backtest :: "strategy_function \<Rightarrow> string \<Rightarrow> backtest_config \<Rightarrow> timestamp \<Rightarrow> candle list
  \<Rightarrow> py_error + backtest_result" where
  "run_backtest evaluate name cfg now candles =
     (if candles = [] then Inl (ValueError ''candles must not be empty'')
      else
        case backtest_bars evaluate name cfg now candles [0..<length candles] (initial_backtest_state cfg) of
          Inl e \<Rightarrow> Inl e
        | Inr st0 \<Rightarrow>
            let st = force_close cfg candles st0
            in Inr \<lparr>br_metrics = compute_metrics (bs_trades st) (bs_equity_curve st) (bc_initial_cash cfg) (bs_cash st),
                    br_trades = bs_trades st, br_equity_curve = bs_equity_curve st, br_final_equity = bs_cash st\<rparr>)"

subsection \<open>Lemmas of the loop\<close>

lemma backtest_bars_append:
  "backtest_bars e name cfg now cs (is @ js) st =
     (case backtest_bars e name cfg now cs is st of
        Inl x \<Rightarrow> Inl x | Inr st' \<Rightarrow> backtest_bars e name cfg now cs js st')"
  by (induction "is" arbitrary: st) (auto split: sum.splits)

lemma backtest_bars_cong:
  assumes "\<And>i. i \<in> set is \<Longrightarrow> take (Suc i) cs = take (Suc i) ds"
  shows "backtest_bars e name cfg now cs is st = backtest_bars e name cfg now ds is st"
  using assms by (induction "is" arbitrary: st) (auto simp: backtest_bar_def split: sum.splits)

lemma backtest_bars_take:
  "n \<le> length cs \<Longrightarrow> backtest_bars e name cfg now (take n cs) [0..<n] st = backtest_bars e name cfg now cs [0..<n] st"
  by (rule backtest_bars_cong) (auto simp: min_def)

lemma close_position_frame [simp]:
  "bs_equity_curve (close_position cfg pos price time reason st) = bs_equity_curve st"
  by (simp add: close_position_def Let_def)

lemma close_position_position [simp]: "bs_position (close_position cfg pos price time reason st) = None"
  by (simp add: close_position_def Let_def)

lemma exit_on_levels_curve [simp]: "bs_equity_curve (exit_on_levels cfg bar st) = bs_equity_curve st"
  by (simp add: exit_on_levels_def split: option.split)

lemma enter_position_frame [simp]:
  "bs_equity_curve (enter_position cfg name bar sg st) = bs_equity_curve st"
  "bs_trades (enter_position cfg name bar sg st) = bs_trades st"
  by (simp_all add: enter_position_def Let_def)

lemma act_on_signal_curve [simp]: "bs_equity_curve (act_on_signal cfg name bar sg st) = bs_equity_curve st"
  by (simp add: act_on_signal_def split: option.split)

lemma mark_bar_curve:
  "\<exists>eq. bs_equity_curve (mark_bar bar st) = bs_equity_curve st @ [(c_open_time bar, eq)]"
  by (simp add: mark_bar_def Let_def split: option.split)

lemma mark_bar_frame [simp]: "bs_trades (mark_bar bar st) = bs_trades st"
  "bs_open_trade (mark_bar bar st) = bs_open_trade st" "bs_cash (mark_bar bar st) = bs_cash st"
  by (simp_all add: mark_bar_def Let_def split: option.split)

text \<open>One bar adds one point to the curve and only adds trades.\<close>

lemma close_position_trades: "\<exists>ts. bs_trades (close_position cfg pos price time reason st) = bs_trades st @ ts
    \<and> length ts \<le> 1"
  by (simp add: close_position_def Let_def split: option.split)

lemma exit_on_levels_trades: "\<exists>ts. bs_trades (exit_on_levels cfg bar st) = bs_trades st @ ts"
  unfolding exit_on_levels_def using close_position_trades by (fastforce split: option.split prod.split)

lemma act_on_signal_trades: "\<exists>ts. bs_trades (act_on_signal cfg name bar sg st) = bs_trades st @ ts"
  unfolding act_on_signal_def using close_position_trades by (fastforce split: option.split)

lemma backtest_bar_adds:
  assumes "backtest_bar e name cfg now cs i st = Inr st'"
  shows "\<exists>eq ts. bs_equity_curve st' = bs_equity_curve st @ [(c_open_time (last (take (Suc i) cs)), eq)]
    \<and> bs_trades st' = bs_trades st @ ts"
proof -
  let ?bar = "last (take (Suc i) cs)"
  let ?st1 = "mark_bar ?bar (exit_on_levels cfg ?bar st)"
  obtain sg where st': "st' = act_on_signal cfg name ?bar sg ?st1"
    using assms by (auto simp: backtest_bar_def Let_def split: sum.splits)
  obtain eq where "bs_equity_curve ?st1 = bs_equity_curve st @ [(c_open_time ?bar, eq)]"
    using mark_bar_curve[of ?bar "exit_on_levels cfg ?bar st"] by auto
  moreover obtain ts1 where "bs_trades ?st1 = bs_trades st @ ts1" using exit_on_levels_trades[of cfg ?bar st] by auto
  moreover obtain ts2 where "bs_trades st' = bs_trades ?st1 @ ts2" using act_on_signal_trades st' by blast
  ultimately show ?thesis using st' by simp
qed

lemma backtest_bars_adds:
  assumes "backtest_bars e name cfg now cs is st = Inr st'"
  shows "\<exists>es ts. bs_equity_curve st' = bs_equity_curve st @ es \<and> bs_trades st' = bs_trades st @ ts
    \<and> map fst es = map (\<lambda>i. c_open_time (last (take (Suc i) cs))) is"
  using assms
proof (induction "is" arbitrary: st)
  case (Cons i "is")
  then obtain st1 where st1: "backtest_bar e name cfg now cs i st = Inr st1"
    and rest: "backtest_bars e name cfg now cs is st1 = Inr st'" by (auto split: sum.splits)
  from backtest_bar_adds[OF st1] Cons.IH[OF rest] show ?case by force
qed simp

lemma force_close_frame [simp]: "bs_equity_curve (force_close cfg cs st) = bs_equity_curve st"
  by (simp add: force_close_def split: option.split)

lemma force_close_trades: "\<exists>ts. bs_trades (force_close cfg cs st) = bs_trades st @ ts \<and> length ts \<le> 1"
  unfolding force_close_def using close_position_trades by (fastforce split: option.split)

lemma last_take_Suc: "i < length xs \<Longrightarrow> last (take (Suc i) xs) = xs ! i"
  by (simp add: take_Suc_conv_app_nth)

lemma run_backtest_bars:
  assumes "run_backtest e name cfg now cs = Inr r"
  obtains st where "cs \<noteq> []"
    "backtest_bars e name cfg now cs [0..<length cs] (initial_backtest_state cfg) = Inr st"
    "br_trades r = bs_trades (force_close cfg cs st)" "br_equity_curve r = bs_equity_curve st"
    "br_final_equity r = bs_cash (force_close cfg cs st)"
  using assms by (auto simp: run_backtest_def Let_def split: if_splits sum.splits)

lemma run_backtest_curve:
  assumes "run_backtest e name cfg now cs = Inr r"
  shows "map fst (br_equity_curve r) = map c_open_time cs"
proof -
  from run_backtest_bars[OF assms] obtain st where
    bars: "backtest_bars e name cfg now cs [0..<length cs] (initial_backtest_state cfg) = Inr st"
    and curve: "br_equity_curve r = bs_equity_curve st" by metis
  have "map fst (bs_equity_curve st) = map (\<lambda>i. c_open_time (last (take (Suc i) cs))) [0..<length cs]"
    using backtest_bars_adds[OF bars] by (auto simp: initial_backtest_state_def)
  also have "\<dots> = map (\<lambda>i. c_open_time (cs ! i)) [0..<length cs]"
    by (intro map_cong) (auto simp: last_take_Suc)
  also have "\<dots> = map c_open_time cs" by (rule nth_equalityI) auto
  finally show ?thesis using curve by simp
qed

subsection \<open>Trades\<close>

text \<open>A closed trade: a long position that was opened, then closed, at a price and not earlier.\<close>

definition trade_closed :: "backtest_trade \<Rightarrow> bool" where
  "trade_closed t \<longleftrightarrow> bt_side t = ''buy'' \<and> 0 < bt_quantity t \<and> bt_exit_price t \<noteq> None
     \<and> (\<exists>x. bt_exit_time t = Some x \<and> bt_entry_time t \<le> x)"

definition trades_ordered :: "backtest_trade list \<Rightarrow> bool" where
  "trades_ordered ts \<longleftrightarrow> sorted_wrt (\<lambda>a b. the (bt_exit_time a) \<le> bt_entry_time b) ts"

text \<open>
  The invariant of the loop at time \<open>now\<close>: the open trade mirrors the position, and the closed trades
  are over by now, one after the other, before the open one.
\<close>

definition backtest_ok :: "timestamp \<Rightarrow> backtest_state \<Rightarrow> bool" where
  "backtest_ok now st \<longleftrightarrow>
     (case bs_position st of
        None \<Rightarrow> bs_open_trade st = None
      | Some p \<Rightarrow> (\<exists>t. bs_open_trade st = Some t \<and> bt_side t = ''buy'' \<and> 0 < p_quantity p
          \<and> bt_quantity t = p_quantity p \<and> bt_entry_price t = p_entry_price p
          \<and> bt_entry_time t = p_opened_at p \<and> p_opened_at p \<le> now
          \<and> (\<forall>c \<in> set (bs_trades st). the (bt_exit_time c) \<le> bt_entry_time t)))
   \<and> (\<forall>c \<in> set (bs_trades st). trade_closed c \<and> the (bt_exit_time c) \<le> now)
   \<and> trades_ordered (bs_trades st)"

lemma backtest_ok_later: "backtest_ok now st \<Longrightarrow> now \<le> now' \<Longrightarrow> backtest_ok now' st"
  by (auto simp: backtest_ok_def split: option.splits)

lemma close_position_ok:
  assumes "backtest_ok now st" and "bs_position st = Some pos"
  shows "backtest_ok now (close_position cfg pos price now reason st)"
proof -
  from assms obtain t where "bs_open_trade st = Some t" "bt_side t = ''buy''" "0 < bt_quantity t"
    "bt_entry_time t \<le> now" "\<forall>c \<in> set (bs_trades st). the (bt_exit_time c) \<le> bt_entry_time t"
    by (auto simp: backtest_ok_def)
  with assms show ?thesis
    by (auto simp: backtest_ok_def close_position_def Let_def trade_closed_def trades_ordered_def sorted_wrt_append)
qed

lemma exit_on_levels_ok: "backtest_ok (c_open_time bar) st \<Longrightarrow> backtest_ok (c_open_time bar) (exit_on_levels cfg bar st)"
  by (simp add: exit_on_levels_def close_position_ok split: option.split)

lemma mark_bar_ok: "backtest_ok now st \<Longrightarrow> backtest_ok now (mark_bar bar st)"
  by (auto simp: backtest_ok_def mark_bar_def Let_def split: option.splits)

lemma enter_position_ok:
  assumes "backtest_ok (c_open_time bar) st" and "bs_position st = None"
  shows "backtest_ok (c_open_time bar) (enter_position cfg name bar sg st)"
  using assms by (auto simp: backtest_ok_def enter_position_def Let_def)

lemma act_on_signal_ok:
  "backtest_ok (c_open_time bar) st \<Longrightarrow> backtest_ok (c_open_time bar) (act_on_signal cfg name bar sg st)"
  by (auto simp: act_on_signal_def enter_position_ok close_position_ok split: option.split)

lemma backtest_bar_ok:
  assumes "backtest_bar e name cfg now cs i st = Inr st'" and "backtest_ok t st"
    and "t \<le> c_open_time (last (take (Suc i) cs))"
  shows "backtest_ok (c_open_time (last (take (Suc i) cs))) st'"
  using assms
  by (auto simp: backtest_bar_def Let_def split: sum.splits
      intro!: act_on_signal_ok mark_bar_ok exit_on_levels_ok intro: backtest_ok_later)

lemma backtest_bars_ok:
  assumes "backtest_bars e name cfg now cs [m..<n] st = Inr st'" and "m < n" "n \<le> length cs"
    and "backtest_ok t st" "t \<le> c_open_time (cs ! m)" and "sorted_wrt (<) (map c_open_time cs)"
  shows "backtest_ok (c_open_time (cs ! (n - 1))) st'"
  using assms
proof (induction "n - m" arbitrary: m st t)
  case (Suc k)
  then have up: "[m..<n] = m # [Suc m..<n]" by (simp add: upt_conv_Cons)
  with Suc.prems obtain st1 where st1: "backtest_bar e name cfg now cs m st = Inr st1"
    and rest: "backtest_bars e name cfg now cs [Suc m..<n] st1 = Inr st'" by (auto split: sum.splits)
  have ok1: "backtest_ok (c_open_time (cs ! m)) st1"
    using backtest_bar_ok[OF st1 Suc.prems(4)] Suc.prems by (simp add: last_take_Suc)
  show ?case
  proof (cases "Suc m < n")
    case True
    have "c_open_time (cs ! m) \<le> c_open_time (cs ! Suc m)"
      using sorted_wrt_nth_less[OF Suc.prems(6), of m "Suc m"] True Suc.prems(3) by simp
    with Suc.hyps(1)[OF _ rest True Suc.prems(3) ok1] Suc.hyps(2) Suc.prems(6) show ?thesis by simp
  next
    case False
    with Suc.prems have "n - 1 = m" by simp
    with False rest ok1 show ?thesis by simp
  qed
qed simp

lemma force_close_ok:
  assumes "backtest_ok (c_open_time (last cs)) st"
  shows "backtest_ok (c_open_time (last cs)) (force_close cfg cs st) \<and> bs_position (force_close cfg cs st) = None"
  using assms by (simp add: force_close_def close_position_ok split: option.split)

subsection \<open>Metrics\<close>

text \<open>The longest block of consecutive elements that are all \<open>ok\<close>.\<close>

definition block :: "('a \<Rightarrow> bool) \<Rightarrow> 'a list \<Rightarrow> nat \<Rightarrow> nat \<Rightarrow> bool" where
  "block ok xs i n \<longleftrightarrow> i + n \<le> length xs \<and> (\<forall>j < n. ok (xs ! (i + j)))"

lemma block_Cons:
  "block ok (x # xs) i n \<longleftrightarrow>
     (case i of Suc i' \<Rightarrow> block ok xs i' n | 0 \<Rightarrow> (case n of 0 \<Rightarrow> True | Suc n' \<Rightarrow> ok x \<and> block ok xs 0 n'))"
  by (auto simp: block_def less_Suc_eq_0_disj split: nat.split)

lemma max_streak_from_spec:
  assumes "cur \<le> best"
  shows "best \<le> max_streak_from ok best cur ps
    \<and> (\<forall>n. block ok ps 0 n \<longrightarrow> cur + n \<le> max_streak_from ok best cur ps)
    \<and> (\<forall>i n. block ok ps i n \<longrightarrow> n \<le> max_streak_from ok best cur ps)
    \<and> (max_streak_from ok best cur ps = best
       \<or> (\<exists>n. block ok ps 0 n \<and> max_streak_from ok best cur ps = cur + n)
       \<or> (\<exists>i n. block ok ps i n \<and> max_streak_from ok best cur ps = n))"
  using assms
proof (induction ps arbitrary: best cur)
  case Nil
  then show ?case by (auto simp: block_def)
next
  case (Cons p ps)
  show ?case
  proof (cases "ok p")
    case True
    let ?m = "max_streak_from ok (max best (cur + 1)) (cur + 1) ps"
    have ih: "max best (cur + 1) \<le> ?m" "\<forall>n. block ok ps 0 n \<longrightarrow> cur + 1 + n \<le> ?m"
      "\<forall>i n. block ok ps i n \<longrightarrow> n \<le> ?m"
      "?m = max best (cur + 1) \<or> (\<exists>n. block ok ps 0 n \<and> ?m = cur + 1 + n) \<or> (\<exists>i n. block ok ps i n \<and> ?m = n)"
      using Cons.IH[of "cur + 1" "max best (cur + 1)"] by auto
    have last: "?m = best \<or> (\<exists>n. block ok (p # ps) 0 n \<and> ?m = cur + n) \<or> (\<exists>i n. block ok (p # ps) i n \<and> ?m = n)"
      using ih(4)
    proof (elim disjE exE conjE)
      assume "?m = max best (cur + 1)"
      moreover have "block ok (p # ps) 0 1" using True by (simp add: block_def)
      ultimately show ?thesis by (cases "cur + 1 \<le> best") (auto simp: max_def)
    next
      fix n assume "block ok ps 0 n" "?m = cur + 1 + n"
      then have "block ok (p # ps) 0 (Suc n) \<and> ?m = cur + Suc n" using True by (simp add: block_Cons)
      then show ?thesis by blast
    next
      fix i n assume "block ok ps i n" "?m = n"
      then have "block ok (p # ps) (Suc i) n \<and> ?m = n" by (simp add: block_Cons)
      then show ?thesis by blast
    qed
    have "cur + n \<le> ?m" if "block ok (p # ps) 0 n" for n
      using that ih(1,2) by (cases n) (auto simp: block_Cons)
    moreover have "n \<le> ?m" if "block ok (p # ps) i n" for i n
      using that ih(1-3) by (cases i; cases n) (auto simp: block_Cons)
    ultimately show ?thesis using True ih(1) last by simp
  next
    case False
    let ?m = "max_streak_from ok best 0 ps"
    have ih: "best \<le> ?m" "\<forall>i n. block ok ps i n \<longrightarrow> n \<le> ?m"
      "?m = best \<or> (\<exists>i n. block ok ps i n \<and> ?m = n)"
      using Cons.IH[of 0 best] by auto
    have "\<exists>j. block ok (p # ps) j n" if "block ok ps i n" for i n
      using that by (intro exI[of _ "Suc i"]) (simp add: block_Cons)
    moreover have "cur + n \<le> ?m" if "block ok (p # ps) 0 n" for n
      using that ih(1) Cons.prems False by (cases n) (auto simp: block_Cons)
    moreover have "n \<le> ?m" if "block ok (p # ps) i n" for i n
      using that ih(2) False by (cases i; cases n) (auto simp: block_Cons)
    ultimately show ?thesis using False ih(1,3) by simp metis
  qed
qed

lemma max_streak_from_longest:
  "(\<exists>i. block ok ps i (max_streak_from ok 0 0 ps)) \<and> (\<forall>i n. block ok ps i n \<longrightarrow> n \<le> max_streak_from ok 0 0 ps)"
proof -
  have "block ok ps 0 0" by (simp add: block_def)
  with max_streak_from_spec[of 0 0 ok ps] show ?thesis by auto
qed

lemma max_streak_longest:
  "(\<exists>i. block (\<lambda>p. 0 < p) pnls i (max_streak pnls True))
   \<and> (\<forall>i n. block (\<lambda>p. 0 < p) pnls i n \<longrightarrow> n \<le> max_streak pnls True)"
  "(\<exists>i. block (\<lambda>p. p < 0) pnls i (max_streak pnls False))
   \<and> (\<forall>i n. block (\<lambda>p. p < 0) pnls i n \<longrightarrow> n \<le> max_streak pnls False)"
  using max_streak_from_longest[of "\<lambda>p. 0 < p" pnls] max_streak_from_longest[of "\<lambda>p. p < 0" pnls]
  by (simp_all add: max_streak_def)

lemma drawdown_fold_bounds:
  assumes "representable pk" "0 \<le> pk" "0 \<le> dd" "dd \<le> 1"
    and "\<forall>q \<in> set qs. representable q \<and> 0 \<le> q"
  shows "0 \<le> snd (foldl drawdown_step (pk, dd) qs) \<and> snd (foldl drawdown_step (pk, dd) qs) \<le> 1"
  using assms
proof (induction qs arbitrary: pk dd)
  case (Cons q qs)
  let ?pk = "max pk q"
  have rep: "representable ?pk" using Cons.prems by (simp add: max_def)
  have d: "0 \<le> ddiv (dsub ?pk q) ?pk \<and> ddiv (dsub ?pk q) ?pk \<le> 1" if "0 < ?pk"
  proof
    have "dsub ?pk q \<le> ctx ?pk" unfolding dsub_def using Cons.prems by (intro ctx_mono) simp
    then have "dsub ?pk q \<le> ?pk" using rep ctx.rnd_rep by simp
    then have "dsub ?pk q / ?pk \<le> 1" using that by simp
    then have "ddiv (dsub ?pk q) ?pk \<le> ctx 1" unfolding ddiv_def by (rule ctx_mono)
    then show "ddiv (dsub ?pk q) ?pk \<le> 1" by simp
    show "0 \<le> ddiv (dsub ?pk q) ?pk" using that by (intro ddiv_nonneg) simp_all
  qed
  obtain dd' where step: "drawdown_step (pk, dd) q = (?pk, dd')" and "0 \<le> dd'" "dd' \<le> 1"
  proof (cases "0 < ?pk")
    case True
    with d Cons.prems show ?thesis
      by (intro that[of "max dd (ddiv (dsub ?pk q) ?pk)"]) (simp_all add: drawdown_step_def Let_def le_max_iff_disj)
  next
    case False
    with Cons.prems show ?thesis by (intro that[of dd]) (simp_all add: drawdown_step_def Let_def)
  qed
  with Cons.IH[of ?pk dd'] Cons.prems rep show ?case by (simp add: le_max_iff_disj)
qed simp

subsection \<open>A run\<close>

lemma backtest_bar_total:
  assumes "\<And>cx. cx_candles cx \<noteq> [] \<Longrightarrow> \<exists>s. e cx now = Inr s" and "cs \<noteq> []"
  shows "\<exists>st'. backtest_bar e name cfg now cs i st = Inr st'"
proof -
  let ?bar = "last (take (Suc i) cs)"
  let ?st1 = "mark_bar ?bar (exit_on_levels cfg ?bar st)"
  let ?cx = "\<lparr>cx_candles = take (Suc i) cs, cx_position = bs_position ?st1, cx_bars_held = bs_bars_held ?st1\<rparr>"
  have "\<exists>s. e ?cx now = Inr s" by (rule assms(1)) (use assms(2) in simp)
  then show ?thesis by (auto simp: backtest_bar_def Let_def)
qed

lemma backtest_bars_total:
  assumes "\<And>cx. cx_candles cx \<noteq> [] \<Longrightarrow> \<exists>s. e cx now = Inr s" and "cs \<noteq> []"
  shows "\<exists>st'. backtest_bars e name cfg now cs is st = Inr st'"
proof (induction "is" arbitrary: st)
  case (Cons i "is")
  obtain st1 where "backtest_bar e name cfg now cs i st = Inr st1"
    using backtest_bar_total[where e = e, OF assms] by blast
  with Cons.IH[of st1] show ?case by simp
qed simp

lemma run_backtest_total:
  assumes "\<And>cx. cx_candles cx \<noteq> [] \<Longrightarrow> \<exists>s. e cx now = Inr s" and "cs \<noteq> []"
  shows "\<exists>r. run_backtest e name cfg now cs = Inr r"
proof -
  obtain st where "backtest_bars e name cfg now cs [0..<length cs] (initial_backtest_state cfg) = Inr st"
    using backtest_bars_total[where e = e, OF assms] by blast
  with assms(2) show ?thesis by (simp add: run_backtest_def Let_def)
qed

lemma sample_backtest:
  "\<exists>r. run_backtest (crossover_evaluate sample_crossover) ''EMA Crossover'' default_backtest_config 7
     (cx_candles sample_strategy_context) = Inr r"
proof (rule run_backtest_total)
  show "\<exists>s. crossover_evaluate sample_crossover cx 7 = Inr s" if "cx_candles cx \<noteq> []" for cx
    by (rule crossover_total[OF that]) (simp_all add: sample_crossover_def crossover_defaults_def)
qed (simp add: sample_strategy_context_def)

subsection \<open>Properties\<close>

text \<open>
  C33. The backtest does not look ahead. Cutting the data after \<open>n\<close> bars cuts the equity curve after
  \<open>n\<close> points, and changes no trade that was closed before the cut: the two runs agree on all
  trades but the one the shorter run may close at the end of its data.
\<close>

theorem backtest_no_lookahead:
  assumes "run_backtest evaluate name cfg now cs = Inr r" and "0 < n" "n \<le> length cs"
  shows "\<exists>r' k. run_backtest evaluate name cfg now (take n cs) = Inr r'
    \<and> br_equity_curve r' = take n (br_equity_curve r)
    \<and> take k (br_trades r') = take k (br_trades r) \<and> length (br_trades r') \<le> k + 1"
proof -
  let ?s0 = "initial_backtest_state cfg"
  obtain st where full: "backtest_bars evaluate name cfg now cs [0..<length cs] ?s0 = Inr st"
    and r: "br_trades r = bs_trades (force_close cfg cs st)" "br_equity_curve r = bs_equity_curve st"
    using run_backtest_bars[OF assms(1)] by metis
  have up: "[0..<length cs] = [0..<n] @ [n..<length cs]" 
    using upt_add_eq_append[of 0 n "length cs - n"] assms(3) by simp
  from full obtain st1 where st1: "backtest_bars evaluate name cfg now cs [0..<n] ?s0 = Inr st1"
    and rest: "backtest_bars evaluate name cfg now cs [n..<length cs] st1 = Inr st"
    unfolding up backtest_bars_append by (auto split: sum.splits)
  let ?fin = "force_close cfg (take n cs) st1"
  have "backtest_bars evaluate name cfg now (take n cs) [0..<length (take n cs)] ?s0 = Inr st1" "take n cs \<noteq> []"
    using st1 assms(2,3) backtest_bars_take[OF assms(3)] by (auto simp: min_def)
  then have "\<exists>r'. run_backtest evaluate name cfg now (take n cs) = Inr r'
      \<and> br_trades r' = bs_trades ?fin \<and> br_equity_curve r' = bs_equity_curve st1"
    unfolding run_backtest_def by (simp only: Let_def sum.case if_False simp_thms) simp
  then obtain r' where r': "run_backtest evaluate name cfg now (take n cs) = Inr r'"
    "br_trades r' = bs_trades ?fin" "br_equity_curve r' = bs_equity_curve st1" by blast
  have "length (bs_equity_curve st1) = n"
    using backtest_bars_adds[OF st1] by (auto simp: initial_backtest_state_def dest: arg_cong[where f = length])
  moreover obtain es ts where "bs_equity_curve st = bs_equity_curve st1 @ es" "bs_trades st = bs_trades st1 @ ts"
    using backtest_bars_adds[OF rest] by blast
  moreover obtain us where "br_trades r = bs_trades st @ us" using force_close_trades r by metis
  moreover obtain vs where "br_trades r' = bs_trades st1 @ vs" "length vs \<le> 1" using force_close_trades r' by metis
  ultimately show ?thesis
    using r' r by (intro exI[of _ r'] exI[of _ "length (bs_trades st1)"]) simp
qed

theorem backtest_no_lookahead_witness:
  "\<exists>r r'. run_backtest (crossover_evaluate sample_crossover) ''EMA Crossover'' default_backtest_config 7
       (cx_candles sample_strategy_context) = Inr r
     \<and> run_backtest (crossover_evaluate sample_crossover) ''EMA Crossover'' default_backtest_config 7
       (take 3 (cx_candles sample_strategy_context)) = Inr r'
     \<and> br_equity_curve r' = take 3 (br_equity_curve r)"
proof -
  obtain r where r: "run_backtest (crossover_evaluate sample_crossover) ''EMA Crossover'' default_backtest_config 7
      (cx_candles sample_strategy_context) = Inr r" using sample_backtest by blast
  have "length (cx_candles sample_strategy_context) = 4" by (simp add: sample_strategy_context_def)
  with backtest_no_lookahead[OF r, of 3] r show ?thesis by auto
qed

text \<open>
  The trades of a backtest are a history. On bars in strictly increasing order, every reported
  trade is a long one of a positive quantity that was closed, at a price and not before it was
  opened; the trades follow one another (there is never more than one position), all within the
  data; and the equity curve has one point per bar, at its time.
\<close>

lemma backtest_trades_history:
  assumes "run_backtest evaluate name cfg now cs = Inr r" and "sorted_wrt (<) (map c_open_time cs)"
  shows "(\<forall>t \<in> set (br_trades r). trade_closed t \<and> the (bt_exit_time t) \<le> c_open_time (last cs))
    \<and> trades_ordered (br_trades r) \<and> map fst (br_equity_curve r) = map c_open_time cs"
proof -
  obtain st where ne: "cs \<noteq> []"
    and bars: "backtest_bars evaluate name cfg now cs [0..<length cs] (initial_backtest_state cfg) = Inr st"
    and r: "br_trades r = bs_trades (force_close cfg cs st)"
    using run_backtest_bars[OF assms(1)] by metis
  have "backtest_ok (c_open_time (cs ! 0)) (initial_backtest_state cfg)"
    by (simp add: backtest_ok_def initial_backtest_state_def trades_ordered_def)
  then have "backtest_ok (c_open_time (last cs)) st"
    using backtest_bars_ok[OF bars] ne assms(2) by (simp add: last_conv_nth)
  from force_close_ok[OF this, of cfg] show ?thesis
    using run_backtest_curve[OF assms(1)] r by (auto simp: backtest_ok_def)
qed

lemma backtest_trades_history_witness:
  "\<exists>r. run_backtest (crossover_evaluate sample_crossover) ''EMA Crossover'' default_backtest_config 7
       (cx_candles sample_strategy_context) = Inr r \<and> map fst (br_equity_curve r) = [1, 2, 3, 4]"
proof -
  obtain r where r: "run_backtest (crossover_evaluate sample_crossover) ''EMA Crossover'' default_backtest_config 7
      (cx_candles sample_strategy_context) = Inr r" using sample_backtest by blast
  have "map c_open_time (cx_candles sample_strategy_context) = [1, 2, 3, 4]"
    by (simp add: sample_strategy_context_def sample_candle_def)
  with backtest_trades_history[OF r] r show ?thesis by simp
qed

lemma win_rate_fraction:
  assumes "m \<le> n" "0 < n"
  shows "0 \<le> ddiv (of_nat m) (of_nat n) \<and> ddiv (of_nat m) (of_nat n) \<le> 1"
proof -
  have "(of_nat m / of_nat n :: decimal) \<le> 1" using assms by simp
  then have "ctx (of_nat m / of_nat n) \<le> ctx 1" by (rule ctx_mono)
  then show ?thesis by (simp add: ddiv_def ctx.rnd_nonneg)
qed

text \<open>
  The metrics measure what they name: the winning (losing) streak is the length of the longest
  block of consecutive trades with a positive (negative) result, the win rate is a fraction, and
  the maximal drawdown of an equity that never goes negative is a fraction.
\<close>

lemma backtest_metrics:
  assumes "m = compute_metrics trades curve initial_cash final_equity"
    and "representable initial_cash" "0 \<le> initial_cash"
    and "\<forall>(t, q) \<in> set curve. representable q \<and> 0 \<le> q"
  shows "0 \<le> pm_max_drawdown m \<and> pm_max_drawdown m \<le> 1 \<and> 0 \<le> pm_win_rate m \<and> pm_win_rate m \<le> 1
    \<and> (\<exists>i. block (\<lambda>p. 0 < p) (map bt_pnl trades) i (pm_consecutive_wins m))
    \<and> (\<forall>i n. block (\<lambda>p. 0 < p) (map bt_pnl trades) i n \<longrightarrow> n \<le> pm_consecutive_wins m)
    \<and> (\<exists>i. block (\<lambda>p. p < 0) (map bt_pnl trades) i (pm_consecutive_losses m))
    \<and> (\<forall>i n. block (\<lambda>p. p < 0) (map bt_pnl trades) i n \<longrightarrow> n \<le> pm_consecutive_losses m)"
proof -
  have "pm_max_drawdown m = snd (foldl drawdown_step (initial_cash, 0) (map snd curve))"
    by (simp add: assms(1) compute_metrics_def Let_def max_drawdown_def)
  moreover have "\<forall>q \<in> set (map snd curve). representable q \<and> 0 \<le> q" using assms(4) by auto
  ultimately have dd: "0 \<le> pm_max_drawdown m \<and> pm_max_drawdown m \<le> 1"
    using drawdown_fold_bounds[of initial_cash 0 "map snd curve"] assms(2,3) by simp
  have "length (filter (\<lambda>p. 0 < p) (map bt_pnl trades)) \<le> length trades"
    by (metis length_filter_le length_map)
  then have "0 \<le> pm_win_rate m \<and> pm_win_rate m \<le> 1"
    using win_rate_fraction[of _ "length trades"] assms(1) by (simp add: compute_metrics_def Let_def)
  with dd max_streak_longest[of "map bt_pnl trades"]
  show ?thesis by (simp add: assms(1) compute_metrics_def Let_def)
qed

lemma backtest_metrics_witness:
  "0 \<le> pm_max_drawdown (compute_metrics [] [(1, 100), (2, 80)] 100 80)"
proof -
  have "representable 100" "representable 80"
    using representable_ctx[of 100] representable_ctx[of 80] by simp_all
  with backtest_metrics[OF refl, of 100 "[(1, 100), (2, 80)]" "[]" 80] show ?thesis by simp
qed

text \<open>
  The result of a trade leaves out the fee of its entry. A position of 10 bought and closed at
  100 with a fee of one percent and no other cost takes 20 out of the cash, 10 for each fee; the
  trade reports fees of 20 and a result of -10, so the results of the trades do not add up to
  the net return, and a trade that loses its entry fee counts as a win or as flat.
\<close>

lemma backtest_pnl_omits_entry_fee:
  "let cfg = \<lparr>bc_initial_cash = 10000, bc_fee_rate = 1 / 100, bc_slippage_rate = 0, bc_spread_rate = 0,
         bc_position_size_fraction = 1 / 10\<rparr>;
       bar = sample_candle 1 100;
       sg = \<lparr>sg_strategy_name = ''s'', sg_strategy_version = ''1'', sg_symbol = ''BTC/USDT'', sg_timestamp = 0,
         sg_direction = SigBuy, sg_confidence = 1, sg_rationale = ''r'', sg_suggested_stop = None,
         sg_suggested_target = None, sg_suggested_entry = None, sg_fingerprint = FpEmpty\<rparr>;
       st = force_close cfg [bar] (act_on_signal cfg ''s'' bar sg (initial_backtest_state cfg))
   in bs_cash st = 10000 - 20 \<and> map bt_fees (bs_trades st) = [20] \<and> map bt_pnl (bs_trades st) = [- 10]"
  by (simp add: Let_def sample_candle_def act_on_signal_def enter_position_def force_close_def
      close_position_def initial_backtest_state_def size_position_def apply_costs_def dec_ops
      quantize_def half_even_def ctx_uminus)

end
