(* ===== verification/Trade_Journal.thy ===== *)
theory Trade_Journal
  imports Paper_Properties Backtest
begin

text \<open>
  The journal of closed trades, \<open>app/analytics/trade_journal.py\<close> with
  \<open>app/analytics/recorder.py\<close>, and the performance report over it,
  \<open>app/analytics/performance.py\<close>.

  A \<open>ClosedTradeORM\<close> row has the fields of the trade (without \<open>created_at\<close>), so the table is a
  dictionary from the identifier to the trade as it is stored; what the numeric column types do
  to a decimal is the argument \<open>col\<close> of the writing operations. A database fault is the argument
  \<open>fault\<close> of \<open>persist_closed_trades\<close>: the number of trades after which the session raises. The
  \<open>ILIKE\<close> test of the text filter is the argument \<open>matches\<close> of \<open>list_trades\<close>, and rows of equal
  exit time come in table order. The payload of a trade is left out, and so are the diagnostic
  texts. An equity point keeps its time, absent when the point has none, and its equity; the
  times are in UTC.
\<close>

subsection \<open>Closed trades\<close>

record closed_trade =
  ct_id :: string
  ct_strategy_name :: string
  ct_symbol :: string
  ct_side :: string
  ct_entry_time :: timestamp
  ct_exit_time :: timestamp
  ct_entry_price :: decimal
  ct_exit_price :: decimal
  ct_quantity :: decimal
  ct_fees :: decimal
  ct_slippage :: decimal
  ct_gross_pnl :: decimal
  ct_net_pnl :: decimal
  ct_roi_pct :: decimal
  ct_duration_seconds :: int
  ct_exit_reason :: string
  ct_risk_score :: decimal
  ct_market_regime :: string
  ct_paper_session_id :: string
  ct_order_id :: "string option"
  ct_fill_id :: "string option"
  ct_correlation_id :: "string option"

text \<open>\<open>order.strategy_name or position.strategy_name or "unknown"\<close>.\<close>

definition trade_strategy :: "string option \<Rightarrow> string option \<Rightarrow> string" where
  "trade_strategy a b =
     (case a of Some (x # xs) \<Rightarrow> x # xs | _ \<Rightarrow>
      (case b of Some (x # xs) \<Rightarrow> x # xs | _ \<Rightarrow> ''unknown''))"

definition build_closed_trade :: "position \<Rightarrow> order \<Rightarrow> fill \<Rightarrow> decimal \<Rightarrow> decimal \<Rightarrow> string \<Rightarrow> string
  \<Rightarrow> decimal \<Rightarrow> string \<Rightarrow> string option \<Rightarrow> closed_trade" where
  "build_closed_trade p od fl fr sr sid exit_reason risk_score regime corr =
     (let qty = f_quantity fl;
          entry = p_entry_price p;
          exit_px = f_price fl;
          entry_fee = quantize 8 (dmul (dmul entry qty) fr);
          fees = quantize 8 (dadd entry_fee (f_fee fl));
          slippage = quantize 8 (dmul (dmul exit_px qty) sr);
          gross = quantize 8 (dmul (dsub exit_px entry) qty);
          net = quantize 8 (dsub gross fees);
          notional = dmul entry qty;
          roi = (if notional > 0 then quantize 4 (dmul (ddiv net notional) 100) else 0)
      in \<lparr>ct_id = ''ct-'' @ f_id fl,
          ct_strategy_name = trade_strategy (o_strategy_name od) (p_strategy_name p),
          ct_symbol = o_symbol od, ct_side = (if o_side od = Sell then ''sell'' else ''buy''),
          ct_entry_time = p_opened_at p, ct_exit_time = f_timestamp fl,
          ct_entry_price = entry, ct_exit_price = exit_px, ct_quantity = qty, ct_fees = fees,
          ct_slippage = slippage, ct_gross_pnl = gross, ct_net_pnl = net, ct_roi_pct = roi,
          ct_duration_seconds = max 0 ((f_timestamp fl - p_opened_at p) div seconds 1),
          ct_exit_reason = exit_reason, ct_risk_score = risk_score, ct_market_regime = regime,
          ct_paper_session_id = sid, ct_order_id = Some (o_id od), ct_fill_id = Some (f_id fl),
          ct_correlation_id = corr\<rparr>)"

definition classify_market_regime :: "decimal option \<Rightarrow> decimal option \<Rightarrow> string" where
  "classify_market_regime rsi_val atr_pct =
     (if rsi_val = None \<and> atr_pct = None then ''unclassified''
      else if (case rsi_val of Some r \<Rightarrow> r \<ge> 70 | None \<Rightarrow> False) then ''overbought''
      else if (case rsi_val of Some r \<Rightarrow> r \<le> 30 | None \<Rightarrow> False) then ''oversold''
      else if (case atr_pct of Some a \<Rightarrow> a \<ge> 3 / 100 | None \<Rightarrow> False) then ''high_volatility''
      else if (case atr_pct of Some a \<Rightarrow> a \<le> 5 / 1000 | None \<Rightarrow> False) then ''low_volatility''
      else ''ranging'')"

definition risk_score_from_context :: "decimal \<Rightarrow> nat \<Rightarrow> bool \<Rightarrow> decimal" where
  "risk_score_from_context drawdown losses kill_switch =
     (if kill_switch then 100
      else
        let score = dadd 10 (min 40 (dmul drawdown 100));
            score' = dadd score (dmul (of_nat (min losses 10)) 5)
        in min 100 (quantize 2 score'))"

text \<open>\<open>market_regime or classify_market_regime(rsi_val=rsi_val)\<close> is \<open>unclassified\<close> for every caller here.\<close>

definition maybe_build_closed_trade :: "position option \<Rightarrow> order \<Rightarrow> fill list \<Rightarrow> decimal \<Rightarrow> decimal
  \<Rightarrow> string \<Rightarrow> string \<Rightarrow> decimal \<Rightarrow> nat \<Rightarrow> bool \<Rightarrow> string option \<Rightarrow> decimal option \<Rightarrow> string option
  \<Rightarrow> closed_trade list" where
  "maybe_build_closed_trade before od fills fr sr sid exit_reason drawdown losses
     kill_switch regime rsi_val corr =
     (case before of None \<Rightarrow> []
      | Some p \<Rightarrow>
          if o_side od \<noteq> Sell then []
          else if o_status od \<notin> {Filled, PartiallyFilled} then []
          else
            let reg = (case regime of Some (c # cs) \<Rightarrow> c # cs | _ \<Rightarrow> classify_market_regime rsi_val None);
                score = risk_score_from_context drawdown losses kill_switch
            in map (\<lambda>fl. build_closed_trade p od fl fr sr sid exit_reason score reg corr)
                 (filter (\<lambda>f. f_order_id f = o_id od) fills))"

subsection \<open>The journal table\<close>

type_synonym trade_table = "(string, closed_trade) dict"

text \<open>What the numeric columns make of the decimals of a trade.\<close>

definition to_row :: "(decimal \<Rightarrow> decimal) \<Rightarrow> (decimal \<Rightarrow> decimal) \<Rightarrow> closed_trade \<Rightarrow> closed_trade" where
  "to_row col score_col t =
     t\<lparr>ct_entry_price := col (ct_entry_price t), ct_exit_price := col (ct_exit_price t),
       ct_quantity := col (ct_quantity t), ct_fees := col (ct_fees t),
       ct_slippage := col (ct_slippage t), ct_gross_pnl := col (ct_gross_pnl t),
       ct_net_pnl := col (ct_net_pnl t), ct_roi_pct := col (ct_roi_pct t),
       ct_risk_score := score_col (ct_risk_score t)\<rparr>"

definition journal_record :: "(decimal \<Rightarrow> decimal) \<Rightarrow> (decimal \<Rightarrow> decimal) \<Rightarrow> closed_trade \<Rightarrow> trade_table
  \<Rightarrow> bool \<times> trade_table" where
  "journal_record col score_col t tbl =
     (if map_of tbl (ct_id t) \<noteq> None then (False, tbl)
      else (True, AList.update (ct_id t) (to_row col score_col t) tbl))"

definition journal_get :: "string \<Rightarrow> trade_table \<Rightarrow> closed_trade option" where
  "journal_get tid tbl = map_of tbl tid"

definition list_trades :: "(string \<Rightarrow> string \<Rightarrow> bool) \<Rightarrow> string option \<Rightarrow> string option \<Rightarrow> string option
  \<Rightarrow> string option \<Rightarrow> int \<Rightarrow> int \<Rightarrow> trade_table \<Rightarrow> closed_trade list" where
  "list_trades matches symbol strategy side q limit offset tbl =
     (let given = (\<lambda>x. case x of None \<Rightarrow> False | Some t \<Rightarrow> t \<noteq> []);
          rows = sort_key (\<lambda>t. - ct_exit_time t) (dict_values tbl);
          r1 = (if given symbol then filter (\<lambda>t. ct_symbol t = py_upper (the symbol)) rows else rows);
          r2 = (if given strategy then filter (\<lambda>t. ct_strategy_name t = the strategy) r1 else r1);
          r3 = (if given side then filter (\<lambda>t. ct_side t = py_lower (the side)) r2 else r2);
          r4 = (if given q then filter (\<lambda>t. matches (the q) (ct_symbol t)
                  \<or> matches (the q) (ct_strategy_name t) \<or> matches (the q) (ct_id t)) r3 else r3)
      in take (nat (min (max limit 1) 500)) (drop (nat (max 0 offset)) r4))"

definition all_trades :: "trade_table \<Rightarrow> closed_trade list" where
  "all_trades tbl = sort_key ct_exit_time (dict_values tbl)"

text \<open>The writes of one session: the number of new rows and the table.\<close>

fun record_all :: "(decimal \<Rightarrow> decimal) \<Rightarrow> (decimal \<Rightarrow> decimal) \<Rightarrow> closed_trade list \<Rightarrow> nat \<Rightarrow> trade_table
  \<Rightarrow> nat \<times> trade_table" where
  "record_all col score_col [] n tbl = (n, tbl)"
| "record_all col score_col (t # ts) n tbl =
     (case journal_record col score_col t tbl of
        (new, tbl') \<Rightarrow> record_all col score_col ts (if new then n + 1 else n) tbl')"

text \<open>
  The best-effort write: when the session raises after \<open>k\<close> trades nothing is committed, and the
  number of rows counted so far is still returned.
\<close>

definition persist_closed_trades :: "(decimal \<Rightarrow> decimal) \<Rightarrow> (decimal \<Rightarrow> decimal) \<Rightarrow> nat option
  \<Rightarrow> closed_trade list \<Rightarrow> trade_table \<Rightarrow> nat \<times> trade_table" where
  "persist_closed_trades col score_col fault trades tbl =
     (case fault of
        None \<Rightarrow> record_all col score_col trades 0 tbl
      | Some k \<Rightarrow> (fst (record_all col score_col (take k trades) 0 tbl), tbl))"

subsection \<open>The performance report\<close>

record equity_point =
  ep_time :: "timestamp option"
  ep_equity :: decimal
  ep_drawdown :: "decimal option"

definition days :: "int \<Rightarrow> int" where
  "days n = seconds (n * 86400)"

definition period_pnl :: "closed_trade list \<Rightarrow> equity_point list \<Rightarrow> timestamp \<Rightarrow> int \<Rightarrow> decimal" where
  "period_pnl trades curve now n =
     (let cutoff = now - days n;
          in_window = concat (map (\<lambda>p. case ep_time p of
              Some ts \<Rightarrow> if ts \<ge> cutoff then [(ts, ep_equity p)] else []
            | None \<Rightarrow> []) curve)
      in if length in_window \<ge> 2 then
           let sorted = sort_key fst in_window in dsub (snd (last sorted)) (snd (hd sorted))
         else dsum (map ct_net_pnl (filter (\<lambda>t. ct_exit_time t \<ge> cutoff) trades)))"

record performance_snapshot =
  sn_current_balance :: decimal
  sn_starting_balance :: decimal
  sn_unrealised_pnl :: decimal
  sn_realised_pnl :: decimal
  sn_daily_pnl :: decimal
  sn_weekly_pnl :: decimal
  sn_monthly_pnl :: decimal
  sn_roi_pct :: decimal
  sn_win_rate :: decimal
  sn_loss_rate :: decimal
  sn_profit_factor :: decimal
  sn_average_win :: decimal
  sn_average_loss :: decimal
  sn_largest_win :: decimal
  sn_largest_loss :: decimal
  sn_maximum_drawdown :: decimal
  sn_consecutive_wins :: nat
  sn_consecutive_losses :: nat
  sn_average_holding_time :: decimal
  sn_total_fees :: decimal
  sn_total_simulated_volume :: decimal
  sn_trade_count :: nat
  sn_open_position_count :: nat

text \<open>
  The streaks and the drawdown are the same loops as those of the backtest metrics
  (\<^const>\<open>max_streak\<close>, \<^const>\<open>max_drawdown\<close>); the drawdown takes the current balance as its last point.
\<close>

definition compute_performance :: "decimal \<Rightarrow> closed_trade list \<Rightarrow> decimal \<Rightarrow> decimal \<Rightarrow> decimal option
  \<Rightarrow> equity_point list \<Rightarrow> nat \<Rightarrow> timestamp \<Rightarrow> performance_snapshot" where
  "compute_performance start trades balance unrealised realised curve open_count now =
     (let pnls = map ct_net_pnl trades;
          wins = filter (\<lambda>p. p > 0) pnls;
          losses = filter (\<lambda>p. p < 0) pnls;
          n = length trades;
          gross_profit = dsum wins;
          gross_loss = dabs (dsum losses)
      in \<lparr>sn_current_balance = balance, sn_starting_balance = start,
          sn_unrealised_pnl = unrealised,
          sn_realised_pnl = (case realised of Some r \<Rightarrow> r | None \<Rightarrow> dsum pnls),
          sn_daily_pnl = period_pnl trades curve now 1,
          sn_weekly_pnl = period_pnl trades curve now 7,
          sn_monthly_pnl = period_pnl trades curve now 30,
          sn_roi_pct = (if start > 0 then dmul (dsub (ddiv balance start) 1) 100 else 0),
          sn_win_rate = (if n \<noteq> 0 then ddiv (of_nat (length wins)) (of_nat n) else 0),
          sn_loss_rate = (if n \<noteq> 0 then ddiv (of_nat (length losses)) (of_nat n) else 0),
          sn_profit_factor = (if gross_loss > 0 then ddiv gross_profit gross_loss
             else if gross_profit > 0 then 999999 else 0),
          sn_average_win = (if wins \<noteq> [] then ddiv (dsum wins) (of_nat (length wins)) else 0),
          sn_average_loss = (if losses \<noteq> [] then ddiv (dsum losses) (of_nat (length losses)) else 0),
          sn_largest_win = (if wins \<noteq> [] then Max (set wins) else 0),
          sn_largest_loss = (if losses \<noteq> [] then Min (set losses) else 0),
          sn_maximum_drawdown = max_drawdown start (map ep_equity curve @ [balance]),
          sn_consecutive_wins = max_streak pnls True,
          sn_consecutive_losses = max_streak pnls False,
          sn_average_holding_time =
            (if n \<noteq> 0 then ddiv (of_int (sum_list (map ct_duration_seconds trades))) (of_nat n) else 0),
          sn_total_fees = dsum (map ct_fees trades),
          sn_total_simulated_volume =
            dadd (dsum (map (\<lambda>t. dmul (ct_entry_price t) (ct_quantity t)) trades))
                 (dsum (map (\<lambda>t. dmul (ct_exit_price t) (ct_quantity t)) trades)),
          sn_trade_count = n, sn_open_position_count = open_count\<rparr>)"

subsection \<open>Rankings and histories\<close>

text \<open>\<open>setdefault(key, []).append(x)\<close> over a list: the groups in order of first appearance.\<close>

definition group_add :: "('a \<Rightarrow> 'k) \<Rightarrow> 'a \<Rightarrow> ('k, 'a list) dict \<Rightarrow> ('k, 'a list) dict" where
  "group_add key x d =
     AList.update (key x) ((case map_of d (key x) of Some xs \<Rightarrow> xs | None \<Rightarrow> []) @ [x]) d"

definition group_by :: "('a \<Rightarrow> 'k) \<Rightarrow> 'a list \<Rightarrow> ('k, 'a list) dict" where
  "group_by key xs = fold (group_add key) xs []"

record ranking_row =
  rk_strategy_name :: string
  rk_trade_count :: nat
  rk_net_pnl :: decimal
  rk_win_rate :: decimal
  rk_total_fees :: decimal
  rk_capital_allocation :: decimal
  rk_avg_roi_pct :: decimal
  rk_rank :: nat

definition winners :: "closed_trade list \<Rightarrow> nat" where
  "winners ts = length (filter (\<lambda>t. ct_net_pnl t > 0) ts)"

definition ranking_of :: "decimal \<Rightarrow> string \<Rightarrow> closed_trade list \<Rightarrow> ranking_row" where
  "ranking_of start name ts =
     (let n = length ts; volume = dsum (map (\<lambda>t. dmul (ct_entry_price t) (ct_quantity t)) ts)
      in \<lparr>rk_strategy_name = name, rk_trade_count = n,
          rk_net_pnl = quantize 2 (dsum (map ct_net_pnl ts)),
          rk_win_rate = (if n \<noteq> 0 then quantize 4 (ddiv (of_nat (winners ts)) (of_nat n)) else 0),
          rk_total_fees = quantize 8 (dsum (map ct_fees ts)),
          rk_capital_allocation = quantize 4 (if start > 0 then ddiv volume start else 0),
          rk_avg_roi_pct = (if n \<noteq> 0 then quantize 4 (ddiv (dsum (map ct_roi_pct ts)) (of_nat n)) else 0),
          rk_rank = 0\<rparr>)"

text \<open>
  A sort with \<open>reverse=True\<close> keeps equal rows in their order, so it is the sort by the negated key.
\<close>

definition strategy_rankings :: "decimal \<Rightarrow> closed_trade list \<Rightarrow> decimal option \<Rightarrow> ranking_row list" where
  "strategy_rankings own trades starting =
     (let start = or_else starting own;
          rows = map (\<lambda>(name, ts). ranking_of start name ts) (group_by ct_strategy_name trades);
          sorted = sort_key (\<lambda>r. - rk_net_pnl r) rows
      in map2 (\<lambda>i r. r\<lparr>rk_rank := i\<rparr>) [1..<Suc (length sorted)] sorted)"

text \<open>
  The year and month of a UTC time, as \<open>strftime\<close> prints them: the proleptic Gregorian calendar
  with years counted from the first of March of the year 0.
\<close>

definition civil_month :: "timestamp \<Rightarrow> int \<times> int" where
  "civil_month t =
     (let z = t div days 1 + 719468;
          era = z div 146097;
          doe = z mod 146097;
          yoe = (doe - doe div 1460 + doe div 36524 - doe div 146096) div 365;
          doy = doe - (365 * yoe + yoe div 4 - yoe div 100);
          mp = (5 * doy + 2) div 153;
          mo = (if mp < 10 then mp + 3 else mp - 9)
      in (yoe + era * 400 + (if mo \<le> 2 then 1 else 0), mo))"

record monthly_row =
  mr_month :: "int \<times> int"
  mr_trade_count :: nat
  mr_net_pnl :: decimal
  mr_win_rate :: decimal

definition monthly_performance :: "closed_trade list \<Rightarrow> monthly_row list" where
  "monthly_performance trades =
     map (\<lambda>(mo, ts). \<lparr>mr_month = mo, mr_trade_count = length ts,
            mr_net_pnl = quantize 2 (dsum (map ct_net_pnl ts)),
            mr_win_rate = (if ts \<noteq> [] then quantize 4 (ddiv (of_nat (winners ts)) (of_nat (length ts))) else 0)\<rparr>)
       (sort_key (\<lambda>(mo, ts). 12 * fst mo + snd mo) (group_by (\<lambda>t. civil_month (ct_exit_time t)) trades))"

record equity_series =
  es_balance :: "(timestamp option \<times> decimal) list"
  es_drawdown :: "(timestamp option \<times> decimal) list"
  es_daily_return :: "(int \<times> decimal) list"

fun series_drawdowns :: "decimal \<Rightarrow> equity_point list \<Rightarrow> (timestamp option \<times> decimal) list" where
  "series_drawdowns peak [] = []"
| "series_drawdowns peak (p # ps) =
     (let peak' = max peak (ep_equity p);
          dd = (if peak' > 0 then ddiv (dsub peak' (ep_equity p)) peak' else 0);
          shown = (case ep_drawdown p of Some d \<Rightarrow> d | None \<Rightarrow> dd)
      in (ep_time p, quantize 4 shown) # series_drawdowns peak' ps)"

definition day_closes :: "equity_point list \<Rightarrow> (int, decimal) dict" where
  "day_closes ps =
     fold (\<lambda>p d. case ep_time p of Some t \<Rightarrow> AList.update (t div days 1) (ep_equity p) d | None \<Rightarrow> d) ps []"

fun daily_returns :: "decimal \<Rightarrow> (int \<times> decimal) list \<Rightarrow> (int \<times> decimal) list" where
  "daily_returns prev [] = []"
| "daily_returns prev ((day, eq) # ds) =
     (day, quantize 4 (dmul (if prev > 0 then ddiv (dsub eq prev) prev else 0) 100)) # daily_returns eq ds"

definition build_equity_series :: "equity_point list \<Rightarrow> decimal \<Rightarrow> equity_series" where
  "build_equity_series ps start =
     \<lparr>es_balance = map (\<lambda>p. (ep_time p, quantize 2 (ep_equity p))) ps,
      es_drawdown = series_drawdowns start ps,
      es_daily_return = daily_returns start (sort_key fst (day_closes ps))\<rparr>"

subsection \<open>Amounts of a closed trade\<close>

lemma quantize_mono: "x \<le> y \<Longrightarrow> quantize d x \<le> quantize d y"
  by (simp add: quantize_def divide_right_mono half_even_mono)

lemma quantize_nonpos: "x \<le> 0 \<Longrightarrow> quantize d x \<le> 0"
  using quantize_mono [of x 0 d] half_even_of_int [of 0] by (simp add: quantize_def)

lemma quantize_grid: "on_grid d x \<Longrightarrow> quantize d x = x"
  by (auto simp: on_grid_def quantize_def)

text \<open>
  The net result of a closed trade is its gross result less its round-trip fees, exactly
  (for amounts below the limit), the fees are not negative, and a trade shows a net profit only
  when it sold above its entry price.
\<close>

lemma closed_trade_net:
  fixes p fl od fr sr sid reason score regime corr
  defines "t \<equiv> build_closed_trade p od fl fr sr sid reason score regime corr"
  assumes "0 \<le> fr" and "0 \<le> f_fee fl" and "0 < f_quantity fl" and "0 \<le> p_entry_price p"
    and "\<bar>ct_gross_pnl t\<bar> + ct_fees t < amount_limit"
  shows "ct_net_pnl t = ct_gross_pnl t - ct_fees t \<and> 0 \<le> ct_fees t
    \<and> (ct_net_pnl t > 0 \<longrightarrow> f_price fl > p_entry_price p)"
proof -
  have fees: "0 \<le> ct_fees t" and grid: "on_grid 8 (ct_fees t)" "on_grid 8 (ct_gross_pnl t)"
    using assms by (simp_all add: t_def build_closed_trade_def Let_def quantize_nonneg dadd_nonneg dmul_nonneg)
  have g: "on_grid 8 (ct_gross_pnl t - ct_fees t)" using grid by (rule on_grid_diff [rotated])
  have "\<bar>ct_gross_pnl t - ct_fees t\<bar> * 10 ^ 8 < 10 ^ 28"
    using assms(6) fees by simp
  then have "quantize 8 (dsub (ct_gross_pnl t) (ct_fees t)) = ct_gross_pnl t - ct_fees t"
    unfolding dsub_def using g by (simp add: ctx_on_grid quantize_grid)
  then have net: "ct_net_pnl t = ct_gross_pnl t - ct_fees t"
    by (simp add: t_def build_closed_trade_def Let_def)
  have "ct_gross_pnl t \<le> 0" if "f_price fl \<le> p_entry_price p"
  proof -
    have "dmul (dsub (f_price fl) (p_entry_price p)) (f_quantity fl) \<le> 0"
      using that assms(4) by (simp add: dmul_def ctx.rnd_nonpos mult_nonpos_nonneg)
    from quantize_nonpos [OF this, of 8] show ?thesis
      by (simp add: t_def build_closed_trade_def Let_def)
  qed
  moreover have "ct_gross_pnl t > 0" if "ct_net_pnl t > 0" using that net fees by linarith
  ultimately have "ct_net_pnl t > 0 \<longrightarrow> f_price fl > p_entry_price p" by (meson not_le)
  with net fees show ?thesis by blast
qed

subsection \<open>The journal\<close>

lemma journal_record_cases:
  "journal_record col sc t tbl =
    (if ct_id t \<in> fst ` set tbl then (False, tbl) else (True, tbl @ [(ct_id t, to_row col sc t)]))"
proof -
  have "AList.update k v d = d @ [(k, v)]" if "k \<notin> fst ` set d" for k :: string and v and d :: trade_table
    using that by (induction d) auto
  then show ?thesis by (auto simp: journal_record_def map_of_eq_None_iff)
qed

lemma record_all_count: "record_all col sc ts n tbl = (n + fst (record_all col sc ts 0 tbl), snd (record_all col sc ts 0 tbl))"
proof (induction ts arbitrary: n tbl)
  case (Cons t ts)
  show ?case
    using Cons [of n tbl] Cons [of "n + 1" "snd (journal_record col sc t tbl)"]
      Cons [of 1 "snd (journal_record col sc t tbl)"]
    by (cases "ct_id t \<in> fst ` set tbl") (simp_all add: journal_record_cases)
qed simp

lemma record_all_spec:
  "\<exists>rows. record_all col sc ts 0 tbl = (length rows, tbl @ rows)
    \<and> fst ` set (tbl @ rows) = fst ` set tbl \<union> ct_id ` set ts
    \<and> (distinct (map fst tbl) \<longrightarrow> distinct (map fst (tbl @ rows)))"
proof (induction ts arbitrary: tbl)
  case (Cons t ts)
  show ?case
  proof (cases "ct_id t \<in> fst ` set tbl")
    case True
    with Cons [of tbl] show ?thesis
      by (simp add: journal_record_cases insert_absorb Un_insert_left [symmetric] del: Un_insert_left)
  next
    case False
    define r where "r = (ct_id t, to_row col sc t)"
    from Cons [of "tbl @ [r]"] obtain rows where
      rows: "record_all col sc ts 0 (tbl @ [r]) = (length rows, (tbl @ [r]) @ rows)"
        "fst ` set ((tbl @ [r]) @ rows) = fst ` set (tbl @ [r]) \<union> ct_id ` set ts"
        "distinct (map fst (tbl @ [r])) \<longrightarrow> distinct (map fst ((tbl @ [r]) @ rows))"
      by blast
    have "record_all col sc (t # ts) 0 tbl = (length (r # rows), tbl @ r # rows)"
      using False rows(1) record_all_count [of col sc ts 1 "tbl @ [r]"]
      by (simp add: journal_record_cases r_def)
    moreover have "fst ` set (tbl @ r # rows) = fst ` set tbl \<union> ct_id ` set (t # ts)"
      using rows(2) by (simp add: r_def)
    moreover have "distinct (map fst tbl) \<longrightarrow> distinct (map fst (tbl @ r # rows))"
      using rows(3) False by (simp add: r_def)
    ultimately show ?thesis by blast
  qed
qed simp

lemma record_all_known: "ct_id ` set ts \<subseteq> fst ` set tbl \<Longrightarrow> record_all col sc ts n tbl = (n, tbl)"
  by (induction ts) (auto simp: journal_record_cases)

text \<open>
  The journal is idempotent: writing trades keeps every row that was there, counts exactly
  the rows it added, writing the same trades again adds none, and a session that fails leaves the
  table as it was.
\<close>

lemma journal_idempotent:
  assumes "persist_closed_trades col sc fault ts tbl = (n, tbl')" and "distinct_keys tbl"
  shows "distinct_keys tbl'
    \<and> (\<forall>k r. map_of tbl k = Some r \<longrightarrow> map_of tbl' k = Some r)
    \<and> (fault = None \<longrightarrow> length tbl' = length tbl + n
         \<and> fst ` set tbl' = fst ` set tbl \<union> ct_id ` set ts
         \<and> persist_closed_trades col sc None ts tbl' = (0, tbl'))
    \<and> (fault \<noteq> None \<longrightarrow> tbl' = tbl)"
proof (cases fault)
  case (Some k)
  with assms show ?thesis by (simp add: persist_closed_trades_def)
next
  case None
  from record_all_spec [of col sc ts tbl] obtain rows where
    r: "tbl' = tbl @ rows" "n = length rows" "fst ` set tbl' = fst ` set tbl \<union> ct_id ` set ts"
      "distinct (map fst tbl) \<longrightarrow> distinct (map fst tbl')"
    using assms(1) None by (auto simp: persist_closed_trades_def simp del: set_append map_append)
  have "persist_closed_trades col sc None ts tbl' = (0, tbl')"
    using r(3) by (simp add: persist_closed_trades_def record_all_known)
  with r assms(2) None show ?thesis by (auto simp: distinct_keys_def map_add_def split: option.splits)
qed

text \<open>The decimals of a trade have at most eighteen places, the scale of the columns.\<close>

definition fits_columns :: "closed_trade \<Rightarrow> bool" where
  "fits_columns t \<longleftrightarrow> (\<forall>x \<in> {ct_entry_price t, ct_exit_price t, ct_quantity t, ct_fees t,
     ct_slippage t, ct_gross_pnl t, ct_net_pnl t, ct_roi_pct t}. on_grid 18 x) \<and> on_grid 6 (ct_risk_score t)"


subsection \<open>Rankings\<close>

lemma group_by_snoc: "group_by key (xs @ [x]) = group_add key x (group_by key xs)"
  by (simp add: group_by_def)

lemma group_by_Nil [simp]: "group_by key [] = []"
  by (simp add: group_by_def)

lemma group_by_distinct: "distinct_keys (group_by key xs)"
  by (induction xs rule: rev_induct) (simp_all add: group_by_snoc group_add_def)

lemma group_by_map:
  "map_of (group_by key xs) k =
    (if k \<in> key ` set xs then Some (filter (\<lambda>x. key x = k) xs) else None)"
proof (induction xs rule: rev_induct)
  case (snoc x xs)
  have "filter (\<lambda>y. key y = k) xs = []" if "k \<notin> key ` set xs"
    using that by (auto simp: filter_empty_conv)
  with snoc show ?case by (auto simp: group_by_snoc group_add_def map_of_update_if)
qed simp

lemma group_by_total: "int (sum_list (map length (dict_values (group_by key xs)))) = int (length xs)"
proof (induction xs rule: rev_induct)
  case (snoc x xs)
  let ?d = "group_by key xs"
  have i: "int (sum_list (map length l)) = sum_list (map (\<lambda>g. int (length g)) l)" for l :: "'a list list"
    by (induction l) simp_all
  show ?case
  proof (cases "map_of ?d (key x)")
    case None
    then show ?thesis
      using snoc sum_list_insert_dict [OF None, of "\<lambda>g. int (length g)" "[x]"]
      by (simp add: group_by_snoc group_add_def i)
  next
    case (Some g)
    then show ?thesis
      using snoc sum_list_update_dict [OF group_by_distinct Some, of "\<lambda>g. int (length g)" "g @ [x]"]
      by (simp add: group_by_snoc group_add_def i)
  qed
qed (simp add: dict_values_def)

lemma group_by_entry:
  "(k, g) \<in> set (group_by key xs) \<Longrightarrow> k \<in> key ` set xs \<and> g = filter (\<lambda>x. key x = k) xs"
  using group_by_map [of key xs k] group_by_distinct [of key xs]
  by (auto simp: distinct_keys_def split: if_splits)

lemma group_by_keys: "fst ` set (group_by key xs) = key ` set xs"
proof -
  have "k \<in> fst ` set (group_by key xs) \<longleftrightarrow> k \<in> key ` set xs" for k
    using group_by_map [of key xs k] map_of_eq_None_iff [of "group_by key xs" k]
    by (cases "k \<in> key ` set xs") auto
  then show ?thesis by blast
qed

lemma map_map2_right: "length ns = length rs \<Longrightarrow> (\<And>i r. g (f i r) = g r) \<Longrightarrow> map g (map2 f ns rs) = map g rs"
  by (induction ns rs rule: list_induct2) simp_all

lemma map_map2_left: "length ns = length rs \<Longrightarrow> (\<And>i r. g (f i r) = i) \<Longrightarrow> map g (map2 f ns rs) = ns"
  by (induction ns rs rule: list_induct2) simp_all

lemma ranking_of_fields [simp]:
  "rk_strategy_name (ranking_of start name ts) = name"
  "rk_trade_count (ranking_of start name ts) = length ts"
  "rk_net_pnl (ranking_of start name ts) = quantize 2 (dsum (map ct_net_pnl ts))"
  by (simp_all add: ranking_of_def Let_def)

text \<open>
  The rankings account for every trade: one row per strategy that traded, with all of its
  trades and their net result, numbered from one in the order of falling net result.
\<close>

lemma rankings_partition:
  assumes "rows = strategy_rankings own trades starting"
  shows "map rk_rank rows = [1..<Suc (length rows)]
    \<and> sorted_wrt (\<lambda>a b. rk_net_pnl b \<le> rk_net_pnl a) rows
    \<and> distinct (map rk_strategy_name rows)
    \<and> set (map rk_strategy_name rows) = ct_strategy_name ` set trades
    \<and> sum_list (map rk_trade_count rows) = length trades
    \<and> (\<forall>r \<in> set rows. let ts = filter (\<lambda>t. ct_strategy_name t = rk_strategy_name r) trades in
         rk_trade_count r = length ts \<and> rk_net_pnl r = quantize 2 (dsum (map ct_net_pnl ts)))"
proof -
  let ?gs = "group_by ct_strategy_name trades"
  define start where "start = or_else starting own"
  define rs where "rs = map (\<lambda>(name, ts). ranking_of start name ts) ?gs"
  define ordered where "ordered = sort_key (\<lambda>r. - rk_net_pnl r) rs"
  have rows: "rows = map2 (\<lambda>i r. r\<lparr>rk_rank := i\<rparr>) [1..<Suc (length ordered)] ordered"
    by (simp only: assms strategy_rankings_def Let_def start_def rs_def ordered_def)
  have len: "length rows = length ordered" by (simp add: rows del: upt_Suc)
  have same: "map g rows = map g ordered" if "\<And>i r. g (r\<lparr>rk_rank := i\<rparr>) = g r" for g :: "ranking_row \<Rightarrow> 'x"
    unfolding rows by (rule map_map2_right) (simp_all add: that del: upt_Suc)
  have perm: "mset (map g ordered) = mset (map g rs)" for g :: "ranking_row \<Rightarrow> 'x"
    by (simp add: ordered_def)
  have ranks: "map rk_rank rows = [1..<Suc (length rows)]"
    unfolding len by (subst rows, rule map_map2_left) (simp_all del: upt_Suc)
  have "sorted (map (\<lambda>r. - rk_net_pnl r) rows)"
    by (subst same) (simp_all add: ordered_def)
  then have order: "sorted_wrt (\<lambda>a b. rk_net_pnl b \<le> rk_net_pnl a) rows" by (simp add: sorted_map)
  have names: "map rk_strategy_name rs = map fst ?gs" by (simp add: rs_def case_prod_beta)
  have dist: "distinct (map rk_strategy_name rows)"
    using group_by_distinct [of ct_strategy_name trades] mset_eq_imp_distinct_iff [OF perm [of rk_strategy_name]]
    by (subst same) (simp_all add: names distinct_keys_def)
  have key: "set (map rk_strategy_name rows) = ct_strategy_name ` set trades"
    using group_by_keys [of ct_strategy_name trades] mset_eq_setD [OF perm [of rk_strategy_name]]
    by (subst same) (simp_all add: names)
  have "map rk_trade_count rs = map length (dict_values ?gs)"
    by (simp add: rs_def dict_values_def case_prod_beta)
  then have "sum_list (map rk_trade_count rs) = length trades"
    using group_by_total [of ct_strategy_name trades] by simp
  then have total: "sum_list (map rk_trade_count rows) = length trades"
    using perm [of rk_trade_count] by (subst same) (simp_all add: sum_mset_sum_list [symmetric] del: mset_map)
  have "let ts = filter (\<lambda>t. ct_strategy_name t = rk_strategy_name r) trades in
      rk_trade_count r = length ts \<and> rk_net_pnl r = quantize 2 (dsum (map ct_net_pnl ts))"
    if "r \<in> set rows" for r
  proof -
    have "(rk_strategy_name r, rk_trade_count r, rk_net_pnl r)
        \<in> set (map (\<lambda>r. (rk_strategy_name r, rk_trade_count r, rk_net_pnl r)) rows)"
      using that by force
    then have "(rk_strategy_name r, rk_trade_count r, rk_net_pnl r)
        \<in> set (map (\<lambda>r. (rk_strategy_name r, rk_trade_count r, rk_net_pnl r)) rs)"
      by (subst (asm) same) (simp_all add: ordered_def)
    then obtain name ts where g: "(name, ts) \<in> set ?gs" "rk_strategy_name r = name"
        "rk_trade_count r = length ts" "rk_net_pnl r = quantize 2 (dsum (map ct_net_pnl ts))"
      by (auto simp: rs_def)
    from group_by_entry [OF g(1)] g show ?thesis by (simp add: Let_def)
  qed
  with ranks order dist key total show ?thesis by blast
qed

subsection \<open>The risk score\<close>

lemma risk_score_mono:
  assumes "d \<le> d'" and "l \<le> l'"
  shows "risk_score_from_context d l False \<le> risk_score_from_context d' l' False"
proof -
  have "dadd 10 (min 40 (dmul d 100)) \<le> dadd 10 (min 40 (dmul d' 100))"
    unfolding dadd_def dmul_def using assms(1)
    by (intro ctx_mono add_left_mono min.mono order.refl) simp
  moreover have "dmul (of_nat (min l 10)) 5 \<le> dmul (of_nat (min l' 10)) 5"
    unfolding dmul_def using assms(2) by (intro ctx_mono) simp
  ultimately have "dadd (dadd 10 (min 40 (dmul d 100))) (dmul (of_nat (min l 10)) 5)
      \<le> dadd (dadd 10 (min 40 (dmul d' 100))) (dmul (of_nat (min l' 10)) 5)"
    unfolding dadd_def [of "dadd 10 x" for x] by (intro ctx_mono add_mono)
  from quantize_mono [OF this, of 2] show ?thesis
    by (simp add: risk_score_from_context_def Let_def min.coboundedI2 min_le_iff_disj)
qed

text \<open>
  The risk score lies between ten and a hundred, is a hundred under the kill switch, and
  never falls when the drawdown or the number of losses grows.
\<close>

lemma risk_score_bounds:
  assumes "0 \<le> d"
  shows "10 \<le> risk_score_from_context d l k \<and> risk_score_from_context d l k \<le> 100
    \<and> risk_score_from_context d l True = 100
    \<and> (\<forall>d' l'. d \<le> d' \<and> l \<le> l' \<longrightarrow> risk_score_from_context d l k \<le> risk_score_from_context d' l' k)"
proof -
  have "risk_score_from_context 0 0 False = 10"
    by (simp add: risk_score_from_context_def dec_ops quantize_def half_even_def)
  then have "10 \<le> risk_score_from_context d l False" using risk_score_mono [OF assms, of 0 l] by simp
  then show ?thesis
    using risk_score_mono by (cases k) (auto simp: risk_score_from_context_def Let_def)
qed

subsection \<open>A concrete trade\<close>

definition sample_position :: position where
  "sample_position = \<lparr>p_symbol = ''BTC/USDT'', p_quantity = 1, p_entry_price = 100,
     p_current_price = 110, p_unrealized_pnl = 10, p_realized_pnl = 0, p_opened_at = 0,
     p_strategy_name = None, p_stop_loss = None, p_take_profit = None\<rparr>"

definition sample_exit :: order where
  "sample_exit = sample_order\<lparr>o_side := Sell, o_status := Filled\<rparr>"

definition sample_fill :: fill where
  "sample_fill = \<lparr>f_id = ''f1'', f_order_id = ''order-1'', f_symbol = ''BTC/USDT'', f_side = Sell,
     f_quantity = 1, f_price = 110, f_fee = 11 / 100, f_timestamp = 60000000\<rparr>"

definition sample_trade :: closed_trade where
  "sample_trade = build_closed_trade sample_position sample_exit sample_fill (1 / 1000) (5 / 10000)
     ''session'' ''signal_exit'' 10 ''unclassified'' None"

lemmas sample_trade_defs = sample_trade_def build_closed_trade_def sample_position_def sample_exit_def
  sample_fill_def sample_order_def trade_strategy_def seconds_def Let_def

lemma sample_trade_amounts:
  "ct_gross_pnl sample_trade = 10" "ct_fees sample_trade = 21 / 100" "ct_net_pnl sample_trade = 979 / 100"
  "ct_slippage sample_trade = 55 / 1000" "ct_roi_pct sample_trade = 979 / 100" "ct_id sample_trade = ''ct-f1''"
  "ct_entry_price sample_trade = 100" "ct_exit_price sample_trade = 110" "ct_quantity sample_trade = 1"
  "ct_risk_score sample_trade = 10"
  by (simp_all add: sample_trade_defs, simp_all add: dec_ops quantize_def half_even_def)

lemma closed_trade_net_witness:
  "ct_net_pnl sample_trade = ct_gross_pnl sample_trade - ct_fees sample_trade
    \<and> 0 \<le> ct_fees sample_trade
    \<and> (ct_net_pnl sample_trade > 0 \<longrightarrow> f_price sample_fill > p_entry_price sample_position)"
  unfolding sample_trade_def
  by (rule closed_trade_net; (fold sample_trade_def)?)
    (simp_all add: sample_trade_amounts, simp_all add: sample_fill_def sample_position_def)

lemma to_row_id [simp]: "to_row (\<lambda>x. x) (\<lambda>x. x) t = t"
  by (simp add: to_row_def)

lemma sample_trade_record: "journal_record (\<lambda>x. x) (\<lambda>x. x) sample_trade [] = (True, [(''ct-f1'', sample_trade)])"
  by (simp add: journal_record_cases sample_trade_amounts)

lemma sample_persist:
  "persist_closed_trades (\<lambda>x. x) (\<lambda>x. x) None [sample_trade, sample_trade] [] = (1, [(''ct-f1'', sample_trade)])"
  by (simp add: persist_closed_trades_def sample_trade_record journal_record_cases sample_trade_amounts)

lemma journal_idempotent_witness:
  "persist_closed_trades (\<lambda>x. x) (\<lambda>x. x) None [sample_trade, sample_trade] [(''ct-f1'', sample_trade)]
    = (0, [(''ct-f1'', sample_trade)])"
  using journal_idempotent [OF sample_persist] by (simp add: sample_trade_amounts)


lemma rankings_partition_witness:
  "sum_list (map rk_trade_count (strategy_rankings 10000 [sample_trade, sample_trade] None)) = 2"
  using rankings_partition [OF refl, of 10000 "[sample_trade, sample_trade]" None] by simp

lemma risk_score_bounds_witness:
  "10 \<le> risk_score_from_context (1 / 10) 3 False \<and> risk_score_from_context (1 / 10) 3 False \<le> 100"
  using risk_score_bounds [of "1 / 10" 3 False] by simp

end
