(* ===== verification/Orchestrator.thy ===== *)
theory Orchestrator
  imports Gateway Strategies Trade_Journal
begin

text \<open>
  The trading orchestrator, \<open>app/services/trading_orchestrator.py\<close>: one strategy, one paper
  engine, one risk engine behind the gateway. The dataclass is split into its configuration
  \<open>orchestrator_config\<close> and its mutable part \<open>orchestrator\<close>; the settings of the orchestrator and
  those of its risk engine are two fields, because a shared risk engine brings its own.

  \<open>orchestrator_env\<close> holds what a call reads from outside: the clock (\<open>oe_now\<close> for the readings
  of the orchestrator itself, the two readings of the risk engine), the environments of the two
  calls into the paper engine, whether the shared paper session is paused and owns this paper
  engine, and which journal writes raise. A journal write that raises only counts an error. The
  writes that went through are \<open>or_journal\<close>; the closed trades given to the recorder are
  \<open>or_closed_trades\<close> (\<open>Trade_Journal\<close> holds what the recorder does with them). A method returns its
  result, or the exception that leaves it, together with the state.

  Candle times are whole seconds, for which the floating-point product of \<open>to_unix_ms\<close> is exact.
\<close>

subsection \<open>Configuration and state\<close>

record orchestrator_config =
  oc_strategy :: strategy
  oc_session_id :: string
  oc_settings :: settings
  oc_risk_settings :: settings
  oc_paper :: paper_config
  oc_entry_size_fraction :: decimal
  oc_max_candle_age_seconds :: "int option"
  oc_kill_switch_enabled :: "bool option"
  oc_journal :: bool

record orchestrator_stats =
  sx_candles_received :: nat
  sx_candles_rejected :: nat
  sx_signals_generated :: nat
  sx_hold_decisions :: nat
  sx_risk_approvals :: nat
  sx_risk_rejections :: nat
  sx_paper_orders :: nat
  sx_fills :: nat
  sx_fees :: decimal
  sx_errors :: nat

definition zero_stats :: orchestrator_stats where
  "zero_stats = \<lparr>sx_candles_received = 0, sx_candles_rejected = 0, sx_signals_generated = 0,
     sx_hold_decisions = 0, sx_risk_approvals = 0, sx_risk_rejections = 0, sx_paper_orders = 0,
     sx_fills = 0, sx_fees = 0, sx_errors = 0\<rparr>"

datatype journal_write =
    WSignal trade_signal "string option"
  | WRisk string risk_evaluation
  | WOrder order
  | WFill fill
  | WEvent string string string

record orchestrator =
  or_paper :: paper_state
  or_risk :: risk_state
  or_stats :: orchestrator_stats
  or_seen_candles :: "(string \<times> timestamp) set"
  or_last_open_time :: "(string, timestamp) dict"
  or_seen_signal_fps :: "fingerprint set"
  or_journaled_fill_ids :: "string set"
  or_bars_held :: "(string, nat) dict"
  or_window :: "(string, candle list) dict"
  or_peak_equity :: decimal
  or_consecutive_losses :: nat
  or_max_drawdown :: decimal
  or_journal :: "journal_write list"
  or_closed_trades :: "closed_trade list"

record orchestrator_env =
  oe_now :: timestamp
  oe_md_now :: timestamp
  oe_risk_now :: timestamp
  oe_mark :: paper_env
  oe_submit :: paper_env
  oe_paused :: bool
  oe_fails :: "journal_write \<Rightarrow> bool"

definition new_orchestrator :: "orchestrator_config \<Rightarrow> paper_state \<Rightarrow> risk_state \<Rightarrow> orchestrator" where
  "new_orchestrator cfg ps rs = \<lparr>or_paper = ps, or_risk = rs, or_stats = zero_stats,
     or_seen_candles = {}, or_last_open_time = [], or_seen_signal_fps = {},
     or_journaled_fill_ids = {}, or_bars_held = [], or_window = [],
     or_peak_equity = pc_initial_cash (oc_paper cfg), or_consecutive_losses = 0,
     or_max_drawdown = 0, or_journal = [], or_closed_trades = []\<rparr>"

record candle_outcome =
  co_accepted :: bool
  co_reject_reason :: "string option"
  co_signal_direction :: "signal_direction option"
  co_order_id :: "string option"
  co_order_status :: "order_status option"
  co_risk_decision :: "risk_decision option"
  co_risk_reason_code :: "risk_reason option"

definition bare_outcome :: "bool \<Rightarrow> string option \<Rightarrow> candle_outcome" where
  "bare_outcome accepted_flag reason = \<lparr>co_accepted = accepted_flag, co_reject_reason = reason,
     co_signal_direction = None, co_order_id = None, co_order_status = None,
     co_risk_decision = None, co_risk_reason_code = None\<rparr>"

subsection \<open>Journaling\<close>

definition count_error :: "orchestrator \<Rightarrow> orchestrator" where
  "count_error s = s\<lparr>or_stats := (or_stats s)\<lparr>sx_errors := sx_errors (or_stats s) + 1\<rparr>\<rparr>"

definition write_journal :: "orchestrator_config \<Rightarrow> orchestrator_env \<Rightarrow> journal_write \<Rightarrow> orchestrator \<Rightarrow> orchestrator" where
  "write_journal cfg env w s =
     (if \<not> oc_journal cfg then s
      else if oe_fails env w then count_error s
      else s\<lparr>or_journal := or_journal s @ [w]\<rparr>)"

definition journal_fill :: "orchestrator_config \<Rightarrow> orchestrator_env \<Rightarrow> order \<Rightarrow> fill \<Rightarrow> orchestrator \<Rightarrow> orchestrator" where
  "journal_fill cfg env od fl s =
     (if f_order_id fl \<noteq> o_id od \<or> f_id fl \<in> or_journaled_fill_ids s then s
      else write_journal cfg env (WFill fl)
        (s\<lparr>or_journaled_fill_ids := insert (f_id fl) (or_journaled_fill_ids s),
           or_stats := (or_stats s)\<lparr>sx_fills := sx_fills (or_stats s) + 1,
                                    sx_fees := dadd (sx_fees (or_stats s)) (f_fee fl)\<rparr>\<rparr>))"

definition journal_new_fills :: "orchestrator_config \<Rightarrow> orchestrator_env \<Rightarrow> order \<Rightarrow> orchestrator \<Rightarrow> orchestrator" where
  "journal_new_fills cfg env od s = fold (journal_fill cfg env od) (ps_fills (or_paper s)) s"

subsection \<open>Candle validation\<close>

definition reject_reason :: "orchestrator_config \<Rightarrow> timestamp \<Rightarrow> candle \<Rightarrow> orchestrator \<Rightarrow> string option" where
  "reject_reason cfg now c s =
     (if \<not> c_is_closed c then Some ''INCOMPLETE_CANDLE''
      else if (c_symbol c, c_open_time c) \<in> or_seen_candles s then Some ''DUPLICATE_CANDLE''
      else if (case map_of (or_last_open_time s) (c_symbol c) of
                 Some t \<Rightarrow> c_open_time c \<le> t | None \<Rightarrow> False)
      then Some ''OUT_OF_ORDER_CANDLE''
      else if (case oc_max_candle_age_seconds cfg of
                 Some age \<Rightarrow> now - c_open_time c > seconds age | None \<Rightarrow> False)
      then Some ''STALE_CANDLE''
      else None)"

text \<open>What priming and processing do with a candle that is not rejected.\<close>

definition window_of :: "orchestrator \<Rightarrow> string \<Rightarrow> candle list" where
  "window_of s sy = (case map_of (or_window s) sy of Some w \<Rightarrow> w | None \<Rightarrow> [])"

definition admit_candle :: "orchestrator_config \<Rightarrow> paper_env \<Rightarrow> candle \<Rightarrow> orchestrator \<Rightarrow> orchestrator" where
  "admit_candle cfg v c s =
     (let sy = c_symbol c in
      s\<lparr>or_seen_candles := insert (sy, c_open_time c) (or_seen_candles s),
        or_last_open_time := AList.update sy (c_open_time c) (or_last_open_time s),
        or_window := AList.update sy (window_of s sy @ [c]) (or_window s),
        or_paper := set_mark_price (oc_paper cfg) v sy (c_close c) (or_paper s)\<rparr>)"

text \<open>Each candle comes with the environment of its call into the paper engine.\<close>

definition prime_candle :: "orchestrator_config \<Rightarrow> timestamp \<Rightarrow> paper_env \<times> candle \<Rightarrow> nat \<times> orchestrator
  \<Rightarrow> nat \<times> orchestrator" where
  "prime_candle cfg now vc acc =
     (let (v, c) = vc; (n, s) = acc in
      if reject_reason cfg now c s \<noteq> None then (n, s) else (n + 1, admit_candle cfg v c s))"

definition prime_candles :: "orchestrator_config \<Rightarrow> timestamp \<Rightarrow> (paper_env \<times> candle) list \<Rightarrow> orchestrator
  \<Rightarrow> nat \<times> orchestrator" where
  "prime_candles cfg now vcs s = fold (prime_candle cfg now) vcs (0, s)"

subsection \<open>Portfolio and risk context\<close>

definition orchestrator_equity :: "orchestrator \<Rightarrow> decimal" where
  "orchestrator_equity s =
     foldl (\<lambda>total p. dadd total (dmul (p_quantity p) (p_current_price p)))
       (dadd (ps_cash (or_paper s)) (ps_reserved_cash (or_paper s)))
       (dict_values (ps_positions (or_paper s)))"

definition orchestrator_portfolio :: "orchestrator_config \<Rightarrow> orchestrator \<Rightarrow> portfolio_state \<times> orchestrator" where
  "orchestrator_portfolio cfg s =
     (let equity = orchestrator_equity s;
          peak = max (or_peak_equity s) equity;
          ps = dict_values (ps_positions (or_paper s))
      in (\<lparr>pf_cash_balance = ps_cash (or_paper s), pf_equity = equity,
           pf_realized_pnl = ps_realized_pnl (or_paper s),
           pf_unrealized_pnl = dsum (map p_unrealized_pnl ps),
           pf_daily_pnl = dsub equity (pc_initial_cash (oc_paper cfg)),
           pf_peak_equity = peak,
           pf_drawdown = (if peak > 0 then ddiv (dsub peak equity) peak else 0),
           pf_open_positions = ps, pf_consecutive_losses = or_consecutive_losses s\<rparr>,
          s\<lparr>or_peak_equity := peak\<rparr>))"

definition orchestrator_kill :: "orchestrator_config \<Rightarrow> bool" where
  "orchestrator_kill cfg =
     (case oc_kill_switch_enabled cfg of Some k \<Rightarrow> k | None \<Rightarrow> st_kill_switch_enabled (oc_settings cfg))"

definition orchestrator_context :: "orchestrator_config \<Rightarrow> timestamp \<Rightarrow> decimal \<Rightarrow> orchestrator
  \<Rightarrow> risk_context \<times> orchestrator" where
  "orchestrator_context cfg now mark s =
     (let (pf, s') = orchestrator_portfolio cfg s
      in (\<lparr>cx_portfolio = pf, cx_symbol_info = None, cx_mark_price = Some mark,
           cx_market_data_ts = Some now, cx_trading_mode = st_trading_mode (oc_settings cfg),
           cx_live_trading_enabled = st_live_trading_enabled (oc_settings cfg),
           cx_kill_switch_enabled = orchestrator_kill cfg,
           cx_has_exchange_credentials = has_exchange_credentials (oc_settings cfg),
           cx_live_approval_valid = False\<rparr>, s'))"

definition update_drawdown :: "orchestrator_config \<Rightarrow> orchestrator \<Rightarrow> orchestrator" where
  "update_drawdown cfg s =
     (let s1 = snd (orchestrator_portfolio cfg s);
          equity = orchestrator_equity s1 in
      if or_peak_equity s1 > 0
      then s1\<lparr>or_max_drawdown := max (or_max_drawdown s1)
              (ddiv (dsub (or_peak_equity s1) equity) (or_peak_equity s1))\<rparr>
      else s1)"

subsection \<open>From a signal to a request\<close>

fun decimal_digits :: "nat \<Rightarrow> string" where
  "decimal_digits n =
     (if n < 10 then [char_of (48 + n)] else decimal_digits (n div 10) @ [char_of (48 + n mod 10)])"

declare decimal_digits.simps [simp del]

definition int_text :: "int \<Rightarrow> string" where
  "int_text k = (if k < 0 then CHR ''-'' # decimal_digits (nat (- k)) else decimal_digits (nat k))"

definition to_unix_ms :: "timestamp \<Rightarrow> int" where
  "to_unix_ms t = t div 1000"

definition candle_order_id :: "orchestrator_config \<Rightarrow> candle \<Rightarrow> signal_direction \<Rightarrow> string" where
  "candle_order_id cfg c dir =
     take 8 (oc_session_id cfg) @ ''-'' @ filter (\<lambda>x. x \<noteq> CHR ''/'') (c_symbol c) @ ''-''
     @ int_text (to_unix_ms (c_open_time c)) @ ''-'' @ signal_direction_value dir"

definition entry_quantity :: "orchestrator_config \<Rightarrow> decimal \<Rightarrow> paper_state \<Rightarrow> decimal" where
  "entry_quantity cfg price ps =
     (if price \<le> 0 then 0
      else quantize 8 (ddiv (dmul (ps_cash ps) (oc_entry_size_fraction cfg)) price))"

text \<open>The request a signal asks for, or \<open>None\<close> where the method returns before building it.\<close>

definition signal_request :: "orchestrator_config \<Rightarrow> candle \<Rightarrow> trade_signal \<Rightarrow> paper_state \<Rightarrow> order_request option" where
  "signal_request cfg c sg ps =
     (let held = map_of (ps_positions ps) (c_symbol c);
          mark = c_close c;
          coid = candle_order_id cfg c (sg_direction sg);
          build = (\<lambda>side qty stop target reduce.
            if qty \<le> 0 then None
            else Some \<lparr>rq_symbol = c_symbol c, rq_side = side, rq_order_type = Market,
              rq_quantity = qty, rq_price = None, rq_stop_loss = stop, rq_take_profit = target,
              rq_strategy_name = Some (strategy_name (oc_strategy cfg)), rq_signal_id = None,
              rq_idempotency_key = coid, rq_client_order_id = Some coid, rq_reduce_only = reduce,
              rq_metadata = empty_meta\<rparr>)
      in if sg_direction sg = SigBuy then
           (case held of Some p \<Rightarrow> None
            | None \<Rightarrow> build Buy (entry_quantity cfg mark ps) (sg_suggested_stop sg) (sg_suggested_target sg) False)
         else
           (case held of None \<Rightarrow> None
            | Some p \<Rightarrow> build Sell (p_quantity p) (Some (quantize 2 (dmul mark (999 / 1000)))) None True))"

subsection \<open>Acting on a signal\<close>

definition rejected_order :: "timestamp \<Rightarrow> order_request \<Rightarrow> risk_evaluation \<Rightarrow> order" where
  "rejected_order now rq ev =
     \<lparr>o_id = rq_idempotency_key rq,
      o_client_order_id = (case rq_client_order_id rq of
          Some c \<Rightarrow> if c \<noteq> [] then c else rq_idempotency_key rq | None \<Rightarrow> rq_idempotency_key rq),
      o_idempotency_key = rq_idempotency_key rq, o_symbol = rq_symbol rq, o_side = rq_side rq,
      o_order_type = rq_order_type rq, o_quantity = rq_quantity rq, o_filled_quantity = 0,
      o_price = rq_price rq, o_average_fill_price = None, o_status = Rejected,
      o_strategy_name = rq_strategy_name rq, o_signal_id = None,
      o_risk_decision = Some (ev_decision ev), o_risk_reason_code = Some (ev_reason_code ev),
      o_created_at = now, o_updated_at = now, o_fees = 0, o_metadata = empty_meta\<rparr>"

definition record_performance_trade :: "orchestrator_config \<Rightarrow> position option \<Rightarrow> order \<Rightarrow> string
  \<Rightarrow> orchestrator \<Rightarrow> orchestrator" where
  "record_performance_trade cfg before od exit_reason s =
     (let (pf, s1) = orchestrator_portfolio cfg s;
          fills = filter (\<lambda>f. f_order_id f = o_id od) (ps_fills (or_paper s1));
          trades = maybe_build_closed_trade before od fills (pc_fee_rate (oc_paper cfg))
            (pc_slippage_rate (oc_paper cfg)) (oc_session_id cfg) exit_reason (pf_drawdown pf)
            (or_consecutive_losses s1) (orchestrator_kill cfg) None None None
      in s1\<lparr>or_closed_trades := or_closed_trades s1 @ trades\<rparr>)"

text \<open>The bookkeeping after a fill: the bars of a new position, or the result of an exit.\<close>

definition after_fill :: "orchestrator_config \<Rightarrow> string \<Rightarrow> order_side \<Rightarrow> position option \<Rightarrow> decimal \<Rightarrow> order
  \<Rightarrow> orchestrator \<Rightarrow> orchestrator" where
  "after_fill cfg sy side before realized_before od s =
     (if o_status od \<notin> {Filled, PartiallyFilled} then s
      else if side = Buy then s\<lparr>or_bars_held := AList.update sy 0 (or_bars_held s)\<rparr>
      else
        let delta = dsub (ps_realized_pnl (or_paper s)) realized_before;
            losses = (if delta < 0 then or_consecutive_losses s + 1
                      else if delta > 0 then 0 else or_consecutive_losses s)
        in record_performance_trade cfg before od ''signal_exit''
             (s\<lparr>or_consecutive_losses := losses, or_bars_held := AList.delete sy (or_bars_held s)\<rparr>))"

definition submit_signal :: "orchestrator_config \<Rightarrow> orchestrator_env \<Rightarrow> candle \<Rightarrow> trade_signal \<Rightarrow> order_request
  \<Rightarrow> orchestrator \<Rightarrow> (py_error + order option) \<times> orchestrator" where
  "submit_signal cfg env c sg rq s =
     (let s1 = s\<lparr>or_seen_signal_fps := insert (sg_fingerprint sg) (or_seen_signal_fps s)\<rparr>;
          (cx, s2) = orchestrator_context cfg (oe_now env) (c_close c) s1;
          before = map_of (ps_positions (or_paper s2)) (c_symbol c);
          realized_before = ps_realized_pnl (or_paper s2);
          coid = rq_idempotency_key rq;
          (out, rs, ps) = gateway_submit (oc_risk_settings cfg) (submit (oc_paper cfg) (oe_submit env)) rq cx
            (oe_md_now env) (oe_risk_now env) (or_risk s2) (or_paper s2);
          s3 = s2\<lparr>or_risk := rs, or_paper := ps\<rparr>
      in case out of
           Inl (RiskBlocked ev) \<Rightarrow>
             let od = rejected_order (oe_now env) rq ev;
                 s4 = s3\<lparr>or_stats := (or_stats s3)\<lparr>sx_risk_rejections := sx_risk_rejections (or_stats s3) + 1\<rparr>\<rparr>
             in (Inr (Some od), write_journal cfg env (WOrder od) (write_journal cfg env (WRisk coid ev) s4))
         | Inl (BackendError e) \<Rightarrow> (Inl e, s3)
         | Inr od \<Rightarrow>
             let s4 = s3\<lparr>or_stats := (or_stats s3)\<lparr>sx_risk_approvals := sx_risk_approvals (or_stats s3) + 1,
                        sx_paper_orders := sx_paper_orders (or_stats s3) + 1\<rparr>\<rparr>;
                 ev = \<lparr>ev_decision = (case o_risk_decision od of Some d \<Rightarrow> d | None \<Rightarrow> RApproved),
                       ev_reason_code = (case o_risk_reason_code od of Some r \<Rightarrow> r | None \<Rightarrow> OK),
                       ev_approved_quantity = Some (o_quantity od)\<rparr>;
                 s5 = journal_new_fills cfg env od
                        (write_journal cfg env (WOrder od) (write_journal cfg env (WRisk coid ev) s4))
             in (Inr (Some od), after_fill cfg (c_symbol c) (rq_side rq) before realized_before od s5))"

text \<open>The guards before it: a fingerprint that acted, nothing to do, the shared session's pause.\<close>

definition act_on_candle_signal :: "orchestrator_config \<Rightarrow> orchestrator_env \<Rightarrow> candle \<Rightarrow> trade_signal
  \<Rightarrow> orchestrator \<Rightarrow> (py_error + order option) \<times> orchestrator" where
  "act_on_candle_signal cfg env c sg s =
     (if sg_fingerprint sg \<in> or_seen_signal_fps s then (Inr None, s)
      else
        case signal_request cfg c sg (or_paper s) of
          None \<Rightarrow> (Inr None, s)
        | Some rq \<Rightarrow> if oe_paused env then (Inr None, s) else submit_signal cfg env c sg rq s)"

subsection \<open>Processing a candle\<close>

definition held_bars :: "orchestrator \<Rightarrow> string \<Rightarrow> nat" where
  "held_bars s sy = (case map_of (or_bars_held s) sy of Some n \<Rightarrow> n | None \<Rightarrow> 0)"

definition evaluate_window :: "orchestrator_config \<Rightarrow> timestamp \<Rightarrow> string \<Rightarrow> candle list \<Rightarrow> orchestrator
  \<Rightarrow> (py_error + trade_signal) \<times> orchestrator" where
  "evaluate_window cfg now sy win s =
     (strategy_evaluate (oc_strategy cfg)
        \<lparr>cx_candles = win, cx_position = map_of (ps_positions (or_paper s)) sy,
         cx_bars_held = held_bars s sy\<rparr> now,
      snd (orchestrator_portfolio cfg s))"

definition count_signal :: "trade_signal \<Rightarrow> orchestrator \<Rightarrow> orchestrator" where
  "count_signal sg s = s\<lparr>or_stats := (or_stats s)\<lparr>
     sx_signals_generated := sx_signals_generated (or_stats s) + 1,
     sx_hold_decisions := sx_hold_decisions (or_stats s) + (if sg_direction sg = SigHold then 1 else 0)\<rparr>\<rparr>"

definition signal_outcome :: "trade_signal \<Rightarrow> order option \<Rightarrow> candle_outcome" where
  "signal_outcome sg od = \<lparr>co_accepted = True, co_reject_reason = None,
     co_signal_direction = Some (sg_direction sg), co_order_id = map_option o_id od,
     co_order_status = map_option o_status od,
     co_risk_decision = Option.bind od o_risk_decision,
     co_risk_reason_code = Option.bind od o_risk_reason_code\<rparr>"

definition receive_candle :: "orchestrator \<Rightarrow> orchestrator" where
  "receive_candle s = s\<lparr>or_stats := (or_stats s)\<lparr>sx_candles_received := sx_candles_received (or_stats s) + 1\<rparr>\<rparr>"

definition reject_candle :: "orchestrator_config \<Rightarrow> orchestrator_env \<Rightarrow> string \<Rightarrow> candle \<Rightarrow> orchestrator \<Rightarrow> orchestrator" where
  "reject_candle cfg env reason c s =
     write_journal cfg env (WEvent ''CANDLE_REJECTED'' reason (c_symbol c))
       (s\<lparr>or_stats := (or_stats s)\<lparr>sx_candles_rejected := sx_candles_rejected (or_stats s) + 1\<rparr>\<rparr>)"

definition hold_bar :: "string \<Rightarrow> orchestrator \<Rightarrow> orchestrator" where
  "hold_bar sy s =
     (if map_of (ps_positions (or_paper s)) sy \<noteq> None
      then s\<lparr>or_bars_held := AList.update sy (held_bars s sy + 1) (or_bars_held s)\<rparr> else s)"

definition follow_signal :: "orchestrator_config \<Rightarrow> orchestrator_env \<Rightarrow> candle \<Rightarrow> trade_signal \<Rightarrow> orchestrator
  \<Rightarrow> (py_error + candle_outcome) \<times> orchestrator" where
  "follow_signal cfg env c sg s =
     (let (res, s1) = (if sg_direction sg \<in> {SigBuy, SigSell, SigExit}
                       then act_on_candle_signal cfg env c sg s else (Inr None, s))
      in case res of
           Inl e \<Rightarrow> (Inl e, s1)
         | Inr od \<Rightarrow> (Inr (signal_outcome sg od),
                     update_drawdown cfg (write_journal cfg env (WSignal sg (map_option o_id od)) s1)))"

definition process_candle :: "orchestrator_config \<Rightarrow> orchestrator_env \<Rightarrow> candle \<Rightarrow> orchestrator
  \<Rightarrow> (py_error + candle_outcome) \<times> orchestrator" where
  "process_candle cfg env c s =
     (let s1 = receive_candle s in
      case reject_reason cfg (oe_now env) c s1 of
        Some reason \<Rightarrow> (Inr (bare_outcome False (Some reason)), reject_candle cfg env reason c s1)
      | None \<Rightarrow>
          let sy = c_symbol c;
              s2 = hold_bar sy (admit_candle cfg (oe_mark env) c s1);
              (res, s3) = evaluate_window cfg (oe_now env) sy (window_of s2 sy) s2
          in case res of
               Inl e \<Rightarrow> (Inr (bare_outcome True (Some ''STRATEGY_ERROR'')),
                 write_journal cfg env (WEvent ''STRATEGY_ERROR'' '''' sy) (count_error s3))
             | Inr sg \<Rightarrow> follow_signal cfg env c sg (count_signal sg s3))"

record orchestrator_snapshot =
  ox_session_id :: string
  ox_stats :: orchestrator_stats
  ox_fees :: decimal
  ox_realized_pnl :: decimal
  ox_unrealized_pnl :: decimal
  ox_current_balance :: decimal
  ox_equity :: decimal
  ox_max_drawdown :: decimal
  ox_open_positions :: nat

definition snapshot :: "orchestrator_config \<Rightarrow> orchestrator \<Rightarrow> orchestrator_snapshot \<times> orchestrator" where
  "snapshot cfg s =
     (let (pf, s') = orchestrator_portfolio cfg s in
      (\<lparr>ox_session_id = oc_session_id cfg, ox_stats = or_stats s,
        ox_fees = quantize 2 (sx_fees (or_stats s)),
        ox_realized_pnl = quantize 2 (pf_realized_pnl pf),
        ox_unrealized_pnl = quantize 2 (pf_unrealized_pnl pf),
        ox_current_balance = quantize 2 (pf_cash_balance pf),
        ox_equity = quantize 2 (pf_equity pf),
        ox_max_drawdown = quantize 4 (or_max_drawdown s),
        ox_open_positions = length (pf_open_positions pf)\<rparr>, s'))"

end
