(* ===== verification/Orchestrator_Properties.thy ===== *)
theory Orchestrator_Properties
  imports Orchestrator
begin

text \<open>
  What the orchestrator keeps: its candle windows, the long-only requests it builds, the path of
  every order through the risk engine, the well-formed ledger, and its equity statistics.
\<close>

subsection \<open>Frames\<close>

lemma count_error_frame [simp]:
  "or_paper (count_error s) = or_paper s" "or_risk (count_error s) = or_risk s"
  "or_seen_candles (count_error s) = or_seen_candles s"
  "or_last_open_time (count_error s) = or_last_open_time s" "or_window (count_error s) = or_window s"
  "or_peak_equity (count_error s) = or_peak_equity s" "or_max_drawdown (count_error s) = or_max_drawdown s"
  "or_seen_signal_fps (count_error s) = or_seen_signal_fps s"
  "or_bars_held (count_error s) = or_bars_held s" "or_consecutive_losses (count_error s) = or_consecutive_losses s"
  "or_closed_trades (count_error s) = or_closed_trades s"
  by (simp_all add: count_error_def)

lemma write_journal_frame [simp]:
  "or_paper (write_journal cfg env w s) = or_paper s" "or_risk (write_journal cfg env w s) = or_risk s"
  "or_seen_candles (write_journal cfg env w s) = or_seen_candles s"
  "or_last_open_time (write_journal cfg env w s) = or_last_open_time s"
  "or_window (write_journal cfg env w s) = or_window s"
  "or_peak_equity (write_journal cfg env w s) = or_peak_equity s"
  "or_max_drawdown (write_journal cfg env w s) = or_max_drawdown s"
  "or_seen_signal_fps (write_journal cfg env w s) = or_seen_signal_fps s"
  "or_bars_held (write_journal cfg env w s) = or_bars_held s"
  "or_consecutive_losses (write_journal cfg env w s) = or_consecutive_losses s"
  "or_closed_trades (write_journal cfg env w s) = or_closed_trades s"
  by (simp_all add: write_journal_def)

lemma journal_fill_frame [simp]:
  "or_paper (journal_fill cfg env od fl s) = or_paper s" "or_risk (journal_fill cfg env od fl s) = or_risk s"
  "or_seen_candles (journal_fill cfg env od fl s) = or_seen_candles s"
  "or_last_open_time (journal_fill cfg env od fl s) = or_last_open_time s"
  "or_window (journal_fill cfg env od fl s) = or_window s"
  "or_peak_equity (journal_fill cfg env od fl s) = or_peak_equity s"
  "or_max_drawdown (journal_fill cfg env od fl s) = or_max_drawdown s"
  by (simp_all add: journal_fill_def)

lemma fold_frame: "(\<And>x s. f (g x s) = f s) \<Longrightarrow> f (fold g xs s) = f s"
  by (induction xs arbitrary: s) simp_all

lemma journal_new_fills_frame [simp]:
  "or_paper (journal_new_fills cfg env od s) = or_paper s" "or_risk (journal_new_fills cfg env od s) = or_risk s"
  "or_seen_candles (journal_new_fills cfg env od s) = or_seen_candles s"
  "or_last_open_time (journal_new_fills cfg env od s) = or_last_open_time s"
  "or_window (journal_new_fills cfg env od s) = or_window s"
  "or_peak_equity (journal_new_fills cfg env od s) = or_peak_equity s"
  "or_max_drawdown (journal_new_fills cfg env od s) = or_max_drawdown s"
  unfolding journal_new_fills_def by (rule fold_frame, simp)+

lemma portfolio_frame [simp]:
  "or_paper (snd (orchestrator_portfolio cfg s)) = or_paper s" "or_risk (snd (orchestrator_portfolio cfg s)) = or_risk s"
  "or_seen_candles (snd (orchestrator_portfolio cfg s)) = or_seen_candles s"
  "or_last_open_time (snd (orchestrator_portfolio cfg s)) = or_last_open_time s"
  "or_window (snd (orchestrator_portfolio cfg s)) = or_window s"
  "or_max_drawdown (snd (orchestrator_portfolio cfg s)) = or_max_drawdown s"
  "or_peak_equity (snd (orchestrator_portfolio cfg s)) = max (or_peak_equity s) (orchestrator_equity s)"
  by (simp_all add: orchestrator_portfolio_def Let_def)

lemma equity_cong: "or_paper s = or_paper s' \<Longrightarrow> orchestrator_equity s = orchestrator_equity s'"
  by (simp add: orchestrator_equity_def)

lemma after_fill_frame [simp]:
  "or_paper (after_fill cfg sy side before rb od s) = or_paper s"
  "or_risk (after_fill cfg sy side before rb od s) = or_risk s"
  "or_seen_candles (after_fill cfg sy side before rb od s) = or_seen_candles s"
  "or_last_open_time (after_fill cfg sy side before rb od s) = or_last_open_time s"
  "or_window (after_fill cfg sy side before rb od s) = or_window s"
  "or_max_drawdown (after_fill cfg sy side before rb od s) = or_max_drawdown s"
  by (simp_all add: after_fill_def record_performance_trade_def orchestrator_portfolio_def Let_def)

lemma update_drawdown_frame [simp]:
  "or_paper (update_drawdown cfg s) = or_paper s" "or_risk (update_drawdown cfg s) = or_risk s"
  "or_seen_candles (update_drawdown cfg s) = or_seen_candles s"
  "or_last_open_time (update_drawdown cfg s) = or_last_open_time s"
  "or_window (update_drawdown cfg s) = or_window s"
  by (simp_all add: update_drawdown_def Let_def)

lemma hold_bar_frame [simp]:
  "or_paper (hold_bar sy s) = or_paper s" "or_risk (hold_bar sy s) = or_risk s"
  "or_seen_candles (hold_bar sy s) = or_seen_candles s"
  "or_last_open_time (hold_bar sy s) = or_last_open_time s" "or_window (hold_bar sy s) = or_window s"
  "or_peak_equity (hold_bar sy s) = or_peak_equity s" "or_max_drawdown (hold_bar sy s) = or_max_drawdown s"
  by (simp_all add: hold_bar_def)

lemma receive_candle_frame [simp]:
  "or_paper (receive_candle s) = or_paper s" "or_risk (receive_candle s) = or_risk s"
  "or_seen_candles (receive_candle s) = or_seen_candles s"
  "or_last_open_time (receive_candle s) = or_last_open_time s" "or_window (receive_candle s) = or_window s"
  "or_peak_equity (receive_candle s) = or_peak_equity s" "or_max_drawdown (receive_candle s) = or_max_drawdown s"
  "or_seen_signal_fps (receive_candle s) = or_seen_signal_fps s"
  "or_bars_held (receive_candle s) = or_bars_held s" "or_consecutive_losses (receive_candle s) = or_consecutive_losses s"
  "or_closed_trades (receive_candle s) = or_closed_trades s"
  by (simp_all add: receive_candle_def)

lemma count_signal_frame [simp]:
  "or_paper (count_signal sg s) = or_paper s" "or_risk (count_signal sg s) = or_risk s"
  "or_seen_candles (count_signal sg s) = or_seen_candles s"
  "or_last_open_time (count_signal sg s) = or_last_open_time s" "or_window (count_signal sg s) = or_window s"
  "or_peak_equity (count_signal sg s) = or_peak_equity s" "or_max_drawdown (count_signal sg s) = or_max_drawdown s"
  by (simp_all add: count_signal_def)

lemma admit_candle_frame [simp]:
  "or_risk (admit_candle cfg v c s) = or_risk s"
  "or_paper (admit_candle cfg v c s) = set_mark_price (oc_paper cfg) v (c_symbol c) (c_close c) (or_paper s)"
  "or_peak_equity (admit_candle cfg v c s) = or_peak_equity s"
  "or_max_drawdown (admit_candle cfg v c s) = or_max_drawdown s"
  by (simp_all add: admit_candle_def Let_def)

text \<open>Rejection looks at the candle memory only.\<close>

lemma reject_reason_cong:
  "or_seen_candles s = or_seen_candles s' \<Longrightarrow> or_last_open_time s = or_last_open_time s'
    \<Longrightarrow> reject_reason cfg now c s = reject_reason cfg now c s'"
  by (simp add: reject_reason_def)

lemma reject_receive [simp]: "reject_reason cfg now c (receive_candle s) = reject_reason cfg now c s"
  by (rule reject_reason_cong) simp_all

subsection \<open>The path of an order\<close>

definition signal_context :: "orchestrator_config \<Rightarrow> orchestrator_env \<Rightarrow> candle \<Rightarrow> orchestrator \<Rightarrow> risk_context" where
  "signal_context cfg env c s = fst (orchestrator_context cfg (oe_now env) (c_close c) s)"

text \<open>
  What submitting a signal does to the ledger and the risk engine, and what its result says: the
  gateway's outcome on a context with the orchestrator's kill switch.
\<close>

lemma submit_signal_gateway:
  assumes "submit_signal cfg env c sg rq s = (res, s')"
  obtains out where
    "gateway_submit (oc_risk_settings cfg) (submit (oc_paper cfg) (oe_submit env)) rq
       (signal_context cfg env c s) (oe_md_now env) (oe_risk_now env) (or_risk s) (or_paper s)
     = (out, or_risk s', or_paper s')"
    "case out of Inl (RiskBlocked ev) \<Rightarrow> res = Inr (Some (rejected_order (oe_now env) rq ev))
       | Inl (BackendError e) \<Rightarrow> res = Inl e | Inr od \<Rightarrow> res = Inr (Some od)"
    "or_seen_candles s' = or_seen_candles s" "or_last_open_time s' = or_last_open_time s"
    "or_window s' = or_window s" "or_max_drawdown s' = or_max_drawdown s"
proof -
  obtain out rs ps where g: "gateway_submit (oc_risk_settings cfg) (submit (oc_paper cfg) (oe_submit env)) rq
      (signal_context cfg env c s) (oe_md_now env) (oe_risk_now env) (or_risk s) (or_paper s) = (out, rs, ps)" by (metis prod_cases3)
  have same: "orchestrator_portfolio cfg (s\<lparr>or_seen_signal_fps := x\<rparr>)
      = (fst (orchestrator_portfolio cfg s), (snd (orchestrator_portfolio cfg s))\<lparr>or_seen_signal_fps := x\<rparr>)" for x
    by (simp add: orchestrator_portfolio_def orchestrator_equity_def Let_def)
  show ?thesis
    using assms g
    by (intro that [of out]; cases out; (rename_tac e, case_tac e)?)
      (auto simp: submit_signal_def signal_context_def orchestrator_context_def Let_def case_prod_beta same)
qed

text \<open>The candle memory after an accepted candle.\<close>

definition admitted :: "candle \<Rightarrow> orchestrator \<Rightarrow> orchestrator \<Rightarrow> bool" where
  "admitted c s s' \<longleftrightarrow>
     or_seen_candles s' = insert (c_symbol c, c_open_time c) (or_seen_candles s)
   \<and> or_last_open_time s' = AList.update (c_symbol c) (c_open_time c) (or_last_open_time s)
   \<and> or_window s' = AList.update (c_symbol c) (window_of s (c_symbol c) @ [c]) (or_window s)"

lemma window_receive [simp]: "window_of (receive_candle s) sy = window_of s sy"
  by (simp add: window_of_def)

lemma admit_admitted: "admitted c s (admit_candle cfg v c s)"
  by (simp add: admitted_def admit_candle_def Let_def)

definition tip_context :: "orchestrator_config \<Rightarrow> orchestrator_env \<Rightarrow> candle \<Rightarrow> orchestrator \<Rightarrow> strategy_context" where
  "tip_context cfg env c s =
     (let s2 = hold_bar (c_symbol c) (admit_candle cfg (oe_mark env) c (receive_candle s)) in
      \<lparr>cx_candles = window_of s (c_symbol c) @ [c],
       cx_position = map_of (ps_positions (or_paper s2)) (c_symbol c),
       cx_bars_held = held_bars s2 (c_symbol c)\<rparr>)"

abbreviation marked_ledger :: "orchestrator_config \<Rightarrow> orchestrator_env \<Rightarrow> candle \<Rightarrow> orchestrator \<Rightarrow> paper_state" where
  "marked_ledger cfg env c s \<equiv> set_mark_price (oc_paper cfg) (oe_mark env) (c_symbol c) (c_close c) (or_paper s)"

lemma act_cases:
  "act_on_candle_signal cfg env c sg s = (Inr None, s)
    \<or> (\<exists>rq. signal_request cfg c sg (or_paper s) = Some rq \<and> \<not> oe_paused env
         \<and> act_on_candle_signal cfg env c sg s = submit_signal cfg env c sg rq s)"
  by (simp add: act_on_candle_signal_def split: option.split)

text \<open>
  The three ways a candle goes: rejected; accepted without an order; or an order of the strategy's
  signal put to the gateway.
\<close>

lemma process_candle_cases:
  assumes "process_candle cfg env c s = (res, s')"
  obtains (rejected) reason where "reject_reason cfg (oe_now env) c s = Some reason"
      "res = Inr (bare_outcome False (Some reason))" "s' = reject_candle cfg env reason c (receive_candle s)"
  | (quiet) out where "reject_reason cfg (oe_now env) c s = None" "admitted c s s'" "res = Inr out"
      "co_accepted out" "co_order_id out = None" "co_risk_decision out = None"
      "or_paper s' = marked_ledger cfg env c s" "or_risk s' = or_risk s"
  | (order) sg rq s2 out where "reject_reason cfg (oe_now env) c s = None" "admitted c s s'"
      "strategy_evaluate (oc_strategy cfg) (tip_context cfg env c s) (oe_now env) = Inr sg"
      "signal_request cfg c sg (marked_ledger cfg env c s) = Some rq" "\<not> oe_paused env"
      "sg_direction sg \<noteq> SigHold"
      "or_paper s2 = marked_ledger cfg env c s" "or_risk s2 = or_risk s"
      "gateway_submit (oc_risk_settings cfg) (submit (oc_paper cfg) (oe_submit env)) rq
         (signal_context cfg env c s2) (oe_md_now env) (oe_risk_now env) (or_risk s) (marked_ledger cfg env c s)
       = (out, or_risk s', or_paper s')"
      "case out of Inl (RiskBlocked ev) \<Rightarrow> res = Inr (signal_outcome sg (Some (rejected_order (oe_now env) rq ev)))
         | Inl (BackendError e) \<Rightarrow> res = Inl e | Inr od \<Rightarrow> res = Inr (signal_outcome sg (Some od))"
proof (cases "reject_reason cfg (oe_now env) c s")
  case (Some reason)
  with assms show ?thesis by (intro rejected) (auto simp: process_candle_def Let_def)
next
  case None
  define s2 where "s2 = hold_bar (c_symbol c) (admit_candle cfg (oe_mark env) c (receive_candle s))"
  define s3 where "s3 = snd (orchestrator_portfolio cfg s2)"
  have win: "window_of s2 (c_symbol c) = window_of s (c_symbol c) @ [c]"
    by (simp add: s2_def window_of_def admit_candle_def Let_def)
  have tip: "tip_context cfg env c s = \<lparr>cx_candles = window_of s (c_symbol c) @ [c],
      cx_position = map_of (ps_positions (or_paper s2)) (c_symbol c), cx_bars_held = held_bars s2 (c_symbol c)\<rparr>"
    by (simp only: tip_context_def Let_def s2_def [symmetric])
  have adm: "admitted c s s3"
    using admit_admitted [of c "receive_candle s" cfg "oe_mark env"] by (simp add: admitted_def s2_def s3_def)
  have led: "or_paper s3 = marked_ledger cfg env c s" "or_risk s3 = or_risk s"
    by (simp_all add: s2_def s3_def)
  have run: "process_candle cfg env c s =
      (case strategy_evaluate (oc_strategy cfg) (tip_context cfg env c s) (oe_now env) of
         Inl e \<Rightarrow> (Inr (bare_outcome True (Some ''STRATEGY_ERROR'')),
                 write_journal cfg env (WEvent ''STRATEGY_ERROR'' '''' (c_symbol c)) (count_error s3))
       | Inr sg \<Rightarrow> follow_signal cfg env c sg (count_signal sg s3))"
    by (simp only: process_candle_def Let_def evaluate_window_def reject_receive None option.case
        s2_def [symmetric] s3_def [symmetric] tip win case_prod_conv)
  show ?thesis
  proof (cases "strategy_evaluate (oc_strategy cfg) (tip_context cfg env c s) (oe_now env)")
    case (Inl e)
    with assms run None adm led show ?thesis
      by (intro quiet) (auto simp: bare_outcome_def admitted_def)
  next
    case (Inr sg)
    let ?s = "count_signal sg s3"
    have follow: "follow_signal cfg env c sg ?s = (res, s')" using assms run Inr by simp
    have dirs: "sg_direction sg \<in> {SigBuy, SigSell, SigExit} \<longleftrightarrow> sg_direction sg \<noteq> SigHold"
      by (cases "sg_direction sg") simp_all
    consider (act) rq where "sg_direction sg \<noteq> SigHold" "signal_request cfg c sg (or_paper ?s) = Some rq"
        "\<not> oe_paused env" "act_on_candle_signal cfg env c sg ?s = submit_signal cfg env c sg rq ?s"
      | (idle) "(if sg_direction sg \<in> {SigBuy, SigSell, SigExit} then act_on_candle_signal cfg env c sg ?s
           else (Inr None, ?s)) = (Inr None, ?s)"
      using act_cases [of cfg env c sg ?s] unfolding dirs by (cases "sg_direction sg = SigHold") auto
    then show ?thesis
    proof cases
      case idle
      with follow None adm led show ?thesis
        by (intro quiet) (auto simp: follow_signal_def Let_def signal_outcome_def admitted_def)
    next
      case (act rq)
      obtain r s4 where sub: "submit_signal cfg env c sg rq ?s = (r, s4)" by fastforce
      have dir: "sg_direction sg \<in> {SigBuy, SigSell, SigExit}" using act(1) dirs by blast
      have out: "(res, s') = (case r of Inl e \<Rightarrow> (Inl e, s4)
         | Inr od \<Rightarrow> (Inr (signal_outcome sg od),
                     update_drawdown cfg (write_journal cfg env (WSignal sg (map_option o_id od)) s4)))"
        using follow dir by (simp add: follow_signal_def Let_def act(4) sub)
      from sub obtain g where g: "gateway_submit (oc_risk_settings cfg) (submit (oc_paper cfg) (oe_submit env)) rq
          (signal_context cfg env c ?s) (oe_md_now env) (oe_risk_now env) (or_risk ?s) (or_paper ?s)
          = (g, or_risk s4, or_paper s4)"
          "case g of Inl (RiskBlocked ev) \<Rightarrow> r = Inr (Some (rejected_order (oe_now env) rq ev))
             | Inl (BackendError e) \<Rightarrow> r = Inl e | Inr od \<Rightarrow> r = Inr (Some od)"
          "or_seen_candles s4 = or_seen_candles ?s" "or_last_open_time s4 = or_last_open_time ?s"
          "or_window s4 = or_window ?s"
        by (rule submit_signal_gateway)
      have same: "or_risk s' = or_risk s4" "or_paper s' = or_paper s4" "admitted c s s'"
        using out g(3-5) adm by (auto simp: admitted_def split: sum.splits)
      have res: "case g of Inl (RiskBlocked ev) \<Rightarrow> res = Inr (signal_outcome sg (Some (rejected_order (oe_now env) rq ev)))
         | Inl (BackendError e) \<Rightarrow> res = Inl e | Inr od \<Rightarrow> res = Inr (signal_outcome sg (Some od))"
        using out g(2) by (cases g; (rename_tac e, case_tac e)?) auto
      show ?thesis
        by (rule order [of sg rq ?s g]) (use None Inr act res g(1) led same in simp_all)
    qed
  qed
qed

subsection \<open>Replayed candles\<close>

lemma reject_candle_frame:
  "\<exists>st j. reject_candle cfg env reason c (receive_candle s) = s\<lparr>or_stats := st, or_journal := j\<rparr>"
  by (rule exI [of _ "or_stats (reject_candle cfg env reason c (receive_candle s))"],
      rule exI [of _ "or_journal (reject_candle cfg env reason c (receive_candle s))"])
    (simp add: reject_candle_def receive_candle_def write_journal_def count_error_def)

lemma reject_again:
  assumes "reject_reason cfg now c s \<noteq> None" and "now \<le> now'"
    and "or_seen_candles s \<subseteq> or_seen_candles s'"
    and "or_last_open_time s' = or_last_open_time s"
  shows "reject_reason cfg now' c s' \<noteq> None"
  using assms by (auto simp: reject_reason_def split: if_splits option.splits)

text \<open>
  Processing is idempotent: once a candle was handed to the orchestrator, handing it over
  again, at any later time and whatever the environment does, is rejected, and leaves the ledger,
  the risk engine, the windows and everything else but the counters and the journal as they are.
\<close>

lemma candle_replay_rejected:
  assumes "process_candle cfg env c s = (res, s1)" and "oe_now env \<le> oe_now env'"
  shows "\<exists>reason st j. process_candle cfg env' c s1
    = (Inr (bare_outcome False (Some reason)), s1\<lparr>or_stats := st, or_journal := j\<rparr>)"
proof -
  have "reject_reason cfg (oe_now env') c s1 \<noteq> None"
    using assms(1)
  proof (cases rule: process_candle_cases)
    case (rejected reason)
    then show ?thesis
      using reject_again [of cfg "oe_now env" c s "oe_now env'" s1] assms(2) by (simp add: reject_candle_def)
  next
    case quiet
    then show ?thesis by (simp add: reject_reason_def admitted_def)
  next
    case order
    then show ?thesis by (simp add: reject_reason_def admitted_def)
  qed
  then obtain reason where "reject_reason cfg (oe_now env') c s1 = Some reason" by blast
  then show ?thesis using reject_candle_frame [of cfg env' reason c s1]
    by (auto simp: process_candle_def Let_def)
qed

subsection \<open>Candle windows\<close>

text \<open>The operations of a running orchestrator, and what they keep of the candle memory.\<close>

inductive orchestrator_step :: "orchestrator_config \<Rightarrow> orchestrator \<Rightarrow> orchestrator \<Rightarrow> bool" for cfg where
  step_process: "process_candle cfg env c s = (res, s') \<Longrightarrow> orchestrator_step cfg s s'"
| step_prime: "prime_candles cfg now vcs s = (n, s') \<Longrightarrow> orchestrator_step cfg s s'"

definition windows_ok :: "orchestrator \<Rightarrow> bool" where
  "windows_ok s \<longleftrightarrow>
     (\<forall>sy. sorted_wrt (<) (map c_open_time (window_of s sy))
         \<and> (\<forall>c \<in> set (window_of s sy). c_symbol c = sy \<and> c_is_closed c)
         \<and> map_of (or_last_open_time s) sy
            = (if window_of s sy = [] then None else Some (c_open_time (last (window_of s sy)))))
   \<and> or_seen_candles s = {(c_symbol c, c_open_time c) |c sy. c \<in> set (window_of s sy)}"

lemma windows_ok_cong:
  "or_window s = or_window s' \<Longrightarrow> or_last_open_time s = or_last_open_time s'
    \<Longrightarrow> or_seen_candles s = or_seen_candles s' \<Longrightarrow> windows_ok s = windows_ok s'"
  by (simp add: windows_ok_def window_of_def)

lemma windows_okD:
  assumes "windows_ok s"
  shows "sorted_wrt (<) (map c_open_time (window_of s sy))"
    "d \<in> set (window_of s sy) \<Longrightarrow> c_symbol d = sy" "d \<in> set (window_of s sy) \<Longrightarrow> c_is_closed d"
    "map_of (or_last_open_time s) sy
      = (if window_of s sy = [] then None else Some (c_open_time (last (window_of s sy))))"
    "or_seen_candles s = {(c_symbol c, c_open_time c) |c sy. c \<in> set (window_of s sy)}"
  using assms unfolding windows_ok_def by blast+

lemma sorted_wrt_snoc: "sorted_wrt (<) (map f (xs @ [x :: 'a])) \<longleftrightarrow>
    sorted_wrt (<) (map f xs) \<and> (\<forall>y \<in> set xs. f y < (f x :: int))"
  by (auto simp: sorted_wrt_append)

lemma sorted_below_last:
  "sorted_wrt (<) (map f xs) \<Longrightarrow> (xs \<noteq> [] \<Longrightarrow> f (last xs) < (k :: int)) \<Longrightarrow> x \<in> set xs \<Longrightarrow> f x < k"
  by (cases xs rule: rev_cases) (auto simp: sorted_wrt_append)

lemma admitted_windows:
  assumes ok: "windows_ok s" and adm: "admitted c s s'" and rej: "reject_reason cfg now c s = None"
  shows "windows_ok s'"
proof -
  note D = windows_okD [OF ok]
  have closed: "c_is_closed c" using rej by (simp add: reject_reason_def split: if_splits)
  have win: "window_of s' sy = (if sy = c_symbol c then window_of s sy @ [c] else window_of s sy)" for sy
    using adm by (simp add: admitted_def window_of_def map_of_update_if)
  have "c_open_time (last (window_of s (c_symbol c))) < c_open_time c" if "window_of s (c_symbol c) \<noteq> []"
    using rej D(4) [of "c_symbol c"] that by (simp add: reject_reason_def split: if_splits)
  note bound = sorted_below_last [OF D(1) this]
  have mem: "c \<in> set (window_of s' (c_symbol c))" "\<And>d sy. d \<in> set (window_of s sy) \<Longrightarrow> d \<in> set (window_of s' sy)"
    "\<And>d sy. d \<in> set (window_of s' sy) \<Longrightarrow> d = c \<or> d \<in> set (window_of s sy)"
    by (auto simp: win split: if_splits)
  have "or_seen_candles s' = insert (c_symbol c, c_open_time c)
      {(c_symbol d, c_open_time d) |d sy. d \<in> set (window_of s sy)}"
    using adm D(5) by (simp add: admitted_def)
  also have "\<dots> = {(c_symbol d, c_open_time d) |d sy. d \<in> set (window_of s' sy)}"
    using mem by blast
  finally have seen: "or_seen_candles s' = \<dots>" .
  have "sorted_wrt (<) (map c_open_time (window_of s' sy))" for sy
    using D(1) bound by (simp add: win sorted_wrt_snoc del: map_append)
  moreover have "\<forall>d \<in> set (window_of s' sy). c_symbol d = sy \<and> c_is_closed d" for sy
    using D(2,3) closed by (auto simp: win)
  moreover have "map_of (or_last_open_time s') sy
         = (if window_of s' sy = [] then None else Some (c_open_time (last (window_of s' sy))))" for sy
    using adm D(4) by (simp add: admitted_def win map_of_update_if)
  ultimately show ?thesis using seen unfolding windows_ok_def by blast
qed

lemma prime_candle_windows: "windows_ok (snd acc) \<Longrightarrow> windows_ok (snd (prime_candle cfg now vc acc))"
  using admitted_windows [OF _ admit_admitted] by (auto simp: prime_candle_def Let_def case_prod_beta)

lemma fold_keeps: "(\<And>x acc. P acc \<Longrightarrow> P (f x acc)) \<Longrightarrow> P acc \<Longrightarrow> P (fold f xs acc)"
  by (induction xs arbitrary: acc) simp_all

lemma prime_windows:
  assumes "windows_ok s" and "prime_candles cfg now vcs s = (n, s')"
  shows "windows_ok s'"
  using fold_keeps [of "\<lambda>acc. windows_ok (snd acc)" "prime_candle cfg now" "(0, s)" vcs] prime_candle_windows assms
  by (simp add: prime_candles_def)

lemma process_windows:
  assumes "windows_ok s" and "process_candle cfg env c s = (res, s')"
  shows "windows_ok s'"
  using assms(2)
proof (cases rule: process_candle_cases)
  case (rejected reason)
  from reject_candle_frame [of cfg env reason c s] rejected(3) obtain st j where
    "s' = s\<lparr>or_stats := st, or_journal := j\<rparr>" by blast
  with assms(1) show ?thesis by (subst windows_ok_cong [of _ s]) simp_all
qed (use assms(1) admitted_windows in blast)+

text \<open>
  The candle memory of a running orchestrator: the window of a symbol holds closed candles of
  that symbol in strictly increasing time order, its last one is the last open time, and the
  candles seen are exactly those in the windows.
\<close>

lemma orchestrator_windows:
  assumes "(orchestrator_step cfg)\<^sup>*\<^sup>* (new_orchestrator cfg ps rs) s"
  shows "windows_ok s"
  using assms
proof (induction rule: rtranclp_induct)
  case base
  show ?case by (simp add: windows_ok_def new_orchestrator_def window_of_def)
next
  case (step s s')
  from step(2,3) show ?case
    by (cases rule: orchestrator_step.cases) (auto intro: process_windows prime_windows)
qed

subsection \<open>Requests\<close>

lemma signal_request_cases:
  assumes "signal_request cfg c sg ps = Some rq"
  obtains (entry) "sg_direction sg = SigBuy" "map_of (ps_positions ps) (c_symbol c) = None"
      "rq_side rq = Buy" "\<not> rq_reduce_only rq" "rq_quantity rq = entry_quantity cfg (c_close c) ps"
      "rq_stop_loss rq = sg_suggested_stop sg" "0 < rq_quantity rq"
      "rq_symbol rq = c_symbol c" "rq_order_type rq = Market" "rq_price rq = None"
      "rq_metadata rq = empty_meta" "rq_idempotency_key rq = candle_order_id cfg c (sg_direction sg)"
  | (exit) p where "sg_direction sg \<noteq> SigBuy" "map_of (ps_positions ps) (c_symbol c) = Some p"
      "rq_side rq = Sell" "rq_reduce_only rq" "rq_quantity rq = p_quantity p" "0 < rq_quantity rq"
      "rq_symbol rq = c_symbol c" "rq_order_type rq = Market" "rq_price rq = None"
      "rq_metadata rq = empty_meta" "rq_idempotency_key rq = candle_order_id cfg c (sg_direction sg)"
  using assms by (auto simp: signal_request_def Let_def split: if_splits option.splits)

definition candle_blocked :: "orchestrator_config \<Rightarrow> orchestrator_env \<Rightarrow> risk_state \<Rightarrow> bool" where
  "candle_blocked cfg env rs \<longleftrightarrow> oe_paused env
     \<or> (\<forall>rq cx. cx_kill_switch_enabled cx = orchestrator_kill cfg \<longrightarrow>
          \<not> is_accepting (fst (evaluate (oc_risk_settings cfg) rq cx (oe_md_now env) (oe_risk_now env) rs)))"

lemma blocked_check:
  assumes "check_gates st rs rq cx \<noteq> None \<or> check_health st rs cx md_now \<noteq> None"
  shows "\<not> is_accepting (fst (evaluate st rq cx md_now now rs))"
proof
  assume acc: "is_accepting (fst (evaluate st rq cx md_now now rs))"
  have "evaluate st rq cx md_now now rs = (fst (evaluate st rq cx md_now now rs), snd (evaluate st rq cx md_now now rs))"
    by simp
  from this acc obtain price where "pre_checks st rq cx md_now rs = Inr price"
    by (cases rule: evaluate_cases) simp_all
  from pre_checks_InrD [OF this] assms show False by simp
qed

lemma gates_block: "(\<And>rq cx. cx_kill_switch_enabled cx = orchestrator_kill cfg \<Longrightarrow>
    check_gates (oc_risk_settings cfg) rs rq cx \<noteq> None) \<Longrightarrow> candle_blocked cfg env rs"
  unfolding candle_blocked_def using blocked_check by blast

lemma health_block: "(\<And>cx. check_health (oc_risk_settings cfg) rs cx (oe_md_now env) \<noteq> None) \<Longrightarrow> candle_blocked cfg env rs"
  unfolding candle_blocked_def using blocked_check by blast

lemma halted_blocks:
  assumes "orchestrator_kill cfg \<or> st_kill_switch_enabled (oc_risk_settings cfg)
      \<or> rs_circuit_breaker_open rs \<or> oe_paused env"
  shows "candle_blocked cfg env rs"
proof (cases "oe_paused env")
  case False
  with assms show ?thesis by (intro gates_block) (auto simp: check_gates_def)
qed (simp add: candle_blocked_def)

lemma halted_candle:
  assumes "process_candle cfg env c s = (res, s')" and "candle_blocked cfg env (or_risk s)"
  shows "or_paper s' \<in> {or_paper s, set_mark_price (oc_paper cfg) (oe_mark env) (c_symbol c) (c_close c) (or_paper s)}
    \<and> (\<forall>out. res = Inr out \<longrightarrow> co_risk_decision out \<notin> {Some RApproved, Some RReduced})"
  using assms(1)
proof (cases rule: process_candle_cases)
  case (rejected reason)
  from reject_candle_frame [of cfg env reason c s] rejected(2,3) show ?thesis by (auto simp: bare_outcome_def)
next
  case quiet
  then show ?thesis by auto
next
  case (order sg rq s2 out)
  define ev where "ev = fst (evaluate (oc_risk_settings cfg) rq (signal_context cfg env c s2) (oe_md_now env)
      (oe_risk_now env) (or_risk s))"
  have "cx_kill_switch_enabled (signal_context cfg env c s2) = orchestrator_kill cfg"
    by (simp add: signal_context_def orchestrator_context_def case_prod_beta)
  with assms(2) order(5) have no: "\<not> is_accepting ev" by (simp add: candle_blocked_def ev_def)
  then have "ev_decision ev \<in> {RRejected, RHalted}" by (cases "ev_decision ev") (simp_all add: is_accepting_def)
  then have "out = Inl (RiskBlocked ev)" "or_paper s' = marked_ledger cfg env c s"
    using order(9) by (auto simp: gateway_submit_def ev_def split: prod.splits)
  with order(10) no show ?thesis by (auto simp: signal_outcome_def rejected_order_def is_accepting_def)
qed

text \<open>
  Under the kill switch (of the orchestrator or of the risk settings), an open circuit
  breaker or a paused session, a candle moves the ledger by its mark only, and no order comes back
  approved.
\<close>

lemma orchestrator_halted:
  assumes "process_candle cfg env c s = (res, s')"
    and "orchestrator_kill cfg \<or> st_kill_switch_enabled (oc_risk_settings cfg)
      \<or> rs_circuit_breaker_open (or_risk s) \<or> oe_paused env"
  shows "or_paper s' \<in> {or_paper s, set_mark_price (oc_paper cfg) (oe_mark env) (c_symbol c) (c_close c) (or_paper s)}
    \<and> (\<forall>out. res = Inr out \<longrightarrow> co_risk_decision out \<notin> {Some RApproved, Some RReduced})"
  by (rule halted_candle [OF assms(1) halted_blocks [OF assms(2)]])

subsection \<open>The ledger\<close>

text \<open>Holdings whose quantities are on the eight-digit grid and within the limits of the proofs.\<close>

definition lots_ok :: "paper_state \<Rightarrow> bool" where
  "lots_ok s \<longleftrightarrow> (\<forall>p \<in> set (dict_values (ps_positions s)). on_grid 8 (p_quantity p) \<and> p_quantity p < 10 ^ 18)"

lemma lotD: "lots_ok s \<Longrightarrow> map_of (ps_positions s) k = Some p \<Longrightarrow> on_grid 8 (p_quantity p) \<and> p_quantity p < 10 ^ 18"
  unfolding lots_ok_def by (blast dest: map_of_Some_value)

lemma market_request_ok:
  assumes "on_grid 8 (rq_quantity rq)" and "0 < rq_quantity rq" and "rq_quantity rq < amount_limit"
    and "rq_price rq = None" and "rq_metadata rq = empty_meta" and "pc_partial_fill_fraction pc = 1"
  shows "request_ok pc rq"
proof -
  have "dmul (rq_quantity rq) 1 = rq_quantity rq"
    unfolding dmul_def using assms(1-3) by (simp add: ctx_amount)
  moreover have "quantize_down 8 (rq_quantity rq) = rq_quantity rq"
    using assms(1) unfolding on_grid_def by (auto simp: quantize_down_def)
  ultimately show ?thesis using assms by (simp add: request_ok_def empty_meta_def)
qed

lemma holdings_list:
  assumes "holdings_ok s" and "p \<in> set (dict_values (ps_positions s))"
  shows "0 < p_quantity p \<and> 0 \<le> p_current_price p"
  using assms by (auto simp: holdings_ok_def dest!: dict_values_mapD)

lemma context_portfolio:
  "pf_cash_balance (cx_portfolio (signal_context cfg env c s)) = ps_cash (or_paper s)"
  "pf_open_positions (cx_portfolio (signal_context cfg env c s)) = dict_values (ps_positions (or_paper s))"
  by (simp_all add: signal_context_def orchestrator_context_def orchestrator_portfolio_def Let_def)

text \<open>What is asked for on a signal: the symbol of the candle, at the entry size or all that is held.\<close>

lemma signal_request_ok:
  assumes "signal_request cfg c sg m = Some rq" and "lots_ok m" and "entry_quantity cfg (c_close c) m < 10 ^ 18"
    and "pc_partial_fill_fraction (oc_paper cfg) = 1"
  shows "request_ok (oc_paper cfg) rq" "rq_quantity rq < 10 ^ 18" "rq_symbol rq = c_symbol c"
    "rq_idempotency_key rq = candle_order_id cfg c (sg_direction sg)"
    "case map_of (ps_positions m) (c_symbol c) of
        None \<Rightarrow> rq_side rq = Buy \<and> rq_quantity rq = entry_quantity cfg (c_close c) m
      | Some p \<Rightarrow> rq_side rq = Sell \<and> rq_quantity rq = p_quantity p"
proof -
  have rq: "on_grid 8 (rq_quantity rq)" "0 < rq_quantity rq" "rq_quantity rq < 10 ^ 18"
    "rq_price rq = None" "rq_metadata rq = empty_meta" "rq_symbol rq = c_symbol c"
    "rq_idempotency_key rq = candle_order_id cfg c (sg_direction sg)"
    using assms(1) lotD [OF assms(2)] assms(3) by (cases rule: signal_request_cases; simp add: entry_quantity_def)+
  then show "rq_quantity rq < 10 ^ 18" "rq_symbol rq = c_symbol c"
    "rq_idempotency_key rq = candle_order_id cfg c (sg_direction sg)" by simp_all
  show "request_ok (oc_paper cfg) rq" by (rule market_request_ok) (use rq assms(4) in simp_all)
  show "case map_of (ps_positions m) (c_symbol c) of
        None \<Rightarrow> rq_side rq = Buy \<and> rq_quantity rq = entry_quantity cfg (c_close c) m
      | Some p \<Rightarrow> rq_side rq = Sell \<and> rq_quantity rq = p_quantity p"
    using assms(1) by (cases rule: signal_request_cases) simp_all
qed


subsection \<open>Equity statistics\<close>

lemma drawdown_fraction:
  assumes "0 \<le> eq" and "eq \<le> pk" and "representable pk" and "0 < pk"
  shows "0 \<le> ddiv (dsub pk eq) pk \<and> ddiv (dsub pk eq) pk \<le> 1"
proof
  show "0 \<le> ddiv (dsub pk eq) pk" using assms by (intro ddiv_nonneg) simp_all
  have "dsub pk eq \<le> pk" unfolding dsub_def using assms(1) by (intro ctx.rnd_le_rep [OF assms(3)]) simp
  with assms(4) have "dsub pk eq / pk \<le> 1" by simp
  then have "ddiv (dsub pk eq) pk \<le> ctx 1" unfolding ddiv_def by (rule ctx_mono)
  then show "ddiv (dsub pk eq) pk \<le> 1" by simp
qed

lemma representable_foldl: "representable a \<Longrightarrow> (\<And>t p. representable (f t p)) \<Longrightarrow> representable (foldl f a ps)"
  by (induction ps arbitrary: a) simp_all

lemma equity_representable: "representable (orchestrator_equity s)"
  unfolding orchestrator_equity_def by (rule representable_foldl) simp_all

lemma foldl_dadd_nonneg: "0 \<le> t \<Longrightarrow> \<forall>p \<in> set ps. 0 \<le> f p \<Longrightarrow> 0 \<le> foldl (\<lambda>t p. dadd t (f p)) t ps"
  by (induction ps arbitrary: t) (auto intro: dadd_nonneg)

lemma equity_nonneg:
  assumes "ledger_ok (or_paper s)"
  shows "0 \<le> orchestrator_equity s"
proof -
  have h: "holdings_ok (or_paper s)" and r: "0 \<le> ps_reserved_cash (or_paper s)"
    using assms reserved_nonneg by (simp_all add: ledger_ok_def)
  then have "0 \<le> dadd (ps_cash (or_paper s)) (ps_reserved_cash (or_paper s))"
    by (intro dadd_nonneg) (simp_all add: holdings_ok_def)
  moreover have "\<forall>p \<in> set (dict_values (ps_positions (or_paper s))). 0 \<le> dmul (p_quantity p) (p_current_price p)"
    using holdings_list [OF h] by (blast intro: dmul_nonneg less_imp_le)
  ultimately show ?thesis unfolding orchestrator_equity_def by (rule foldl_dadd_nonneg)
qed

definition peak_grows :: "orchestrator \<Rightarrow> orchestrator \<Rightarrow> bool" where
  "peak_grows s s' \<longleftrightarrow> or_peak_equity s \<le> or_peak_equity s'
     \<and> (representable (or_peak_equity s) \<longrightarrow> representable (or_peak_equity s'))"

lemma peak_grows_refl: "or_peak_equity s' = or_peak_equity s \<Longrightarrow> peak_grows s s'"
  by (simp add: peak_grows_def)

lemma peak_grows_trans: "peak_grows s s1 \<Longrightarrow> peak_grows s1 s2 \<Longrightarrow> peak_grows s s2"
  by (auto simp: peak_grows_def)

lemma portfolio_peak: "peak_grows s (snd (orchestrator_portfolio cfg s))"
  using equity_representable [of s] by (simp add: peak_grows_def max_def)

lemma after_fill_peak:
  assumes "or_peak_equity t = or_peak_equity s"
  shows "peak_grows s (after_fill cfg sy side before rb od t)"
proof -
  have "peak_grows s (record_performance_trade cfg before od r u)" if "or_peak_equity u = or_peak_equity s" for r u
    using portfolio_peak [of u cfg] that
    by (simp add: record_performance_trade_def case_prod_beta Let_def peak_grows_def)
  then show ?thesis using assms by (auto simp: after_fill_def Let_def peak_grows_refl)
qed

lemma submit_signal_peak: "submit_signal cfg env c sg rq s = (res, s') \<Longrightarrow> peak_grows s s'"
proof -
  assume sub: "submit_signal cfg env c sg rq s = (res, s')"
  let ?s1 = "s\<lparr>or_seen_signal_fps := insert (sg_fingerprint sg) (or_seen_signal_fps s)\<rparr>"
  define s2 where "s2 = snd (orchestrator_context cfg (oe_now env) (c_close c) ?s1)"
  have "peak_grows s s2"
    using portfolio_peak [of ?s1 cfg] by (simp add: s2_def orchestrator_context_def case_prod_beta peak_grows_def)
  moreover have "peak_grows s2 s'"
    using sub by (auto simp: submit_signal_def Let_def case_prod_beta s2_def [symmetric]
        after_fill_peak peak_grows_refl split: sum.splits gateway_error.splits)
  ultimately show ?thesis by (rule peak_grows_trans)
qed

lemma update_drawdown_bounds:
  assumes "ledger_ok (or_paper s)" and "representable (or_peak_equity s)"
    and "0 \<le> or_max_drawdown s" and "or_max_drawdown s \<le> 1"
  shows "or_max_drawdown s \<le> or_max_drawdown (update_drawdown cfg s)"
    and "or_max_drawdown (update_drawdown cfg s) \<le> 1"
    and "orchestrator_equity (update_drawdown cfg s) \<le> or_peak_equity (update_drawdown cfg s)"
    and "peak_grows s (update_drawdown cfg s)"
proof -
  define s1 where "s1 = snd (orchestrator_portfolio cfg s)"
  have eq: "orchestrator_equity s1 = orchestrator_equity s" by (rule equity_cong) (simp add: s1_def)
  have rep: "representable (or_peak_equity s1)"
    using assms(2) equity_representable [of s] by (simp add: s1_def max_def)
  have le: "orchestrator_equity s \<le> or_peak_equity s1" by (simp add: s1_def)
  have u: "update_drawdown cfg s = (if or_peak_equity s1 > 0
      then s1\<lparr>or_max_drawdown := max (or_max_drawdown s1)
              (ddiv (dsub (or_peak_equity s1) (orchestrator_equity s)) (or_peak_equity s1))\<rparr> else s1)"
    by (simp only: update_drawdown_def Let_def s1_def [symmetric] eq)
  have md: "or_max_drawdown s1 = or_max_drawdown s" by (simp add: s1_def)
  show "or_max_drawdown s \<le> or_max_drawdown (update_drawdown cfg s)" by (simp add: u md)
  show "or_max_drawdown (update_drawdown cfg s) \<le> 1"
    using drawdown_fraction [OF equity_nonneg [OF assms(1)] le rep] assms(4) by (simp add: u md)
  have "orchestrator_equity (update_drawdown cfg s) = orchestrator_equity s" by (rule equity_cong) simp
  moreover have pk: "or_peak_equity (update_drawdown cfg s) = or_peak_equity s1" by (simp add: u)
  ultimately show "orchestrator_equity (update_drawdown cfg s) \<le> or_peak_equity (update_drawdown cfg s)"
    using le by simp
  show "peak_grows s (update_drawdown cfg s)"
    using portfolio_peak [of s cfg] pk by (simp add: peak_grows_def s1_def)
qed

text \<open>
  The equity statistics: processing a candle on a well-formed ledger never lowers the peak or
  the largest drawdown, keeps the drawdown a fraction, and after an accepted signal the peak is at
  least the equity.
\<close>

lemma orchestrator_drawdown:
  assumes "process_candle cfg env c s = (res, s')" and "ledger_ok (or_paper s')"
    and "representable (or_peak_equity s)" and "0 \<le> or_max_drawdown s" and "or_max_drawdown s \<le> 1"
  shows "or_peak_equity s \<le> or_peak_equity s' \<and> or_max_drawdown s \<le> or_max_drawdown s'
    \<and> or_max_drawdown s' \<le> 1
    \<and> (\<forall>out. res = Inr out \<and> co_signal_direction out \<noteq> None \<longrightarrow> orchestrator_equity s' \<le> or_peak_equity s')"
proof (cases "reject_reason cfg (oe_now env) c s")
  case (Some reason)
  with assms(1) have "s' = reject_candle cfg env reason c (receive_candle s)"
      "res = Inr (bare_outcome False (Some reason))" by (auto simp: process_candle_def Let_def)
  with reject_candle_frame [of cfg env reason c s] assms(5) show ?thesis by (auto simp: bare_outcome_def)
next
  case None
  define s2 where "s2 = hold_bar (c_symbol c) (admit_candle cfg (oe_mark env) c (receive_candle s))"
  define s3 where "s3 = snd (orchestrator_portfolio cfg s2)"
  have pk3: "peak_grows s s3"
    using portfolio_peak [of s2 cfg] by (simp add: s2_def s3_def peak_grows_def)
  have md3: "or_max_drawdown s3 = or_max_drawdown s" by (simp add: s2_def s3_def)
  have run: "(res, s') =
      (case fst (evaluate_window cfg (oe_now env) (c_symbol c) (window_of s2 (c_symbol c)) s2) of
         Inl e \<Rightarrow> (Inr (bare_outcome True (Some ''STRATEGY_ERROR'')),
                 write_journal cfg env (WEvent ''STRATEGY_ERROR'' '''' (c_symbol c)) (count_error s3))
       | Inr sg \<Rightarrow> follow_signal cfg env c sg (count_signal sg s3))"
    using assms(1) by (simp only: process_candle_def Let_def evaluate_window_def reject_receive None option.case
        s2_def [symmetric] s3_def [symmetric] case_prod_conv fst_conv)
  show ?thesis
  proof (cases "fst (evaluate_window cfg (oe_now env) (c_symbol c) (window_of s2 (c_symbol c)) s2)")
    case (Inl e)
    with run pk3 md3 assms(5) show ?thesis by (simp add: bare_outcome_def peak_grows_def)
  next
    case (Inr sg)
    let ?s = "count_signal sg s3"
    define act where "act = (if sg_direction sg \<in> {SigBuy, SigSell, SigExit}
      then act_on_candle_signal cfg env c sg ?s else (Inr None, ?s))"
    have follow: "(res, s') = (case fst act of Inl e \<Rightarrow> (Inl e, snd act)
        | Inr od \<Rightarrow> (Inr (signal_outcome sg od),
            update_drawdown cfg (write_journal cfg env (WSignal sg (map_option o_id od)) (snd act))))"
      using run by (simp only: Inr sum.case follow_signal_def Let_def act_def case_prod_beta)
    have a: "peak_grows ?s (snd act) \<and> or_max_drawdown (snd act) = or_max_drawdown ?s"
    proof -
      have "peak_grows ?s (snd (submit_signal cfg env c sg rq ?s))
          \<and> or_max_drawdown (snd (submit_signal cfg env c sg rq ?s)) = or_max_drawdown ?s" for rq
        using submit_signal_peak [OF prod.collapse [symmetric]] submit_signal_gateway [OF prod.collapse [symmetric]]
        by metis
      with act_cases [of cfg env c sg ?s] show ?thesis by (auto simp: act_def peak_grows_refl)
    qed
    have s3: "peak_grows s (snd act)"
      using pk3 a by (auto simp: peak_grows_def)
    show ?thesis
    proof (cases "fst act")
      case (Inl e)
      with follow s3 a md3 assms(5) show ?thesis by (simp add: peak_grows_def)
    next
      case (Inr od)
      let ?j = "write_journal cfg env (WSignal sg (map_option o_id od)) (snd act)"
      from follow Inr have s': "s' = update_drawdown cfg ?j" by simp
      have pre: "ledger_ok (or_paper ?j)" "representable (or_peak_equity ?j)" "0 \<le> or_max_drawdown ?j" "or_max_drawdown ?j \<le> 1"
        using assms(2-5) s' s3 a md3 by (auto simp: peak_grows_def)
      from update_drawdown_bounds [OF pre, of cfg] s3 a md3 show ?thesis
        unfolding s' by (auto simp: peak_grows_def)
    qed
  qed
qed

subsection \<open>Priming trades\<close>

lemma trigger_appends:
  assumes "pc_partial_fill_fraction pc = 1" and "rest_triggered sy mark od"
  shows "\<exists>f. ps_fills (trigger_order pc v sy mark od s) = ps_fills s @ [f] \<and> f_order_id f = o_id od"
proof -
  let ?rem = "dsub (o_quantity od) (o_filled_quantity od)"
  define risk where "risk = \<lparr>ev_decision = (case o_risk_decision od of Some d \<Rightarrow> d | None \<Rightarrow> RApproved),
                    ev_reason_code = (case o_risk_reason_code od of Some c \<Rightarrow> c | None \<Rightarrow> OK),
                    ev_approved_quantity = Some ?rem\<rparr>"
  define px where "px = fill_price pc mark (o_order_type od) (o_side od) (o_price od)"
  obtain od1 s1 where f: "apply_fill pc v od ?rem px risk (o_order_type od = Limit) s = (od1, s1)"
    by fastforce
  then obtain fl where fl: "ps_fills s1 = ps_fills s @ [fl]" "f_order_id fl = o_id od"
    by (rule apply_fill_fills)
  have "0 < ?rem" using assms(2) by (simp only: rest_triggered_def)
  then have "ps_fills (trigger_order pc v sy mark od s) = ps_fills s1"
    using assms f by (simp add: trigger_order_def Let_def risk_def [symmetric] px_def [symmetric] case_prod_beta
        del: dsub_pos_iff dsub_le_0_iff)
  with fl show ?thesis by auto
qed

lemma fold_trigger_appends:
  assumes "pc_partial_fill_fraction pc = 1"
  shows "\<exists>fs. ps_fills (fold (trigger_order pc v sy mark) ods s) = ps_fills s @ fs
    \<and> (\<forall>od \<in> set ods. rest_triggered sy mark od \<longrightarrow> (\<exists>f \<in> set fs. f_order_id f = o_id od))"
proof (induction ods arbitrary: s)
  case (Cons od ods)
  from Cons [of "trigger_order pc v sy mark od s"] obtain fs where
    fs: "ps_fills (fold (trigger_order pc v sy mark) ods (trigger_order pc v sy mark od s))
        = ps_fills (trigger_order pc v sy mark od s) @ fs"
      "\<forall>od \<in> set ods. rest_triggered sy mark od \<longrightarrow> (\<exists>f \<in> set fs. f_order_id f = o_id od)" by blast
  show ?case
  proof (cases "rest_triggered sy mark od")
    case True
    from trigger_appends [OF assms True, of v s] obtain f where
      "ps_fills (trigger_order pc v sy mark od s) = ps_fills s @ [f]" "f_order_id f = o_id od" by blast
    with fs show ?thesis by (intro exI [of _ "f # fs"]) auto
  next
    case False
    with fs show ?thesis by (intro exI [of _ fs]) (auto simp: trigger_order_idle)
  qed
qed simp

text \<open>
  Priming trades: loading a historical candle into the window, which is documented to happen
  without trading, fills every resting order the candle's close triggers.
\<close>

lemma priming_fills_resting:
  assumes "reject_reason cfg now c s = None" and "pc_partial_fill_fraction (oc_paper cfg) = 1"
    and "map_of (ps_orders (or_paper s)) oid = Some od" and "rest_triggered (c_symbol c) (c_close c) od"
  shows "\<exists>fs f. ps_fills (or_paper (snd (prime_candles cfg now [(v, c)] s))) = ps_fills (or_paper s) @ fs
    \<and> f \<in> set fs \<and> f_order_id f = o_id od"
proof -
  let ?m = "marked (c_symbol c) (c_close c) (or_paper s)"
  have "od \<in> set (dict_values (ps_orders ?m))" using map_of_Some_value [OF assms(3)] by simp
  with fold_trigger_appends [OF assms(2), of v "c_symbol c" "c_close c" "dict_values (ps_orders ?m)" ?m] assms(4)
  obtain fs f where "ps_fills (try_trigger_resting (oc_paper cfg) v (c_symbol c) (c_close c) ?m) = ps_fills ?m @ fs"
      "f \<in> set fs" "f_order_id f = o_id od"
    unfolding try_trigger_resting_def by blast
  moreover have "or_paper (snd (prime_candles cfg now [(v, c)] s))
      = try_trigger_resting (oc_paper cfg) v (c_symbol c) (c_close c) ?m"
    using assms(1) by (simp add: prime_candles_def prime_candle_def set_mark_price_marked)
  ultimately show ?thesis by auto
qed

subsection \<open>A concrete orchestrator\<close>

definition sample_orchestrator_config :: orchestrator_config where
  "sample_orchestrator_config = \<lparr>oc_strategy = EMACrossover sample_crossover, oc_session_id = ''cycle-1'',
     oc_settings = default_settings, oc_risk_settings = default_settings,
     oc_paper = default_paper_config, oc_entry_size_fraction = 1 / 10,
     oc_max_candle_age_seconds = None, oc_kill_switch_enabled = Some True, oc_journal = True\<rparr>"

definition sample_orchestrator_env :: orchestrator_env where
  "sample_orchestrator_env = \<lparr>oe_now = 0, oe_md_now = 0, oe_risk_now = 0, oe_mark = sample_env,
     oe_submit = sample_env, oe_paused = False, oe_fails = (\<lambda>w. False)\<rparr>"

definition sample_orchestrator :: "paper_state \<Rightarrow> orchestrator" where
  "sample_orchestrator ps = new_orchestrator sample_orchestrator_config ps initial_risk_state"

definition sample_processed :: "(py_error + candle_outcome) \<times> orchestrator" where
  "sample_processed = process_candle sample_orchestrator_config sample_orchestrator_env
     (sample_candle 60000000 50000) (sample_orchestrator sample_engine)"

lemmas sample_orchestrator_defs =
  sample_orchestrator_config_def sample_orchestrator_env_def sample_orchestrator_def sample_candle_def

lemma sample_processed_eq:
  "process_candle sample_orchestrator_config sample_orchestrator_env (sample_candle 60000000 50000)
     (sample_orchestrator sample_engine) = (fst sample_processed, snd sample_processed)"
  by (simp add: sample_processed_def)

lemma sample_marked:
  "set_mark_price default_paper_config sample_env ''BTC/USDT'' price sample_engine
    = sample_engine\<lparr>ps_mark_prices := [(''BTC/USDT'', price)]\<rparr>"
  by (simp add: set_mark_price_def try_trigger_resting_def dict_values_def)

lemma candle_replay_rejected_witness:
  "\<exists>reason st j. process_candle sample_orchestrator_config sample_orchestrator_env (sample_candle 60000000 50000)
     (snd sample_processed) = (Inr (bare_outcome False (Some reason)),
        (snd sample_processed)\<lparr>or_stats := st, or_journal := j\<rparr>)"
  by (rule candle_replay_rejected [OF sample_processed_eq]) simp

lemma orchestrator_windows_witness: "windows_ok (snd sample_processed)"
  by (rule orchestrator_windows [of sample_orchestrator_config sample_engine initial_risk_state],
      rule r_into_rtranclp, rule step_process [OF sample_processed_eq [unfolded sample_orchestrator_def]])

lemma sample_orchestrator_kill: "orchestrator_kill sample_orchestrator_config"
  by (simp add: orchestrator_kill_def sample_orchestrator_config_def)

lemma sample_processed_ledger:
  "or_paper (snd sample_processed) \<in> {sample_engine, sample_engine\<lparr>ps_mark_prices := [(''BTC/USDT'', 50000)]\<rparr>}"
  using halted_candle [OF sample_processed_eq halted_blocks] sample_orchestrator_kill sample_marked [of 50000]
  by (simp add: sample_orchestrator_defs new_orchestrator_def)

lemma orchestrator_halted_witness:
  "case fst sample_processed of Inl e \<Rightarrow> True | Inr out \<Rightarrow> co_risk_decision out \<noteq> Some RApproved"
  using orchestrator_halted [OF sample_processed_eq] sample_orchestrator_kill
  by (cases "fst sample_processed") auto

lemma sample_engine_mark_fields:
  "or_paper (sample_orchestrator sample_engine) = sample_engine"
  "c_symbol (sample_candle t price) = ''BTC/USDT''" "c_close (sample_candle t price) = price"
  by (simp_all add: sample_orchestrator_def new_orchestrator_def sample_candle_def)


lemma orchestrator_drawdown_witness:
  "or_max_drawdown (snd sample_processed) \<le> 1 \<and> 10000 \<le> or_peak_equity (snd sample_processed)"
proof -
  have rep: "representable (10000 :: rat)" using representableI [of 10000 0] by (simp add: scale_def)
  have led: "ledger_ok (or_paper (snd sample_processed))"
    using sample_processed_ledger sample_engine_ok
    by (auto simp: engine_ok_def ledger_ok_def reservations_ok_def holdings_ok_def)
  have "or_peak_equity (sample_orchestrator sample_engine) = 10000" "or_max_drawdown (sample_orchestrator sample_engine) = 0"
    by (simp_all add: sample_orchestrator_def new_orchestrator_def sample_orchestrator_config_def default_paper_config_def)
  with orchestrator_drawdown [OF sample_processed_eq led] rep show ?thesis by simp
qed

lemma priming_fills_resting_witness:
  "\<exists>fs f. ps_fills (or_paper (snd (prime_candles sample_orchestrator_config 0 [(sample_env, sample_candle 60000000 39000)]
      (sample_orchestrator sample_resting)))) = ps_fills sample_resting @ fs \<and> f \<in> set fs \<and> f_order_id f = ''order-1''"
  using priming_fills_resting [of sample_orchestrator_config 0 "sample_candle 60000000 39000"
      "sample_orchestrator sample_resting" "''order-1''" sample_order sample_env] sample_resting_order
  by (simp add: reject_reason_def sample_orchestrator_defs new_orchestrator_def default_paper_config_def
      rest_triggered_def sample_order_def)

end
