(* ===== verification/Cycle_Lock.thy ===== *)
theory Cycle_Lock
  imports Prelude
begin

text \<open>
  The cycle lock \<open>app/services/cycle_lock.py\<close>: rows of the table \<open>cycle_locks\<close>, acquiring and
  releasing a lock, and the record of a scheduler run. The database is the library behind the
  session: a table is a dictionary on its primary key, what the session does on a call is the
  argument \<open>db_fault\<close> (nothing unusual, a failing \<open>get\<close>, \<open>flush\<close> or \<open>commit\<close>, or a commit that
  the primary key rejects), and a rollback drops the changes of the call. The time of the call and
  the fresh owner (\<open>uuid4().hex\<close>) are arguments.

  \<open>acquire_read\<close> and \<open>acquire_write\<close> are the two halves of the function, before and after it has
  decided that the lock is free. Running them together is \<open>acquire_cycle_lock\<close>; running them
  apart shows what two workers can do to each other, where a statement of the second half works on
  the table as it is then and \<open>DELETE\<close> removes the row with the key, whoever wrote it.
\<close>

subsection \<open>Rows and results\<close>

record lock_row =
  lr_owner :: string
  lr_acquired_at :: timestamp
  lr_expires_at :: timestamp
  lr_correlation_id :: "string option"

type_synonym lock_table = "(string, lock_row) dict"

record cycle_lock =
  cl_lock_key :: string
  cl_owner :: string
  cl_correlation_id :: "string option"

datatype lock_status = LockAcquired | LockHeld | LockUnavailable

record lock_acquire_result =
  la_status :: lock_status
  la_lock :: "cycle_lock option"

datatype db_fault = NoFault | GetFails | FlushFails | CommitConflict | CommitFails

definition held_result :: lock_acquire_result where
  "held_result = \<lparr>la_status = LockHeld, la_lock = None\<rparr>"

definition unavailable_result :: lock_acquire_result where
  "unavailable_result = \<lparr>la_status = LockUnavailable, la_lock = None\<rparr>"

subsection \<open>Acquiring and releasing\<close>

text \<open>What the read decides: the lock is held, or the row is to be written over an expired one or not.\<close>

datatype lock_decision = DecideHeld | DecideWrite bool

definition acquire_read :: "lock_table \<Rightarrow> string \<Rightarrow> timestamp \<Rightarrow> lock_decision" where
  "acquire_read db key now =
     (case map_of db key of
        Some existing \<Rightarrow> if lr_expires_at existing > now then DecideHeld else DecideWrite True
      | None \<Rightarrow> DecideWrite False)"

definition acquire_write :: "lock_table \<Rightarrow> string \<Rightarrow> int \<Rightarrow> string option \<Rightarrow> timestamp \<Rightarrow> string
  \<Rightarrow> bool \<Rightarrow> db_fault \<Rightarrow> lock_acquire_result \<times> lock_table" where
  "acquire_write db key ttl_seconds correlation_id now owner delete_existing fault =
     (if delete_existing \<and> fault = FlushFails then (unavailable_result, db)
      else
        let db1 = (if delete_existing then AList.delete key db else db);
            row = \<lparr>lr_owner = owner, lr_acquired_at = now,
                   lr_expires_at = now + seconds ttl_seconds, lr_correlation_id = correlation_id\<rparr>
        in if fault = CommitFails then (unavailable_result, db)
           else if fault = CommitConflict \<or> map_of db1 key \<noteq> None then (held_result, db)
           else (\<lparr>la_status = LockAcquired,
                  la_lock = Some \<lparr>cl_lock_key = key, cl_owner = owner, cl_correlation_id = correlation_id\<rparr>\<rparr>,
                 AList.update key row db1))"

definition acquire_cycle_lock :: "lock_table \<Rightarrow> string \<Rightarrow> int \<Rightarrow> string option \<Rightarrow> timestamp \<Rightarrow> string
  \<Rightarrow> db_fault \<Rightarrow> lock_acquire_result \<times> lock_table" where
  "acquire_cycle_lock db key ttl_seconds correlation_id now owner fault =
     (if fault = GetFails then (unavailable_result, db)
      else case acquire_read db key now of
        DecideHeld \<Rightarrow> (held_result, db)
      | DecideWrite delete_existing \<Rightarrow>
          acquire_write db key ttl_seconds correlation_id now owner delete_existing fault)"

definition release_cycle_lock :: "lock_table \<Rightarrow> string \<Rightarrow> string \<Rightarrow> db_fault \<Rightarrow> lock_table" where
  "release_cycle_lock db key owner fault =
     (if fault \<noteq> NoFault then db
      else case map_of db key of
        Some row \<Rightarrow> if lr_owner row = owner then AList.delete key db else db
      | None \<Rightarrow> db)"

subsection \<open>Scheduler runs\<close>

record scheduler_run =
  sr_started_at :: timestamp
  sr_finished_at :: "timestamp option"
  sr_status :: string
  sr_symbol :: string
  sr_timeframe :: string
  sr_strategy_id :: string
  sr_correlation_id :: "string option"
  sr_error :: "string option"

type_synonym run_table = "(string, scheduler_run) dict"

definition record_scheduler_run :: "run_table \<Rightarrow> string \<Rightarrow> string \<Rightarrow> string \<Rightarrow> string \<Rightarrow> string
  \<Rightarrow> string option \<Rightarrow> string option \<Rightarrow> timestamp option \<Rightarrow> timestamp \<Rightarrow> run_table" where
  "record_scheduler_run db run_id symbol timeframe strategy_id status correlation_id error started_at now =
     (case map_of db run_id of
        None \<Rightarrow> AList.update run_id \<lparr>
            sr_started_at = (case started_at of Some t \<Rightarrow> t | None \<Rightarrow> now),
            sr_finished_at = (if status \<noteq> ''running'' then Some now else None),
            sr_status = status, sr_symbol = symbol, sr_timeframe = timeframe,
            sr_strategy_id = strategy_id, sr_correlation_id = correlation_id, sr_error = error\<rparr> db
      | Some row \<Rightarrow> AList.update run_id (row\<lparr>sr_status := status, sr_finished_at := Some now,
            sr_error := error, sr_correlation_id := correlation_id\<rparr>) db)"

text \<open>\<open>recent_scheduler_runs\<close>: the latest runs, newest first.\<close>

definition recent_scheduler_runs :: "run_table \<Rightarrow> nat \<Rightarrow> (string \<times> scheduler_run) list" where
  "recent_scheduler_runs db limit = take limit (sort_key (\<lambda>(k, r). - sr_started_at r) db)"

subsection \<open>Lemmas\<close>

lemmas result_defs = held_result_def unavailable_result_def

lemma acquire_outcome:
  assumes "acquire_cycle_lock db key ttl corr now owner fault = (r, db')"
  shows "la_status r = LockAcquired \<and> la_lock r = Some \<lparr>cl_lock_key = key, cl_owner = owner, cl_correlation_id = corr\<rparr>
      \<and> map_of db' key = Some \<lparr>lr_owner = owner, lr_acquired_at = now,
          lr_expires_at = now + seconds ttl, lr_correlation_id = corr\<rparr>
      \<and> (\<forall>row. map_of db key = Some row \<longrightarrow> lr_expires_at row \<le> now)
      \<and> (\<forall>k. k \<noteq> key \<longrightarrow> map_of db' k = map_of db k)
    \<or> la_status r \<noteq> LockAcquired \<and> la_lock r = None \<and> db' = db"
  using assms
  by (auto simp: acquire_cycle_lock_def acquire_read_def acquire_write_def result_defs Let_def
      map_of_update_if map_of_delete_if split: if_splits option.splits lock_decision.splits)

lemma acquire_blocked:
  assumes "map_of db key = Some row" "now < lr_expires_at row"
  shows "la_status (fst (acquire_cycle_lock db key ttl corr now owner fault)) \<noteq> LockAcquired
    \<and> snd (acquire_cycle_lock db key ttl corr now owner fault) = db"
  using acquire_outcome[of db key ttl corr now owner fault] assms
  by (metis linorder_not_le prod.collapse)

lemma release_other:
  "k \<noteq> key \<or> (\<forall>row. map_of db k = Some row \<longrightarrow> lr_owner row \<noteq> owner) \<Longrightarrow>
   map_of (release_cycle_lock db key owner fault) k = map_of db k"
  by (auto simp: release_cycle_lock_def map_of_delete_if split: option.splits)

subsection \<open>Runs of calls\<close>

datatype lock_call =
    Acquire string int "string option" timestamp string db_fault
  | Release string string db_fault

primrec lock_call_apply :: "lock_table \<Rightarrow> lock_call \<Rightarrow> lock_table" where
  "lock_call_apply db (Acquire key ttl corr now owner fault) =
     snd (acquire_cycle_lock db key ttl corr now owner fault)"
| "lock_call_apply db (Release key owner fault) = release_cycle_lock db key owner fault"

definition lock_calls_apply :: "lock_table \<Rightarrow> lock_call list \<Rightarrow> lock_table" where
  "lock_calls_apply db calls = foldl lock_call_apply db calls"

text \<open>A call that leaves the lock of \<open>owner\<close> on \<open>key\<close> alone until \<open>expires\<close>.\<close>

primrec harmless :: "string \<Rightarrow> string \<Rightarrow> timestamp \<Rightarrow> lock_call \<Rightarrow> bool" where
  "harmless key owner expires (Acquire k ttl corr now ow fault) \<longleftrightarrow> (k = key \<longrightarrow> now < expires)"
| "harmless key owner expires (Release k ow fault) \<longleftrightarrow> \<not> (k = key \<and> ow = owner)"

lemma harmless_keeps:
  assumes "map_of db key = Some row" and "harmless key (lr_owner row) (lr_expires_at row) call"
  shows "map_of (lock_call_apply db call) key = Some row"
proof (cases call)
  case (Acquire k ttl corr now ow fault)
  show ?thesis
  proof (cases "k = key")
    case True
    with assms Acquire acquire_blocked[OF assms(1)] show ?thesis by simp
  next
    case False
    obtain r db' where "acquire_cycle_lock db k ttl corr now ow fault = (r, db')" by fastforce
    with acquire_outcome[OF this] assms Acquire False show ?thesis by auto
  qed
next
  case (Release k ow fault)
  with assms show ?thesis using release_other[of key k db ow fault] by auto
qed

lemma harmless_run_keeps:
  assumes "map_of db key = Some row" and "\<forall>c \<in> set calls. harmless key (lr_owner row) (lr_expires_at row) c"
  shows "map_of (lock_calls_apply db calls) key = Some row"
  using assms
proof (induction calls arbitrary: db)
  case (Cons c calls)
  with harmless_keeps[of db key row c] show ?case by (simp add: lock_calls_apply_def)
qed (simp add: lock_calls_apply_def)

subsection \<open>Properties\<close>

text \<open>
  A cycle lock excludes others. Once a call has acquired the lock of a key, then after any calls
  that include no release by its owner, every further attempt on that key before it expires fails,
  whatever the database does, and changes nothing.
\<close>

lemma cycle_lock_exclusive:
  assumes "acquire_cycle_lock db key ttl corr now owner fault = (r, db')"
    and "la_status r = LockAcquired"
    and "\<forall>c \<in> set calls. harmless key owner (now + seconds ttl) c"
    and "now' < now + seconds ttl"
  shows "la_status (fst (acquire_cycle_lock (lock_calls_apply db' calls) key ttl' corr' now' owner' fault')) \<noteq> LockAcquired
    \<and> snd (acquire_cycle_lock (lock_calls_apply db' calls) key ttl' corr' now' owner' fault') = lock_calls_apply db' calls"
proof -
  obtain row where row: "map_of db' key = Some row" "lr_owner row = owner" "lr_expires_at row = now + seconds ttl"
    using acquire_outcome[OF assms(1)] assms(2) by auto
  have "map_of (lock_calls_apply db' calls) key = Some row"
    by (rule harmless_run_keeps[OF row(1)]) (use assms(3) row in simp)
  then show ?thesis using acquire_blocked row assms(4) by simp
qed

lemma cycle_lock_exclusive_witness:
  "la_status (fst (acquire_cycle_lock
     (lock_calls_apply (snd (acquire_cycle_lock [] ''k'' 120 None 0 ''a'' NoFault))
        [Release ''k'' ''b'' NoFault, Acquire ''k'' 120 None 3 ''c'' NoFault])
     ''k'' 120 None 5 ''b'' NoFault)) \<noteq> LockAcquired"
proof -
  obtain r db' where e: "acquire_cycle_lock [] ''k'' 120 None 0 ''a'' NoFault = (r, db')"
    and s: "la_status r = LockAcquired"
    by (simp add: acquire_cycle_lock_def acquire_read_def acquire_write_def)
  show ?thesis
    using cycle_lock_exclusive[OF e s, of "[Release ''k'' ''b'' NoFault, Acquire ''k'' 120 None 3 ''c'' NoFault]" 5 120 None "''b''" NoFault]
    by (simp add: e seconds_def)
qed

text \<open>
  Only the owner releases: a release by anyone else leaves every lock as it is, and a release by
  the owner frees its key, and no other, for the next attempt.
\<close>

lemma cycle_lock_release:
  assumes "map_of db key = Some row"
  shows "(owner \<noteq> lr_owner row \<longrightarrow> map_of (release_cycle_lock db key owner fault) = map_of db)
    \<and> map_of (release_cycle_lock db key (lr_owner row) NoFault) = (map_of db)(key := None)
    \<and> la_status (fst (acquire_cycle_lock (release_cycle_lock db key (lr_owner row) NoFault)
        key ttl corr now owner NoFault)) = LockAcquired"
  using assms
  by (auto simp: release_cycle_lock_def map_of_delete_if acquire_cycle_lock_def acquire_read_def
      acquire_write_def fun_eq_iff split: option.splits)

lemma cycle_lock_release_witness:
  "map_of (release_cycle_lock [(''k'', \<lparr>lr_owner = ''a'', lr_acquired_at = 0, lr_expires_at = 9, lr_correlation_id = None\<rparr>)]
     ''k'' ''a'' NoFault) = Map.empty"
proof -
  let ?row = "\<lparr>lr_owner = ''a'', lr_acquired_at = 0, lr_expires_at = 9, lr_correlation_id = None\<rparr>"
  have "map_of [(''k'', ?row)] ''k'' = Some ?row" by simp
  then have "map_of (release_cycle_lock [(''k'', ?row)] ''k'' (lr_owner ?row) NoFault)
      = (map_of [(''k'', ?row)])(''k'' := None)"
    using cycle_lock_release by blast
  then show ?thesis by (simp add: fun_eq_iff)
qed

text \<open>
  Taking over an expired lock is not exclusive between two workers. When both read the expired
  row before either writes, the second deletes the row the first has just written, because the
  delete goes by the key: both acquire the lock, and both for the time to live they asked for. The
  first attempts on a key without a row are safe: there the second insert is rejected.
\<close>

lemma lock_takeover_race:
  assumes "acquire_read db key now1 = DecideWrite expired"
    and "acquire_read db key now2 = DecideWrite expired"
    and "acquire_write db key ttl corr1 now1 owner1 expired NoFault = (r1, db1)"
    and "acquire_write db1 key ttl corr2 now2 owner2 expired NoFault = (r2, db2)"
  shows "la_status r1 = LockAcquired \<and> (la_status r2 = LockAcquired \<longleftrightarrow> map_of db key \<noteq> None)"
  using assms
  by (auto simp: acquire_read_def acquire_write_def result_defs Let_def map_of_update_if map_of_delete_if
      split: if_splits option.splits)

lemma lock_takeover_race_witness:
  "\<exists>db. let (r1, db1) = acquire_write db ''k'' 120 None 10 ''a'' True NoFault;
            (r2, db2) = acquire_write db1 ''k'' 120 None 10 ''b'' True NoFault
    in la_status r1 = LockAcquired \<and> la_status r2 = LockAcquired"
proof -
  let ?db = "[(''k'', \<lparr>lr_owner = ''z'', lr_acquired_at = 0, lr_expires_at = 9, lr_correlation_id = None\<rparr>)]"
  obtain r1 db1 where e1: "acquire_write ?db ''k'' 120 None 10 ''a'' True NoFault = (r1, db1)" by fastforce
  obtain r2 db2 where e2: "acquire_write db1 ''k'' 120 None 10 ''b'' True NoFault = (r2, db2)" by fastforce
  have "acquire_read ?db ''k'' 10 = DecideWrite True" by (simp add: acquire_read_def)
  from lock_takeover_race[OF this this e1 e2] have "la_status r1 = LockAcquired \<and> la_status r2 = LockAcquired"
    by simp
  with e1 e2 show ?thesis by (intro exI[of _ ?db]) simp
qed

end
