(* ===== verification/Paper_Cycle.thy ===== *)
theory Paper_Cycle
  imports Orchestrator_Properties Accounting_Properties Cycle_Lock
begin

text \<open>
  One paper cycle, \<open>app/services/paper_cycle.py\<close>: reconciliation halt, candles, priming,
  idempotency key, cycle lock, decision, orchestrator, accounting invariants, persistence,
  reconciliation, release of the lock.

  The \<open>runtime\<close> holds the process-wide state the cycle touches: the flags of the paper session,
  its ledger and risk engine, the reconciliation state, the cycle's registries and the lock table.
  The scheduler and the API point an orchestrator at the session's engines before they run a cycle,
  so an orchestrator in the registry is loaded with the session's ledger and risk engine, with the
  kill switch and the pause of the session, and writes them back.

  \<open>cycle_env\<close> has the candles of the source (each with the environment of its priming), the
  environment of the orchestrator, and the faults of the database: setting up or taking the lock,
  releasing it, persisting the session, and a reconciliation that raises. What is persisted is the
  subject of \<open>Paper_Store\<close>.
\<close>

subsection \<open>Times and keys as text\<close>

definition civil_date :: "timestamp \<Rightarrow> int \<times> int \<times> int" where
  "civil_date t =
     (let z = t div days 1 + 719468;
          doe = z mod 146097;
          yoe = (doe - doe div 1460 + doe div 36524 - doe div 146096) div 365;
          doy = doe - (365 * yoe + yoe div 4 - yoe div 100);
          mp = (5 * doy + 2) div 153
      in (fst (civil_month t), snd (civil_month t), doy - (153 * mp + 2) div 5 + 1))"

definition padded :: "nat \<Rightarrow> int \<Rightarrow> string" where
  "padded w k = (let ds = int_text k in replicate (w - length ds) CHR ''0'' @ ds)"

text \<open>\<open>isoformat()\<close> of a UTC time: the microseconds only when there are any.\<close>

definition iso_text :: "timestamp \<Rightarrow> string" where
  "iso_text t =
     (let (y, mo, d) = civil_date t; us = t mod seconds 1; s = (t mod days 1) div seconds 1
      in padded 4 y @ ''-'' @ padded 2 mo @ ''-'' @ padded 2 d @ ''T'' @ padded 2 (s div 3600) @ '':''
         @ padded 2 ((s div 60) mod 60) @ '':'' @ padded 2 (s mod 60)
         @ (if us = 0 then '''' else ''.'' @ padded 6 us) @ ''+00:00'')"

primrec strategy_version :: "strategy \<Rightarrow> string" where
  "strategy_version (EMACrossover p) = ''1.1.0''"
| "strategy_version (EMARSI p) = ''1.0.0''"
| "strategy_version (EMATrend p) = ''1.0.0''"
| "strategy_version (RSIMeanReversion p) = ''1.0.0''"
| "strategy_version (Breakout p) = ''1.0.0''"

definition make_cycle_lock_key :: "string \<Rightarrow> string \<Rightarrow> string \<Rightarrow> string \<Rightarrow> string \<Rightarrow> timestamp \<Rightarrow> string" where
  "make_cycle_lock_key account sid version symbol timeframe open_time =
     account @ '':'' @ sid @ '':'' @ version @ '':'' @ symbol @ '':'' @ timeframe @ '':'' @ iso_text open_time"

definition session_key :: "string \<Rightarrow> string \<Rightarrow> string" where
  "session_key symbol sid = sid @ '':'' @ symbol"

subsection \<open>State\<close>

record session_flags =
  sf_kill_switch_enabled :: bool
  sf_trading_enabled :: bool
  sf_trading_paused :: bool
  sf_selected_strategy_id :: "string option"

record cycle_result =
  cr_symbol :: string
  cr_timeframe :: string
  cr_strategy_name :: string
  cr_strategy_version :: string
  cr_strategy_run_id :: string
  cr_candle_open_time :: "timestamp option"
  cr_signal_direction :: signal_direction
  cr_signal_reason :: string
  cr_accepted :: bool
  cr_reject_reason :: "string option"
  cr_order_id :: "string option"
  cr_order_status :: "order_status option"
  cr_risk_decision :: "risk_decision option"
  cr_risk_reason_code :: "risk_reason option"
  cr_portfolio :: "orchestrator_snapshot option"
  cr_idempotent_replay :: bool
  cr_lock_status :: "string option"

record strategy_run =
  rn_run_id :: string
  rn_strategy_name :: string
  rn_strategy_version :: string
  rn_symbol :: string
  rn_timeframe :: string
  rn_candle_open_time :: timestamp
  rn_direction :: signal_direction
  rn_outcome :: candle_outcome

record runtime =
  rt_flags :: session_flags
  rt_paper :: paper_state
  rt_risk :: risk_state
  rt_recon :: recon_state
  rt_orchestrators :: "(string, orchestrator) dict"
  rt_processed_keys :: "(string \<times> string \<times> string \<times> timestamp) set"
  rt_strategy_runs :: "strategy_run list"
  rt_last_cycle :: "cycle_result option"
  rt_last_signal :: "trade_signal option"
  rt_locks :: lock_table

record cycle_config =
  cc_symbol :: string
  cc_timeframe :: string
  cc_account_id :: string
  cc_orchestrator :: orchestrator_config
  cc_memory_database :: bool

record cycle_env =
  ce_candles :: "(paper_env \<times> candle) list"
  ce_process :: orchestrator_env
  ce_run_id :: string
  ce_correlation_id :: string
  ce_lock_setup_fails :: bool
  ce_lock_fault :: db_fault
  ce_lock_now :: timestamp
  ce_lock_owner :: string
  ce_release_fault :: db_fault
  ce_persist_fails :: bool
  ce_recon_raises :: bool
  ce_recon_now :: timestamp

subsection \<open>The registry of orchestrators\<close>

definition cycle_settings :: "cycle_config \<Rightarrow> settings" where
  "cycle_settings cfg = oc_settings (cc_orchestrator cfg)"

definition cycle_strategy :: "cycle_config \<Rightarrow> strategy" where
  "cycle_strategy cfg = oc_strategy (cc_orchestrator cfg)"

definition cycle_orchestrator :: "cycle_config \<Rightarrow> runtime \<Rightarrow> orchestrator_config" where
  "cycle_orchestrator cfg rt =
     (cc_orchestrator cfg)\<lparr>oc_kill_switch_enabled := Some (sf_kill_switch_enabled (rt_flags rt))\<rparr>"

definition registry_key :: "cycle_config \<Rightarrow> string" where
  "registry_key cfg = session_key (cc_symbol cfg) (strategy_id (cycle_strategy cfg))"

definition get_or_create_orchestrator :: "cycle_config \<Rightarrow> runtime \<Rightarrow> orchestrator" where
  "get_or_create_orchestrator cfg rt =
     (case map_of (rt_orchestrators rt) (registry_key cfg) of
        Some existing \<Rightarrow> existing\<lparr>or_paper := rt_paper rt, or_risk := rt_risk rt\<rparr>
      | None \<Rightarrow> new_orchestrator (cc_orchestrator cfg) (rt_paper rt) (rt_risk rt))"

definition put_orchestrator :: "cycle_config \<Rightarrow> orchestrator \<Rightarrow> runtime \<Rightarrow> runtime" where
  "put_orchestrator cfg x rt =
     rt\<lparr>rt_paper := or_paper x, rt_risk := or_risk x,
        rt_orchestrators := AList.update (registry_key cfg) x (rt_orchestrators rt)\<rparr>"

definition cycle_key :: "cycle_config \<Rightarrow> candle \<Rightarrow> string \<times> string \<times> string \<times> timestamp" where
  "cycle_key cfg target =
     (cc_symbol cfg, strategy_version (cycle_strategy cfg), cc_timeframe cfg, c_open_time target)"

definition reset_cycle_state :: "runtime \<Rightarrow> runtime" where
  "reset_cycle_state rt = rt\<lparr>rt_orchestrators := [], rt_processed_keys := {}, rt_strategy_runs := [],
     rt_last_cycle := None, rt_last_signal := None\<rparr>"

definition fail_closed_persistence :: "runtime \<Rightarrow> runtime" where
  "fail_closed_persistence rt =
     rt\<lparr>rt_flags := (rt_flags rt)\<lparr>sf_trading_paused := True\<rparr>,
        rt_risk := (rt_risk rt)\<lparr>rs_database_healthy := False, rs_reconciliation_healthy := False\<rparr>,
        rt_recon := apply_halt_from_storage True (rt_recon rt)\<rparr>"

definition strategy_runs :: "nat \<Rightarrow> runtime \<Rightarrow> strategy_run list" where
  "strategy_runs limit rt =
     rev (if limit = 0 then rt_strategy_runs rt
          else drop (length (rt_strategy_runs rt) - limit) (rt_strategy_runs rt))"

subsection \<open>Results\<close>

definition empty_result :: "cycle_config \<Rightarrow> string \<Rightarrow> string option \<Rightarrow> timestamp option \<Rightarrow> bool \<Rightarrow> bool
  \<Rightarrow> string option \<Rightarrow> orchestrator_snapshot option \<Rightarrow> cycle_result" where
  "empty_result cfg reason reject_code open_time acc replay lock snap =
     \<lparr>cr_symbol = cc_symbol cfg, cr_timeframe = cc_timeframe cfg,
      cr_strategy_name = strategy_name (cycle_strategy cfg),
      cr_strategy_version = strategy_version (cycle_strategy cfg), cr_strategy_run_id = '''',
      cr_candle_open_time = open_time, cr_signal_direction = SigHold, cr_signal_reason = reason,
      cr_accepted = acc, cr_reject_reason = reject_code, cr_order_id = None, cr_order_status = None,
      cr_risk_decision = None, cr_risk_reason_code = None, cr_portfolio = snap,
      cr_idempotent_replay = replay, cr_lock_status = lock\<rparr>"

definition finish_cycle :: "cycle_result \<Rightarrow> runtime \<Rightarrow> (py_error + cycle_result) \<times> runtime" where
  "finish_cycle r rt = (Inr r, rt\<lparr>rt_last_cycle := Some r\<rparr>)"

definition completed_result :: "cycle_config \<Rightarrow> cycle_env \<Rightarrow> candle \<Rightarrow> trade_signal \<Rightarrow> candle_outcome
  \<Rightarrow> string \<Rightarrow> orchestrator_snapshot \<Rightarrow> cycle_result" where
  "completed_result cfg env target sg out lock snap =
     \<lparr>cr_symbol = cc_symbol cfg, cr_timeframe = cc_timeframe cfg,
      cr_strategy_name = strategy_name (cycle_strategy cfg),
      cr_strategy_version = strategy_version (cycle_strategy cfg), cr_strategy_run_id = ce_run_id env,
      cr_candle_open_time = Some (c_open_time target),
      cr_signal_direction = (case co_signal_direction out of Some d \<Rightarrow> d | None \<Rightarrow> sg_direction sg),
      cr_signal_reason = sg_rationale sg, cr_accepted = co_accepted out,
      cr_reject_reason = co_reject_reason out, cr_order_id = co_order_id out,
      cr_order_status = co_order_status out, cr_risk_decision = co_risk_decision out,
      cr_risk_reason_code = co_risk_reason_code out, cr_portfolio = Some snap,
      cr_idempotent_replay = False, cr_lock_status = Some lock\<rparr>"

subsection \<open>The cycle\<close>

text \<open>What follows a processed candle: the accounting check, persistence, reconciliation.\<close>

definition check_after_cycle :: "runtime \<Rightarrow> runtime" where
  "check_after_cycle rt =
     (if ir_ok (check_paper (rt_paper rt)) then rt else fail_closed_persistence rt)"

definition reconcile_after_cycle :: "cycle_config \<Rightarrow> cycle_env \<Rightarrow> runtime \<Rightarrow> runtime" where
  "reconcile_after_cycle cfg env rt =
     (if ce_recon_raises env then fail_closed_persistence rt
      else
        let (result, r, rs) = run_paper_reconciliation (cycle_settings cfg) (ce_recon_now env)
              (rt_paper rt) (rt_recon rt, rt_risk rt)
        in rt\<lparr>rt_recon := r, rt_risk := rs\<rparr>)"

definition settle_cycle :: "cycle_config \<Rightarrow> cycle_env \<Rightarrow> runtime \<Rightarrow> runtime" where
  "settle_cycle cfg env rt =
     (let rt1 = check_after_cycle rt in
      if cc_memory_database cfg then rt1
      else reconcile_after_cycle cfg env
             (if ce_persist_fails env then fail_closed_persistence rt1 else rt1))"

text \<open>The journal's note of the run; a failure is only logged.\<close>

definition note_strategy_run :: "orchestrator_config \<Rightarrow> orchestrator_env \<Rightarrow> string \<Rightarrow> string \<Rightarrow> orchestrator \<Rightarrow> orchestrator" where
  "note_strategy_run ocfg penv run_id symbol x =
     (let w = WEvent ''STRATEGY_RUN'' run_id symbol in
      if oc_journal ocfg \<and> \<not> oe_fails penv w then x\<lparr>or_journal := or_journal x @ [w]\<rparr> else x)"

text \<open>The body of the \<open>try\<close> under the lock; an exception leaves it with the state so far.\<close>

definition execute_cycle :: "cycle_config \<Rightarrow> cycle_env \<Rightarrow> candle \<Rightarrow> string \<Rightarrow> orchestrator \<Rightarrow> runtime
  \<Rightarrow> (py_error + cycle_result) \<times> runtime" where
  "execute_cycle cfg env target lock x rt =
     (let ocfg = cycle_orchestrator cfg rt;
          penv = (ce_process env)\<lparr>oe_paused := sf_trading_paused (rt_flags rt)\<rparr>;
          (decided, x1) = evaluate_window ocfg (oe_now penv) (cc_symbol cfg)
            (window_of x (cc_symbol cfg) @ [target]) x
      in case decided of
           Inl e \<Rightarrow> (Inl e, put_orchestrator cfg x1 rt)
         | Inr sg \<Rightarrow>
             let rt1 = rt\<lparr>rt_last_signal := Some sg\<rparr>;
                 (res, x2) = process_candle ocfg penv target x1
             in case res of
                  Inl e \<Rightarrow> (Inl e, put_orchestrator cfg x2 rt1)
                | Inr out \<Rightarrow>
                    let x3 = note_strategy_run ocfg penv (ce_run_id env) (cc_symbol cfg) x2;
                        (snap, x4) = snapshot ocfg x3;
                        run = \<lparr>rn_run_id = ce_run_id env,
                          rn_strategy_name = strategy_name (cycle_strategy cfg),
                          rn_strategy_version = strategy_version (cycle_strategy cfg),
                          rn_symbol = cc_symbol cfg, rn_timeframe = cc_timeframe cfg,
                          rn_candle_open_time = c_open_time target, rn_direction = sg_direction sg,
                          rn_outcome = out\<rparr>;
                        r = completed_result cfg env target sg out lock snap;
                        rt2 = (put_orchestrator cfg x4 rt1)\<lparr>
                          rt_processed_keys := insert (cycle_key cfg target) (rt_processed_keys rt1),
                          rt_strategy_runs := rt_strategy_runs rt1 @ [run], rt_last_cycle := Some r\<rparr>
                    in (Inr r, settle_cycle cfg env rt2))"

definition cycle_lock_key :: "cycle_config \<Rightarrow> candle \<Rightarrow> string" where
  "cycle_lock_key cfg target =
     make_cycle_lock_key (cc_account_id cfg) (strategy_id (cycle_strategy cfg))
       (strategy_version (cycle_strategy cfg)) (cc_symbol cfg) (cc_timeframe cfg) (c_open_time target)"

definition release_lock :: "cycle_config \<Rightarrow> cycle_env \<Rightarrow> candle \<Rightarrow> runtime \<Rightarrow> runtime" where
  "release_lock cfg env target rt =
     rt\<lparr>rt_locks := release_cycle_lock (rt_locks rt) (cycle_lock_key cfg target) (ce_lock_owner env)
                       (ce_release_fault env)\<rparr>"

definition locked_cycle :: "cycle_config \<Rightarrow> cycle_env \<Rightarrow> candle \<Rightarrow> orchestrator \<Rightarrow> runtime
  \<Rightarrow> (py_error + cycle_result) \<times> runtime" where
  "locked_cycle cfg env target x rt =
     (let st = cycle_settings cfg;
          (acquired, locks) =
            (if ce_lock_setup_fails env then (unavailable_result, rt_locks rt)
             else acquire_cycle_lock (rt_locks rt) (cycle_lock_key cfg target) (st_cycle_lock_ttl_seconds st)
                    (Some (ce_correlation_id env)) (ce_lock_now env) (ce_lock_owner env) (ce_lock_fault env));
          rt1 = rt\<lparr>rt_locks := locks\<rparr>;
          refuse = (\<lambda>reason code status. finish_cycle (empty_result cfg reason (Some code)
             (Some (c_open_time target)) False False (Some status) None) (put_orchestrator cfg x rt1))
      in case la_status acquired of
           LockHeld \<Rightarrow> refuse ''cycle lock held by another worker'' ''CYCLE_LOCK_HELD'' ''held''
         | LockAcquired \<Rightarrow>
             let (res, rt2) = execute_cycle cfg env target ''acquired'' x rt1
             in (res, release_lock cfg env target rt2)
         | LockUnavailable \<Rightarrow>
             if st_cycle_lock_fail_closed st
             then refuse ''cycle lock layer unavailable'' ''CYCLE_LOCK_UNAVAILABLE'' ''unavailable''
             else execute_cycle cfg env target ''unavailable'' x rt1)"

definition run_paper_trading_cycle :: "cycle_config \<Rightarrow> cycle_env \<Rightarrow> runtime
  \<Rightarrow> (py_error + cycle_result) \<times> runtime" where
  "run_paper_trading_cycle cfg env rt =
     (let x = get_or_create_orchestrator cfg rt;
          ocfg = cycle_orchestrator cfg rt
      in if st_enable_reconciliation (cycle_settings cfg) \<and> \<not> is_reconciliation_healthy (rt_recon rt)
         then finish_cycle (empty_result cfg ''reconciliation halt'' (Some ''RECONCILIATION_HALT'') None
                False False None None) (put_orchestrator cfg x rt)
         else if ce_candles env = []
         then finish_cycle (empty_result cfg ''no closed candles available'' (Some ''NO_CANDLES'') None
                False False None None) (put_orchestrator cfg x rt)
         else
           let target = snd (last (ce_candles env));
               x1 = snd (prime_candles ocfg (oe_now (ce_process env)) (butlast (ce_candles env)) x)
           in if cycle_key cfg target \<in> rt_processed_keys rt
              then
                let (snap, x2) = snapshot ocfg x1
                in finish_cycle (empty_result cfg ''idempotent'' None (Some (c_open_time target)) True True
                     (Some ''skipped_idempotent'') (Some snap)) (put_orchestrator cfg x2 rt)
              else locked_cycle cfg env target x1 rt)"

subsection \<open>Candle sources\<close>

definition last_of :: "nat \<Rightarrow> 'a list \<Rightarrow> 'a list" where
  "last_of n xs = (if n = 0 then xs else drop (length xs - n) xs)"

definition provided_candles :: "candle list \<Rightarrow> string \<Rightarrow> string \<Rightarrow> nat \<Rightarrow> candle list" where
  "provided_candles cs symbol timeframe limit =
     last_of limit (sort_key c_open_time
       (filter (\<lambda>c. c_symbol c = symbol \<and> c_timeframe c = timeframe \<and> c_is_closed c) cs))"

end
