(* ===== verification/Paper_Cycle_Properties.thy ===== *)
theory Paper_Cycle_Properties
  imports Paper_Cycle
begin

text \<open>
  What one paper cycle guarantees: it is blocked by every halt, it never leaves its lock behind,
  it fails closed when its results cannot be stored, and running it again on the same candles
  changes nothing.
\<close>

subsection \<open>Frames\<close>

lemma put_orchestrator_frame [simp]:
  "rt_paper (put_orchestrator cfg x rt) = or_paper x" "rt_risk (put_orchestrator cfg x rt) = or_risk x"
  "rt_flags (put_orchestrator cfg x rt) = rt_flags rt" "rt_locks (put_orchestrator cfg x rt) = rt_locks rt"
  "rt_recon (put_orchestrator cfg x rt) = rt_recon rt"
  "rt_processed_keys (put_orchestrator cfg x rt) = rt_processed_keys rt"
  "rt_orchestrators (put_orchestrator cfg x rt) = AList.update (registry_key cfg) x (rt_orchestrators rt)"
  by (simp_all add: put_orchestrator_def)

lemma get_orchestrator_frame [simp]:
  "or_paper (get_or_create_orchestrator cfg rt) = rt_paper rt"
  "or_risk (get_or_create_orchestrator cfg rt) = rt_risk rt"
  by (simp_all add: get_or_create_orchestrator_def new_orchestrator_def split: option.split)

lemma fail_closed_frame [simp]:
  "rt_paper (fail_closed_persistence rt) = rt_paper rt" "rt_locks (fail_closed_persistence rt) = rt_locks rt"
  "rt_orchestrators (fail_closed_persistence rt) = rt_orchestrators rt"
  "rt_processed_keys (fail_closed_persistence rt) = rt_processed_keys rt"
  "sf_trading_paused (rt_flags (fail_closed_persistence rt))"
  "\<not> rs_database_healthy (rt_risk (fail_closed_persistence rt))"
  by (simp_all add: fail_closed_persistence_def)

lemma settle_frame [simp]:
  "rt_paper (settle_cycle cfg env rt) = rt_paper rt" "rt_locks (settle_cycle cfg env rt) = rt_locks rt"
  "rt_orchestrators (settle_cycle cfg env rt) = rt_orchestrators rt"
  "rt_processed_keys (settle_cycle cfg env rt) = rt_processed_keys rt"
  by (simp_all add: settle_cycle_def check_after_cycle_def reconcile_after_cycle_def Let_def case_prod_beta)

lemma release_frame [simp]:
  "rt_paper (release_lock cfg env c rt) = rt_paper rt" "rt_flags (release_lock cfg env c rt) = rt_flags rt"
  "rt_risk (release_lock cfg env c rt) = rt_risk rt"
  "rt_orchestrators (release_lock cfg env c rt) = rt_orchestrators rt"
  "rt_processed_keys (release_lock cfg env c rt) = rt_processed_keys rt"
  by (simp_all add: release_lock_def)

lemma note_run_frame [simp]:
  "or_paper (note_strategy_run ocfg penv i sy x) = or_paper x" "or_risk (note_strategy_run ocfg penv i sy x) = or_risk x"
  "or_window (note_strategy_run ocfg penv i sy x) = or_window x"
  "or_seen_candles (note_strategy_run ocfg penv i sy x) = or_seen_candles x"
  "or_last_open_time (note_strategy_run ocfg penv i sy x) = or_last_open_time x"
  by (simp_all add: note_strategy_run_def Let_def)

lemma snapshot_frame [simp]:
  "or_paper (snd (snapshot ocfg x)) = or_paper x" "or_risk (snd (snapshot ocfg x)) = or_risk x"
  "or_window (snd (snapshot ocfg x)) = or_window x" "or_seen_candles (snd (snapshot ocfg x)) = or_seen_candles x"
  "or_last_open_time (snd (snapshot ocfg x)) = or_last_open_time x"
  by (simp_all add: snapshot_def case_prod_beta)

lemma evaluate_window_frame [simp]:
  "or_paper (snd (evaluate_window ocfg now sy w x)) = or_paper x" "or_risk (snd (evaluate_window ocfg now sy w x)) = or_risk x"
  "or_window (snd (evaluate_window ocfg now sy w x)) = or_window x"
  "or_seen_candles (snd (evaluate_window ocfg now sy w x)) = or_seen_candles x"
  "or_last_open_time (snd (evaluate_window ocfg now sy w x)) = or_last_open_time x"
  by (simp_all add: evaluate_window_def)

lemma prime_risk [simp]: "or_risk (snd (prime_candles ocfg now vcs x)) = or_risk x"
proof -
  have "or_risk (snd (prime_candle ocfg now vc acc)) = or_risk (snd acc)" for vc acc
    by (simp add: prime_candle_def case_prod_beta Let_def)
  with fold_frame [of "\<lambda>acc. or_risk (snd acc)" "prime_candle ocfg now" vcs "(0, x)"] show ?thesis by (simp add: prime_candles_def)
qed

text \<open>The environment of the orchestrator inside a cycle.\<close>

abbreviation cycle_penv :: "cycle_env \<Rightarrow> runtime \<Rightarrow> orchestrator_env" where
  "cycle_penv env rt \<equiv> (ce_process env)\<lparr>oe_paused := sf_trading_paused (rt_flags rt)\<rparr>"

text \<open>How the body under the lock ends: by an exception, or settled after a processed candle.\<close>

lemma execute_cycle_cases:
  assumes "execute_cycle cfg env target lock x rt = (res, rt')"
  obtains (raised) e x' rt1 where "res = Inl e" "rt' = put_orchestrator cfg x' rt1"
      "rt_locks rt1 = rt_locks rt" "rt_flags rt1 = rt_flags rt"
  | (settled) out x1 x2 x4 r rt2 where "res = Inr r"
      "x1 = snd (evaluate_window (cycle_orchestrator cfg rt) (oe_now (ce_process env)) (cc_symbol cfg)
         (window_of x (cc_symbol cfg) @ [target]) x)"
      "process_candle (cycle_orchestrator cfg rt) (cycle_penv env rt) target x1 = (Inr out, x2)"
      "or_paper x4 = or_paper x2" "or_risk x4 = or_risk x2" "or_window x4 = or_window x2"
      "or_seen_candles x4 = or_seen_candles x2" "or_last_open_time x4 = or_last_open_time x2"
      "rt' = settle_cycle cfg env rt2" "rt_paper rt2 = or_paper x4" "rt_risk rt2 = or_risk x4"
      "rt_flags rt2 = rt_flags rt" "rt_locks rt2 = rt_locks rt" "rt_recon rt2 = rt_recon rt"
      "rt_orchestrators rt2 = AList.update (registry_key cfg) x4 (rt_orchestrators rt)"
      "rt_processed_keys rt2 = insert (cycle_key cfg target) (rt_processed_keys rt)"
      "cr_risk_decision r = co_risk_decision out" "cr_idempotent_replay r = False" "cr_portfolio r \<noteq> None"
proof -
  obtain decided x1 where ev: "evaluate_window (cycle_orchestrator cfg rt) (oe_now (ce_process env)) (cc_symbol cfg)
      (window_of x (cc_symbol cfg) @ [target]) x = (decided, x1)" by fastforce
  obtain pr x2 where pr: "process_candle (cycle_orchestrator cfg rt) (cycle_penv env rt) target x1 = (pr, x2)"
    by fastforce
  show ?thesis
  proof (cases decided)
    case (Inl e)
    with assms ev show ?thesis by (intro raised [of e x1 rt]) (auto simp: execute_cycle_def Let_def)
  next
    case (Inr sg)
    show ?thesis
    proof (cases pr)
      case (Inl e)
      with assms ev pr Inr show ?thesis
        by (intro raised [of e x2 "rt\<lparr>rt_last_signal := Some sg\<rparr>"]) (auto simp: execute_cycle_def Let_def)
    next
      case (Inr out)
      define x4 where "x4 = snd (snapshot (cycle_orchestrator cfg rt)
        (note_strategy_run (cycle_orchestrator cfg rt) (cycle_penv env rt) (ce_run_id env) (cc_symbol cfg) x2))"
      define snap where "snap = fst (snapshot (cycle_orchestrator cfg rt)
        (note_strategy_run (cycle_orchestrator cfg rt) (cycle_penv env rt) (ce_run_id env) (cc_symbol cfg) x2))"
      define r where "r = completed_result cfg env target sg out lock snap"
      define rt1 where "rt1 = rt\<lparr>rt_last_signal := Some sg\<rparr>"
      obtain run where run: "execute_cycle cfg env target lock x rt = (Inr r, settle_cycle cfg env
          ((put_orchestrator cfg x4 rt1)\<lparr>
             rt_processed_keys := insert (cycle_key cfg target) (rt_processed_keys rt1),
             rt_strategy_runs := rt_strategy_runs rt1 @ [run], rt_last_cycle := Some r\<rparr>))"
        using ev pr Inr \<open>decided = Inr sg\<close>
        by (simp add: execute_cycle_def Let_def case_prod_beta x4_def [symmetric] snap_def [symmetric]
            r_def [symmetric] rt1_def [symmetric])
      have x4: "or_paper x4 = or_paper x2" "or_risk x4 = or_risk x2" "or_window x4 = or_window x2"
        "or_seen_candles x4 = or_seen_candles x2" "or_last_open_time x4 = or_last_open_time x2"
        by (simp_all add: x4_def)
      from run assms have out: "res = Inr r" "rt' = settle_cycle cfg env
          ((put_orchestrator cfg x4 rt1)\<lparr>
             rt_processed_keys := insert (cycle_key cfg target) (rt_processed_keys rt1),
             rt_strategy_runs := rt_strategy_runs rt1 @ [run], rt_last_cycle := Some r\<rparr>)" by simp_all
      show ?thesis
        by (rule settled [OF out(1) _ pr [unfolded Inr] x4 out(2)])
          (simp_all add: ev rt1_def r_def completed_result_def)
    qed
  qed
qed

text \<open>
  How a cycle ends: refused or replayed, with the candles primed at most; executed under its lock,
  which is then released; or executed without a lock where the settings allow that.
\<close>

lemma locked_cycle_cases:
  assumes "locked_cycle cfg env target x rt = (res, rt')"
  obtains (held) r where "res = Inr r" "rt' = (put_orchestrator cfg x rt)\<lparr>rt_last_cycle := Some r\<rparr>"
      "cr_risk_decision r = None" "cr_portfolio r = None"
  | (locked) locks lk rt2 where
      "acquire_cycle_lock (rt_locks rt) (cycle_lock_key cfg target) (st_cycle_lock_ttl_seconds (cycle_settings cfg))
         (Some (ce_correlation_id env)) (ce_lock_now env) (ce_lock_owner env) (ce_lock_fault env)
         = (\<lparr>la_status = LockAcquired, la_lock = lk\<rparr>, locks)"
      "execute_cycle cfg env target ''acquired'' x (rt\<lparr>rt_locks := locks\<rparr>) = (res, rt2)"
      "rt' = release_lock cfg env target rt2"
  | (unlocked) "execute_cycle cfg env target ''unavailable'' x rt = (res, rt')"
proof -
  let ?taken = "acquire_cycle_lock (rt_locks rt) (cycle_lock_key cfg target) (st_cycle_lock_ttl_seconds (cycle_settings cfg))
      (Some (ce_correlation_id env)) (ce_lock_now env) (ce_lock_owner env) (ce_lock_fault env)"
  define acq where "acq = (if ce_lock_setup_fails env then (unavailable_result, rt_locks rt) else ?taken)"
  have kept: "rt\<lparr>rt_locks := snd acq\<rparr> = rt" if "la_status (fst acq) \<noteq> LockAcquired"
  proof -
    have "snd acq = rt_locks rt"
    proof (cases "ce_lock_setup_fails env")
      case False
      then have "?taken = (fst acq, snd acq)" by (simp add: acq_def)
      from acquire_outcome [OF this] that show ?thesis by blast
    qed (simp add: acq_def)
    then show ?thesis by simp
  qed
  consider (a) lk where "fst acq = \<lparr>la_status = LockAcquired, la_lock = lk\<rparr>"
    | (r) "la_status (fst acq) = LockHeld \<or> la_status (fst acq) = LockUnavailable \<and> st_cycle_lock_fail_closed (cycle_settings cfg)"
    | (u) "la_status (fst acq) = LockUnavailable" "\<not> st_cycle_lock_fail_closed (cycle_settings cfg)"
    by (cases "fst acq"; cases "la_status (fst acq)") auto
  then show ?thesis
  proof cases
    case a
    obtain res2 rt2 where ex: "execute_cycle cfg env target ''acquired'' x (rt\<lparr>rt_locks := snd acq\<rparr>) = (res2, rt2)"
      by fastforce
    have "?taken = (\<lparr>la_status = LockAcquired, la_lock = lk\<rparr>, snd acq)"
      using a by (auto simp: acq_def unavailable_result_def prod_eq_iff split: if_splits)
    moreover have "locked_cycle cfg env target x rt = (res2, release_lock cfg env target rt2)"
      unfolding locked_cycle_def Let_def acq_def [symmetric] case_prod_beta using a ex by simp
    ultimately show ?thesis using ex assms by (intro locked) simp_all
  next
    case r
    define busy where "busy = (la_status (fst acq) = LockHeld)"
    define y where "y = empty_result cfg
      (if busy then ''cycle lock held by another worker'' else ''cycle lock layer unavailable'')
      (Some (if busy then ''CYCLE_LOCK_HELD'' else ''CYCLE_LOCK_UNAVAILABLE''))
      (Some (c_open_time target)) False False (Some (if busy then ''held'' else ''unavailable'')) None"
    have "locked_cycle cfg env target x rt = finish_cycle y (put_orchestrator cfg x (rt\<lparr>rt_locks := snd acq\<rparr>))"
      unfolding locked_cycle_def Let_def acq_def [symmetric] case_prod_beta y_def busy_def using r by auto
    moreover have "rt\<lparr>rt_locks := snd acq\<rparr> = rt" using kept r by auto
    ultimately have "(res, rt') = finish_cycle y (put_orchestrator cfg x rt)" using assms by simp
    then have "res = Inr y" "rt' = (put_orchestrator cfg x rt)\<lparr>rt_last_cycle := Some y\<rparr>"
      by (simp_all add: finish_cycle_def)
    then show ?thesis by (rule held) (simp_all add: y_def empty_result_def)
  next
    case u
    then have "locked_cycle cfg env target x rt = execute_cycle cfg env target ''unavailable'' x rt"
      unfolding locked_cycle_def Let_def acq_def [symmetric] case_prod_beta using kept by simp
    with assms show ?thesis by (intro unlocked) simp
  qed
qed

lemma run_cycle_cases:
  assumes "run_paper_trading_cycle cfg env rt = (res, rt')"
  obtains (refused) r x where "res = Inr r" "rt' = (put_orchestrator cfg x rt)\<lparr>rt_last_cycle := Some r\<rparr>"
      "cr_risk_decision r = None" "cr_portfolio r = None \<or> cr_idempotent_replay r" "or_risk x = rt_risk rt"
      "or_paper x \<in> {rt_paper rt, or_paper (snd (prime_candles (cycle_orchestrator cfg rt) (oe_now (ce_process env))
         (butlast (ce_candles env)) (get_or_create_orchestrator cfg rt)))}"
  | (locked) locks lk rt2 where
      "acquire_cycle_lock (rt_locks rt) (cycle_lock_key cfg (snd (last (ce_candles env))))
         (st_cycle_lock_ttl_seconds (cycle_settings cfg)) (Some (ce_correlation_id env)) (ce_lock_now env)
         (ce_lock_owner env) (ce_lock_fault env) = (\<lparr>la_status = LockAcquired, la_lock = lk\<rparr>, locks)"
      "execute_cycle cfg env (snd (last (ce_candles env))) ''acquired''
         (snd (prime_candles (cycle_orchestrator cfg rt) (oe_now (ce_process env)) (butlast (ce_candles env))
            (get_or_create_orchestrator cfg rt))) (rt\<lparr>rt_locks := locks\<rparr>) = (res, rt2)"
      "rt' = release_lock cfg env (snd (last (ce_candles env))) rt2"
  | (unlocked)
      "execute_cycle cfg env (snd (last (ce_candles env))) ''unavailable''
         (snd (prime_candles (cycle_orchestrator cfg rt) (oe_now (ce_process env)) (butlast (ce_candles env))
            (get_or_create_orchestrator cfg rt))) rt = (res, rt')"
proof -
  let ?x = "snd (prime_candles (cycle_orchestrator cfg rt) (oe_now (ce_process env)) (butlast (ce_candles env))
            (get_or_create_orchestrator cfg rt))"
  let ?target = "snd (last (ce_candles env))"
  consider (halt) "st_enable_reconciliation (cycle_settings cfg) \<and> \<not> is_reconciliation_healthy (rt_recon rt) \<or> ce_candles env = []"
    | (replay) "\<not> (st_enable_reconciliation (cycle_settings cfg) \<and> \<not> is_reconciliation_healthy (rt_recon rt))"
        "ce_candles env \<noteq> []" "cycle_key cfg ?target \<in> rt_processed_keys rt"
    | (run) "run_paper_trading_cycle cfg env rt = locked_cycle cfg env ?target ?x rt"
    by (cases "st_enable_reconciliation (cycle_settings cfg) \<and> \<not> is_reconciliation_healthy (rt_recon rt)";
        cases "ce_candles env = []"; cases "cycle_key cfg ?target \<in> rt_processed_keys rt")
      (auto simp: run_paper_trading_cycle_def Let_def)
  then show ?thesis
  proof cases
    case halt
    with assms show ?thesis
      by (intro refused [of "projr res" "get_or_create_orchestrator cfg rt"])
        (auto simp: run_paper_trading_cycle_def Let_def finish_cycle_def empty_result_def split: if_splits)
  next
    case replay
    with assms show ?thesis
      by (intro refused [of "projr res" "snd (snapshot (cycle_orchestrator cfg rt) ?x)"])
        (auto simp: run_paper_trading_cycle_def Let_def finish_cycle_def empty_result_def case_prod_beta)
  next
    case run
    with assms have "locked_cycle cfg env ?target ?x rt = (res, rt')" by simp
    then show ?thesis
    proof (cases rule: locked_cycle_cases)
      case (held r)
      then show ?thesis by (intro refused [of r ?x]) simp_all
    next
      case (locked locks lk rt2)
      then show ?thesis by (rule that(2))
    next
      case unlocked
      then show ?thesis by (rule that(3))
    qed
  qed
qed

subsection \<open>The lock\<close>

lemma delete_rows: "set (AList.delete k d) = {x \<in> set d. fst x \<noteq> k}"
  by (induction d) auto

lemma update_rows: "set (AList.update k v d) \<subseteq> insert (k, v) (set d)"
  by (induction d) auto

lemma execute_locks: "execute_cycle cfg env target lock x rt = (res, rt') \<Longrightarrow> rt_locks rt' = rt_locks rt"
  by (erule execute_cycle_cases) simp_all

lemma acquire_rows:
  assumes "acquire_cycle_lock db key ttl corr now owner fault = (r, db')" and "la_status r = LockAcquired"
  shows "\<forall>x \<in> set db'. x \<in> set db \<or> fst x = key \<and> lr_owner (snd x) = owner"
  using assms update_rows [of key] delete_rows [of key db]
  by (fastforce simp: acquire_cycle_lock_def acquire_write_def result_defs Let_def split: if_splits lock_decision.splits)

text \<open>
  C16. A cycle never leaves its lock behind: whichever way it ends, refused, completed, or by an
  exception of the strategy or the engine, no row of the lock table belongs to its owner
  afterwards (given a fresh owner and a release that reaches the database).
\<close>

theorem cycle_releases_lock:
  assumes "run_paper_trading_cycle cfg env rt = (res, rt')" and "ce_release_fault env = NoFault"
    and "\<forall>x \<in> set (rt_locks rt). lr_owner (snd x) \<noteq> ce_lock_owner env"
  shows "\<forall>x \<in> set (rt_locks rt'). lr_owner (snd x) \<noteq> ce_lock_owner env"
  using assms(1)
proof (cases rule: run_cycle_cases)
  case refused
  with assms(3) show ?thesis by simp
next
  case (locked locks lk rt2)
  let ?key = "cycle_lock_key cfg (snd (last (ce_candles env)))"
  have locks: "rt_locks rt2 = locks" using execute_locks [OF locked(2)] by simp
  have row: "map_of locks ?key \<noteq> None" "\<And>row. map_of locks ?key = Some row \<Longrightarrow> lr_owner row = ce_lock_owner env"
    using acquire_outcome [OF locked(1)] by auto
  then have "rt_locks rt' = AList.delete ?key locks"
    using locked(3) assms(2) locks by (auto simp: release_lock_def release_cycle_lock_def split: option.splits)
  moreover have "\<forall>x \<in> set locks. x \<in> set (rt_locks rt) \<or> fst x = ?key"
    using acquire_rows [OF locked(1)] by auto
  ultimately show ?thesis using assms(3) by (fastforce simp: delete_rows)
next
  case unlocked
  from execute_locks [OF unlocked] assms(3) show ?thesis by simp
qed

subsection \<open>Halts\<close>

lemma execute_halted:
  assumes "execute_cycle cfg env target lock x rt = (res, rt')"
    and "candle_blocked (cycle_orchestrator cfg rt) (cycle_penv env rt) (or_risk x)"
  shows "\<forall>r. res = Inr r \<longrightarrow> cr_risk_decision r \<notin> {Some RApproved, Some RReduced}"
  using assms(1)
proof (cases rule: execute_cycle_cases)
  case (settled out x1 x2 x4 r rt2)
  have "candle_blocked (cycle_orchestrator cfg rt) (cycle_penv env rt) (or_risk x1)"
    using assms(2) by (simp add: settled(2))
  from halted_candle [OF settled(3) this] settled(1,17) show ?thesis by simp
qed simp

lemma locks_irrelevant [simp]:
  "cycle_orchestrator cfg (rt\<lparr>rt_locks := l\<rparr>) = cycle_orchestrator cfg rt"
  by (simp add: cycle_orchestrator_def)

lemma cycle_blocked:
  assumes "run_paper_trading_cycle cfg env rt = (res, rt')"
    and "candle_blocked (cycle_orchestrator cfg rt) (cycle_penv env rt) (rt_risk rt)"
  shows "\<forall>r. res = Inr r \<longrightarrow> cr_risk_decision r \<notin> {Some RApproved, Some RReduced}"
  using assms(1)
proof (cases rule: run_cycle_cases)
  case (locked locks lk rt2)
  show ?thesis by (rule execute_halted [OF locked(2)]) (use assms(2) in simp)
next
  case unlocked
  show ?thesis by (rule execute_halted [OF unlocked]) (use assms(2) in simp)
qed simp

text \<open>What halts a cycle: the operator's controls, and the states the risk engine refuses in.\<close>

definition cycle_halted :: "cycle_config \<Rightarrow> runtime \<Rightarrow> bool" where
  "cycle_halted cfg rt \<longleftrightarrow>
     sf_kill_switch_enabled (rt_flags rt) \<or> sf_trading_paused (rt_flags rt)
   \<or> st_kill_switch_enabled (oc_risk_settings (cc_orchestrator cfg))
   \<or> rs_circuit_breaker_open (rt_risk rt) \<or> \<not> rs_risk_engine_healthy (rt_risk rt)
   \<or> \<not> rs_market_data_healthy (rt_risk rt) \<or> \<not> rs_database_healthy (rt_risk rt)
   \<or> \<not> rs_reconciliation_healthy (rt_risk rt)"

lemma cycle_halted_blocks:
  assumes "cycle_halted cfg rt"
  shows "candle_blocked (cycle_orchestrator cfg rt) (cycle_penv env rt) (rt_risk rt)"
proof -
  have kill: "orchestrator_kill (cycle_orchestrator cfg rt) = sf_kill_switch_enabled (rt_flags rt)"
    and st: "oc_risk_settings (cycle_orchestrator cfg rt) = oc_risk_settings (cc_orchestrator cfg)"
    by (simp_all add: orchestrator_kill_def cycle_orchestrator_def)
  consider "sf_kill_switch_enabled (rt_flags rt) \<or> st_kill_switch_enabled (oc_risk_settings (cc_orchestrator cfg))
      \<or> rs_circuit_breaker_open (rt_risk rt) \<or> sf_trading_paused (rt_flags rt)"
    | "\<not> rs_risk_engine_healthy (rt_risk rt)"
    | "\<not> rs_market_data_healthy (rt_risk rt) \<or> \<not> rs_database_healthy (rt_risk rt) \<or> \<not> rs_reconciliation_healthy (rt_risk rt)"
    using assms by (auto simp: cycle_halted_def)
  then show ?thesis
  proof cases
    case 1
    then show ?thesis by (intro halted_blocks) (auto simp: kill st)
  next
    case 2
    then show ?thesis by (intro gates_block) (simp add: check_gates_def)
  next
    case 3
    then show ?thesis by (intro health_block) (auto simp: check_health_def)
  qed
qed

text \<open>
  C7. Every halt holds in a cycle: under the kill switch, the pause, an open circuit breaker, or a
  risk engine that is unhealthy in any respect, no cycle comes back with an approved or reduced
  order; and while the reconciliation is halted a cycle is refused before it touches the ledger or
  the risk engine.
\<close>

theorem cycle_respects_halts:
  assumes "run_paper_trading_cycle cfg env rt = (res, rt')"
  shows "(cycle_halted cfg rt \<longrightarrow>
      (\<forall>r. res = Inr r \<longrightarrow> cr_risk_decision r \<notin> {Some RApproved, Some RReduced}))
    \<and> (st_enable_reconciliation (cycle_settings cfg) \<and> \<not> is_reconciliation_healthy (rt_recon rt) \<longrightarrow>
        (\<exists>r. res = Inr r \<and> \<not> cr_accepted r \<and> cr_reject_reason r = Some ''RECONCILIATION_HALT'')
        \<and> rt_paper rt' = rt_paper rt \<and> rt_risk rt' = rt_risk rt \<and> rt_locks rt' = rt_locks rt)"
proof (intro conjI impI)
  assume "cycle_halted cfg rt"
  then show "\<forall>r. res = Inr r \<longrightarrow> cr_risk_decision r \<notin> {Some RApproved, Some RReduced}"
    by (rule cycle_blocked [OF assms cycle_halted_blocks])
qed (use assms in \<open>auto simp: run_paper_trading_cycle_def finish_cycle_def empty_result_def Let_def\<close>)

text \<open>
  C8. A cycle fails closed: when an executed cycle cannot be stored or its ledger breaks an
  accounting invariant, trading is paused and the risk engine sees an unhealthy database, and no
  later cycle has an approved order until both are cleared.
\<close>

theorem cycle_fails_closed:
  assumes "run_paper_trading_cycle cfg env rt = (Inr r, rt')"
    and "cr_portfolio r \<noteq> None" and "\<not> cr_idempotent_replay r"
    and "\<not> ir_ok (check_paper (rt_paper rt')) \<or> ce_persist_fails env \<and> \<not> cc_memory_database cfg"
  shows "sf_trading_paused (rt_flags rt') \<and> \<not> rs_database_healthy (rt_risk rt')
    \<and> (\<forall>cfg2 env2 res2 rt2. run_paper_trading_cycle cfg2 env2 rt' = (res2, rt2) \<longrightarrow>
         (\<forall>r2. res2 = Inr r2 \<longrightarrow> cr_risk_decision r2 \<notin> {Some RApproved, Some RReduced}))"
proof -
  have settle: "sf_trading_paused (rt_flags (settle_cycle cfg env t)) \<and> \<not> rs_database_healthy (rt_risk (settle_cycle cfg env t))"
    if "\<not> ir_ok (check_paper (rt_paper t)) \<or> ce_persist_fails env \<and> \<not> cc_memory_database cfg" for t
    using that
    by (auto simp: settle_cycle_def check_after_cycle_def reconcile_after_cycle_def run_paper_reconciliation_def
        case_prod_beta Let_def)
  have ex: "sf_trading_paused (rt_flags t') \<and> \<not> rs_database_healthy (rt_risk t')"
    if "execute_cycle cfg env target lock x t = (Inr r, t')" "rt_paper t' = rt_paper rt'" for target lock x t t'
    using that(1)
  proof (cases rule: execute_cycle_cases)
    case (settled out x1 x2 x4 r2 rt2)
    have "rt_paper rt2 = rt_paper rt'" using settled(9) that(2) by simp
    with settle [of rt2] assms(4) settled(9) show ?thesis by simp
  qed simp
  have "sf_trading_paused (rt_flags rt') \<and> \<not> rs_database_healthy (rt_risk rt')"
    using assms(1)
  proof (cases rule: run_cycle_cases)
    case (refused r2 x)
    with assms(2,3) show ?thesis by simp
  next
    case (locked locks lk rt2)
    from ex [OF locked(2)] locked(3) show ?thesis by simp
  next
    case unlocked
    from ex [OF unlocked] show ?thesis by simp
  qed
  moreover from this have "cycle_halted c rt'" for c by (simp add: cycle_halted_def)
  ultimately show ?thesis using cycle_blocked cycle_halted_blocks by blast
qed

subsection \<open>Running a cycle again\<close>

definition remembers :: "orchestrator \<Rightarrow> orchestrator \<Rightarrow> bool" where
  "remembers s s' \<longleftrightarrow> or_seen_candles s \<subseteq> or_seen_candles s'
     \<and> (\<forall>sy t. map_of (or_last_open_time s) sy = Some t \<longrightarrow>
          (\<exists>t' \<ge> t. map_of (or_last_open_time s') sy = Some t'))"

lemma remembers_refl: "or_seen_candles s' = or_seen_candles s \<Longrightarrow> or_last_open_time s' = or_last_open_time s
    \<Longrightarrow> remembers s s'"
  by (simp add: remembers_def)

lemma remembersD: "remembers s s' \<Longrightarrow> map_of (or_last_open_time s) sy = Some t \<Longrightarrow>
    \<exists>t' \<ge> t. map_of (or_last_open_time s') sy = Some t'"
  unfolding remembers_def by blast

lemma remembers_trans:
  assumes "remembers s s1" and "remembers s1 s2"
  shows "remembers s s2"
  unfolding remembers_def
proof (intro conjI allI impI)
  show "or_seen_candles s \<subseteq> or_seen_candles s2" using assms by (auto simp: remembers_def)
  fix sy t
  assume "map_of (or_last_open_time s) sy = Some t"
  then obtain t1 where "t \<le> t1" "map_of (or_last_open_time s1) sy = Some t1"
    using remembersD [OF assms(1)] by blast
  moreover from this obtain t2 where "t1 \<le> t2" "map_of (or_last_open_time s2) sy = Some t2"
    using remembersD [OF assms(2)] by blast
  ultimately show "\<exists>t' \<ge> t. map_of (or_last_open_time s2) sy = Some t'" by (meson order_trans)
qed

lemma admitted_remembers:
  assumes "admitted c s s'" and "reject_reason cfg now c s = None"
  shows "remembers s s'"
  using assms by (auto simp: remembers_def admitted_def map_of_update_if reject_reason_def split: if_splits option.splits)

lemma rejected_stays:
  assumes "reject_reason cfg now c s \<noteq> None" and "remembers s s'" and "now \<le> now'"
  shows "reject_reason cfg now' c s' \<noteq> None"
proof (cases "map_of (or_last_open_time s) (c_symbol c)")
  case None
  with assms show ?thesis by (auto simp: reject_reason_def remembers_def split: if_splits option.splits)
next
  case (Some t)
  then obtain t' where "t \<le> t'" "map_of (or_last_open_time s') (c_symbol c) = Some t'"
    using remembersD [OF assms(2)] by blast
  with Some assms show ?thesis by (auto simp: reject_reason_def remembers_def split: if_splits option.splits)
qed

lemma prime_remembers:
  "remembers s (snd (fold (prime_candle cfg now) vcs (n, s)))
    \<and> (\<forall>vc \<in> set vcs. reject_reason cfg now (snd vc) (snd (fold (prime_candle cfg now) vcs (n, s))) \<noteq> None)"
proof (induction vcs arbitrary: n s)
  case (Cons vc vcs)
  obtain v c where vc: "vc = (v, c)" by fastforce
  define n1 s1 where "n1 = fst (prime_candle cfg now vc (n, s))" and "s1 = snd (prime_candle cfg now vc (n, s))"
  have s1: "remembers s s1 \<and> reject_reason cfg now c s1 \<noteq> None"
  proof (cases "reject_reason cfg now c s")
    case None
    then have "s1 = admit_candle cfg v c s" by (simp add: s1_def prime_candle_def vc)
    with admit_admitted [of c s cfg v] have adm: "admitted c s s1" by simp
    from admitted_remembers [OF this None] adm show ?thesis by (simp add: reject_reason_def admitted_def)
  next
    case (Some r)
    then have "s1 = s" by (simp add: s1_def prime_candle_def vc)
    with Some show ?thesis by (simp add: remembers_refl)
  qed
  have "fold (prime_candle cfg now) (vc # vcs) (n, s) = fold (prime_candle cfg now) vcs (n1, s1)"
    by (simp add: n1_def s1_def)
  moreover note Cons [of s1 n1]
  moreover from this have "reject_reason cfg now c (snd (fold (prime_candle cfg now) vcs (n1, s1))) \<noteq> None"
    using s1 rejected_stays by blast
  ultimately show ?case using s1 by (simp add: vc) (blast intro: remembers_trans)
qed (simp add: remembers_refl)

lemma prime_idle:
  "\<forall>vc \<in> set vcs. reject_reason cfg now (snd vc) s \<noteq> None \<Longrightarrow> prime_candles cfg now vcs s = (0, s)"
proof -
  assume rej: "\<forall>vc \<in> set vcs. reject_reason cfg now (snd vc) s \<noteq> None"
  have "fold (prime_candle cfg now) vcs (n, s) = (n, s)" for n
    using rej by (induction vcs) (auto simp: prime_candle_def Let_def split: prod.split)
  then show ?thesis by (simp add: prime_candles_def)
qed

lemma process_remembers:
  assumes "process_candle cfg env c s = (res, s')"
  shows "remembers s s'"
  using assms
proof (cases rule: process_candle_cases)
  case (rejected reason)
  from reject_candle_frame [of cfg env reason c s] rejected(3) show ?thesis by (auto intro: remembers_refl)
qed (blast intro: admitted_remembers)+

lemma reject_reason_kill [simp]:
  "reject_reason (cycle_orchestrator cfg rt) now c s = reject_reason (cc_orchestrator cfg) now c s"
  by (simp add: reject_reason_def cycle_orchestrator_def)

text \<open>What an executed cycle leaves in the registries.\<close>

lemma executed_memory:
  assumes "run_paper_trading_cycle cfg env rt = (Inr r, rt')"
    and "cr_portfolio r \<noteq> None" and "\<not> cr_idempotent_replay r"
  obtains x4 where "map_of (rt_orchestrators rt') (registry_key cfg) = Some x4"
    "cycle_key cfg (snd (last (ce_candles env))) \<in> rt_processed_keys rt'"
    "\<forall>vc \<in> set (butlast (ce_candles env)). reject_reason (cc_orchestrator cfg) (oe_now (ce_process env)) (snd vc) x4 \<noteq> None"
proof -
  let ?now = "oe_now (ce_process env)"
  let ?x = "snd (prime_candles (cycle_orchestrator cfg rt) ?now (butlast (ce_candles env)) (get_or_create_orchestrator cfg rt))"
  have mem: "\<exists>x4. map_of (rt_orchestrators t') (registry_key cfg) = Some x4
      \<and> cycle_key cfg target \<in> rt_processed_keys t' \<and> remembers ?x x4"
    if "execute_cycle cfg env target lock ?x t = (Inr r, t')" for target lock t t'
    using that
  proof (cases rule: execute_cycle_cases)
    case (settled out x1 x2 x4 r2 rt2)
    have "remembers ?x x1" by (rule remembers_refl) (simp_all add: settled(2))
    moreover have "remembers x1 x2" by (rule process_remembers [OF settled(3)])
    moreover have "remembers x2 x4" by (rule remembers_refl) (simp_all add: settled)
    ultimately have "remembers ?x x4" by (blast intro: remembers_trans)
    with settled show ?thesis by simp
  qed simp
  have "\<exists>x4. map_of (rt_orchestrators rt') (registry_key cfg) = Some x4
      \<and> cycle_key cfg (snd (last (ce_candles env))) \<in> rt_processed_keys rt' \<and> remembers ?x x4"
    using assms(1)
  proof (cases rule: run_cycle_cases)
    case (refused r2 x)
    with assms(2,3) show ?thesis by simp
  next
    case (locked locks lk rt2)
    from mem [OF locked(2)] locked(3) show ?thesis by simp
  next
    case unlocked
    from mem [OF unlocked] show ?thesis .
  qed
  then obtain x4 where x4: "map_of (rt_orchestrators rt') (registry_key cfg) = Some x4"
      "cycle_key cfg (snd (last (ce_candles env))) \<in> rt_processed_keys rt'" "remembers ?x x4" by blast
  have "reject_reason (cc_orchestrator cfg) ?now (snd vc) x4 \<noteq> None" if "vc \<in> set (butlast (ce_candles env))" for vc
  proof (rule rejected_stays [OF _ x4(3) order.refl])
    show "reject_reason (cc_orchestrator cfg) ?now (snd vc) ?x \<noteq> None"
      using prime_remembers [of "get_or_create_orchestrator cfg rt" "cycle_orchestrator cfg rt" ?now "butlast (ce_candles env)" 0] that
      by (simp add: prime_candles_def)
  qed
  with x4 show ?thesis by (blast intro: that)
qed

lemma snd_last: "map snd xs = map snd ys \<Longrightarrow> xs \<noteq> [] \<Longrightarrow> snd (last xs) = snd (last ys)"
  by (metis last_map list.map_disc_iff)

lemma snd_butlast: "map snd xs = map snd ys \<Longrightarrow> snd ` set (butlast xs) = snd ` set (butlast ys)"
  by (metis map_butlast set_map)

text \<open>A cycle that finds nothing to prime and its newest bar processed leaves everything as it is.\<close>

lemma idle_cycle:
  assumes "prime_candles (cycle_orchestrator cfg rt) (oe_now (ce_process env)) (butlast (ce_candles env))
      (get_or_create_orchestrator cfg rt) = (0, get_or_create_orchestrator cfg rt)"
    and "ce_candles env \<noteq> [] \<Longrightarrow> cycle_key cfg (snd (last (ce_candles env))) \<in> rt_processed_keys rt"
  shows "\<exists>r2 rt2. run_paper_trading_cycle cfg env rt = (Inr r2, rt2) \<and> cr_order_id r2 = None
    \<and> rt_paper rt2 = rt_paper rt \<and> rt_risk rt2 = rt_risk rt \<and> rt_locks rt2 = rt_locks rt
    \<and> (cr_idempotent_replay r2 \<or> cr_reject_reason r2 = Some ''RECONCILIATION_HALT''
         \<or> cr_reject_reason r2 = Some ''NO_CANDLES'')"
proof -
  define y where "y = get_or_create_orchestrator cfg rt"
  have y: "or_paper y = rt_paper rt" "or_risk y = rt_risk rt" by (simp_all add: y_def)
  note idle = assms(1) [folded y_def]
  let ?cycle = "run_paper_trading_cycle cfg env rt"
  let ?halted = "st_enable_reconciliation (cycle_settings cfg) \<and> \<not> is_reconciliation_healthy (rt_recon rt)"
  consider (halt) ?halted | (none) "\<not> ?halted" "ce_candles env = []" | (replay) "\<not> ?halted" "ce_candles env \<noteq> []"
    by blast
  then show ?thesis
  proof cases
    case halt
    then have "?cycle = finish_cycle (empty_result cfg ''reconciliation halt'' (Some ''RECONCILIATION_HALT'') None
        False False None None) (put_orchestrator cfg y rt)"
      unfolding run_paper_trading_cycle_def y_def Let_def by (simp only: not_False_eq_True simp_thms if_True)
    then show ?thesis by (simp add: finish_cycle_def empty_result_def y)
  next
    case none
    then have "?cycle = finish_cycle (empty_result cfg ''no closed candles available'' (Some ''NO_CANDLES'') None
        False False None None) (put_orchestrator cfg y rt)"
      unfolding run_paper_trading_cycle_def y_def Let_def by (simp only: if_False if_True refl)
    then show ?thesis by (simp add: finish_cycle_def empty_result_def y)
  next
    case replay
    then have "?cycle = finish_cycle (empty_result cfg ''idempotent'' None (Some (c_open_time (snd (last (ce_candles env)))))
        True True (Some ''skipped_idempotent'') (Some (fst (snapshot (cycle_orchestrator cfg rt) y))))
        (put_orchestrator cfg (snd (snapshot (cycle_orchestrator cfg rt) y)) rt)"
      unfolding run_paper_trading_cycle_def y_def [symmetric] Let_def
      by (simp only: idle assms(2) [OF replay(2)] if_False if_True snd_conv case_prod_beta)
    then show ?thesis by (simp add: finish_cycle_def empty_result_def y)
  qed
qed

text \<open>
  C9. Running a cycle again on the same candles is a replay: it comes back without an order and
  leaves the ledger, the risk engine and the lock table exactly as they were (or is refused under
  a reconciliation halt, with the same effect).
\<close>

theorem cycle_idempotent:
  assumes "run_paper_trading_cycle cfg env rt = (Inr r, rt1)"
    and "cr_portfolio r \<noteq> None" and "\<not> cr_idempotent_replay r"
    and "map snd (ce_candles env2) = map snd (ce_candles env)"
    and "oe_now (ce_process env) \<le> oe_now (ce_process env2)"
  shows "\<exists>r2 rt2. run_paper_trading_cycle cfg env2 rt1 = (Inr r2, rt2) \<and> cr_order_id r2 = None
    \<and> rt_paper rt2 = rt_paper rt1 \<and> rt_risk rt2 = rt_risk rt1 \<and> rt_locks rt2 = rt_locks rt1
    \<and> (cr_idempotent_replay r2 \<or> cr_reject_reason r2 = Some ''RECONCILIATION_HALT''
         \<or> cr_reject_reason r2 = Some ''NO_CANDLES'')"
proof -
  from executed_memory [OF assms(1-3)] obtain x4 where
    x4: "map_of (rt_orchestrators rt1) (registry_key cfg) = Some x4"
    and key: "cycle_key cfg (snd (last (ce_candles env))) \<in> rt_processed_keys rt1"
    and rej: "\<forall>vc \<in> set (butlast (ce_candles env)). reject_reason (cc_orchestrator cfg) (oe_now (ce_process env)) (snd vc) x4 \<noteq> None"
    by blast
  define y where "y = get_or_create_orchestrator cfg rt1"
  have mem: "remembers x4 y" by (rule remembers_refl) (simp_all add: y_def get_or_create_orchestrator_def x4)
  have "reject_reason (cc_orchestrator cfg) (oe_now (ce_process env2)) (snd vc) y \<noteq> None"
    if "vc \<in> set (butlast (ce_candles env2))" for vc
  proof -
    have "snd vc \<in> snd ` set (butlast (ce_candles env))"
      unfolding snd_butlast [OF assms(4), symmetric] using that by simp
    then obtain vc' where vc': "snd vc = snd vc'" "vc' \<in> set (butlast (ce_candles env))" by (rule imageE)
    have "reject_reason (cc_orchestrator cfg) (oe_now (ce_process env)) (snd vc) x4 \<noteq> None"
      unfolding vc'(1) using rej vc'(2) by blast
    then show ?thesis by (rule rejected_stays [OF _ mem assms(5)])
  qed
  then have "prime_candles (cycle_orchestrator cfg rt1) (oe_now (ce_process env2)) (butlast (ce_candles env2)) y = (0, y)"
    by (intro prime_idle) simp
  then show ?thesis
    by (intro idle_cycle) (use key snd_last [OF assms(4)] in \<open>simp_all add: y_def\<close>)
qed

text \<open>
  One strategy silences another: the key of a processed cycle has the version of the strategy
  but not its identity, so after a cycle of one strategy, the cycle of any other strategy of the
  same version on that candle is taken for a replay and never evaluated.
\<close>

lemma cycle_key_collision:
  assumes "run_paper_trading_cycle cfg env rt = (Inr r, rt1)"
    and "cr_portfolio r \<noteq> None" and "\<not> cr_idempotent_replay r"
    and "cc_symbol cfg2 = cc_symbol cfg" and "cc_timeframe cfg2 = cc_timeframe cfg"
    and "strategy_version (cycle_strategy cfg2) = strategy_version (cycle_strategy cfg)"
    and "ce_candles env2 \<noteq> []"
    and "c_open_time (snd (last (ce_candles env2))) = c_open_time (snd (last (ce_candles env)))"
    and "is_reconciliation_healthy (rt_recon rt1)"
  shows "\<exists>r2. fst (run_paper_trading_cycle cfg2 env2 rt1) = Inr r2 \<and> cr_idempotent_replay r2
    \<and> cr_order_id r2 = None \<and> cr_strategy_name r2 = strategy_name (cycle_strategy cfg2)"
proof -
  from executed_memory [OF assms(1-3)] have "cycle_key cfg (snd (last (ce_candles env))) \<in> rt_processed_keys rt1"
    by metis
  then have "cycle_key cfg2 (snd (last (ce_candles env2))) \<in> rt_processed_keys rt1"
    using assms(4-6,8) by (simp add: cycle_key_def)
  with assms(7,9) show ?thesis
    by (auto simp: run_paper_trading_cycle_def Let_def finish_cycle_def empty_result_def case_prod_beta)
qed

subsection \<open>A concrete cycle\<close>

text \<open>A strategy that has too little history holds, whatever the orchestrator it runs in.\<close>

lemma short_breakout_holds:
  assumes "length (cx_candles cx) \<le> 22"
  shows "\<exists>sg. strategy_evaluate (Breakout breakout_defaults) cx now = Inr sg \<and> sg_direction sg = SigHold"
  using assms by (simp add: breakout_evaluate_def breakout_defaults_def breakout_signal_def make_signal_def Let_def)

definition sample_cycle :: "bool \<Rightarrow> cycle_config" where
  "sample_cycle rec = \<lparr>cc_symbol = ''BTC/USDT'', cc_timeframe = ''1m'', cc_account_id = ''paper'',
     cc_orchestrator = sample_orchestrator_config\<lparr>oc_strategy := Breakout breakout_defaults,
       oc_settings := default_settings\<lparr>st_enable_reconciliation := rec, st_trading_enabled := True,
         st_default_timeframe := ''1m''\<rparr>, oc_kill_switch_enabled := None\<rparr>, cc_memory_database = False\<rparr>"

definition sample_cycle_env :: "bool \<Rightarrow> cycle_env" where
  "sample_cycle_env persist_fails = \<lparr>ce_candles = [(sample_env, sample_candle 60000000 50000)],
     ce_process = sample_orchestrator_env, ce_run_id = ''run-1'', ce_correlation_id = ''corr-1'',
     ce_lock_setup_fails = False, ce_lock_fault = NoFault, ce_lock_now = 0, ce_lock_owner = ''worker-1'',
     ce_release_fault = NoFault, ce_persist_fails = persist_fails, ce_recon_raises = False, ce_recon_now = 0\<rparr>"

definition sample_runtime :: runtime where
  "sample_runtime = \<lparr>rt_flags = \<lparr>sf_kill_switch_enabled = False, sf_trading_enabled = False,
       sf_trading_paused = False, sf_selected_strategy_id = Some ''breakout''\<rparr>,
     rt_paper = sample_engine, rt_risk = initial_risk_state, rt_recon = initial_recon_state,
     rt_orchestrators = [], rt_processed_keys = {}, rt_strategy_runs = [], rt_last_cycle = None,
     rt_last_signal = None, rt_locks = []\<rparr>"

lemma process_holds:
  assumes "oc_strategy cfg = Breakout breakout_defaults" "length (window_of s (c_symbol c)) < 22"
  shows "\<exists>out s'. process_candle cfg env c s = (Inr out, s')"
proof (cases "reject_reason cfg (oe_now env) c (receive_candle s)")
  case None
  define s2 where "s2 = hold_bar (c_symbol c) (admit_candle cfg (oe_mark env) c (receive_candle s))"
  have "length (window_of s2 (c_symbol c)) \<le> 22"
    using assms(2) by (auto simp: s2_def hold_bar_def admit_candle_def receive_candle_def window_of_def Let_def update_conv')
  then obtain sg where "strategy_evaluate (Breakout breakout_defaults)
      \<lparr>cx_candles = window_of s2 (c_symbol c), cx_position = map_of (ps_positions (or_paper s2)) (c_symbol c),
       cx_bars_held = held_bars s2 (c_symbol c)\<rparr> (oe_now env) = Inr sg" "sg_direction sg = SigHold"
    using short_breakout_holds [of "\<lparr>cx_candles = window_of s2 (c_symbol c),
      cx_position = map_of (ps_positions (or_paper s2)) (c_symbol c), cx_bars_held = held_bars s2 (c_symbol c)\<rparr>"]
    by fastforce
  with None show ?thesis
    by (simp add: process_candle_def evaluate_window_def assms(1) follow_signal_def Let_def s2_def)
qed (simp add: process_candle_def Let_def)

lemma execute_completes:
  assumes "cycle_strategy cfg = Breakout breakout_defaults" "length (window_of x (cc_symbol cfg)) < 22"
    and "cc_symbol cfg = c_symbol target"
  shows "\<exists>r rt'. execute_cycle cfg env target lock x rt = (Inr r, rt')"
proof -
  have ocfg: "oc_strategy (cycle_orchestrator cfg rt) = Breakout breakout_defaults"
    using assms(1) by (simp add: cycle_orchestrator_def cycle_strategy_def)
  obtain sg where sg: "fst (evaluate_window (cycle_orchestrator cfg rt) (oe_now (cycle_penv env rt)) (cc_symbol cfg)
      (window_of x (cc_symbol cfg) @ [target]) x) = Inr sg"
    using short_breakout_holds [of "\<lparr>cx_candles = window_of x (cc_symbol cfg) @ [target],
        cx_position = map_of (ps_positions (or_paper x)) (cc_symbol cfg), cx_bars_held = held_bars x (cc_symbol cfg)\<rparr>"]
      assms(2) by (auto simp: evaluate_window_def ocfg)
  define x1 where "x1 = snd (evaluate_window (cycle_orchestrator cfg rt) (oe_now (cycle_penv env rt)) (cc_symbol cfg)
      (window_of x (cc_symbol cfg) @ [target]) x)"
  have "length (window_of x1 (c_symbol target)) < 22"
    using assms(2,3) by (simp add: x1_def window_of_def)
  from process_holds [OF ocfg this] obtain out x2 where
    "process_candle (cycle_orchestrator cfg rt) (cycle_penv env rt) target x1 = (Inr out, x2)" by blast
  with sg show ?thesis unfolding execute_cycle_def x1_def Let_def by (simp add: case_prod_beta)
qed

definition sample_cycle_run :: "bool \<Rightarrow> bool \<Rightarrow> (py_error + cycle_result) \<times> runtime" where
  "sample_cycle_run rec persist_fails =
     run_paper_trading_cycle (sample_cycle rec) (sample_cycle_env persist_fails) sample_runtime"

lemma sample_cycle_env_simps [simp]:
  "ce_candles (sample_cycle_env f) = [(sample_env, sample_candle 60000000 50000)]"
  "ce_lock_setup_fails (sample_cycle_env f) = False" "ce_lock_fault (sample_cycle_env f) = NoFault"
  "ce_lock_now (sample_cycle_env f) = 0" "ce_lock_owner (sample_cycle_env f) = ''worker-1''"
  "ce_correlation_id (sample_cycle_env f) = ''corr-1''" "ce_release_fault (sample_cycle_env f) = NoFault"
  "ce_persist_fails (sample_cycle_env f) = f" "ce_recon_raises (sample_cycle_env f) = False"
  by (simp_all add: sample_cycle_env_def)

lemma sample_runtime_simps [simp]:
  "is_reconciliation_healthy (rt_recon sample_runtime)" "rt_locks sample_runtime = []"
  "rt_processed_keys sample_runtime = {}"
  by (simp_all add: sample_runtime_def is_reconciliation_healthy_def initial_recon_state_def)

lemma sample_orchestrator_new:
  "get_or_create_orchestrator (sample_cycle b) sample_runtime
     = new_orchestrator (cc_orchestrator (sample_cycle b)) sample_engine initial_risk_state"
  by (simp add: get_or_create_orchestrator_def sample_runtime_def)

lemma sample_cycle_executes:
  obtains x t r rt where "execute_cycle (sample_cycle b) (sample_cycle_env f) (sample_candle 60000000 50000) ''acquired'' x t = (Inr r, rt)"
    "sample_cycle_run b f = (Inr r, release_lock (sample_cycle b) (sample_cycle_env f) (sample_candle 60000000 50000) rt)"
proof -
  let ?x = "new_orchestrator (cc_orchestrator (sample_cycle b)) sample_engine initial_risk_state"
  let ?t = "sample_runtime\<lparr>rt_locks := snd (acquire_cycle_lock [] (cycle_lock_key (sample_cycle b) (sample_candle 60000000 50000))
      (st_cycle_lock_ttl_seconds (cycle_settings (sample_cycle b))) (Some ''corr-1'') 0 ''worker-1'' NoFault)\<rparr>"
  obtain r rt where ex: "execute_cycle (sample_cycle b) (sample_cycle_env f) (sample_candle 60000000 50000) ''acquired'' ?x ?t = (Inr r, rt)"
    using execute_completes [of "sample_cycle b" ?x "sample_candle 60000000 50000" "sample_cycle_env f" "''acquired''" ?t]
    by (auto simp: sample_cycle_def cycle_strategy_def sample_candle_def window_of_def new_orchestrator_def)
  have "sample_cycle_run b f = (let (res, rt2) =
      execute_cycle (sample_cycle b) (sample_cycle_env f) (sample_candle 60000000 50000) ''acquired'' ?x ?t
      in (res, release_lock (sample_cycle b) (sample_cycle_env f) (sample_candle 60000000 50000) rt2))"
    by (simp add: sample_cycle_run_def run_paper_trading_cycle_def sample_orchestrator_new prime_candles_def
        locked_cycle_def acquire_cycle_lock_def acquire_read_def acquire_write_def Let_def case_prod_beta)
  with ex that show thesis by simp
qed

lemma sample_cycle_runs:
  obtains r rt where "run_paper_trading_cycle (sample_cycle b) (sample_cycle_env f) sample_runtime = (Inr r, rt)"
    "cr_portfolio r \<noteq> None" "\<not> cr_idempotent_replay r" "\<not> b \<longrightarrow> is_reconciliation_healthy (rt_recon rt)"
proof -
  obtain x t r rt where ex: "execute_cycle (sample_cycle b) (sample_cycle_env f) (sample_candle 60000000 50000) ''acquired'' x t = (Inr r, rt)"
    and run: "sample_cycle_run b f = (Inr r, release_lock (sample_cycle b) (sample_cycle_env f) (sample_candle 60000000 50000) rt)"
    by (rule sample_cycle_executes)
  from ex show thesis
  proof (cases rule: execute_cycle_cases)
    case (settled out x1 x2 x4 r' rt2)
    have "\<not> b \<longrightarrow> is_reconciliation_healthy (rt_recon rt)"
      by (simp add: settled(9) settle_cycle_def reconcile_after_cycle_def run_paper_reconciliation_def sample_cycle_def
        cycle_settings_def is_reconciliation_healthy_def Let_def)
    then have "\<not> b \<longrightarrow> is_reconciliation_healthy (rt_recon
        (release_lock (sample_cycle b) (sample_cycle_env f) (sample_candle 60000000 50000) rt))"
      by (simp add: release_lock_def)
    with settled(1,18,19) run show thesis
      by (intro that [OF run [unfolded sample_cycle_run_def]]) simp_all
  qed simp
qed

theorem cycle_releases_lock_witness:
  "filter (\<lambda>x. lr_owner (snd x) = ''worker-1'')
     (rt_locks (snd (run_paper_trading_cycle (sample_cycle True) (sample_cycle_env False) sample_runtime))) = []"
  using cycle_releases_lock [OF prod.collapse [of "run_paper_trading_cycle (sample_cycle True) (sample_cycle_env False) sample_runtime", symmetric]]
  by (simp add: sample_cycle_env_def sample_runtime_def filter_empty_conv)

theorem cycle_respects_halts_witness:
  "case fst (run_paper_trading_cycle (sample_cycle True) (sample_cycle_env False)
       (sample_runtime\<lparr>rt_risk := initial_risk_state\<lparr>rs_circuit_breaker_open := True\<rparr>\<rparr>)) of
     Inl e \<Rightarrow> True | Inr r \<Rightarrow> cr_risk_decision r \<notin> {Some RApproved, Some RReduced}"
  using cycle_respects_halts [OF prod.collapse [of "run_paper_trading_cycle (sample_cycle True) (sample_cycle_env False)
      (sample_runtime\<lparr>rt_risk := initial_risk_state\<lparr>rs_circuit_breaker_open := True\<rparr>\<rparr>)", symmetric]]
  by (simp add: cycle_halted_def split: sum.split)

theorem cycle_fails_closed_witness:
  "sf_trading_paused (rt_flags (snd (run_paper_trading_cycle (sample_cycle True) (sample_cycle_env True) sample_runtime)))"
proof -
  obtain r rt where "run_paper_trading_cycle (sample_cycle True) (sample_cycle_env True) sample_runtime = (Inr r, rt)"
    "cr_portfolio r \<noteq> None" "\<not> cr_idempotent_replay r" by (rule sample_cycle_runs)
  then show ?thesis using cycle_fails_closed [of "sample_cycle True" "sample_cycle_env True" sample_runtime r rt]
    by (simp add: sample_cycle_env_def sample_cycle_def)
qed

theorem cycle_idempotent_witness:
  "\<exists>r1 rt1 r2 rt2. run_paper_trading_cycle (sample_cycle False) (sample_cycle_env False) sample_runtime = (Inr r1, rt1)
     \<and> run_paper_trading_cycle (sample_cycle False) (sample_cycle_env True) rt1 = (Inr r2, rt2)
     \<and> cr_order_id r2 = None \<and> rt_paper rt2 = rt_paper rt1"
proof -
  obtain r rt where run: "run_paper_trading_cycle (sample_cycle False) (sample_cycle_env False) sample_runtime = (Inr r, rt)"
    "cr_portfolio r \<noteq> None" "\<not> cr_idempotent_replay r" by (rule sample_cycle_runs)
  have "\<exists>r2 rt2. run_paper_trading_cycle (sample_cycle False) (sample_cycle_env True) rt = (Inr r2, rt2)
      \<and> cr_order_id r2 = None \<and> rt_paper rt2 = rt_paper rt"
    using cycle_idempotent [OF run, of "sample_cycle_env True"] by (auto simp: sample_cycle_env_def)
  with run(1) show ?thesis by blast
qed

lemma cycle_key_collision_witness:
  "\<exists>rt1 r2. rt1 = snd (run_paper_trading_cycle (sample_cycle False) (sample_cycle_env False) sample_runtime)
     \<and> fst (run_paper_trading_cycle (sample_cycle False\<lparr>cc_orchestrator :=
           sample_orchestrator_config\<lparr>oc_strategy := EMATrend trend_defaults\<rparr>\<rparr>) (sample_cycle_env False) rt1) = Inr r2
     \<and> cr_idempotent_replay r2 \<and> cr_strategy_name r2 = ''EMA Trend Strategy''"
proof -
  let ?cfg2 = "sample_cycle False\<lparr>cc_orchestrator := sample_orchestrator_config\<lparr>oc_strategy := EMATrend trend_defaults\<rparr>\<rparr>"
  obtain r rt where run: "run_paper_trading_cycle (sample_cycle False) (sample_cycle_env False) sample_runtime = (Inr r, rt)"
    "cr_portfolio r \<noteq> None" "\<not> cr_idempotent_replay r" "\<not> False \<longrightarrow> is_reconciliation_healthy (rt_recon rt)"
    by (rule sample_cycle_runs)
  have "\<exists>r2. fst (run_paper_trading_cycle ?cfg2 (sample_cycle_env False) rt) = Inr r2 \<and> cr_idempotent_replay r2
      \<and> cr_order_id r2 = None \<and> cr_strategy_name r2 = strategy_name (cycle_strategy ?cfg2)"
    using run(4) by (intro cycle_key_collision [OF run(1-3)]) (simp_all add: sample_cycle_def sample_cycle_env_def cycle_strategy_def)
  with run(1) show ?thesis by (auto simp: cycle_strategy_def)
qed

end
