(* ===== verification/Scheduler.thy ===== *)
theory Scheduler
  imports Paper_Cycle_Properties
begin

text \<open>
  The scheduler \<open>app/services/trading_scheduler.py\<close>: the module's globals are the record
  \<open>scheduler\<close>, \<open>run_one_cycle\<close> is \<open>_run_one_cycle\<close> with its guards and its failure accounting, and
  \<open>scheduler_turn\<close> is one turn of the loop \<open>_loop\<close> with the delay before the next one. The task of
  the loop is the flag \<open>sc_running\<close>; a turn that finds the overlap guard locked is skipped.

  \<open>scheduler_env\<close> has what a run reads from outside: the clock, the fresh run id, the error of
  resolving the candle source, the environment of the cycle, and the error of persisting the
  session or the cycle keys afterwards, whether writing the run's row fails, and the text of an
  exception (\<open>str(exc)\<close>).
\<close>

subsection \<open>State\<close>

record scheduler =
  sc_running :: bool
  sc_last_ok :: "timestamp option"
  sc_last_error :: "string option"
  sc_last_failure_at :: "timestamp option"
  sc_cycle_count :: nat
  sc_consecutive_failures :: nat
  sc_paused_by_failures :: bool
  sc_heartbeat_at :: "timestamp option"
  sc_runs :: run_table

record scheduler_env =
  se_now :: timestamp
  se_end :: timestamp
  se_run_id :: string
  se_source_error :: "py_error option"
  se_cycle :: cycle_env
  se_persist_error :: "py_error option"
  se_runs_fail :: bool
  se_error_text :: "py_error \<Rightarrow> string"

definition initial_scheduler :: scheduler where
  "initial_scheduler = \<lparr>sc_running = False, sc_last_ok = None, sc_last_error = None,
     sc_last_failure_at = None, sc_cycle_count = 0, sc_consecutive_failures = 0,
     sc_paused_by_failures = False, sc_heartbeat_at = None, sc_runs = []\<rparr>"

definition clear_failure_pause :: "scheduler \<Rightarrow> scheduler" where
  "clear_failure_pause sc = sc\<lparr>sc_paused_by_failures := False, sc_consecutive_failures := 0\<rparr>"

definition set_session_paused :: "bool \<Rightarrow> runtime \<Rightarrow> runtime" where
  "set_session_paused paused rt = rt\<lparr>rt_flags := (rt_flags rt)\<lparr>sf_trading_paused := paused\<rparr>\<rparr>"

text \<open>\<open>_persist_run\<close> swallows its own failures.\<close>

definition persist_run :: "settings \<Rightarrow> string \<Rightarrow> scheduler_env \<Rightarrow> string \<Rightarrow> string option
  \<Rightarrow> string option \<Rightarrow> timestamp \<Rightarrow> scheduler \<Rightarrow> scheduler" where
  "persist_run st sid env status correlation_id error now sc =
     (if se_runs_fail env then sc
      else sc\<lparr>sc_runs := record_scheduler_run (sc_runs sc) (se_run_id env) (st_default_symbol st)
             (st_default_timeframe st) sid status correlation_id error None now\<rparr>)"

subsection \<open>One run\<close>

text \<open>What keeps a run from starting a cycle, in the order of the checks.\<close>

definition scheduler_block :: "settings \<Rightarrow> scheduler \<Rightarrow> runtime \<Rightarrow> string option" where
  "scheduler_block st sc rt =
     (if sc_paused_by_failures sc then Some ''paused_after_failure_threshold''
      else if sf_kill_switch_enabled (rt_flags rt) \<or> st_kill_switch_enabled st then Some ''kill_switch_active''
      else if sf_trading_paused (rt_flags rt) then Some ''trading_paused''
      else if \<not> sf_trading_enabled (rt_flags rt) \<and> \<not> st_trading_enabled st then Some ''trading_disabled''
      else if st_enable_reconciliation st \<and> \<not> is_reconciliation_healthy (rt_recon rt)
      then Some ''reconciliation_halt''
      else None)"

definition scheduled_strategy :: "runtime \<Rightarrow> string" where
  "scheduled_strategy rt =
     (case sf_selected_strategy_id (rt_flags rt) of
        Some sid \<Rightarrow> if sid = '''' then ''ema_crossover'' else sid
      | None \<Rightarrow> ''ema_crossover'')"

text \<open>The configuration of the cycle; \<open>base\<close> has what the orchestrator is built with.\<close>

definition scheduled_cycle :: "cycle_config \<Rightarrow> settings \<Rightarrow> strategy \<Rightarrow> cycle_config" where
  "scheduled_cycle base st s =
     base\<lparr>cc_symbol := st_default_symbol st, cc_timeframe := st_default_timeframe st,
          cc_orchestrator := (cc_orchestrator base)\<lparr>oc_strategy := s, oc_settings := st\<rparr>\<rparr>"

definition run_failed :: "settings \<Rightarrow> scheduler_env \<Rightarrow> string \<Rightarrow> py_error \<Rightarrow> scheduler \<Rightarrow> runtime
  \<Rightarrow> (py_error + unit) \<times> scheduler \<times> runtime" where
  "run_failed st env sid e sc rt =
     (let sc1 = sc\<lparr>sc_last_error := Some (take 500 (se_error_text env e)), sc_last_failure_at := Some (se_end env),
                  sc_consecutive_failures := sc_consecutive_failures sc + 1\<rparr>;
          sc2 = persist_run st sid env ''failed'' None (sc_last_error sc1) (se_end env) sc1
      in if st_scheduler_failure_threshold st \<le> int (sc_consecutive_failures sc2)
         then (Inl e, sc2\<lparr>sc_paused_by_failures := True\<rparr>, set_session_paused True rt)
         else (Inl e, sc2, rt))"

definition run_succeeded :: "settings \<Rightarrow> scheduler_env \<Rightarrow> string \<Rightarrow> scheduler \<Rightarrow> runtime
  \<Rightarrow> (py_error + unit) \<times> scheduler \<times> runtime" where
  "run_succeeded st env sid sc rt =
     (let sc1 = sc\<lparr>sc_cycle_count := sc_cycle_count sc + 1, sc_last_ok := Some (se_end env),
                  sc_last_error := None, sc_consecutive_failures := 0\<rparr>
      in (Inr (), persist_run st sid env ''success'' (Some (ce_correlation_id (se_cycle env))) None
                    (se_end env) sc1, rt))"

definition run_one_cycle :: "cycle_config \<Rightarrow> strategy_registry \<Rightarrow> settings \<Rightarrow> scheduler_env
  \<Rightarrow> scheduler \<times> runtime \<Rightarrow> (py_error + unit) \<times> scheduler \<times> runtime" where
  "run_one_cycle base reg st env x =
     (let (sc, rt) = x in
      case assert_paper_only st of Inl e \<Rightarrow> (Inl e, sc, rt)
      | Inr _ \<Rightarrow>
        let sc1 = sc\<lparr>sc_heartbeat_at := Some (se_now env)\<rparr> in
        case scheduler_block st sc1 rt of
          Some reason \<Rightarrow> (Inr (), sc1\<lparr>sc_last_error := Some reason\<rparr>, rt)
        | None \<Rightarrow>
          case se_source_error env of Some e \<Rightarrow> (Inl e, sc1, rt)
          | None \<Rightarrow>
            let sid = scheduled_strategy rt;
                sc2 = persist_run st sid env ''running'' None None (se_now env) sc1
            in case get_strategy reg sid of
                 Inl e \<Rightarrow> run_failed st env sid e sc2 rt
               | Inr s \<Rightarrow>
                   let (res, rt1) = run_paper_trading_cycle (scheduled_cycle base st s) (se_cycle env) rt
                   in case res of
                        Inl e \<Rightarrow> run_failed st env sid e sc2 rt1
                      | Inr r \<Rightarrow>
                          (case se_persist_error env of
                             Some e \<Rightarrow> run_failed st env sid e sc2 rt1
                           | None \<Rightarrow> run_succeeded st env sid sc2 rt1))"

subsection \<open>The loop\<close>

definition next_backoff :: "int \<Rightarrow> bool \<Rightarrow> int \<Rightarrow> int" where
  "next_backoff interval failed backoff =
     (if failed then min (backoff * 2) (max (interval * 8) 300) else interval)"

text \<open>A turn: skipped under the overlap guard, else a run; and the delay before the next turn.\<close>

definition scheduler_turn :: "cycle_config \<Rightarrow> strategy_registry \<Rightarrow> settings \<Rightarrow> bool \<times> scheduler_env
  \<Rightarrow> int \<times> scheduler \<times> runtime \<Rightarrow> int \<times> scheduler \<times> runtime" where
  "scheduler_turn base reg st turn x =
     (let (overlap, env) = turn; (backoff, y) = x; interval = st_paper_cycle_interval_seconds st
      in if overlap then (next_backoff interval False backoff, y)
         else let (res, y1) = run_one_cycle base reg st env y
              in (next_backoff interval (isl res) backoff, y1))"

definition scheduler_loop :: "cycle_config \<Rightarrow> strategy_registry \<Rightarrow> settings \<Rightarrow> (bool \<times> scheduler_env) list
  \<Rightarrow> scheduler \<times> runtime \<Rightarrow> int \<times> scheduler \<times> runtime" where
  "scheduler_loop base reg st turns y =
     fold (scheduler_turn base reg st) turns (st_paper_cycle_interval_seconds st, y)"

subsection \<open>Control\<close>

definition start_scheduler :: "settings \<Rightarrow> bool \<Rightarrow> scheduler \<Rightarrow> scheduler" where
  "start_scheduler st force sc =
     (if \<not> force \<and> \<not> st_enable_trading_scheduler st then sc
      else if sc_running sc then sc
      else (clear_failure_pause sc)\<lparr>sc_running := True\<rparr>)"

definition stop_scheduler :: "scheduler \<Rightarrow> scheduler" where
  "stop_scheduler sc = sc\<lparr>sc_running := False\<rparr>"

definition pause_scheduler :: "scheduler \<times> runtime \<Rightarrow> scheduler \<times> runtime" where
  "pause_scheduler x = (fst x, set_session_paused True (snd x))"

definition resume_scheduler :: "scheduler \<times> runtime \<Rightarrow> scheduler \<times> runtime" where
  "resume_scheduler x = (clear_failure_pause (fst x), set_session_paused False (snd x))"

text \<open>Everything that moves the scheduler: a run of the loop's task, and the operator's controls.\<close>

inductive scheduler_step :: "cycle_config \<Rightarrow> strategy_registry \<Rightarrow> settings
  \<Rightarrow> scheduler \<times> runtime \<Rightarrow> scheduler \<times> runtime \<Rightarrow> bool"
  for base reg st where
  step_run: "sc_running sc \<Longrightarrow> run_one_cycle base reg st env (sc, rt) = (res, sc', rt')
    \<Longrightarrow> scheduler_step base reg st (sc, rt) (sc', rt')"
| step_start: "scheduler_step base reg st (sc, rt) (start_scheduler st force sc, rt)"
| step_stop: "scheduler_step base reg st (sc, rt) (stop_scheduler sc, rt)"
| step_pause: "scheduler_step base reg st x (pause_scheduler x)"
| step_resume: "scheduler_step base reg st x (resume_scheduler x)"

end
