(* ===== verification/Scheduler_Properties.thy ===== *)
theory Scheduler_Properties
  imports Scheduler
begin

text \<open>
  What the scheduler guarantees: the failure threshold pauses it, nothing it does passes a halt,
  and the delay of its retries is bounded.
\<close>

lemma persist_run_frame [simp]:
  "sc_paused_by_failures (persist_run st sid env status c e t sc) = sc_paused_by_failures sc"
  "sc_consecutive_failures (persist_run st sid env status c e t sc) = sc_consecutive_failures sc"
  "sc_running (persist_run st sid env status c e t sc) = sc_running sc"
  "sc_cycle_count (persist_run st sid env status c e t sc) = sc_cycle_count sc"
  by (simp_all add: persist_run_def)

lemma set_session_paused_frame [simp]:
  "sf_trading_paused (rt_flags (set_session_paused b rt)) = b"
  "rt_paper (set_session_paused b rt) = rt_paper rt" "rt_risk (set_session_paused b rt) = rt_risk rt"
  by (simp_all add: set_session_paused_def)

text \<open>How a run ends: stopped before it counts, failed and counted, or completed.\<close>

lemma run_one_cycle_cases:
  assumes "run_one_cycle base reg st env (sc, rt) = (res, sc', rt')"
  obtains (stopped) "rt' = rt" "sc_consecutive_failures sc' = sc_consecutive_failures sc"
      "sc_paused_by_failures sc' = sc_paused_by_failures sc" "sc_running sc' = sc_running sc"
  | (failed) e sc2 rt1 where "run_failed st env (scheduled_strategy rt) e sc2 rt1 = (res, sc', rt')"
      "sc_consecutive_failures sc2 = sc_consecutive_failures sc" "\<not> sc_paused_by_failures sc2"
      "\<not> sc_paused_by_failures sc" "sc_running sc2 = sc_running sc"
      "assert_paper_only st = Inr ()" "scheduler_block st sc rt = None"
  | (completed) s r sc2 where "get_strategy reg (scheduled_strategy rt) = Inr s" "se_persist_error env = None"
      "run_paper_trading_cycle (scheduled_cycle base st s) (se_cycle env) rt = (Inr r, rt')" "res = Inr ()"
      "run_succeeded st env (scheduled_strategy rt) sc2 rt' = (Inr (), sc', rt')"
      "\<not> sc_paused_by_failures sc2" "\<not> sc_paused_by_failures sc" "sc_running sc2 = sc_running sc"
      "assert_paper_only st = Inr ()" "scheduler_block st sc rt = None"
proof (cases "assert_paper_only st")
  case (Inl e)
  with assms show thesis by (intro stopped) (auto simp: run_one_cycle_def)
next
  case (Inr u)
  define sc1 where "sc1 = sc\<lparr>sc_heartbeat_at := Some (se_now env)\<rparr>"
  have block: "scheduler_block st sc1 rt = scheduler_block st sc rt" by (simp add: scheduler_block_def sc1_def)
  show thesis
  proof (cases "scheduler_block st sc rt = None \<and> se_source_error env = None")
    case False
    with assms Inr block show thesis
      by (intro stopped) (auto simp: run_one_cycle_def Let_def sc1_def [symmetric] split: option.splits,
          auto simp: sc1_def)
  next
    case True
    define sc2 where "sc2 = persist_run st (scheduled_strategy rt) env ''running'' None None (se_now env) sc1"
    have sc2: "sc_consecutive_failures sc2 = sc_consecutive_failures sc" "\<not> sc_paused_by_failures sc2"
        "\<not> sc_paused_by_failures sc" "sc_running sc2 = sc_running sc"
      using True by (auto simp: sc2_def sc1_def scheduler_block_def split: if_splits)
    have run: "run_one_cycle base reg st env (sc, rt) =
      (case get_strategy reg (scheduled_strategy rt) of
         Inl e \<Rightarrow> run_failed st env (scheduled_strategy rt) e sc2 rt
       | Inr s \<Rightarrow>
           let (res, rt1) = run_paper_trading_cycle (scheduled_cycle base st s) (se_cycle env) rt
           in case res of
                Inl e \<Rightarrow> run_failed st env (scheduled_strategy rt) e sc2 rt1
              | Inr r \<Rightarrow> (case se_persist_error env of
                     Some e \<Rightarrow> run_failed st env (scheduled_strategy rt) e sc2 rt1
                   | None \<Rightarrow> run_succeeded st env (scheduled_strategy rt) sc2 rt1))"
      unfolding sc2_def using Inr True block by (simp add: run_one_cycle_def sc1_def [symmetric] Let_def)
    have paper: "assert_paper_only st = Inr ()" using Inr by simp
    show thesis
    proof (cases "get_strategy reg (scheduled_strategy rt)")
      case (Inl e)
      with assms run sc2 paper True show thesis by (intro failed [of e sc2 rt]) auto
    next
      case (Inr s)
      obtain cres rt1 where cyc: "run_paper_trading_cycle (scheduled_cycle base st s) (se_cycle env) rt = (cres, rt1)"
        by fastforce
      show thesis
      proof (cases "isl cres \<or> se_persist_error env \<noteq> None")
        case fails: True
        with assms run sc2 paper True Inr cyc show thesis
          by (cases cres) (auto intro: failed [of _ sc2 rt1])
      next
        case False
        with assms run sc2 paper True Inr cyc show thesis
          by (cases cres) (auto intro!: completed [of s _ sc2] simp: run_succeeded_def Let_def)
      qed
    qed
  qed
qed

subsection \<open>The failure threshold\<close>

definition threshold_ok :: "settings \<Rightarrow> scheduler \<Rightarrow> bool" where
  "threshold_ok st sc \<longleftrightarrow> int (sc_consecutive_failures sc) \<le> st_scheduler_failure_threshold st
     \<and> (sc_paused_by_failures sc \<longleftrightarrow> int (sc_consecutive_failures sc) = st_scheduler_failure_threshold st)"

lemma threshold_step:
  assumes "scheduler_step base reg st x y" and "threshold_ok st (fst x)" and "1 \<le> st_scheduler_failure_threshold st"
  shows "threshold_ok st (fst y)"
  using assms(1)
proof (cases rule: scheduler_step.cases)
  case (step_run sc rt env res sc' rt')
  from step_run(4) show ?thesis
  proof (cases rule: run_one_cycle_cases)
    case stopped
    with assms(2) step_run show ?thesis by (simp add: threshold_ok_def)
  next
    case (failed e sc2 rt1)
    with assms(2) step_run show ?thesis by (auto simp: threshold_ok_def run_failed_def Let_def split: if_splits)
  next
    case (completed s r sc2)
    with assms(3) step_run show ?thesis by (auto simp: threshold_ok_def run_succeeded_def Let_def)
  qed
qed (use assms(2,3) in \<open>auto simp: threshold_ok_def start_scheduler_def stop_scheduler_def pause_scheduler_def
  resume_scheduler_def clear_failure_pause_def\<close>)

lemma failure_pause_blocks:
  assumes "sc_paused_by_failures sc" and "run_one_cycle base reg st env (sc, rt) = (res, sc', rt')"
  shows "rt' = rt \<and> sc_paused_by_failures sc'"
  using assms(2) by (cases rule: run_one_cycle_cases) (use assms(1) in auto)

text \<open>
  The failure threshold holds: however the scheduler is run, started, stopped, paused and
  resumed, it never has more consecutive failures than the threshold, it is paused by failures
  exactly when it has reached it, and as long as it is, a run leaves the whole runtime (ledger,
  risk engine, locks) as it is.
\<close>

lemma scheduler_threshold:
  assumes "(scheduler_step base reg st)\<^sup>*\<^sup>* (initial_scheduler, rt0) (sc, rt)"
    and "1 \<le> st_scheduler_failure_threshold st"
  shows "int (sc_consecutive_failures sc) \<le> st_scheduler_failure_threshold st
    \<and> (sc_paused_by_failures sc \<longleftrightarrow> int (sc_consecutive_failures sc) = st_scheduler_failure_threshold st)
    \<and> (sc_paused_by_failures sc \<longrightarrow> (\<forall>env. snd (snd (run_one_cycle base reg st env (sc, rt))) = rt))"
proof -
  have "threshold_ok st (fst (initial_scheduler, rt0))"
    using assms(2) by (simp add: threshold_ok_def initial_scheduler_def)
  with assms(1) have "threshold_ok st (fst (sc, rt))"
    by (induction rule: rtranclp_induct) (use threshold_step assms(2) in blast)+
  moreover have "snd (snd (run_one_cycle base reg st env (sc, rt))) = rt" if "sc_paused_by_failures sc" for env
    using failure_pause_blocks [OF that] by (metis prod.collapse)
  ultimately show ?thesis by (simp add: threshold_ok_def)
qed

subsection \<open>Halts\<close>

text \<open>
  The scheduler passes no halt: a run that changes anything of the runtime was made in paper
  mode, not paused by failures, with no kill switch, no pause, trading enabled, and no
  reconciliation halt.
\<close>

lemma scheduler_gated:
  assumes "run_one_cycle base reg st env (sc, rt) = (res, sc', rt')" and "rt' \<noteq> rt"
  shows "assert_paper_only st = Inr () \<and> \<not> sc_paused_by_failures sc
    \<and> \<not> sf_kill_switch_enabled (rt_flags rt) \<and> \<not> st_kill_switch_enabled st
    \<and> \<not> sf_trading_paused (rt_flags rt)
    \<and> (sf_trading_enabled (rt_flags rt) \<or> st_trading_enabled st)
    \<and> (st_enable_reconciliation st \<longrightarrow> is_reconciliation_healthy (rt_recon rt))"
proof -
  have "assert_paper_only st = Inr () \<and> scheduler_block st sc rt = None"
    using assms(1) by (cases rule: run_one_cycle_cases) (use assms(2) in auto)
  then show ?thesis by (auto simp: scheduler_block_def split: if_splits)
qed

text \<open>
  The operator's switch does not stop the scheduler: with trading disabled in the session
  (documented as authoritative) but enabled in the settings, a run executes the cycle all the same.
\<close>

lemma disabled_session_runs:
  assumes "\<not> sf_trading_enabled (rt_flags rt)" "st_trading_enabled st"
    and "assert_paper_only st = Inr ()" "\<not> sc_paused_by_failures sc"
    and "\<not> sf_kill_switch_enabled (rt_flags rt)" "\<not> st_kill_switch_enabled st" "\<not> sf_trading_paused (rt_flags rt)"
    and "is_reconciliation_healthy (rt_recon rt)" "se_source_error env = None" "se_persist_error env = None"
    and "get_strategy reg (scheduled_strategy rt) = Inr s"
    and "run_paper_trading_cycle (scheduled_cycle base st s) (se_cycle env) rt = (Inr r, rt1)"
  shows "\<exists>sc'. run_one_cycle base reg st env (sc, rt) = (Inr (), sc', rt1)
    \<and> sc_cycle_count sc' = sc_cycle_count sc + 1"
  using assms by (simp add: run_one_cycle_def scheduler_block_def run_succeeded_def Let_def)

text \<open>
  A failing market data source is never counted: a run whose candle source cannot be resolved
  raises without adding to the failures, so the threshold can never pause the scheduler for it.
\<close>

lemma source_failure_uncounted:
  assumes "assert_paper_only st = Inr ()" "scheduler_block st sc rt = None" "se_source_error env = Some e"
  shows "\<exists>sc'. run_one_cycle base reg st env (sc, rt) = (Inl e, sc', rt)
    \<and> sc_consecutive_failures sc' = sc_consecutive_failures sc \<and> \<not> sc_paused_by_failures sc'"
  using assms by (auto simp: run_one_cycle_def scheduler_block_def Let_def split: if_splits)

subsection \<open>The delay between turns\<close>

definition turn_failed :: "cycle_config \<Rightarrow> strategy_registry \<Rightarrow> settings \<Rightarrow> bool \<times> scheduler_env
  \<Rightarrow> scheduler \<times> runtime \<Rightarrow> bool" where
  "turn_failed base reg st turn y \<longleftrightarrow> \<not> fst turn \<and> isl (fst (run_one_cycle base reg st (snd turn) y))"

primrec turn_outcomes :: "cycle_config \<Rightarrow> strategy_registry \<Rightarrow> settings \<Rightarrow> (bool \<times> scheduler_env) list
  \<Rightarrow> scheduler \<times> runtime \<Rightarrow> bool list" where
  "turn_outcomes base reg st [] y = []"
| "turn_outcomes base reg st (t # ts) y =
     turn_failed base reg st t y # turn_outcomes base reg st ts (snd (scheduler_turn base reg st t (0, y)))"

lemma turn_split:
  "scheduler_turn base reg st t (b, y)
     = (next_backoff (st_paper_cycle_interval_seconds st) (turn_failed base reg st t y) b,
        snd (scheduler_turn base reg st t (0, y)))"
  by (cases t; cases "run_one_cycle base reg st (snd t) y") (simp add: scheduler_turn_def turn_failed_def Let_def)

lemma loop_outcomes:
  "fst (fold (scheduler_turn base reg st) ts (b, y))
     = fold (next_backoff (st_paper_cycle_interval_seconds st)) (turn_outcomes base reg st ts y) b"
proof (induction ts arbitrary: b y)
  case (Cons t ts)
  show ?case by (simp add: turn_split [of base reg st t b y] Cons del: fold.simps(2)) (simp add: turn_split [of base reg st t b y] Cons)
qed simp

definition backoff_after :: "int \<Rightarrow> nat \<Rightarrow> int" where
  "backoff_after interval k = (if k = 0 then interval else min (2 ^ k * interval) (max (interval * 8) 300))"

lemma backoff_next:
  assumes "0 \<le> interval"
  shows "next_backoff interval True (backoff_after interval k) = backoff_after interval (Suc k)"
  using assms by (auto simp: next_backoff_def backoff_after_def min_def max_def algebra_simps)

lemma backoff_fold:
  assumes "0 \<le> interval"
  shows "fold (next_backoff interval) fs interval = backoff_after interval (length (takeWhile id (rev fs)))"
proof (induction fs rule: rev_induct)
  case (snoc f fs)
  then show ?case
    using backoff_next [OF assms] by (cases f) (simp_all add: next_backoff_def [of _ False] backoff_after_def [of _ 0])
qed (simp add: backoff_after_def)

text \<open>
  The retry delay is exactly a capped exponential backoff: after k failed turns in a row it is
  the interval times 2 to the k, capped at eight intervals or 300 seconds, whichever is larger, and
  any other turn (completed, blocked or skipped) resets it to the interval.
\<close>

lemma scheduler_backoff:
  assumes "0 \<le> st_paper_cycle_interval_seconds st"
  shows "fst (scheduler_loop base reg st turns y) =
    (let k = length (takeWhile id (rev (turn_outcomes base reg st turns y)));
         interval = st_paper_cycle_interval_seconds st
     in if k = 0 then interval else min (2 ^ k * interval) (max (interval * 8) 300))"
  unfolding scheduler_loop_def loop_outcomes backoff_fold [OF assms] by (simp add: backoff_after_def Let_def)

subsection \<open>A concrete run\<close>

definition sample_scheduler_settings :: settings where
  "sample_scheduler_settings = default_settings\<lparr>st_enable_reconciliation := False, st_trading_enabled := True,
     st_default_timeframe := ''1m''\<rparr>"

definition sample_registry :: strategy_registry where
  "sample_registry = register_strategy (Breakout breakout_defaults) []"

definition sample_scheduler_env :: "py_error option \<Rightarrow> scheduler_env" where
  "sample_scheduler_env source = \<lparr>se_now = 0, se_end = 1, se_run_id = ''run-1'', se_source_error = source,
     se_cycle = sample_cycle_env False, se_persist_error = None, se_runs_fail = False,
     se_error_text = (\<lambda>e. ''error'')\<rparr>"

lemma sample_scheduled:
  "get_strategy sample_registry (scheduled_strategy sample_runtime) = Inr (Breakout breakout_defaults)"
  "scheduled_cycle (sample_cycle False) sample_scheduler_settings (Breakout breakout_defaults) = sample_cycle False"
  by (simp_all add: sample_registry_def register_strategy_def get_strategy_def scheduled_strategy_def sample_runtime_def
    scheduled_cycle_def sample_cycle_def sample_scheduler_settings_def default_settings_def sample_orchestrator_config_def)

lemma sample_guards:
  "\<not> sf_trading_enabled (rt_flags sample_runtime)" "st_trading_enabled sample_scheduler_settings"
  "assert_paper_only sample_scheduler_settings = Inr ()" "\<not> sc_paused_by_failures initial_scheduler"
  "\<not> sf_kill_switch_enabled (rt_flags sample_runtime)" "\<not> st_kill_switch_enabled sample_scheduler_settings"
  "\<not> sf_trading_paused (rt_flags sample_runtime)"
  by (simp_all add: sample_runtime_def sample_scheduler_settings_def default_settings_def initial_scheduler_def
    assert_paper_only_def settings_runtime_mode_def derive_runtime_mode_def
    py_strip_def py_lower_def lower_char_def is_space_def Let_def)

lemma scheduler_threshold_witness:
  "int (sc_consecutive_failures initial_scheduler) \<le> st_scheduler_failure_threshold default_settings"
  using scheduler_threshold [of "sample_cycle False" "[]" default_settings sample_runtime initial_scheduler sample_runtime]
  by (simp add: default_settings_def)

lemma scheduler_backoff_witness:
  "fst (scheduler_loop (sample_cycle False) [] default_settings [] (initial_scheduler, sample_runtime)) = 60"
  using scheduler_backoff [of default_settings "sample_cycle False" "[]" "[]" "(initial_scheduler, sample_runtime)"]
  by (simp add: default_settings_def Let_def)

lemma source_failure_uncounted_witness:
  "\<exists>sc'. run_one_cycle (sample_cycle False) sample_registry sample_scheduler_settings
      (sample_scheduler_env (Some (ValueError ''source''))) (initial_scheduler, sample_runtime)
     = (Inl (ValueError ''source''), sc', sample_runtime) \<and> sc_consecutive_failures sc' = 0"
  using source_failure_uncounted [of sample_scheduler_settings initial_scheduler sample_runtime
      "sample_scheduler_env (Some (ValueError ''source''))" "ValueError ''source''" "sample_cycle False" sample_registry]
    sample_guards
  by (auto simp: scheduler_block_def sample_scheduler_env_def) (simp add: initial_scheduler_def)

lemma disabled_session_runs_witness:
  "\<exists>sc' r rt1. run_one_cycle (sample_cycle False) sample_registry sample_scheduler_settings
      (sample_scheduler_env None) (initial_scheduler, sample_runtime) = (Inr (), sc', rt1)
     \<and> run_paper_trading_cycle (sample_cycle False) (sample_cycle_env False) sample_runtime = (Inr r, rt1)"
proof -
  obtain r rt1 where "run_paper_trading_cycle (sample_cycle False) (sample_cycle_env False) sample_runtime = (Inr r, rt1)"
    by (rule sample_cycle_runs)
  with disabled_session_runs [of sample_runtime sample_scheduler_settings initial_scheduler
      "sample_scheduler_env None" sample_registry "Breakout breakout_defaults" "sample_cycle False" r rt1]
  show ?thesis using sample_guards sample_scheduled by (auto simp: sample_scheduler_env_def)
qed

lemma scheduler_gated_witness:
  "assert_paper_only sample_scheduler_settings = Inr () \<and> \<not> sf_kill_switch_enabled (rt_flags sample_runtime)"
proof -
  obtain r rt1 where cyc: "run_paper_trading_cycle (sample_cycle False) (sample_cycle_env False) sample_runtime = (Inr r, rt1)"
    and r: "cr_portfolio r \<noteq> None" "\<not> cr_idempotent_replay r"
    by (rule sample_cycle_runs)
  obtain k where "k \<in> rt_processed_keys rt1" by (rule executed_memory [OF cyc r])
  then have "rt1 \<noteq> sample_runtime" by (cases "rt1 = sample_runtime") simp_all
  moreover obtain sc' where run: "run_one_cycle (sample_cycle False) sample_registry sample_scheduler_settings
      (sample_scheduler_env None) (initial_scheduler, sample_runtime) = (Inr (), sc', rt1)"
    using cyc sample_guards sample_scheduled
    by (simp add: run_one_cycle_def scheduler_block_def run_succeeded_def Let_def sample_scheduler_env_def)
  ultimately show ?thesis using scheduler_gated [OF run] by simp
qed

end
