(* ===== verification/Paper_Session.thy ===== *)
theory Paper_Session
  imports Scheduler_Properties
begin

text \<open>
  The paper session \<open>app/services/paper_session.py\<close>: the process-wide account behind the dashboard
  and the scheduler. It owns the ledger, the risk engine and the safety flags of the \<open>runtime\<close>, and
  keeps its own bookkeeping: equity statistics, the history of orders, the logs of signals and risk
  events, the equity curve, and the strategies that run with their parameters.

  Every order goes through \<open>session_submit\<close> (the method \<open>_submit\<close>) and so through the gateway; a
  strategy tick runs the paper cycle. The clock, fresh identifiers, the time of the last market data
  and the synthetic market of the dashboard (its closes are floating-point sines) are arguments, and
  so is whether a durable write fails; what is written is the subject of \<open>Paper_Store\<close>. An override
  of parameters is the strategy with those parameters.
\<close>

subsection \<open>State\<close>

record risk_event =
  rv_timestamp :: timestamp
  rv_decision :: risk_decision
  rv_reason_code :: risk_reason
  rv_message :: string
  rv_symbol :: "string option"
  rv_strategy_name :: "string option"
  rv_requested_quantity :: "decimal option"
  rv_approved_quantity :: "decimal option"
  rv_order_id :: "string option"

record session_signal =
  sl_strategy_name :: string
  sl_strategy_version :: string
  sl_symbol :: string
  sl_timestamp :: timestamp
  sl_direction :: signal_direction
  sl_confidence :: decimal
  sl_rationale :: string
  sl_suggested_stop :: "decimal option"
  sl_suggested_target :: "decimal option"
  sl_suggested_entry :: "decimal option"

record curve_point =
  cv_time :: timestamp
  cv_equity :: decimal
  cv_drawdown :: decimal

record paper_session =
  ss_runtime :: runtime
  ss_daily_start_equity :: decimal
  ss_peak_equity :: decimal
  ss_consecutive_losses :: nat
  ss_ticks :: "(string, nat) dict"
  ss_running_strategies :: "string set"
  ss_param_overrides :: "(string, strategy) dict"
  ss_order_history :: "order list"
  ss_signal_log :: "session_signal list"
  ss_risk_event_log :: "risk_event list"
  ss_equity_curve :: "curve_point list"
  ss_closed_trades :: "closed_trade list"
  ss_session_id :: string

record session_config =
  sg_settings :: settings
  sg_paper :: paper_config

record session_env =
  sv_now :: timestamp
  sv_md_ts :: "timestamp option"
  sv_md_now :: timestamp
  sv_risk_now :: timestamp
  sv_mark :: paper_env
  sv_submit :: paper_env
  sv_key :: string
  sv_order_id :: string
  sv_client_id :: string
  sv_live_close :: "string \<Rightarrow> decimal"
  sv_persist_fails :: bool
  sv_reason_value :: "risk_reason \<Rightarrow> string"

abbreviation ss_paper :: "paper_session \<Rightarrow> paper_state" where
  "ss_paper s \<equiv> rt_paper (ss_runtime s)"

abbreviation ss_risk :: "paper_session \<Rightarrow> risk_state" where
  "ss_risk s \<equiv> rt_risk (ss_runtime s)"

abbreviation ss_flags :: "paper_session \<Rightarrow> session_flags" where
  "ss_flags s \<equiv> rt_flags (ss_runtime s)"

definition with_paper :: "paper_state \<Rightarrow> paper_session \<Rightarrow> paper_session" where
  "with_paper ps s = s\<lparr>ss_runtime := (ss_runtime s)\<lparr>rt_paper := ps\<rparr>\<rparr>"

definition with_risk :: "risk_state \<Rightarrow> paper_session \<Rightarrow> paper_session" where
  "with_risk rs s = s\<lparr>ss_runtime := (ss_runtime s)\<lparr>rt_risk := rs\<rparr>\<rparr>"

definition with_flags :: "session_flags \<Rightarrow> paper_session \<Rightarrow> paper_session" where
  "with_flags fl s = s\<lparr>ss_runtime := (ss_runtime s)\<lparr>rt_flags := fl\<rparr>\<rparr>"

subsection \<open>Portfolio\<close>

definition session_equity :: "paper_state \<Rightarrow> decimal" where
  "session_equity ps =
     foldl (\<lambda>total p. dadd total (dmul (p_quantity p) (p_current_price p)))
       (dadd (ps_cash ps) (ps_reserved_cash ps)) (dict_values (ps_positions ps))"

definition session_drawdown :: "decimal \<Rightarrow> decimal \<Rightarrow> decimal" where
  "session_drawdown peak equity = (if peak > 0 then ddiv (dsub peak equity) peak else 0)"

definition session_portfolio :: "paper_session \<Rightarrow> portfolio_state \<times> paper_session" where
  "session_portfolio s =
     (let ps = ss_paper s; equity = session_equity ps; peak = max (ss_peak_equity s) equity;
          positions = dict_values (ps_positions ps)
      in (\<lparr>pf_cash_balance = ps_cash ps, pf_equity = equity, pf_realized_pnl = ps_realized_pnl ps,
           pf_unrealized_pnl = dsum (map p_unrealized_pnl positions),
           pf_daily_pnl = dsub equity (ss_daily_start_equity s), pf_peak_equity = peak,
           pf_drawdown = session_drawdown peak equity, pf_open_positions = positions,
           pf_consecutive_losses = ss_consecutive_losses s\<rparr>,
          s\<lparr>ss_peak_equity := peak\<rparr>))"

definition record_equity_point :: "session_env \<Rightarrow> paper_session \<Rightarrow> paper_session" where
  "record_equity_point v s =
     (let equity = session_equity (ss_paper s); peak = max (ss_peak_equity s) equity;
          point = \<lparr>cv_time = sv_now v, cv_equity = quantize 2 equity,
                   cv_drawdown = quantize 4 (session_drawdown peak equity)\<rparr>;
          curve = ss_equity_curve s @ [point]
      in s\<lparr>ss_peak_equity := peak,
           ss_equity_curve := (if length curve > 240 then drop (length curve - 240) curve else curve)\<rparr>)"

text \<open>\<open>PaperSession()\<close>; the ledger is a new engine of the session's configuration.\<close>

definition new_session :: "session_config \<Rightarrow> session_env \<Rightarrow> string \<Rightarrow> paper_session" where
  "new_session cfg v sid =
     (let start = pc_initial_cash (sg_paper cfg)
      in record_equity_point v
       \<lparr>ss_runtime =
          \<lparr>rt_flags = \<lparr>sf_kill_switch_enabled = st_kill_switch_enabled (sg_settings cfg),
             sf_trading_enabled = st_trading_enabled (sg_settings cfg), sf_trading_paused = False,
             sf_selected_strategy_id = Some ''ema_crossover''\<rparr>,
           rt_paper = new_engine (sg_paper cfg), rt_risk = initial_risk_state,
           rt_recon = initial_recon_state, rt_orchestrators = [], rt_processed_keys = {},
           rt_strategy_runs = [], rt_last_cycle = None, rt_last_signal = None, rt_locks = []\<rparr>,
        ss_daily_start_equity = start, ss_peak_equity = start, ss_consecutive_losses = 0,
        ss_ticks = [], ss_running_strategies = {}, ss_param_overrides = [], ss_order_history = [],
        ss_signal_log = [], ss_risk_event_log = [], ss_equity_curve = [], ss_closed_trades = [],
        ss_session_id = sid\<rparr>)"

text \<open>The mark of a symbol; without one the synthetic market sets it.\<close>

definition session_mark :: "session_config \<Rightarrow> session_env \<Rightarrow> string \<Rightarrow> paper_session \<Rightarrow> decimal \<times> paper_session" where
  "session_mark cfg v sy s =
     (case map_of (ps_mark_prices (ss_paper s)) sy of
        Some mark \<Rightarrow> (mark, s)
      | None \<Rightarrow> (sv_live_close v sy,
                  with_paper (set_mark_price (sg_paper cfg) (sv_mark v) sy (sv_live_close v sy) (ss_paper s)) s))"

definition session_context :: "session_config \<Rightarrow> session_env \<Rightarrow> string \<Rightarrow> paper_session
  \<Rightarrow> risk_context \<times> paper_session" where
  "session_context cfg v sy s =
     (let md = (case sv_md_ts v of Some t \<Rightarrow> t | None \<Rightarrow> sv_now v);
          s1 = with_risk ((ss_risk s)\<lparr>rs_last_market_data_ts := Some md,
                 rs_reconciliation_healthy := is_reconciliation_healthy (rt_recon (ss_runtime s))\<rparr>) s;
          (pf, s2) = session_portfolio s1;
          (mark, s3) = session_mark cfg v sy s2;
          st = sg_settings cfg
      in (\<lparr>cx_portfolio = pf, cx_symbol_info = None, cx_mark_price = Some mark,
           cx_market_data_ts = Some md, cx_trading_mode = st_trading_mode st,
           cx_live_trading_enabled = st_live_trading_enabled st,
           cx_kill_switch_enabled = sf_kill_switch_enabled (ss_flags s3),
           cx_has_exchange_credentials = has_exchange_credentials st,
           cx_live_approval_valid = False\<rparr>, s3))"

subsection \<open>Logs\<close>

definition risk_message :: "risk_decision \<Rightarrow> (risk_reason \<Rightarrow> string) \<Rightarrow> risk_reason \<Rightarrow> string" where
  "risk_message d reason_value r =
     (case d of RApproved \<Rightarrow> ''All risk checks passed.''
      | RReduced \<Rightarrow> ''Order size reduced to satisfy risk limits.''
      | RHalted \<Rightarrow> ''Order halted by safety control.''
      | RRejected \<Rightarrow> ''Order rejected: '' @ reason_value r @ ''.'')"

definition push_capped :: "nat \<Rightarrow> 'a \<Rightarrow> 'a list \<Rightarrow> 'a list" where
  "push_capped n x xs = take n (x # xs)"

definition log_risk_event :: "session_env \<Rightarrow> order \<Rightarrow> decimal \<Rightarrow> paper_session \<Rightarrow> paper_session" where
  "log_risk_event v od requested s =
     (let decision = (case o_risk_decision od of Some d \<Rightarrow> d | None \<Rightarrow> RApproved);
          reason = (case o_risk_reason_code od of Some r \<Rightarrow> r | None \<Rightarrow> OK);
          approved = (if o_risk_decision od \<in> {Some RApproved, Some RReduced}
                      then Some (quantize 8 (o_quantity od)) else None)
      in s\<lparr>ss_risk_event_log := push_capped 200
           \<lparr>rv_timestamp = sv_now v, rv_decision = decision, rv_reason_code = reason,
            rv_message = risk_message decision (sv_reason_value v) reason, rv_symbol = Some (o_symbol od),
            rv_strategy_name = o_strategy_name od, rv_requested_quantity = Some (quantize 8 requested),
            rv_approved_quantity = approved, rv_order_id = Some (o_id od)\<rparr> (ss_risk_event_log s)\<rparr>)"

definition synth_rejected_order :: "session_env \<Rightarrow> order_request \<Rightarrow> risk_evaluation \<Rightarrow> order" where
  "synth_rejected_order v rq ev =
     \<lparr>o_id = sv_order_id v, o_client_order_id = ''paper-'' @ take 12 (sv_client_id v),
      o_idempotency_key = rq_idempotency_key rq, o_symbol = rq_symbol rq, o_side = rq_side rq,
      o_order_type = rq_order_type rq, o_quantity = rq_quantity rq, o_filled_quantity = 0,
      o_price = rq_price rq, o_average_fill_price = None, o_status = Rejected,
      o_strategy_name = rq_strategy_name rq, o_signal_id = None,
      o_risk_decision = Some (ev_decision ev), o_risk_reason_code = Some (ev_reason_code ev),
      o_created_at = sv_now v, o_updated_at = sv_now v, o_fees = 0, o_metadata = empty_meta\<rparr>"

definition push_order :: "order \<Rightarrow> paper_session \<Rightarrow> paper_session" where
  "push_order od s = s\<lparr>ss_order_history := od # ss_order_history s\<rparr>"

subsection \<open>Submitting an order\<close>

definition session_request :: "session_env \<Rightarrow> string \<Rightarrow> order_side \<Rightarrow> order_type \<Rightarrow> decimal \<Rightarrow> decimal option
  \<Rightarrow> decimal option \<Rightarrow> decimal option \<Rightarrow> string option \<Rightarrow> bool \<Rightarrow> order_request" where
  "session_request v sy side ty qty price stop target name reduce =
     \<lparr>rq_symbol = sy, rq_side = side, rq_order_type = ty, rq_quantity = qty, rq_price = price,
      rq_stop_loss = stop, rq_take_profit = target, rq_strategy_name = name, rq_signal_id = None,
      rq_idempotency_key = sv_key v, rq_client_order_id = None, rq_reduce_only = reduce,
      rq_metadata = empty_meta\<rparr>"

definition record_closed_trades :: "session_config \<Rightarrow> position option \<Rightarrow> order \<Rightarrow> string \<Rightarrow> paper_session \<Rightarrow> paper_session" where
  "record_closed_trades cfg before od exit_reason s =
     (let equity = session_equity (ss_paper s);
          fills = filter (\<lambda>f. f_order_id f = o_id od) (ps_fills (ss_paper s));
          trades = maybe_build_closed_trade before od fills (pc_fee_rate (sg_paper cfg))
            (pc_slippage_rate (sg_paper cfg)) (ss_session_id s) exit_reason
            (session_drawdown (ss_peak_equity s) equity) (ss_consecutive_losses s)
            (sf_kill_switch_enabled (ss_flags s)) None None None
      in s\<lparr>ss_closed_trades := ss_closed_trades s @ trades\<rparr>)"

definition session_after_fill :: "session_config \<Rightarrow> order_request \<Rightarrow> position option \<Rightarrow> decimal \<Rightarrow> order
  \<Rightarrow> paper_session \<Rightarrow> paper_session" where
  "session_after_fill cfg rq before realized_before od s =
     (if rq_side rq = Sell \<and> o_status od \<in> {Filled, PartiallyFilled}
      then
        let delta = dsub (ps_realized_pnl (ss_paper s)) realized_before;
            losses = (if delta < 0 then ss_consecutive_losses s + 1
                      else if delta > 0 then 0 else ss_consecutive_losses s);
            manual = (case rq_strategy_name rq of Some n \<Rightarrow> n = '''' \<or> n = ''manual'' | None \<Rightarrow> True)
        in record_closed_trades cfg before od (if manual then ''manual'' else ''signal_exit'')
             (s\<lparr>ss_consecutive_losses := losses\<rparr>)
      else s)"

definition session_submit :: "session_config \<Rightarrow> session_env \<Rightarrow> order_request
  \<Rightarrow> paper_session \<Rightarrow> (py_error + order) \<times> paper_session" where
  "session_submit cfg v rq s =
     (let (cx, s1) = session_context cfg v (rq_symbol rq) s;
          realized_before = ps_realized_pnl (ss_paper s1);
          before = (if rq_side rq = Sell then map_of (ps_positions (ss_paper s1)) (rq_symbol rq) else None);
          (out, rs, ps) = gateway_submit (sg_settings cfg) (submit (sg_paper cfg) (sv_submit v)) rq cx
            (sv_md_now v) (sv_risk_now v) (ss_risk s1) (ss_paper s1);
          s2 = with_paper ps (with_risk rs s1)
      in case out of
           Inl (RiskBlocked ev) \<Rightarrow>
             let od = synth_rejected_order v rq ev
             in (Inr od, record_equity_point v (log_risk_event v od (rq_quantity rq) (push_order od s2)))
         | Inl (BackendError e) \<Rightarrow> (Inl e, s2)
         | Inr od \<Rightarrow>
             (Inr od, record_equity_point v (session_after_fill cfg rq before realized_before od
                (log_risk_event v od (rq_quantity rq) (push_order od s2)))))"

subsection \<open>Safety controls\<close>

text \<open>Engaging the kill switch logs an event; that insertion has no cap.\<close>

definition set_kill_switch :: "session_env \<Rightarrow> bool \<Rightarrow> paper_session \<Rightarrow> paper_session" where
  "set_kill_switch v enabled s =
     (let s1 = with_flags ((ss_flags s)\<lparr>sf_kill_switch_enabled := enabled\<rparr>) s
      in if enabled
         then s1\<lparr>ss_risk_event_log :=
           \<lparr>rv_timestamp = sv_now v, rv_decision = RHalted, rv_reason_code = KILL_SWITCH_ACTIVE,
            rv_message = ''Kill switch engaged - all new orders halted.'', rv_symbol = None,
            rv_strategy_name = None, rv_requested_quantity = None, rv_approved_quantity = None,
            rv_order_id = None\<rparr> # ss_risk_event_log s1\<rparr>
         else s1)"

definition set_trading_enabled :: "bool \<Rightarrow> paper_session \<Rightarrow> paper_session" where
  "set_trading_enabled enabled s = with_flags ((ss_flags s)\<lparr>sf_trading_enabled := enabled\<rparr>) s"

definition set_paused :: "bool \<Rightarrow> paper_session \<Rightarrow> paper_session" where
  "set_paused paused s =
     snd (session_portfolio (s\<lparr>ss_runtime := set_session_paused paused (ss_runtime s)\<rparr>))"

subsection \<open>Strategies\<close>

datatype session_error = SessionError py_error | PermissionError

definition paper_governed :: "string set" where
  "paper_governed = {''ema_crossover'', ''ema_rsi'', ''ema_trend'', ''rsi_mean_reversion'', ''breakout''}"

definition select_strategy :: "strategy_registry \<Rightarrow> string \<Rightarrow> paper_session \<Rightarrow> session_error + paper_session" where
  "select_strategy reg sid s =
     (case get_strategy reg sid of
        Inl e \<Rightarrow> Inl (SessionError e)
      | Inr _ \<Rightarrow> Inr (with_flags ((ss_flags s)\<lparr>sf_selected_strategy_id := Some sid\<rparr>) s))"

definition stop_strategy :: "strategy_registry \<Rightarrow> string \<Rightarrow> paper_session \<Rightarrow> session_error + paper_session" where
  "stop_strategy reg sid s =
     (case get_strategy reg sid of
        Inl e \<Rightarrow> Inl (SessionError e)
      | Inr _ \<Rightarrow> Inr (s\<lparr>ss_running_strategies := ss_running_strategies s - {sid}\<rparr>))"

definition update_params :: "strategy_registry \<Rightarrow> string \<Rightarrow> strategy \<Rightarrow> paper_session \<Rightarrow> session_error + paper_session" where
  "update_params reg sid params s =
     (case get_strategy reg sid of
        Inl e \<Rightarrow> Inl (SessionError e)
      | Inr _ \<Rightarrow>
          if sid \<notin> paper_governed then Inl PermissionError
          else Inr (s\<lparr>ss_param_overrides := AList.update sid params (ss_param_overrides s)\<rparr>))"

text \<open>The time frame of a strategy in the presentation table, else the default of the settings.\<close>

definition meta_timeframe :: "string \<Rightarrow> string option" where
  "meta_timeframe sid =
     (if sid = ''ema_crossover'' then Some ''1m''
      else if sid = ''ema_rsi'' then Some ''5m''
      else if sid \<in> {''ema_trend'', ''rsi_mean_reversion'', ''breakout''} then Some ''1h''
      else None)"

subsection \<open>A strategy tick\<close>

text \<open>
  The candles of the synthetic market (\<open>te_live\<close>, by symbol and tick), the environment of priming
  each of them, of marking the last, and of the cycle.
\<close>

record tick_env =
  te_live :: "string \<Rightarrow> nat \<Rightarrow> candle list"
  te_prime :: "candle \<Rightarrow> paper_env"
  te_cycle :: cycle_env
  te_session :: session_env

definition tick_symbol :: "settings \<Rightarrow> string" where
  "tick_symbol st = (case st_supported_symbols st of [] \<Rightarrow> ''BTC/USDT'' | sy # _ \<Rightarrow> sy)"

definition tick_candles :: "tick_env \<Rightarrow> string \<Rightarrow> string \<Rightarrow> nat \<Rightarrow> candle list" where
  "tick_candles te sy timeframe n = map (\<lambda>c. c\<lparr>c_timeframe := timeframe\<rparr>) (te_live te sy n)"

definition log_signal :: "trade_signal \<Rightarrow> session_signal" where
  "log_signal sg =
     \<lparr>sl_strategy_name = sg_strategy_name sg, sl_strategy_version = sg_strategy_version sg,
      sl_symbol = sg_symbol sg, sl_timestamp = sg_timestamp sg, sl_direction = sg_direction sg,
      sl_confidence = quantize 2 (sg_confidence sg), sl_rationale = sg_rationale sg,
      sl_suggested_stop = map_option (quantize 2) (truthy_or (sg_suggested_stop sg) None),
      sl_suggested_target = map_option (quantize 2) (truthy_or (sg_suggested_target sg) None),
      sl_suggested_entry = map_option (quantize 2) (truthy_or (sg_suggested_entry sg) None)\<rparr>"

text \<open>After the cycle: the log of the last signal (or of the decision), the order's log and the curve.\<close>

definition log_tick :: "session_env \<Rightarrow> string \<Rightarrow> string \<Rightarrow> string \<Rightarrow> cycle_result \<Rightarrow> paper_session \<Rightarrow> paper_session" where
  "log_tick v name version sy r s =
     (let entry = (case rt_last_signal (ss_runtime s) of
          Some sg \<Rightarrow> push_capped 200 (log_signal sg) (ss_signal_log s)
        | None \<Rightarrow> \<lparr>sl_strategy_name = name, sl_strategy_version = version, sl_symbol = sy,
            sl_timestamp = sv_now v, sl_direction = cr_signal_direction r, sl_confidence = 0,
            sl_rationale = cr_signal_reason r, sl_suggested_stop = None, sl_suggested_target = None,
            sl_suggested_entry = None\<rparr> # ss_signal_log s);
          s1 = s\<lparr>ss_signal_log := entry\<rparr>
      in record_equity_point v
        (case cr_order_id r of
           Some oid \<Rightarrow>
             if oid = '''' then s1
             else (case map_of (ps_orders (ss_paper s1)) oid of
                None \<Rightarrow> s1
              | Some od \<Rightarrow> if list_all (\<lambda>x. o_id x \<noteq> o_id od) (ss_order_history s1)
                           then log_risk_event v od (o_quantity od) (push_order od s1) else s1)
         | None \<Rightarrow>
             if sf_kill_switch_enabled (ss_flags s1) \<and> cr_signal_direction r \<in> {SigBuy, SigExit}
             then set_kill_switch v True s1 else s1))"

text \<open>The tick up to the cycle: a fresh market, its mark, and the cycle on the configured strategy.\<close>

definition tick_cycle :: "session_config \<Rightarrow> cycle_config \<Rightarrow> tick_env \<Rightarrow> string \<Rightarrow> strategy \<Rightarrow> paper_session
  \<Rightarrow> (py_error + cycle_result) \<times> paper_session" where
  "tick_cycle cfg base te sid strat s =
     (let sy = tick_symbol (sg_settings cfg);
          timeframe = (case meta_timeframe sid of Some t \<Rightarrow> t | None \<Rightarrow> st_default_timeframe (sg_settings cfg));
          n = (case map_of (ss_ticks s) sy of Some k \<Rightarrow> k | None \<Rightarrow> 0) + 3;
          candles = tick_candles te sy timeframe n;
          params = (case map_of (ss_param_overrides s) sid of Some p \<Rightarrow> p | None \<Rightarrow> strat);
          s1 = with_paper (set_mark_price (sg_paper cfg) (sv_mark (te_session te)) sy
                 (c_close (last candles)) (ss_paper s)) (s\<lparr>ss_ticks := AList.update sy n (ss_ticks s)\<rparr>);
          ccfg = base\<lparr>cc_symbol := sy, cc_timeframe := timeframe,
                      cc_orchestrator := (cc_orchestrator base)\<lparr>oc_strategy := params, oc_settings := sg_settings cfg\<rparr>\<rparr>;
          cenv = (te_cycle te)\<lparr>ce_candles :=
                   map (\<lambda>c. (te_prime te c, c)) (provided_candles candles sy timeframe 120)\<rparr>;
          (res, rt) = run_paper_trading_cycle ccfg cenv (ss_runtime s1)
      in (res, s1\<lparr>ss_runtime := rt\<rparr>))"

definition run_strategy_tick :: "session_config \<Rightarrow> cycle_config \<Rightarrow> strategy_registry \<Rightarrow> tick_env \<Rightarrow> string
  \<Rightarrow> paper_session \<Rightarrow> (session_error + cycle_result) \<times> paper_session" where
  "run_strategy_tick cfg base reg te sid s =
     (case get_strategy reg sid of
        Inl e \<Rightarrow> (Inl (SessionError e), s)
      | Inr strat \<Rightarrow>
          let (res, s1) = tick_cycle cfg base te sid strat s
          in case res of
               Inl e \<Rightarrow> (Inl (SessionError e), s1)
             | Inr r \<Rightarrow> (Inr r, log_tick (te_session te) (strategy_name strat) (strategy_version strat)
                              (tick_symbol (sg_settings cfg)) r s1))"

definition start_strategy :: "session_config \<Rightarrow> cycle_config \<Rightarrow> strategy_registry \<Rightarrow> tick_env \<Rightarrow> string
  \<Rightarrow> paper_session \<Rightarrow> (session_error + cycle_result) \<times> paper_session" where
  "start_strategy cfg base reg te sid s =
     (case select_strategy reg sid s of
        Inl e \<Rightarrow> (Inl e, s)
      | Inr s1 \<Rightarrow> run_strategy_tick cfg base reg te sid
                     (s1\<lparr>ss_running_strategies := insert sid (ss_running_strategies s1)\<rparr>))"

subsection \<open>Manual orders\<close>

definition suggested_qty :: "decimal \<Rightarrow> paper_session \<Rightarrow> decimal" where
  "suggested_qty price s =
     (if price \<le> 0 then 0 else quantize 8 (ddiv (dmul (ps_cash (ss_paper s)) (1 / 10)) price))"

definition after_persist :: "session_env \<Rightarrow> paper_session \<Rightarrow> paper_session" where
  "after_persist v s = (if sv_persist_fails v then with_risk ((ss_risk s)\<lparr>rs_database_healthy := False\<rparr>) s else s)"

definition session_place_order :: "session_config \<Rightarrow> session_env \<Rightarrow> order_request \<Rightarrow> paper_session
  \<Rightarrow> (py_error + order) \<times> paper_session" where
  "session_place_order cfg v rq s =
     (let s1 = snd (session_mark cfg v (rq_symbol rq) s);
          name = (case rq_strategy_name rq of Some (c # cs) \<Rightarrow> c # cs | _ \<Rightarrow> ''manual'');
          (res, s2) = session_submit cfg v
            (session_request v (rq_symbol rq) (rq_side rq) (rq_order_type rq) (rq_quantity rq)
               (rq_price rq) (rq_stop_loss rq) (rq_take_profit rq) (Some name) False) s1
      in case res of Inl e \<Rightarrow> (Inl e, s2) | Inr od \<Rightarrow> (Inr od, after_persist v s2))"

text \<open>
  Closing takes up to four reduce-only sells of what is held then; a pass without progress ends it.
  \<open>v k\<close> is the environment of the pass with \<open>k\<close> passes left.
\<close>

definition session_close_request :: "session_env \<Rightarrow> string \<Rightarrow> string option \<Rightarrow> decimal \<Rightarrow> decimal \<Rightarrow> order_request" where
  "session_close_request v sy name qty mark =
     session_request v sy Sell Market qty None (Some (quantize 2 (dmul mark (999 / 1000)))) None name True"

definition held_quantity :: "string \<Rightarrow> paper_session \<Rightarrow> decimal" where
  "held_quantity sy s = (case map_of (ps_positions (ss_paper s)) sy of Some p \<Rightarrow> p_quantity p | None \<Rightarrow> 0)"

primrec close_passes :: "session_config \<Rightarrow> (nat \<Rightarrow> session_env) \<Rightarrow> string \<Rightarrow> string option \<Rightarrow> nat
  \<Rightarrow> order option \<Rightarrow> paper_session \<Rightarrow> (py_error + order option) \<times> paper_session" where
  "close_passes cfg v sy name 0 lst s = (Inr lst, s)"
| "close_passes cfg v sy name (Suc k) lst s =
     (let qty = held_quantity sy s;
          (mark, s1) = session_mark cfg (v (Suc k)) sy s
      in if qty \<le> 0 then (Inr lst, s1)
         else
           let (res, s2) = session_submit cfg (v (Suc k)) (session_close_request (v (Suc k)) sy name qty mark) s1
           in case res of
                Inl e \<Rightarrow> (Inl e, s2)
              | Inr od \<Rightarrow>
                  if map_of (ps_positions (ss_paper s2)) sy \<noteq> None \<and> held_quantity sy s2 \<ge> qty
                  then (Inr (Some od), s2)
                  else close_passes cfg v sy name k (Some od) s2)"

definition session_close_position :: "session_config \<Rightarrow> (nat \<Rightarrow> session_env) \<Rightarrow> string \<Rightarrow> paper_session
  \<Rightarrow> (py_error + order option) \<times> paper_session" where
  "session_close_position cfg v sy s =
     (let (res, s1) = close_passes cfg v sy (Some ''manual'') 4 None s
      in case res of Inl e \<Rightarrow> (Inl e, s1) | Inr lst \<Rightarrow> (Inr lst, after_persist (v 0) s1))"

subsection \<open>Views\<close>

text \<open>The filters of \<open>orders\<close>; \<open>iso\<close> gives the date text of an order, as \<open>created_at[:10]\<close>.\<close>

definition contains :: "string \<Rightarrow> string \<Rightarrow> bool" where
  "contains needle xs \<longleftrightarrow> list_ex (\<lambda>i. take (length needle) (drop i xs) = needle) [0..<Suc (length xs)]"

definition session_orders :: "(order_status \<Rightarrow> string) \<Rightarrow> string \<Rightarrow> string \<Rightarrow> string \<Rightarrow> paper_session \<Rightarrow> order list" where
  "session_orders status_value status symbol date s =
     (let r0 = ss_order_history s;
          r1 = (if status \<noteq> '''' then filter (\<lambda>od. status_value (o_status od) = status) r0 else r0);
          r2 = (if symbol \<noteq> '''' then filter (\<lambda>od. contains (py_upper symbol) (py_upper (o_symbol od))) r1 else r1)
      in if date \<noteq> '''' then filter (\<lambda>od. take 10 (iso_text (o_created_at od)) = date) r2 else r2)"

record session_summary =
  sm_cash_balance :: decimal
  sm_reserved_capital :: decimal
  sm_equity :: decimal
  sm_realized_pnl :: decimal
  sm_unrealized_pnl :: decimal
  sm_daily_pnl :: decimal
  sm_peak_equity :: decimal
  sm_drawdown :: decimal
  sm_open_position_count :: nat
  sm_consecutive_losses :: nat
  sm_kill_switch_enabled :: bool
  sm_trading_enabled :: bool
  sm_trading_paused :: bool

definition portfolio_summary :: "paper_session \<Rightarrow> session_summary \<times> paper_session" where
  "portfolio_summary s =
     (let (pf, s1) = session_portfolio s; fl = ss_flags s1
      in (\<lparr>sm_cash_balance = quantize 2 (pf_cash_balance pf),
           sm_reserved_capital = quantize 2 (ps_reserved_cash (ss_paper s1)),
           sm_equity = quantize 2 (pf_equity pf), sm_realized_pnl = quantize 2 (pf_realized_pnl pf),
           sm_unrealized_pnl = quantize 2 (pf_unrealized_pnl pf), sm_daily_pnl = quantize 2 (pf_daily_pnl pf),
           sm_peak_equity = quantize 2 (pf_peak_equity pf), sm_drawdown = quantize 4 (pf_drawdown pf),
           sm_open_position_count = length (pf_open_positions pf),
           sm_consecutive_losses = pf_consecutive_losses pf,
           sm_kill_switch_enabled = sf_kill_switch_enabled fl, sm_trading_enabled = sf_trading_enabled fl,
           sm_trading_paused = sf_trading_paused fl\<rparr>, s1))"

end
