(* ===== verification/Session_Properties.thy ===== *)
theory Session_Properties
  imports Paper_Session
begin

text \<open>
  What the paper session guarantees: the path of every order through the risk engine, the record of
  what the risk engine refused, the well-formed ledger, the bounds of its logs, and that closing a
  position ends.
\<close>

subsection \<open>Frames\<close>

lemma with_frame [simp]:
  "ss_paper (with_paper ps s) = ps" "ss_risk (with_paper ps s) = ss_risk s" "ss_flags (with_paper ps s) = ss_flags s"
  "ss_paper (with_risk rs s) = ss_paper s" "ss_risk (with_risk rs s) = rs" "ss_flags (with_risk rs s) = ss_flags s"
  "ss_paper (with_flags fl s) = ss_paper s" "ss_risk (with_flags fl s) = ss_risk s" "ss_flags (with_flags fl s) = fl"
  "rt_recon (ss_runtime (with_paper ps s)) = rt_recon (ss_runtime s)"
  "rt_recon (ss_runtime (with_risk rs s)) = rt_recon (ss_runtime s)"
  by (simp_all add: with_paper_def with_risk_def with_flags_def)

lemma with_logs [simp]:
  "ss_order_history (with_paper ps s) = ss_order_history s" "ss_order_history (with_risk rs s) = ss_order_history s"
  "ss_order_history (with_flags fl s) = ss_order_history s"
  "ss_risk_event_log (with_paper ps s) = ss_risk_event_log s" "ss_risk_event_log (with_risk rs s) = ss_risk_event_log s"
  "ss_risk_event_log (with_flags fl s) = ss_risk_event_log s"
  "ss_equity_curve (with_paper ps s) = ss_equity_curve s" "ss_equity_curve (with_risk rs s) = ss_equity_curve s"
  "ss_equity_curve (with_flags fl s) = ss_equity_curve s"
  "ss_peak_equity (with_paper ps s) = ss_peak_equity s" "ss_peak_equity (with_risk rs s) = ss_peak_equity s"
  "ss_peak_equity (with_flags fl s) = ss_peak_equity s"
  by (simp_all add: with_paper_def with_risk_def with_flags_def)

lemma session_portfolio_frame [simp]:
  "ss_runtime (snd (session_portfolio s)) = ss_runtime s"
  "ss_order_history (snd (session_portfolio s)) = ss_order_history s"
  "ss_risk_event_log (snd (session_portfolio s)) = ss_risk_event_log s"
  "ss_equity_curve (snd (session_portfolio s)) = ss_equity_curve s"
  "ss_peak_equity (snd (session_portfolio s)) = max (ss_peak_equity s) (session_equity (ss_paper s))"
  by (simp_all add: session_portfolio_def Let_def)

lemma session_mark_frame [simp]:
  "ss_risk (snd (session_mark cfg v sy s)) = ss_risk s" "ss_flags (snd (session_mark cfg v sy s)) = ss_flags s"
  "ss_order_history (snd (session_mark cfg v sy s)) = ss_order_history s"
  "ss_risk_event_log (snd (session_mark cfg v sy s)) = ss_risk_event_log s"
  "ss_equity_curve (snd (session_mark cfg v sy s)) = ss_equity_curve s"
  "ss_peak_equity (snd (session_mark cfg v sy s)) = ss_peak_equity s"
  by (simp_all add: session_mark_def split: option.split)

definition marked_session :: "session_config \<Rightarrow> session_env \<Rightarrow> string \<Rightarrow> paper_state \<Rightarrow> paper_state" where
  "marked_session cfg v sy ps =
     (if map_of (ps_mark_prices ps) sy = None
      then set_mark_price (sg_paper cfg) (sv_mark v) sy (sv_live_close v sy) ps else ps)"

lemma session_mark_paper [simp]: "ss_paper (snd (session_mark cfg v sy s)) = marked_session cfg v sy (ss_paper s)"
  by (simp add: session_mark_def marked_session_def split: option.split)

lemma session_context_frame [simp]:
  "ss_paper (snd (session_context cfg v sy s)) = marked_session cfg v sy (ss_paper s)"
  "ss_flags (snd (session_context cfg v sy s)) = ss_flags s"
  "ss_order_history (snd (session_context cfg v sy s)) = ss_order_history s"
  "ss_risk_event_log (snd (session_context cfg v sy s)) = ss_risk_event_log s"
  "ss_equity_curve (snd (session_context cfg v sy s)) = ss_equity_curve s"
  "cx_kill_switch_enabled (fst (session_context cfg v sy s)) = sf_kill_switch_enabled (ss_flags s)"
  "pf_cash_balance (cx_portfolio (fst (session_context cfg v sy s))) = ps_cash (ss_paper s)"
  "pf_open_positions (cx_portfolio (fst (session_context cfg v sy s))) = dict_values (ps_positions (ss_paper s))"
  by (simp_all add: session_context_def session_portfolio_def Let_def case_prod_beta)

lemma log_frame [simp]:
  "ss_runtime (record_equity_point v s) = ss_runtime s" "ss_order_history (record_equity_point v s) = ss_order_history s"
  "ss_risk_event_log (record_equity_point v s) = ss_risk_event_log s"
  "ss_runtime (log_risk_event v od q s) = ss_runtime s" "ss_order_history (log_risk_event v od q s) = ss_order_history s"
  "ss_equity_curve (log_risk_event v od q s) = ss_equity_curve s"
  "ss_runtime (push_order od s) = ss_runtime s" "ss_order_history (push_order od s) = od # ss_order_history s"
  "ss_risk_event_log (push_order od s) = ss_risk_event_log s" "ss_equity_curve (push_order od s) = ss_equity_curve s"
  "ss_runtime (session_after_fill cfg rq before rb od s) = ss_runtime s"
  "ss_order_history (session_after_fill cfg rq before rb od s) = ss_order_history s"
  "ss_risk_event_log (session_after_fill cfg rq before rb od s) = ss_risk_event_log s"
  "ss_equity_curve (session_after_fill cfg rq before rb od s) = ss_equity_curve s"
  by (simp_all add: record_equity_point_def log_risk_event_def push_order_def session_after_fill_def
    record_closed_trades_def Let_def)

subsection \<open>The path of an order\<close>

definition session_verdict :: "session_config \<Rightarrow> session_env \<Rightarrow> order_request \<Rightarrow> paper_session \<Rightarrow> risk_evaluation" where
  "session_verdict cfg v rq s =
     fst (evaluate (sg_settings cfg) rq (fst (session_context cfg v (rq_symbol rq) s)) (sv_md_now v) (sv_risk_now v)
            (ss_risk (snd (session_context cfg v (rq_symbol rq) s))))"

text \<open>How a submission ends: refused and recorded, failed in the engine, or an order of the gateway.\<close>

lemma session_submit_cases:
  assumes "session_submit cfg v rq s = (res, s')"
  obtains (refused) od where "\<not> is_accepting (session_verdict cfg v rq s)"
      "od = synth_rejected_order v rq (session_verdict cfg v rq s)" "res = Inr od"
      "ss_paper s' = marked_session cfg v (rq_symbol rq) (ss_paper s)"
      "ss_order_history s' = od # ss_order_history s"
      "\<exists>ev rest. ss_risk_event_log s' = ev # rest \<and> rv_decision ev = ev_decision (session_verdict cfg v rq s)
         \<and> rv_reason_code ev = ev_reason_code (session_verdict cfg v rq s)"
      "length (ss_risk_event_log s') \<le> 200"
  | (failed) e where "is_accepting (session_verdict cfg v rq s)" "res = Inl e"
      "ss_paper s' = marked_session cfg v (rq_symbol rq) (ss_paper s)"
      "ss_order_history s' = ss_order_history s" "ss_risk_event_log s' = ss_risk_event_log s"
      "ss_equity_curve s' = ss_equity_curve s"
  | (ordered) od rs where "is_accepting (session_verdict cfg v rq s)" "res = Inr od"
      "gateway_submit (sg_settings cfg) (submit (sg_paper cfg) (sv_submit v)) rq
         (fst (session_context cfg v (rq_symbol rq) s)) (sv_md_now v) (sv_risk_now v)
         (ss_risk (snd (session_context cfg v (rq_symbol rq) s)))
         (marked_session cfg v (rq_symbol rq) (ss_paper s)) = (Inr od, rs, ss_paper s')"
      "ss_order_history s' = od # ss_order_history s" "length (ss_risk_event_log s') \<le> 200"
proof -
  let ?cx = "fst (session_context cfg v (rq_symbol rq) s)" and ?s1 = "snd (session_context cfg v (rq_symbol rq) s)"
  obtain out rs ps where g: "gateway_submit (sg_settings cfg) (submit (sg_paper cfg) (sv_submit v)) rq ?cx
      (sv_md_now v) (sv_risk_now v) (ss_risk ?s1) (ss_paper ?s1) = (out, rs, ps)" by (metis prod_cases3)
  define s2 where "s2 = with_paper ps (with_risk rs ?s1)"
  have cap: "length (push_capped 200 x xs) \<le> 200" for x :: risk_event and xs by (simp add: push_capped_def)
  have head: "push_capped 200 x xs = x # take 199 xs" for x :: risk_event and xs by (simp add: push_capped_def)
  have acc: "is_accepting (session_verdict cfg v rq s) \<longleftrightarrow> ev_decision (session_verdict cfg v rq s) \<notin> {RRejected, RHalted}"
    by (cases "ev_decision (session_verdict cfg v rq s)") (simp_all add: is_accepting_def)
  show thesis
  proof (cases out)
    case (Inl err)
    show thesis
    proof (cases err)
      case (RiskBlocked ev)
      with g Inl have ev: "ev = session_verdict cfg v rq s" "ps = ss_paper ?s1" "\<not> is_accepting (session_verdict cfg v rq s)"
        using acc by (auto simp: gateway_submit_def session_verdict_def split: prod.splits if_splits sum.splits)
      with assms g Inl RiskBlocked show thesis
        by (intro refused [OF ev(3) refl])
          (auto simp: session_submit_def Let_def case_prod_beta log_risk_event_def head synth_rejected_order_def)
    next
      case (BackendError e)
      with g Inl have "ps = ss_paper ?s1" "is_accepting (session_verdict cfg v rq s)"
        using acc by (auto simp: gateway_submit_def session_verdict_def split: prod.splits if_splits sum.splits)
      with assms g Inl BackendError show thesis
        by (intro failed [of e]) (auto simp: session_submit_def Let_def case_prod_beta)
    qed
  next
    case (Inr od)
    have "is_accepting (session_verdict cfg v rq s)"
      using g Inr acc by (auto simp: gateway_submit_def session_verdict_def split: prod.splits if_splits sum.splits)
    with assms g Inr show thesis
      by (intro ordered [of od rs]) (auto simp: session_submit_def Let_def case_prod_beta log_risk_event_def cap)
  qed
qed

text \<open>What blocks every order of the session.\<close>

lemma session_halts:
  assumes "sf_kill_switch_enabled (ss_flags s) \<or> st_kill_switch_enabled (sg_settings cfg)
      \<or> rs_circuit_breaker_open (ss_risk s) \<or> \<not> rs_risk_engine_healthy (ss_risk s)
      \<or> \<not> rs_database_healthy (ss_risk s) \<or> \<not> is_reconciliation_healthy (rt_recon (ss_runtime s))"
  shows "\<not> is_accepting (session_verdict cfg v rq s)"
proof -
  have fields: "rs_circuit_breaker_open (ss_risk (snd (session_context cfg v sy s))) = rs_circuit_breaker_open (ss_risk s)"
    "rs_risk_engine_healthy (ss_risk (snd (session_context cfg v sy s))) = rs_risk_engine_healthy (ss_risk s)"
    "rs_database_healthy (ss_risk (snd (session_context cfg v sy s))) = rs_database_healthy (ss_risk s)"
    "rs_reconciliation_healthy (ss_risk (snd (session_context cfg v sy s))) = is_reconciliation_healthy (rt_recon (ss_runtime s))"
    for sy by (simp_all add: session_context_def session_portfolio_def Let_def case_prod_beta)
  show ?thesis
    unfolding session_verdict_def
    by (rule blocked_check) (use assms in \<open>auto simp: check_gates_def check_health_def fields\<close>)
qed

text \<open>
  C10. Every order of the session passes the risk engine: what the risk engine does not accept comes
  back as a rejected order with its verdict, recorded at the head of the order history and of the
  risk log, and the ledger is what it was (up to the synthetic mark of a symbol without one); and
  the risk engine accepts nothing under a kill switch, an open circuit breaker, an unhealthy engine
  or database, or a halted reconciliation.
\<close>

theorem session_risk_mandatory:
  assumes "session_submit cfg v rq s = (res, s')"
  shows "(\<not> is_accepting (session_verdict cfg v rq s) \<longrightarrow>
       (\<exists>od. res = Inr od \<and> o_status od = Rejected
          \<and> o_risk_decision od = Some (ev_decision (session_verdict cfg v rq s))
          \<and> ss_order_history s' = od # ss_order_history s
          \<and> rv_reason_code (hd (ss_risk_event_log s')) = ev_reason_code (session_verdict cfg v rq s))
       \<and> ss_paper s' = marked_session cfg v (rq_symbol rq) (ss_paper s))
    \<and> (sf_kill_switch_enabled (ss_flags s) \<or> rs_circuit_breaker_open (ss_risk s)
       \<or> \<not> rs_risk_engine_healthy (ss_risk s) \<or> \<not> rs_database_healthy (ss_risk s)
       \<or> \<not> is_reconciliation_healthy (rt_recon (ss_runtime s)) \<longrightarrow>
       \<not> is_accepting (session_verdict cfg v rq s))"
  using assms
proof (cases rule: session_submit_cases)
  case (refused od)
  then show ?thesis using session_halts [of s cfg v rq] by (auto simp: synth_rejected_order_def)
next
  case failed
  then show ?thesis using session_halts [of s cfg v rq] by blast
next
  case ordered
  then show ?thesis using session_halts [of s cfg v rq] by blast
qed

text \<open>
  C15. The ledger of the session stays well formed through a submission, and an accepted order with
  a new key is for the symbol and side of the request, for a positive quantity of at most the
  requested one.
\<close>

theorem session_ledger_safe:
  fixes cfg v rq s
  defines "m \<equiv> marked_session cfg v (rq_symbol rq) (ss_paper s)"
  assumes "session_submit cfg v rq s = (res, s')"
    and "engine_ok (ss_paper s)" and "pc_ok (sg_paper cfg)" and "pc_partial_fill_fraction (sg_paper cfg) = 1"
    and "0 \<le> sv_live_close v (rq_symbol rq)" and "request_ok (sg_paper cfg) rq" and "rq_quantity rq < 10 ^ 18"
    and "map_of (ps_orders m) (pv_order_id (sv_submit v)) = None" and "ps_cash m + ps_reserved_cash m < amount_limit"
    and "0 \<le> st_max_risk_per_trade (sg_settings cfg)" and "0 \<le> st_max_position_exposure (sg_settings cfg)"
    and "0 \<le> st_max_portfolio_exposure (sg_settings cfg)"
  shows "engine_ok (ss_paper s') \<and> (\<forall>od. res = Inr od \<and> o_status od \<noteq> Rejected
      \<and> \<not> paper_known (rq_idempotency_key rq) m \<longrightarrow>
      o_symbol od = rq_symbol rq \<and> o_side od = rq_side rq \<and> 0 < o_quantity od \<and> o_quantity od \<le> rq_quantity rq)"
proof -
  have m_ok: "engine_ok m"
    unfolding m_def marked_session_def using step_engine_ok [OF assms(4) step_mark assms(3)] assms(3,6) by simp
  have hold: "holdings_ok (ss_paper s)" using assms(3) by (simp add: engine_ok_def ledger_ok_def)
  let ?cx = "fst (session_context cfg v (rq_symbol rq) s)"
  have cash: "0 \<le> pf_cash_balance (cx_portfolio ?cx)" using hold by (simp add: holdings_ok_def)
  have pos: "list_all (\<lambda>p. 0 \<le> p_quantity p \<and> 0 \<le> p_current_price p) (pf_open_positions (cx_portfolio ?cx))"
    using holdings_list [OF hold] by (auto simp: list_all_iff less_imp_le)
  from assms(2) show ?thesis
  proof (cases rule: session_submit_cases)
    case (refused od)
    with m_ok show ?thesis by (simp add: m_def synth_rejected_order_def)
  next
    case (failed e)
    with m_ok show ?thesis by (simp add: m_def)
  next
    case (ordered od rs)
    note g = gateway_paper_ok [OF ordered(3) [folded m_def] m_ok assms(4,5,7-10) cash pos assms(11-13)]
    from g(1) g(2) [OF refl] ordered(2) show ?thesis by blast
  qed
qed

subsection \<open>The logs\<close>

datatype session_op =
    OpSubmit session_env order_request
  | OpClose "nat \<Rightarrow> session_env" string
  | OpTick cycle_config strategy_registry tick_env string
  | OpKill session_env bool
  | OpEnable bool
  | OpPause bool

primrec apply_op :: "session_config \<Rightarrow> session_op \<Rightarrow> paper_session \<Rightarrow> paper_session" where
  "apply_op cfg (OpSubmit v rq) s = snd (session_place_order cfg v rq s)"
| "apply_op cfg (OpClose v sy) s = snd (session_close_position cfg v sy s)"
| "apply_op cfg (OpTick base reg te sid) s = snd (run_strategy_tick cfg base reg te sid s)"
| "apply_op cfg (OpKill v b) s = set_kill_switch v b s"
| "apply_op cfg (OpEnable b) s = set_trading_enabled b s"
| "apply_op cfg (OpPause b) s = set_paused b s"

primrec may_engage :: "session_op \<Rightarrow> bool" where
  "may_engage (OpSubmit v rq) = False"
| "may_engage (OpClose v sy) = False"
| "may_engage (OpTick base reg te sid) = True"
| "may_engage (OpKill v b) = b"
| "may_engage (OpEnable b) = False"
| "may_engage (OpPause b) = False"

definition logs_ok :: "nat \<Rightarrow> paper_session \<Rightarrow> bool" where
  "logs_ok n s \<longleftrightarrow> length (ss_equity_curve s) \<le> 240 \<and> length (ss_risk_event_log s) \<le> 200 + n"

lemma curve_capped [simp]: "length (ss_equity_curve (record_equity_point v s)) \<le> 240"
  by (simp add: record_equity_point_def Let_def)

lemma logs_cong: "ss_equity_curve s' = ss_equity_curve s \<Longrightarrow> ss_risk_event_log s' = ss_risk_event_log s \<Longrightarrow>
  logs_ok n s \<Longrightarrow> logs_ok n s'"
  by (simp add: logs_ok_def)

lemma submit_logs:
  assumes "session_submit cfg v rq s = (res, s')" and "logs_ok n s"
  shows "logs_ok n s'"
proof -
  have "ss_equity_curve s' = ss_equity_curve s \<or> length (ss_equity_curve s') \<le> 240"
    using assms(1) by (auto simp: session_submit_def Let_def case_prod_beta split: sum.splits gateway_error.splits)
  moreover have "ss_risk_event_log s' = ss_risk_event_log s \<or> length (ss_risk_event_log s') \<le> 200"
    using assms(1) by (cases rule: session_submit_cases) auto
  ultimately show ?thesis using assms(2) by (auto simp: logs_ok_def)
qed

lemma close_logs: "close_passes cfg v sy name k lst s = (res, s') \<Longrightarrow> logs_ok n s \<Longrightarrow> logs_ok n s'"
proof (induction k arbitrary: lst s)
  case (Suc k)
  let ?s1 = "snd (session_mark cfg (v (Suc k)) sy s)"
  have s1: "logs_ok n ?s1" using Suc.prems(2) by (rule logs_cong [rotated 2]) simp_all
  obtain res2 s2 where sub: "session_submit cfg (v (Suc k))
      (session_close_request (v (Suc k)) sy name (held_quantity sy s) (fst (session_mark cfg (v (Suc k)) sy s))) ?s1 = (res2, s2)"
    by fastforce
  from submit_logs [OF sub s1] have "logs_ok n s2" .
  with Suc.prems s1 sub Suc.IH show ?case
    by (auto simp: Let_def case_prod_beta split: if_splits sum.splits)
qed simp

lemma risk_log_capped [simp]: "length (ss_risk_event_log (log_risk_event v od q s)) \<le> 200"
  by (simp add: log_risk_event_def Let_def push_capped_def)

lemma log_tick_logs:
  assumes "length (ss_risk_event_log s) \<le> 200 + n"
  shows "logs_ok (Suc n) (log_tick v name ver sy r s)"
  using assms order_trans [OF risk_log_capped, of "201 + n"]
  by (simp add: logs_ok_def log_tick_def Let_def set_kill_switch_def split: option.split)

lemma tick_cycle_logs [simp]:
  "ss_equity_curve (snd (tick_cycle cfg base te sid strat s)) = ss_equity_curve s"
  "ss_risk_event_log (snd (tick_cycle cfg base te sid strat s)) = ss_risk_event_log s"
  by (simp_all add: tick_cycle_def with_paper_def Let_def case_prod_beta)

lemma tick_logs:
  assumes "logs_ok n s"
  shows "logs_ok (Suc n) (snd (run_strategy_tick cfg base reg te sid s))"
proof (cases "get_strategy reg sid")
  case (Inl e)
  with assms show ?thesis by (simp add: run_strategy_tick_def logs_ok_def)
next
  case (Inr strat)
  obtain res s1 where tick: "tick_cycle cfg base te sid strat s = (res, s1)" by fastforce
  have s1: "logs_ok n s1" using assms tick_cycle_logs [of cfg base te sid strat s] by (simp add: tick logs_ok_def)
  show ?thesis
  proof (cases res)
    case (Inl e)
    with s1 Inr tick show ?thesis by (simp add: run_strategy_tick_def logs_ok_def)
  next
    case (Inr r)
    from s1 log_tick_logs [of s1 n] have "logs_ok (Suc n) (log_tick v name ver sy r s1)" for v name ver sy
      by (simp add: logs_ok_def)
    with Inr \<open>get_strategy reg sid = Inr strat\<close> tick show ?thesis by (simp add: run_strategy_tick_def)
  qed
qed

lemma apply_op_logs:
  assumes "logs_ok n s"
  shows "logs_ok (n + (if may_engage opn then 1 else 0)) (apply_op cfg opn s)"
proof (cases opn)
  case (OpSubmit v rq)
  let ?s1 = "snd (session_mark cfg v (rq_symbol rq) s)"
  have "logs_ok n ?s1" using assms by (rule logs_cong [rotated 2]) simp_all
  with submit_logs [OF prod.collapse [symmetric]] OpSubmit show ?thesis
    by (auto simp: session_place_order_def after_persist_def Let_def case_prod_beta split: sum.split intro: logs_cong)
next
  case (OpClose v sy)
  with close_logs [OF prod.collapse [symmetric] assms] show ?thesis
    by (auto simp: session_close_position_def after_persist_def Let_def case_prod_beta split: sum.split intro: logs_cong)
next
  case (OpTick base reg te sid)
  with tick_logs [OF assms] show ?thesis by simp
qed (use assms in \<open>auto simp: logs_ok_def set_kill_switch_def set_trading_enabled_def set_paused_def Let_def\<close>)

lemma apply_ops_logs: "logs_ok n s \<Longrightarrow> logs_ok (n + length (filter may_engage ops)) (fold (apply_op cfg) ops s)"
proof (induction ops arbitrary: n s)
  case (Cons x ops)
  from Cons.IH [OF apply_op_logs [OF Cons.prems, of x cfg]] show ?case by (simp split: if_splits)
qed simp

lemma kill_log: "length (ss_risk_event_log (fold (apply_op cfg) (replicate n (OpKill v True)) s))
    = n + length (ss_risk_event_log s)"
  by (induction n arbitrary: s) (simp_all add: set_kill_switch_def Let_def)

text \<open>
  The logs of a session are bounded but for the kill switch: after any operations the equity
  curve has at most 240 points and the risk log at most 200 events plus one for every operation
  that may have engaged the kill switch; and that excess is real, since engaging it n times on a
  new session leaves n events.
\<close>

lemma session_logs:
  "length (ss_equity_curve (fold (apply_op cfg) ops (new_session cfg v sid))) \<le> 240
   \<and> length (ss_risk_event_log (fold (apply_op cfg) ops (new_session cfg v sid)))
       \<le> 200 + length (filter may_engage ops)
   \<and> length (ss_risk_event_log (fold (apply_op cfg) (replicate n (OpKill v True)) (new_session cfg v sid))) = n"
proof -
  have "ss_risk_event_log (new_session cfg v sid) = []" by (simp add: new_session_def Let_def)
  moreover have "logs_ok 0 (new_session cfg v sid)"
    using curve_capped by (simp add: logs_ok_def new_session_def Let_def)
  from apply_ops_logs [OF this, of ops cfg] have "logs_ok (length (filter may_engage ops))
    (fold (apply_op cfg) ops (new_session cfg v sid))" by simp
  ultimately show ?thesis unfolding kill_log logs_ok_def by simp
qed

subsection \<open>Closing a position\<close>

lemma close_passes_end:
  "close_passes cfg v sy name k lst s = (res, s') \<Longrightarrow>
   \<exists>ods. length ods \<le> k \<and> ss_order_history s' = ods @ ss_order_history s
     \<and> (\<forall>r. res = Inr r \<longrightarrow> r = (case ods of [] \<Rightarrow> lst | od # _ \<Rightarrow> Some od)
          \<and> (length ods < k \<longrightarrow>
               (\<exists>t. held_quantity sy t \<le> 0 \<and> ss_paper s' = marked_session cfg (v (k - length ods)) sy (ss_paper t))
             \<or> (\<exists>t. 0 < held_quantity sy t \<and> held_quantity sy t \<le> held_quantity sy s')))"
proof (induction k arbitrary: lst s)
  case (Suc k)
  let ?v = "v (Suc k)" and ?qty = "held_quantity sy s"
  let ?s1 = "snd (session_mark cfg ?v sy s)"
  show ?case
  proof (cases "?qty \<le> 0")
    case True
    with Suc.prems have "res = Inr lst" "s' = ?s1" by (auto simp: Let_def case_prod_beta)
    with True show ?thesis by (intro exI [of _ "[]"]) auto
  next
    case False
    obtain res2 s2 where sub: "session_submit cfg ?v
        (session_close_request ?v sy name ?qty (fst (session_mark cfg ?v sy s))) ?s1 = (res2, s2)"
      by fastforce
    have hist: "ss_order_history s2 = (case res2 of Inl e \<Rightarrow> [] | Inr od \<Rightarrow> [od]) @ ss_order_history s"
      using sub by (cases rule: session_submit_cases) auto
    show ?thesis
    proof (cases res2)
      case (Inl e)
      with Suc.prems False sub hist have "res = Inl e" "ss_order_history s' = ss_order_history s"
        by (auto simp: Let_def case_prod_beta)
      then show ?thesis by auto
    next
      case (Inr od)
      show ?thesis
      proof (cases "map_of (ps_positions (ss_paper s2)) sy \<noteq> None \<and> held_quantity sy s2 \<ge> ?qty")
        case True
        with Suc.prems False sub Inr have "res = Inr (Some od)" "s' = s2" by (auto simp: Let_def case_prod_beta)
        with True False hist Inr show ?thesis by (intro exI [of _ "[od]"]) (auto intro!: exI [of _ s])
      next
        case more: False
        with Suc.prems False sub Inr have rest: "close_passes cfg v sy name k (Some od) s2 = (res, s')"
          by (auto simp: Let_def case_prod_beta)
        from Suc.IH [OF rest] obtain ods where "length ods \<le> k" "ss_order_history s' = ods @ ss_order_history s2"
          "\<forall>r. res = Inr r \<longrightarrow> r = (case ods of [] \<Rightarrow> Some od | x # _ \<Rightarrow> Some x)
            \<and> (length ods < k \<longrightarrow>
                 (\<exists>t. held_quantity sy t \<le> 0 \<and> ss_paper s' = marked_session cfg (v (k - length ods)) sy (ss_paper t))
               \<or> (\<exists>t. 0 < held_quantity sy t \<and> held_quantity sy t \<le> held_quantity sy s'))" by blast
        with hist Inr show ?thesis by (intro exI [of _ "ods @ [od]"]) (auto split: list.splits)
      qed
    qed
  qed
qed auto

text \<open>
  Closing a position ends: it puts at most four orders to the gateway, all of them recorded,
  and comes back with the last of them; and when it stops before the fourth, either nothing was
  held any more or the last order made no progress.
\<close>

lemma close_position_ends:
  assumes "session_close_position cfg v sy s = (res, s')"
  shows "\<exists>ods. length ods \<le> 4 \<and> ss_order_history s' = ods @ ss_order_history s
    \<and> (\<forall>r. res = Inr r \<longrightarrow> r = (case ods of [] \<Rightarrow> None | od # _ \<Rightarrow> Some od)
         \<and> (length ods < 4 \<longrightarrow>
              (\<exists>t. held_quantity sy t \<le> 0 \<and> ss_paper s' = marked_session cfg (v (4 - length ods)) sy (ss_paper t))
            \<or> (\<exists>t. 0 < held_quantity sy t \<and> held_quantity sy t \<le> held_quantity sy s')))"
proof -
  obtain res1 s1 where passes: "close_passes cfg v sy (Some ''manual'') 4 None s = (res1, s1)" by fastforce
  have "res = res1" "ss_order_history s' = ss_order_history s1" "ss_paper s' = ss_paper s1"
    using assms passes by (auto simp: session_close_position_def after_persist_def split: sum.splits if_splits)
  with close_passes_end [OF passes] show ?thesis by (simp add: held_quantity_def)
qed

subsection \<open>A concrete session\<close>

definition sample_session_config :: session_config where
  "sample_session_config = \<lparr>sg_settings = default_settings, sg_paper = default_paper_config\<rparr>"

definition sample_session_env :: session_env where
  "sample_session_env = \<lparr>sv_now = 0, sv_md_ts = Some 0, sv_md_now = 0, sv_risk_now = 0, sv_mark = sample_env,
     sv_submit = sample_env, sv_key = ''k1'', sv_order_id = ''rejected-1'', sv_client_id = ''client-1'',
     sv_live_close = (\<lambda>sy. 50000), sv_persist_fails = False, sv_reason_value = (\<lambda>r. '''')\<rparr>"

definition sample_session :: paper_session where
  "sample_session = with_paper sample_engine (new_session sample_session_config sample_session_env ''paper-1'')"

lemma sample_session_fields:
  "ss_paper sample_session = sample_engine" "ss_order_history sample_session = []"
  "map_of (ps_mark_prices sample_engine) ''BTC/USDT'' = Some 50000"
  by (simp_all add: sample_session_def new_session_def Let_def sample_engine_def)

lemma sample_config_fields:
  "sg_settings sample_session_config = default_settings" "sg_paper sample_session_config = default_paper_config"
  by (simp_all add: sample_session_config_def)

theorem session_risk_mandatory_witness:
  "\<exists>od. fst (session_submit sample_session_config sample_session_env sample_request
       (set_kill_switch sample_session_env True sample_session)) = Inr od \<and> o_status od = Rejected"
  using session_risk_mandatory [OF prod.collapse [of "session_submit sample_session_config sample_session_env
      sample_request (set_kill_switch sample_session_env True sample_session)", symmetric]]
  by (auto simp: set_kill_switch_def Let_def)

theorem session_ledger_safe_witness:
  "engine_ok (ss_paper (snd (session_submit sample_session_config sample_session_env sample_request sample_session)))"
proof -
  have m: "marked_session sample_session_config sample_session_env (rq_symbol sample_request) sample_engine = sample_engine"
    by (simp add: marked_session_def sample_session_fields sample_request_def)
  have rq: "request_ok default_paper_config sample_request"
    by (simp add: request_ok_def sample_request_def default_paper_config_def empty_meta_def
        dec_ops quantize_down_def trunc_zero_def)
  show ?thesis
    by (rule session_ledger_safe [OF prod.collapse [symmetric], THEN conjunct1])
      (simp_all add: m sample_session_fields sample_engine_ok default_paper_config_ok rq sample_config_fields,
       simp_all add: default_paper_config_def sample_request_def default_settings_def sample_session_env_def)
qed

lemma close_position_ends_witness:
  "length (ss_order_history (snd (session_close_position sample_session_config (\<lambda>k. sample_session_env) ''BTC/USDT'' sample_session))) \<le> 4"
  using close_position_ends [OF prod.collapse [of "session_close_position sample_session_config (\<lambda>k. sample_session_env)
      ''BTC/USDT'' sample_session", symmetric]]
  by (auto simp: sample_session_fields)

end
