(* ===== verification/Paper_Store.thy ===== *)
theory Paper_Store
  imports Session_Properties
begin

text \<open>
  Durable state: the tables and the JSON documents of \<open>app/services/paper_persistence.py\<close>, the
  order and fill tables of \<open>app/journal/store.py\<close>, and what the session does with them at the end of
  a cycle and at start-up (\<open>persist_paper_session\<close>, \<open>hydrate_paper_session_from_db\<close>,
  \<open>bootstrap_paper_runtime\<close> of \<open>app/services/paper_session.py\<close>).

  The database is the library behind the session. A JSON document is the record of its fields:
  \<open>str\<close> and \<open>Decimal\<close>, \<open>isoformat\<close> and \<open>fromisoformat\<close> are inverse, so a decimal or a time in it is
  itself. A numeric column keeps \<open>col x\<close> of a decimal, an argument; \<open>list\<close> of a set enumerates it in
  an order of its own (\<open>enum\<close>, an argument). A transaction is committed or not: the writes of
  \<open>persist_paper_session\<close> are staged and committed once.
\<close>

subsection \<open>Rows and documents\<close>

record saved_position =
  sp_quantity :: decimal
  sp_entry_price :: decimal
  sp_current_price :: decimal
  sp_unrealized_pnl :: decimal
  sp_opened_at :: timestamp
  sp_strategy_name :: "string option"

record checkpoint =
  ck_cash :: decimal
  ck_reserved_cash :: decimal
  ck_realized_pnl :: decimal
  ck_peak_equity :: decimal
  ck_daily_start_equity :: decimal
  ck_fees_paid :: decimal
  ck_consecutive_losses :: nat
  ck_idempotency_index :: "(string, string) dict"
  ck_positions :: "(string, saved_position) dict"
  ck_fills :: "fill list"
  ck_orders :: "order list"

record account_row =
  ac_cash :: decimal
  ac_realized_pnl :: decimal
  ac_peak_equity :: decimal
  ac_daily_start_equity :: decimal
  ac_consecutive_losses :: nat
  ac_fees_paid :: decimal
  ac_reserved_capital :: decimal
  ac_idempotency_index :: "(string, string) dict"

record risk_row =
  kr_circuit_breaker_open :: string
  kr_circuit_breaker_reason :: string
  kr_seen_idempotency_keys :: "string list"
  kr_reconciliation_healthy :: string
  kr_risk_engine_healthy :: string
  kr_database_healthy :: string
  kr_market_data_healthy :: string
  kr_peak_equity :: decimal
  kr_daily_start_equity :: decimal
  kr_consecutive_losses :: nat
  kr_kill_switch_enabled :: string

record strategy_row =
  gr_selected_strategy_id :: "string option"
  gr_running_strategies :: "string list"
  gr_param_overrides :: "(string, strategy) dict"

text \<open>What an older release may have left: an account, and flags of the session.\<close>

record legacy_account =
  lg_cash :: decimal
  lg_realized_pnl :: decimal
  lg_flags :: "(decimal option \<times> decimal option \<times> nat \<times> string option) option"

type_synonym cycle_key_row = "string \<times> string \<times> string \<times> timestamp"

record store =
  so_kill_switch :: "bool option"
  so_trading_enabled :: "bool option"
  so_trading_paused :: "bool option"
  so_recon_halt :: "bool option"
  so_cycle_keys :: "cycle_key_row set option"
  so_cycle_rows :: "cycle_key_row set"
  so_checkpoint :: "checkpoint option"
  so_account :: "account_row option"
  so_risk :: "risk_row option"
  so_strategy :: "strategy_row option"
  so_positions :: "position list"
  so_balance :: "(decimal \<times> decimal) option"
  so_equity_snapshots :: "(timestamp \<times> decimal \<times> decimal \<times> decimal) list"
  so_orders :: "order list"
  so_fills :: "fill list"
  so_legacy :: "legacy_account option"

definition empty_store :: store where
  "empty_store = \<lparr>so_kill_switch = None, so_trading_enabled = None, so_trading_paused = None,
     so_recon_halt = None, so_cycle_keys = None, so_cycle_rows = {}, so_checkpoint = None,
     so_account = None, so_risk = None, so_strategy = None, so_positions = [], so_balance = None,
     so_equity_snapshots = [], so_orders = [], so_fills = [], so_legacy = None\<rparr>"

text \<open>What the columns and the session of the database do.\<close>

record database =
  db_col :: "decimal \<Rightarrow> decimal"
  db_enum :: "string set \<Rightarrow> string list"
  db_now :: timestamp

subsection \<open>Booleans as text\<close>

definition bool_str :: "bool \<Rightarrow> string" where
  "bool_str b = (if b then ''true'' else ''false'')"

definition parse_bool :: "string \<Rightarrow> bool" where
  "parse_bool s \<longleftrightarrow> py_lower (py_strip s) \<in> {''1'', ''true'', ''yes'', ''on''}"

subsection \<open>Flags and cycle keys\<close>

definition save_kill_switch :: "bool \<Rightarrow> store \<Rightarrow> store" where
  "save_kill_switch enabled db = db\<lparr>so_kill_switch := Some enabled\<rparr>"

definition save_trading_enabled :: "bool \<Rightarrow> store \<Rightarrow> store" where
  "save_trading_enabled enabled db = db\<lparr>so_trading_enabled := Some enabled\<rparr>"

definition save_trading_paused :: "bool \<Rightarrow> store \<Rightarrow> store" where
  "save_trading_paused paused db = db\<lparr>so_trading_paused := Some paused\<rparr>"

definition save_reconciliation_halt :: "bool \<Rightarrow> store \<Rightarrow> store" where
  "save_reconciliation_halt halted db = db\<lparr>so_recon_halt := Some halted\<rparr>"

definition save_cycle_keys :: "cycle_key_row set \<Rightarrow> store \<Rightarrow> store" where
  "save_cycle_keys keys db = db\<lparr>so_cycle_keys := Some keys, so_cycle_rows := so_cycle_rows db \<union> keys\<rparr>"

definition load_cycle_keys :: "store \<Rightarrow> cycle_key_row set" where
  "load_cycle_keys db =
     (case so_cycle_keys db of
        Some keys \<Rightarrow> if keys \<noteq> {} then keys else so_cycle_rows db
      | None \<Rightarrow> so_cycle_rows db)"

subsection \<open>The checkpoint\<close>

definition save_position :: "position \<Rightarrow> saved_position" where
  "save_position p = \<lparr>sp_quantity = p_quantity p, sp_entry_price = p_entry_price p,
     sp_current_price = p_current_price p, sp_unrealized_pnl = p_unrealized_pnl p,
     sp_opened_at = p_opened_at p, sp_strategy_name = p_strategy_name p\<rparr>"

definition position_row :: "database \<Rightarrow> position \<Rightarrow> position" where
  "position_row d p = p\<lparr>p_quantity := db_col d (p_quantity p), p_entry_price := db_col d (p_entry_price p),
     p_current_price := db_col d (p_current_price p), p_unrealized_pnl := db_col d (p_unrealized_pnl p),
     p_realized_pnl := db_col d (p_realized_pnl p), p_stop_loss := None, p_take_profit := None\<rparr>"

definition make_checkpoint :: "paper_session \<Rightarrow> checkpoint" where
  "make_checkpoint s =
     (let ps = ss_paper s
      in \<lparr>ck_cash = ps_cash ps, ck_reserved_cash = ps_reserved_cash ps,
          ck_realized_pnl = ps_realized_pnl ps, ck_peak_equity = ss_peak_equity s,
          ck_daily_start_equity = ss_daily_start_equity s, ck_fees_paid = dsum (map f_fee (ps_fills ps)),
          ck_consecutive_losses = ss_consecutive_losses s, ck_idempotency_index = ps_idempotency_index ps,
          ck_positions = map (\<lambda>(k, p). (k, save_position p)) (ps_positions ps), ck_fills = ps_fills ps,
          ck_orders = dict_values (ps_orders ps)\<rparr>)"

text \<open>The position table is replaced, one row for a symbol of the ledger.\<close>

definition save_paper_checkpoint :: "database \<Rightarrow> paper_session \<Rightarrow> store \<Rightarrow> store" where
  "save_paper_checkpoint d s db =
     db\<lparr>so_balance := Some (db_col d (ps_cash (ss_paper s)), db_col d (ps_reserved_cash (ss_paper s))),
        so_positions := map (\<lambda>(k, p). position_row d (p\<lparr>p_symbol := k\<rparr>)) (ps_positions (ss_paper s)),
        so_checkpoint := Some (make_checkpoint s)\<rparr>"

definition restore_position :: "string \<Rightarrow> saved_position \<Rightarrow> position" where
  "restore_position sy d = \<lparr>p_symbol = sy, p_quantity = sp_quantity d, p_entry_price = sp_entry_price d,
     p_current_price = sp_current_price d, p_unrealized_pnl = sp_unrealized_pnl d, p_realized_pnl = 0,
     p_opened_at = sp_opened_at d, p_strategy_name = sp_strategy_name d, p_stop_loss = None,
     p_take_profit = None\<rparr>"

definition checkpoint_to_positions :: "checkpoint \<Rightarrow> (string, position) dict" where
  "checkpoint_to_positions ck = map (\<lambda>(k, d). (k, restore_position k d)) (ck_positions ck)"

definition checkpoint_to_fills :: "(fill \<Rightarrow> string) \<Rightarrow> checkpoint \<Rightarrow> fill list" where
  "checkpoint_to_fills fresh ck =
     map (\<lambda>f. f\<lparr>f_id := (if f_id f = '''' then fresh f else f_id f)\<rparr>) (ck_fills ck)"

definition restore_order :: "order \<Rightarrow> order" where
  "restore_order od =
     od\<lparr>o_client_order_id := (if o_client_order_id od = '''' then take 12 (o_id od) else o_client_order_id od),
        o_idempotency_key := (if o_idempotency_key od = '''' then o_id od else o_idempotency_key od)\<rparr>"

definition checkpoint_to_orders :: "checkpoint \<Rightarrow> (string, order) dict" where
  "checkpoint_to_orders ck =
     fold (\<lambda>od d. AList.update (o_id (restore_order od)) (restore_order od) d) (ck_orders ck) []"

subsection \<open>Account, risk and strategy rows\<close>

definition save_paper_account :: "database \<Rightarrow> paper_session \<Rightarrow> store \<Rightarrow> store" where
  "save_paper_account d s db =
     (let ps = ss_paper s
      in db\<lparr>so_account := Some
          \<lparr>ac_cash = db_col d (ps_cash ps), ac_realized_pnl = db_col d (ps_realized_pnl ps),
           ac_peak_equity = db_col d (ss_peak_equity s), ac_daily_start_equity = db_col d (ss_daily_start_equity s),
           ac_consecutive_losses = ss_consecutive_losses s,
           ac_fees_paid = db_col d (dsum (map f_fee (ps_fills ps))),
           ac_reserved_capital = db_col d (ps_reserved_cash ps),
           ac_idempotency_index = ps_idempotency_index ps\<rparr>\<rparr>)"

definition capped_keys :: "string list \<Rightarrow> string list" where
  "capped_keys keys = (if length keys > 5000 then drop (length keys - 5000) keys else keys)"

definition save_risk_state :: "database \<Rightarrow> paper_session \<Rightarrow> store \<Rightarrow> store" where
  "save_risk_state d s db =
     (let rs = ss_risk s
      in db\<lparr>so_risk := Some
          \<lparr>kr_circuit_breaker_open = bool_str (rs_circuit_breaker_open rs),
           kr_circuit_breaker_reason = rs_circuit_breaker_reason rs,
           kr_seen_idempotency_keys = capped_keys (db_enum d (rs_seen_idempotency_keys rs)),
           kr_reconciliation_healthy = bool_str (rs_reconciliation_healthy rs),
           kr_risk_engine_healthy = bool_str (rs_risk_engine_healthy rs),
           kr_database_healthy = bool_str (rs_database_healthy rs),
           kr_market_data_healthy = bool_str (rs_market_data_healthy rs),
           kr_peak_equity = db_col d (ss_peak_equity s),
           kr_daily_start_equity = db_col d (ss_daily_start_equity s),
           kr_consecutive_losses = ss_consecutive_losses s,
           kr_kill_switch_enabled = bool_str (sf_kill_switch_enabled (ss_flags s))\<rparr>\<rparr>)"

definition save_strategy_state :: "database \<Rightarrow> paper_session \<Rightarrow> store \<Rightarrow> store" where
  "save_strategy_state d s db =
     db\<lparr>so_strategy := Some
        \<lparr>gr_selected_strategy_id = sf_selected_strategy_id (ss_flags s),
         gr_running_strategies = db_enum d (ss_running_strategies s),
         gr_param_overrides = ss_param_overrides s\<rparr>\<rparr>"

definition save_equity_snapshot :: "database \<Rightarrow> paper_session \<Rightarrow> store \<Rightarrow> store" where
  "save_equity_snapshot d s db =
     (let equity = session_equity (ss_paper s)
      in db\<lparr>so_equity_snapshots := so_equity_snapshots db @
           [(db_now d, db_col d equity, db_col d (ps_cash (ss_paper s)),
             db_col d (session_drawdown (ss_peak_equity s) equity))]\<rparr>)"

definition stage_session :: "database \<Rightarrow> paper_session \<Rightarrow> store \<Rightarrow> store" where
  "stage_session d s db =
     save_equity_snapshot d s (save_strategy_state d s (save_risk_state d s (save_paper_account d s
       (save_paper_checkpoint d s (save_trading_paused (sf_trading_paused (ss_flags s))
         (save_trading_enabled (sf_trading_enabled (ss_flags s))
           (save_kill_switch (sf_kill_switch_enabled (ss_flags s)) db)))))))"

text \<open>One commit at the end: a failing write or commit raises and leaves the store as it was.\<close>

definition persist_paper_session :: "database \<Rightarrow> bool \<Rightarrow> paper_session \<Rightarrow> store \<Rightarrow> bool \<times> store" where
  "persist_paper_session d fails s db = (if fails then (False, db) else (True, stage_session d s db))"

subsection \<open>The journal tables\<close>

definition order_row :: "database \<Rightarrow> order \<Rightarrow> order" where
  "order_row d od =
     od\<lparr>o_quantity := db_col d (o_quantity od), o_filled_quantity := db_col d (o_filled_quantity od),
        o_price := map_option (db_col d) (o_price od),
        o_average_fill_price := map_option (db_col d) (o_average_fill_price od),
        o_fees := db_col d (o_fees od)\<rparr>"

definition fill_row :: "database \<Rightarrow> fill \<Rightarrow> fill" where
  "fill_row d f = f\<lparr>f_quantity := db_col d (f_quantity f), f_price := db_col d (f_price f), f_fee := db_col d (f_fee f)\<rparr>"

text \<open>Both writes only insert; a row with the same key makes the commit raise.\<close>

definition record_order :: "database \<Rightarrow> order \<Rightarrow> store \<Rightarrow> bool \<times> store" where
  "record_order d od db =
     (if list_ex (\<lambda>x. o_id x = o_id od \<or> o_idempotency_key x = o_idempotency_key od) (so_orders db)
      then (False, db) else (True, db\<lparr>so_orders := so_orders db @ [order_row d od]\<rparr>))"

definition record_fill :: "database \<Rightarrow> fill \<Rightarrow> store \<Rightarrow> bool \<times> store" where
  "record_fill d f db =
     (if list_ex (\<lambda>x. f_id x = f_id f) (so_fills db) then (False, db)
      else (True, db\<lparr>so_fills := so_fills db @ [fill_row d f]\<rparr>))"

definition list_orders :: "nat \<Rightarrow> store \<Rightarrow> order list" where
  "list_orders limit db =
     map (\<lambda>od. od\<lparr>o_risk_decision := None, o_risk_reason_code := None\<rparr>)
       (rev (take limit (sort_key (\<lambda>od. - o_created_at od) (so_orders db))))"

definition list_fills :: "nat \<Rightarrow> store \<Rightarrow> fill list" where
  "list_fills limit db = rev (take limit (sort_key (\<lambda>f. - f_timestamp f) (so_fills db)))"

subsection \<open>Hydration\<close>

text \<open>
  The environment of a start: the clock and identifiers of the session, the environment of marking
  a symbol, fresh identifiers of fills, and whether reading the journal tables fails.
\<close>

record hydrate_env =
  hv_session :: session_env
  hv_mark :: "string \<Rightarrow> paper_env"
  hv_fresh :: "fill \<Rightarrow> string"
  hv_journal_fails :: bool

definition hydrate_flags :: "store \<Rightarrow> paper_session \<Rightarrow> paper_session" where
  "hydrate_flags db s =
     (let given = (\<lambda>x b. case x of Some v \<Rightarrow> v | None \<Rightarrow> b); fl = ss_flags s
      in with_flags (fl\<lparr>sf_kill_switch_enabled := given (so_kill_switch db) (sf_kill_switch_enabled fl),
           sf_trading_enabled := given (so_trading_enabled db) (sf_trading_enabled fl),
           sf_trading_paused := given (so_trading_paused db) (sf_trading_paused fl)\<rparr>) s)"

definition with_recon :: "recon_state \<Rightarrow> paper_session \<Rightarrow> paper_session" where
  "with_recon r s = s\<lparr>ss_runtime := (ss_runtime s)\<lparr>rt_recon := r\<rparr>\<rparr>"

definition hydrate_halt :: "store \<Rightarrow> paper_session \<Rightarrow> paper_session" where
  "hydrate_halt db s =
     (case so_recon_halt db of
        None \<Rightarrow> s
      | Some halted \<Rightarrow>
          with_recon (apply_halt_from_storage halted (rt_recon (ss_runtime s)))
            (with_risk ((ss_risk s)\<lparr>rs_reconciliation_healthy := \<not> halted\<rparr>) s))"

text \<open>The restored positions set their marks, in the order of the dictionary.\<close>

definition mark_positions :: "session_config \<Rightarrow> hydrate_env \<Rightarrow> (string, position) dict \<Rightarrow> paper_state \<Rightarrow> paper_state" where
  "mark_positions cfg v positions ps =
     fold (\<lambda>(sy, p). set_mark_price (sg_paper cfg) (hv_mark v sy) sy (p_current_price p)) positions ps"

definition hydrate_checkpoint :: "session_config \<Rightarrow> hydrate_env \<Rightarrow> checkpoint \<Rightarrow> paper_session \<Rightarrow> paper_session" where
  "hydrate_checkpoint cfg v ck s =
     (let positions = checkpoint_to_positions ck;
          ps = (ss_paper s)\<lparr>ps_cash := ck_cash ck, ps_reserved_cash := ck_reserved_cash ck,
                 ps_realized_pnl := ck_realized_pnl ck, ps_positions := positions,
                 ps_idempotency_index := ck_idempotency_index ck\<rparr>;
          s1 = s\<lparr>ss_peak_equity := ck_peak_equity ck, ss_daily_start_equity := ck_daily_start_equity ck,
                 ss_consecutive_losses := ck_consecutive_losses ck\<rparr>
      in record_equity_point (hv_session v) (with_paper (mark_positions cfg v positions ps) s1))"

definition hydrate_account :: "session_config \<Rightarrow> hydrate_env \<Rightarrow> account_row \<Rightarrow> position list \<Rightarrow> paper_session \<Rightarrow> paper_session" where
  "hydrate_account cfg v a rows s =
     (let ps = (ss_paper s)\<lparr>ps_cash := ac_cash a, ps_reserved_cash := ac_reserved_capital a,
                 ps_realized_pnl := ac_realized_pnl a, ps_idempotency_index := ac_idempotency_index a\<rparr>;
          s1 = s\<lparr>ss_peak_equity := ac_peak_equity a, ss_daily_start_equity := ac_daily_start_equity a,
                 ss_consecutive_losses := ac_consecutive_losses a\<rparr>;
          restored = fold (\<lambda>p d. AList.update (p_symbol p) p d) (filter (\<lambda>p. p_quantity p > 0) rows) [];
          ps1 = (if restored \<noteq> [] then mark_positions cfg v restored (ps\<lparr>ps_positions := restored\<rparr>) else ps)
      in record_equity_point (hv_session v) (with_paper ps1 s1))"

definition hydrate_legacy :: "hydrate_env \<Rightarrow> legacy_account \<Rightarrow> paper_session \<Rightarrow> paper_session" where
  "hydrate_legacy v lg s =
     (let s1 = with_paper ((ss_paper s)\<lparr>ps_cash := lg_cash lg, ps_realized_pnl := lg_realized_pnl lg\<rparr>) s;
          s2 = (case lg_flags lg of
                  None \<Rightarrow> s1
                | Some (peak, start, losses, sid) \<Rightarrow>
                    with_flags ((ss_flags s1)\<lparr>sf_selected_strategy_id :=
                        (case sid of Some (c # cs) \<Rightarrow> Some (c # cs) | _ \<Rightarrow> sf_selected_strategy_id (ss_flags s1))\<rparr>)
                      (s1\<lparr>ss_peak_equity := (case peak of Some x \<Rightarrow> x | None \<Rightarrow> ss_peak_equity s1),
                          ss_daily_start_equity := (case start of Some x \<Rightarrow> x | None \<Rightarrow> ss_daily_start_equity s1),
                          ss_consecutive_losses := losses\<rparr>))
      in record_equity_point (hv_session v) s2)"

definition hydrate_portfolio :: "session_config \<Rightarrow> hydrate_env \<Rightarrow> store \<Rightarrow> paper_session \<Rightarrow> paper_session" where
  "hydrate_portfolio cfg v db s =
     (case so_checkpoint db of
        Some ck \<Rightarrow> hydrate_checkpoint cfg v ck s
      | None \<Rightarrow>
          (case so_account db of
             Some a \<Rightarrow> hydrate_account cfg v a (so_positions db) s
           | None \<Rightarrow> (case so_legacy db of Some lg \<Rightarrow> hydrate_legacy v lg s | None \<Rightarrow> s)))"

definition hydrate_risk :: "store \<Rightarrow> paper_session \<Rightarrow> paper_session" where
  "hydrate_risk db s =
     (case so_risk db of
        None \<Rightarrow> s
      | Some r \<Rightarrow>
          let s1 = with_risk ((ss_risk s)\<lparr>rs_circuit_breaker_open := parse_bool (kr_circuit_breaker_open r),
                 rs_circuit_breaker_reason := kr_circuit_breaker_reason r,
                 rs_seen_idempotency_keys := set (kr_seen_idempotency_keys r),
                 rs_reconciliation_healthy := parse_bool (kr_reconciliation_healthy r),
                 rs_risk_engine_healthy := parse_bool (kr_risk_engine_healthy r),
                 rs_database_healthy := parse_bool (kr_database_healthy r),
                 rs_market_data_healthy := parse_bool (kr_market_data_healthy r)\<rparr>) s;
              s2 = s1\<lparr>ss_peak_equity := (if kr_peak_equity r \<noteq> 0 then kr_peak_equity r else ss_peak_equity s1),
                 ss_daily_start_equity := (if kr_daily_start_equity r \<noteq> 0 then kr_daily_start_equity r
                   else ss_daily_start_equity s1),
                 ss_consecutive_losses := (if kr_consecutive_losses r \<noteq> 0 then kr_consecutive_losses r
                   else ss_consecutive_losses s1)\<rparr>
          in if parse_bool (kr_kill_switch_enabled r)
             then with_flags ((ss_flags s2)\<lparr>sf_kill_switch_enabled := True\<rparr>) s2 else s2)"

definition add_seen :: "string set \<Rightarrow> paper_session \<Rightarrow> paper_session" where
  "add_seen keys s =
     with_risk ((ss_risk s)\<lparr>rs_seen_idempotency_keys := rs_seen_idempotency_keys (ss_risk s) \<union> keys\<rparr>) s"

definition seed_seen_keys :: "paper_session \<Rightarrow> paper_session" where
  "seed_seen_keys s =
     (if rs_seen_idempotency_keys (ss_risk s) = {}
      then add_seen (set (map fst (ps_idempotency_index (ss_paper s)))) s else s)"

definition hydrate_strategy :: "store \<Rightarrow> paper_session \<Rightarrow> paper_session" where
  "hydrate_strategy db s =
     (case so_strategy db of
        None \<Rightarrow> s
      | Some g \<Rightarrow> with_flags ((ss_flags s)\<lparr>sf_selected_strategy_id := gr_selected_strategy_id g\<rparr>)
          (s\<lparr>ss_running_strategies := set (gr_running_strategies g),
             ss_param_overrides := gr_param_overrides g\<rparr>))"

definition restore_into :: "string \<times> order \<Rightarrow> paper_session \<Rightarrow> paper_session" where
  "restore_into x s =
     (let (oid, od) = x; ps = ss_paper s;
          s1 = with_paper (ps\<lparr>ps_orders := AList.update oid od (ps_orders ps),
                 ps_idempotency_index := AList.update (o_idempotency_key od) oid (ps_idempotency_index ps)\<rparr>) s;
          s2 = add_seen {o_idempotency_key od} s1
      in if od \<in> set (ss_order_history s2) then s2
         else s2\<lparr>ss_order_history := ss_order_history s2 @ [od]\<rparr>)"

definition hydrate_journal :: "hydrate_env \<Rightarrow> store \<Rightarrow> paper_session \<Rightarrow> paper_session" where
  "hydrate_journal v db s =
     (if hv_journal_fails v then s
      else
        let orders = list_orders 500 db; fills = list_fills 500 db;
            s1 = fold restore_into (map (\<lambda>od. (o_id od, od)) orders) s
        in if fills \<noteq> [] then with_paper ((ss_paper s1)\<lparr>ps_fills := fills\<rparr>) s1 else s1)"

definition hydrate_fallback :: "hydrate_env \<Rightarrow> store \<Rightarrow> paper_session \<Rightarrow> paper_session" where
  "hydrate_fallback v db s =
     (case so_checkpoint db of
        None \<Rightarrow> s
      | Some ck \<Rightarrow>
          let fills = checkpoint_to_fills (hv_fresh v) ck;
              s1 = (if ps_fills (ss_paper s) = [] \<and> fills \<noteq> []
                    then with_paper ((ss_paper s)\<lparr>ps_fills := fills\<rparr>) s else s)
          in if ps_orders (ss_paper s1) = [] then fold restore_into (checkpoint_to_orders ck) s1 else s1)"

definition hydrate_session :: "session_config \<Rightarrow> hydrate_env \<Rightarrow> store \<Rightarrow> paper_session \<Rightarrow> paper_session" where
  "hydrate_session cfg v db s =
     hydrate_fallback v db (hydrate_journal v db (hydrate_strategy db (seed_seen_keys (hydrate_risk db
       (hydrate_portfolio cfg v db (hydrate_halt db (hydrate_flags db s)))))))"

subsection \<open>Start-up\<close>

record bootstrap_env =
  bv_hydrate :: hydrate_env
  bv_database_fails :: bool
  bv_recon_raises :: bool
  bv_recon_now :: timestamp
  bv_halt_write_fails :: bool

definition set_processed_cycle_keys :: "cycle_key_row set \<Rightarrow> paper_session \<Rightarrow> paper_session" where
  "set_processed_cycle_keys keys s = s\<lparr>ss_runtime := (ss_runtime s)\<lparr>rt_processed_keys := keys\<rparr>\<rparr>"

definition database_health :: "bool \<Rightarrow> paper_session \<Rightarrow> paper_session" where
  "database_health healthy s = with_risk ((ss_risk s)\<lparr>rs_database_healthy := healthy\<rparr>) s"

text \<open>A reconciliation at start-up; when it raises, everything it guards is halted.\<close>

definition startup_reconciliation :: "session_config \<Rightarrow> bootstrap_env \<Rightarrow> paper_session \<times> store \<Rightarrow> paper_session \<times> store" where
  "startup_reconciliation cfg v x =
     (let (s, db) = x in
      if bv_recon_raises v then
        (with_recon (apply_halt_from_storage True (rt_recon (ss_runtime s)))
           (with_risk ((ss_risk s)\<lparr>rs_reconciliation_healthy := False\<rparr>)
             (with_flags ((ss_flags s)\<lparr>sf_trading_paused := True\<rparr>) s)),
         (if bv_halt_write_fails v then db else save_trading_paused True (save_reconciliation_halt True db)))
      else
        let (result, r, rs) = run_paper_reconciliation (sg_settings cfg) (bv_recon_now v) (ss_paper s)
              (rt_recon (ss_runtime s), ss_risk s)
        in (with_recon r (with_risk rs s),
            if bv_halt_write_fails v \<or> \<not> st_enable_reconciliation (sg_settings cfg) then db
            else save_reconciliation_halt (rc_halted r) db))"

definition bootstrap_paper_runtime :: "session_config \<Rightarrow> bootstrap_env \<Rightarrow> paper_session \<times> store \<Rightarrow> paper_session \<times> store" where
  "bootstrap_paper_runtime cfg v x =
     (let (s, db) = x in
      if bv_database_fails v then (database_health False s, db)
      else startup_reconciliation cfg v
             (database_health True (set_processed_cycle_keys (load_cycle_keys db)
                (hydrate_session cfg (bv_hydrate v) db s)), db))"

end
