(* ===== verification/Store_Properties.thy ===== *)
theory Store_Properties
  imports Paper_Store
begin

text \<open>
  What survives a restart: a persisted session is read back (as far as the documents go), what a
  failed start leaves is safe, and what the order of precedence between the tables loses.
\<close>

subsection \<open>Texts and dictionaries\<close>

lemma parse_bool_str [simp]: "parse_bool (bool_str b) = b"
  by (simp add: parse_bool_def bool_str_def py_lower_def py_strip_def lower_char_def is_space_def)

lemma update_fresh: "k \<notin> fst ` set d \<Longrightarrow> AList.update k v d = d @ [(k, v)]"
  by (induction d) auto

lemma rebuild_dict:
  assumes "distinct (map fst (acc @ d))" and "\<forall>x \<in> set d. f (snd x) = fst x"
  shows "fold (\<lambda>v a. AList.update (f v) v a) (map snd d) acc = acc @ d"
  using assms
proof (induction d arbitrary: acc)
  case (Cons x d)
  obtain k v where x: "x = (k, v)" by fastforce
  have "AList.update k v acc = acc @ [(k, v)]" using Cons.prems(1) x by (intro update_fresh) force
  with Cons.IH [of "acc @ [(k, v)]"] Cons.prems x show ?case by simp
qed simp

subsection \<open>Restoring positions\<close>

definition position_core :: "position \<Rightarrow> decimal \<times> decimal \<times> decimal \<times> timestamp \<times> string option" where
  "position_core p = (p_quantity p, p_entry_price p, p_current_price p, p_opened_at p, p_strategy_name p)"

definition holdings_core :: "paper_state \<Rightarrow> (string \<times> decimal \<times> decimal \<times> decimal \<times> timestamp \<times> string option) list" where
  "holdings_core ps = map (\<lambda>(k, p). (k, position_core p)) (ps_positions ps)"

lemma update_core:
  "map_of d k = Some p \<Longrightarrow> position_core p' = position_core p \<Longrightarrow>
   map (\<lambda>(k, p). (k, position_core p)) (AList.update k p' d) = map (\<lambda>(k, p). (k, position_core p)) d"
  by (induction d) auto

definition same_books :: "paper_state \<Rightarrow> paper_state \<Rightarrow> bool" where
  "same_books ps ps' \<longleftrightarrow> ps_cash ps' = ps_cash ps \<and> ps_reserved_cash ps' = ps_reserved_cash ps
     \<and> ps_realized_pnl ps' = ps_realized_pnl ps \<and> ps_orders ps' = ps_orders ps \<and> ps_fills ps' = ps_fills ps
     \<and> ps_idempotency_index ps' = ps_idempotency_index ps \<and> holdings_core ps' = holdings_core ps"

lemma same_books_refl [simp]: "same_books ps ps"
  by (simp add: same_books_def)

lemma same_books_trans: "same_books a b \<Longrightarrow> same_books b c \<Longrightarrow> same_books a c"
  by (simp add: same_books_def)

lemma mark_same:
  assumes "ps_orders ps = []" and "\<And>p. map_of (ps_positions ps) sy = Some p \<Longrightarrow> p_current_price p = price"
  shows "same_books ps (set_mark_price pc v sy price ps)"
proof (cases "map_of (ps_positions ps) sy")
  case None
  with assms(1) show ?thesis
    by (simp add: same_books_def set_mark_price_def try_trigger_resting_def dict_values_def holdings_core_def)
next
  case (Some p)
  have "holdings_core (ps\<lparr>ps_positions := AList.update sy (p\<lparr>p_current_price := price,
      p_unrealized_pnl := dmul (dsub price (p_entry_price p)) (p_quantity p)\<rparr>) (ps_positions ps)\<rparr>) = holdings_core ps"
    using update_core [OF Some] assms(2) [OF Some] by (simp add: holdings_core_def position_core_def)
  with assms(1) Some show ?thesis
    by (simp add: same_books_def set_mark_price_def try_trigger_resting_def dict_values_def holdings_core_def)
qed

lemma core_lookup: "map_of (holdings_core ps) k = map_option position_core (map_of (ps_positions ps) k)"
  unfolding holdings_core_def by (induction "ps_positions ps") (auto simp: map_of_map)

lemma marks_same:
  assumes "ps_orders ps = []" and "\<forall>(sy, p) \<in> set ms. map_of (ps_positions ps) sy = Some p"
  shows "same_books ps (mark_positions cfg v ms ps)"
proof -
  have "same_books ps qs \<Longrightarrow> same_books ps (mark_positions cfg v ms qs)" for qs
    using assms(2) unfolding mark_positions_def
  proof (induction ms arbitrary: qs)
    case (Cons m ms)
    obtain sy p where m: "m = (sy, p)" by fastforce
    let ?qs = "set_mark_price (sg_paper cfg) (hv_mark v sy) sy (p_current_price p) qs"
    have "p_current_price q = p_current_price p" if "map_of (ps_positions qs) sy = Some q" for q
    proof -
      have "map_of (holdings_core qs) sy = map_of (holdings_core ps) sy" using Cons.prems(1) by (simp add: same_books_def)
      with that Cons.prems(2) m show ?thesis by (simp add: core_lookup position_core_def)
    qed
    then have "same_books qs ?qs" using Cons.prems(1) assms(1) by (intro mark_same) (simp_all add: same_books_def)
    with Cons.prems(1) have "same_books ps ?qs" by (rule same_books_trans)
    with Cons.IH [of ?qs] Cons.prems(2) m show ?case by simp
  qed simp
  then show ?thesis by simp
qed

subsection \<open>Restoring orders\<close>

lemma add_seen_frame [simp]:
  "ss_paper (add_seen ks s) = ss_paper s" "ss_flags (add_seen ks s) = ss_flags s"
  "rs_seen_idempotency_keys (ss_risk (add_seen ks s)) = rs_seen_idempotency_keys (ss_risk s) \<union> ks"
  "rs_circuit_breaker_open (ss_risk (add_seen ks s)) = rs_circuit_breaker_open (ss_risk s)"
  "rs_database_healthy (ss_risk (add_seen ks s)) = rs_database_healthy (ss_risk s)"
  "rs_reconciliation_healthy (ss_risk (add_seen ks s)) = rs_reconciliation_healthy (ss_risk s)"
  "ss_peak_equity (add_seen ks s) = ss_peak_equity s" "ss_daily_start_equity (add_seen ks s) = ss_daily_start_equity s"
  "ss_consecutive_losses (add_seen ks s) = ss_consecutive_losses s"
  "ss_running_strategies (add_seen ks s) = ss_running_strategies s"
  "ss_param_overrides (add_seen ks s) = ss_param_overrides s"
  by (simp_all add: add_seen_def with_risk_def)

text \<open>What restoring orders keeps of a session.\<close>

definition session_core :: "paper_session \<Rightarrow> _" where
  "session_core s = (ss_flags s, ss_peak_equity s, ss_daily_start_equity s, ss_consecutive_losses s,
     ss_running_strategies s, ss_param_overrides s, rs_circuit_breaker_open (ss_risk s),
     rs_database_healthy (ss_risk s), rs_reconciliation_healthy (ss_risk s), ps_cash (ss_paper s),
     ps_reserved_cash (ss_paper s), ps_realized_pnl (ss_paper s), ps_positions (ss_paper s), ps_fills (ss_paper s))"

lemma restore_into_frame:
  "session_core (restore_into x s) = session_core s"
  "ps_orders (ss_paper (restore_into x s)) = AList.update (fst x) (snd x) (ps_orders (ss_paper s))"
  "ps_idempotency_index (ss_paper (restore_into x s))
     = AList.update (o_idempotency_key (snd x)) (fst x) (ps_idempotency_index (ss_paper s))"
  "rs_seen_idempotency_keys (ss_risk (restore_into x s))
     = insert (o_idempotency_key (snd x)) (rs_seen_idempotency_keys (ss_risk s))"
  by (auto simp: restore_into_def session_core_def Let_def case_prod_beta with_paper_def add_seen_def with_risk_def)

lemma restore_all:
  "session_core (fold restore_into xs s) = session_core s
   \<and> ps_orders (ss_paper (fold restore_into xs s)) = fold (\<lambda>x. AList.update (fst x) (snd x)) xs (ps_orders (ss_paper s))
   \<and> rs_seen_idempotency_keys (ss_risk (fold restore_into xs s))
       = rs_seen_idempotency_keys (ss_risk s) \<union> (\<lambda>x. o_idempotency_key (snd x)) ` set xs"
  by (induction xs arbitrary: s) (auto simp: restore_into_frame)

lemma restore_index:
  assumes "\<forall>x \<in> set xs. map_of (ps_idempotency_index (ss_paper s)) (o_idempotency_key (snd x)) = Some (fst x)"
  shows "map_of (ps_idempotency_index (ss_paper (fold restore_into xs s))) = map_of (ps_idempotency_index (ss_paper s))"
  using assms
proof (induction xs arbitrary: s)
  case (Cons x xs)
  have same: "map_of (ps_idempotency_index (ss_paper (restore_into x s))) = map_of (ps_idempotency_index (ss_paper s))"
    using Cons.prems by (auto simp: restore_into_frame update_conv' fun_eq_iff)
  from Cons.IH [of "restore_into x s"] Cons.prems same show ?case by simp
qed simp

definition texts_ok :: "order \<Rightarrow> bool" where
  "texts_ok od \<longleftrightarrow> o_client_order_id od \<noteq> '''' \<and> o_idempotency_key od \<noteq> ''''"

lemma restore_order_id [simp]: "texts_ok od \<Longrightarrow> restore_order od = od"
  by (simp add: texts_ok_def restore_order_def)

lemma checkpoint_orders:
  assumes "distinct_keys (ps_orders (ss_paper s))"
    and "\<forall>(k, od) \<in> set (ps_orders (ss_paper s)). o_id od = k \<and> texts_ok od"
  shows "checkpoint_to_orders (make_checkpoint s) = ps_orders (ss_paper s)"
proof -
  have "fold (\<lambda>od d. AList.update (o_id (restore_order od)) (restore_order od) d) (map snd (ps_orders (ss_paper s))) []
      = fold (\<lambda>od d. AList.update (o_id od) od d) (map snd (ps_orders (ss_paper s))) []"
    by (rule fold_cong) (use assms(2) in auto)
  also have "\<dots> = ps_orders (ss_paper s)"
    using rebuild_dict [of "[]" "ps_orders (ss_paper s)" o_id] assms by (simp add: distinct_keys_def case_prod_beta)
  finally show ?thesis by (simp add: checkpoint_to_orders_def make_checkpoint_def dict_values_def Let_def)
qed

lemma fold_update_self:
  "distinct (map fst (acc @ d)) \<Longrightarrow> fold (\<lambda>x. AList.update (fst x) (snd x)) d acc = acc @ d"
proof (induction d arbitrary: acc)
  case (Cons x d)
  have "fst x \<notin> fst ` set acc" using Cons.prems by simp
  then have "AList.update (fst x) (snd x) acc = acc @ [x]" by (simp add: update_fresh)
  with Cons.IH [of "acc @ [x]"] Cons.prems show ?case by simp
qed simp

subsection \<open>A restart\<close>

lemma sort_empty [simp]: "sort_key f xs = [] \<longleftrightarrow> xs = []"
  by (metis set_empty set_sort)

lemma list_orders_empty [simp]: "list_orders 500 db = [] \<longleftrightarrow> so_orders db = []"
  by (simp add: list_orders_def)

lemma list_fills_empty [simp]: "list_fills 500 db = [] \<longleftrightarrow> so_fills db = []"
  by (simp add: list_fills_def)

lemma list_Nil [simp]:
  "so_orders db = [] \<Longrightarrow> list_orders 500 db = []" "so_fills db = [] \<Longrightarrow> list_fills 500 db = []"
  by simp_all

text \<open>A database that keeps what is written to it, and a session that fits it.\<close>

definition database_ok :: "database \<Rightarrow> paper_session \<Rightarrow> bool" where
  "database_ok d s \<longleftrightarrow> db_col d (ss_peak_equity s) = ss_peak_equity s
     \<and> db_col d (ss_daily_start_equity s) = ss_daily_start_equity s
     \<and> set (db_enum d (rs_seen_idempotency_keys (ss_risk s))) = rs_seen_idempotency_keys (ss_risk s)
     \<and> length (db_enum d (rs_seen_idempotency_keys (ss_risk s))) \<le> 5000
     \<and> set (db_enum d (ss_running_strategies s)) = ss_running_strategies s"

definition ledger_texts_ok :: "paper_state \<Rightarrow> bool" where
  "ledger_texts_ok ps \<longleftrightarrow> (\<forall>(k, od) \<in> set (ps_orders ps). texts_ok od
       \<and> map_of (ps_idempotency_index ps) (o_idempotency_key od) = Some k)
     \<and> (\<forall>f \<in> set (ps_fills ps). f_id f \<noteq> '''')"

lemma stage_fields [simp]:
  "so_kill_switch (stage_session d s db) = Some (sf_kill_switch_enabled (ss_flags s))"
  "so_trading_enabled (stage_session d s db) = Some (sf_trading_enabled (ss_flags s))"
  "so_trading_paused (stage_session d s db) = Some (sf_trading_paused (ss_flags s))"
  "so_recon_halt (stage_session d s db) = so_recon_halt db"
  "so_checkpoint (stage_session d s db) = Some (make_checkpoint s)"
  "so_orders (stage_session d s db) = so_orders db" "so_fills (stage_session d s db) = so_fills db"
  "so_strategy (stage_session d s db) = so_strategy (save_strategy_state d s db)"
  "so_risk (stage_session d s db) = so_risk (save_risk_state d s db)"
  by (simp_all add: stage_session_def save_equity_snapshot_def save_strategy_state_def save_risk_state_def
    save_paper_account_def save_paper_checkpoint_def save_trading_paused_def save_trading_enabled_def
    save_kill_switch_def Let_def)

text \<open>The books that the checkpoint of a session puts into a new engine, marked.\<close>

definition restored_books :: "session_config \<Rightarrow> hydrate_env \<Rightarrow> paper_session \<Rightarrow> paper_state \<Rightarrow> paper_state" where
  "restored_books cfg v s ps =
     (let ck = make_checkpoint s
      in mark_positions cfg v (checkpoint_to_positions ck)
           (ps\<lparr>ps_cash := ck_cash ck, ps_reserved_cash := ck_reserved_cash ck,
              ps_realized_pnl := ck_realized_pnl ck, ps_positions := checkpoint_to_positions ck,
              ps_idempotency_index := ck_idempotency_index ck\<rparr>))"

lemma restored_books_fields:
  fixes cfg v s ps0
  defines "ps \<equiv> restored_books cfg v s ps0"
  assumes "ps0 = new_engine (sg_paper cfg)" and "distinct_keys (ps_positions (ss_paper s))"
  shows "ps_cash ps = ps_cash (ss_paper s)" "ps_reserved_cash ps = ps_reserved_cash (ss_paper s)"
    "ps_realized_pnl ps = ps_realized_pnl (ss_paper s)" "ps_orders ps = []" "ps_fills ps = []"
    "ps_idempotency_index ps = ps_idempotency_index (ss_paper s)" "holdings_core ps = holdings_core (ss_paper s)"
proof -
  let ?ck = "make_checkpoint s"
  let ?ps0 = "ps0\<lparr>ps_cash := ck_cash ?ck, ps_reserved_cash := ck_reserved_cash ?ck,
      ps_realized_pnl := ck_realized_pnl ?ck, ps_positions := checkpoint_to_positions ?ck,
      ps_idempotency_index := ck_idempotency_index ?ck\<rparr>"
  have dist: "distinct (map fst (checkpoint_to_positions ?ck))"
    using assms(3) by (simp add: checkpoint_to_positions_def make_checkpoint_def distinct_keys_def comp_def case_prod_beta Let_def)
  have "same_books ?ps0 ps"
    unfolding ps_def restored_books_def Let_def by (rule marks_same) (use dist assms(2) in \<open>auto simp: new_engine_def\<close>)
  moreover have "holdings_core ?ps0 = holdings_core (ss_paper s)"
    by (simp add: holdings_core_def checkpoint_to_positions_def make_checkpoint_def position_core_def
        restore_position_def save_position_def comp_def case_prod_beta Let_def)
  ultimately show "ps_cash ps = ps_cash (ss_paper s)" "ps_reserved_cash ps = ps_reserved_cash (ss_paper s)"
    "ps_realized_pnl ps = ps_realized_pnl (ss_paper s)" "ps_orders ps = []" "ps_fills ps = []"
    "ps_idempotency_index ps = ps_idempotency_index (ss_paper s)" "holdings_core ps = holdings_core (ss_paper s)"
    using assms(2) by (simp_all add: same_books_def make_checkpoint_def new_engine_def Let_def)
qed

text \<open>What the first stages make of a session that finds only the staged rows: flags and portfolio, then
  risk state and strategies.\<close>

lemma staged_portfolio:
  fixes cfg v d s db s0
  defines "db' \<equiv> stage_session d s db"
  defines "b \<equiv> hydrate_portfolio cfg v db' (hydrate_halt db' (hydrate_flags db' s0))"
  shows "ss_paper b = restored_books cfg v s (ss_paper s0)"
    "sf_kill_switch_enabled (ss_flags b) = sf_kill_switch_enabled (ss_flags s)"
    "sf_trading_enabled (ss_flags b) = sf_trading_enabled (ss_flags s)"
    "sf_trading_paused (ss_flags b) = sf_trading_paused (ss_flags s)"
    "ss_daily_start_equity b = ss_daily_start_equity s" "ss_consecutive_losses b = ss_consecutive_losses s"
proof -
  define a where "a = hydrate_halt db' (hydrate_flags db' s0)"
  have a: "ss_paper a = ss_paper s0" "sf_kill_switch_enabled (ss_flags a) = sf_kill_switch_enabled (ss_flags s)"
    "sf_trading_enabled (ss_flags a) = sf_trading_enabled (ss_flags s)"
    "sf_trading_paused (ss_flags a) = sf_trading_paused (ss_flags s)"
    by (simp_all add: a_def db'_def hydrate_halt_def hydrate_flags_def with_recon_def with_risk_def with_flags_def Let_def
        split: option.split)
  have b: "ss_paper b = restored_books cfg v s (ss_paper s0)" "ss_flags b = ss_flags a"
    "ss_daily_start_equity b = ss_daily_start_equity s" "ss_consecutive_losses b = ss_consecutive_losses s"
    unfolding b_def a_def [symmetric]
    by (simp_all add: db'_def hydrate_portfolio_def hydrate_checkpoint_def restored_books_def a(1) Let_def)
      (simp_all add: record_equity_point_def with_paper_def make_checkpoint_def Let_def)
  show "ss_paper b = restored_books cfg v s (ss_paper s0)"
    "sf_kill_switch_enabled (ss_flags b) = sf_kill_switch_enabled (ss_flags s)"
    "sf_trading_enabled (ss_flags b) = sf_trading_enabled (ss_flags s)"
    "sf_trading_paused (ss_flags b) = sf_trading_paused (ss_flags s)"
    "ss_daily_start_equity b = ss_daily_start_equity s" "ss_consecutive_losses b = ss_consecutive_losses s"
    by (simp_all add: a b)
qed

lemma staged_strategy:
  fixes cfg v d s db s0
  defines "db' \<equiv> stage_session d s db"
  defines "e \<equiv> hydrate_strategy db' (seed_seen_keys (hydrate_risk db'
     (hydrate_portfolio cfg v db' (hydrate_halt db' (hydrate_flags db' s0)))))"
  assumes "database_ok d s" and "0 < ss_peak_equity s"
  shows "ss_paper e = restored_books cfg v s (ss_paper s0)" "ss_flags e = ss_flags s"
    "ss_consecutive_losses e = ss_consecutive_losses s" "ss_peak_equity e = ss_peak_equity s"
    "rs_circuit_breaker_open (ss_risk e) = rs_circuit_breaker_open (ss_risk s)"
    "rs_database_healthy (ss_risk e) = rs_database_healthy (ss_risk s)"
    "rs_seen_idempotency_keys (ss_risk s) \<subseteq> rs_seen_idempotency_keys (ss_risk e)"
    "ss_running_strategies e = ss_running_strategies s" "ss_param_overrides e = ss_param_overrides s"
proof -
  note b = staged_portfolio [where cfg = cfg and v = v and d = d and s = s and db = db and ?s0.0 = s0, folded db'_def]
  define c where "c = hydrate_risk db' (hydrate_portfolio cfg v db' (hydrate_halt db' (hydrate_flags db' s0)))"
  have c: "ss_paper c = restored_books cfg v s (ss_paper s0)"
    "sf_kill_switch_enabled (ss_flags c) = sf_kill_switch_enabled (ss_flags s)"
    "sf_trading_enabled (ss_flags c) = sf_trading_enabled (ss_flags s)"
    "sf_trading_paused (ss_flags c) = sf_trading_paused (ss_flags s)"
    "ss_consecutive_losses c = ss_consecutive_losses s" "ss_peak_equity c = ss_peak_equity s"
    "rs_circuit_breaker_open (ss_risk c) = rs_circuit_breaker_open (ss_risk s)"
    "rs_database_healthy (ss_risk c) = rs_database_healthy (ss_risk s)"
    "rs_seen_idempotency_keys (ss_risk c) = rs_seen_idempotency_keys (ss_risk s)"
    unfolding c_def using assms(3,4) b
    by (simp_all add: db'_def hydrate_risk_def save_risk_state_def database_ok_def capped_keys_def Let_def
        with_risk_def with_flags_def)
  show "ss_paper e = restored_books cfg v s (ss_paper s0)" "ss_flags e = ss_flags s"
    "ss_consecutive_losses e = ss_consecutive_losses s" "ss_peak_equity e = ss_peak_equity s"
    "rs_circuit_breaker_open (ss_risk e) = rs_circuit_breaker_open (ss_risk s)"
    "rs_database_healthy (ss_risk e) = rs_database_healthy (ss_risk s)"
    "rs_seen_idempotency_keys (ss_risk s) \<subseteq> rs_seen_idempotency_keys (ss_risk e)"
    "ss_running_strategies e = ss_running_strategies s" "ss_param_overrides e = ss_param_overrides s"
    unfolding e_def c_def [symmetric] using assms(3) c
    by (simp_all add: db'_def hydrate_strategy_def save_strategy_state_def seed_seen_keys_def database_ok_def
        with_flags_def add_seen_def with_risk_def)
qed


subsection \<open>A restart with a journal\<close>

lemma mark_empty_book:
  assumes "ps_orders ps = []"
  shows "ps_orders (set_mark_price pc v sy price ps) = []
    \<and> ps_reserved_cash (set_mark_price pc v sy price ps) = ps_reserved_cash ps
    \<and> ps_fills (set_mark_price pc v sy price ps) = ps_fills ps"
  using assms
  by (cases "map_of (ps_positions ps) sy") (simp_all add: set_mark_price_def try_trigger_resting_def dict_values_def)

lemma marks_empty_book:
  "ps_orders ps = [] \<Longrightarrow> ps_orders (mark_positions cfg v ms ps) = []
    \<and> ps_reserved_cash (mark_positions cfg v ms ps) = ps_reserved_cash ps
    \<and> ps_fills (mark_positions cfg v ms ps) = ps_fills ps"
  unfolding mark_positions_def
  by (induction ms arbitrary: ps) (auto simp: mark_empty_book)

lemma update_values: "snd ` set (AList.update k v d) \<subseteq> insert v (snd ` set d)"
  by (induction d) auto

lemma fold_update_values:
  "snd ` set (fold (\<lambda>x. AList.update (fst x) (snd x)) xs d) \<subseteq> snd ` set xs \<union> snd ` set d"
proof (induction xs arbitrary: d)
  case (Cons x xs)
  let ?d = "AList.update (fst x) (snd x) d"
  have "snd ` set (fold (\<lambda>x. AList.update (fst x) (snd x)) xs ?d) \<subseteq> snd ` set xs \<union> snd ` set ?d"
    by (rule Cons.IH)
  also have "\<dots> \<subseteq> snd ` set xs \<union> insert (snd x) (snd ` set d)"
    using update_values [of "fst x" "snd x" d] by (rule Un_mono [OF order_refl])
  finally show ?case by (simp only: fold_simps comp_apply set_simps image_insert) (simp only: Un_insert_left Un_insert_right)
qed simp

lemma fold_update_nonempty:
  "xs \<noteq> [] \<or> d \<noteq> [] \<Longrightarrow> fold (\<lambda>x. AList.update (fst x) (snd x)) xs d \<noteq> []"
proof (induction xs arbitrary: d)
  case (Cons x xs)
  have "AList.update (fst x) (snd x) d \<noteq> []" by (cases d) auto
  with Cons.IH show ?case by simp
qed simp

lemma hydrate_early_frame:
  "ss_paper (hydrate_halt db s) = ss_paper s" "ss_paper (hydrate_flags db s) = ss_paper s"
  "ss_paper (hydrate_risk db s) = ss_paper s" "ss_paper (seed_seen_keys s) = ss_paper s"
  "ss_paper (hydrate_strategy db s) = ss_paper s"
  by (simp_all add: hydrate_halt_def hydrate_flags_def hydrate_risk_def seed_seen_keys_def hydrate_strategy_def
      with_recon_def with_risk_def with_flags_def Let_def split: option.split)

lemma restored_reservation_missing:
  assumes "\<forall>od \<in> snd ` set (ps_orders ps). \<not> m_reservation_open (o_metadata od)"
    and "on_grid 8 (ps_reserved_cash ps)" and "1 / 10 ^ 8 < ps_reserved_cash ps" and "ps_reserved_cash ps < amount_limit"
  shows "\<not> ir_ok (check_paper ps)"
proof -
  have none: "filter (\<lambda>od. m_reservation_open (o_metadata od)) (dict_values (ps_orders ps)) = []"
    using assms(1) by (auto simp: filter_empty_conv dict_values_def)
  have "open_reservation_total (ps_orders ps) = 0" unfolding open_reservation_total_def none by (simp add: dsum_def)
  moreover have "dsub 0 (ps_reserved_cash ps) = - ps_reserved_cash ps"
    using assms(2-4) ctx_on_grid [OF on_grid_uminus [OF assms(2)]] by (simp add: dsub_def)
  moreover have "dabs (- ps_reserved_cash ps) = ps_reserved_cash ps"
    using assms(2-4) ctx_on_grid [OF assms(2)] by (simp add: dabs_def)
  ultimately have "\<lparr>vi_code = RESERVATION_MISMATCH, vi_severity = Critical\<rparr>
      \<in> set (cash_violations (ps_cash ps) (ps_reserved_cash ps) (ps_orders ps) False)"
    using assms(3) by (simp add: cash_violations_def report_if_def)
  then show ?thesis
    by (force simp: check_paper_def check_cycle_invariants_def Let_def case_prod_beta filter_empty_conv)
qed

text \<open>
  When the journal tables hold rows, they take precedence over the checkpoint: the order book
  after a restart has journalled orders only (the resting orders a dashboard placed live in the
  checkpoint and are lost), while the reserved cash comes from the checkpoint; if no journalled order
  holds a reservation, the accounting check then reports the restored reservation as a critical
  mismatch.
\<close>

lemma restart_prefers_journal:
  fixes cfg v s0 db
  defines "ps \<equiv> ss_paper (hydrate_session cfg v db s0)"
  assumes "so_checkpoint db = Some ck" and "so_orders db \<noteq> []" and "\<not> hv_journal_fails v"
    and "ss_paper s0 = new_engine (sg_paper cfg)"
    and "\<forall>od \<in> set (so_orders db). \<not> m_reservation_open (o_metadata od)"
    and "on_grid 8 (ck_reserved_cash ck)" and "1 / 10 ^ 8 < ck_reserved_cash ck" and "ck_reserved_cash ck < amount_limit"
  shows "ps_orders ps \<noteq> [] \<and> snd ` set (ps_orders ps) \<subseteq> set (list_orders 500 db)
    \<and> ps_reserved_cash ps = ck_reserved_cash ck \<and> \<not> ir_ok (check_paper ps)
    \<and> (so_fills db \<noteq> [] \<longrightarrow> ps_fills ps = list_fills 500 db)"
proof -
  define a where "a = hydrate_strategy db (seed_seen_keys (hydrate_risk db
    (hydrate_portfolio cfg v db (hydrate_halt db (hydrate_flags db s0)))))"
  have a: "ps_orders (ss_paper a) = []" "ps_reserved_cash (ss_paper a) = ck_reserved_cash ck"
    using assms(2,5) marks_empty_book
    by (auto simp: a_def hydrate_early_frame hydrate_portfolio_def hydrate_checkpoint_def record_equity_point_def
        new_engine_def Let_def)
  let ?rows = "map (\<lambda>od. (o_id od, od)) (list_orders 500 db)"
  define b where "b = hydrate_journal v db a"
  have b: "ps_orders (ss_paper b) = fold (\<lambda>x. AList.update (fst x) (snd x)) ?rows []"
    "ps_reserved_cash (ss_paper b) = ck_reserved_cash ck"
    "so_fills db \<noteq> [] \<longrightarrow> ps_fills (ss_paper b) = list_fills 500 db"
    using restore_all [of ?rows a] a assms(4)
    by (simp_all add: b_def hydrate_journal_def session_core_def Let_def)
  from b(1) assms(3) have ne: "ps_orders (ss_paper b) \<noteq> []" by (simp add: fold_update_nonempty)
  have eq: "ps_orders ps = ps_orders (ss_paper b) \<and> ps_reserved_cash ps = ps_reserved_cash (ss_paper b)
      \<and> (so_fills db \<noteq> [] \<longrightarrow> ps_fills ps = ps_fills (ss_paper b))"
    using ne b(3) assms(2)
    by (auto simp: ps_def hydrate_session_def a_def [symmetric] b_def [symmetric] hydrate_fallback_def Let_def)
  have sub: "snd ` set (ps_orders ps) \<subseteq> set (list_orders 500 db)"
    using fold_update_values [of ?rows "[]"] eq b(1) by force
  have "\<forall>od \<in> set (list_orders 500 db). \<not> m_reservation_open (o_metadata od)"
    using assms(6) by (auto simp: list_orders_def dest!: in_set_takeD)
  with sub have "\<not> ir_ok (check_paper ps)"
    by (intro restored_reservation_missing) (use eq b(2) assms(7-9) in auto)
  with eq ne b sub show ?thesis by simp
qed

subsection \<open>Start-up\<close>

lemma startup_flags:
  "ss_flags (fst (startup_reconciliation cfg v (s, db))) =
     (if bv_recon_raises v then (ss_flags s)\<lparr>sf_trading_paused := True\<rparr> else ss_flags s)"
  by (simp add: startup_reconciliation_def with_recon_def Let_def case_prod_beta)

text \<open>
  C12. Start-up fails closed: when the database cannot be reached, or the reconciliation raises, or it
  finds the restored ledger unhealthy, the risk engine accepts no order of the session that is left,
  and a reconciliation that raised also leaves trading paused and, when it can be written, the halt
  and the pause in the store.
\<close>

theorem bootstrap_fails_closed:
  fixes cfg v s db
  defines "x \<equiv> bootstrap_paper_runtime cfg v (s, db)"
    and "h \<equiv> ss_paper (hydrate_session cfg (bv_hydrate v) db s)"
  assumes "bv_database_fails v \<or> bv_recon_raises v
    \<or> st_enable_reconciliation (sg_settings cfg) \<and> \<not> rr_healthy (reconcile (sg_settings cfg) h)"
  shows "\<not> is_accepting (session_verdict cfg v' rq (fst x))
    \<and> (\<not> bv_database_fails v \<and> bv_recon_raises v \<longrightarrow> sf_trading_paused (ss_flags (fst x))
         \<and> (\<not> bv_halt_write_fails v \<longrightarrow>
              so_recon_halt (snd x) = Some True \<and> so_trading_paused (snd x) = Some True))"
proof -
  have "\<not> rs_database_healthy (ss_risk (fst x)) \<or> \<not> is_reconciliation_healthy (rt_recon (ss_runtime (fst x)))"
  proof (cases "bv_database_fails v")
    case True
    then show ?thesis by (simp add: x_def bootstrap_paper_runtime_def database_health_def)
  next
    case up: False
    show ?thesis
    proof (cases "bv_recon_raises v")
      case True
      with up show ?thesis
        by (simp add: x_def bootstrap_paper_runtime_def startup_reconciliation_def with_recon_def
            apply_halt_from_storage_def is_reconciliation_healthy_def)
    next
      case False
      have "ss_paper (database_health True (set_processed_cycle_keys ks (hydrate_session cfg (bv_hydrate v) db s))) = h" for ks
        by (simp add: h_def database_health_def set_processed_cycle_keys_def with_risk_def)
      with up False assms(3) show ?thesis
        by (simp add: x_def bootstrap_paper_runtime_def startup_reconciliation_def run_paper_reconciliation_def
            with_recon_def is_reconciliation_healthy_def Let_def case_prod_beta)
    qed
  qed
  then have "\<not> is_accepting (session_verdict cfg v' rq (fst x))" by (intro session_halts) auto
  then show ?thesis
    by (auto simp: x_def bootstrap_paper_runtime_def startup_flags)
      (simp_all add: startup_reconciliation_def save_trading_paused_def save_reconciliation_halt_def)
qed

subsection \<open>A concrete restart\<close>

lemma sample_resting_books:
  "ps_orders sample_resting = [(''order-1'', sample_order)]" "ps_fills sample_resting = []"
  "ps_idempotency_index sample_resting = [(''k1'', ''order-1'')]"
proof -
  have "ps_fills sample_engine = []" by (simp add: sample_engine_def new_engine_def)
  then have "\<exists>s'. submit default_paper_config sample_env sample_buy (sample_risk (1 / 100)) sample_engine
        = Inr (sample_order, s') \<and> ps_orders s' = [(''order-1'', sample_order)] \<and> ps_fills s' = []
      \<and> ps_idempotency_index s' = [(''k1'', ''order-1'')]"
    by (simp add: submit_def register_order_def new_order_def place_order_def lock_notional_def
      reserve_price_def reserve_buy_def fill_or_rest_def rests_at_def Let_def or_else_def
      update_order_def sample_buy_def sample_env_def sample_risk_def default_paper_config_def
      sample_order_def empty_meta_def dec_ops quantize_def half_even_def)
  with sample_resting_eq(1) show "ps_orders sample_resting = [(''order-1'', sample_order)]"
    "ps_fills sample_resting = []" "ps_idempotency_index sample_resting = [(''k1'', ''order-1'')]"
    by simp_all
qed

definition sample_database :: database where
  "sample_database = \<lparr>db_col = (\<lambda>x. x), db_enum = (\<lambda>X. []), db_now = 0\<rparr>"

definition sample_hydrate_env :: hydrate_env where
  "sample_hydrate_env = \<lparr>hv_session = sample_session_env, hv_mark = (\<lambda>sy. sample_env),
     hv_fresh = (\<lambda>f. ''fill-1''), hv_journal_fails = False\<rparr>"

definition fresh_session :: paper_session where
  "fresh_session = new_session sample_session_config sample_session_env ''paper-2''"

definition resting_session :: paper_session where
  "resting_session = with_paper sample_resting sample_session"

lemma fresh_session_fields:
  "ss_paper fresh_session = new_engine default_paper_config"
  by (simp add: fresh_session_def new_session_def record_equity_point_def sample_config_fields Let_def)

lemma resting_session_fields:
  "ss_paper resting_session = sample_resting" "rs_seen_idempotency_keys (ss_risk resting_session) = {}"
  "ss_running_strategies resting_session = {}" "0 < ss_peak_equity resting_session"
  by (simp_all add: resting_session_def sample_session_def new_session_def record_equity_point_def with_paper_def
      sample_config_fields initial_risk_state_def default_paper_config_def Let_def)


text \<open>A cycle has journalled an order of its own; the dashboard's resting order is only in the checkpoint.\<close>

definition journalled_store :: store where
  "journalled_store = (stage_session sample_database resting_session empty_store)\<lparr>so_orders := [cancelled_order]\<rparr>"

lemma restart_prefers_journal_witness:
  "\<not> ir_ok (check_paper (ss_paper (hydrate_session sample_session_config sample_hydrate_env journalled_store fresh_session)))"
proof -
  have "on_grid 8 (400 :: rat)" unfolding on_grid_def by (rule exI [of _ "40000000000"]) simp
  then show ?thesis
    using restart_prefers_journal [of journalled_store "make_checkpoint resting_session" sample_hydrate_env fresh_session
        sample_session_config]
    by (simp add: journalled_store_def sample_hydrate_env_def fresh_session_fields sample_config_fields
        make_checkpoint_def resting_session_fields sample_resting_eq cancelled_order_def empty_meta_def Let_def)
qed

definition sample_bootstrap_env :: bootstrap_env where
  "sample_bootstrap_env = \<lparr>bv_hydrate = sample_hydrate_env, bv_database_fails = False, bv_recon_raises = True,
     bv_recon_now = 0, bv_halt_write_fails = False\<rparr>"

theorem bootstrap_fails_closed_witness:
  "so_trading_paused (snd (bootstrap_paper_runtime sample_session_config sample_bootstrap_env (fresh_session, empty_store)))
     = Some True
   \<and> \<not> is_accepting (session_verdict sample_session_config sample_session_env sample_request
       (fst (bootstrap_paper_runtime sample_session_config sample_bootstrap_env (fresh_session, empty_store))))"
  using bootstrap_fails_closed [where cfg = sample_session_config and v = sample_bootstrap_env and s = fresh_session
      and db = empty_store and v' = sample_session_env and rq = sample_request]
  by (simp add: sample_bootstrap_env_def)

end
