(* ===== verification/Access.thy ===== *)
theory Access
  imports Paper_Session
begin

text \<open>
  Who may call and what may be shown: session tokens (\<open>app/auth/tokens.py\<close>), the origins a browser
  may call from (\<open>app/core/cors.py\<close>), and the redaction of secrets before logging
  (\<open>app/core/security.py\<close>).

  The keyed hash and the encoding of a payload (\<open>hmac\<close>, \<open>json\<close>, \<open>base64\<close>) are the fields of
  \<open>token_codec\<close>, a parameter.
\<close>

subsection \<open>Session tokens\<close>

text \<open>
  \<open>tc_encode\<close> is \<open>_b64url(json.dumps(payload))\<close> of a user name and an expiry; \<open>tc_decode\<close> its
  inverse: \<open>Undecodable\<close> when it raises, \<open>NoObject\<close> for a value that is not a dictionary, and else the
  fields that are there and have the right type.
\<close>

datatype token_payload = Undecodable | NoObject | Payload "string option" "int option"

text \<open>What a verification raises: \<open>compare_digest\<close> on a text that is not ASCII, \<open>get\<close> on no dictionary.\<close>

datatype token_fault = NonAsciiText | NoDictionary

definition ascii_text :: "string \<Rightarrow> bool" where
  "ascii_text s \<longleftrightarrow> list_all (\<lambda>c. of_char c < (128 :: nat)) s"

record token_codec =
  tc_sign :: "string \<Rightarrow> string \<Rightarrow> string"
  tc_encode :: "string \<times> int \<Rightarrow> string"
  tc_decode :: "string \<Rightarrow> token_payload"

definition create_session_token :: "token_codec \<Rightarrow> string \<Rightarrow> int \<Rightarrow> string \<Rightarrow> int \<Rightarrow> string" where
  "create_session_token tc secret now username ttl =
     (let body = tc_encode tc (username, now + ttl) in body @ ''.'' @ tc_sign tc secret body)"

text \<open>\<open>token.split(".", 1)\<close>\<close>

definition split_token :: "string \<Rightarrow> (string \<times> string) option" where
  "split_token token =
     (case dropWhile (\<lambda>c. c \<noteq> CHR ''.'') token of
        [] \<Rightarrow> None
      | _ # signature \<Rightarrow> Some (takeWhile (\<lambda>c. c \<noteq> CHR ''.'') token, signature))"

definition verify_session_token :: "token_codec \<Rightarrow> string \<Rightarrow> int \<Rightarrow> string option
  \<Rightarrow> token_fault + (string \<times> int) option" where
  "verify_session_token tc secret now token =
     (case token of
        None \<Rightarrow> Inr None
      | Some t \<Rightarrow>
          (case split_token t of
             None \<Rightarrow> Inr None
           | Some (body, signature) \<Rightarrow>
               if \<not> ascii_text signature then Inl NonAsciiText
               else if signature \<noteq> tc_sign tc secret body then Inr None
               else
                 case tc_decode tc body of
                   Undecodable \<Rightarrow> Inr None
                 | NoObject \<Rightarrow> Inl NoDictionary
                 | Payload (Some username) (Some expiry) \<Rightarrow>
                     Inr (if username = '''' \<or> expiry < now then None else Some (username, expiry))
                 | Payload _ _ \<Rightarrow> Inr None))"

lemma split_token_join: "CHR ''.'' \<notin> set body \<Longrightarrow> split_token (body @ CHR ''.'' # signature) = Some (body, signature)"
  by (subst split_token_def, subst dropWhile_append2, force, subst takeWhile_append2, force) simp

lemma split_token_Some: "split_token t = Some (body, signature) \<Longrightarrow> t = body @ ''.'' @ signature"
proof -
  assume a: "split_token t = Some (body, signature)"
  then obtain d where d: "dropWhile (\<lambda>c. c \<noteq> CHR ''.'') t = d # signature" "body = takeWhile (\<lambda>c. c \<noteq> CHR ''.'') t"
    by (auto simp: split_token_def split: list.splits)
  then have "d = CHR ''.''" by (metis (mono_tags, lifting) hd_dropWhile list.distinct(1) list.sel(1))
  with d show ?thesis by (metis append_Cons append_Nil takeWhile_dropWhile_id)
qed

text \<open>
  A session token is accepted exactly while it lives: for an encoding that decodes what it
  encodes and has no dot, a created token names its user until its expiry and nobody afterwards, and
  whatever is accepted is a body with its own signature under the secret whose expiry is not past.
\<close>

lemma token_roundtrip:
  assumes "\<And>u x. tc_decode tc (tc_encode tc (u, x)) = Payload (Some u) (Some x)"
    and "\<And>u x. CHR ''.'' \<notin> set (tc_encode tc (u, x))"
    and "\<And>body. ascii_text (tc_sign tc secret body)"
  shows "verify_session_token tc secret now' (Some (create_session_token tc secret now user ttl)) =
      Inr (if user \<noteq> '''' \<and> now' \<le> now + ttl then Some (user, now + ttl) else None)
    \<and> (verify_session_token tc secret now' token = Inr (Some (u, x)) \<longrightarrow>
        (\<exists>body. token = Some (body @ ''.'' @ tc_sign tc secret body)
           \<and> tc_decode tc body = Payload (Some u) (Some x) \<and> now' \<le> x))"
proof (intro conjI impI)
  show "verify_session_token tc secret now' (Some (create_session_token tc secret now user ttl)) =
      Inr (if user \<noteq> '''' \<and> now' \<le> now + ttl then Some (user, now + ttl) else None)"
    using assms by (simp add: verify_session_token_def create_session_token_def split_token_join Let_def)
next
  assume "verify_session_token tc secret now' token = Inr (Some (u, x))"
  then show "\<exists>body. token = Some (body @ ''.'' @ tc_sign tc secret body)
      \<and> tc_decode tc body = Payload (Some u) (Some x) \<and> now' \<le> x"
    by (auto simp: verify_session_token_def split: option.splits if_splits prod.splits token_payload.splits
        dest!: split_token_Some)
qed

subsection \<open>Origins\<close>

fun split_on :: "char \<Rightarrow> string \<Rightarrow> string list" where
  "split_on d [] = [[]]"
| "split_on d (c # cs) =
     (if c = d then [] # split_on d cs
      else case split_on d cs of [] \<Rightarrow> [[c]] | p # ps \<Rightarrow> (c # p) # ps)"

lemma split_on_none: "d \<notin> set p \<Longrightarrow> split_on d p = [p]"
  by (induction p) auto

lemma split_on_sep: "d \<notin> set p \<Longrightarrow> split_on d (p @ d # rest) = p # split_on d rest"
  by (induction p) auto

definition strip_slashes :: "string \<Rightarrow> string" where
  "strip_slashes xs = rev (dropWhile (\<lambda>c. c = CHR ''/'') (rev xs))"

definition configured_origins :: "string \<Rightarrow> string list" where
  "configured_origins configured =
     filter (\<lambda>v. v \<noteq> '''' \<and> v \<noteq> ''*'') (map (strip_slashes \<circ> py_strip) (split_on (CHR '','') configured))"

definition text_or :: "string option \<Rightarrow> string \<Rightarrow> string" where
  "text_or t d = (case t of Some (c # cs) \<Rightarrow> c # cs | _ \<Rightarrow> d)"

definition resolve_cors_origins :: "string option \<Rightarrow> string option \<Rightarrow> string option \<Rightarrow> string list" where
  "resolve_cors_origins configured codespace_name forwarding_domain =
     (let origins = configured_origins (text_or configured '''');
          codespace = py_strip (text_or codespace_name '''');
          domain = py_strip (text_or forwarding_domain ''app.github.dev'');
          origins1 = (if codespace \<noteq> '''' \<and> domain \<noteq> ''''
                      then origins @ [''https://'' @ codespace @ ''-3000.'' @ domain] else origins);
          origins2 = (if origins1 = [] then [''http://127.0.0.1:3000'', ''http://localhost:3000''] else origins1)
      in dedup origins2)"

subsection \<open>Redaction\<close>

text \<open>Python values; what is neither text, secret, container nor settings is a \<open>PAtom\<close>.\<close>

datatype py_value =
    PAtom string
  | PStr string
  | PSecret string
  | PDict "(string \<times> py_value) list"
  | PList "py_value list"
  | PTuple "py_value list"
  | PSettings "(string \<times> py_value) list"

definition secret_keys :: "string list" where
  "secret_keys = [''exchange_api_key'', ''exchange_api_secret'', ''live_approval_token'', ''api_key'', ''api_secret'',
     ''secret'', ''password'', ''token'', ''authorization'']"

definition redacted_text :: string where
  "redacted_text = ''***REDACTED***''"

definition is_secret_key :: "string \<Rightarrow> bool" where
  "is_secret_key key \<longleftrightarrow> list_ex (\<lambda>part. contains part (py_lower key)) secret_keys"

definition token_char :: "char \<Rightarrow> bool" where
  "token_char c \<longleftrightarrow>
     (let n = of_char c :: nat
      in 65 \<le> n \<and> n \<le> 90 \<or> 97 \<le> n \<and> n \<le> 122 \<or> 48 \<le> n \<and> n \<le> 57 \<or> c \<in> {CHR ''_'', CHR ''-'', CHR ''/'', CHR ''='', CHR ''+''})"

definition token_like :: "string \<Rightarrow> bool" where
  "token_like v \<longleftrightarrow> length v \<ge> 24 \<and> list_all token_char v"

definition redact_string :: "string \<Rightarrow> string" where
  "redact_string v = (if token_like v then redacted_text else v)"

fun redact :: "py_value \<Rightarrow> py_value" where
  "redact (PSecret v) = PStr redacted_text"
| "redact (PSettings fs) = PDict (map (\<lambda>(k, v). (k, if is_secret_key k then PStr redacted_text else redact v)) fs)"
| "redact (PDict items) = PDict (map (\<lambda>(k, v). (k, if is_secret_key k then PStr redacted_text else redact v)) items)"
| "redact (PList vs) = PList (map redact vs)"
| "redact (PTuple vs) = PTuple (map redact vs)"
| "redact (PStr v) = PStr (redact_string v)"
| "redact (PAtom v) = PAtom v"

text \<open>What may be logged: no secret object, no text that looks like a token, nothing under a secret key.\<close>

fun loggable :: "py_value \<Rightarrow> bool" where
  "loggable (PSecret v) = False"
| "loggable (PSettings fs) = False"
| "loggable (PDict items) = list_all (\<lambda>(k, v). if is_secret_key k then v = PStr redacted_text else loggable v) items"
| "loggable (PList vs) = list_all loggable vs"
| "loggable (PTuple vs) = list_all loggable vs"
| "loggable (PStr v) = (\<not> token_like v)"
| "loggable (PAtom v) = True"

lemma redacted_text_short: "\<not> token_like redacted_text"
  by (simp add: token_like_def redacted_text_def)

lemma redacted_text_fixed [simp]: "redact_string redacted_text = redacted_text"
  using redacted_text_short by (simp add: redact_string_def)

lemma redact_string_idem [simp]: "redact_string (redact_string v) = redact_string v"
  using redacted_text_short by (simp add: redact_string_def)


text \<open>A codec without dots: the expiry in unary, and the user with its dots escaped.\<close>

definition escape :: "string \<Rightarrow> string" where
  "escape u = concat (map (\<lambda>c. if c = CHR ''.'' then ''ab'' else if c = CHR ''a'' then ''aa'' else [c]) u)"

fun unescape :: "string \<Rightarrow> string" where
  "unescape [] = []"
| "unescape [c] = [c]"
| "unescape (c # d # cs) = (if c = CHR ''a'' then (if d = CHR ''b'' then CHR ''.'' else d) # unescape cs else c # unescape (d # cs))"

definition plain_codec :: token_codec where
  "plain_codec = \<lparr>tc_sign = (\<lambda>secret body. filter (\<lambda>c. of_char c < (128 :: nat)) (secret @ body)),
     tc_encode = (\<lambda>(u, x). (if x < 0 then CHR ''n'' else CHR ''p'') # replicate (nat \<bar>x\<bar>) CHR ''i'' @ CHR ''u'' # escape u),
     tc_decode = (\<lambda>s. let n = int (length (takeWhile (\<lambda>c. c = CHR ''i'') (tl s)))
       in Payload (Some (unescape (tl (dropWhile (\<lambda>c. c = CHR ''i'') (tl s))))) (Some (if hd s = CHR ''n'' then - n else n)))\<rparr>"

lemma unescape_other: "c \<noteq> CHR ''a'' \<Longrightarrow> unescape (c # xs) = c # unescape xs"
  by (cases xs) simp_all

lemma escape_simps [simp]:
  "escape [] = []"
  "escape (c # u) = (if c = CHR ''.'' then ''ab'' else if c = CHR ''a'' then ''aa'' else [c]) @ escape u"
  by (simp_all add: escape_def)

lemma unescape_escape: "unescape (escape u) = u"
  by (induction u) (simp_all add: unescape_other)

lemma escape_no_dot: "CHR ''.'' \<notin> set (escape u)"
  by (induction u) simp_all

lemma plain_codec_ok:
  "tc_decode plain_codec (tc_encode plain_codec (u, x)) = Payload (Some u) (Some x)"
  "CHR ''.'' \<notin> set (tc_encode plain_codec (u, x))"
  "ascii_text (tc_sign plain_codec secret body)"
  by (auto simp: plain_codec_def unescape_escape escape_no_dot takeWhile_append dropWhile_append Let_def
      ascii_text_def list_all_iff split: if_splits)

lemma token_roundtrip_witness:
  "verify_session_token plain_codec ''k'' 5 (Some (create_session_token plain_codec ''k'' 0 ''admin'' 10)) = Inr (Some (''admin'', 10))
   \<and> verify_session_token plain_codec ''k'' 11 (Some (create_session_token plain_codec ''k'' 0 ''admin'' 10)) = Inr None"
  using token_roundtrip [OF plain_codec_ok, of "''k''" 5 0 "''admin''" 10]
    token_roundtrip [OF plain_codec_ok, of "''k''" 11 0 "''admin''" 10] by simp


subsection \<open>The origins are a list without the wildcard\<close>

text \<open>
  The allowed origins never hold the wildcard, whatever is configured and wherever the process
  runs, and there is always one; each is listed once.
\<close>

lemma cors_no_wildcard:
  "''*'' \<notin> set (resolve_cors_origins configured codespace domain)
   \<and> resolve_cors_origins configured codespace domain \<noteq> []
   \<and> distinct (resolve_cors_origins configured codespace domain)"
proof -
  define origins where "origins = configured_origins (text_or configured '''')"
  have star: "''*'' \<notin> set origins" by (simp add: origins_def configured_origins_def)
  have https: "''https://'' @ x \<noteq> ''*''" for x by simp
  show ?thesis
    unfolding resolve_cors_origins_def origins_def [symmetric] using star https by (simp add: dedup_def Let_def)
qed

end
