(* ===== verification/Control_Plane.thy ===== *)
theory Control_Plane
  imports Store_Properties Access
begin

text \<open>
  The control plane: the requests of the HTTP interface that change something
  (\<open>app/api/dashboard.py\<close>, \<open>app/api/mvp.py\<close>, \<open>app/api/v1.py\<close>, \<open>app/api/routes.py\<close>, the probes of
  \<open>app/main.py\<close>) behind the token check of \<open>app/api/deps.py\<close>, and what runs beside them: turns of the
  scheduler, the reconciliation loop, and a restart of the process.

  The \<open>platform\<close> is what they share: the paper session with its runtime, the scheduler, the one
  setting a request changes, the durable store, and the events of the operations view. A response is
  its status code. What a request reads from outside (clock, identifiers, candles, the faults of the
  database) is its \<open>request_env\<close>; what a cycle itself wrote to the store is an argument there.
\<close>

subsection \<open>State\<close>

record platform =
  pl_session :: paper_session
  pl_scheduler :: scheduler
  pl_scheduler_enabled :: bool
  pl_store :: store
  pl_events :: "string list"

record platform_config =
  pg_session :: session_config
  pg_cycle :: cycle_config
  pg_admin_token :: "string option"
  pg_database :: database

record request_env =
  qe_session :: session_env
  qe_close :: "nat \<Rightarrow> session_env"
  qe_tick :: tick_env
  qe_cycle :: cycle_env
  qe_scheduler :: scheduler_env
  qe_registry :: strategy_registry
  qe_writes :: "store \<Rightarrow> store"
  qe_database_up :: bool
  qe_write_fails :: bool
  qe_now :: timestamp
  qe_session_id :: string

definition platform_settings :: "platform_config \<Rightarrow> platform \<Rightarrow> settings" where
  "platform_settings pg p =
     (sg_settings (pg_session pg))\<lparr>st_enable_trading_scheduler := pl_scheduler_enabled p\<rparr>"

definition on_session :: "(paper_session \<Rightarrow> paper_session) \<Rightarrow> platform \<Rightarrow> platform" where
  "on_session f p = p\<lparr>pl_session := f (pl_session p)\<rparr>"

text \<open>The write of a flag, best effort.\<close>

definition write_store :: "request_env \<Rightarrow> (store \<Rightarrow> store) \<Rightarrow> platform \<Rightarrow> platform" where
  "write_store q f p = (if qe_write_fails q then p else p\<lparr>pl_store := f (pl_store p)\<rparr>)"

definition emit :: "string \<Rightarrow> platform \<Rightarrow> platform" where
  "emit kind p =
     (let events = pl_events p @ [kind]
      in p\<lparr>pl_events := (if length events > 500 then drop (length events - 500) events else events)\<rparr>)"

subsection \<open>The admin token\<close>

record credentials =
  cd_admin_token :: "string option"
  cd_authorization :: "string option"

text \<open>\<open>authorization.split(" ", 1)\<close>, when it has two parts.\<close>

definition split_scheme :: "string \<Rightarrow> (string \<times> string) option" where
  "split_scheme xs =
     (case dropWhile (\<lambda>c. c \<noteq> CHR '' '') xs of
        [] \<Rightarrow> None
      | _ # rest \<Rightarrow> Some (takeWhile (\<lambda>c. c \<noteq> CHR '' '') xs, rest))"

definition provided_token :: "credentials \<Rightarrow> string" where
  "provided_token cd =
     (let direct = py_strip (case cd_admin_token cd of Some t \<Rightarrow> t | None \<Rightarrow> '''')
      in if direct \<noteq> '''' then direct
         else case cd_authorization cd of
                None \<Rightarrow> ''''
              | Some a \<Rightarrow>
                  (case split_scheme a of
                     Some (scheme, token) \<Rightarrow> if py_lower scheme = ''bearer'' then py_strip token else ''''
                   | None \<Rightarrow> ''''))"

text \<open>\<open>compare_digest\<close> raises on a text that is not ASCII, which nothing handles.\<close>

definition require_admin_token :: "platform_config \<Rightarrow> credentials \<Rightarrow> nat + unit" where
  "require_admin_token pg cd =
     (let expected = (case pg_admin_token pg of Some t \<Rightarrow> t | None \<Rightarrow> '''');
          provided = provided_token cd
      in if py_strip expected = '''' then Inl 503
         else if provided = '''' then Inl 401
         else if \<not> ascii_text provided \<or> \<not> ascii_text expected then Inl 500
         else if provided \<noteq> expected then Inl 401
         else Inr ())"

subsection \<open>Flags\<close>

definition control_kill :: "request_env \<Rightarrow> bool \<Rightarrow> platform \<Rightarrow> platform" where
  "control_kill q enabled p =
     write_store q (save_kill_switch enabled) (on_session (set_kill_switch (qe_session q) enabled) p)"

definition control_enable :: "request_env \<Rightarrow> bool \<Rightarrow> platform \<Rightarrow> platform" where
  "control_enable q enabled p =
     write_store q (save_trading_enabled enabled) (on_session (set_trading_enabled enabled) p)"

definition control_pause :: "request_env \<Rightarrow> bool \<Rightarrow> platform \<Rightarrow> platform" where
  "control_pause q paused p =
     write_store q (save_trading_paused paused) (on_session (set_paused paused) p)"

text \<open>\<open>set_trading_enabled\<close> of the compatibility surface, which notes an event.\<close>

definition shim_enable :: "request_env \<Rightarrow> bool \<Rightarrow> platform \<Rightarrow> platform" where
  "shim_enable q enabled p = emit ''TRADING_ENABLED'' (control_enable q enabled p)"

subsection \<open>Orders and strategies\<close>

definition status_of :: "py_error \<Rightarrow> nat" where
  "status_of e = (case e of LiveTradingDisabledError \<Rightarrow> 501 | _ \<Rightarrow> 500)"

definition session_status :: "session_error \<Rightarrow> nat" where
  "session_status e =
     (case e of PermissionError \<Rightarrow> 400 | SessionError (KeyError _) \<Rightarrow> 404 | SessionError e' \<Rightarrow> status_of e')"

definition persist_after :: "platform_config \<Rightarrow> session_env \<Rightarrow> platform \<Rightarrow> platform" where
  "persist_after pg v p =
     p\<lparr>pl_store := snd (persist_paper_session (pg_database pg) (sv_persist_fails v) (pl_session p) (pl_store p))\<rparr>"

definition control_order :: "platform_config \<Rightarrow> request_env \<Rightarrow> order_request \<Rightarrow> platform \<Rightarrow> nat \<times> platform" where
  "control_order pg q rq p =
     (let (res, s) = session_place_order (pg_session pg) (qe_session q) rq (pl_session p);
          p1 = p\<lparr>pl_session := s\<rparr>
      in case res of Inl e \<Rightarrow> (status_of e, p1) | Inr _ \<Rightarrow> (200, persist_after pg (qe_session q) p1))"

definition control_close :: "platform_config \<Rightarrow> request_env \<Rightarrow> string \<Rightarrow> platform \<Rightarrow> nat \<times> platform" where
  "control_close pg q sy p =
     (let (res, s) = session_close_position (pg_session pg) (qe_close q) sy (pl_session p);
          p1 = p\<lparr>pl_session := s\<rparr>
      in case res of Inl e \<Rightarrow> (status_of e, p1) | Inr _ \<Rightarrow> (200, persist_after pg (qe_close q 0) p1))"

definition control_strategy :: "(paper_session \<Rightarrow> session_error + paper_session) \<Rightarrow> platform \<Rightarrow> nat \<times> platform" where
  "control_strategy f p =
     (case f (pl_session p) of
        Inl e \<Rightarrow> (session_status e, p)
      | Inr s \<Rightarrow> (200, p\<lparr>pl_session := s\<rparr>))"

definition control_start_strategy :: "platform_config \<Rightarrow> request_env \<Rightarrow> string \<Rightarrow> platform \<Rightarrow> nat \<times> platform" where
  "control_start_strategy pg q sid p =
     (let (res, s) = start_strategy (pg_session pg) (pg_cycle pg) (qe_registry q) (qe_tick q) sid (pl_session p);
          p1 = p\<lparr>pl_session := s, pl_store := qe_writes q (pl_store p)\<rparr>
      in case res of Inl e \<Rightarrow> (session_status e, p1) | Inr _ \<Rightarrow> (200, p1))"

subsection \<open>Cycles on request\<close>

record cycle_body =
  cb_symbol :: string
  cb_timeframe :: string
  cb_strategy_id :: string
  cb_confirm :: string

definition mirror_signal :: "trade_signal \<Rightarrow> session_signal" where
  "mirror_signal sg =
     \<lparr>sl_strategy_name = sg_strategy_name sg, sl_strategy_version = sg_strategy_version sg,
      sl_symbol = sg_symbol sg, sl_timestamp = sg_timestamp sg, sl_direction = sg_direction sg,
      sl_confidence = sg_confidence sg, sl_rationale = sg_rationale sg, sl_suggested_stop = None,
      sl_suggested_target = None, sl_suggested_entry = None\<rparr>"

text \<open>What the versioned surface adds to the risk log, at its end.\<close>

definition mirror_risk :: "session_env \<Rightarrow> cycle_body \<Rightarrow> cycle_result \<Rightarrow> string \<Rightarrow> paper_session \<Rightarrow> paper_session" where
  "mirror_risk v body r oid s =
     (case cr_risk_decision r of
        None \<Rightarrow> s
      | Some d \<Rightarrow> s\<lparr>ss_risk_event_log := ss_risk_event_log s @
          [\<lparr>rv_timestamp = sv_now v, rv_decision = d,
            rv_reason_code = (case cr_risk_reason_code r of Some c \<Rightarrow> c | None \<Rightarrow> OK),
            rv_message = cr_signal_reason r, rv_symbol = Some (cb_symbol body), rv_strategy_name = None,
            rv_requested_quantity = None, rv_approved_quantity = None, rv_order_id = Some oid\<rparr>]\<rparr>)"

definition mirror_order :: "string \<Rightarrow> paper_session \<Rightarrow> paper_session" where
  "mirror_order oid s =
     (case map_of (ps_orders (ss_paper s)) oid of
        None \<Rightarrow> s
      | Some od \<Rightarrow> if od \<in> set (ss_order_history s) then s else s\<lparr>ss_order_history := ss_order_history s @ [od]\<rparr>)"

definition mirror_cycle :: "bool \<Rightarrow> session_env \<Rightarrow> cycle_body \<Rightarrow> cycle_result \<Rightarrow> paper_session \<Rightarrow> paper_session" where
  "mirror_cycle versioned v body r s =
     (let s1 = (case rt_last_signal (ss_runtime s) of
                  Some sg \<Rightarrow> s\<lparr>ss_signal_log := ss_signal_log s @ [mirror_signal sg]\<rparr>
                | None \<Rightarrow> s);
          s2 = (case cr_order_id r of
                  Some (c # cs) \<Rightarrow>
                    if versioned then mirror_risk v body r (c # cs) (mirror_order (c # cs) s1)
                    else mirror_order (c # cs) s1
                | _ \<Rightarrow> s1)
      in record_equity_point v s2)"

definition requested_cycle :: "platform_config \<Rightarrow> cycle_body \<Rightarrow> strategy \<Rightarrow> platform \<Rightarrow> cycle_config" where
  "requested_cycle pg body strat p =
     (pg_cycle pg)\<lparr>cc_symbol := cb_symbol body, cc_timeframe := cb_timeframe body,
        cc_orchestrator := (cc_orchestrator (pg_cycle pg))\<lparr>oc_strategy := strat,
          oc_settings := platform_settings pg p\<rparr>\<rparr>"

definition run_shared_cycle :: "bool \<Rightarrow> platform_config \<Rightarrow> request_env \<Rightarrow> cycle_body \<Rightarrow> platform \<Rightarrow> nat \<times> platform" where
  "run_shared_cycle versioned pg q body p =
     (case get_strategy (qe_registry q) (cb_strategy_id body) of
        Inl e \<Rightarrow> (status_of e, p)
      | Inr strat \<Rightarrow>
          let (res, rt) = run_paper_trading_cycle (requested_cycle pg body strat p) (qe_cycle q)
                (ss_runtime (pl_session p));
              s = (pl_session p)\<lparr>ss_runtime := rt\<rparr>;
              p1 = p\<lparr>pl_session := s, pl_store := qe_writes q (pl_store p)\<rparr>
          in case res of
               Inl e \<Rightarrow> (status_of e, p1)
             | Inr r \<Rightarrow> (200, p1\<lparr>pl_session := mirror_cycle versioned (qe_session q) body r s\<rparr>))"

definition control_killed :: "platform_config \<Rightarrow> platform \<Rightarrow> bool" where
  "control_killed pg p \<longleftrightarrow>
     sf_kill_switch_enabled (ss_flags (pl_session p)) \<or> st_kill_switch_enabled (sg_settings (pg_session pg))"

text \<open>\<open>/api/trading/cycle\<close>\<close>

definition control_cycle :: "platform_config \<Rightarrow> request_env \<Rightarrow> cycle_body \<Rightarrow> platform \<Rightarrow> nat \<times> platform" where
  "control_cycle pg q body p =
     (case assert_paper_only (platform_settings pg p) of
        Inl e \<Rightarrow> (status_of e, p)
      | Inr _ \<Rightarrow>
          if control_killed pg p then (423, p)
          else if \<not> sf_trading_enabled (ss_flags (pl_session p)) \<and> py_strip (cb_confirm body) \<noteq> ''RUN_ONE_CYCLE''
          then (409, p)
          else
            let (code, p1) = run_shared_cycle False pg q body p
            in (code, if code = 200 then emit ''PAPER_CYCLE'' p1 else p1))"

text \<open>\<open>/api/v1/paper/cycle/run\<close>, which does not look at the trading flag.\<close>

definition versioned_cycle :: "platform_config \<Rightarrow> request_env \<Rightarrow> cycle_body \<Rightarrow> platform \<Rightarrow> nat \<times> platform" where
  "versioned_cycle pg q body p =
     (if st_trading_mode (sg_settings (pg_session pg)) \<noteq> ''paper'' then (501, p)
      else if control_killed pg p then (423, p)
      else run_shared_cycle True pg q body p)"

subsection \<open>Scheduler, reconciliation, reset\<close>

definition confirmed :: "string \<Rightarrow> string \<Rightarrow> (platform \<Rightarrow> nat \<times> platform) \<Rightarrow> platform \<Rightarrow> nat \<times> platform" where
  "confirmed given expected f p = (if given \<noteq> expected then (400, p) else f p)"

definition control_start :: "platform_config \<Rightarrow> request_env \<Rightarrow> platform \<Rightarrow> nat \<times> platform" where
  "control_start pg q p =
     (case assert_paper_only (platform_settings pg p) of
        Inl e \<Rightarrow> (status_of e, p)
      | Inr _ \<Rightarrow>
          let p1 = (shim_enable q True p)\<lparr>pl_scheduler_enabled := True\<rparr>
          in (200, p1\<lparr>pl_scheduler := start_scheduler (platform_settings pg p1) True (pl_scheduler p1)\<rparr>))"

definition control_stop :: "request_env \<Rightarrow> platform \<Rightarrow> nat \<times> platform" where
  "control_stop q p =
     (let p1 = shim_enable q False p
      in (200, p1\<lparr>pl_scheduler := stop_scheduler (pl_scheduler p1), pl_scheduler_enabled := False\<rparr>))"

definition control_resume :: "request_env \<Rightarrow> platform \<Rightarrow> nat \<times> platform" where
  "control_resume q p =
     (200, control_pause q False (p\<lparr>pl_scheduler := clear_failure_pause (pl_scheduler p)\<rparr>))"

definition reconcile_session :: "platform_config \<Rightarrow> request_env \<Rightarrow> platform \<Rightarrow> platform" where
  "reconcile_session pg q p =
     (let st = sg_settings (pg_session pg); s = pl_session p;
          (result, r, rs) = run_paper_reconciliation st (qe_now q) (ss_paper s) (rt_recon (ss_runtime s), ss_risk s);
          p1 = p\<lparr>pl_session := with_recon r (with_risk rs s)\<rparr>
      in if st_enable_reconciliation st then write_store q (save_reconciliation_halt (rc_halted r)) p1 else p1)"

text \<open>\<open>clear_reconciliation_halt_persisted\<close>\<close>

definition control_clear_halt :: "platform_config \<Rightarrow> request_env \<Rightarrow> platform \<Rightarrow> platform" where
  "control_clear_halt pg q p =
     (let s = pl_session p; (r, rs) = clear_reconciliation_halt (rt_recon (ss_runtime s), ss_risk s);
          s1 = with_recon r (with_risk rs s)
      in write_store q (\<lambda>db. save_risk_state (pg_database pg) s1 (save_reconciliation_halt False db))
           (p\<lparr>pl_session := s1\<rparr>))"

text \<open>
  \<open>reset_cycle_state()\<close> and \<open>reset_paper_session()\<close>: a new session; the reconciliation state and the
  table of the locks are not part of it. Nothing is written to the store.
\<close>

definition reset_platform :: "platform_config \<Rightarrow> request_env \<Rightarrow> platform \<Rightarrow> platform" where
  "reset_platform pg q p =
     (let rt = ss_runtime (pl_session p);
          s = new_session (pg_session pg) (qe_session q) (qe_session_id q)
      in p\<lparr>pl_session := s\<lparr>ss_runtime := reset_cycle_state ((ss_runtime s)\<lparr>rt_recon := rt_recon rt, rt_locks := rt_locks rt\<rparr>)\<rparr>\<rparr>)"

definition control_reset :: "platform_config \<Rightarrow> request_env \<Rightarrow> platform \<Rightarrow> nat \<times> platform" where
  "control_reset pg q p = (200, emit ''PAPER_RESET'' (shim_enable q False (reset_platform pg q p)))"

definition control_mvp_kill :: "request_env \<Rightarrow> bool \<Rightarrow> platform \<Rightarrow> nat \<times> platform" where
  "control_mvp_kill q enabled p =
     (let p1 = control_kill q enabled p
      in (200, emit ''KILL_SWITCH'' (if enabled then shim_enable q False p1 else p1)))"

subsection \<open>Probes\<close>

definition control_health :: "request_env \<Rightarrow> platform \<Rightarrow> nat \<times> platform" where
  "control_health q p =
     (200, if qe_database_up q \<and> \<not> rs_database_healthy (ss_risk (pl_session p))
           then on_session (database_health True) p else p)"

definition control_ready :: "platform_config \<Rightarrow> request_env \<Rightarrow> platform \<Rightarrow> nat \<times> platform" where
  "control_ready pg q p =
     (let st = sg_settings (pg_session pg)
      in if settings_runtime_mode st = MLive \<or> st_trading_mode st = ''live'' then (200, p)
         else (200, on_session (database_health (qe_database_up q)) p))"

text \<open>The views of the portfolio, which note a new peak of the equity.\<close>

definition control_view :: "platform \<Rightarrow> nat \<times> platform" where
  "control_view p = (200, on_session (\<lambda>s. snd (portfolio_summary s)) p)"

subsection \<open>Requests\<close>

datatype endpoint =
    ClosePosition string
  | PlaceOrder order_request
  | SelectStrategy string
  | StartStrategy string
  | StopStrategy string
  | UpdateParams string strategy
  | SetKillSwitch bool
  | SetPause bool
  | SchedulerStart string
  | SchedulerPause string
  | SchedulerResume string
  | RunReconciliation
  | ClearHalt
  | TradingCycle cycle_body
  | TradingStart string
  | TradingStop string
  | TradingKillSwitch bool
  | PaperReset string
  | VersionedCycle cycle_body
  | VersionedReset string
  | LiveExecute
  | Health
  | Ready
  | ViewPortfolio

text \<open>The endpoints without \<open>AdminAuthDep\<close>.\<close>

fun public :: "endpoint \<Rightarrow> bool" where
  "public LiveExecute = True"
| "public Health = True"
| "public Ready = True"
| "public ViewPortfolio = True"
| "public _ = False"

fun serve :: "platform_config \<Rightarrow> request_env \<Rightarrow> endpoint \<Rightarrow> platform \<Rightarrow> nat \<times> platform" where
  "serve pg q (ClosePosition sy) p = control_close pg q sy p"
| "serve pg q (PlaceOrder rq) p = control_order pg q rq p"
| "serve pg q (SelectStrategy sid) p = control_strategy (select_strategy (qe_registry q) sid) p"
| "serve pg q (StartStrategy sid) p = control_start_strategy pg q sid p"
| "serve pg q (StopStrategy sid) p = control_strategy (stop_strategy (qe_registry q) sid) p"
| "serve pg q (UpdateParams sid params) p = control_strategy (update_params (qe_registry q) sid params) p"
| "serve pg q (SetKillSwitch b) p = (200, control_kill q b p)"
| "serve pg q (SetPause b) p = (200, control_pause q b p)"
| "serve pg q (SchedulerStart c) p = confirmed c ''START_SCHEDULER'' (control_start pg q) p"
| "serve pg q (SchedulerPause c) p = confirmed c ''PAUSE_SCHEDULER'' (\<lambda>p. (200, control_pause q True p)) p"
| "serve pg q (SchedulerResume c) p = confirmed c ''RESUME_SCHEDULER'' (control_resume q) p"
| "serve pg q RunReconciliation p = (200, reconcile_session pg q p)"
| "serve pg q ClearHalt p = (200, control_clear_halt pg q p)"
| "serve pg q (TradingCycle body) p = control_cycle pg q body p"
| "serve pg q (TradingStart c) p = confirmed c ''START_PAPER_TRADING'' (control_start pg q) p"
| "serve pg q (TradingStop c) p = confirmed c ''STOP_PAPER_TRADING'' (control_stop q) p"
| "serve pg q (TradingKillSwitch b) p = control_mvp_kill q b p"
| "serve pg q (PaperReset c) p = confirmed c ''RESET_PAPER_ACCOUNT'' (control_reset pg q) p"
| "serve pg q (VersionedCycle body) p = versioned_cycle pg q body p"
| "serve pg q (VersionedReset c) p = confirmed c ''RESET_PAPER_ACCOUNT'' (\<lambda>p. (200, reset_platform pg q p)) p"
| "serve pg q LiveExecute p = (501, p)"
| "serve pg q Health p = control_health q p"
| "serve pg q Ready p = control_ready pg q p"
| "serve pg q ViewPortfolio p = control_view p"

definition handle :: "platform_config \<Rightarrow> request_env \<Rightarrow> credentials \<Rightarrow> endpoint \<Rightarrow> platform \<Rightarrow> nat \<times> platform" where
  "handle pg q cd e p =
     (if public e then serve pg q e p
      else case require_admin_token pg cd of Inl code \<Rightarrow> (code, p) | Inr _ \<Rightarrow> serve pg q e p)"

subsection \<open>What runs beside the requests\<close>

definition scheduler_event :: "platform_config \<Rightarrow> request_env \<Rightarrow> platform \<Rightarrow> platform" where
  "scheduler_event pg q p =
     (if \<not> sc_running (pl_scheduler p) then p
      else
        let (res, sc, rt) = run_one_cycle (pg_cycle pg) (qe_registry q) (platform_settings pg p) (qe_scheduler q)
              (pl_scheduler p, ss_runtime (pl_session p))
        in p\<lparr>pl_scheduler := sc, pl_session := (pl_session p)\<lparr>ss_runtime := rt\<rparr>, pl_store := qe_writes q (pl_store p)\<rparr>)"

text \<open>
  A new process of a configuration that \<open>assert_startup_safe\<close> accepts: what is not in the store, the
  lock table or the table of the runs is gone.
\<close>

definition restart :: "platform_config \<Rightarrow> request_env \<Rightarrow> bootstrap_env \<Rightarrow> platform \<Rightarrow> platform" where
  "restart pg q v p =
     (let s = new_session (pg_session pg) (qe_session q) (qe_session_id q);
          s0 = s\<lparr>ss_runtime := (ss_runtime s)\<lparr>rt_locks := rt_locks (ss_runtime (pl_session p))\<rparr>\<rparr>;
          (s1, db) = bootstrap_paper_runtime (pg_session pg) v (s0, pl_store p);
          enabled = st_enable_trading_scheduler (sg_settings (pg_session pg))
      in \<lparr>pl_session = s1,
          pl_scheduler = start_scheduler (sg_settings (pg_session pg)) False
            (initial_scheduler\<lparr>sc_runs := sc_runs (pl_scheduler p)\<rparr>),
          pl_scheduler_enabled = enabled, pl_store = db, pl_events = []\<rparr>)"

datatype event =
    Request credentials endpoint
  | SchedulerTurn
  | ReconciliationTick
  | Restart bootstrap_env

fun happen :: "platform_config \<Rightarrow> request_env \<times> event \<Rightarrow> platform \<Rightarrow> platform" where
  "happen pg (q, Request cd e) p = snd (handle pg q cd e p)"
| "happen pg (q, SchedulerTurn) p = scheduler_event pg q p"
| "happen pg (q, ReconciliationTick) p = reconcile_session pg q p"
| "happen pg (q, Restart v) p = restart pg q v p"

end
