(* ===== verification/Control_Properties.thy ===== *)
theory Control_Properties
  imports Control_Plane
begin

text \<open>
  What the control plane guarantees: mutating requests need the token, an engaged kill switch holds
  until an operator lifts it, a stop is a stop; and what of an operator's decision survives a restart.
\<close>

subsection \<open>A mark registers no order\<close>

lemma release_index [simp]:
  "ps_idempotency_index (snd (release_reservation now od a s)) = ps_idempotency_index s"
  by (simp add: release_reservation_def Let_def)

lemma update_order_index [simp]:
  "ps_idempotency_index (snd (update_order now od st risk e s)) = ps_idempotency_index s"
  by (simp add: update_order_def Let_def)

lemma apply_fill_index [simp]:
  "ps_idempotency_index (snd (apply_fill pc v od qty price risk mk s)) = ps_idempotency_index s"
  by (simp add: apply_fill_def fill_buy_def fill_sell_def Let_def case_prod_beta split: option.split)

lemma trigger_index [simp]:
  "ps_idempotency_index (trigger_order pc v sy mark od s) = ps_idempotency_index s"
  by (simp add: trigger_order_def Let_def case_prod_beta)

lemma mark_index [simp]:
  "ps_idempotency_index (set_mark_price pc v sy price s) = ps_idempotency_index s"
  by (cases "map_of (ps_positions s) sy")
    (simp_all add: set_mark_price_def try_trigger_resting_def Let_def
      fold_frame [where f = ps_idempotency_index])

lemma marked_session_index [simp]:
  "ps_idempotency_index (marked_session cfg v sy ps) = ps_idempotency_index ps"
  by (simp add: marked_session_def)

subsection \<open>A cycle under the kill switch\<close>

abbreviation killed :: "runtime \<Rightarrow> bool" where
  "killed rt \<equiv> sf_kill_switch_enabled (rt_flags rt)"

lemma fail_closed_kill [simp]: "killed (fail_closed_persistence rt) = killed rt"
  by (simp add: fail_closed_persistence_def)

lemma settle_kill [simp]: "killed (settle_cycle cfg env rt) = killed rt"
  by (simp add: settle_cycle_def check_after_cycle_def reconcile_after_cycle_def Let_def case_prod_beta)

lemma execute_kill: "execute_cycle cfg env target lock x rt = (res, rt') \<Longrightarrow> killed rt' = killed rt"
  by (erule execute_cycle_cases) simp_all

lemma cycle_kill: "run_paper_trading_cycle cfg env rt = (res, rt') \<Longrightarrow> killed rt' = killed rt"
proof (erule run_cycle_cases)
  fix locks lk rt2
  assume "execute_cycle cfg env (snd (last (ce_candles env))) ''acquired''
      (snd (prime_candles (cycle_orchestrator cfg rt) (oe_now (ce_process env)) (butlast (ce_candles env))
        (get_or_create_orchestrator cfg rt))) (rt\<lparr>rt_locks := locks\<rparr>) = (res, rt2)"
    and "rt' = release_lock cfg env (snd (last (ce_candles env))) rt2"
  then show "killed rt' = killed rt" using execute_kill by fastforce
qed (auto dest: execute_kill)

lemma prime_index [simp]:
  "ps_idempotency_index (or_paper (snd (prime_candles ocfg now vcs x))) = ps_idempotency_index (or_paper x)"
proof -
  have "ps_idempotency_index (or_paper (snd (prime_candle ocfg now vc acc))) = ps_idempotency_index (or_paper (snd acc))"
    for vc acc by (simp add: prime_candle_def admit_candle_def case_prod_beta Let_def)
  with fold_frame [of "\<lambda>acc. ps_idempotency_index (or_paper (snd acc))" "prime_candle ocfg now" vcs "(0, x)"]
  show ?thesis by (simp add: prime_candles_def)
qed

lemma execute_blocked_index:
  assumes "execute_cycle cfg env target lock x rt = (res, rt')"
    and "candle_blocked (cycle_orchestrator cfg rt) (cycle_penv env rt) (or_risk x)"
  shows "ps_idempotency_index (rt_paper rt') = ps_idempotency_index (or_paper x)"
proof -
  obtain decided x1 where ev: "evaluate_window (cycle_orchestrator cfg rt) (oe_now (ce_process env)) (cc_symbol cfg)
      (window_of x (cc_symbol cfg) @ [target]) x = (decided, x1)" by fastforce
  obtain pr x2 where pr: "process_candle (cycle_orchestrator cfg rt) (cycle_penv env rt) target x1 = (pr, x2)"
    by fastforce
  have x1: "or_paper x1 = or_paper x" "or_risk x1 = or_risk x"
    using evaluate_window_frame [of "cycle_orchestrator cfg rt" "oe_now (ce_process env)" "cc_symbol cfg"
        "window_of x (cc_symbol cfg) @ [target]" x] by (simp_all add: ev)
  have "ps_idempotency_index (or_paper x2) = ps_idempotency_index (or_paper x)"
    using halted_candle [OF pr] assms(2) x1 by auto
  with assms(1) ev pr x1 show ?thesis
    by (auto simp: execute_cycle_def Let_def case_prod_beta split: sum.splits)
qed

lemma cycle_killed_index:
  assumes "run_paper_trading_cycle cfg env rt = (res, rt')" and "killed rt"
  shows "ps_idempotency_index (rt_paper rt') = ps_idempotency_index (rt_paper rt)"
proof -
  have blocked: "candle_blocked (cycle_orchestrator cfg rt) (cycle_penv env rt) (rt_risk rt)"
    by (rule cycle_halted_blocks) (use assms(2) in \<open>simp add: cycle_halted_def\<close>)
  from assms(1) show ?thesis
  proof (cases rule: run_cycle_cases)
    case (refused r x)
    then show ?thesis by auto
  next
    case (locked locks lk rt2)
    have "ps_idempotency_index (rt_paper rt2) = ps_idempotency_index (rt_paper rt)"
      using execute_blocked_index [OF locked(2)] blocked by simp
    with locked(3) show ?thesis by simp
  next
    case unlocked
    from execute_blocked_index [OF unlocked] blocked show ?thesis by simp
  qed
qed

subsection \<open>The session under the kill switch\<close>

text \<open>Still killed, and no order registered.\<close>

definition kill_holds :: "paper_session \<Rightarrow> paper_session \<Rightarrow> bool" where
  "kill_holds s s' \<longleftrightarrow> (killed (ss_runtime s) \<longrightarrow>
     killed (ss_runtime s') \<and> ps_idempotency_index (ss_paper s') = ps_idempotency_index (ss_paper s))"

lemma kill_holds_refl [simp]: "kill_holds s s"
  by (simp add: kill_holds_def)

lemma kill_holds_trans: "kill_holds s t \<Longrightarrow> kill_holds t u \<Longrightarrow> kill_holds s u"
  by (simp add: kill_holds_def)

lemma kill_holds_frame:
  "ss_flags s' = ss_flags s \<Longrightarrow> ps_idempotency_index (ss_paper s') = ps_idempotency_index (ss_paper s) \<Longrightarrow> kill_holds s s'"
  by (simp add: kill_holds_def)

lemma mark_holds: "kill_holds s (snd (session_mark cfg v sy s))"
  by (rule kill_holds_frame) simp_all

lemma submit_flags: "ss_flags (snd (session_submit cfg v rq s)) = ss_flags s"
  by (simp add: session_submit_def Let_def case_prod_beta session_after_fill_def record_closed_trades_def
      record_equity_point_def log_risk_event_def push_order_def split: sum.split gateway_error.split)

lemma submit_holds: "session_submit cfg v rq s = (res, s') \<Longrightarrow> kill_holds s s'"
proof (unfold kill_holds_def, intro impI)
  assume sub: "session_submit cfg v rq s = (res, s')" and k: "killed (ss_runtime s)"
  have "\<not> is_accepting (session_verdict cfg v rq s)" using k by (intro session_halts) simp
  with sub have "ss_paper s' = marked_session cfg v (rq_symbol rq) (ss_paper s)"
    by (cases rule: session_submit_cases) simp_all
  moreover have "ss_flags s' = ss_flags s" using submit_flags [of cfg v rq s] sub by simp
  ultimately show "killed (ss_runtime s') \<and> ps_idempotency_index (ss_paper s') = ps_idempotency_index (ss_paper s)"
    using k by simp
qed

lemma after_persist_holds: "kill_holds s (after_persist v s)"
  by (rule kill_holds_frame) (simp_all add: after_persist_def)

lemma place_holds: "kill_holds s (snd (session_place_order cfg v rq s))"
proof -
  let ?s1 = "snd (session_mark cfg v (rq_symbol rq) s)"
  have "kill_holds ?s1 (snd (session_submit cfg v rq' ?s1))" for rq' by (rule submit_holds [OF prod.collapse [symmetric]])
  then have "kill_holds s (snd (session_submit cfg v rq' ?s1))" for rq' using kill_holds_trans [OF mark_holds] by blast
  with kill_holds_trans [OF _ after_persist_holds] show ?thesis
    by (auto simp: session_place_order_def Let_def case_prod_beta split: sum.split)
qed

lemma close_passes_holds: "close_passes cfg v sy name k lst s = (res, s') \<Longrightarrow> kill_holds s s'"
proof (induction k arbitrary: lst s)
  case (Suc k)
  let ?s1 = "snd (session_mark cfg (v (Suc k)) sy s)"
  obtain res2 s2 where sub: "session_submit cfg (v (Suc k))
      (session_close_request (v (Suc k)) sy name (held_quantity sy s) (fst (session_mark cfg (v (Suc k)) sy s))) ?s1 = (res2, s2)"
    by fastforce
  have s2: "kill_holds s s2" by (rule kill_holds_trans [OF mark_holds submit_holds [OF sub]])
  from Suc.IH have "close_passes cfg v sy name k lst s2 = (res, s') \<Longrightarrow> kill_holds s s'" for lst
    using s2 kill_holds_trans by blast
  with Suc.prems sub s2 show ?case
    by (auto simp: Let_def case_prod_beta mark_holds split: if_splits sum.splits)
qed simp

lemma close_holds: "kill_holds s (snd (session_close_position cfg v sy s))"
proof -
  have "kill_holds s (snd (close_passes cfg v sy (Some ''manual'') 4 None s))"
    by (rule close_passes_holds [OF prod.collapse [symmetric]])
  with kill_holds_trans [OF _ after_persist_holds] show ?thesis
    by (auto simp: session_close_position_def case_prod_beta split: sum.split)
qed

lemma set_kill_holds: "b \<Longrightarrow> kill_holds s (set_kill_switch v b s)"
  by (simp add: kill_holds_def set_kill_switch_def Let_def)

lemma tick_cycle_holds: "tick_cycle cfg base te sid strat s = (res, s') \<Longrightarrow> kill_holds s s'"
proof (unfold kill_holds_def, intro impI)
  assume tick: "tick_cycle cfg base te sid strat s = (res, s')" and k: "killed (ss_runtime s)"
  from tick obtain ccfg cenv rt0 where c: "run_paper_trading_cycle ccfg cenv rt0 = (res, ss_runtime s')"
    and rt0: "killed rt0" "ps_idempotency_index (rt_paper rt0) = ps_idempotency_index (ss_paper s)"
    using k by (fastforce simp: tick_cycle_def Let_def case_prod_beta with_paper_def prod_eq_iff)
  from cycle_kill [OF c] cycle_killed_index [OF c rt0(1)] rt0
  show "killed (ss_runtime s') \<and> ps_idempotency_index (ss_paper s') = ps_idempotency_index (ss_paper s)" by simp
qed

lemma log_tick_holds: "kill_holds s (log_tick v name ver sy r s)"
  by (auto simp: kill_holds_def log_tick_def Let_def record_equity_point_def log_risk_event_def push_order_def
      set_kill_switch_def split: option.split)

lemma tick_holds: "kill_holds s (snd (run_strategy_tick cfg base reg te sid s))"
proof (cases "get_strategy reg sid")
  case (Inr strat)
  have "kill_holds s (snd (tick_cycle cfg base te sid strat s))" by (rule tick_cycle_holds [OF prod.collapse [symmetric]])
  with Inr kill_holds_trans [OF _ log_tick_holds] show ?thesis
    by (auto simp: run_strategy_tick_def case_prod_beta split: sum.split)
qed (simp add: run_strategy_tick_def)

lemma start_strategy_holds: "kill_holds s (snd (start_strategy cfg base reg te sid s))"
proof (cases "select_strategy reg sid s")
  case (Inr s1)
  then have "kill_holds s (s1\<lparr>ss_running_strategies := R\<rparr>)" for R
    by (auto simp: select_strategy_def kill_holds_def split: sum.splits)
  with Inr kill_holds_trans [OF _ tick_holds] show ?thesis by (simp add: start_strategy_def)
qed (simp add: start_strategy_def)

subsection \<open>Requests under the kill switch\<close>

text \<open>The events that lift an engaged kill switch, or may: what an authenticated operator asks, and a restart.\<close>

fun lifting :: "endpoint \<Rightarrow> bool" where
  "lifting (SetKillSwitch b) = (\<not> b)"
| "lifting (TradingKillSwitch b) = (\<not> b)"
| "lifting (PaperReset c) = (c = ''RESET_PAPER_ACCOUNT'')"
| "lifting (VersionedReset c) = (c = ''RESET_PAPER_ACCOUNT'')"
| "lifting _ = False"

fun lifts :: "platform_config \<Rightarrow> event \<Rightarrow> bool" where
  "lifts pg (Request cd e) = (lifting e \<and> require_admin_token pg cd = Inr ())"
| "lifts pg (Restart v) = True"
| "lifts pg _ = False"

lemma platform_frame [simp]:
  "pl_session (write_store q f p) = pl_session p" "pl_session (emit k p) = pl_session p"
  "pl_session (on_session g p) = g (pl_session p)" "pl_session (persist_after pg v p) = pl_session p"
  "pl_scheduler (write_store q f p) = pl_scheduler p" "pl_scheduler (emit k p) = pl_scheduler p"
  "pl_scheduler (on_session g p) = pl_scheduler p"
  by (simp_all add: write_store_def emit_def on_session_def persist_after_def Let_def)

lemma portfolio_summary_session [simp]: "snd (portfolio_summary s) = snd (session_portfolio s)"
  by (simp add: portfolio_summary_def Let_def case_prod_beta)

lemma flags_holds:
  "kill_holds s (set_trading_enabled b s)" "kill_holds s (set_paused b s)" "kill_holds s (database_health b s)"
  "kill_holds s (snd (session_portfolio s))"
  "killed (ss_runtime s) = sf_kill_switch_enabled fl \<Longrightarrow> kill_holds s (with_flags fl s)"
  by (simp_all add: kill_holds_def set_trading_enabled_def set_paused_def set_session_paused_def database_health_def)

lemma mirror_holds: "kill_holds s (mirror_cycle versioned v body r s)"
  by (auto simp: kill_holds_def mirror_cycle_def mirror_order_def mirror_risk_def record_equity_point_def Let_def
      split: option.split list.split)

lemma reconcile_holds: "kill_holds (pl_session p) (pl_session (reconcile_session pg q p))"
  by (simp add: kill_holds_def reconcile_session_def with_recon_def Let_def case_prod_beta)

lemma clear_halt_holds: "kill_holds (pl_session p) (pl_session (control_clear_halt pg q p))"
  by (simp add: kill_holds_def control_clear_halt_def clear_reconciliation_halt_def with_recon_def Let_def)

lemma kill_holds_runtime:
  assumes "run_paper_trading_cycle cfg env (ss_runtime s) = (res, rt)"
  shows "kill_holds s (s\<lparr>ss_runtime := rt\<rparr>)"
  using cycle_kill [OF assms] cycle_killed_index [OF assms] by (simp add: kill_holds_def)

lemma shared_cycle_holds: "kill_holds (pl_session p) (pl_session (snd (run_shared_cycle ver pg q body p)))"
proof (cases "get_strategy (qe_registry q) (cb_strategy_id body)")
  case (Inr strat)
  obtain res rt where c: "run_paper_trading_cycle (requested_cycle pg body strat p) (qe_cycle q)
      (ss_runtime (pl_session p)) = (res, rt)" by fastforce
  from kill_holds_runtime [OF c] kill_holds_trans [OF kill_holds_runtime [OF c] mirror_holds] Inr c show ?thesis
    by (auto simp: run_shared_cycle_def Let_def split: sum.split)
qed (simp add: run_shared_cycle_def)

lemma scheduler_holds: "kill_holds (pl_session p) (pl_session (scheduler_event pg q p))"
proof (unfold kill_holds_def, intro impI)
  assume k: "killed (ss_runtime (pl_session p))"
  have "snd (snd (run_one_cycle base reg st env (sc, ss_runtime (pl_session p)))) = ss_runtime (pl_session p)"
    for base reg st env sc
  proof -
    obtain r where "scheduler_block st (sc\<lparr>sc_heartbeat_at := Some (se_now env)\<rparr>) (ss_runtime (pl_session p)) = Some r"
      using k by (cases "sc_paused_by_failures sc") (simp_all add: scheduler_block_def)
    then show ?thesis by (simp add: run_one_cycle_def Let_def split: sum.split)
  qed
  with k show "killed (ss_runtime (pl_session (scheduler_event pg q p)))
      \<and> ps_idempotency_index (ss_paper (pl_session (scheduler_event pg q p))) = ps_idempotency_index (ss_paper (pl_session p))"
    by (simp add: scheduler_event_def Let_def case_prod_beta)
qed

lemma serve_holds:
  assumes "\<not> lifting e"
  shows "kill_holds (pl_session p) (pl_session (snd (serve pg q e p)))"
proof (cases e)
  case (ClosePosition sy)
  with close_holds show ?thesis by (auto simp: control_close_def Let_def case_prod_beta split: sum.split)
next
  case (PlaceOrder rq)
  with place_holds show ?thesis by (auto simp: control_order_def Let_def case_prod_beta split: sum.split)
next
  case (StartStrategy sid)
  with start_strategy_holds show ?thesis by (auto simp: control_start_strategy_def Let_def case_prod_beta split: sum.split)
next
  case (TradingCycle body)
  with shared_cycle_holds show ?thesis by (auto simp: control_cycle_def Let_def case_prod_beta split: sum.split)
next
  case (VersionedCycle body)
  with shared_cycle_holds show ?thesis by (auto simp: versioned_cycle_def)
next
  case (PaperReset c)
  with assms show ?thesis by (simp add: confirmed_def)
next
  case (VersionedReset c)
  with assms show ?thesis by (simp add: confirmed_def)
qed (use assms in \<open>auto simp: confirmed_def control_strategy_def select_strategy_def stop_strategy_def update_params_def
      control_kill_def control_pause_def control_start_def control_stop_def control_resume_def control_mvp_kill_def
      shim_enable_def control_enable_def control_health_def control_ready_def control_view_def flags_holds
      set_kill_holds reconcile_holds clear_halt_holds Let_def
      intro: kill_holds_trans [OF set_kill_holds flags_holds(1)] kill_holds_frame split: sum.splits\<close>)

text \<open>
  C13. An engaged kill switch holds: whatever sequence of requests, scheduler turns and reconciliations
  follows, as long as no authenticated operator disengages it or resets the account and the process
  does not restart, the switch stays engaged, no order is registered in the ledger, and the risk
  engine accepts no order of the session.
\<close>

theorem kill_switch_holds:
  assumes "killed (ss_runtime (pl_session p))" and "\<forall>x \<in> set xs. \<not> lifts pg (snd x)"
  defines "s' \<equiv> pl_session (fold (happen pg) xs p)"
  shows "killed (ss_runtime s')
    \<and> ps_idempotency_index (ss_paper s') = ps_idempotency_index (ss_paper (pl_session p))
    \<and> \<not> is_accepting (session_verdict (pg_session pg) v rq s')"
proof -
  have step: "kill_holds (pl_session p) (pl_session (happen pg x p))" if "\<not> lifts pg (snd x)" for x p
  proof (cases x)
    case (Pair q e)
    show ?thesis
    proof (cases e)
      case (Request cd ep)
      with that Pair serve_holds [of ep p pg q] show ?thesis
        by (cases "require_admin_token pg cd") (auto simp: handle_def elim: public.elims)
    qed (use that Pair in \<open>simp_all add: scheduler_holds reconcile_holds\<close>)
  qed
  have "kill_holds (pl_session p) s'"
    using assms(2) unfolding s'_def
  proof (induction xs arbitrary: p)
    case (Cons x xs)
    from kill_holds_trans [OF step Cons.IH] Cons.prems show ?case by simp
  qed simp
  with assms(1) show ?thesis by (auto simp: kill_holds_def intro!: session_halts)
qed

text \<open>
  C14. Nothing changes without the token: a request with the wrong token, or while no token is
  configured, is refused with 401 or 503, or fails with 500 when it is not ASCII, and changes nothing,
  except for the four requests that need none; and those leave the ledger, the flags, the scheduler and
  the store alone: they note a new equity peak, and a probe sets the database's health in the risk engine.
\<close>

theorem control_authenticated:
  assumes "require_admin_token pg cd \<noteq> Inr ()"
  shows "(if public e
     then let p' = snd (handle pg q cd e p); s = pl_session p; s' = pl_session p'
          in ss_paper s' = ss_paper s \<and> ss_flags s' = ss_flags s \<and> rt_recon (ss_runtime s') = rt_recon (ss_runtime s)
           \<and> ss_order_history s' = ss_order_history s \<and> ss_peak_equity s \<le> ss_peak_equity s'
           \<and> pl_scheduler p' = pl_scheduler p \<and> pl_store p' = pl_store p
           \<and> ss_risk s' \<in> {ss_risk s, (ss_risk s)\<lparr>rs_database_healthy := qe_database_up q\<rparr>}
     else snd (handle pg q cd e p) = p \<and> fst (handle pg q cd e p) \<in> {401, 500, 503})"
proof (cases "public e")
  case True
  then show ?thesis
    by (cases e) (auto simp: handle_def control_health_def control_ready_def control_view_def on_session_def
        database_health_def session_portfolio_def with_risk_def Let_def)
next
  case False
  with assms show ?thesis
    by (auto simp: handle_def require_admin_token_def Let_def split: if_splits)
qed

subsection \<open>Cycles on request, and stopping\<close>


subsection \<open>What survives a restart\<close>

lemma restart_cong:
  assumes "pl_store p' = pl_store p" and "rt_locks (ss_runtime (pl_session p')) = rt_locks (ss_runtime (pl_session p))"
    and "sc_runs (pl_scheduler p') = sc_runs (pl_scheduler p)"
  shows "restart pg q v p' = restart pg q v p"
  using assms by (simp add: restart_def Let_def)

lemma control_kill_frame:
  "pl_scheduler (control_kill q b p) = pl_scheduler p"
  "rt_locks (ss_runtime (pl_session (control_kill q b p))) = rt_locks (ss_runtime (pl_session p))"
  "qe_write_fails q \<Longrightarrow> pl_store (control_kill q b p) = pl_store p"
  "\<not> qe_write_fails q \<Longrightarrow> pl_store (control_kill q b p) = save_kill_switch b (pl_store p)"
  by (simp_all add: control_kill_def write_store_def on_session_def set_kill_switch_def with_flags_def Let_def)

lemma hydrate_early_kill [simp]:
  "killed (ss_runtime (hydrate_halt db s)) = killed (ss_runtime s)"
  "killed (ss_runtime (hydrate_portfolio cfg v db s)) = killed (ss_runtime s)"
  "killed (ss_runtime (seed_seen_keys s)) = killed (ss_runtime s)"
  "killed (ss_runtime (hydrate_strategy db s)) = killed (ss_runtime s)"
  by (simp_all add: hydrate_halt_def hydrate_portfolio_def hydrate_checkpoint_def hydrate_account_def
      hydrate_legacy_def record_equity_point_def seed_seen_keys_def hydrate_strategy_def with_recon_def
      with_paper_def with_flags_def with_risk_def Let_def case_prod_beta split: option.split)

lemma restore_flags [simp]: "ss_flags (fold restore_into xs s) = ss_flags s"
  using restore_all [of xs s] by (simp add: session_core_def)

lemma hydrate_late_flags [simp]:
  "ss_flags (hydrate_journal v db s) = ss_flags s" "ss_flags (hydrate_fallback v db s) = ss_flags s"
  by (simp_all add: hydrate_journal_def hydrate_fallback_def Let_def split: option.split)

lemma hydrate_risk_kill: "killed (ss_runtime (hydrate_risk db s)) \<longleftrightarrow>
    killed (ss_runtime s) \<or> (case so_risk db of Some r \<Rightarrow> parse_bool (kr_kill_switch_enabled r) | None \<Rightarrow> False)"
  by (simp add: hydrate_risk_def with_flags_def with_risk_def Let_def split: option.split)

lemma hydrate_kill:
  "killed (ss_runtime (hydrate_session cfg v db s)) \<longleftrightarrow>
     (case so_kill_switch db of Some b \<Rightarrow> b | None \<Rightarrow> killed (ss_runtime s))
     \<or> (case so_risk db of Some r \<Rightarrow> parse_bool (kr_kill_switch_enabled r) | None \<Rightarrow> False)"
  by (simp add: hydrate_session_def hydrate_risk_kill) (simp add: hydrate_flags_def Let_def split: option.split)

lemma startup_kill [simp]:
  "killed (ss_runtime (fst (startup_reconciliation cfg v (s, db)))) = killed (ss_runtime s)"
  by (simp add: startup_flags)

lemma bootstrap_kill:
  "killed (ss_runtime (fst (bootstrap_paper_runtime cfg v (s, db)))) \<longleftrightarrow>
     (if bv_database_fails v then killed (ss_runtime s) else killed (ss_runtime (hydrate_session cfg (bv_hydrate v) db s)))"
  by (simp add: bootstrap_paper_runtime_def database_health_def set_processed_cycle_keys_def with_risk_def)

lemma restart_kill:
  "killed (ss_runtime (pl_session (restart pg q v p))) \<longleftrightarrow>
     (if bv_database_fails v then st_kill_switch_enabled (sg_settings (pg_session pg))
      else (case so_kill_switch (pl_store p) of Some b \<Rightarrow> b | None \<Rightarrow> st_kill_switch_enabled (sg_settings (pg_session pg)))
        \<or> (case so_risk (pl_store p) of Some r \<Rightarrow> parse_bool (kr_kill_switch_enabled r) | None \<Rightarrow> False))"
  by (simp add: restart_def Let_def case_prod_beta bootstrap_kill hydrate_kill new_session_def record_equity_point_def
      split: option.split)

text \<open>
  Engaging the kill switch is durable exactly when its write succeeds: with a database that takes
  the write and can be read at start-up the switch is engaged after a restart; but the write is best
  effort and its failure is not reported, and then the restarted process is the one that would have
  started had the switch never been engaged. Disengaging is undone by a restart as long as the row
  of the risk state, written with the whole session, still has the switch engaged.
\<close>

lemma kill_switch_durability:
  "(\<not> qe_write_fails q \<and> \<not> bv_database_fails v \<longrightarrow>
      killed (ss_runtime (pl_session (restart pg q' v (control_kill q True p)))))
   \<and> (qe_write_fails q \<longrightarrow> restart pg q' v (control_kill q True p) = restart pg q' v p)
   \<and> (so_risk (pl_store p) = Some r \<and> kr_kill_switch_enabled r = bool_str True \<and> \<not> bv_database_fails v \<longrightarrow>
      killed (ss_runtime (pl_session (restart pg q' v (control_kill q False p)))))"
proof (intro conjI impI)
  assume "\<not> qe_write_fails q \<and> \<not> bv_database_fails v"
  then show "killed (ss_runtime (pl_session (restart pg q' v (control_kill q True p))))"
    by (simp add: restart_kill control_kill_frame save_kill_switch_def)
next
  assume "qe_write_fails q"
  then show "restart pg q' v (control_kill q True p) = restart pg q' v p"
    by (intro restart_cong) (simp_all add: control_kill_frame)
next
  assume a: "so_risk (pl_store p) = Some r \<and> kr_kill_switch_enabled r = bool_str True \<and> \<not> bv_database_fails v"
  then have "so_risk (pl_store (control_kill q False p)) = Some r"
    by (cases "qe_write_fails q") (simp_all add: control_kill_frame save_kill_switch_def)
  with a show "killed (ss_runtime (pl_session (restart pg q' v (control_kill q False p))))"
    by (simp add: restart_kill)
qed

text \<open>
  Resetting the account lifts every halt of the session, an engaged kill switch included, where
  the settings do not engage it; and it is undone by a restart, since nothing of it is written to
  the store: the process that starts after a reset is the one that would have started without it.
\<close>

lemma reset_not_durable:
  fixes pg q p
  defines "p' \<equiv> reset_platform pg q p"
  shows "killed (ss_runtime (pl_session p')) = st_kill_switch_enabled (sg_settings (pg_session pg))
    \<and> \<not> sf_trading_paused (ss_flags (pl_session p')) \<and> \<not> rs_circuit_breaker_open (ss_risk (pl_session p'))
    \<and> rs_database_healthy (ss_risk (pl_session p')) \<and> ss_paper (pl_session p') = new_engine (sg_paper (pg_session pg))
    \<and> restart pg q' v p' = restart pg q' v p"
proof -
  have "restart pg q' v p' = restart pg q' v p"
    by (rule restart_cong) (simp_all add: p'_def reset_platform_def reset_cycle_state_def Let_def)
  then show ?thesis
    by (simp add: p'_def reset_platform_def reset_cycle_state_def new_session_def record_equity_point_def
        initial_risk_state_def Let_def)
qed

subsection \<open>A concrete platform\<close>

definition sample_platform_config :: platform_config where
  "sample_platform_config = \<lparr>pg_session = sample_session_config, pg_cycle = sample_cycle True,
     pg_admin_token = Some ''secret'', pg_database = sample_database\<rparr>"

definition sample_tick_env :: tick_env where
  "sample_tick_env = \<lparr>te_live = (\<lambda>sy n. []), te_prime = (\<lambda>c. sample_env), te_cycle = sample_cycle_env False,
     te_session = sample_session_env\<rparr>"

definition sample_request_env :: request_env where
  "sample_request_env = \<lparr>qe_session = sample_session_env, qe_close = (\<lambda>n. sample_session_env), qe_tick = sample_tick_env,
     qe_cycle = sample_cycle_env False, qe_scheduler = sample_scheduler_env None, qe_registry = sample_registry,
     qe_writes = (\<lambda>db. db), qe_database_up = True, qe_write_fails = False, qe_now = 0, qe_session_id = ''paper-2''\<rparr>"

definition sample_platform :: platform where
  "sample_platform = \<lparr>pl_session = sample_session, pl_scheduler = initial_scheduler, pl_scheduler_enabled = True,
     pl_store = empty_store, pl_events = []\<rparr>"

definition sample_credentials :: credentials where
  "sample_credentials = \<lparr>cd_admin_token = None, cd_authorization = Some ''Bearer secret''\<rparr>"

definition sample_body :: cycle_body where
  "sample_body = \<lparr>cb_symbol = ''BTC/USDT'', cb_timeframe = ''1m'', cb_strategy_id = ''ema_crossover'', cb_confirm = ''''\<rparr>"

lemma sample_token:
  "require_admin_token sample_platform_config sample_credentials = Inr ()"
  "require_admin_token sample_platform_config (sample_credentials\<lparr>cd_authorization := Some ''Basic secret''\<rparr>) = Inl 401"
  by (simp_all add: require_admin_token_def provided_token_def split_scheme_def sample_platform_config_def ascii_text_def
      sample_credentials_def py_strip_def py_lower_def lower_char_def is_space_def char_of_def bit_iff_odd Let_def)

theorem kill_switch_holds_witness:
  "killed (ss_runtime (pl_session (fold (happen sample_platform_config)
      [(sample_request_env, Request sample_credentials (PlaceOrder sample_request)),
       (sample_request_env, SchedulerTurn), (sample_request_env, ReconciliationTick)]
      (control_kill sample_request_env True sample_platform))))"
  by (rule kill_switch_holds [THEN conjunct1]) (simp_all add: control_kill_def set_kill_switch_def Let_def)

theorem control_authenticated_witness:
  "snd (handle sample_platform_config sample_request_env
      (sample_credentials\<lparr>cd_authorization := Some ''Basic secret''\<rparr>) (SetKillSwitch False) sample_platform)
    = sample_platform"
  using control_authenticated [of sample_platform_config "sample_credentials\<lparr>cd_authorization := Some ''Basic secret''\<rparr>"
      "SetKillSwitch False" sample_request_env sample_platform]
  by (simp add: sample_token)


lemma kill_switch_durability_witness:
  "killed (ss_runtime (pl_session (restart sample_platform_config sample_request_env
      (sample_bootstrap_env\<lparr>bv_recon_raises := False\<rparr>) (control_kill sample_request_env True sample_platform))))"
  using kill_switch_durability [where q = sample_request_env and v = "sample_bootstrap_env\<lparr>bv_recon_raises := False\<rparr>"
      and pg = sample_platform_config and q' = sample_request_env and p = sample_platform]
  by (simp add: sample_request_env_def sample_bootstrap_env_def)

end
