(* ===== verification/Platform_Properties.thy ===== *)
theory Platform_Properties
  imports Control_Properties
begin

text \<open>
  The account of the whole platform: every event of the control plane that does not replace the account
  moves it by marks and by orders the risk engine accepted, and by nothing else. The relation
  \<open>account_step\<close> has these two moves; the lemmas follow them from the gateway through the orchestrator,
  the cycle, the session, the scheduler and the requests.
\<close>

subsection \<open>The moves of an account\<close>

text \<open>\<open>A\<close> holds the pairs of risk settings and engine configuration the platform trades under.\<close>

inductive account_step :: "(settings \<times> paper_config) set \<Rightarrow> paper_state \<Rightarrow> paper_state \<Rightarrow> bool" for A where
  account_mark: "(st, pc) \<in> A \<Longrightarrow> account_step A ps (set_mark_price pc v sy price ps)"
| account_order: "(st, pc) \<in> A \<Longrightarrow> evaluate st rq cx md_now now rs = (ev, rs') \<Longrightarrow> is_accepting ev
    \<Longrightarrow> \<not> cx_live_approval_valid cx \<Longrightarrow> submit pc v (approved_request rq ev) ev ps = Inr (od, ps')
    \<Longrightarrow> account_step A ps ps'"

inductive_cases account_stepE: "account_step A ps ps'"

abbreviation account_path :: "(settings \<times> paper_config) set \<Rightarrow> paper_state \<Rightarrow> paper_state \<Rightarrow> bool" where
  "account_path A \<equiv> (account_step A)\<^sup>*\<^sup>*"

lemma gateway_path:
  assumes "gateway_submit st (submit pc v) rq cx md_now now rs ps = (out, rs', ps')"
    and "(st, pc) \<in> A" and "\<not> cx_live_approval_valid cx"
  shows "account_path A ps ps'"
proof (cases out)
  case (Inl e)
  with assms(1) show ?thesis by (auto simp: gateway_submit_def split: prod.splits if_splits sum.splits)
next
  case (Inr od)
  from assms(1) [unfolded Inr] obtain ev od0 where "evaluate st rq cx md_now now rs = (ev, rs')" "is_accepting ev"
    "submit pc v (approved_request rq ev) ev ps = Inr (od0, ps')"
    by (rule paper.gateway_orderE)
  then show ?thesis by (intro r_into_rtranclp account_order [OF assms(2) _ _ assms(3)])
qed

subsection \<open>The orchestrator and the cycle\<close>

abbreviation orchestrator_pair :: "orchestrator_config \<Rightarrow> settings \<times> paper_config" where
  "orchestrator_pair ocfg \<equiv> (oc_risk_settings ocfg, oc_paper ocfg)"

lemma signal_context_approval [simp]: "\<not> cx_live_approval_valid (signal_context cfg env c s)"
  by (simp add: signal_context_def orchestrator_context_def case_prod_beta Let_def)

lemma process_path:
  assumes "process_candle cfg env c s = (res, s')" and "orchestrator_pair cfg \<in> A"
  shows "account_path A (or_paper s) (or_paper s')"
proof -
  have mark: "account_path A (or_paper s) (marked_ledger cfg env c s)"
    using assms(2) by (intro r_into_rtranclp account_mark)
  from assms(1) show ?thesis
  proof (cases rule: process_candle_cases)
    case (rejected reason)
    with reject_candle_frame [of cfg env reason c s] show ?thesis by auto
  next
    case quiet
    with mark show ?thesis by simp
  next
    case (order sg rq s2 out)
    from gateway_path [OF order(9) assms(2)] mark show ?thesis by (simp add: rtranclp_trans)
  qed
qed

lemma prime_path:
  assumes "orchestrator_pair cfg \<in> A"
  shows "account_path A (or_paper x) (or_paper (snd (prime_candles cfg now vcs x)))"
proof -
  have one: "account_path A (or_paper x) (or_paper (snd acc))
    \<Longrightarrow> account_path A (or_paper x) (or_paper (snd (prime_candle cfg now vc acc)))" for vc acc
    using account_mark [OF assms]
    by (auto simp: prime_candle_def admit_candle_def case_prod_beta Let_def intro: rtranclp.rtrancl_into_rtrancl)
  show ?thesis unfolding prime_candles_def
    by (rule fold_keeps [of "\<lambda>acc. account_path A (or_paper x) (or_paper (snd acc))"]) (use one in simp_all)
qed

abbreviation cycle_pair :: "cycle_config \<Rightarrow> settings \<times> paper_config" where
  "cycle_pair cfg \<equiv> orchestrator_pair (cc_orchestrator cfg)"

lemma cycle_orchestrator_pair [simp]: "orchestrator_pair (cycle_orchestrator cfg rt) = cycle_pair cfg"
  by (simp add: cycle_orchestrator_def)

lemma settle_paper [simp]: "rt_paper (settle_cycle cfg env rt) = rt_paper rt"
  by (simp add: settle_cycle_def check_after_cycle_def reconcile_after_cycle_def fail_closed_persistence_def
      Let_def case_prod_beta)

lemma execute_path:
  assumes "execute_cycle cfg env target lock x rt = (res, rt')" and "cycle_pair cfg \<in> A"
  shows "account_path A (or_paper x) (rt_paper rt')"
proof -
  obtain decided x1 where ev: "evaluate_window (cycle_orchestrator cfg rt) (oe_now (ce_process env)) (cc_symbol cfg)
      (window_of x (cc_symbol cfg) @ [target]) x = (decided, x1)" by fastforce
  obtain pr x2 where pr: "process_candle (cycle_orchestrator cfg rt) (cycle_penv env rt) target x1 = (pr, x2)"
    by fastforce
  have x1: "or_paper x1 = or_paper x"
    using evaluate_window_frame [of "cycle_orchestrator cfg rt" "oe_now (ce_process env)" "cc_symbol cfg"
        "window_of x (cc_symbol cfg) @ [target]" x] by (simp add: ev)
  have "account_path A (or_paper x) (or_paper x2)"
    using process_path [OF pr, of A] assms(2) by (simp add: x1)
  with assms(1) ev pr x1 show ?thesis
    by (auto simp: execute_cycle_def Let_def case_prod_beta split: sum.splits)
qed

lemma cycle_path:
  assumes "run_paper_trading_cycle cfg env rt = (res, rt')" and "cycle_pair cfg \<in> A"
  shows "account_path A (rt_paper rt) (rt_paper rt')"
proof -
  let ?x = "snd (prime_candles (cycle_orchestrator cfg rt) (oe_now (ce_process env)) (butlast (ce_candles env))
            (get_or_create_orchestrator cfg rt))"
  have prime: "account_path A (rt_paper rt) (or_paper ?x)"
    using prime_path [of "cycle_orchestrator cfg rt" A "get_or_create_orchestrator cfg rt"] assms(2) by simp
  from assms(1) show ?thesis
  proof (cases rule: run_cycle_cases)
    case (refused r x)
    with prime show ?thesis by auto
  next
    case (locked locks lk rt2)
    from execute_path [OF locked(2) assms(2)] prime locked(3) show ?thesis by (simp add: rtranclp_trans)
  next
    case unlocked
    from execute_path [OF unlocked assms(2)] prime show ?thesis by (simp add: rtranclp_trans)
  qed
qed

subsection \<open>The session\<close>

abbreviation session_pair :: "session_config \<Rightarrow> settings \<times> paper_config" where
  "session_pair cfg \<equiv> (sg_settings cfg, sg_paper cfg)"

abbreviation session_path :: "(settings \<times> paper_config) set \<Rightarrow> paper_session \<Rightarrow> paper_session \<Rightarrow> bool" where
  "session_path A s s' \<equiv> account_path A (ss_paper s) (ss_paper s')"

lemma session_context_approval [simp]: "\<not> cx_live_approval_valid (fst (session_context cfg v sy s))"
  by (simp add: session_context_def case_prod_beta Let_def)

lemma marked_path: "session_pair cfg \<in> A \<Longrightarrow> account_path A ps (marked_session cfg v sy ps)"
  by (auto simp: marked_session_def intro: account_mark)

lemma session_mark_path: "session_pair cfg \<in> A \<Longrightarrow> session_path A s (snd (session_mark cfg v sy s))"
  by (simp add: marked_path)

lemma submit_path:
  assumes "session_submit cfg v rq s = (res, s')" and "session_pair cfg \<in> A"
  shows "session_path A s s'"
  using assms(1)
proof (cases rule: session_submit_cases)
  case (ordered od rs)
  from gateway_path [OF ordered(3) assms(2) session_context_approval] marked_path [OF assms(2)]
  show ?thesis by (rule rtranclp_trans [rotated])
qed (simp_all add: marked_path [OF assms(2)])

lemma after_persist_paper [simp]: "ss_paper (after_persist v s) = ss_paper s"
  by (simp add: after_persist_def)

lemma place_path:
  assumes "session_pair cfg \<in> A"
  shows "session_path A s (snd (session_place_order cfg v rq s))"
proof -
  let ?s1 = "snd (session_mark cfg v (rq_symbol rq) s)"
  have "session_path A s (snd (session_submit cfg v rq' ?s1))" for rq'
    using session_mark_path [OF assms] submit_path [OF prod.collapse [symmetric] assms] by (rule rtranclp_trans)
  then show ?thesis by (auto simp: session_place_order_def Let_def case_prod_beta split: sum.split)
qed

lemma close_passes_path:
  assumes "session_pair cfg \<in> A"
  shows "close_passes cfg v sy name k lst s = (res, s') \<Longrightarrow> session_path A s s'"
proof (induction k arbitrary: lst s)
  case (Suc k)
  let ?s1 = "snd (session_mark cfg (v (Suc k)) sy s)"
  obtain res2 s2 where sub: "session_submit cfg (v (Suc k))
      (session_close_request (v (Suc k)) sy name (held_quantity sy s) (fst (session_mark cfg (v (Suc k)) sy s))) ?s1 = (res2, s2)"
    by fastforce
  have s1: "session_path A s ?s1" by (rule session_mark_path [OF assms])
  have s2: "session_path A s s2" by (rule rtranclp_trans [OF s1 submit_path [OF sub assms]])
  from Suc.IH have "close_passes cfg v sy name k lst s2 = (res, s') \<Longrightarrow> session_path A s s'" for lst
    using s2 rtranclp_trans by fast
  with Suc.prems sub s1 s2 show ?case
    by (auto simp: Let_def case_prod_beta split: if_splits sum.splits)
qed simp

lemma close_path:
  assumes "session_pair cfg \<in> A"
  shows "session_path A s (snd (session_close_position cfg v sy s))"
  using close_passes_path [OF assms prod.collapse [symmetric], where v = v and sy = sy and name = "Some ''manual''"
      and k = 4 and lst = None and s = s]
  by (auto simp: session_close_position_def case_prod_beta split: sum.split)

lemma tick_cycle_path:
  assumes "tick_cycle cfg base te sid strat s = (res, s')" and "session_pair cfg \<in> A" and "cycle_pair base \<in> A"
  shows "session_path A s s'"
proof -
  from assms(1) obtain ccfg cenv rt0 where c: "run_paper_trading_cycle ccfg cenv rt0 = (res, ss_runtime s')"
    and pair: "cycle_pair ccfg = cycle_pair base"
    and rt0: "\<exists>pe sy price. rt_paper rt0 = set_mark_price (sg_paper cfg) pe sy price (ss_paper s)"
    by (fastforce simp: tick_cycle_def Let_def case_prod_beta with_paper_def prod_eq_iff)
  have "account_path A (ss_paper s) (rt_paper rt0)"
    using rt0 assms(2) by (metis account_mark r_into_rtranclp)
  moreover have "account_path A (rt_paper rt0) (ss_paper s')"
    using cycle_path [OF c] assms(3) pair by simp
  ultimately show ?thesis by (rule rtranclp_trans)
qed

lemma log_tick_paper [simp]: "ss_paper (log_tick v name ver sy r s) = ss_paper s"
  by (simp add: log_tick_def Let_def set_kill_switch_def split: option.split)

lemma start_strategy_path:
  assumes "session_pair cfg \<in> A" and "cycle_pair base \<in> A"
  shows "session_path A s (snd (start_strategy cfg base reg te sid s))"
proof (cases "select_strategy reg sid s")
  case (Inr s1)
  then obtain strat where reg: "get_strategy reg sid = Inr strat" and s1: "ss_paper s1 = ss_paper s"
    by (auto simp: select_strategy_def split: sum.splits)
  let ?s2 = "s1\<lparr>ss_running_strategies := insert sid (ss_running_strategies s1)\<rparr>"
  have "session_path A ?s2 (snd (tick_cycle cfg base te sid strat ?s2))"
    by (rule tick_cycle_path [OF prod.collapse [symmetric] assms])
  with Inr reg s1 show ?thesis
    by (auto simp: start_strategy_def run_strategy_tick_def case_prod_beta split: sum.split)
qed (simp add: start_strategy_def)

subsection \<open>The platform\<close>

definition platform_pairs :: "platform_config \<Rightarrow> (settings \<times> paper_config) set" where
  "platform_pairs pg = {session_pair (pg_session pg), cycle_pair (pg_cycle pg)}"

lemma platform_pairs [simp]:
  "session_pair (pg_session pg) \<in> platform_pairs pg" "cycle_pair (pg_cycle pg) \<in> platform_pairs pg"
  by (simp_all add: platform_pairs_def)

text \<open>The events that put another account in place: a reset an operator asks for, and a restart.\<close>

fun replacing :: "endpoint \<Rightarrow> bool" where
  "replacing (PaperReset c) = (c = ''RESET_PAPER_ACCOUNT'')"
| "replacing (VersionedReset c) = (c = ''RESET_PAPER_ACCOUNT'')"
| "replacing _ = False"

fun replaces :: "platform_config \<Rightarrow> event \<Rightarrow> bool" where
  "replaces pg (Request cd e) = (replacing e \<and> require_admin_token pg cd = Inr ())"
| "replaces pg (Restart v) = True"
| "replaces pg _ = False"

abbreviation platform_path :: "platform_config \<Rightarrow> platform \<Rightarrow> platform \<Rightarrow> bool" where
  "platform_path pg p p' \<equiv> session_path (platform_pairs pg) (pl_session p) (pl_session p')"

lemma shared_cycle_path: "platform_path pg p (snd (run_shared_cycle ver pg q body p))"
proof (cases "get_strategy (qe_registry q) (cb_strategy_id body)")
  case (Inr strat)
  obtain res rt where c: "run_paper_trading_cycle (requested_cycle pg body strat p) (qe_cycle q)
      (ss_runtime (pl_session p)) = (res, rt)" by fastforce
  have "cycle_pair (requested_cycle pg body strat p) \<in> platform_pairs pg"
    by (simp add: requested_cycle_def platform_pairs_def)
  from cycle_path [OF c this] Inr c show ?thesis
    by (auto simp: run_shared_cycle_def mirror_cycle_def mirror_order_def mirror_risk_def record_equity_point_def
        Let_def split: sum.split option.split list.split)
qed (simp add: run_shared_cycle_def)

lemma run_one_cycle_path:
  assumes "run_one_cycle base reg st env (sc, rt) = (res, sc', rt')" and "cycle_pair base \<in> A"
  shows "account_path A (rt_paper rt) (rt_paper rt')"
proof -
  have cyc: "account_path A (rt_paper rt) (rt_paper (snd (run_paper_trading_cycle (scheduled_cycle base st s) cenv rt)))"
    for s cenv using assms(2)
    by (intro cycle_path [OF prod.collapse [symmetric]]) (simp add: scheduled_cycle_def)
  have paused: "rt_paper (set_session_paused b r) = rt_paper r" for b r by (simp add: set_session_paused_def)
  from assms(1) cyc show ?thesis
    by (auto simp: run_one_cycle_def run_failed_def run_succeeded_def paused Let_def case_prod_beta
        split: sum.splits option.splits if_splits)
qed

lemma scheduler_path: "platform_path pg p (scheduler_event pg q p)"
proof -
  obtain res sc rt where run: "run_one_cycle (pg_cycle pg) (qe_registry q) (platform_settings pg p) (qe_scheduler q)
      (pl_scheduler p, ss_runtime (pl_session p)) = (res, sc, rt)" by (metis prod_cases3)
  from run_one_cycle_path [OF run, of "platform_pairs pg"] show ?thesis by (simp add: scheduler_event_def run)
qed

lemma reconcile_paper [simp]:
  "ss_paper (pl_session (reconcile_session pg q p)) = ss_paper (pl_session p)"
  "ss_paper (pl_session (control_clear_halt pg q p)) = ss_paper (pl_session p)"
  by (simp_all add: reconcile_session_def control_clear_halt_def with_recon_def Let_def case_prod_beta)

lemma flags_paper [simp]:
  "ss_paper (set_trading_enabled b s) = ss_paper s" "ss_paper (set_paused b s) = ss_paper s"
  "ss_paper (database_health b s) = ss_paper s" "ss_paper (set_kill_switch v b s) = ss_paper s"
  "ss_paper (with_flags fl s) = ss_paper s"
  by (simp_all add: set_trading_enabled_def set_paused_def set_session_paused_def database_health_def
      set_kill_switch_def Let_def)

lemma serve_path:
  assumes "\<not> replacing e"
  shows "platform_path pg p (snd (serve pg q e p))"
proof (cases e)
  case (ClosePosition sy)
  with close_path [OF platform_pairs(1)] show ?thesis
    by (auto simp: control_close_def Let_def case_prod_beta split: sum.split)
next
  case (PlaceOrder rq)
  with place_path [OF platform_pairs(1)] show ?thesis
    by (auto simp: control_order_def Let_def case_prod_beta split: sum.split)
next
  case (StartStrategy sid)
  with start_strategy_path [OF platform_pairs] show ?thesis
    by (auto simp: control_start_strategy_def Let_def case_prod_beta split: sum.split)
next
  case (TradingCycle body)
  with shared_cycle_path show ?thesis by (auto simp: control_cycle_def Let_def case_prod_beta split: sum.split)
next
  case (VersionedCycle body)
  with shared_cycle_path show ?thesis by (auto simp: versioned_cycle_def)
next
  case (PaperReset c)
  with assms show ?thesis by (simp add: confirmed_def)
next
  case (VersionedReset c)
  with assms show ?thesis by (simp add: confirmed_def)
qed (auto simp: confirmed_def control_strategy_def select_strategy_def stop_strategy_def update_params_def
      control_kill_def control_pause_def control_start_def control_stop_def control_resume_def control_mvp_kill_def
      shim_enable_def control_enable_def control_health_def control_ready_def control_view_def Let_def
      split: sum.splits)

lemma happen_path:
  assumes "\<not> replaces pg e"
  shows "platform_path pg p (happen pg (q, e) p)"
proof (cases e)
  case (Request cd ep)
  show ?thesis
  proof (cases "replacing ep")
    case True
    with assms Request have "require_admin_token pg cd \<noteq> Inr ()" "\<not> public ep"
      by (auto elim: replacing.elims)
    then obtain code where "require_admin_token pg cd = Inl code" by (cases "require_admin_token pg cd") auto
    with Request \<open>\<not> public ep\<close> show ?thesis by (simp add: handle_def)
  next
    case False
    with Request serve_path [of ep pg p q] show ?thesis by (auto simp: handle_def split: sum.split)
  qed
next
  case SchedulerTurn
  with scheduler_path show ?thesis by simp
next
  case (Restart v)
  with assms show ?thesis by simp
qed simp

subsection \<open>Keys\<close>

text \<open>Both moves keep every registered key with its order.\<close>

lemma execute_fill_index [simp]:
  "ps_idempotency_index (snd (execute_fill pc v od rq risk mark s)) = ps_idempotency_index s"
  by (simp add: execute_fill_def Let_def case_prod_beta)

lemma lock_notional_index [simp]:
  "ps_idempotency_index (snd (snd (lock_notional v rq risk mark od s))) = ps_idempotency_index s"
  by (simp add: lock_notional_def reserve_buy_def Let_def case_prod_beta split: option.split)

lemma fill_or_rest_index [simp]:
  "ps_idempotency_index (snd (fill_or_rest pc v rq risk mark od s)) = ps_idempotency_index s"
  by (simp add: fill_or_rest_def Let_def case_prod_beta split: option.split bool.split)

lemma place_order_index [simp]:
  "ps_idempotency_index (snd (place_order pc v rq risk od s)) = ps_idempotency_index s"
  by (simp add: place_order_def Let_def case_prod_beta split: option.split)

lemma account_step_keys:
  assumes "account_step A ps ps'" and "map_of (ps_idempotency_index ps) key = Some oid"
  shows "map_of (ps_idempotency_index ps') key = Some oid"
  using assms
proof cases
  case (account_order st pc rq cx md_now now rs ev rs' v od)
  then show ?thesis using assms(2)
    by (auto simp: submit_def register_order_def Let_def case_prod_beta prod_eq_iff map_of_update_if
        split: option.splits if_splits)
qed simp

lemma account_path_keys:
  "account_path A ps ps' \<Longrightarrow> map_of (ps_idempotency_index ps) key = Some oid
    \<Longrightarrow> map_of (ps_idempotency_index ps') key = Some oid"
  by (induction rule: rtranclp_induct) (auto intro: account_step_keys)

subsection \<open>Every event sequence\<close>

lemma fold_path:
  assumes "list_all (\<lambda>(q, e). \<not> replaces pg e) events"
  shows "platform_path pg p (fold (happen pg) events p)"
  using assms
proof (induction events arbitrary: p)
  case (Cons x events)
  obtain q e where x: "x = (q, e)" by fastforce
  with Cons.prems have "platform_path pg p (happen pg x p)" by (simp add: happen_path del: happen.simps)
  with Cons.IH [of "happen pg x p"] Cons.prems show ?case by (simp add: rtranclp_trans)
qed simp



end
