(* ===== verification/Candle_Validation.thy ===== *)
theory Candle_Validation
  imports Domain
begin

text \<open>
  The candle validator \<open>app/market_data/validators/candles.py\<close>: the sanity of one candle, and
  duplicates, gaps and regressions of a series. Issues carry their code and the index in the sorted
  series; their message texts are not modelled. \<open>missing_from\<close> is the loop that lists the times
  of a gap; it ends because every time frame is positive.
\<close>

subsection \<open>Definitions\<close>

definition timeframe_deltas :: "(string \<times> int) list" where
  "timeframe_deltas = [(''1m'', seconds 60), (''5m'', seconds 300), (''15m'', seconds 900),
     (''1h'', seconds 3600), (''4h'', seconds 14400)]"

datatype issue_code =
    OHLC_LOW_INVALID | OHLC_HIGH_INVALID | OHLC_HIGH_LT_LOW | VOLUME_NEGATIVE | PRICE_NEGATIVE
  | UNSUPPORTED_TIMEFRAME | DUPLICATE_CANDLE | MISSING_CANDLE | CONTINUITY_REGRESSION

record validation_issue =
  vi_code :: issue_code
  vi_index :: "nat option"

record validation_result =
  vr_ok :: bool
  vr_issues :: "validation_issue list"
  vr_missing :: "timestamp list"
  vr_duplicates :: "timestamp list"

definition issue_if :: "bool \<Rightarrow> issue_code \<Rightarrow> nat option \<Rightarrow> validation_issue list" where
  "issue_if b code index = (if b then [\<lparr>vi_code = code, vi_index = index\<rparr>] else [])"

definition validate_ohlc_sanity :: "candle \<Rightarrow> nat option \<Rightarrow> validation_issue list" where
  "validate_ohlc_sanity c index =
     issue_if (c_low c > c_open c \<or> c_low c > c_close c) OHLC_LOW_INVALID index
   @ issue_if (c_high c < c_open c \<or> c_high c < c_close c) OHLC_HIGH_INVALID index
   @ issue_if (c_high c < c_low c) OHLC_HIGH_LT_LOW index
   @ issue_if (c_volume c < 0) VOLUME_NEGATIVE index
   @ issue_if (list_ex (\<lambda>v. v < 0) [c_open c, c_high c, c_low c, c_close c]) PRICE_NEGATIVE index"

text \<open>The loop \<open>while cursor < ts\<close>; the first conjunct makes it total for every step.\<close>

function missing_from :: "int \<Rightarrow> timestamp \<Rightarrow> timestamp \<Rightarrow> timestamp list" where
  "missing_from delta cursor ts =
     (if 0 < delta \<and> cursor < ts then cursor # missing_from delta (cursor + delta) ts else [])"
  by auto
termination by (relation "measure (\<lambda>(d, c, t). nat (t - c))") auto

definition gap_missing :: "int \<Rightarrow> timestamp \<Rightarrow> timestamp \<Rightarrow> timestamp list" where
  "gap_missing delta prev ts = (if ts > prev + delta then missing_from delta (prev + delta) ts else [])"

definition gap_issues :: "int \<Rightarrow> timestamp \<Rightarrow> timestamp \<Rightarrow> nat \<Rightarrow> validation_issue list" where
  "gap_issues delta prev ts idx =
     (if ts > prev + delta
      then map (\<lambda>_. \<lparr>vi_code = MISSING_CANDLE, vi_index = Some idx\<rparr>) (gap_missing delta prev ts)
      else if ts < prev + delta then [\<lparr>vi_code = CONTINUITY_REGRESSION, vi_index = Some idx\<rparr>]
      else [])"

text \<open>The body of the loop over the sorted candles, from index \<open>idx\<close> on.\<close>

fun check_series :: "int option \<Rightarrow> nat \<Rightarrow> timestamp list \<Rightarrow> timestamp option \<Rightarrow> candle list
  \<Rightarrow> validation_issue list \<times> timestamp list \<times> timestamp list" where
  "check_series delta idx seen prev [] = ([], [], [])"
| "check_series delta idx seen prev (c # cs) =
     (let ts = c_open_time c;
          dup = ts \<in> set seen;
          gap = (case delta of None \<Rightarrow> [] | Some d \<Rightarrow>
                   (case prev of None \<Rightarrow> [] | Some p \<Rightarrow> gap_issues d p ts idx));
          lost = (case delta of None \<Rightarrow> [] | Some d \<Rightarrow>
                   (case prev of None \<Rightarrow> [] | Some p \<Rightarrow> gap_missing d p ts));
          (issues, missing, duplicates) = check_series delta (idx + 1) (ts # seen) (Some ts) cs
      in (validate_ohlc_sanity c (Some idx) @ issue_if dup DUPLICATE_CANDLE (Some idx) @ gap @ issues,
          lost @ missing, (if dup then [ts] else []) @ duplicates))"

definition validate_candles :: "candle list \<Rightarrow> string option \<Rightarrow> bool \<Rightarrow> py_error + validation_result" where
  "validate_candles candles timeframe raise_on_error =
     (if candles = [] then Inr \<lparr>vr_ok = True, vr_issues = [], vr_missing = [], vr_duplicates = []\<rparr>
      else
        let tf = (case timeframe of Some t \<Rightarrow> if t \<noteq> [] then t else c_timeframe (hd candles)
                    | None \<Rightarrow> c_timeframe (hd candles));
            delta = map_of timeframe_deltas tf;
            (issues, missing, duplicates) =
              check_series delta 0 [] None (sort_key c_open_time candles);
            all_issues = issue_if (delta = None) UNSUPPORTED_TIMEFRAME None @ issues;
            result = \<lparr>vr_ok = (all_issues = []), vr_issues = all_issues, vr_missing = missing,
                      vr_duplicates = duplicates\<rparr>
        in if raise_on_error \<and> \<not> vr_ok result
           then Inl (ValueError ''Candle validation failed'') else Inr result)"

subsection \<open>Lemmas\<close>

declare missing_from.simps [simp del]

lemma issue_if_Nil [simp]: "issue_if b code idx = [] \<longleftrightarrow> \<not> b"
  by (simp add: issue_if_def)

lemma timeframe_delta_pos: "map_of timeframe_deltas tf = Some d \<Longrightarrow> 0 < d"
  by (auto simp: timeframe_deltas_def seconds_def split: if_splits)

lemma set_missing_from:
  "0 < d \<Longrightarrow> set (missing_from d c ts) = {t. \<exists>k::nat. t = c + int k * d \<and> t < ts}"
proof (induction d c ts rule: missing_from.induct)
  case (1 d c ts)
  show ?case
  proof (cases "c < ts")
    case True
    have "{t. \<exists>k::nat. t = c + int k * d \<and> t < ts}
        = insert c {t. \<exists>k::nat. t = (c + d) + int k * d \<and> t < ts}" (is "?A = insert c ?B")
    proof (intro set_eqI iffI)
      fix t assume "t \<in> ?A"
      then obtain k :: nat where k: "t = c + int k * d" "t < ts" by blast
      show "t \<in> insert c ?B"
      proof (cases k)
        case (Suc j)
        with k have "t = c + d + int j * d \<and> t < ts" by (simp add: algebra_simps)
        then show ?thesis by blast
      qed (use k in simp)
    next
      fix t assume t: "t \<in> insert c ?B"
      show "t \<in> ?A"
      proof (cases "t = c")
        case True
        with \<open>c < ts\<close> have "t = c + int 0 * d \<and> t < ts" by simp
        then show ?thesis by blast
      next
        case False
        with t obtain k :: nat where "t = c + d + int k * d" "t < ts" by blast
        then have "t = c + int (Suc k) * d \<and> t < ts" by (simp add: algebra_simps)
        then show ?thesis by blast
      qed
    qed
    with 1 True show ?thesis by (subst missing_from.simps) simp
  next
    case False
    have "c + int k * d \<ge> c" for k :: nat using "1.prems" by simp
    then have "\<not> c + int k * d < ts" for k :: nat using False by (meson order.strict_trans1)
    with False show ?thesis by (subst missing_from.simps) auto
  qed
qed

lemma gap_missing_Nil: "0 < d \<Longrightarrow> gap_missing d p ts = [] \<longleftrightarrow> ts \<le> p + d"
  by (auto simp: gap_missing_def missing_from.simps)

lemma gap_issues_Nil: "0 < d \<Longrightarrow> gap_issues d p ts idx = [] \<longleftrightarrow> ts = p + d"
  using gap_missing_Nil[of d p ts] by (auto simp: gap_issues_def)

definition candle_sane :: "candle \<Rightarrow> bool" where
  "candle_sane c \<longleftrightarrow> ohlc_sane c \<and> 0 \<le> c_open c \<and> 0 \<le> c_high c \<and> 0 \<le> c_low c \<and> 0 \<le> c_close c"

lemma sanity_Nil [simp]: "validate_ohlc_sanity c idx = [] \<longleftrightarrow> candle_sane c"
  by (auto simp: validate_ohlc_sanity_def candle_sane_def ohlc_sane_def)

text \<open>A gap-free progression of step \<open>d\<close>.\<close>

definition progression :: "int \<Rightarrow> timestamp list \<Rightarrow> bool" where
  "progression d ts \<longleftrightarrow> (\<forall>(a, b) \<in> set (zip ts (tl ts)). b = a + d)"

lemma progression_simps [simp]:
  "progression d [t]" "progression d (s # t # ts) \<longleftrightarrow> t = s + d \<and> progression d (t # ts)"
  by (auto simp: progression_def)

lemma check_series_ok:
  assumes "0 < d" and "\<forall>t \<in> set seen. t \<le> p" and "p \<in> set seen"
  shows "fst (check_series (Some d) idx seen (Some p) cs) = [] \<longleftrightarrow>
    (\<forall>c \<in> set cs. candle_sane c) \<and> progression d (p # map c_open_time cs)"
  using assms
proof (induction cs arbitrary: idx seen p)
  case (Cons c cs)
  let ?ts = "c_open_time c"
  show ?case
  proof (cases "?ts = p + d")
    case True
    then have "?ts \<notin> set seen" and "\<forall>t \<in> set (?ts # seen). t \<le> ?ts" using Cons.prems by force+
    with Cons.IH[of "?ts # seen" ?ts "Suc idx"] Cons.prems True show ?thesis
      by (auto simp: gap_issues_Nil Let_def split: prod.splits)
  next
    case False
    with Cons.prems gap_issues_Nil[of d p ?ts idx] show ?thesis by (auto simp: Let_def split: prod.splits)
  qed
qed simp

text \<open>The times a pair of neighbours \<open>(a, b)\<close> leaves out.\<close>

definition between :: "int \<Rightarrow> timestamp \<Rightarrow> timestamp \<Rightarrow> timestamp set" where
  "between d a b = {t. \<exists>k::nat. t = a + d + int k * d \<and> t < b}"

lemma set_gap_missing: "0 < d \<Longrightarrow> set (gap_missing d a b) = between d a b"
proof -
  assume d: "0 < d"
  show ?thesis
  proof (cases "b > a + d")
    case True
    with d show ?thesis by (simp add: gap_missing_def set_missing_from between_def)
  next
    case False
    have "a + d \<le> a + d + int k * d" for k :: nat using d by simp
    then have "\<not> a + d + int k * d < b" for k :: nat using False by (meson order.strict_trans1)
    then have "between d a b = {}" by (auto simp: between_def)
    with False show ?thesis by (simp add: gap_missing_def)
  qed
qed

lemma check_series_missing:
  assumes "0 < d"
  shows "set (fst (snd (check_series (Some d) idx seen (Some p) cs))) =
    (\<Union>(a, b) \<in> set (zip (p # map c_open_time cs) (map c_open_time cs)). between d a b)"
proof (induction cs arbitrary: idx seen p)
  case (Cons c cs)
  from Cons[of "Suc idx" "c_open_time c # seen" "c_open_time c"] show ?case
    by (auto simp: set_gap_missing[OF assms] Let_def split: prod.splits)
qed simp

subsection \<open>Properties\<close>

definition series_timeframe :: "candle list \<Rightarrow> string option \<Rightarrow> string" where
  "series_timeframe cs tf = (case tf of None \<Rightarrow> c_timeframe (hd cs)
     | Some t \<Rightarrow> if t = [] then c_timeframe (hd cs) else t)"

definition series_ok :: "candle list \<Rightarrow> string option \<Rightarrow> bool" where
  "series_ok cs tf \<longleftrightarrow> cs = [] \<or>
     (\<exists>d. map_of timeframe_deltas (series_timeframe cs tf) = Some d
        \<and> (\<forall>c \<in> set cs. candle_sane c) \<and> progression d (sort (map c_open_time cs)))"

lemma sorted_times: "map c_open_time (sort_key c_open_time cs) = sort (map c_open_time cs)"
  by (rule properties_for_sort[symmetric]) (metis mset_map mset_sort, simp)

lemma check_sorted_ok:
  assumes "0 < d"
  shows "fst (check_series (Some d) 0 [] None (sort_key c_open_time cs)) = [] \<longleftrightarrow>
    (\<forall>c \<in> set cs. candle_sane c) \<and> progression d (sort (map c_open_time cs))"
proof (cases "sort_key c_open_time cs")
  case Nil
  then have "cs = []" by (metis length_0_conv length_sort)
  then show ?thesis by (simp add: progression_def)
next
  case (Cons c rest)
  have "set cs = set (c # rest)" by (metis Cons set_sort)
  moreover have "sort (map c_open_time cs) = c_open_time c # map c_open_time rest"
    using sorted_times[of cs] Cons by simp
  ultimately show ?thesis
    using check_series_ok[OF assms, of "[c_open_time c]" "c_open_time c" 1 rest] Cons
    by (auto simp: Let_def split: prod.splits)
qed

text \<open>
  The verdict of the validator, and what its raising form returns.
\<close>

lemma validate_verdict: "\<exists>r. validate_candles cs tf False = Inr r \<and> vr_ok r = series_ok cs tf"
proof (cases "cs = [] \<or> map_of timeframe_deltas (series_timeframe cs tf) = None")
  case True
  then show ?thesis
    by (auto simp: validate_candles_def series_ok_def series_timeframe_def issue_if_def Let_def
        split: option.splits prod.splits if_splits)
next
  case False
  then obtain d where d: "map_of timeframe_deltas (series_timeframe cs tf) = Some d" by blast
  obtain iss ms ds where chk: "check_series (Some d) 0 [] None (sort_key c_open_time cs) = (iss, ms, ds)"
    by (metis prod_cases3)
  have "iss = [] \<longleftrightarrow> series_ok cs tf"
    using check_sorted_ok[OF timeframe_delta_pos[OF d], of cs] chk d False by (auto simp: series_ok_def)
  with False d chk show ?thesis
    by (cases tf) (auto simp: validate_candles_def series_timeframe_def issue_if_def Let_def split: if_splits)
qed

lemma validate_raising:
  "validate_candles cs tf True =
     (case validate_candles cs tf False of
        Inl e \<Rightarrow> Inl e
      | Inr r \<Rightarrow> if vr_ok r then Inr r else Inl (ValueError ''Candle validation failed''))"
  by (simp add: validate_candles_def Let_def split_beta)

text \<open>
  The validator accepts a series exactly when it should: when it is empty, or when its time
  frame is known, every candle is sane, and its open times, sorted, go up by one time frame each.
  With \<open>raise_on_error\<close> everything else raises.
\<close>

lemma candle_validation_exact:
  "(case validate_candles cs tf True of Inl _ \<Rightarrow> \<not> series_ok cs tf | Inr r \<Rightarrow> vr_ok r \<and> series_ok cs tf)
   \<and> (\<exists>r. validate_candles cs tf False = Inr r \<and> vr_ok r = series_ok cs tf)"
  using validate_verdict [of cs tf] by (auto simp: validate_raising)

text \<open>
  The gap report is exact: for a known time frame, the missing times of a series are
  exactly the times \<open>a + k * delta\<close> (\<open>k \<ge> 1\<close>) that lie before the next candle \<open>b\<close>, for the
  neighbours \<open>a\<close>, \<open>b\<close> in the sorted series.
\<close>

lemma candle_gaps_exact:
  assumes "map_of timeframe_deltas (series_timeframe cs tf) = Some d" and "validate_candles cs tf False = Inr r"
  shows "set (vr_missing r) =
    (let ts = sort (map c_open_time cs) in
     {t. \<exists>(a, b) \<in> set (zip ts (tl ts)). \<exists>k::nat. 1 \<le> k \<and> t = a + int k * d \<and> t < b})"
proof -
  have btw: "between d a b = {t. \<exists>k::nat. 1 \<le> k \<and> t = a + int k * d \<and> t < b}" for a b
  proof -
    have "(\<exists>k::nat. t = a + d + int k * d \<and> t < b) \<longleftrightarrow> (\<exists>k::nat. 1 \<le> k \<and> t = a + int k * d \<and> t < b)" for t
    proof
      assume "\<exists>k::nat. t = a + d + int k * d \<and> t < b"
      then obtain k :: nat where "t = a + d + int k * d" "t < b" by blast
      then have "1 \<le> Suc k \<and> t = a + int (Suc k) * d \<and> t < b" by (simp add: algebra_simps)
      then show "\<exists>k::nat. 1 \<le> k \<and> t = a + int k * d \<and> t < b" by blast
    next
      assume "\<exists>k::nat. 1 \<le> k \<and> t = a + int k * d \<and> t < b"
      then obtain k :: nat where "1 \<le> k" "t = a + int k * d" "t < b" by blast
      then have "t = a + d + int (k - 1) * d \<and> t < b" by (simp add: of_nat_diff algebra_simps)
      then show "\<exists>k::nat. t = a + d + int k * d \<and> t < b" by blast
    qed
    then show ?thesis by (simp add: between_def)
  qed
  show ?thesis
  proof (cases "sort_key c_open_time cs")
    case Nil
    then have "cs = []" by (metis length_0_conv length_sort)
    with assms(2) show ?thesis by (auto simp: validate_candles_def)
  next
    case (Cons c rest)
    then have ne: "cs \<noteq> []" by auto
    have ts: "sort (map c_open_time cs) = c_open_time c # map c_open_time rest"
      using sorted_times[of cs] Cons by simp
    have "vr_missing r = fst (snd (check_series (Some d) 0 [] None (sort_key c_open_time cs)))"
      using assms ne by (cases tf)
        (auto simp: validate_candles_def series_timeframe_def Let_def split: if_splits prod.splits)
    also have "\<dots> = fst (snd (check_series (Some d) 1 [c_open_time c] (Some (c_open_time c)) rest))"
      by (simp add: Cons Let_def split: prod.splits)
    finally show ?thesis
      using check_series_missing[OF timeframe_delta_pos[OF assms(1)], of 1 "[c_open_time c]" "c_open_time c" rest]
      by (auto simp: ts btw Let_def)
  qed
qed

lemma validate_no_raise: "\<exists>r. validate_candles cs tf False = Inr r"
  by (simp add: validate_candles_def Let_def split_beta)

definition minute_candle :: "int \<Rightarrow> candle" where
  "minute_candle n = \<lparr>c_symbol = ''BTC/USDT'', c_timeframe = ''1m'', c_open_time = seconds (60 * n),
     c_open = 10, c_high = 10, c_low = 10, c_close = 10, c_volume = 1,
     c_close_time = None, c_quote_volume = None, c_trade_count = None, c_is_closed = True\<rparr>"

lemma candle_gaps_exact_witness:
  "\<exists>r. validate_candles [minute_candle 3, minute_candle 1] None False = Inr r
     \<and> seconds 120 \<in> set (vr_missing r)"
proof -
  let ?cs = "[minute_candle 3, minute_candle 1]"
  have tf: "map_of timeframe_deltas (series_timeframe ?cs None) = Some (seconds 60)"
    by (simp add: series_timeframe_def minute_candle_def timeframe_deltas_def)
  obtain r where r: "validate_candles ?cs None False = Inr r" using validate_no_raise by blast
  have "sort (map c_open_time ?cs) = [seconds 60, seconds 180]"
    by (simp add: minute_candle_def seconds_def)
  then have "seconds 120 \<in> set (vr_missing r)"
    using candle_gaps_exact[OF tf r] by (auto simp: seconds_def intro!: exI[of _ 1])
  with r show ?thesis by blast
qed

end
