(* ===== verification/Market_Feed.thy ===== *)
theory Market_Feed
  imports Candle_Validation Indicators Paper_Cycle
begin

text \<open>
  How candles reach a cycle: retries (\<open>market_data/providers/retry.py\<close>), the providers
  (\<open>providers/binance.py\<close>, \<open>providers/bybit.py\<close>), the validating facade (\<open>facade.py\<close>) and the hub
  that keeps its health (\<open>hub.py\<close>), the choice of a source (\<open>services/market_sources.py\<close>) with the
  offline series (\<open>services/sample_market.py\<close>), the candle table (\<open>market_data/service.py\<close>), and
  the websocket client (\<open>websocket/client.py\<close>).

  An exchange is a state transformer, an argument of the definitions: a call answers with rows or
  raises, and moves on. Delays are rationals; the random part of a delay is an argument too.
\<close>

datatype feed_error =
    ProviderRetryError
  | FeedError py_error

subsection \<open>Retries\<close>

record retry_policy =
  ry_max_attempts :: nat
  ry_base_delay :: rat
  ry_max_delay :: rat

definition default_retry :: retry_policy where
  "default_retry = \<lparr>ry_max_attempts = 5, ry_base_delay = 1 / 10, ry_max_delay = 5\<rparr>"

definition provider_retry :: retry_policy where
  "provider_retry = default_retry\<lparr>ry_max_attempts := 5, ry_base_delay := 5 / 100\<rparr>"

definition retry_delay :: "retry_policy \<Rightarrow> (nat \<Rightarrow> rat) \<Rightarrow> nat \<Rightarrow> rat" where
  "retry_delay ry jitter attempt = min (ry_max_delay ry) (ry_base_delay ry * 2 ^ (attempt - 1)) + jitter attempt"

text \<open>The attempts from number \<open>attempt\<close> on, \<open>left\<close> of them; with the delays slept in between.\<close>

fun retry_from :: "retry_policy \<Rightarrow> (nat \<Rightarrow> rat) \<Rightarrow> ('s \<Rightarrow> ('e + 'a) \<times> 's) \<Rightarrow> nat \<Rightarrow> nat \<Rightarrow> 's
  \<Rightarrow> (feed_error + 'a) \<times> rat list \<times> 's" where
  "retry_from ry jitter f 0 attempt s = (Inl ProviderRetryError, [], s)"
| "retry_from ry jitter f (Suc left) attempt s =
     (case f s of
        (Inr x, s1) \<Rightarrow> (Inr x, [], s1)
      | (Inl e, s1) \<Rightarrow>
          if left = 0 then (Inl ProviderRetryError, [], s1)
          else
            let (res, delays, s2) = retry_from ry jitter f left (attempt + 1) s1
            in (res, retry_delay ry jitter attempt # delays, s2))"

definition with_exponential_backoff :: "retry_policy \<Rightarrow> (nat \<Rightarrow> rat) \<Rightarrow> ('s \<Rightarrow> ('e + 'a) \<times> 's) \<Rightarrow> 's
  \<Rightarrow> (feed_error + 'a) \<times> rat list \<times> 's" where
  "with_exponential_backoff ry jitter f s = retry_from ry jitter f (ry_max_attempts ry) 1 s"

subsection \<open>Providers\<close>

record ohlcv_row =
  ow_open_ms :: int
  ow_open :: decimal
  ow_high :: decimal
  ow_low :: decimal
  ow_close :: decimal
  ow_volume :: decimal

definition normalize_candle_timestamps :: "candle \<Rightarrow> py_error + candle" where
  "normalize_candle_timestamps c = make_candle c"

fun normalize_candles :: "candle list \<Rightarrow> py_error + candle list" where
  "normalize_candles [] = Inr []"
| "normalize_candles (c # cs) =
     (case normalize_candle_timestamps c of
        Inl e \<Rightarrow> Inl e
      | Inr c' \<Rightarrow> (case normalize_candles cs of Inl e \<Rightarrow> Inl e | Inr cs' \<Rightarrow> Inr (c' # cs')))"

definition row_candle :: "string \<Rightarrow> string \<Rightarrow> ohlcv_row \<Rightarrow> py_error + candle" where
  "row_candle symbol timeframe row =
     (case make_candle \<lparr>c_symbol = symbol, c_timeframe = timeframe, c_open_time = ow_open_ms row * 1000,
        c_open = ow_open row, c_high = ow_high row, c_low = ow_low row, c_close = ow_close row,
        c_volume = ow_volume row, c_close_time = None, c_quote_volume = None, c_trade_count = None,
        c_is_closed = True\<rparr> of
        Inl e \<Rightarrow> Inl e
      | Inr c \<Rightarrow> normalize_candle_timestamps c)"

fun row_candles :: "string \<Rightarrow> string \<Rightarrow> int option \<Rightarrow> ohlcv_row list \<Rightarrow> py_error + candle list" where
  "row_candles symbol timeframe until_ms [] = Inr []"
| "row_candles symbol timeframe until_ms (row # rows) =
     (if (case until_ms of Some u \<Rightarrow> ow_open_ms row > u | None \<Rightarrow> False)
      then row_candles symbol timeframe until_ms rows
      else
        case row_candle symbol timeframe row of
          Inl e \<Rightarrow> Inl e
        | Inr c \<Rightarrow>
            (case row_candles symbol timeframe until_ms rows of Inl e \<Rightarrow> Inl e | Inr cs \<Rightarrow> Inr (c # cs)))"

type_synonym 's exchange = "'s \<Rightarrow> (py_error + ohlcv_row list) \<times> 's"

definition fetch_ohlcv :: "settings \<Rightarrow> (nat \<Rightarrow> rat) \<Rightarrow> 's exchange \<Rightarrow> string \<Rightarrow> string \<Rightarrow> int option \<Rightarrow> 's
  \<Rightarrow> (feed_error + candle list) \<times> 's" where
  "fetch_ohlcv st jitter call symbol timeframe until_ms s =
     (if symbol \<notin> set (st_supported_symbols st)
      then (Inl (FeedError (ValueError (''Unsupported symbol: '' @ symbol))), s)
      else if timeframe \<notin> set (st_supported_timeframes st)
      then (Inl (FeedError (ValueError (''Unsupported timeframe: '' @ timeframe))), s)
      else
        let (res, delays, s1) = with_exponential_backoff provider_retry jitter call s
        in case res of
             Inl e \<Rightarrow> (Inl e, s1)
           | Inr rows \<Rightarrow>
               ((case row_candles symbol timeframe until_ms rows of
                   Inl e \<Rightarrow> Inl (FeedError e)
                 | Inr cs \<Rightarrow> Inr cs), s1))"

subsection \<open>Facade and hub\<close>

definition closed_validated :: "candle list \<Rightarrow> feed_error + candle list" where
  "closed_validated raw =
     (case normalize_candles raw of
        Inl e \<Rightarrow> Inl (FeedError e)
      | Inr normalized \<Rightarrow>
          let closed = filter c_is_closed normalized
          in case validate_candles closed None False of
               Inl e \<Rightarrow> Inl (FeedError e)
             | Inr result \<Rightarrow>
                 if vr_ok result then Inr closed
                 else Inl (FeedError (ValueError ''Candle validation failed'')))"

definition load_closed_validated :: "settings \<Rightarrow> (nat \<Rightarrow> rat) \<Rightarrow> 's exchange \<Rightarrow> string \<Rightarrow> string \<Rightarrow> 's
  \<Rightarrow> (feed_error + candle list) \<times> 's" where
  "load_closed_validated st jitter call symbol timeframe s =
     (let (res, s1) = fetch_ohlcv st jitter call symbol timeframe None s
      in ((case res of Inl e \<Rightarrow> Inl e | Inr raw \<Rightarrow> closed_validated raw), s1))"

record hub =
  hb_last_success_at :: "timestamp option"
  hb_last_error :: "feed_error option"
  hb_heartbeat_at :: "timestamp option"
  hb_fetch_ok :: nat
  hb_fetch_fail :: nat
  hb_exchange_skew_ms :: "int option"

definition initial_hub :: hub where
  "initial_hub = \<lparr>hb_last_success_at = None, hb_last_error = None, hb_heartbeat_at = None, hb_fetch_ok = 0,
     hb_fetch_fail = 0, hb_exchange_skew_ms = None\<rparr>"

text \<open>\<open>int(seconds * 1000)\<close> of a difference of two times, truncated towards zero.\<close>

definition milliseconds :: "int \<Rightarrow> int" where
  "milliseconds d = (if 0 \<le> d then d div 1000 else - (- d div 1000))"

text \<open>\<open>now\<close> is the reading at the call, \<open>done_at\<close> the one when the candles have arrived.\<close>

definition hub_load :: "settings \<Rightarrow> (nat \<Rightarrow> rat) \<Rightarrow> 's exchange \<Rightarrow> timestamp \<Rightarrow> timestamp \<Rightarrow> string \<Rightarrow> string
  \<Rightarrow> hub \<times> 's \<Rightarrow> (feed_error + candle list) \<times> hub \<times> 's" where
  "hub_load st jitter call now done_at symbol timeframe x =
     (let (h, s) = x;
          h1 = h\<lparr>hb_heartbeat_at := Some now\<rparr>;
          (res, s1) = load_closed_validated st jitter call symbol timeframe s
      in case res of
           Inr cs \<Rightarrow>
             (Inr cs,
              h1\<lparr>hb_last_success_at := Some done_at, hb_last_error := None, hb_fetch_ok := hb_fetch_ok h1 + 1,
                 hb_exchange_skew_ms := (if cs \<noteq> [] then Some (milliseconds (done_at - c_open_time (last cs)))
                                         else hb_exchange_skew_ms h1)\<rparr>, s1)
         | Inl e \<Rightarrow> (Inl e, h1\<lparr>hb_fetch_fail := hb_fetch_fail h1 + 1, hb_last_error := Some e\<rparr>, s1))"

record hub_status =
  hs_healthy :: bool
  hs_stale :: bool

definition status_of_hub :: "settings \<Rightarrow> timestamp \<Rightarrow> hub \<Rightarrow> hub_status" where
  "status_of_hub st now h =
     (let stale = (case hb_last_success_at h of
                     None \<Rightarrow> True
                   | Some t \<Rightarrow> now - t > seconds (st_market_data_stale_seconds st))
      in \<lparr>hs_healthy = (hb_last_error h = None \<and> \<not> stale), hs_stale = stale\<rparr>)"

subsection \<open>Sample market\<close>

definition interval_minutes :: "(string \<times> int) list" where
  "interval_minutes = [(''1m'', 1), (''5m'', 5), (''15m'', 15), (''1h'', 60), (''4h'', 240)]"

definition interval_step :: "string \<Rightarrow> int" where
  "interval_step interval =
     seconds (60 * (case map_of interval_minutes interval of Some k \<Rightarrow> k | None \<Rightarrow> 1))"

text \<open>The loop of \<open>_closes_to_candles\<close>, from bar \<open>i\<close> on.\<close>

fun candles_from :: "string \<Rightarrow> string \<Rightarrow> timestamp \<Rightarrow> decimal \<Rightarrow> nat \<Rightarrow> decimal list \<Rightarrow> py_error + candle list" where
  "candles_from symbol interval start prev i [] = Inr []"
| "candles_from symbol interval start prev i (raw # closes) =
     (let close = quantize 2 raw;
          opened = (if i > 0 then prev else quantize 2 (dmul close (999 / 1000)))
      in case make_candle \<lparr>c_symbol = symbol, c_timeframe = interval,
             c_open_time = start + interval_step interval * int i, c_open = opened, c_high = max opened close,
             c_low = min opened close, c_close = close, c_volume = 1000, c_close_time = None,
             c_quote_volume = None, c_trade_count = None, c_is_closed = True\<rparr> of
           Inl e \<Rightarrow> Inl e
         | Inr c \<Rightarrow>
             (case candles_from symbol interval start close (i + 1) closes of
                Inl e \<Rightarrow> Inl e
              | Inr cs \<Rightarrow> Inr (c # cs)))"

definition closes_to_candles :: "string \<Rightarrow> string \<Rightarrow> timestamp \<Rightarrow> decimal list \<Rightarrow> py_error + candle list" where
  "closes_to_candles symbol interval start closes = candles_from symbol interval start (hd closes) 0 closes"

definition crossover_closes :: "decimal \<Rightarrow> nat \<Rightarrow> bool \<Rightarrow> decimal list" where
  "crossover_closes base bars force_buy =
     (let low = quantize 2 (dmul base (8 / 10)); high = quantize 2 base
      in if force_buy then replicate 40 low @ [high] else replicate (max bars 30) low)"

text \<open>Without a start the series ends at the present bar; \<open>now\<close> is the clock.\<close>

definition build_ema_crossover_candles :: "timestamp \<Rightarrow> string \<Rightarrow> string \<Rightarrow> timestamp option \<Rightarrow> decimal \<Rightarrow> nat \<Rightarrow> bool
  \<Rightarrow> py_error + candle list" where
  "build_ema_crossover_candles now symbol interval start base bars force_buy =
     (let closes = crossover_closes base bars force_buy;
          begin_at = (case start of Some t \<Rightarrow> t | None \<Rightarrow> now - interval_step interval * int (length closes))
      in closes_to_candles symbol interval begin_at closes)"

text \<open>The first bar whose fast average falls below the slow one; \<open>tip\<close> when there is none.\<close>

fun first_cross_down :: "nat \<Rightarrow> nat \<Rightarrow> decimal option list \<Rightarrow> decimal option list \<Rightarrow> nat" where
  "first_cross_down tip i (Some fp # Some fc # fs) (Some sp # Some sc # ss) =
     (if fp \<ge> sp \<and> fc < sc then i else first_cross_down tip (i + 1) (Some fc # fs) (Some sc # ss))"
| "first_cross_down tip i (fp # fc # fs) (sp # sc # ss) = first_cross_down tip (i + 1) (fc # fs) (sc # ss)"
| "first_cross_down tip i fs ss = tip"

definition crossover_sell_closes :: "decimal \<Rightarrow> py_error + decimal list" where
  "crossover_sell_closes base =
     (let low = quantize 2 (dmul base (8 / 10)); high = quantize 2 base;
          dump = quantize 2 (dmul base (55 / 100));
          closes = replicate 40 low @ replicate 3 high @ replicate 5 dump
      in case (ema closes 9, ema closes 21) of
           (Inr fast, Inr slow) \<Rightarrow> Inr (take (first_cross_down (length closes - 1) 1 fast slow + 1) closes)
         | (Inl e, _) \<Rightarrow> Inl e
         | (_, Inl e) \<Rightarrow> Inl e)"

definition build_ema_crossover_sell_candles :: "timestamp \<Rightarrow> string \<Rightarrow> string \<Rightarrow> timestamp option \<Rightarrow> decimal
  \<Rightarrow> py_error + candle list" where
  "build_ema_crossover_sell_candles now symbol interval start base =
     (case crossover_sell_closes base of
        Inl e \<Rightarrow> Inl e
      | Inr closes \<Rightarrow>
          let begin_at = (case start of Some t \<Rightarrow> t | None \<Rightarrow> now - interval_step interval * int (length closes))
          in closes_to_candles symbol interval begin_at closes)"

definition offline_anchor :: timestamp where
  "offline_anchor = seconds 1704067200"

record offline_source =
  of_base_price :: decimal
  of_force_buy_on_last :: bool

definition default_offline :: offline_source where
  "default_offline = \<lparr>of_base_price = 65000, of_force_buy_on_last = True\<rparr>"

definition offline_candles :: "offline_source \<Rightarrow> timestamp \<Rightarrow> string \<Rightarrow> string \<Rightarrow> nat \<Rightarrow> py_error + candle list" where
  "offline_candles src now symbol timeframe limit =
     (case build_ema_crossover_candles now symbol timeframe (Some offline_anchor) (of_base_price src) 80
         (of_force_buy_on_last src) of
        Inl e \<Rightarrow> Inl e
      | Inr cs \<Rightarrow> Inr (last_of limit (filter c_is_closed cs)))"

subsection \<open>The source of a cycle\<close>

datatype candle_source = OfflineSource offline_source | LiveSource

record source_state =
  sr_last_market_data_ts :: "timestamp option"

definition touch_market_data_ts :: "timestamp \<Rightarrow> source_state \<Rightarrow> source_state" where
  "touch_market_data_ts now m = m\<lparr>sr_last_market_data_ts := Some now\<rparr>"

definition live_candles :: "settings \<Rightarrow> (nat \<Rightarrow> rat) \<Rightarrow> 's exchange \<Rightarrow> timestamp \<Rightarrow> string \<Rightarrow> string
  \<Rightarrow> source_state \<times> 's \<Rightarrow> (feed_error + candle list) \<times> source_state \<times> 's" where
  "live_candles st jitter call now symbol timeframe x =
     (let (m, s) = x; (res, s1) = load_closed_validated st jitter call symbol timeframe s
      in (res, (case res of Inl e \<Rightarrow> m | Inr cs \<Rightarrow> touch_market_data_ts now m), s1))"

definition resolve_candle_source :: "settings \<Rightarrow> bool \<Rightarrow> (nat \<Rightarrow> rat) \<Rightarrow> 's exchange \<Rightarrow> timestamp
  \<Rightarrow> source_state \<times> 's \<Rightarrow> candle_source \<times> source_state \<times> 's" where
  "resolve_candle_source st use_live jitter call now x =
     (if \<not> use_live then (OfflineSource default_offline, touch_market_data_ts now (fst x), snd x)
      else
        case live_candles st jitter call now (st_default_symbol st) (st_default_timeframe st) x of
          (Inr cs, m, s) \<Rightarrow> (LiveSource, m, s)
        | (Inl e, m, s) \<Rightarrow> (OfflineSource default_offline, touch_market_data_ts now m, s))"

text \<open>\<open>load_closed_candles\<close> of the source a cycle was given.\<close>

definition load_closed_candles :: "settings \<Rightarrow> (nat \<Rightarrow> rat) \<Rightarrow> 's exchange \<Rightarrow> timestamp \<Rightarrow> nat \<Rightarrow> candle_source
  \<Rightarrow> string \<Rightarrow> string \<Rightarrow> 's \<Rightarrow> (feed_error + candle list) \<times> 's" where
  "load_closed_candles st jitter call now limit src symbol timeframe s =
     (case src of
        OfflineSource o' \<Rightarrow>
          ((case offline_candles o' now symbol timeframe limit of Inl e \<Rightarrow> Inl (FeedError e) | Inr cs \<Rightarrow> Inr cs), s)
      | LiveSource \<Rightarrow> load_closed_validated st jitter call symbol timeframe s)"

subsection \<open>Stored candles\<close>

text \<open>
  The tables of \<open>market_data/service.py\<close> as lists of rows; \<open>col\<close> is what a decimal column keeps of
  a value, a parameter of the database.
\<close>

definition candle_key :: "candle \<Rightarrow> string \<times> string \<times> timestamp" where
  "candle_key c = (c_symbol c, c_timeframe c, c_open_time c)"

definition candle_row :: "(decimal \<Rightarrow> decimal) \<Rightarrow> candle \<Rightarrow> candle" where
  "candle_row col c =
     c\<lparr>c_open := col (c_open c), c_high := col (c_high c), c_low := col (c_low c), c_close := col (c_close c),
       c_volume := col (c_volume c), c_quote_volume := map_option col (c_quote_volume c)\<rparr>"

fun upsert_candle :: "(decimal \<Rightarrow> decimal) \<Rightarrow> candle \<Rightarrow> candle list \<Rightarrow> candle list" where
  "upsert_candle col c [] = [candle_row col c]"
| "upsert_candle col c (row # rows) =
     (if candle_key row = candle_key c then candle_row col c # rows else row # upsert_candle col c rows)"

definition sync_ohlcv :: "(decimal \<Rightarrow> decimal) \<Rightarrow> string \<Rightarrow> candle list \<Rightarrow> candle list
  \<Rightarrow> (py_error + candle list) \<times> candle list" where
  "sync_ohlcv col timeframe fetched table =
     (case normalize_candles fetched of
        Inl e \<Rightarrow> (Inl e, table)
      | Inr candles \<Rightarrow>
          (case validate_candles candles (Some timeframe) True of
             Inl e \<Rightarrow> (Inl e, table)
           | Inr _ \<Rightarrow> (Inr candles, fold (upsert_candle col) candles table)))"

definition get_candles :: "string \<Rightarrow> string \<Rightarrow> nat \<Rightarrow> candle list \<Rightarrow> py_error + candle list" where
  "get_candles symbol timeframe limit table =
     normalize_candles (rev (take limit (rev (sort_key c_open_time
       (filter (\<lambda>r. c_symbol r = symbol \<and> c_timeframe r = timeframe) table)))))"

fun upsert_symbol :: "symbol_info \<Rightarrow> symbol_info list \<Rightarrow> symbol_info list" where
  "upsert_symbol i [] = [i]"
| "upsert_symbol i (row # rows) = (if si_symbol row = si_symbol i then i # rows else row # upsert_symbol i rows)"

definition sync_symbols :: "symbol_info list \<Rightarrow> symbol_info list \<Rightarrow> symbol_info list" where
  "sync_symbols fetched table = fold upsert_symbol fetched table"

subsection \<open>Websocket client\<close>

record ws_metrics =
  wm_connects :: nat
  wm_disconnects :: nat
  wm_messages :: nat
  wm_duplicates :: nat
  wm_sequence_gaps :: nat
  wm_heartbeats :: nat
  wm_rest_fallbacks :: nat
  wm_last_message_at :: "timestamp option"
  wm_connected :: bool

record ws_client =
  wc_subscriptions :: "string list"
  wc_metrics :: ws_metrics
  wc_seen_ids :: "string list"
  wc_last_seq :: "int option"

definition initial_client :: ws_client where
  "initial_client = \<lparr>wc_subscriptions = [], wc_metrics = \<lparr>wm_connects = 0, wm_disconnects = 0, wm_messages = 0,
     wm_duplicates = 0, wm_sequence_gaps = 0, wm_heartbeats = 0, wm_rest_fallbacks = 0,
     wm_last_message_at = None, wm_connected = False\<rparr>, wc_seen_ids = [], wc_last_seq = None\<rparr>"

text \<open>A decoded message; absent keys are \<open>None\<close>.\<close>

record ws_message =
  ms_type :: "string option"
  ms_id :: "string option"
  ms_trade_id :: "string option"
  ms_sequence :: "int option"
  ms_seq :: "int option"
  ms_timestamp :: "int option"
  ms_T :: "int option"
  ms_price :: "decimal option"

text \<open>What the handler of the ticks is given.\<close>

record ws_tick =
  tk_id :: string
  tk_timestamp_utc :: "timestamp option"
  tk_price :: "decimal option"

text \<open>\<open>a or b\<close> on optional integers: zero counts as absent.\<close>

definition int_or :: "int option \<Rightarrow> int option \<Rightarrow> int option" where
  "int_or a b = (case a of Some k \<Rightarrow> if k \<noteq> 0 then a else b | None \<Rightarrow> b)"

definition message_id :: "ws_message \<Rightarrow> string" where
  "message_id msg =
     (case ms_id msg of
        Some (c # cs) \<Rightarrow> c # cs
      | _ \<Rightarrow> (case ms_trade_id msg of Some t \<Rightarrow> t | None \<Rightarrow> ''''))"

definition deque_append :: "nat \<Rightarrow> 'a \<Rightarrow> 'a list \<Rightarrow> 'a list" where
  "deque_append maxlen x xs = (let ys = xs @ [x] in drop (length ys - maxlen) ys)"

definition max_seen_ids :: nat where
  "max_seen_ids = 10000"

text \<open>\<open>datetime.fromtimestamp\<close>, which holds the years 1 to 9999.\<close>

definition from_timestamp :: "int \<Rightarrow> py_error + timestamp" where
  "from_timestamp t =
     (let micros = (if t > 10000000000 then t * 1000 else seconds t)
      in if micros < seconds (-62135596800) \<or> micros \<ge> seconds 253402300800
         then Inl (ValueError ''year is out of range'') else Inr micros)"

definition note_id :: "ws_message \<Rightarrow> ws_client \<Rightarrow> ws_client" where
  "note_id msg c =
     (if message_id msg \<noteq> '''' then c\<lparr>wc_seen_ids := deque_append max_seen_ids (message_id msg) (wc_seen_ids c)\<rparr> else c)"

definition note_sequence :: "ws_message \<Rightarrow> ws_client \<Rightarrow> ws_client" where
  "note_sequence msg c =
     (case int_or (ms_sequence msg) (ms_seq msg) of
        None \<Rightarrow> c
      | Some q \<Rightarrow>
          let gap = (case wc_last_seq c of Some l \<Rightarrow> q > l + 1 | None \<Rightarrow> False);
              mt = wc_metrics c
          in c\<lparr>wc_metrics := (if gap then mt\<lparr>wm_sequence_gaps := wm_sequence_gaps mt + 1\<rparr> else mt),
               wc_last_seq := Some q\<rparr>)"

definition deliver_tick :: "timestamp \<Rightarrow> timestamp option \<Rightarrow> ws_message \<Rightarrow> ws_client
  \<Rightarrow> (py_error + ws_tick option) \<times> ws_client" where
  "deliver_tick now stamp msg c =
     (let mt = wc_metrics c
      in (Inr (Some \<lparr>tk_id = message_id msg, tk_timestamp_utc = stamp, tk_price = ms_price msg\<rparr>),
          c\<lparr>wc_metrics := mt\<lparr>wm_messages := wm_messages mt + 1, wm_last_message_at := Some now\<rparr>\<rparr>))"

definition handle_message :: "timestamp \<Rightarrow> ws_message \<Rightarrow> ws_client \<Rightarrow> (py_error + ws_tick option) \<times> ws_client" where
  "handle_message now msg c =
     (let mt = wc_metrics c
      in if ms_type msg = Some ''heartbeat''
         then (Inr None, c\<lparr>wc_metrics := mt\<lparr>wm_heartbeats := wm_heartbeats mt + 1, wm_last_message_at := Some now\<rparr>\<rparr>)
         else if message_id msg \<noteq> '''' \<and> message_id msg \<in> set (wc_seen_ids c)
         then (Inr None, c\<lparr>wc_metrics := mt\<lparr>wm_duplicates := wm_duplicates mt + 1\<rparr>\<rparr>)
         else
           let c1 = note_sequence msg (note_id msg c)
           in case int_or (ms_timestamp msg) (ms_T msg) of
                None \<Rightarrow> deliver_tick now None msg c1
              | Some ts \<Rightarrow>
                  (case from_timestamp ts of
                     Inl e \<Rightarrow> (Inl e, c1)
                   | Inr t \<Rightarrow> if t - now > seconds 3600 then (Inr None, c1) else deliver_tick now (Some t) msg c1))"

definition client_stale :: "int \<Rightarrow> timestamp \<Rightarrow> ws_client \<Rightarrow> bool" where
  "client_stale stale_seconds now c =
     (case wm_last_message_at (wc_metrics c) of
        None \<Rightarrow> True
      | Some t \<Rightarrow> now - t > seconds (if stale_seconds \<noteq> 0 then stale_seconds else 30))"

text \<open>The messages of a connection, each with the clock when it is handled; the first that raises ends it.\<close>

fun consume :: "(timestamp \<times> ws_message) list \<Rightarrow> ws_client \<Rightarrow> ws_tick list \<times> bool \<times> ws_client" where
  "consume [] c = ([], True, c)"
| "consume ((now, msg) # rest) c =
     (case handle_message now msg c of
        (Inl e, c1) \<Rightarrow> ([], False, c1)
      | (Inr t, c1) \<Rightarrow>
          let (ts, ok, c2) = consume rest c1
          in ((case t of Some tick \<Rightarrow> tick # ts | None \<Rightarrow> ts), ok, c2))"

text \<open>How an attempt to connect goes: refused, lost after some messages, or ended by \<open>stop\<close>.\<close>

datatype connection =
    Refused
  | Dropped "(timestamp \<times> ws_message) list"
  | Stopped "(timestamp \<times> ws_message) list"

definition subscribe_all :: "string list \<Rightarrow> ws_client \<Rightarrow> ws_client" where
  "subscribe_all symbols c =
     (if wc_subscriptions c \<noteq> [] then c else c\<lparr>wc_subscriptions := remdups symbols\<rparr>)"

definition connected_client :: "string list \<Rightarrow> ws_client \<Rightarrow> ws_client" where
  "connected_client symbols c =
     subscribe_all symbols (c\<lparr>wc_metrics := (wc_metrics c)\<lparr>wm_connects := wm_connects (wc_metrics c) + 1,
       wm_connected := True\<rparr>\<rparr>)"

text \<open>The attempts still to come, the ticks delivered so far, and the client.\<close>

type_synonym ws_feed = "connection list \<times> ws_tick list \<times> ws_client"

fun connect_and_consume :: "string list \<Rightarrow> ws_feed \<Rightarrow> (unit + unit) \<times> ws_feed" where
  "connect_and_consume symbols ([], ticks, c) = (Inl (), ([], ticks, c))"
| "connect_and_consume symbols (Refused # later, ticks, c) = (Inl (), (later, ticks, c))"
| "connect_and_consume symbols (Dropped msgs # later, ticks, c) =
     (let (ts, ok, c1) = consume msgs (connected_client symbols c) in (Inl (), (later, ticks @ ts, c1)))"
| "connect_and_consume symbols (Stopped msgs # later, ticks, c) =
     (let (ts, ok, c1) = consume msgs (connected_client symbols c)
      in (if ok then Inr () else Inl (), (later, ticks @ ts, c1)))"

definition socket_retry :: retry_policy where
  "socket_retry = default_retry\<lparr>ry_max_attempts := 5, ry_base_delay := 5 / 100\<rparr>"

text \<open>How the loop goes on after a pass: until stopped, again, or dead because its fallback raised.\<close>

datatype loop_end = LoopStopped | LoopAgain | LoopDied

text \<open>\<open>fallback\<close> is \<open>None\<close> without one, and otherwise whether its call returns.\<close>

definition run_pass :: "string list \<Rightarrow> bool option \<Rightarrow> ws_feed \<Rightarrow> loop_end \<times> ws_feed" where
  "run_pass symbols fallback x =
     (let (res, delays, (later, ticks, c)) =
            with_exponential_backoff socket_retry (\<lambda>_. 0) (connect_and_consume symbols) x
      in case res of
           Inr _ \<Rightarrow> (LoopStopped, (later, ticks, c))
         | Inl _ \<Rightarrow>
             let mt = (wc_metrics c)\<lparr>wm_disconnects := wm_disconnects (wc_metrics c) + 1, wm_connected := False\<rparr>;
                 c1 = c\<lparr>wc_metrics := mt\<rparr>
             in if wc_subscriptions c = [] then (LoopAgain, (later, ticks, c1))
                else
                  case fallback of
                    None \<Rightarrow> (LoopAgain, (later, ticks, c1))
                  | Some False \<Rightarrow> (LoopDied, (later, ticks, c1))
                  | Some True \<Rightarrow>
                      (LoopAgain, (later, ticks, c1\<lparr>wc_metrics := mt\<lparr>wm_rest_fallbacks := wm_rest_fallbacks mt + 1\<rparr>\<rparr>)))"

end
