(* ===== verification/Feed_Properties.thy ===== *)
theory Feed_Properties
  imports Market_Feed Trade_Journal
begin

text \<open>
  What the market data path guarantees: how often and how long a call is retried, what a feed hands
  to a cycle, the offline series, the candle table, and the ticks of the websocket client.
\<close>

subsection \<open>Retries\<close>

text \<open>The exchange after \<open>k\<close> calls, and whether the next call fails.\<close>

fun after_calls :: "('s \<Rightarrow> ('e + 'a) \<times> 's) \<Rightarrow> nat \<Rightarrow> 's \<Rightarrow> 's" where
  "after_calls f 0 s = s"
| "after_calls f (Suc k) s = after_calls f k (snd (f s))"

definition call_fails :: "('s \<Rightarrow> ('e + 'a) \<times> 's) \<Rightarrow> 's \<Rightarrow> bool" where
  "call_fails f s \<longleftrightarrow> (case fst (f s) of Inl e \<Rightarrow> True | Inr x \<Rightarrow> False)"

lemma retry_from_exact:
  assumes "retry_from ry jitter f left a s = (res, delays, s')" and "0 < left" and "0 < a"
  shows "\<exists>k < left. s' = after_calls f (Suc k) s \<and> (\<forall>i < k. call_fails f (after_calls f i s))
    \<and> delays = map (retry_delay ry jitter) [a..<a + k]
    \<and> (case res of Inr x \<Rightarrow> fst (f (after_calls f k s)) = Inr x
       | Inl e \<Rightarrow> e = ProviderRetryError \<and> Suc k = left \<and> call_fails f (after_calls f k s))"
  using assms
proof (induction left arbitrary: a s delays)
  case (Suc left)
  obtain out s1 where f: "f s = (out, s1)" by fastforce
  show ?case
  proof (cases out)
    case (Inr x)
    with Suc.prems f show ?thesis by (intro exI [of _ 0]) auto
  next
    case (Inl e)
    show ?thesis
    proof (cases "left = 0")
      case True
      with Suc.prems f Inl show ?thesis by (auto simp: call_fails_def)
    next
      case False
      obtain ds where rest: "retry_from ry jitter f left (a + 1) s1 = (res, ds, s')" and
        delays: "delays = retry_delay ry jitter a # ds"
        using Suc.prems f Inl False by (auto split: prod.splits)
      from Suc.IH [OF rest] False obtain k where k: "k < left" "s' = after_calls f (Suc k) s1"
        "\<forall>i < k. call_fails f (after_calls f i s1)" "ds = map (retry_delay ry jitter) [a + 1..<a + 1 + k]"
        "case res of Inr x \<Rightarrow> fst (f (after_calls f k s1)) = Inr x
           | Inl e \<Rightarrow> e = ProviderRetryError \<and> Suc k = left \<and> call_fails f (after_calls f k s1)"
        by auto
      have "call_fails f (after_calls f i s)" if "i < Suc k" for i
        using that k(3) f Inl by (cases i) (auto simp: call_fails_def)
      moreover have "delays = map (retry_delay ry jitter) [a..<a + Suc k]"
        using delays k(4) by (simp add: upt_conv_Cons del: upt_Suc)
      ultimately show ?thesis
        using k f by (intro exI [of _ "Suc k"]) (auto split: sum.splits)
    qed
  qed
qed simp

text \<open>
  C28. A call is retried until it succeeds and no longer: the result is that of the first call that
  does not fail, or the retry error after exactly \<open>max_attempts\<close> calls that all failed; between
  the calls the delays double up to the maximum, so that the wait is bounded.
\<close>

theorem retry_exact:
  assumes "with_exponential_backoff ry jitter f s = (res, delays, s')" and "0 < ry_max_attempts ry"
    and "\<forall>a. jitter a \<le> j"
  shows "\<exists>k < ry_max_attempts ry. s' = after_calls f (Suc k) s \<and> (\<forall>i < k. call_fails f (after_calls f i s))
    \<and> (case res of Inr x \<Rightarrow> fst (f (after_calls f k s)) = Inr x
       | Inl e \<Rightarrow> Suc k = ry_max_attempts ry \<and> call_fails f (after_calls f k s))
    \<and> length delays = k \<and> sum_list delays \<le> of_nat k * (ry_max_delay ry + j)
    \<and> (\<forall>i < k. delays ! i = min (ry_max_delay ry) (ry_base_delay ry * 2 ^ i) + jitter (i + 1))"
proof -
  from retry_from_exact [OF assms(1) [unfolded with_exponential_backoff_def] assms(2)]
  obtain k where k: "k < ry_max_attempts ry" "s' = after_calls f (Suc k) s" "\<forall>i < k. call_fails f (after_calls f i s)"
    "delays = map (retry_delay ry jitter) [1..<1 + k]"
    "case res of Inr x \<Rightarrow> fst (f (after_calls f k s)) = Inr x
       | Inl e \<Rightarrow> e = ProviderRetryError \<and> Suc k = ry_max_attempts ry \<and> call_fails f (after_calls f k s)"
    by auto
  have bound: "\<And>a. retry_delay ry jitter a \<le> ry_max_delay ry + j"
    using assms(3) by (simp add: retry_delay_def add_mono)
  have "sum_list (map (retry_delay ry jitter) xs) \<le> of_nat (length xs) * (ry_max_delay ry + j)" for xs
  proof (induction xs)
    case (Cons a xs)
    from add_mono [OF bound [of a] Cons] show ?case by (simp add: algebra_simps)
  qed simp
  from this [of "[1..<1 + k]"] have "sum_list delays \<le> of_nat k * (ry_max_delay ry + j)"
    using k(4) by (simp del: upt_Suc)
  moreover have "\<forall>i < k. delays ! i = min (ry_max_delay ry) (ry_base_delay ry * 2 ^ i) + jitter (i + 1)"
    using k(4) by (simp add: retry_delay_def del: upt_Suc)
  moreover have "length delays = k" using k(4) by simp
  moreover have "case res of Inr x \<Rightarrow> fst (f (after_calls f k s)) = Inr x
       | Inl e \<Rightarrow> Suc k = ry_max_attempts ry \<and> call_fails f (after_calls f k s)"
    using k(5) by (simp split: sum.splits)
  ultimately show ?thesis using k(1-3) by blast
qed

subsection \<open>What a feed hands on\<close>

lemma normalize_candles_eq:
  "normalize_candles cs = Inr cs' \<longleftrightarrow> cs' = cs \<and> (\<forall>c \<in> set cs. candle_ok c)"
proof (induction cs arbitrary: cs')
  case (Cons c cs)
  consider e where "make_candle c = Inl e" "\<not> candle_ok c" | "make_candle c = Inr c" "candle_ok c"
    by (metis make_candle_ok make_candle_iff sum.exhaust)
  then show ?case
    using Cons [of cs] by cases (cases "normalize_candles cs"; fastforce simp: normalize_candle_timestamps_def Cons)+
qed auto

lemma row_candle_fields:
  assumes "row_candle sy tf row = Inr c"
  shows "c_symbol c = sy \<and> c_timeframe c = tf \<and> c_is_closed c \<and> c_open_time c = ow_open_ms row * 1000"
  using assms by (auto simp: row_candle_def normalize_candle_timestamps_def dest!: make_candle_ok split: sum.splits)

lemma row_candles_fields:
  assumes "row_candles sy tf None rows = Inr cs"
  shows "map c_open_time cs = map (\<lambda>r. ow_open_ms r * 1000) rows
    \<and> (\<forall>c \<in> set cs. c_symbol c = sy \<and> c_timeframe c = tf \<and> c_is_closed c)"
  using assms
proof (induction rows arbitrary: cs)
  case (Cons row rows)
  then show ?case by (auto split: sum.splits dest: row_candle_fields)
qed simp

lemma closed_validated_eq:
  "closed_validated raw = Inr cs \<longleftrightarrow>
     cs = filter c_is_closed raw \<and> (\<forall>c \<in> set raw. candle_ok c) \<and> series_ok cs None"
proof (cases "normalize_candles raw")
  case (Inl e)
  then show ?thesis using normalize_candles_eq [of raw raw] by (auto simp: closed_validated_def)
next
  case (Inr normalized)
  moreover obtain r where "validate_candles (filter c_is_closed normalized) None False = Inr r"
    "vr_ok r = series_ok (filter c_is_closed normalized) None" using validate_verdict by blast
  ultimately show ?thesis
    using normalize_candles_eq [of raw normalized] by (auto simp: closed_validated_def Let_def)
qed

text \<open>
  C26. A feed hands on valid series only: what a load returns comes from one answer of the exchange,
  for a configured symbol and time frame, and it is a series the validator accepts, of candles with
  positive prices; the hub counts it and is healthy, and a load that fails makes the hub unhealthy.
  But nothing of the answer is left out: every row becomes a candle marked closed, the bar that is
  still forming included.
\<close>

theorem feed_validated:
  assumes "hub_load st jitter call now done_at symbol timeframe (h, s) = (res, h', s')"
  shows "hb_fetch_ok h' + hb_fetch_fail h' = hb_fetch_ok h + hb_fetch_fail h + 1
    \<and> (case res of
         Inr cs \<Rightarrow>
           symbol \<in> set (st_supported_symbols st) \<and> timeframe \<in> set (st_supported_timeframes st)
         \<and> (\<forall>c \<in> set cs. c_symbol c = symbol \<and> c_timeframe c = timeframe \<and> c_is_closed c \<and> candle_ok c)
         \<and> series_ok cs None
         \<and> (\<exists>rows k. fst (call (after_calls call k s)) = Inr rows \<and> k < 5
              \<and> map c_open_time cs = map (\<lambda>r. ow_open_ms r * 1000) rows)
         \<and> (0 \<le> st_market_data_stale_seconds st \<longrightarrow> hs_healthy (status_of_hub st done_at h'))
       | Inl e \<Rightarrow> \<not> hs_healthy (status_of_hub st done_at h') \<and> hb_last_success_at h' = hb_last_success_at h)"
proof (cases res)
  case (Inl e)
  with assms show ?thesis
    by (auto simp: hub_load_def status_of_hub_def Let_def split: prod.splits sum.splits)
next
  case (Inr cs)
  obtain res1 s1 where fetch: "fetch_ohlcv st jitter call symbol timeframe None s = (res1, s1)" by fastforce
  with assms Inr obtain raw where raw: "res1 = Inr raw" "closed_validated raw = Inr cs"
    by (auto simp: hub_load_def load_closed_validated_def Let_def split: prod.splits sum.splits)
  with fetch have listed: "symbol \<in> set (st_supported_symbols st)" "timeframe \<in> set (st_supported_timeframes st)"
    by (auto simp: fetch_ohlcv_def split: if_splits)
  obtain out delays s2 where retry: "with_exponential_backoff provider_retry jitter call s = (out, delays, s2)"
    using prod_cases3 by blast
  with fetch raw(1) listed obtain rows where rows: "out = Inr rows" "row_candles symbol timeframe None rows = Inr raw"
    by (auto simp: fetch_ohlcv_def split: sum.splits)
  from retry_from_exact [OF retry [unfolded with_exponential_backoff_def]] rows(1)
  obtain k where k: "k < 5" "fst (call (after_calls call k s)) = Inr rows"
    by (auto simp: provider_retry_def default_retry_def)
  from row_candles_fields [OF rows(2)] raw(2) [unfolded closed_validated_eq]
  have "cs = raw" by (simp add: filter_id_conv)
  have fields: "map c_open_time cs = map (\<lambda>r. ow_open_ms r * 1000) rows"
    "\<forall>c \<in> set cs. c_symbol c = symbol \<and> c_timeframe c = timeframe \<and> c_is_closed c"
    using row_candles_fields [OF rows(2)] \<open>cs = raw\<close> by simp_all
  have "\<forall>c \<in> set cs. candle_ok c" "series_ok cs None"
    using raw(2) [unfolded closed_validated_eq] \<open>cs = raw\<close> by simp_all
  with fields k have "(\<forall>c \<in> set cs. c_symbol c = symbol \<and> c_timeframe c = timeframe \<and> c_is_closed c \<and> candle_ok c) \<and> series_ok cs None
    \<and> (\<exists>rows k. fst (call (after_calls call k s)) = Inr rows \<and> k < 5
         \<and> map c_open_time cs = map (\<lambda>r. ow_open_ms r * 1000) rows)"
    by blast
  moreover have "hb_fetch_ok h' = hb_fetch_ok h + 1 \<and> hb_fetch_fail h' = hb_fetch_fail h
    \<and> hb_last_error h' = None \<and> hb_last_success_at h' = Some done_at"
    using assms Inr by (auto simp: hub_load_def Let_def split: prod.splits sum.splits)
  ultimately show ?thesis
    using Inr listed by (simp add: status_of_hub_def seconds_def)
qed

subsection \<open>The offline series\<close>

lemma candles_from_ok:
  assumes "\<forall>x \<in> set closes. 0 < quantize 2 x"
    and "if i = 0 then closes \<noteq> [] \<longrightarrow> 0 < quantize 2 (dmul (quantize 2 (hd closes)) (999 / 1000)) else 0 < prev"
  shows "\<exists>cs. candles_from sy tf start prev i closes = Inr cs
    \<and> map c_open_time cs = map (\<lambda>k. start + interval_step tf * int k) [i..<i + length closes]
    \<and> (\<forall>c \<in> set cs. candle_ok c \<and> c_symbol c = sy \<and> c_timeframe c = tf \<and> c_is_closed c)
    \<and> map c_close cs = map (quantize 2) closes"
  using assms
proof (induction closes arbitrary: prev i)
  case (Cons x closes)
  define opened where "opened = (if i > 0 then prev else quantize 2 (dmul (quantize 2 x) (999 / 1000)))"
  have pos: "0 < opened" "0 < quantize 2 x" using Cons.prems by (auto simp: opened_def)
  define c where "c = \<lparr>c_symbol = sy, c_timeframe = tf, c_open_time = start + interval_step tf * int i,
    c_open = opened, c_high = max opened (quantize 2 x), c_low = min opened (quantize 2 x), c_close = quantize 2 x,
    c_volume = 1000, c_close_time = None, c_quote_volume = None, c_trade_count = None, c_is_closed = True\<rparr>"
  have ok: "candle_ok c" using pos by (auto simp: c_def candle_ok_def ohlc_sane_def)
  then have made: "make_candle c = Inr c" using make_candle_iff make_candle_ok by metis
  from Cons.IH [of "i + 1" "quantize 2 x"] Cons.prems(1) pos(2) obtain cs where
    cs: "candles_from sy tf start (quantize 2 x) (i + 1) closes = Inr cs"
      "map c_open_time cs = map (\<lambda>k. start + interval_step tf * int k) [i + 1..<i + 1 + length closes]"
      "\<forall>c \<in> set cs. candle_ok c \<and> c_symbol c = sy \<and> c_timeframe c = tf \<and> c_is_closed c"
      "map c_close cs = map (quantize 2) closes"
    by auto
  have "candles_from sy tf start prev i (x # closes) = Inr (c # cs)"
    using made cs(1) by (simp add: Let_def c_def opened_def)
  moreover have "map c_open_time (c # cs) = map (\<lambda>k. start + interval_step tf * int k) [i..<i + length (x # closes)]"
    using cs(2) by (simp add: c_def upt_conv_Cons del: upt_Suc)
  ultimately show ?case
    using ok cs(3,4) by (intro exI [of _ "c # cs"]) (simp add: c_def)
qed simp

lemma progression_upt: "progression d (map (\<lambda>k. a + d * int k) [i..<j])"
  unfolding progression_def by (auto simp: set_zip nth_tl algebra_simps simp del: upt_Suc)

lemma timeframe_step: "map_of timeframe_deltas tf = Some d \<Longrightarrow> interval_step tf = d"
  by (auto simp: timeframe_deltas_def interval_step_def interval_minutes_def seconds_def split: if_splits)

lemma series_ok_bars:
  assumes "map c_open_time cs = map (\<lambda>k. a + interval_step tf * int k) [i..<j]"
    and "\<forall>c \<in> set cs. candle_ok c \<and> c_timeframe c = tf" and "tf \<in> fst ` set timeframe_deltas"
  shows "series_ok cs None"
proof (cases "cs = []")
  case False
  from assms(3) obtain d where d: "map_of timeframe_deltas tf = Some d"
    by (metis map_of_eq_None_iff not_None_eq)
  note step = timeframe_step [OF d] timeframe_delta_pos [OF d]
  have "sorted (map (\<lambda>k. a + d * int k) [i..<j])"
    using step(2) by (intro sorted_map_mono) (auto simp: sorted_wrt_iff_nth_less mono_on_def)
  then have "progression d (sort (map c_open_time cs))"
    using assms(1) step(1) progression_upt [of d a i j] by (simp add: sorted_sort_id)
  moreover have "series_timeframe cs None = tf" using False assms(2) by (simp add: series_timeframe_def)
  moreover have "\<forall>c \<in> set cs. candle_sane c"
    using assms(2) by (auto simp: candle_sane_def candle_ok_def ohlc_sane_def)
  ultimately show ?thesis using d by (auto simp: series_ok_def)
qed (simp add: series_ok_def)

lemma quantize_2_pos: "1 / 100 \<le> x \<Longrightarrow> 1 / 100 \<le> quantize 2 x"
proof -
  assume "1 / 100 \<le> x"
  then have "quantize 2 (1 / 100) \<le> quantize 2 x" by (rule quantize_mono)
  moreover have "on_grid 2 (1 / 100 :: rat)" unfolding on_grid_def by (intro exI [of _ 1]) simp
  ultimately show ?thesis by (simp add: quantize_grid)
qed

lemma opening_pos: "1 / 100 \<le> x \<Longrightarrow> 0 < quantize 2 (dmul x (999 / 1000))"
proof -
  assume x: "1 / 100 \<le> x"
  have "x * (999 / 1000) \<le> dmul x (999 / 1000) * (1 + 1 / 10 ^ 27)"
    unfolding dmul_def using x by (intro ctx_lower) simp
  with x have "999 / 100000 \<le> dmul x (999 / 1000) * (1 + 1 / 10 ^ 27)" by linarith
  then have "9 / 1000 \<le> dmul x (999 / 1000)" by simp
  moreover have "\<bar>quantize 2 (dmul x (999 / 1000)) - dmul x (999 / 1000)\<bar> \<le> 5 / 1000"
    using quantize_error [of 2 "dmul x (999 / 1000)"] by simp
  ultimately show ?thesis by linarith
qed

text \<open>
  The offline source always delivers: from a base price of two cents up, for every time frame the
  validator knows, the demonstration series is built without an error, has the asked number of bars
  (at most 41, or 80 of the flat tape), all closed, and is one the validator accepts; its last bar
  closes at the base price, and the flat tape holds one price.
\<close>

lemma offline_series_valid:
  assumes "1 / 50 \<le> of_base_price src" and "tf \<in> fst ` set timeframe_deltas" and "0 < limit"
  shows "\<exists>cs. offline_candles src now sy tf limit = Inr cs
    \<and> length cs = min limit (if of_force_buy_on_last src then 41 else 80)
    \<and> (\<exists>r. validate_candles cs None False = Inr r \<and> vr_ok r)
    \<and> (\<forall>c \<in> set cs. c_symbol c = sy \<and> c_timeframe c = tf \<and> c_is_closed c)
    \<and> c_close (last cs) = quantize 2 (if of_force_buy_on_last src then of_base_price src
         else dmul (of_base_price src) (8 / 10))"
proof -
  let ?base = "of_base_price src" and ?force = "of_force_buy_on_last src"
  define low where "low = quantize 2 (dmul ?base (8 / 10))"
  have "?base * (8 / 10) \<le> dmul ?base (8 / 10) * (1 + 1 / 10 ^ 27)"
    unfolding dmul_def using assms(1) by (intro ctx_lower) simp
  with assms(1) have "16 / 1000 \<le> dmul ?base (8 / 10) * (1 + 1 / 10 ^ 27)" by linarith
  then have "1 / 100 \<le> dmul ?base (8 / 10)" by simp
  then have low: "1 / 100 \<le> low" unfolding low_def by (rule quantize_2_pos)
  define closes where "closes = crossover_closes ?base 80 ?force"
  have hd: "hd closes = low" and ne: "closes \<noteq> []" and len: "length closes = (if ?force then 41 else 80)"
    and at_end: "last closes = quantize 2 (if ?force then ?base else dmul ?base (8 / 10))"
    and sub: "set closes \<subseteq> {low, quantize 2 ?base}"
    by (auto simp: closes_def crossover_closes_def low_def Let_def)
  have fixed: "quantize 2 x = x \<and> 0 < x" if "x \<in> set closes" for x
  proof -
    from that sub consider "x = low" | "x = quantize 2 ?base" by blast
    then show ?thesis
    proof cases
      case 1
      with low show ?thesis by (simp add: low_def quantize_grid)
    next
      case 2
      have "1 / 100 \<le> ?base" using assms(1) by linarith
      from quantize_2_pos [OF this] 2 show ?thesis by (simp add: quantize_grid)
    qed
  qed
  then have "map (quantize 2) closes = closes" by (simp add: map_idI)
  moreover obtain all where all: "closes_to_candles sy tf offline_anchor closes = Inr all"
    "map c_open_time all = map (\<lambda>k. offline_anchor + interval_step tf * int k) [0..<0 + length closes]"
    "\<forall>c \<in> set all. candle_ok c \<and> c_symbol c = sy \<and> c_timeframe c = tf \<and> c_is_closed c"
    "map c_close all = map (quantize 2) closes"
    using candles_from_ok [of closes 0 "hd closes" sy tf offline_anchor] fixed hd opening_pos [OF low] ne
    by (auto simp: closes_to_candles_def low_def quantize_grid)
  ultimately have prices: "map c_close all = closes" by simp
  then have n: "length all = length closes" by (metis length_map)
  define cs where "cs = last_of limit all"
  have cs: "cs = drop (length all - limit) all" using assms(3) by (simp add: cs_def last_of_def)
  have mem: "set cs \<subseteq> set all" unfolding cs by (rule set_drop_subset)
  have offline: "offline_candles src now sy tf limit = Inr cs"
    using all(1,3) by (simp add: offline_candles_def build_ema_crossover_candles_def closes_def cs_def filter_id_conv Let_def)
  have "map c_open_time cs
      = map (\<lambda>k. offline_anchor + interval_step tf * int k) [length all - limit..<length closes]"
    unfolding cs drop_map [symmetric] all(2) by (simp add: drop_map del: upt_Suc)
  then have "series_ok cs None" by (rule series_ok_bars) (use all(3) mem assms(2) in auto)
  moreover have "length all - limit < length all" using n ne assms(3) by simp
  then have "last cs = last all" "cs \<noteq> []" by (simp_all add: cs last_drop)
  moreover have "c_close (last all) = last closes"
    using prices ne by (metis last_map map_is_Nil_conv)
  ultimately show ?thesis
    using offline mem all(3) validate_verdict [of cs None] at_end n len by (intro exI [of _ cs]) (auto simp: cs)
qed

subsection \<open>The candle table\<close>

definition stored_candles :: "candle list \<Rightarrow> string \<times> string \<times> timestamp \<Rightarrow> candle option" where
  "stored_candles table = map_of (map (\<lambda>r. (candle_key r, r)) table)"

definition table_ok :: "candle list \<Rightarrow> bool" where
  "table_ok table \<longleftrightarrow> distinct (map candle_key table)"

lemma candle_row_key [simp]: "candle_key (candle_row col c) = candle_key c"
  by (simp add: candle_key_def candle_row_def)

lemma stored_simps [simp]:
  "stored_candles [] = Map.empty"
  "stored_candles (r # rs) = (stored_candles rs)(candle_key r \<mapsto> r)"
  by (simp_all add: stored_candles_def)

lemma stored_None: "stored_candles t k = None \<longleftrightarrow> k \<notin> candle_key ` set t"
  by (induction t) auto

lemma upsert_keys:
  "map candle_key (upsert_candle col c t) =
     (if candle_key c \<in> candle_key ` set t then map candle_key t else map candle_key t @ [candle_key c])"
  by (induction t) auto

lemma upsert_stored: "stored_candles (upsert_candle col c t) = (stored_candles t)(candle_key c \<mapsto> candle_row col c)"
  by (induction t) (auto simp: fun_upd_twist)

lemma upsert_table_ok: "table_ok t \<Longrightarrow> table_ok (upsert_candle col c t)"
  by (simp add: table_ok_def upsert_keys del: map_eq_conv)

lemma fold_upsert_ok: "table_ok t \<Longrightarrow> table_ok (fold (upsert_candle col) cs t)"
  by (induction cs arbitrary: t) (simp_all add: upsert_table_ok)

lemma fold_upsert_stored:
  assumes "distinct (map candle_key cs)" and "\<forall>c \<in> set cs. candle_row col c = c"
  shows "stored_candles (fold (upsert_candle col) cs t) = stored_candles t ++ stored_candles cs"
  using assms
proof (induction cs arbitrary: t)
  case (Cons c cs)
  then have "stored_candles cs (candle_key c) = None" by (simp add: stored_None)
  with Cons show ?case by (auto simp: upsert_stored fun_eq_iff map_add_def split: option.splits)
qed simp

lemma upsert_same: "stored_candles t (candle_key c) = Some c \<Longrightarrow> candle_row col c = c \<Longrightarrow> upsert_candle col c t = t"
proof (induction t)
  case (Cons r rs)
  then show ?case by (cases "candle_key r = candle_key c") simp_all
qed simp

lemma fold_upsert_same:
  assumes "\<forall>c \<in> set cs. stored_candles t (candle_key c) = Some c \<and> candle_row col c = c"
  shows "fold (upsert_candle col) cs t = t"
  using assms by (induction cs) (simp_all add: upsert_same)

lemma upsert_append: "candle_key c \<notin> candle_key ` set t \<Longrightarrow> upsert_candle col c t = t @ [candle_row col c]"
  by (induction t) auto

lemma fold_upsert_append:
  assumes "distinct (map candle_key cs)" and "candle_key ` set t \<inter> candle_key ` set cs = {}"
    and "\<forall>c \<in> set cs. candle_row col c = c"
  shows "fold (upsert_candle col) cs t = t @ cs"
  using assms
proof (induction cs arbitrary: t)
  case (Cons c cs)
  then have "upsert_candle col c t = t @ [c]" by (simp add: upsert_append)
  moreover have "candle_key ` set (t @ [c]) \<inter> candle_key ` set cs = {}" using Cons.prems(1,2) by auto
  ultimately show ?case using Cons.IH [of "t @ [c]"] Cons.prems by simp
qed simp

lemma progression_sorted: "progression d xs \<Longrightarrow> 0 < d \<Longrightarrow> sorted_wrt (<) xs"
proof (induction xs)
  case (Cons x xs)
  then show ?case
  proof (cases xs)
    case (Cons y ys)
    with Cons.prems have "y = x + d" "progression d xs" by (simp_all add: progression_def)
    with Cons.IH Cons.prems(2) Cons show ?thesis by auto
  qed simp
qed simp

lemma series_distinct: "series_ok cs tf \<Longrightarrow> distinct (map c_open_time cs)"
proof (cases "cs = []")
  case False
  moreover assume "series_ok cs tf"
  ultimately obtain d where d: "0 < d" "progression d (sort (map c_open_time cs))"
    using timeframe_delta_pos by (auto simp: series_ok_def)
  then have "distinct (sort (map c_open_time cs))"
    using progression_sorted strict_sorted_iff by blast
  then show ?thesis by simp
qed simp

lemma keys_distinct: "distinct (map c_open_time cs) \<Longrightarrow> distinct (map candle_key cs)"
  by (induction cs) (auto simp: candle_key_def)

text \<open>
  Synchronising a series of candles is atomic, keyed and repeatable: a series that the validator
  refuses changes nothing; otherwise the table keeps one row per symbol, time frame and open time,
  holds exactly the old rows overwritten by the candles, and is the same after a second run; and a
  series of its own reads back whole, in the order of its times.
\<close>

lemma sync_roundtrip:
  assumes "sync_ohlcv col timeframe fetched table = (res, table')" and "table_ok table"
    and "\<forall>c \<in> set fetched. candle_row col c = c"
  shows "case res of
      Inl e \<Rightarrow> table' = table \<and> (\<not> list_all candle_ok fetched \<or> \<not> series_ok fetched (Some timeframe))
    | Inr cs \<Rightarrow> cs = fetched \<and> table_ok table' \<and> stored_candles table' = stored_candles table ++ stored_candles cs
        \<and> sync_ohlcv col timeframe fetched table' = (Inr cs, table')
        \<and> (\<forall>sy tf. list_all (\<lambda>c. c_symbol c = sy \<and> c_timeframe c = tf) cs
             \<and> \<not> list_ex (\<lambda>r. c_symbol r = sy \<and> c_timeframe r = tf) table \<longrightarrow>
             get_candles sy tf (length cs) table' = Inr (sort_key c_open_time cs))"
proof (cases "(\<forall>c \<in> set fetched. candle_ok c) \<and> series_ok fetched (Some timeframe)")
  case False
  have "(\<exists>e. res = Inl e) \<and> table' = table"
  proof (cases "normalize_candles fetched")
    case (Inl e)
    have "sync_ohlcv col timeframe fetched table = (Inl e, table)" by (simp add: sync_ohlcv_def Inl)
    with assms(1) show ?thesis by (metis prod.inject)
  next
    case (Inr cs)
    with False have "cs = fetched" "\<not> series_ok fetched (Some timeframe)" by (simp_all add: normalize_candles_eq)
    moreover obtain r where "validate_candles fetched (Some timeframe) False = Inr r"
      "vr_ok r = series_ok fetched (Some timeframe)" using validate_verdict by blast
    ultimately have "sync_ohlcv col timeframe fetched table = (Inl (ValueError ''Candle validation failed''), table)"
      by (simp add: sync_ohlcv_def validate_raising Inr)
    with assms(1) show ?thesis by (metis prod.inject)
  qed
  with False show ?thesis by (auto simp: list_all_iff)
next
  case True
  then have norm: "normalize_candles fetched = Inr fetched" by (simp add: normalize_candles_eq)
  obtain r where "validate_candles fetched (Some timeframe) False = Inr r" "vr_ok r"
    using True validate_verdict [of fetched "Some timeframe"] by blast
  with norm have sync: "sync_ohlcv col timeframe fetched t = (Inr fetched, fold (upsert_candle col) fetched t)" for t
    by (simp add: sync_ohlcv_def validate_raising)
  note dist = keys_distinct [OF series_distinct [OF conjunct2 [OF True]]]
  have res: "res = Inr fetched" "table' = fold (upsert_candle col) fetched table" using assms(1) sync by simp_all
  have st: "stored_candles table' = stored_candles table ++ stored_candles fetched"
    unfolding res by (rule fold_upsert_stored [OF dist assms(3)])
  have "stored_candles fetched (candle_key c) = Some c" if "c \<in> set fetched" for c
    unfolding stored_candles_def using that dist by (intro map_of_is_SomeI) (auto simp: comp_def)
  then have same: "fold (upsert_candle col) fetched table' = table'"
    using assms(3) by (intro fold_upsert_same) (simp add: st map_add_Some_iff)
  have again: "sync_ohlcv col timeframe fetched table' = (Inr fetched, table')"
    using sync [of table'] unfolding same .
  have tab: "table_ok table'" unfolding res(2) by (rule fold_upsert_ok [OF assms(2)])
  have "get_candles sy tf (length fetched) table' = Inr (sort_key c_open_time fetched)"
    if "\<forall>c \<in> set fetched. c_symbol c = sy \<and> c_timeframe c = tf"
      "\<forall>r \<in> set table. \<not> (c_symbol r = sy \<and> c_timeframe r = tf)" for sy tf
  proof -
    have "candle_key ` set table \<inter> candle_key ` set fetched = {}"
      using that by (auto simp: candle_key_def)
    then have "table' = table @ fetched" unfolding res by (rule fold_upsert_append [OF dist _ assms(3)])
    with that have "filter (\<lambda>r. c_symbol r = sy \<and> c_timeframe r = tf) table' = fetched"
      by (simp add: filter_empty_conv filter_id_conv)
    with True show ?thesis by (simp add: get_candles_def normalize_candles_eq)
  qed
  then show ?thesis
    unfolding res(1) using tab st again by (simp add: list_all_iff list_ex_iff)
qed

lemma candles_from_fields:
  assumes "candles_from sy tf start prev i closes = Inr cs"
  shows "map c_open_time cs = map (\<lambda>k. start + interval_step tf * int k) [i..<i + length closes]
    \<and> (\<forall>c \<in> set cs. candle_ok c \<and> c_symbol c = sy \<and> c_timeframe c = tf \<and> c_is_closed c)"
  using assms
proof (induction closes arbitrary: prev i cs)
  case (Cons x closes)
  then obtain c rest where made: "cs = c # rest" "candles_from sy tf start (quantize 2 x) (i + 1) closes = Inr rest"
    "candle_ok c" "c_symbol c = sy" "c_timeframe c = tf" "c_is_closed c" "c_open_time c = start + interval_step tf * int i"
    by (auto simp: Let_def split: sum.splits dest!: make_candle_ok)
  with Cons.IH [OF made(2)] show ?case by (simp add: upt_conv_Cons del: upt_Suc)
qed simp

lemma offline_candles_fields:
  assumes "offline_candles src now sy tf limit = Inr cs" and "tf \<in> fst ` set timeframe_deltas"
  shows "series_ok cs None \<and> (\<forall>c \<in> set cs. c_symbol c = sy \<and> c_timeframe c = tf \<and> c_is_closed c \<and> candle_ok c)"
proof -
  obtain all closes where all: "candles_from sy tf offline_anchor (hd closes) 0 closes = Inr all"
    and cs: "cs = last_of limit (filter c_is_closed all)"
    using assms(1) by (auto simp: offline_candles_def build_ema_crossover_candles_def closes_to_candles_def Let_def
        split: sum.splits)
  note bars = candles_from_fields [OF all]
  define n where "n = (if limit = 0 then 0 else length all - limit)"
  have drop: "cs = drop n all" using bars by (simp add: cs n_def last_of_def filter_id_conv)
  have mem: "set cs \<subseteq> set all" unfolding drop by (rule set_drop_subset)
  have "map c_open_time cs = map (\<lambda>k. offline_anchor + interval_step tf * int k) [n..<length closes]"
    unfolding drop drop_map [symmetric] conjunct1 [OF bars] by (simp add: drop_map del: upt_Suc)
  then have "series_ok cs None" by (rule series_ok_bars) (use bars mem assms(2) in auto)
  with bars mem show ?thesis by auto
qed

subsection \<open>The interface of a feed\<close>

text \<open>
  What a cycle asks of whatever loads its candles: for the time frames \<open>known\<close> to it, a load that
  succeeds delivers a valid series of closed candles of the symbol and time frame it was asked for.
\<close>

locale candle_feed =
  fixes load :: "string \<Rightarrow> string \<Rightarrow> 's \<Rightarrow> ('e + candle list) \<times> 's"
    and known :: "string \<Rightarrow> bool"
  assumes load_valid: "fst (load sy tf s) = Inr cs \<Longrightarrow> known tf \<Longrightarrow>
    series_ok cs None \<and> (\<forall>c \<in> set cs. c_symbol c = sy \<and> c_timeframe c = tf \<and> c_is_closed c \<and> candle_ok c)"
begin

lemma accepted: "fst (load sy tf s) = Inr cs \<Longrightarrow> known tf \<Longrightarrow> \<exists>r. validate_candles cs None False = Inr r \<and> vr_ok r"
  using load_valid validate_verdict by metis

lemma one_per_time: "fst (load sy tf s) = Inr cs \<Longrightarrow> known tf \<Longrightarrow> distinct (map c_open_time cs)"
  using load_valid series_distinct by blast

lemma own_symbol: "fst (load sy tf s) = Inr cs \<Longrightarrow> known tf \<Longrightarrow> c \<in> set cs \<Longrightarrow>
    c_symbol c = sy \<and> c_timeframe c = tf \<and> c_is_closed c \<and> candle_ok c"
  using load_valid by blast

end

lemma load_closed_validated_fields:
  assumes "fst (load_closed_validated st jitter call sy tf s) = Inr cs"
  shows "series_ok cs None \<and> (\<forall>c \<in> set cs. c_symbol c = sy \<and> c_timeframe c = tf \<and> c_is_closed c \<and> candle_ok c)"
proof -
  obtain raw s1 where fetch: "fetch_ohlcv st jitter call sy tf None s = (Inr raw, s1)" "closed_validated raw = Inr cs"
    using assms by (auto simp: load_closed_validated_def Let_def split: prod.splits sum.splits)
  then obtain rows where "row_candles sy tf None rows = Inr raw"
    by (auto simp: fetch_ohlcv_def Let_def split: if_splits prod.splits sum.splits)
  from row_candles_fields [OF this] fetch(2) show ?thesis by (auto simp: closed_validated_eq)
qed

interpretation live: candle_feed "load_closed_validated st jitter call" "\<lambda>tf. True"
  by unfold_locales (rule load_closed_validated_fields)

interpretation source: candle_feed "load_closed_candles st jitter call now limit src" "\<lambda>tf. tf \<in> fst ` set timeframe_deltas"
proof unfold_locales
  fix sy tf s cs
  assume "fst (load_closed_candles st jitter call now limit src sy tf s) = Inr cs" "tf \<in> fst ` set timeframe_deltas"
  then show "series_ok cs None \<and> (\<forall>c \<in> set cs. c_symbol c = sy \<and> c_timeframe c = tf \<and> c_is_closed c \<and> candle_ok c)"
    using live.load_valid [of st jitter call sy tf s cs] offline_candles_fields
    by (auto simp: load_closed_candles_def split: candle_source.splits sum.splits)
qed

text \<open>
  A cycle always gets a source, and whatever it loads is a valid series: closed candles of the
  symbol and time frame, one for each time, that the validator accepts. The live source is chosen only
  if it was asked for and a probe of it delivered such a series. But when the probe fails the cycle
  is given the synthetic offline series instead, and the market data is stamped fresh all the same, so
  that the risk engine's check of stale data does not see the failure.
\<close>

lemma source_fallback:
  assumes "resolve_candle_source st use_live jitter call now (m, s) = (src, m', s')"
    and "fst (load_closed_candles st jitter call later limit src symbol timeframe s2) = Inr cs"
    and "timeframe \<in> fst ` set timeframe_deltas"
  shows "sr_last_market_data_ts m' = Some now
    \<and> (src = LiveSource \<longleftrightarrow> use_live \<and> (\<exists>probe. fst (load_closed_validated st jitter call (st_default_symbol st)
         (st_default_timeframe st) s) = Inr probe))
    \<and> (src \<noteq> LiveSource \<longrightarrow> src = OfflineSource default_offline)
    \<and> (\<exists>r. validate_candles cs None False = Inr r \<and> vr_ok r) \<and> distinct (map c_open_time cs)
    \<and> (\<forall>c \<in> set cs. c_symbol c = symbol \<and> c_timeframe c = timeframe \<and> c_is_closed c)"
proof -
  obtain res s1 where load: "load_closed_validated st jitter call (st_default_symbol st) (st_default_timeframe st) s = (res, s1)"
    by fastforce
  with assms(1) have "sr_last_market_data_ts m' = Some now
    \<and> (src = LiveSource \<longleftrightarrow> use_live \<and> (\<exists>probe. fst (load_closed_validated st jitter call (st_default_symbol st)
         (st_default_timeframe st) s) = Inr probe))
    \<and> (src \<noteq> LiveSource \<longrightarrow> src = OfflineSource default_offline)"
    by (cases use_live; cases res)
      (auto simp: resolve_candle_source_def live_candles_def touch_market_data_ts_def)
  with source.accepted [OF assms(2,3)] source.one_per_time [OF assms(2,3)] source.own_symbol [OF assms(2,3)]
  show ?thesis by blast
qed

subsection \<open>Ticks of the websocket client\<close>

definition recent :: "nat \<Rightarrow> 'a list \<Rightarrow> 'a list" where
  "recent k xs = drop (length xs - k) xs"

lemma recent_0 [simp]: "recent 0 xs = []"
  by (simp add: recent_def)

lemma recent_all [simp]: "recent (length xs) xs = xs"
  by (simp add: recent_def)

lemma recent_subset: "set (recent k xs) \<subseteq> set xs"
  unfolding recent_def by (rule set_drop_subset)

lemma recent_append:
  assumes "Suc k \<le> m"
  shows "recent (Suc k) (deque_append m x xs) = recent k xs @ [x]"
proof (cases "Suc (length xs) \<le> m")
  case True
  then show ?thesis by (simp add: recent_def deque_append_def Let_def)
next
  case False
  with assms have "m - Suc k + (Suc (length xs) - m) = length xs - k" "Suc (length xs) - m \<le> length xs" by simp_all
  with False show ?thesis by (simp add: recent_def deque_append_def Let_def)
qed

lemma note_sequence_fields [simp]:
  "wc_seen_ids (note_sequence msg c) = wc_seen_ids c"
  "wm_messages (wc_metrics (note_sequence msg c)) = wm_messages (wc_metrics c)"
  "wm_duplicates (wc_metrics (note_sequence msg c)) = wm_duplicates (wc_metrics c)"
  "wm_heartbeats (wc_metrics (note_sequence msg c)) = wm_heartbeats (wc_metrics c)"
  by (auto simp: note_sequence_def Let_def split: option.splits)

lemma note_id_fields [simp]:
  "wc_metrics (note_id msg c) = wc_metrics c"
  "wc_seen_ids (note_id msg c) =
     (if message_id msg \<noteq> '''' then deque_append max_seen_ids (message_id msg) (wc_seen_ids c) else wc_seen_ids c)"
  by (simp_all add: note_id_def)

text \<open>The five ways a message is handled.\<close>

lemma handle_message_cases:
  assumes "handle_message now msg c = (out, c')"
  obtains (heartbeat) "out = Inr None" "wc_seen_ids c' = wc_seen_ids c" "ms_type msg = Some ''heartbeat''"
      "wm_messages (wc_metrics c') = wm_messages (wc_metrics c)"
  | (duplicate) "out = Inr None" "wc_seen_ids c' = wc_seen_ids c" "message_id msg \<noteq> ''''"
      "message_id msg \<in> set (wc_seen_ids c)" "wm_messages (wc_metrics c') = wm_messages (wc_metrics c)"
  | (refused) "out \<noteq> Inr None \<longrightarrow> (\<exists>e. out = Inl e)" "wc_seen_ids c' = wc_seen_ids (note_id msg c)"
      "message_id msg \<noteq> '''' \<longrightarrow> message_id msg \<notin> set (wc_seen_ids c)"
      "wm_messages (wc_metrics c') = wm_messages (wc_metrics c)"
  | (delivered) stamp where "out = Inr (Some \<lparr>tk_id = message_id msg, tk_timestamp_utc = stamp, tk_price = ms_price msg\<rparr>)"
      "wc_seen_ids c' = wc_seen_ids (note_id msg c)" "message_id msg \<noteq> '''' \<longrightarrow> message_id msg \<notin> set (wc_seen_ids c)"
      "case stamp of Some t \<Rightarrow> t \<le> now + seconds 3600 | None \<Rightarrow> True"
      "wm_messages (wc_metrics c') = wm_messages (wc_metrics c) + 1"
proof -
  consider "ms_type msg = Some ''heartbeat''"
    | "ms_type msg \<noteq> Some ''heartbeat''" "message_id msg \<noteq> ''''" "message_id msg \<in> set (wc_seen_ids c)"
    | "ms_type msg \<noteq> Some ''heartbeat''" "message_id msg \<noteq> '''' \<longrightarrow> message_id msg \<notin> set (wc_seen_ids c)"
    by blast
  then show thesis
  proof cases
    case 1
    with assms show thesis by (intro heartbeat) (auto simp: handle_message_def Let_def)
  next
    case 2
    with assms show thesis by (intro duplicate) (auto simp: handle_message_def Let_def)
  next
    case 3
    define c1 where "c1 = note_sequence msg (note_id msg c)"
    have c1: "wc_seen_ids c1 = wc_seen_ids (note_id msg c)" "wm_messages (wc_metrics c1) = wm_messages (wc_metrics c)"
      by (simp_all add: c1_def)
    have handle: "(out, c') = (case int_or (ms_timestamp msg) (ms_T msg) of
        None \<Rightarrow> deliver_tick now None msg c1
      | Some ts \<Rightarrow> (case from_timestamp ts of Inl e \<Rightarrow> (Inl e, c1)
          | Inr t \<Rightarrow> if t - now > seconds 3600 then (Inr None, c1) else deliver_tick now (Some t) msg c1))"
      using 3 assms unfolding handle_message_def c1_def Let_def by auto
    then consider e where "out = Inl e" "c' = c1" | "out = Inr None" "c' = c1"
      | stamp where "(out, c') = deliver_tick now stamp msg c1" "case stamp of Some t \<Rightarrow> t \<le> now + seconds 3600 | None \<Rightarrow> True"
      by (fastforce split: option.splits sum.splits if_splits)
    then show thesis
    proof cases
      case 1
      with c1 3 show thesis by (intro refused) auto
    next
      case 2
      with c1 3 show thesis by (intro refused) auto
    next
      case (3 stamp)
      with c1 \<open>message_id msg \<noteq> '''' \<longrightarrow> _\<close> show thesis by (intro delivered [of stamp]) (auto simp: deliver_tick_def Let_def)
    qed
  qed
qed

definition tick_ids :: "ws_tick list \<Rightarrow> string list" where
  "tick_ids ts = filter (\<lambda>i. i \<noteq> '''') (map tk_id ts)"

lemma consume_window:
  assumes "consume ms c = (ts, ok, c')" and "k + length ms \<le> max_seen_ids"
  shows "distinct (tick_ids ts) \<and> set (tick_ids ts) \<inter> set (recent k (wc_seen_ids c)) = {}
    \<and> wm_messages (wc_metrics c') = wm_messages (wc_metrics c) + length ts
    \<and> (\<forall>t \<in> set ts. \<exists>(now, msg) \<in> set ms. tk_id t = message_id msg
         \<and> (case tk_timestamp_utc t of Some u \<Rightarrow> u \<le> now + seconds 3600 | None \<Rightarrow> True))"
  using assms
proof (induction ms arbitrary: c ts ok c' k)
  case (Cons m ms)
  obtain now msg where m: "m = (now, msg)" by fastforce
  obtain out c1 where handle: "handle_message now msg c = (out, c1)" by fastforce
  obtain ts1 ok1 c2 where rest: "consume ms c1 = (ts1, ok1, c2)" using prod_cases3 by blast
  note IH = Cons.IH [OF rest]
  from handle show ?case
  proof (cases rule: handle_message_cases)
    case heartbeat
    with Cons.prems m handle rest IH [of k] show ?thesis by fastforce
  next
    case duplicate
    with Cons.prems m handle rest IH [of k] show ?thesis by fastforce
  next
    case refused
    show ?thesis
    proof (cases out)
      case (Inl e)
      with Cons.prems m handle refused show ?thesis by (auto simp: tick_ids_def)
    next
      case (Inr t)
      with refused have out: "out = Inr None" by auto
      have "set (recent k (wc_seen_ids c)) \<subseteq> set (recent (if message_id msg \<noteq> '''' then Suc k else k) (wc_seen_ids c1))"
        using refused Cons.prems(2) by (auto simp: recent_append)
      with Cons.prems m handle rest IH [of "if message_id msg \<noteq> '''' then Suc k else k"] out refused(4) show ?thesis
        by (auto split: if_splits)
    qed
  next
    case (delivered stamp)
    let ?k = "if message_id msg \<noteq> '''' then Suc k else k"
    have seen: "set (recent ?k (wc_seen_ids c1)) =
        (if message_id msg \<noteq> '''' then insert (message_id msg) (set (recent k (wc_seen_ids c))) else set (recent k (wc_seen_ids c)))"
      using delivered Cons.prems(2) by (auto simp: recent_append)
    have ts: "ts = \<lparr>tk_id = message_id msg, tk_timestamp_utc = stamp, tk_price = ms_price msg\<rparr> # ts1" "c' = c2"
      using Cons.prems(1) m handle rest delivered(1) by auto
    have fresh: "message_id msg \<noteq> '''' \<longrightarrow> message_id msg \<notin> set (recent k (wc_seen_ids c))"
      using delivered(3) recent_subset [of k "wc_seen_ids c"] by auto
    have "?k + length ms \<le> max_seen_ids" using Cons.prems(2) by simp
    from IH [OF this] have
      IH': "distinct (tick_ids ts1)" "set (tick_ids ts1) \<inter> set (recent ?k (wc_seen_ids c1)) = {}"
        "wm_messages (wc_metrics c2) = wm_messages (wc_metrics c1) + length ts1"
        "\<forall>t \<in> set ts1. \<exists>(now, msg) \<in> set ms. tk_id t = message_id msg
         \<and> (case tk_timestamp_utc t of Some u \<Rightarrow> u \<le> now + seconds 3600 | None \<Rightarrow> True)"
      by blast+
    have ids: "tick_ids ts = (if message_id msg \<noteq> '''' then [message_id msg] else []) @ tick_ids ts1"
      by (simp add: ts tick_ids_def)
    have "distinct (tick_ids ts) \<and> set (tick_ids ts) \<inter> set (recent k (wc_seen_ids c)) = {}"
      using IH'(1,2) seen fresh unfolding ids by (auto split: if_splits)
    moreover have "wm_messages (wc_metrics c') = wm_messages (wc_metrics c) + length ts"
      using IH'(3) delivered(5) ts by simp
    ultimately show ?thesis
      using IH'(4) delivered(4) ts(1) m by auto
  qed
qed (simp add: tick_ids_def)

lemma heartbeat_none: "handle_message now msg c = (Inr None, c') \<Longrightarrow> ms_type msg \<noteq> Some ''heartbeat''
  \<Longrightarrow> message_id msg \<noteq> '''' \<Longrightarrow> message_id msg \<in> set (wc_seen_ids c')"
proof (erule handle_message_cases)
  assume "wc_seen_ids c' = wc_seen_ids (note_id msg c)" "message_id msg \<noteq> ''''"
  then have "set (recent (Suc 0) (wc_seen_ids c')) = {message_id msg}"
    by (simp add: recent_append max_seen_ids_def)
  then show "message_id msg \<in> set (wc_seen_ids c')" using recent_subset [of "Suc 0" "wc_seen_ids c'"] by auto
qed simp_all


lemma connect_consumes: "fst (snd (connect_and_consume symbols x)) = drop 1 (fst x)"
  by (induction symbols x rule: connect_and_consume.induct) (auto simp: Let_def split: prod.splits)

lemma attempts_consume: "fst (after_calls (connect_and_consume symbols) k x) = drop k (fst x)"
  by (induction k arbitrary: x) (simp_all add: connect_consumes drop_Suc drop_tl)

text \<open>
  A pass of the websocket loop ends: it uses up between one and five of the connections to come,
  stops only when one was ended by a stop, and otherwise notes a disconnect and goes on. The
  exception is a fallback that raises, which ends the loop for good.
\<close>

lemma ws_pass_bounded:
  assumes "run_pass symbols fallback (conns, ticks, c) = (e, (conns', ticks', c'))"
  shows "\<exists>n. 1 \<le> n \<and> n \<le> 5 \<and> conns' = drop n conns
    \<and> (e = LoopStopped \<longrightarrow> (\<exists>msgs. n \<le> length conns \<and> conns ! (n - 1) = Stopped msgs))
    \<and> (e \<noteq> LoopStopped \<longrightarrow> n = 5 \<and> \<not> wm_connected (wc_metrics c') \<and> 1 \<le> wm_disconnects (wc_metrics c'))
    \<and> (e = LoopDied \<longleftrightarrow> e \<noteq> LoopStopped \<and> fallback = Some False \<and> wc_subscriptions c' \<noteq> [])"
proof -
  let ?f = "connect_and_consume symbols" and ?x = "(conns, ticks, c)"
  obtain res delays more1 ticks1 c1 where
    retry: "with_exponential_backoff socket_retry (\<lambda>_. 0) ?f ?x = (res, delays, (more1, ticks1, c1))"
    by (metis prod_cases5)
  have five: "ry_max_attempts socket_retry = 5" by (simp add: socket_retry_def default_retry_def)
  from retry_from_exact [OF retry [unfolded with_exponential_backoff_def five]]
  obtain k where k: "k < 5" "(more1, ticks1, c1) = after_calls ?f (Suc k) ?x" and
    "case res of Inr u \<Rightarrow> fst (?f (after_calls ?f k ?x)) = Inr u
      | Inl err \<Rightarrow> err = ProviderRetryError \<and> Suc k = 5 \<and> call_fails ?f (after_calls ?f k ?x)"
    by (metis zero_less_numeral zero_less_one)
  then have ended: "case res of Inr u \<Rightarrow> fst (?f (after_calls ?f k ?x)) = Inr u | Inl err \<Rightarrow> Suc k = 5"
    by (simp split: sum.splits)
  have "more1 = drop (Suc k) conns" using attempts_consume [of symbols "Suc k" ?x] k(2) by (metis fst_conv)
  with assms retry have conns': "conns' = drop (Suc k) conns"
    by (auto simp: run_pass_def Let_def split: sum.splits if_splits option.splits bool.splits)
  have stop: "\<exists>msgs. Suc k \<le> length conns \<and> conns ! k = Stopped msgs" if "res = Inr u" for u
  proof -
    obtain later t d where y: "after_calls ?f k ?x = (later, t, d)" using prod_cases3 by blast
    then have later: "later = drop k conns" using attempts_consume [of symbols k ?x] by simp
    have "fst (?f (later, t, d)) = Inr u" using ended that y by simp
    then obtain msgs rest where "later = Stopped msgs # rest"
      by (cases "(symbols, later, t, d)" rule: connect_and_consume.cases) (auto simp: Let_def split: prod.splits)
    with later have "k < length conns" "conns ! k = Stopped msgs"
      by (metis drop_all list.distinct(1) not_le_imp_less, metis drop_all hd_drop_conv_nth list.sel(1) list.distinct(1) not_le_imp_less)
    then show ?thesis by auto
  qed
  show ?thesis
  proof (cases res)
    case (Inr u)
    with assms retry have "e = LoopStopped" by (simp add: run_pass_def)
    with stop [OF Inr] k(1) conns' show ?thesis by (intro exI [of _ "Suc k"]) auto
  next
    case (Inl err)
    with assms retry have "e \<noteq> LoopStopped \<and> \<not> wm_connected (wc_metrics c') \<and> 1 \<le> wm_disconnects (wc_metrics c')
      \<and> (e = LoopDied \<longleftrightarrow> fallback = Some False \<and> wc_subscriptions c' \<noteq> [])"
      by (auto simp: run_pass_def Let_def split: if_splits option.splits bool.splits)
    with Inl k ended conns' show ?thesis by (intro exI [of _ "Suc k"]) auto
  qed
qed

subsection \<open>Concrete feeds\<close>

text \<open>An exchange that raises once and then answers with two bars.\<close>

definition sample_rows :: "ohlcv_row list" where
  "sample_rows = map (\<lambda>t. \<lparr>ow_open_ms = t, ow_open = 10, ow_high = 12, ow_low = 9, ow_close = 11, ow_volume = 1\<rparr>) [0, 60000]"

definition flaky_exchange :: "nat exchange" where
  "flaky_exchange n = (if n = 0 then Inl (ValueError ''timeout'') else Inr sample_rows, n + 1)"

lemma flaky_retry:
  "with_exponential_backoff provider_retry (\<lambda>_. 0) flaky_exchange 0 = (Inr sample_rows, [1 / 20], 2)"
proof -
  have five: "ry_max_attempts provider_retry = Suc (Suc (Suc (Suc (Suc 0))))"
    by (simp add: provider_retry_def default_retry_def)
  show ?thesis unfolding with_exponential_backoff_def five
    by (simp add: flaky_exchange_def retry_delay_def provider_retry_def default_retry_def)
qed

theorem retry_exact_witness: "after_calls flaky_exchange 2 0 = 2 \<and> call_fails flaky_exchange 0"
proof -
  have "0 < ry_max_attempts provider_retry" "\<forall>a::nat. (0::rat) \<le> 0"
    by (simp_all add: provider_retry_def default_retry_def)
  from retry_exact [OF flaky_retry this] obtain k where k: "(2::nat) = after_calls flaky_exchange (Suc k) 0"
    "\<forall>i < k. call_fails flaky_exchange (after_calls flaky_exchange i 0)" "length [1 / 20 :: rat] = k" by blast
  then have "k = 1" by simp
  then have "Suc k = 2" by simp
  with k(1) have "2 = after_calls flaky_exchange 2 0" by metis
  moreover have "call_fails flaky_exchange (after_calls flaky_exchange 0 0)" using k(2) \<open>k = 1\<close> by blast
  ultimately show ?thesis by (simp only: after_calls.simps(1) simp_thms)
qed

definition sample_load :: "(feed_error + candle list) \<times> hub \<times> nat" where
  "sample_load = hub_load default_settings (\<lambda>_. 0) flaky_exchange 0 1 ''BTC/USDT'' ''1m'' (initial_hub, 0)"

theorem feed_validated_witness: "hb_fetch_ok (fst (snd sample_load)) + hb_fetch_fail (fst (snd sample_load)) = 1"
proof -
  obtain res h s where load: "sample_load = (res, h, s)" using prod_cases3 by blast
  have "hb_fetch_ok h + hb_fetch_fail h = 1"
    using feed_validated [OF load [unfolded sample_load_def]] by (simp add: initial_hub_def)
  then show ?thesis by (simp only: load fst_conv snd_conv)
qed

lemma offline_series_valid_witness:
  "\<exists>cs. offline_candles default_offline 0 ''BTC/USDT'' ''5m'' 30 = Inr cs \<and> length cs = 30 \<and> c_close (last cs) = 65000"
proof -
  have "on_grid 2 (65000 :: rat)" unfolding on_grid_def by (intro exI [of _ 6500000]) simp
  with offline_series_valid [of default_offline "''5m''" 30 0 "''BTC/USDT''"] show ?thesis
    by (auto simp: default_offline_def timeframe_deltas_def quantize_grid)
qed

text \<open>Without the configured symbol the probe fails.\<close>

lemma source_fallback_witness:
  "\<exists>src m s. resolve_candle_source (default_settings\<lparr>st_supported_symbols := []\<rparr>) True (\<lambda>_. 0) flaky_exchange 7
      (\<lparr>sr_last_market_data_ts = None\<rparr>, 0) = (src, m, s) \<and> src = OfflineSource default_offline
      \<and> sr_last_market_data_ts m = Some 7"
proof -
  let ?st = "default_settings\<lparr>st_supported_symbols := []\<rparr>"
  obtain src m s where r: "resolve_candle_source ?st True (\<lambda>_. 0) flaky_exchange 7 (\<lparr>sr_last_market_data_ts = None\<rparr>, 0) = (src, m, s)"
    using prod_cases3 by blast
  have none: "fst (load_closed_validated ?st (\<lambda>_. 0) flaky_exchange (st_default_symbol ?st) (st_default_timeframe ?st) 0) \<noteq> Inr cs" for cs
    by (simp add: load_closed_validated_def fetch_ohlcv_def)
  then have "src = OfflineSource default_offline"
    using r by (auto simp: resolve_candle_source_def live_candles_def load_closed_validated_def fetch_ohlcv_def)
  moreover obtain cs where "offline_candles default_offline 0 ''BTC/USDT'' ''5m'' 30 = Inr cs"
    using offline_series_valid [of default_offline "''5m''" 30 0 "''BTC/USDT''"]
    by (auto simp: default_offline_def timeframe_deltas_def)
  ultimately have load: "fst (load_closed_candles ?st (\<lambda>_. 0) flaky_exchange 0 30 src ''BTC/USDT'' ''5m'' 0) = Inr cs"
    by (simp add: load_closed_candles_def)
  have "''5m'' \<in> fst ` set timeframe_deltas" by (simp add: timeframe_deltas_def)
  from source_fallback [OF r load this] r \<open>src = OfflineSource default_offline\<close> show ?thesis by blast
qed

lemma sync_roundtrip_witness:
  "\<exists>t. sync_ohlcv (\<lambda>x. x) ''1m'' [minute_candle 2, minute_candle 1] [] = (Inr [minute_candle 2, minute_candle 1], t)
     \<and> get_candles ''BTC/USDT'' ''1m'' (Suc (Suc 0)) t = Inr [minute_candle 1, minute_candle 2]"
proof -
  let ?cs = "[minute_candle 2, minute_candle 1]"
  obtain res t where sync: "sync_ohlcv (\<lambda>x. x) ''1m'' ?cs [] = (res, t)" by fastforce
  have ok: "list_all candle_ok ?cs" by (simp add: minute_candle_def candle_ok_def ohlc_sane_def)
  have sorted: "sort_key c_open_time ?cs = [minute_candle 1, minute_candle 2]"
    by (simp add: minute_candle_def seconds_def)
  have series: "series_ok ?cs (Some ''1m'')"
    by (simp add: series_ok_def series_timeframe_def timeframe_deltas_def candle_sane_def ohlc_sane_def progression_def
        minute_candle_def seconds_def)
  have row: "\<forall>c \<in> set ?cs. candle_row (\<lambda>x. x) c = c" by (simp add: candle_row_def minute_candle_def)
  from sync_roundtrip [OF sync _ row] ok series have "res = Inr ?cs" "get_candles ''BTC/USDT'' ''1m'' (Suc (Suc 0)) t = Inr (sort_key c_open_time ?cs)"
    by (auto simp: table_ok_def minute_candle_def split: sum.splits)
  with sync sorted show ?thesis by auto
qed

definition sample_message :: "string \<Rightarrow> int \<Rightarrow> ws_message" where
  "sample_message i t = \<lparr>ms_type = None, ms_id = Some i, ms_trade_id = None, ms_sequence = None, ms_seq = None,
     ms_timestamp = Some t, ms_T = None, ms_price = Some 50000\<rparr>"


lemma ws_pass_bounded_witness:
  "\<exists>e ticks c. run_pass [''BTC/USDT''] None ([Refused, Stopped []], [], initial_client) = (e, (drop 2 [Refused, Stopped []], ticks, c))"
proof -
  obtain e conns ticks c where
    pass: "run_pass [''BTC/USDT''] None ([Refused, Stopped []], [], initial_client) = (e, (conns, ticks, c))"
    by (metis prod_cases4)
  have "e = LoopStopped"
  proof -
    have five: "ry_max_attempts socket_retry = Suc (Suc (Suc (Suc (Suc 0))))"
      by (simp add: socket_retry_def default_retry_def)
    have "fst (run_pass [''BTC/USDT''] None ([Refused, Stopped []], [], initial_client)) = LoopStopped"
      unfolding run_pass_def with_exponential_backoff_def five by simp
    with pass show ?thesis by simp
  qed
  with ws_pass_bounded [OF pass] obtain n msgs where "1 \<le> n" "n \<le> 2" "[Refused, Stopped []] ! (n - 1) = Stopped msgs"
    "conns = drop n [Refused, Stopped []]" by auto
  then have "n = 2" by (cases n; cases "n - 1") auto
  with pass \<open>conns = _\<close> show ?thesis by blast
qed

end
