(* ===== verification/Market_Hub.thy ===== *)
theory Market_Hub
  imports Feed_Properties Access
begin

text \<open>
  The rest of the market data clients: the last price and the symbols of a provider
  (\<open>market_data/providers/bybit.py\<close>, \<open>binance.py\<close>), the choice of the provider and its fallback price
  (\<open>facade.py\<close>), and the hub with its advisory view of the derivatives markets (\<open>hub.py\<close>), whose health
  over any sequence of calls is proved. An exchange is a record of calls, each a state transformer
  that answers or raises; what an answer does not have is \<open>None\<close>, and a zero counts as missing
  wherever the code writes \<open>or\<close>.
\<close>

subsection \<open>Prices\<close>

datatype provider = BinanceProvider | BybitProvider

definition create_provider :: "string option \<Rightarrow> provider" where
  "create_provider exchange_id =
     (if py_strip (py_lower (text_or exchange_id ''bybit'')) = ''binance'' then BinanceProvider else BybitProvider)"

record ticker =
  tk_last :: "decimal option"
  tk_close :: "decimal option"

record market_entry =
  me_base :: "string option"
  me_quote :: "string option"
  me_price_precision :: "decimal option"
  me_amount_precision :: "decimal option"
  me_amount_min :: "decimal option"
  me_cost_min :: "decimal option"
  me_tick_size :: "decimal option"
  me_step_size :: "decimal option"
  me_active :: bool

text \<open>
  \<open>mk_funding_rate\<close> and \<open>mk_open_interest\<close> are absent where the exchange has no such call; an answer
  that is not a dictionary is \<open>None\<close>. \<open>mk_last_bar\<close> asks for one bar.
\<close>

record 's market_calls =
  mk_bars :: "'s exchange"
  mk_last_bar :: "'s exchange"
  mk_ticker :: "'s \<Rightarrow> (py_error + ticker) \<times> 's"
  mk_markets :: "'s \<Rightarrow> (py_error + (string \<times> market_entry) list) \<times> 's"
  mk_funding_rate :: "('s \<Rightarrow> (py_error + decimal option option) \<times> 's) option"
  mk_open_interest :: "('s \<Rightarrow> (py_error + decimal option option) \<times> 's) option"

definition bybit_latest_price :: "(nat \<Rightarrow> rat) \<Rightarrow> 's market_calls \<Rightarrow> string \<Rightarrow> 's \<Rightarrow> (feed_error + decimal) \<times> 's" where
  "bybit_latest_price jitter mk symbol s =
     (let (res, delays, s1) = with_exponential_backoff provider_retry jitter (mk_ticker mk) s
      in ((case res of
             Inl e \<Rightarrow> Inl e
           | Inr t \<Rightarrow>
               (case truthy_or (tk_last t) (tk_close t) of
                  None \<Rightarrow> Inl (FeedError (ValueError (''No last price for '' @ symbol)))
                | Some x \<Rightarrow> Inr x)), s1))"

text \<open>\<open>MarketDataService.get_latest_price\<close>: the Binance provider has no such method.\<close>

definition service_latest_price :: "settings \<Rightarrow> (nat \<Rightarrow> rat) \<Rightarrow> provider \<Rightarrow> 's market_calls \<Rightarrow> string \<Rightarrow> 's
  \<Rightarrow> (feed_error + decimal) \<times> 's" where
  "service_latest_price st jitter pv mk symbol s =
     (case pv of
        BybitProvider \<Rightarrow> bybit_latest_price jitter mk symbol s
      | BinanceProvider \<Rightarrow>
          (let (res, s1) = fetch_ohlcv st jitter (mk_last_bar mk) symbol (st_default_timeframe st) None s
           in ((case res of
                  Inl e \<Rightarrow> Inl e
                | Inr cs \<Rightarrow>
                    if cs = [] then Inl (FeedError (ValueError (''No candles available for '' @ symbol)))
                    else Inr (c_close (last cs))), s1)))"

subsection \<open>Symbols\<close>

text \<open>The part of a symbol before its slash, and the one after it, which may not be there.\<close>

definition symbol_base :: "string \<Rightarrow> market_entry \<Rightarrow> string" where
  "symbol_base symbol me = text_or (me_base me) (hd (split_on (CHR ''/'') symbol))"

datatype symbol_error = IndexError | BadPrecision

definition symbol_quote :: "string \<Rightarrow> market_entry \<Rightarrow> symbol_error + string" where
  "symbol_quote symbol me =
     (case me_quote me of
        Some (c # cs) \<Rightarrow> Inr (c # cs)
      | _ \<Rightarrow> (case split_on (CHR ''/'') symbol of _ # q # _ \<Rightarrow> Inr q | _ \<Rightarrow> Inl IndexError))"

definition whole_part :: "decimal \<Rightarrow> int" where
  "whole_part x = (if 0 \<le> x then \<lfloor>x\<rfloor> else - \<lfloor>- x\<rfloor>)"

definition symbol_info_of :: "provider \<Rightarrow> string \<Rightarrow> market_entry \<Rightarrow> symbol_error + symbol_info" where
  "symbol_info_of pv symbol me =
     (let price = whole_part (or_else (me_price_precision me) 8);
          amount = whole_part (or_else (me_amount_precision me) 8)
      in case symbol_quote symbol me of
           Inl e \<Rightarrow> Inl e
         | Inr q \<Rightarrow>
             if price < 0 \<or> amount < 0 then Inl BadPrecision
             else Inr \<lparr>si_symbol = symbol, si_base = symbol_base symbol me, si_quote = q,
               si_price_precision = nat price, si_quantity_precision = nat amount,
               si_min_quantity = or_else (me_amount_min me) (1 / 10000),
               si_min_notional = or_else (me_cost_min me) 10,
               si_tick_size = (case pv of BinanceProvider \<Rightarrow> or_else (me_tick_size me) (1 / 100) | BybitProvider \<Rightarrow> 1 / 100),
               si_step_size = (case pv of BinanceProvider \<Rightarrow> or_else (me_step_size me) (1 / 10000)
                               | BybitProvider \<Rightarrow> 1 / 10000),
               si_active = me_active me\<rparr>)"

fun symbol_infos :: "provider \<Rightarrow> string list \<Rightarrow> (string \<times> market_entry) list \<Rightarrow> symbol_error + symbol_info list" where
  "symbol_infos pv supported [] = Inr []"
| "symbol_infos pv supported ((symbol, me) # ms) =
     (if symbol \<notin> set supported then symbol_infos pv supported ms
      else
        case symbol_info_of pv symbol me of
          Inl e \<Rightarrow> Inl e
        | Inr i \<Rightarrow> (case symbol_infos pv supported ms of Inl e \<Rightarrow> Inl e | Inr xs \<Rightarrow> Inr (i # xs)))"

datatype symbols_error = MarketsUnavailable feed_error | BadMarket symbol_error

definition fetch_symbols :: "settings \<Rightarrow> (nat \<Rightarrow> rat) \<Rightarrow> provider \<Rightarrow> 's market_calls \<Rightarrow> 's
  \<Rightarrow> (symbols_error + symbol_info list) \<times> 's" where
  "fetch_symbols st jitter pv mk s =
     (let (res, delays, s1) = with_exponential_backoff provider_retry jitter (mk_markets mk) s
      in ((case res of
             Inl e \<Rightarrow> Inl (MarketsUnavailable e)
           | Inr ms \<Rightarrow>
               (case symbol_infos pv (st_supported_symbols st) ms of
                  Inl e \<Rightarrow> Inl (BadMarket e)
                | Inr xs \<Rightarrow> Inr xs)), s1))"

subsection \<open>The hub\<close>

record hub_env =
  he_call_at :: timestamp
  he_done_at :: timestamp
  he_as_of :: timestamp

definition hub_price :: "settings \<Rightarrow> (nat \<Rightarrow> rat) \<Rightarrow> provider \<Rightarrow> 's market_calls \<Rightarrow> hub_env \<Rightarrow> string \<Rightarrow> hub \<times> 's
  \<Rightarrow> (feed_error + decimal) \<times> hub \<times> 's" where
  "hub_price st jitter pv mk v symbol x =
     (let (h, s) = x;
          h1 = h\<lparr>hb_heartbeat_at := Some (he_call_at v)\<rparr>;
          (res, s1) = service_latest_price st jitter pv mk symbol s
      in case res of
           Inl e \<Rightarrow> (Inl e, h1, s1)
         | Inr price \<Rightarrow> (Inr price, h1\<lparr>hb_last_success_at := Some (he_done_at v)\<rparr>, s1))"

datatype snapshot_source =
    SourceUnavailable
  | SourceFundingRate
  | SourceFundingAndOI
  | SourceOpenInterest
  | SourceFault py_error

record derivatives =
  dv_symbol :: string
  dv_funding_rate :: "decimal option"
  dv_open_interest :: "decimal option"
  dv_mark_price :: "decimal option"
  dv_as_of :: timestamp
  dv_source :: snapshot_source

definition read_funding :: "'s market_calls \<Rightarrow> derivatives \<times> 's \<Rightarrow> py_error option \<times> derivatives \<times> 's" where
  "read_funding mk x =
     (let (snap, s) = x
      in case mk_funding_rate mk of
           None \<Rightarrow> (None, snap, s)
         | Some call \<Rightarrow>
             (case call s of
                (Inl e, s1) \<Rightarrow> (Some e, snap, s1)
              | (Inr None, s1) \<Rightarrow> (None, snap, s1)
              | (Inr (Some rate), s1) \<Rightarrow>
                  (None, snap\<lparr>dv_funding_rate := rate, dv_source := SourceFundingRate\<rparr>, s1)))"

definition read_interest :: "'s market_calls \<Rightarrow> derivatives \<times> 's \<Rightarrow> py_error option \<times> derivatives \<times> 's" where
  "read_interest mk x =
     (let (snap, s) = x
      in case mk_open_interest mk of
           None \<Rightarrow> (None, snap, s)
         | Some call \<Rightarrow>
             (case call s of
                (Inl e, s1) \<Rightarrow> (Some e, snap, s1)
              | (Inr (Some (Some amount)), s1) \<Rightarrow>
                  (None, snap\<lparr>dv_open_interest := Some amount,
                     dv_source := (if dv_funding_rate snap \<noteq> None then SourceFundingAndOI else SourceOpenInterest)\<rparr>, s1)
              | (Inr _, s1) \<Rightarrow> (None, snap, s1)))"

text \<open>Nothing is raised: what fails ends the reading, a failing price is left out.\<close>

definition fetch_advisory_derivatives :: "settings \<Rightarrow> (nat \<Rightarrow> rat) \<Rightarrow> provider \<Rightarrow> 's market_calls \<Rightarrow> hub_env
  \<Rightarrow> string \<Rightarrow> hub \<times> 's \<Rightarrow> derivatives \<times> hub \<times> 's" where
  "fetch_advisory_derivatives st jitter pv mk v symbol x =
     (let (h, s) = x;
          snap = \<lparr>dv_symbol = symbol, dv_funding_rate = None, dv_open_interest = None, dv_mark_price = None,
                  dv_as_of = he_as_of v, dv_source = SourceUnavailable\<rparr>;
          (e1, snap1, s1) = read_funding mk (snap, s)
      in case e1 of
           Some e \<Rightarrow> (snap1\<lparr>dv_source := SourceFault e\<rparr>, h, s1)
         | None \<Rightarrow>
             let (e2, snap2, s2) = read_interest mk (snap1, s1)
             in case e2 of
                  Some e \<Rightarrow> (snap2\<lparr>dv_source := SourceFault e\<rparr>, h, s2)
                | None \<Rightarrow>
                    let (res, h3, s3) = hub_price st jitter pv mk v symbol (h, s2)
                    in (case res of Inl e \<Rightarrow> snap2 | Inr price \<Rightarrow> snap2\<lparr>dv_mark_price := Some price\<rparr>, h3, s3))"

subsection \<open>Calls of the hub in sequence\<close>

datatype hub_call =
    LoadCall hub_env string string
  | PriceCall hub_env string
  | DerivativesCall hub_env string

fun hub_calls :: "settings \<Rightarrow> (nat \<Rightarrow> rat) \<Rightarrow> provider \<Rightarrow> 's market_calls \<Rightarrow> hub_call list \<Rightarrow> hub \<times> 's
  \<Rightarrow> (feed_error + candle list) list \<times> hub \<times> 's" where
  "hub_calls st jitter pv mk [] x = ([], x)"
| "hub_calls st jitter pv mk (LoadCall v symbol timeframe # cs) x =
     (let (res, x1) = hub_load st jitter (mk_bars mk) (he_call_at v) (he_done_at v) symbol timeframe x;
          (loads, x2) = hub_calls st jitter pv mk cs x1
      in (res # loads, x2))"
| "hub_calls st jitter pv mk (PriceCall v symbol # cs) x =
     hub_calls st jitter pv mk cs (snd (hub_price st jitter pv mk v symbol x))"
| "hub_calls st jitter pv mk (DerivativesCall v symbol # cs) x =
     hub_calls st jitter pv mk cs (snd (fetch_advisory_derivatives st jitter pv mk v symbol x))"

text \<open>What the loads leave of the error of the hub.\<close>

definition load_error :: "feed_error option \<Rightarrow> (feed_error + candle list) list \<Rightarrow> feed_error option" where
  "load_error e loads =
     (if loads = [] then e else case last loads of Inl e' \<Rightarrow> Some e' | Inr _ \<Rightarrow> None)"

definition hub_counts :: "hub \<Rightarrow> nat \<times> nat \<times> feed_error option" where
  "hub_counts h = (hb_fetch_ok h, hb_fetch_fail h, hb_last_error h)"

lemma hub_price_counts: "hub_counts (fst (snd (hub_price st jitter pv mk v symbol x))) = hub_counts (fst x)"
  by (cases x) (auto simp: hub_price_def hub_counts_def Let_def split: prod.split sum.split)

lemma derivatives_counts:
  "hub_counts (fst (snd (fetch_advisory_derivatives st jitter pv mk v symbol x))) = hub_counts (fst x)"
proof -
  have price: "hub_counts h3 = hub_counts h" if "hub_price st jitter pv mk v symbol (h, s2) = (res, h3, s3)" for h s2 res h3 s3
    using hub_price_counts [of st jitter pv mk v symbol "(h, s2)"] that by simp
  show ?thesis
    by (cases x) (auto simp: fetch_advisory_derivatives_def Let_def dest: price split: prod.split option.split)
qed

lemma hub_load_counts:
  "hub_load st jitter call now done_at symbol timeframe x = (res, x') \<Longrightarrow>
     hub_counts (fst x') =
       (case res of
          Inr _ \<Rightarrow> (hb_fetch_ok (fst x) + 1, hb_fetch_fail (fst x), None)
        | Inl e \<Rightarrow> (hb_fetch_ok (fst x), hb_fetch_fail (fst x) + 1, Some e))"
  by (cases x) (auto simp: hub_load_def hub_counts_def Let_def split: prod.splits sum.splits)

lemma hub_calls_counts:
  "hub_calls st jitter pv mk cs x = (loads, x') \<Longrightarrow>
     hub_counts (fst x') =
       (hb_fetch_ok (fst x) + length (filter (\<lambda>r. r \<in> range Inr) loads),
        hb_fetch_fail (fst x) + length (filter (\<lambda>r. r \<in> range Inl) loads),
        load_error (hb_last_error (fst x)) loads)"
proof (induction st jitter pv mk cs x arbitrary: loads rule: hub_calls.induct)
  case (1 st jitter pv mk x)
  then show ?case by (simp add: hub_counts_def load_error_def)
next
  case (2 st jitter pv mk v symbol timeframe cs x)
  obtain res x1 where l: "hub_load st jitter (mk_bars mk) (he_call_at v) (he_done_at v) symbol timeframe x = (res, x1)"
    by (rule prod.exhaust)
  obtain loads' where run: "hub_calls st jitter pv mk cs x1 = (loads', x')" and loads: "loads = res # loads'"
    using "2.prems" by (auto simp: l split: prod.splits)
  from "2.IH" [OF l [symmetric] refl run] hub_load_counts [OF l] show ?case
    by (cases res) (auto simp: hub_counts_def load_error_def loads)
next
  case (3 st jitter pv mk v symbol cs x)
  with hub_price_counts [of st jitter pv mk v symbol x] show ?case by (simp add: hub_counts_def)
next
  case (4 st jitter pv mk v symbol cs x)
  with derivatives_counts [of st jitter pv mk v symbol x] show ?case by (simp add: hub_counts_def)
qed

subsection \<open>What the health of the hub says\<close>


definition quiet_calls :: "unit market_calls" where
  "quiet_calls = \<lparr>mk_bars = (\<lambda>s. (Inl InsufficientDataError, s)), mk_last_bar = (\<lambda>s. (Inr [], s)),
     mk_ticker = (\<lambda>s. (Inr \<lparr>tk_last = Some 100, tk_close = None\<rparr>, s)), mk_markets = (\<lambda>s. (Inr [], s)),
     mk_funding_rate = None, mk_open_interest = None\<rparr>"

lemma price_makes_healthy:
  fixes t
  defines "v \<equiv> \<lparr>he_call_at = t, he_done_at = t, he_as_of = t\<rparr>"
  assumes "0 \<le> st_market_data_stale_seconds st"
  shows "\<exists>h. hub_calls st jitter BybitProvider quiet_calls [DerivativesCall v symbol] (initial_hub, ()) = ([], h, ())
    \<and> hs_healthy (status_of_hub st t h)"
  using assms(2)
  by (simp add: v_def fetch_advisory_derivatives_def read_funding_def read_interest_def hub_price_def quiet_calls_def
      service_latest_price_def bybit_latest_price_def with_exponential_backoff_def provider_retry_def default_retry_def
      truthy_or_def status_of_hub_def initial_hub_def seconds_def Let_def numeral_eq_Suc)

subsection \<open>What is read of the symbols\<close>

text \<open>
  Of an answer exactly the supported symbols are taken, in order and once for each entry; none has a
  zero minimum, tick or step; and reading fails only for a supported entry whose own conversion fails.
\<close>

lemma symbols_exact:
  "(case symbol_infos pv supported ms of
      Inr xs \<Rightarrow>
        map si_symbol xs = filter (\<lambda>sy. sy \<in> set supported) (map fst ms)
      \<and> 0 \<notin> (\<lambda>i. si_min_quantity i * si_min_notional i * si_tick_size i * si_step_size i) ` set xs
    | Inl e \<Rightarrow> \<exists>sy me. (sy, me) \<in> set ms \<and> sy \<in> set supported \<and> symbol_info_of pv sy me = Inl e)"
proof (induction pv supported ms rule: symbol_infos.induct)
  case (2 pv supported symbol me ms)
  have nonzero: "or_else a d \<noteq> 0" if "d \<noteq> 0" for a d
    using that by (auto simp: or_else_def split: option.split)
  have info: "si_symbol i = symbol \<and> si_min_quantity i * si_min_notional i * si_tick_size i * si_step_size i \<noteq> 0"
    if "symbol_info_of pv symbol me = Inr i" for i
    using that by (auto simp: symbol_info_of_def Let_def nonzero split: sum.splits if_splits provider.splits)
  show ?case
  proof (cases "symbol \<in> set supported")
    case False
    with "2.IH"(1) show ?thesis by (auto split: sum.splits)
  next
    case True
    show ?thesis
    proof (cases "symbol_info_of pv symbol me")
      case (Inl e)
      with True show ?thesis by auto
    next
      case (Inr i)
      with "2.IH"(2) [OF _ Inr] info [OF Inr] True show ?thesis by (auto split: sum.splits)
    qed
  qed
qed simp

text \<open>A precision that is given as the size of a tick, below one, is read as no decimal places at all.\<close>

lemma tick_size_precision_lost:
  assumes "me_price_precision me = Some x" and "0 < x" and "x < 1"
    and "symbol_info_of pv symbol me = Inr i"
  shows "si_price_precision i = 0"
proof -
  have "\<lfloor>x\<rfloor> = 0" using assms by (simp add: floor_eq_iff)
  with assms show ?thesis
    by (auto simp: symbol_info_of_def or_else_def whole_part_def Let_def split: sum.splits if_splits)
qed

end
