(* ===== verification/Users.thy ===== *)
theory Users
  imports Access "HOL-Library.Word"
begin

text \<open>
  The users of the dashboard: password hashes (\<open>app/auth/passwords.py\<close>), the table of users
  (\<open>app/auth/store.py\<close>) and the log-in (\<open>app/api/auth.py\<close>). The key derivation \<open>pbkdf2_hmac\<close> is the
  parameter \<open>kdf\<close>; the encoding of a hash as text and its decoding are the code's. The table is
  \<open>None\<close> while it does not exist.
\<close>

subsection \<open>Integers and bytes as text\<close>

definition digit_value :: "char \<Rightarrow> nat option" where
  "digit_value c = (let n = of_char c in if 48 \<le> n \<and> n \<le> 57 then Some (n - 48) else None)"

text \<open>\<open>int(text)\<close>: blanks around, a sign, digits with single underscores between them.\<close>

fun int_digits :: "nat \<Rightarrow> string \<Rightarrow> nat option" where
  "int_digits acc [] = Some acc"
| "int_digits acc (c # cs) =
     (case digit_value c of
        Some d \<Rightarrow> int_digits (10 * acc + d) cs
      | None \<Rightarrow>
          if c = CHR ''_'' \<and> cs \<noteq> [] \<and> digit_value (hd cs) \<noteq> None then int_digits acc cs else None)"

definition parse_nat :: "string \<Rightarrow> nat option" where
  "parse_nat cs = (if cs \<noteq> [] \<and> digit_value (hd cs) \<noteq> None then int_digits 0 cs else None)"

definition parse_int :: "string \<Rightarrow> int option" where
  "parse_int text =
     (case py_strip text of
        [] \<Rightarrow> None
      | c # cs \<Rightarrow>
          if c = CHR ''-'' then map_option (\<lambda>n. - int n) (parse_nat cs)
          else if c = CHR ''+'' then map_option int (parse_nat cs)
          else map_option int (parse_nat (c # cs)))"

text \<open>\<open>bytes.hex()\<close> and \<open>bytes.fromhex\<close>, which takes capitals and blanks between bytes too.\<close>

definition hex_digit :: "nat \<Rightarrow> char" where
  "hex_digit n = (if n < 10 then char_of (48 + n) else char_of (87 + n))"

definition hex_value :: "char \<Rightarrow> nat option" where
  "hex_value c =
     (let n = of_char c
      in if 48 \<le> n \<and> n \<le> 57 then Some (n - 48)
         else if 97 \<le> n \<and> n \<le> 102 then Some (n - 87)
         else if 65 \<le> n \<and> n \<le> 70 then Some (n - 55)
         else None)"

definition bytes_hex :: "8 word list \<Rightarrow> string" where
  "bytes_hex bs = concat (map (\<lambda>b. [hex_digit (unat b div 16), hex_digit (unat b mod 16)]) bs)"

fun bytes_fromhex :: "string \<Rightarrow> 8 word list option" where
  "bytes_fromhex [] = Some []"
| "bytes_fromhex [c] = (if is_space c then Some [] else None)"
| "bytes_fromhex (c # d # cs) =
     (if is_space c then bytes_fromhex (d # cs)
      else case (hex_value c, hex_value d) of
             (Some h, Some l) \<Rightarrow> map_option (\<lambda>bs. of_nat (16 * h + l) # bs) (bytes_fromhex cs)
           | _ \<Rightarrow> None)"

subsection \<open>Passwords\<close>

type_synonym key_derivation = "string \<Rightarrow> 8 word list \<Rightarrow> int \<Rightarrow> 8 word list"

definition pw_algorithm :: string where
  "pw_algorithm = ''pbkdf2_sha256''"

definition pw_iterations :: int where
  "pw_iterations = 200000"

definition hash_password :: "key_derivation \<Rightarrow> 8 word list \<Rightarrow> int \<Rightarrow> string \<Rightarrow> string" where
  "hash_password kdf salt iterations password =
     pw_algorithm @ ''$'' @ int_text iterations @ ''$'' @ bytes_hex salt @ ''$''
       @ bytes_hex (kdf password salt iterations)"

text \<open>The derivation and the comparison are outside the \<open>try\<close>: they raise.\<close>

datatype auth_error =
    BadIterations
  | TextFault token_fault
  | OperationalError
  | IntegrityError
  | HTTPUnauthorized

definition verify_password :: "key_derivation \<Rightarrow> string \<Rightarrow> string \<Rightarrow> auth_error + bool" where
  "verify_password kdf password encoded =
     (case split_on (CHR ''$'') encoded of
        [algorithm, iterations_s, salt_hex, hash_hex] \<Rightarrow>
          (case (parse_int iterations_s, bytes_fromhex salt_hex) of
             (Some iterations, Some salt) \<Rightarrow>
               if algorithm \<noteq> pw_algorithm then Inr False
               else if iterations < 1 \<or> 2 ^ 31 \<le> iterations then Inl BadIterations
               else if \<not> ascii_text hash_hex then Inl (TextFault NonAsciiText)
               else Inr (bytes_hex (kdf password salt iterations) = hash_hex)
           | _ \<Rightarrow> Inr False)
      | _ \<Rightarrow> Inr False)"

subsection \<open>The table of users\<close>

record user_row =
  us_id :: string
  us_username :: string
  us_password_hash :: string
  us_created_at :: timestamp

type_synonym user_table = "user_row list option"

text \<open>
  A read of a missing table raises; \<open>_ensure_table\<close> creates it only when what the session is bound to
  is an asynchronous engine (\<open>bind_async\<close>), and the read is tried once more.
\<close>

definition ensure_table :: "bool \<Rightarrow> user_table \<Rightarrow> user_table" where
  "ensure_table bind_async tbl = (if bind_async \<and> tbl = None then Some [] else tbl)"

definition select_user :: "string \<Rightarrow> user_table \<Rightarrow> auth_error + user_row option" where
  "select_user username tbl =
     (case tbl of None \<Rightarrow> Inl OperationalError
      | Some rows \<Rightarrow> Inr (find (\<lambda>u. us_username u = username) rows))"

definition user_get :: "bool \<Rightarrow> string \<Rightarrow> user_table \<Rightarrow> (auth_error + user_row option) \<times> user_table" where
  "user_get bind_async username tbl =
     (case select_user username tbl of
        Inr r \<Rightarrow> (Inr r, tbl)
      | Inl _ \<Rightarrow> (let tbl' = ensure_table bind_async tbl in (select_user username tbl', tbl')))"

record user_env =
  ue_id :: string
  ue_salt :: "8 word list"
  ue_created_at :: timestamp

definition user_create :: "key_derivation \<Rightarrow> user_env \<Rightarrow> string \<Rightarrow> string \<Rightarrow> user_table
  \<Rightarrow> (auth_error + user_row) \<times> user_table" where
  "user_create kdf v username password tbl =
     (case tbl of
        None \<Rightarrow> (Inl OperationalError, None)
      | Some rows \<Rightarrow>
          let u = \<lparr>us_id = ue_id v, us_username = username,
                   us_password_hash = hash_password kdf (ue_salt v) pw_iterations password,
                   us_created_at = ue_created_at v\<rparr>
          in if \<exists>r \<in> set rows. us_id r = us_id u \<or> us_username r = username then (Inl IntegrityError, tbl)
             else (Inr u, Some (rows @ [u])))"

definition user_verify :: "key_derivation \<Rightarrow> bool \<Rightarrow> string \<Rightarrow> string \<Rightarrow> user_table
  \<Rightarrow> (auth_error + bool) \<times> user_table" where
  "user_verify kdf bind_async username password tbl =
     (case user_get bind_async username tbl of
        (Inl e, tbl') \<Rightarrow> (Inl e, tbl')
      | (Inr None, tbl') \<Rightarrow> (Inr False, tbl')
      | (Inr (Some u), tbl') \<Rightarrow> (verify_password kdf password (us_password_hash u), tbl'))"

definition ensure_seeded :: "key_derivation \<Rightarrow> bool \<Rightarrow> string option \<Rightarrow> string option \<Rightarrow> user_env \<Rightarrow> user_table
  \<Rightarrow> (auth_error + unit) \<times> user_table" where
  "ensure_seeded kdf bind_async env_user env_password v tbl =
     (let username = (case env_user of Some u \<Rightarrow> u | None \<Rightarrow> ''admin'');
          password = (case env_password of Some p \<Rightarrow> p | None \<Rightarrow> ''atlas'')
      in case user_get bind_async username tbl of
           (Inl e, tbl') \<Rightarrow> (Inl e, tbl')
         | (Inr (Some _), tbl') \<Rightarrow> (Inr (), tbl')
         | (Inr None, tbl') \<Rightarrow>
             (case user_create kdf v username password tbl' of
                (Inl e, tbl'') \<Rightarrow> (Inl e, tbl'')
              | (Inr _, tbl'') \<Rightarrow> (Inr (), tbl'')))"

subsection \<open>Log-in\<close>

definition default_ttl :: int where
  "default_ttl = 60 * 60 * 8"

definition remember_ttl :: int where
  "remember_ttl = 60 * 60 * 24 * 30"

record login_body =
  lb_username :: string
  lb_password :: string
  lb_remember :: bool

record login_config =
  lc_kdf :: key_derivation
  lc_bind_async :: bool
  lc_env_user :: "string option"
  lc_env_password :: "string option"
  lc_codec :: token_codec
  lc_secret :: string

record login_answer =
  la_token :: string
  la_username :: string
  la_expires_in :: int
  la_remember :: bool

definition login_answer_of :: "login_config \<Rightarrow> int \<Rightarrow> login_body \<Rightarrow> login_answer" where
  "login_answer_of lc now b =
     (let ttl = (if lb_remember b then remember_ttl else default_ttl)
      in \<lparr>la_token = create_session_token (lc_codec lc) (lc_secret lc) now (py_strip (lb_username b)) ttl,
          la_username = py_strip (lb_username b), la_expires_in = ttl, la_remember = lb_remember b\<rparr>)"

definition login :: "login_config \<Rightarrow> user_env \<Rightarrow> int \<Rightarrow> login_body \<Rightarrow> user_table
  \<Rightarrow> (auth_error + login_answer) \<times> user_table" where
  "login lc v now b tbl =
     (case ensure_seeded (lc_kdf lc) (lc_bind_async lc) (lc_env_user lc) (lc_env_password lc) v tbl of
        (Inl e, tbl') \<Rightarrow> (Inl e, tbl')
      | (Inr _, tbl') \<Rightarrow>
          (case user_verify (lc_kdf lc) (lc_bind_async lc) (py_strip (lb_username b)) (lb_password b) tbl' of
             (Inl e, tbl'') \<Rightarrow> (Inl e, tbl'')
           | (Inr False, tbl'') \<Rightarrow> (Inl HTTPUnauthorized, tbl'')
           | (Inr True, tbl'') \<Rightarrow> (Inr (login_answer_of lc now b), tbl'')))"

text \<open>\<open>/auth/verify\<close>: whether the token is good, and for whom.\<close>

definition verify_token :: "login_config \<Rightarrow> int \<Rightarrow> string \<Rightarrow> auth_error + bool \<times> string option" where
  "verify_token lc now token =
     (case verify_session_token (lc_codec lc) (lc_secret lc) now (Some token) of
        Inl e \<Rightarrow> Inl (TextFault e)
      | Inr payload \<Rightarrow> Inr (payload \<noteq> None, map_option fst payload))"

subsection \<open>Round trips of the texts\<close>

definition is_digit :: "char \<Rightarrow> bool" where
  "is_digit c \<longleftrightarrow> digit_value c \<noteq> None"

lemma digit_value_char [simp]: "d < 10 \<Longrightarrow> digit_value (char_of (48 + d :: nat)) = Some d"
  by (simp add: digit_value_def Let_def)

lemma is_digit_char [simp]: "d < 10 \<Longrightarrow> is_digit (char_of (48 + d :: nat))"
  by (simp add: is_digit_def)

lemma decimal_digits_all: "list_all is_digit (decimal_digits n)" "decimal_digits n \<noteq> []"
proof -
  have "list_all is_digit (decimal_digits n) \<and> decimal_digits n \<noteq> []"
  proof (induction n rule: decimal_digits.induct)
    case (1 n)
    then show ?case by (subst (1 2) decimal_digits.simps) simp
  qed
  then show "list_all is_digit (decimal_digits n)" "decimal_digits n \<noteq> []" by simp_all
qed

lemma int_digits_snoc:
  "int_digits acc xs = Some n \<Longrightarrow> list_all is_digit xs \<Longrightarrow> d < 10
    \<Longrightarrow> int_digits acc (xs @ [char_of (48 + d)]) = Some (10 * n + d)"
  by (induction acc xs rule: int_digits.induct) (auto simp: is_digit_def split: option.splits)

lemma int_digits_decimal: "int_digits 0 (decimal_digits n) = Some n"
proof (induction n rule: decimal_digits.induct)
  case (1 n)
  show ?case
  proof (cases "n < 10")
    case True
    then show ?thesis by (subst decimal_digits.simps) simp
  next
    case False
    have "int_digits 0 (decimal_digits (n div 10) @ [char_of (48 + n mod 10)]) = Some (10 * (n div 10) + n mod 10)"
      by (rule int_digits_snoc [OF 1 [OF False] decimal_digits_all(1)]) simp
    with False show ?thesis by (subst decimal_digits.simps) simp
  qed
qed

lemma is_digit_plain: "is_digit c \<Longrightarrow> \<not> is_space c \<and> c \<notin> {CHR ''-'', CHR ''+'', CHR ''$''}"
  by (auto simp: is_digit_def digit_value_def is_space_def Let_def split: if_splits)

lemma dropWhile_none: "list_all (\<lambda>c. \<not> P c) xs \<Longrightarrow> dropWhile P xs = xs"
  by (cases xs) simp_all

lemma parse_int_text: "0 \<le> k \<Longrightarrow> parse_int (int_text k) = Some k"
proof -
  assume k: "0 \<le> k"
  let ?ds = "decimal_digits (nat k)"
  have ns: "list_all (\<lambda>c. \<not> is_space c) ?ds" using decimal_digits_all(1) [of "nat k"] is_digit_plain by (auto simp: list_all_iff)
  have "list_all (\<lambda>c. \<not> is_space c) (rev ?ds)" using ns by (simp add: list_all_iff)
  then have strip: "py_strip (int_text k) = ?ds" using k ns by (simp add: int_text_def py_strip_def dropWhile_none)
  obtain c cs where c: "?ds = c # cs" using decimal_digits_all(2) [of "nat k"] by (cases ?ds) auto
  have d: "is_digit c" using decimal_digits_all(1) [of "nat k"] c by simp
  then have "parse_nat (c # cs) = Some (nat k)"
    using int_digits_decimal [of "nat k"] c by (simp add: parse_nat_def is_digit_def)
  with strip c is_digit_plain [OF d] k show ?thesis by (simp add: parse_int_def)
qed

lemma int_text_no_dollar: "0 \<le> k \<Longrightarrow> CHR ''$'' \<notin> set (int_text k)"
  using decimal_digits_all(1) [of "nat k"] is_digit_plain by (auto simp: int_text_def list_all_iff)

lemma hex_digit_value [simp]: "n < 16 \<Longrightarrow> hex_value (hex_digit n) = Some n"
  by (auto simp: hex_value_def hex_digit_def Let_def)

lemma hex_digit_plain: "n < 16 \<Longrightarrow> \<not> is_space (hex_digit n) \<and> hex_digit n \<noteq> CHR ''$'' \<and> of_char (hex_digit n) < (128 :: nat)"
proof -
  assume n: "n < 16"
  have "of_char (hex_digit n) = (if n < 10 then 48 + n else 87 + n)" using n by (simp add: hex_digit_def)
  with n show ?thesis by (auto simp: is_space_def Let_def dest: arg_cong [where f = "of_char :: char \<Rightarrow> nat"] split: if_splits)
qed

lemma byte_halves: "unat (b :: 8 word) div 16 < 16" "of_nat (16 * (unat b div 16) + unat b mod 16) = b"
  using unsigned_less [where ?'a = nat, of b] by simp_all

lemma bytes_hex_simps [simp]:
  "bytes_hex [] = []"
  "bytes_hex (b # bs) = hex_digit (unat b div 16) # hex_digit (unat b mod 16) # bytes_hex bs"
  by (simp_all add: bytes_hex_def)

lemma bytes_fromhex_hex: "bytes_fromhex (bytes_hex bs) = Some bs"
  using byte_halves hex_digit_plain by (induction bs) simp_all

lemma bytes_hex_inject: "bytes_hex as = bytes_hex bs \<longleftrightarrow> as = bs"
  by (metis bytes_fromhex_hex option.inject)

lemma bytes_hex_plain: "CHR ''$'' \<notin> set (bytes_hex bs)" "ascii_text (bytes_hex bs)"
proof -
  have "hex_digit (unat b div 16) \<noteq> CHR ''$''" "hex_digit (unat b mod 16) \<noteq> CHR ''$''" for b :: "8 word"
    using byte_halves(1) [of b] hex_digit_plain by simp_all
  then show "CHR ''$'' \<notin> set (bytes_hex bs)" by (induction bs) (simp_all add: eq_commute)
  show "ascii_text (bytes_hex bs)"
    using byte_halves(1) hex_digit_plain by (induction bs) (simp_all add: ascii_text_def)
qed

subsection \<open>Passwords\<close>

lemma verify_hash_password:
  assumes "1 \<le> iterations" and "iterations < 2 ^ 31"
  shows "verify_password kdf attempt (hash_password kdf salt iterations password)
    = Inr (kdf attempt salt iterations = kdf password salt iterations)"
proof -
  have "split_on (CHR ''$'') (hash_password kdf salt iterations password)
      = [pw_algorithm, int_text iterations, bytes_hex salt, bytes_hex (kdf password salt iterations)]"
    using assms(1) bytes_hex_plain(1)
    by (simp add: hash_password_def split_on_sep split_on_none int_text_no_dollar pw_algorithm_def)
  then show ?thesis
    using assms by (simp add: verify_password_def parse_int_text bytes_fromhex_hex bytes_hex_plain(2) bytes_hex_inject)
qed

subsection \<open>The table and the log-in\<close>

definition stored_password :: "key_derivation \<Rightarrow> user_row \<Rightarrow> 8 word list \<Rightarrow> string \<Rightarrow> bool" where
  "stored_password kdf u salt password \<longleftrightarrow> us_password_hash u = hash_password kdf salt pw_iterations password"

definition users_ok :: "key_derivation \<Rightarrow> user_row list \<Rightarrow> bool" where
  "users_ok kdf rows \<longleftrightarrow> distinct (map us_id rows) \<and> distinct (map us_username rows)
     \<and> (\<forall>u \<in> set rows. \<exists>salt password. stored_password kdf u salt password)"

definition seed_user :: "login_config \<Rightarrow> string" where
  "seed_user lc = (case lc_env_user lc of Some u \<Rightarrow> u | None \<Rightarrow> ''admin'')"

definition seed_password :: "login_config \<Rightarrow> string" where
  "seed_password lc = (case lc_env_password lc of Some p \<Rightarrow> p | None \<Rightarrow> ''atlas'')"

text \<open>What seeding makes of the rows: the user of the environment is there, and nobody is changed.\<close>

definition seeded :: "login_config \<Rightarrow> user_env \<Rightarrow> user_row list \<Rightarrow> user_row list \<Rightarrow> bool" where
  "seeded lc v rows rows' \<longleftrightarrow>
     (if seed_user lc \<in> us_username ` set rows then rows' = rows
      else \<exists>u. rows' = rows @ [u] \<and> us_username u = seed_user lc
        \<and> stored_password (lc_kdf lc) u (ue_salt v) (seed_password lc))"

lemma verify_stored:
  "stored_password kdf u salt password \<Longrightarrow> verify_password kdf attempt (us_password_hash u)
    = Inr (kdf attempt salt pw_iterations = kdf password salt pw_iterations)"
  by (simp add: stored_password_def verify_hash_password pw_iterations_def)

lemma find_user:
  "distinct (map us_username rows) \<Longrightarrow>
    find (\<lambda>u. us_username u = name) rows = Some u \<longleftrightarrow> u \<in> set rows \<and> us_username u = name"
  by (induction rows) auto

lemma ensure_seeded_ok:
  assumes "users_ok (lc_kdf lc) rows" and "ue_id v \<notin> us_id ` set rows"
  obtains rows' where "ensure_seeded (lc_kdf lc) (lc_bind_async lc) (lc_env_user lc) (lc_env_password lc) v (Some rows)
      = (Inr (), Some rows')" "users_ok (lc_kdf lc) rows'" "seeded lc v rows rows'"
proof (cases "find (\<lambda>u. us_username u = seed_user lc) rows")
  case (Some u)
  then have "ensure_seeded (lc_kdf lc) (lc_bind_async lc) (lc_env_user lc) (lc_env_password lc) v (Some rows)
      = (Inr (), Some rows)"
    by (simp add: ensure_seeded_def user_get_def select_user_def seed_user_def)
  moreover have "seeded lc v rows rows" using Some by (auto simp: seeded_def find_Some_iff image_iff intro!: bexI [of _ u])
  ultimately show ?thesis using assms(1) by (blast intro: that)
next
  case None
  define u where "u = \<lparr>us_id = ue_id v, us_username = seed_user lc,
    us_password_hash = hash_password (lc_kdf lc) (ue_salt v) pw_iterations (seed_password lc),
    us_created_at = ue_created_at v\<rparr>"
  have new: "seed_user lc \<notin> us_username ` set rows" using None by (auto simp: find_None_iff)
  have st: "stored_password (lc_kdf lc) u (ue_salt v) (seed_password lc)" by (simp add: stored_password_def u_def)
  have "\<not> (\<exists>r \<in> set rows. us_id r = ue_id v \<or> us_username r = seed_user lc)" using new assms(2) by force
  then have "ensure_seeded (lc_kdf lc) (lc_bind_async lc) (lc_env_user lc) (lc_env_password lc) v (Some rows)
      = (Inr (), Some (rows @ [u]))"
    using None
    by (simp add: ensure_seeded_def user_get_def select_user_def seed_user_def [symmetric] seed_password_def [symmetric]
        user_create_def u_def Let_def)
  moreover have "users_ok (lc_kdf lc) (rows @ [u])"
    using assms st new by (auto simp: users_ok_def u_def)
  moreover have "seeded lc v rows (rows @ [u])" using new st by (simp add: seeded_def u_def)
  ultimately show ?thesis by (rule that)
qed

definition password_known :: "key_derivation \<Rightarrow> user_row list \<Rightarrow> string \<Rightarrow> string \<Rightarrow> bool" where
  "password_known kdf rows name attempt \<longleftrightarrow> (\<exists>u salt password. u \<in> set rows \<and> us_username u = name
     \<and> stored_password kdf u salt password \<and> kdf attempt salt pw_iterations = kdf password salt pw_iterations)"

lemma user_verify_exact:
  assumes "users_ok kdf rows"
  shows "user_verify kdf bind_async name attempt (Some rows) = (Inr (password_known kdf rows name attempt), Some rows)"
proof (cases "find (\<lambda>u. us_username u = name) rows")
  case None
  then have "\<nexists>u. u \<in> set rows \<and> us_username u = name" by (auto simp: find_None_iff)
  with None show ?thesis by (auto simp: user_verify_def user_get_def select_user_def password_known_def)
next
  case (Some u)
  have dist: "distinct (map us_username rows)" using assms by (simp add: users_ok_def)
  have u: "u \<in> set rows" "us_username u = name" using Some find_user [OF dist] by auto
  then obtain salt password where st: "stored_password kdf u salt password" using assms by (auto simp: users_ok_def)
  have only: "u' = u" if "u' \<in> set rows" "us_username u' = name" for u'
    using that Some find_user [OF dist] by (metis option.inject)
  have same: "kdf attempt salt' pw_iterations = kdf password' salt' pw_iterations
      \<longleftrightarrow> kdf attempt salt pw_iterations = kdf password salt pw_iterations" if "stored_password kdf u salt' password'"
    for salt' password'
    using verify_stored [OF that, of attempt] verify_stored [OF st, of attempt] by simp
  have "password_known kdf rows name attempt \<longleftrightarrow> kdf attempt salt pw_iterations = kdf password salt pw_iterations"
    unfolding password_known_def using only u st same by blast
  with Some verify_stored [OF st, of attempt] show ?thesis
    by (simp add: user_verify_def user_get_def select_user_def)
qed

text \<open>
  C39. Log-in is exact. Over a table whose hashes the program made, a log-in leaves the rows there are as
  they are and adds the user of the environment when that name is missing; it succeeds exactly when the
  stripped name is in the table with a password that derives the same key as the one given, and then the
  token of the answer names that user to \<open>/auth/verify\<close> until it expires, and nobody afterwards.
\<close>

theorem login_exact:
  assumes "users_ok (lc_kdf lc) rows" and "ue_id v \<notin> us_id ` set rows"
    and "\<And>u x. tc_decode (lc_codec lc) (tc_encode (lc_codec lc) (u, x)) = Payload (Some u) (Some x)"
    and "\<And>u x. CHR ''.'' \<notin> set (tc_encode (lc_codec lc) (u, x))"
    and "\<And>body. ascii_text (tc_sign (lc_codec lc) (lc_secret lc) body)"
    and "login lc v now b (Some rows) = (out, tbl)"
  shows "\<exists>rows'. tbl = Some rows' \<and> users_ok (lc_kdf lc) rows' \<and> seeded lc v rows rows'
    \<and> (if password_known (lc_kdf lc) rows' (py_strip (lb_username b)) (lb_password b)
       then \<exists>a. out = Inr a \<and> la_username a = py_strip (lb_username b)
         \<and> (\<forall>now'. verify_token lc now' (la_token a) =
              Inr (if la_username a \<noteq> '''' \<and> now' \<le> now + la_expires_in a then (True, Some (la_username a)) else (False, None)))
       else out = Inl HTTPUnauthorized)"
proof -
  obtain rows' where seed: "ensure_seeded (lc_kdf lc) (lc_bind_async lc) (lc_env_user lc) (lc_env_password lc) v (Some rows)
      = (Inr (), Some rows')" "users_ok (lc_kdf lc) rows'" "seeded lc v rows rows'"
    by (rule ensure_seeded_ok [OF assms(1,2)])
  have run: "out = (if password_known (lc_kdf lc) rows' (py_strip (lb_username b)) (lb_password b)
      then Inr (login_answer_of lc now b) else Inl HTTPUnauthorized) \<and> tbl = Some rows'"
    using assms(6) by (auto simp: login_def seed(1) user_verify_exact [OF seed(2)] split: bool.splits)
  have "verify_token lc now' (la_token (login_answer_of lc now b)) =
      Inr (if la_username (login_answer_of lc now b) \<noteq> '''' \<and> now' \<le> now + la_expires_in (login_answer_of lc now b)
           then (True, Some (la_username (login_answer_of lc now b))) else (False, None))" for now'
    using token_roundtrip [OF assms(3-5), of now' now "py_strip (lb_username b)"
        "if lb_remember b then remember_ttl else default_ttl", THEN conjunct1]
    by (simp add: verify_token_def login_answer_of_def Let_def)
  moreover have "la_username (login_answer_of lc now b) = py_strip (lb_username b)"
    by (simp add: login_answer_of_def Let_def)
  ultimately show ?thesis using run seed(2,3) by auto
qed

text \<open>While the table is missing and the session is bound to a synchronous engine, nobody logs in.\<close>

lemma login_without_table: "\<not> lc_bind_async lc \<Longrightarrow> login lc v now b None = (Inl OperationalError, None)"
  by (simp add: login_def ensure_seeded_def user_get_def select_user_def ensure_table_def Let_def)

definition plain_login :: login_config where
  "plain_login = \<lparr>lc_kdf = (\<lambda>password salt n. map (\<lambda>c. of_nat (of_char c)) password), lc_bind_async = False,
     lc_env_user = None, lc_env_password = None, lc_codec = plain_codec, lc_secret = ''k''\<rparr>"

definition sample_user_env :: user_env where
  "sample_user_env = \<lparr>ue_id = ''u1'', ue_salt = [1, 2], ue_created_at = 0\<rparr>"

definition admin_login :: login_body where
  "admin_login = \<lparr>lb_username = '' admin '', lb_password = ''atlas'', lb_remember = False\<rparr>"

text \<open>Without configuration, a first log-in as \<open>admin\<close> with \<open>atlas\<close> succeeds.\<close>

theorem login_exact_witness:
  "\<exists>a tbl. login plain_login sample_user_env 0 admin_login (Some []) = (Inr a, tbl)
     \<and> la_username a = ''admin'' \<and> verify_token plain_login 0 (la_token a) = Inr (0 \<le> la_expires_in a, Some ''admin'')"
proof -
  obtain out tbl where l: "login plain_login sample_user_env 0 admin_login (Some []) = (out, tbl)" by fastforce
  have strip: "py_strip (lb_username admin_login) = ''admin''"
    by (simp add: admin_login_def py_strip_def is_space_def Let_def)
  have codec: "lc_codec plain_login = plain_codec" by (simp add: plain_login_def)
  have ok: "users_ok (lc_kdf plain_login) []" by (simp add: users_ok_def)
  have ttl: "0 \<le> la_expires_in a" if "out = Inr a" for a
    using l that by (auto simp: login_def login_answer_of_def default_ttl_def remember_ttl_def Let_def
        split: sum.splits prod.splits bool.splits if_splits)
  have known: "password_known (lc_kdf plain_login) rows' ''admin'' (lb_password admin_login)"
    if "seeded plain_login sample_user_env [] rows'" for rows'
  proof -
    from that obtain u where "rows' = [u]" "us_username u = ''admin''"
      "stored_password (lc_kdf plain_login) u (ue_salt sample_user_env) ''atlas''"
      by (auto simp: seeded_def seed_user_def seed_password_def plain_login_def)
    moreover have "lb_password admin_login = ''atlas''" by (simp add: admin_login_def)
    ultimately show ?thesis unfolding password_known_def by auto
  qed
  from login_exact [OF ok _ _ _ _ l, unfolded codec strip, OF _ plain_codec_ok] known ttl show ?thesis
    unfolding l by fastforce
qed

end
