(* ===== verification/Testnet.thy ===== *)
theory Testnet
  imports Gateway
begin

text \<open>
  The testnet client, \<open>app/execution/exchange/testnet.py\<close>: the other backend of the order gateway. The
  exchange behind it is a parameter, \<open>tv_api\<close>: what \<open>create_order\<close> answers to a payload, or raises.
  The state of the client is the list of the times of its answered orders.
\<close>

subsection \<open>The client\<close>

record testnet_config =
  tn_exchange_env :: string
  tn_rate_limit_per_minute :: int

definition default_testnet :: testnet_config where
  "default_testnet = \<lparr>tn_exchange_env = ''testnet'', tn_rate_limit_per_minute = 60\<rparr>"

definition env_mismatch :: "settings \<Rightarrow> testnet_config \<Rightarrow> bool" where
  "env_mismatch st cfg \<longleftrightarrow> st_exchange_env st \<noteq> ''testnet'' \<and> tn_exchange_env cfg = ''testnet''"

record testnet_payload =
  ty_symbol :: string
  ty_side :: order_side
  ty_type :: order_type
  ty_amount :: decimal
  ty_price :: "decimal option"
  ty_client_order_id :: string

text \<open>The numbers and the identifier an exchange answers, where it gives them.\<close>

record exchange_answer =
  xa_id :: "string option"
  xa_filled :: "decimal option"
  xa_average :: "decimal option"

record testnet_env =
  tv_id :: string
  tv_client_uid :: string
  tv_now :: timestamp
  tv_created_at :: timestamp
  tv_api :: "testnet_payload \<Rightarrow> py_error + exchange_answer"

text \<open>An identifier or a text is taken when it is there and not empty.\<close>

definition given_or :: "string option \<Rightarrow> string \<Rightarrow> string" where
  "given_or t d = (case t of Some (c # cs) \<Rightarrow> c # cs | _ \<Rightarrow> d)"

definition testnet_rejected :: "testnet_env \<Rightarrow> order_request \<Rightarrow> risk_evaluation \<Rightarrow> order" where
  "testnet_rejected v rq risk =
     \<lparr>o_id = tv_id v, o_client_order_id = given_or (rq_client_order_id rq) (tv_client_uid v),
      o_idempotency_key = rq_idempotency_key rq, o_symbol = rq_symbol rq, o_side = rq_side rq,
      o_order_type = rq_order_type rq, o_quantity = rq_quantity rq, o_filled_quantity = 0,
      o_price = rq_price rq, o_average_fill_price = None, o_status = Rejected, o_strategy_name = None,
      o_signal_id = None, o_risk_decision = Some (ev_decision risk),
      o_risk_reason_code = Some (ev_reason_code risk), o_created_at = tv_created_at v,
      o_updated_at = tv_created_at v, o_fees = 0, o_metadata = empty_meta\<rparr>"

definition rate_limited_order :: "testnet_env \<Rightarrow> order_request \<Rightarrow> order" where
  "rate_limited_order v rq =
     \<lparr>o_id = tv_id v, o_client_order_id = given_or (rq_client_order_id rq) (tv_client_uid v),
      o_idempotency_key = rq_idempotency_key rq, o_symbol = rq_symbol rq, o_side = rq_side rq,
      o_order_type = rq_order_type rq, o_quantity = rq_quantity rq, o_filled_quantity = 0,
      o_price = None, o_average_fill_price = None, o_status = Failed, o_strategy_name = None,
      o_signal_id = None, o_risk_decision = None, o_risk_reason_code = None,
      o_created_at = tv_created_at v, o_updated_at = tv_created_at v, o_fees = 0,
      o_metadata = empty_meta\<lparr>m_error := Some ''rate_limited''\<rparr>\<rparr>"

definition testnet_client_id :: "testnet_env \<Rightarrow> order_request \<Rightarrow> string" where
  "testnet_client_id v rq = given_or (rq_client_order_id rq) (''testnet-'' @ take 16 (tv_client_uid v))"

definition testnet_payload_of :: "testnet_env \<Rightarrow> order_request \<Rightarrow> testnet_payload" where
  "testnet_payload_of v rq =
     \<lparr>ty_symbol = rq_symbol rq, ty_side = rq_side rq, ty_type = rq_order_type rq,
      ty_amount = rq_quantity rq, ty_price = rq_price rq, ty_client_order_id = testnet_client_id v rq\<rparr>"

definition answered_filled :: "exchange_answer \<Rightarrow> decimal" where
  "answered_filled a = (case xa_filled a of Some q \<Rightarrow> q | None \<Rightarrow> 0)"

definition answered_status :: "decimal \<Rightarrow> decimal \<Rightarrow> order_status" where
  "answered_status filled quantity =
     (if filled \<ge> quantity then Filled else if filled > 0 then PartiallyFilled else Submitted)"

definition answered_order :: "testnet_env \<Rightarrow> order_request \<Rightarrow> risk_evaluation \<Rightarrow> exchange_answer \<Rightarrow> order" where
  "answered_order v rq risk a =
     \<lparr>o_id = given_or (xa_id a) (tv_id v), o_client_order_id = testnet_client_id v rq,
      o_idempotency_key = rq_idempotency_key rq, o_symbol = rq_symbol rq, o_side = rq_side rq,
      o_order_type = rq_order_type rq, o_quantity = rq_quantity rq, o_filled_quantity = answered_filled a,
      o_price = rq_price rq,
      o_average_fill_price = (case xa_average a of Some p \<Rightarrow> if p = 0 then None else Some p | None \<Rightarrow> None),
      o_status = answered_status (answered_filled a) (rq_quantity rq), o_strategy_name = None,
      o_signal_id = None, o_risk_decision = Some (ev_decision risk),
      o_risk_reason_code = Some (ev_reason_code risk), o_created_at = tv_now v, o_updated_at = tv_now v,
      o_fees = 0, o_metadata = empty_meta\<rparr>"

definition last_minute :: "timestamp \<Rightarrow> timestamp list \<Rightarrow> timestamp list" where
  "last_minute now ts = filter (\<lambda>t. now - t < seconds 60) ts"

definition testnet_submit :: "testnet_config \<Rightarrow> testnet_env \<Rightarrow> order_request \<Rightarrow> risk_evaluation
  \<Rightarrow> timestamp list \<Rightarrow> (py_error + order) \<times> timestamp list" where
  "testnet_submit cfg v rq risk ts =
     (if ev_decision risk \<in> {RRejected, RHalted} then (Inr (testnet_rejected v rq risk), ts)
      else
        let ts1 = last_minute (tv_now v) ts in
        if int (length ts1) \<ge> tn_rate_limit_per_minute cfg then (Inr (rate_limited_order v rq), ts1)
        else case tv_api v (testnet_payload_of v rq) of
               Inl e \<Rightarrow> (Inl e, ts1)
             | Inr a \<Rightarrow> (Inr (answered_order v rq risk a), ts1 @ [tv_now v]))"

subsection \<open>As a backend of the gateway\<close>

text \<open>
  The gateway goes on only from an order that came back. When the call raises the client has pruned its
  times, which the next call does again.
\<close>

definition testnet_backend :: "testnet_config \<Rightarrow> testnet_env \<Rightarrow> order_request \<Rightarrow> risk_evaluation
  \<Rightarrow> timestamp list \<Rightarrow> py_error + order \<times> timestamp list" where
  "testnet_backend cfg v rq risk ts =
     (case testnet_submit cfg v rq risk ts of
        (Inl e, _) \<Rightarrow> Inl e
      | (Inr od, ts') \<Rightarrow> Inr (od, ts'))"

text \<open>It keeps no keys, so it replays none: \<open>order_backend\<close>, not \<open>execution_backend\<close>.\<close>

interpretation testnet: order_backend "testnet_backend cfg v" "\<lambda>_. True" "\<lambda>_ _. True" "\<lambda>_ _. False"
  for cfg v
  by unfold_locales
    (auto simp: testnet_backend_def testnet_submit_def testnet_rejected_def rate_limited_order_def
      answered_order_def Let_def split: prod.splits sum.splits if_splits)

subsection \<open>Properties\<close>

lemma testnet_backend_cases:
  assumes "testnet_backend cfg v rq ev ts = Inr (od, ts')" and "is_accepting ev"
  shows "od = rate_limited_order v rq \<and> ts' = last_minute (tv_now v) ts
        \<and> tn_rate_limit_per_minute cfg \<le> int (length ts')
      \<or> (\<exists>a. tv_api v (testnet_payload_of v rq) = Inr a \<and> od = answered_order v rq ev a
          \<and> ts' = last_minute (tv_now v) ts @ [tv_now v])"
  using assms
  by (auto simp: testnet_backend_def testnet_submit_def is_accepting_def Let_def
      split: prod.splits sum.splits if_splits)

text \<open>
  C18. On the testnet too no order goes around the risk engine: what the gateway returns was accepted by
  the engine, has the approved quantity and the request's symbol, side and key, and is either what the
  exchange answered, with the status its filled amount deserves, or a failed order of the rate limit for
  which the exchange was not asked; when the engine refuses, the client is not touched.
\<close>

theorem testnet_risk_mandatory:
  assumes "gateway_submit st (testnet_backend cfg v) rq cx md_now now rs ts = (out, rs', ts')"
  defines "ev \<equiv> fst (evaluate st rq cx md_now now rs)"
  shows "(\<not> is_accepting ev \<longrightarrow> out = Inl (RiskBlocked ev) \<and> ts' = ts)
    \<and> (\<forall>od. out = Inr od \<longrightarrow> is_accepting ev \<and> o_quantity od = rq_quantity (approved_request rq ev)
        \<and> o_symbol od = rq_symbol rq \<and> o_side od = rq_side rq \<and> o_idempotency_key od = rq_idempotency_key rq
        \<and> (o_status od = Failed \<and> ts' = last_minute (tv_now v) ts
             \<and> tn_rate_limit_per_minute cfg \<le> int (length ts')
           \<or> (\<exists>a. tv_api v (testnet_payload_of v (approved_request rq ev)) = Inr a
               \<and> o_filled_quantity od = answered_filled a
               \<and> o_status od = answered_status (answered_filled a) (o_quantity od)
               \<and> ts' = last_minute (tv_now v) ts @ [tv_now v])))"
proof (intro conjI impI allI)
  assume "\<not> is_accepting ev"
  then have "ev_decision ev \<in> {RRejected, RHalted}" by (cases "ev_decision ev") (simp_all add: is_accepting_def)
  then show "out = Inl (RiskBlocked ev)" "ts' = ts"
    using assms(1) by (auto simp: gateway_submit_def ev_def split: prod.splits)
next
  fix od assume od: "out = Inr od"
  from assms(1) [unfolded od] obtain od0 where e: "is_accepting ev"
    "testnet_backend cfg v (approved_request rq ev) ev ts = Inr (od0, ts')" "od = tag_outcome ev od0"
    unfolding ev_def by (auto elim: testnet.gateway_orderE)
  show "is_accepting ev" by (rule e(1))
  have f: "o_symbol od = rq_symbol rq \<and> o_side od = rq_side rq \<and> o_idempotency_key od = rq_idempotency_key rq
      \<and> o_quantity od = rq_quantity (approved_request rq ev)"
    unfolding ev_def by (rule testnet.gateway_order [OF assms(1) [unfolded od]]) simp_all
  then show "o_quantity od = rq_quantity (approved_request rq ev)" "o_symbol od = rq_symbol rq"
    "o_side od = rq_side rq" "o_idempotency_key od = rq_idempotency_key rq" by simp_all
  show "o_status od = Failed \<and> ts' = last_minute (tv_now v) ts
             \<and> tn_rate_limit_per_minute cfg \<le> int (length ts')
           \<or> (\<exists>a. tv_api v (testnet_payload_of v (approved_request rq ev)) = Inr a
               \<and> o_filled_quantity od = answered_filled a
               \<and> o_status od = answered_status (answered_filled a) (o_quantity od)
               \<and> ts' = last_minute (tv_now v) ts @ [tv_now v])"
    using testnet_backend_cases [OF e(2,1)] f
    by (elim disjE exE conjE) (simp_all add: e(3) tag_outcome_def rate_limited_order_def answered_order_def answered_status_def)
qed

subsection \<open>The rate limit\<close>

text \<open>Whether a submission has an order of the exchange, and the times of those over a sequence.\<close>

definition testnet_answers :: "testnet_config \<Rightarrow> testnet_env \<Rightarrow> order_request \<Rightarrow> risk_evaluation \<Rightarrow> timestamp list \<Rightarrow> bool" where
  "testnet_answers cfg v rq risk ts \<longleftrightarrow>
     ev_decision risk \<notin> {RRejected, RHalted}
   \<and> int (length (last_minute (tv_now v) ts)) < tn_rate_limit_per_minute cfg
   \<and> (\<exists>a. tv_api v (testnet_payload_of v rq) = Inr a)"

fun testnet_run :: "testnet_config \<Rightarrow> (testnet_env \<times> order_request \<times> risk_evaluation) list
  \<Rightarrow> timestamp list \<times> timestamp list \<Rightarrow> timestamp list \<times> timestamp list" where
  "testnet_run cfg [] x = x"
| "testnet_run cfg ((v, rq, risk) # cs) (ts, answered) =
     testnet_run cfg cs (snd (testnet_submit cfg v rq risk ts),
       if testnet_answers cfg v rq risk ts then answered @ [tv_now v] else answered)"

fun clock_forward :: "timestamp \<Rightarrow> (testnet_env \<times> order_request \<times> risk_evaluation) list \<Rightarrow> bool" where
  "clock_forward now [] \<longleftrightarrow> True"
| "clock_forward now ((v, _) # cs) \<longleftrightarrow> now \<le> tv_now v \<and> clock_forward (tv_now v) cs"

definition in_minute :: "timestamp \<Rightarrow> timestamp list \<Rightarrow> timestamp list" where
  "in_minute w answered = filter (\<lambda>t. w - seconds 60 < t \<and> t \<le> w) answered"

text \<open>The client's times are those of the last minute, and no minute holds more than the limit.\<close>

definition limit_kept :: "testnet_config \<Rightarrow> timestamp \<Rightarrow> timestamp list \<times> timestamp list \<Rightarrow> bool" where
  "limit_kept cfg now = (\<lambda>(ts, answered).
     list_all (\<lambda>t. t \<le> now) answered \<and> (\<exists>k \<le> now. ts = last_minute k answered)
   \<and> (\<forall>w. int (length (in_minute w answered)) \<le> max 0 (tn_rate_limit_per_minute cfg)))"

lemma last_minute_twice: "k \<le> now \<Longrightarrow> last_minute now (last_minute k answered) = last_minute now answered"
  unfolding last_minute_def filter_filter by (rule filter_cong) auto

lemma limit_kept_answer:
  assumes "limit_kept cfg now0 (ts, answered)" and "now0 \<le> now"
    and "int (length (last_minute now ts)) < tn_rate_limit_per_minute cfg"
  shows "limit_kept cfg now (last_minute now ts @ [now], answered @ [now])"
proof -
  obtain k where k: "k \<le> now0" "ts = last_minute k answered" and le: "list_all (\<lambda>t. t \<le> now0) answered"
    and lim: "int (length (in_minute w answered)) \<le> max 0 (tn_rate_limit_per_minute cfg)" for w
    using assms(1) by (auto simp: limit_kept_def)
  have prune: "last_minute now ts = last_minute now answered"
    using last_minute_twice [of k now answered] k assms(2) by simp
  have "int (length (in_minute w (answered @ [now]))) \<le> max 0 (tn_rate_limit_per_minute cfg)" for w
  proof (cases "now \<le> w")
    case True
    have "length (in_minute w answered) \<le> length (last_minute now answered)"
      using True unfolding in_minute_def last_minute_def by (induction answered) auto
    then have "length (in_minute w (answered @ [now])) \<le> length (last_minute now answered) + 1"
      by (simp add: in_minute_def)
    then show ?thesis using assms(3) prune by simp
  next
    case False
    then have "in_minute w (answered @ [now]) = in_minute w answered" by (simp add: in_minute_def)
    then show ?thesis using lim [of w] by simp
  qed
  moreover have "last_minute now ts @ [now] = last_minute now (answered @ [now])"
    unfolding prune by (simp add: last_minute_def seconds_def)
  moreover have "list_all (\<lambda>t. t \<le> now) (answered @ [now])" using le assms(2) by (auto simp: list_all_iff)
  ultimately show ?thesis unfolding limit_kept_def by blast
qed

lemma limit_kept_other:
  assumes "limit_kept cfg now0 (ts, answered)" and "now0 \<le> now"
  shows "limit_kept cfg now (last_minute now ts, answered)" and "limit_kept cfg now (ts, answered)"
proof -
  obtain k where k: "k \<le> now0" "ts = last_minute k answered" and le: "list_all (\<lambda>t. t \<le> now0) answered"
    and lim: "\<forall>w. int (length (in_minute w answered)) \<le> max 0 (tn_rate_limit_per_minute cfg)"
    using assms(1) by (auto simp: limit_kept_def)
  have le': "list_all (\<lambda>t. t \<le> now) answered" using le assms(2) by (auto simp: list_all_iff)
  have "k \<le> now" using k(1) assms(2) by simp
  with k(2) le' lim show "limit_kept cfg now (ts, answered)" by (auto simp: limit_kept_def)
  have "last_minute now ts = last_minute now answered" using last_minute_twice [OF \<open>k \<le> now\<close>] k(2) by simp
  with le' lim show "limit_kept cfg now (last_minute now ts, answered)"
    unfolding limit_kept_def by (auto intro: exI [of _ now])
qed

lemma limit_kept_step:
  assumes "limit_kept cfg now0 (ts, answered)" and "now0 \<le> tv_now v"
  shows "limit_kept cfg (tv_now v) (snd (testnet_submit cfg v rq risk ts),
    if testnet_answers cfg v rq risk ts then answered @ [tv_now v] else answered)"
  using limit_kept_answer [OF assms] limit_kept_other [OF assms]
  by (auto simp: testnet_submit_def testnet_answers_def Let_def split: sum.splits)

lemma limit_kept_run:
  "limit_kept cfg now x \<Longrightarrow> clock_forward now cs \<Longrightarrow> \<exists>now'. limit_kept cfg now' (testnet_run cfg cs x)"
proof (induction cfg cs x arbitrary: now rule: testnet_run.induct)
  case (2 cfg v rq risk cs ts answered)
  from 2(1) [OF limit_kept_step] 2(2,3) show ?case by simp
qed auto


subsection \<open>Witnesses\<close>

definition sample_testnet_env :: "timestamp \<Rightarrow> (testnet_payload \<Rightarrow> py_error + exchange_answer) \<Rightarrow> testnet_env" where
  "sample_testnet_env now api =
     \<lparr>tv_id = ''u1'', tv_client_uid = ''u2'', tv_now = now, tv_created_at = now, tv_api = api\<rparr>"

definition half_filled :: "testnet_payload \<Rightarrow> py_error + exchange_answer" where
  "half_filled y = Inr \<lparr>xa_id = Some ''x1'', xa_filled = Some (ty_amount y / 2), xa_average = Some 50000\<rparr>"

theorem testnet_risk_mandatory_witness:
  "\<exists>od. fst (gateway_submit default_settings (testnet_backend default_testnet (sample_testnet_env 0 half_filled))
      sample_request sample_context 0 0 initial_risk_state []) = Inr od
    \<and> o_filled_quantity od = o_quantity od / 2 \<and> o_quantity od = 1 / 100 \<and> o_status od = PartiallyFilled"
proof -
  let ?v = "sample_testnet_env 0 half_filled"
  obtain out rs' ts' where g: "gateway_submit default_settings (testnet_backend default_testnet ?v)
      sample_request sample_context 0 0 initial_risk_state [] = (out, rs', ts')" by (metis prod_cases3)
  obtain od where od: "out = Inr od"
    using g by (auto simp: gateway_submit_def sample_evaluate testnet_backend_def testnet_submit_def last_minute_def
        sample_testnet_env_def half_filled_def default_testnet_def)
  have r: "approved_request sample_request (fst (evaluate default_settings sample_request sample_context 0 0 initial_risk_state))
      = sample_request" "rq_quantity sample_request = 1 / 100"
    by (simp_all only: sample_evaluate) (simp_all add: approved_request_def, simp add: sample_request_def)
  from testnet_risk_mandatory [OF g, unfolded r] od r(2) have "o_quantity od = 1 / 100"
    "o_filled_quantity od = 1 / 200" "o_status od = answered_status (1 / 200) (o_quantity od)"
    by (auto simp: default_testnet_def last_minute_def sample_testnet_env_def half_filled_def answered_filled_def
        testnet_payload_of_def)
  with g od show ?thesis by (simp add: answered_status_def)
qed


end
