(* ===== verification/Session_Market.thy ===== *)
theory Session_Market
  imports Session_Properties Feed_Properties Backtest
begin

text \<open>
  The synthetic market of the dashboard, in \<open>app/services/paper_session.py\<close>: the series a strategy tick
  trades on (\<open>_live_series\<close>) and the one a requested backtest runs on (\<open>_backtest_series\<close>), which are
  the values of \<open>te_live\<close> and \<open>sv_live_close\<close> in \<open>Paper_Session\<close>, and the backtest with its report. The
  floating-point sines are parameters: \<open>wave\<close> the absolute one of the volumes, \<open>swing\<close> the one of the
  closes of a backtest.
\<close>

subsection \<open>Series\<close>

definition base_price :: "string \<Rightarrow> decimal" where
  "base_price sy =
     (if sy = ''BTC/USDT'' then 65000 else if sy = ''ETH/USDT'' then 3200 else if sy = ''SOL/USDT'' then 150 else 100)"

definition session_timeframe :: string where
  "session_timeframe = (case meta_timeframe ''ema_trend'' of Some t \<Rightarrow> t | None \<Rightarrow> ''1h'')"

definition session_step :: int where
  "session_step = seconds (60 * (case map_of interval_minutes session_timeframe of Some k \<Rightarrow> k | None \<Rightarrow> 60))"

text \<open>A bar over the closes: open at the close before, a range around both.\<close>

definition shaped_candle :: "decimal \<Rightarrow> string \<Rightarrow> string \<Rightarrow> timestamp \<Rightarrow> decimal list \<Rightarrow> nat \<Rightarrow> candle" where
  "shaped_candle volume sy tf open_time closes i =
     (let close = quantize 2 (closes ! i);
          opened = (if i > 0 then quantize 2 (closes ! (i - 1)) else quantize 2 (dmul close (999 / 1000)))
      in \<lparr>c_symbol = sy, c_timeframe = tf, c_open_time = open_time, c_open = opened,
          c_high = quantize 2 (dmul (max opened close) (10015 / 10000)),
          c_low = quantize 2 (dmul (min opened close) (9985 / 10000)), c_close = close, c_volume = volume,
          c_close_time = None, c_quote_volume = None, c_trade_count = None, c_is_closed = True\<rparr>)"

definition wave_volume :: "(nat \<Rightarrow> decimal) \<Rightarrow> nat \<Rightarrow> decimal" where
  "wave_volume wave i = dadd 1000 (dmul 300 (wave i))"

definition session_candle :: "(nat \<Rightarrow> decimal) \<Rightarrow> string \<Rightarrow> timestamp \<Rightarrow> decimal list \<Rightarrow> nat \<Rightarrow> candle" where
  "session_candle wave sy start closes i =
     shaped_candle (if i = length closes - 1 then 5000 else wave_volume wave i) sy session_timeframe
       (start + session_step * int i) closes i"

fun make_candles :: "candle list \<Rightarrow> py_error + candle list" where
  "make_candles [] = Inr []"
| "make_candles (c # cs) =
     (case make_candle c of
        Inl e \<Rightarrow> Inl e
      | Inr c' \<Rightarrow> (case make_candles cs of Inl e \<Rightarrow> Inl e | Inr cs' \<Rightarrow> Inr (c' # cs')))"

definition candles_from_closes :: "(nat \<Rightarrow> decimal) \<Rightarrow> timestamp \<Rightarrow> string \<Rightarrow> decimal list \<Rightarrow> py_error + candle list" where
  "candles_from_closes wave now sy closes =
     (let start = now - session_step * int (max (length closes) 1)
      in make_candles (map (session_candle wave sy start closes) [0..<length closes]))"

text \<open>The level of a tick, the gentle uptrend from it, and the zig-zag of the last bars.\<close>

definition live_base :: "string \<Rightarrow> nat \<Rightarrow> decimal" where
  "live_base sy n = dmul (base_price sy) (dadd 1 (dmul (2 / 1000) (of_nat n)))"

definition trend_closes :: "decimal \<Rightarrow> nat \<Rightarrow> decimal list" where
  "trend_closes base bars = map (\<lambda>i. dmul base (dadd 1 (dmul (15 / 10000) (of_nat i)))) [0..<bars]"

definition live_tail :: "decimal list" where
  "live_tail = [4 / 1000, - (6 / 1000), 3 / 1000, - (7 / 1000), 4 / 1000, - (6 / 1000), 5 / 1000, - (7 / 1000),
     4 / 1000, - (6 / 1000), 5 / 1000, - (7 / 1000), 4 / 1000, 6 / 1000]"

fun follow_tail :: "decimal \<Rightarrow> decimal list \<Rightarrow> decimal list" where
  "follow_tail c [] = []"
| "follow_tail c (r # rs) = (let c' = dmul c (dadd 1 r) in c' # follow_tail c' rs)"

definition live_closes :: "decimal \<Rightarrow> nat \<Rightarrow> decimal list" where
  "live_closes base bars =
     (let closes = trend_closes base bars; k0 = bars - length live_tail
      in take k0 closes @ follow_tail (closes ! (k0 - 1)) live_tail)"

definition live_series :: "(nat \<Rightarrow> decimal) \<Rightarrow> timestamp \<Rightarrow> string \<Rightarrow> nat \<Rightarrow> py_error + candle list" where
  "live_series wave now sy n = candles_from_closes wave now sy (live_closes (live_base sy n) 60)"

definition backtest_closes :: "(nat \<Rightarrow> decimal) \<Rightarrow> decimal \<Rightarrow> nat \<Rightarrow> decimal list" where
  "backtest_closes swing base bars =
     map (\<lambda>i. dmul base (dadd (dadd 1 (dmul (8 / 10000) (of_nat i))) (dmul (2 / 100) (swing i)))) [0..<bars]"

definition backtest_series :: "(nat \<Rightarrow> decimal) \<Rightarrow> (nat \<Rightarrow> decimal) \<Rightarrow> timestamp \<Rightarrow> string \<Rightarrow> nat \<Rightarrow> py_error + candle list" where
  "backtest_series wave swing now sy bars = candles_from_closes wave now sy (backtest_closes swing (base_price sy) bars)"

text \<open>
  The series of \<open>build_sample_candles\<close> (\<open>app/services/sample_market.py\<close>) has the same shape: the closes
  of an entry, then a downtrend.
\<close>

definition entry_closes :: "decimal \<Rightarrow> decimal list" where
  "entry_closes base = live_closes base 60"

definition sample_closes :: "decimal \<Rightarrow> decimal list" where
  "sample_closes base =
     (let closes = entry_closes base
      in closes @ map (\<lambda>j. dmul (last closes) (dsub 1 (dmul (4 / 1000) (of_nat j)))) [1..<26])"

definition sample_candle_at :: "(nat \<Rightarrow> decimal) \<Rightarrow> string \<Rightarrow> string \<Rightarrow> timestamp \<Rightarrow> decimal list \<Rightarrow> nat \<Rightarrow> candle" where
  "sample_candle_at wave sy interval start closes i =
     shaped_candle (if 46 \<le> i \<and> i \<le> 59 then 4500 else wave_volume wave i) sy interval
       (start + interval_step interval * int i) closes i"

definition build_sample_candles :: "(nat \<Rightarrow> decimal) \<Rightarrow> timestamp \<Rightarrow> string \<Rightarrow> string \<Rightarrow> timestamp option \<Rightarrow> decimal
  \<Rightarrow> py_error + candle list" where
  "build_sample_candles wave now sy interval start base =
     (let begin_at = (case start of Some t \<Rightarrow> t | None \<Rightarrow> now - interval_step interval * 90);
          closes = sample_closes base
      in make_candles (map (sample_candle_at wave sy interval begin_at closes) [0..<length closes]))"

subsection \<open>A requested backtest\<close>

record backtest_request =
  bq_strategy_id :: "string option"
  bq_symbol :: "string option"
  bq_timeframe :: "string option"
  bq_start :: "string option"
  bq_end :: "string option"
  bq_initial_cash :: "decimal option"

record backtest_report =
  bp_run_id :: string
  bp_strategy_id :: string
  bp_created_at :: timestamp
  bp_symbol :: string
  bp_timeframe :: string
  bp_start :: string
  bp_end :: string
  bp_initial_cash :: decimal
  bp_metrics :: performance_metrics

definition round_metrics :: "performance_metrics \<Rightarrow> performance_metrics" where
  "round_metrics m =
     m\<lparr>pm_total_return := quantize 4 (pm_total_return m), pm_net_return := quantize 2 (pm_net_return m),
       pm_win_rate := quantize 4 (pm_win_rate m), pm_profit_factor := quantize 2 (pm_profit_factor m),
       pm_max_drawdown := quantize 4 (pm_max_drawdown m), pm_sharpe := quantize 2 (pm_sharpe m),
       pm_sortino := quantize 2 (pm_sortino m), pm_fees_paid := quantize 2 (pm_fees_paid m),
       pm_slippage_cost := quantize 2 (pm_slippage_cost m)\<rparr>"

text \<open>The clock at the series, at the run and at the report, the sines, and the identifier.\<close>

record backtest_env =
  bv_now :: timestamp
  bv_run_now :: timestamp
  bv_created_at :: timestamp
  bv_wave :: "nat \<Rightarrow> decimal"
  bv_swing :: "nat \<Rightarrow> decimal"
  bv_run_id :: string

definition session_backtest :: "strategy_registry \<Rightarrow> backtest_env \<Rightarrow> backtest_request \<Rightarrow> backtest_report list
  \<Rightarrow> (py_error + backtest_report) \<times> backtest_report list" where
  "session_backtest reg v q reports =
     (let sid = (case bq_strategy_id q of Some s \<Rightarrow> s | None \<Rightarrow> ''ema_trend'');
          sy = (case bq_symbol q of Some s \<Rightarrow> s | None \<Rightarrow> ''BTC/USDT'');
          tf = (case bq_timeframe q of Some s \<Rightarrow> s | None \<Rightarrow> ''1h'');
          cash = (case bq_initial_cash q of Some c \<Rightarrow> if c = 0 then 10000 else c | None \<Rightarrow> 10000)
      in case get_strategy reg sid of
           Inl e \<Rightarrow> (Inl e, reports)
         | Inr strat \<Rightarrow>
             (case backtest_series (bv_wave v) (bv_swing v) (bv_now v) sy 180 of
                Inl e \<Rightarrow> (Inl e, reports)
              | Inr candles \<Rightarrow>
                  (case run_backtest (strategy_evaluate strat) (strategy_name strat)
                          (default_backtest_config\<lparr>bc_initial_cash := cash\<rparr>) (bv_run_now v) candles of
                     Inl e \<Rightarrow> (Inl e, reports)
                   | Inr result \<Rightarrow>
                       let report = \<lparr>bp_run_id = bv_run_id v, bp_strategy_id = sid,
                             bp_created_at = bv_created_at v, bp_symbol = sy, bp_timeframe = tf,
                             bp_start = (case bq_start q of Some s \<Rightarrow> s | None \<Rightarrow> ''''),
                             bp_end = (case bq_end q of Some s \<Rightarrow> s | None \<Rightarrow> ''''),
                             bp_initial_cash = cash, bp_metrics = round_metrics (br_metrics result)\<rparr>
                       in (Inr report, report # reports))))"

subsection \<open>Both series are valid\<close>

lemma session_timeframe_hour [simp]: "session_timeframe = ''1h''" "session_step = seconds 3600"
  by (simp_all add: session_timeframe_def session_step_def meta_timeframe_def interval_minutes_def)

lemma dmul_above:
  assumes "0 \<le> a" and "1 + 1 / 10 ^ 27 \<le> b"
  shows "a \<le> dmul a b"
proof -
  have "a * (1 + 1 / 10 ^ 27) \<le> a * b" using assms by (intro mult_left_mono)
  also have "a * b \<le> dmul a b * (1 + 1 / 10 ^ 27)" unfolding dmul_def using assms by (intro ctx_lower) simp
  finally show ?thesis by (rule mult_right_le_imp_le) simp
qed

lemma dmul_below:
  assumes "0 \<le> a" and "0 \<le> b" and "b * (1 + 1 / 10 ^ 27) \<le> 1"
  shows "dmul a b \<le> a"
proof -
  have "dmul a b \<le> a * b * (1 + 1 / 10 ^ 27)" unfolding dmul_def using assms by (intro ctx_upper) simp
  also have "\<dots> = a * (b * (1 + 1 / 10 ^ 27))" by (simp only: mult.assoc)
  also have "\<dots> \<le> a * 1" using assms by (intro mult_left_mono)
  finally show ?thesis by simp
qed

lemma quantize_twice [simp]: "quantize d (quantize d x) = quantize d x"
  by (rule quantize_grid) simp

lemma quantize_ge_1: "1 \<le> x \<Longrightarrow> 1 \<le> quantize 2 x"
proof -
  assume "1 \<le> x"
  then have "quantize 2 1 \<le> quantize 2 x" by (rule quantize_mono)
  moreover have "on_grid 2 (1 :: rat)" unfolding on_grid_def by (intro exI [of _ 100]) simp
  ultimately show ?thesis by (simp add: quantize_grid)
qed

lemma shaped_candle_ok:
  assumes "i < length closes" and "\<forall>x \<in> set closes. 1 \<le> x" and "0 \<le> volume"
  shows "candle_ok (shaped_candle volume sy tf open_time closes i)"
proof -
  let ?c = "shaped_candle volume sy tf open_time closes i"
  have cl: "1 \<le> quantize 2 (closes ! i)" using assms by (intro quantize_ge_1) simp
  have op: "1 / 2 \<le> c_open ?c" "quantize 2 (c_open ?c) = c_open ?c"
  proof -
    have "1 / 2 \<le> quantize 2 (dmul (quantize 2 (closes ! i)) (999 / 1000))"
    proof -
      have "quantize 2 (closes ! i) * (999 / 1000) \<le> dmul (quantize 2 (closes ! i)) (999 / 1000) * (1 + 1 / 10 ^ 27)"
        unfolding dmul_def using cl by (intro ctx_lower) simp
      then have "9 / 10 \<le> dmul (quantize 2 (closes ! i)) (999 / 1000)" using cl by simp
      moreover have "\<bar>quantize 2 (dmul (quantize 2 (closes ! i)) (999 / 1000)) - dmul (quantize 2 (closes ! i)) (999 / 1000)\<bar> \<le> 5 / 1000"
        using quantize_error [of 2] by simp
      ultimately show ?thesis by linarith
    qed
    moreover have "1 \<le> quantize 2 (closes ! (i - 1))" using assms by (intro quantize_ge_1) simp
    ultimately show "1 / 2 \<le> c_open ?c" by (cases "i = 0") (simp_all add: shaped_candle_def Let_def)
    show "quantize 2 (c_open ?c) = c_open ?c" by (simp add: shaped_candle_def Let_def)
  qed
  define hi where "hi = max (c_open ?c) (c_close ?c)"
  define lo where "lo = min (c_open ?c) (c_close ?c)"
  have close: "c_close ?c = quantize 2 (closes ! i)" by (simp add: shaped_candle_def Let_def)
  have pos: "1 / 2 \<le> lo" "1 / 2 \<le> hi" using op(1) cl close by (auto simp: lo_def hi_def)
  have grid: "quantize 2 hi = hi" "quantize 2 lo = lo" using op(2) close by (simp_all add: hi_def lo_def max_def min_def)
  have "quantize 2 hi \<le> quantize 2 (dmul hi (10015 / 10000))"
    using pos by (intro quantize_mono dmul_above) simp_all
  then have high: "hi \<le> c_high ?c" using grid by (simp add: shaped_candle_def Let_def hi_def)
  have "quantize 2 (dmul lo (9985 / 10000)) \<le> quantize 2 lo"
    using pos by (intro quantize_mono dmul_below) simp_all
  then have low: "c_low ?c \<le> lo" using grid by (simp add: shaped_candle_def Let_def lo_def)
  have "lo * (9985 / 10000) \<le> dmul lo (9985 / 10000) * (1 + 1 / 10 ^ 27)"
    unfolding dmul_def using pos by (intro ctx_lower) simp
  then have "4 / 10 \<le> dmul lo (9985 / 10000)" using pos by simp
  moreover have "\<bar>quantize 2 (dmul lo (9985 / 10000)) - dmul lo (9985 / 10000)\<bar> \<le> 5 / 1000"
    using quantize_error [of 2] by simp
  ultimately have "0 < quantize 2 (dmul lo (9985 / 10000))" by linarith
  moreover have "c_low ?c = quantize 2 (dmul lo (9985 / 10000))" by (simp add: shaped_candle_def Let_def lo_def)
  moreover have "0 \<le> c_volume ?c"
    using assms(3) by (simp add: shaped_candle_def Let_def)
  ultimately show ?thesis using high low by (auto simp: candle_ok_def ohlc_sane_def hi_def lo_def)
qed

lemma wave_volume_nonneg: "0 \<le> wave i \<Longrightarrow> 0 \<le> wave_volume wave i"
  by (simp add: wave_volume_def dadd_nonneg dmul_nonneg)

lemma session_candle_ok:
  assumes "i < length closes" and "\<forall>x \<in> set closes. 1 \<le> x" and "0 \<le> wave i"
  shows "candle_ok (session_candle wave sy start closes i)"
  unfolding session_candle_def using assms by (intro shaped_candle_ok) (auto intro: wave_volume_nonneg)

lemma make_candles_ok: "list_all candle_ok cs \<Longrightarrow> make_candles cs = Inr cs"
proof (induction cs)
  case (Cons c cs)
  then obtain c' where "make_candle c = Inr c'" using make_candle_iff by auto
  then have "make_candle c = Inr c" using make_candle_ok by metis
  with Cons show ?case by simp
qed simp

text \<open>A series of bars of the session: so many, of that symbol, hourly, ending an hour before the clock.\<close>

definition hourly_bars :: "timestamp \<Rightarrow> string \<Rightarrow> nat \<Rightarrow> candle list \<Rightarrow> bool" where
  "hourly_bars now sy n cs \<longleftrightarrow> length cs = n \<and> series_ok cs (Some ''1h'')
     \<and> map c_open_time cs = map (\<lambda>i. now - seconds 3600 * int n + seconds 3600 * int i) [0..<n]
     \<and> (\<forall>c \<in> set cs. candle_ok c \<and> c_symbol c = sy \<and> c_timeframe c = ''1h'' \<and> c_is_closed c)"

lemma candles_from_closes_ok:
  assumes "\<forall>x \<in> set closes. 1 \<le> x" and "\<forall>i. 0 \<le> wave i" and "closes \<noteq> []"
  shows "candles_from_closes wave now sy closes =
      Inr (map (session_candle wave sy (now - seconds 3600 * int (length closes)) closes) [0..<length closes])"
    and "hourly_bars now sy (length closes)
      (map (session_candle wave sy (now - seconds 3600 * int (length closes)) closes) [0..<length closes])"
proof -
  let ?cs = "map (session_candle wave sy (now - seconds 3600 * int (length closes)) closes) [0..<length closes]"
  have ok: "list_all candle_ok ?cs" using assms by (auto simp: list_all_iff intro: session_candle_ok)
  have "max (length closes) 1 = length closes" using assms(3) by (cases closes) simp_all
  then show "candles_from_closes wave now sy closes = Inr ?cs"
    by (simp add: candles_from_closes_def make_candles_ok [OF ok])
  have times: "map c_open_time ?cs
      = map (\<lambda>i. now - seconds 3600 * int (length closes) + seconds 3600 * int i) [0..<length closes]"
    by (simp add: session_candle_def shaped_candle_def Let_def)
  have fields: "\<forall>c \<in> set ?cs. candle_ok c \<and> c_symbol c = sy \<and> c_timeframe c = ''1h'' \<and> c_is_closed c"
    using ok by (auto simp: list_all_iff session_candle_def shaped_candle_def Let_def)
  have step: "interval_step ''1h'' = seconds 3600" by (simp add: interval_step_def interval_minutes_def)
  have "series_ok ?cs None"
    by (rule series_ok_bars [where tf = "''1h''" and i = 0 and j = "length closes" and a = "now - seconds 3600 * int (length closes)"])
      (use times fields step in \<open>simp_all add: timeframe_deltas_def\<close>)
  moreover have "series_timeframe ?cs None = series_timeframe ?cs (Some ''1h'')"
    using assms(3) by (cases closes) (simp_all add: series_timeframe_def session_candle_def shaped_candle_def Let_def upt_conv_Cons del: upt_Suc)
  ultimately have "series_ok ?cs (Some ''1h'')" by (auto simp: series_ok_def)
  with times fields show "hourly_bars now sy (length closes) ?cs" by (simp add: hourly_bars_def)
qed

text \<open>The closes are at least one: a product of at least a level and a factor near one.\<close>

lemma small_representable: "m \<le> 65000 \<Longrightarrow> representable (of_nat m)"
  using representableI [of "int m" 0] by (simp add: scale_def)

lemma base_price_ge: "100 \<le> base_price sy"
  by (simp add: base_price_def)

lemma dadd_ge_1: "0 \<le> y \<Longrightarrow> 1 \<le> dadd 1 y"
  unfolding dadd_def by (rule ctx.rep_le_rnd) (use small_representable [of 1] in simp_all)

lemma dmul_ge_nat:
  assumes "m \<le> 65000" and "of_nat m \<le> a" and "1 \<le> b"
  shows "of_nat m \<le> dmul a b"
proof -
  have "of_nat m * 1 \<le> a * b" using assms by (intro mult_mono) simp_all
  then show ?thesis unfolding dmul_def using small_representable [OF assms(1)] by (intro ctx.rep_le_rnd) simp_all
qed

lemma live_base_ge: "100 \<le> live_base sy n"
  using dmul_ge_nat [of 100 "base_price sy" "dadd 1 (dmul (2 / 1000) (of_nat n))"] base_price_ge
  by (simp add: live_base_def dadd_ge_1 dmul_nonneg)

lemma trend_closes_ge: "100 \<le> base \<Longrightarrow> x \<in> set (trend_closes base bars) \<Longrightarrow> 100 \<le> x"
  using dmul_ge_nat [of 100 base] by (auto simp: trend_closes_def dadd_ge_1 dmul_nonneg)

lemma follow_tail_ge:
  assumes "\<forall>r \<in> set rs. - (7 / 1000) \<le> r" and "of_nat m \<le> c" and "m \<le> 100" and "2 * length rs \<le> m"
  shows "\<forall>x \<in> set (follow_tail c rs). of_nat (m - 2 * length rs) \<le> x"
  using assms
proof (induction rs arbitrary: c m)
  case (Cons r rs)
  have "993 / 1000 \<le> dadd 1 r"
  proof -
    have "representable (993 / 1000)" using representableI [of 993 3] by (simp add: scale_def)
    then show ?thesis unfolding dadd_def using Cons.prems(1) by (intro ctx.rep_le_rnd) simp_all
  qed
  then have "of_nat m * (993 / 1000) \<le> c * dadd 1 r" using Cons.prems(2) by (intro mult_mono) simp_all
  moreover have "(of_nat (m - 2) :: rat) \<le> of_nat m * (993 / 1000)"
  proof -
    have "(of_nat (m - 2) :: rat) = of_nat m - 2" using Cons.prems(4) by (simp add: of_nat_diff)
    moreover have "(of_nat m :: rat) \<le> 100" using Cons.prems(3) by simp
    ultimately show ?thesis by simp
  qed
  ultimately have "of_nat (m - 2) \<le> c * dadd 1 r" by linarith
  moreover have "representable (of_nat (m - 2))" using Cons.prems(3) by (intro small_representable) simp
  ultimately have next_ge: "of_nat (m - 2) \<le> dmul c (dadd 1 r)" unfolding dmul_def by (intro ctx.rep_le_rnd)
  have rest: "\<forall>x \<in> set (follow_tail (dmul c (dadd 1 r)) rs). of_nat (m - 2 - 2 * length rs) \<le> x"
    by (rule Cons.IH [OF _ next_ge]) (use Cons.prems in auto)
  have "(of_nat (m - 2 * length (r # rs)) :: rat) \<le> of_nat (m - 2)" by simp
  with next_ge have "of_nat (m - 2 * length (r # rs)) \<le> dmul c (dadd 1 r)" by linarith
  with rest show ?case by (simp add: Let_def)
qed simp

lemma follow_tail_length [simp]: "length (follow_tail c rs) = length rs"
  by (induction rs arbitrary: c) (simp_all add: Let_def)

lemma live_closes_ge:
  assumes "100 \<le> base"
  shows "\<forall>x \<in> set (live_closes base 60). 72 \<le> x" and "length (live_closes base 60) = 60"
proof -
  have len: "length live_tail = 14" by (simp add: live_tail_def)
  have "(60 :: nat) - length live_tail - 1 = 45" by (simp add: len)
  moreover have "trend_closes base 60 ! 45 \<in> set (trend_closes base 60)" by (rule nth_mem) (simp add: trend_closes_def)
  ultimately have "100 \<le> trend_closes base 60 ! (60 - length live_tail - 1)" using trend_closes_ge [OF assms] by metis
  then have "\<forall>x \<in> set (follow_tail (trend_closes base 60 ! (60 - length live_tail - 1)) live_tail). of_nat (100 - 2 * length live_tail) \<le> x"
    by (intro follow_tail_ge) (simp_all add: live_tail_def)
  then have "\<forall>x \<in> set (follow_tail (trend_closes base 60 ! (60 - length live_tail - 1)) live_tail). 72 \<le> x" by (simp add: len)
  moreover have "72 \<le> x" if "x \<in> set (take (60 - length live_tail) (trend_closes base 60))" for x
    using trend_closes_ge [OF assms in_set_takeD [OF that]] by simp
  ultimately show "\<forall>x \<in> set (live_closes base 60). 72 \<le> x" by (auto simp: live_closes_def Let_def)
  show "length (live_closes base 60) = 60" by (simp add: live_closes_def Let_def len trend_closes_def)
qed

lemma backtest_closes_ge:
  assumes "100 \<le> base" and "\<forall>i. -1 \<le> swing i"
  shows "\<forall>x \<in> set (backtest_closes swing base bars). 90 \<le> x"
proof
  fix x assume "x \<in> set (backtest_closes swing base bars)"
  then obtain i :: nat where x: "x = dmul base (dadd (dadd 1 (dmul (8 / 10000) (of_nat i))) (dmul (2 / 100) (swing i)))"
    by (auto simp: backtest_closes_def)
  have rep: "representable (- (2 / 100))" using representableI [of "-2" 2] by (simp add: scale_def)
  have "- (2 / 100) \<le> dmul (2 / 100) (swing i)"
    unfolding dmul_def using assms(2) [rule_format, of i] by (intro ctx.rep_le_rnd [OF rep]) simp
  moreover have "1 \<le> dadd 1 (dmul (8 / 10000) (of_nat i))" by (intro dadd_ge_1 dmul_nonneg) simp_all
  ultimately have s: "98 / 100 \<le> dadd 1 (dmul (8 / 10000) (of_nat i)) + dmul (2 / 100) (swing i)" by linarith
  have rep': "representable (98 / 100)" using representableI [of 98 2] by (simp add: scale_def)
  have "98 / 100 \<le> dadd (dadd 1 (dmul (8 / 10000) (of_nat i))) (dmul (2 / 100) (swing i))"
    by (subst dadd_def) (rule ctx.rep_le_rnd [OF rep' s])
  then have "100 * (98 / 100) \<le> base * dadd (dadd 1 (dmul (8 / 10000) (of_nat i))) (dmul (2 / 100) (swing i))"
    using assms(1) by (intro mult_mono) simp_all
  then have "of_nat 90 \<le> x" unfolding x dmul_def [of base] using small_representable [of 90] by (intro ctx.rep_le_rnd) simp_all
  then show "90 \<le> x" by simp
qed

text \<open>The sample series is valid too, for every supported time frame.\<close>

lemma build_sample_candles_ok:
  assumes "100 \<le> base" and "\<forall>i. 0 \<le> wave i" and "tf \<in> fst ` set timeframe_deltas"
  shows "\<exists>cs. build_sample_candles wave now sy tf start base = Inr cs \<and> length cs = 85 \<and> series_ok cs None"
proof -
  define closes where "closes = sample_closes base"
  have entry: "\<forall>x \<in> set (entry_closes base). 72 \<le> x" "length (entry_closes base) = 60"
    using live_closes_ge [OF assms(1)] by (simp_all add: entry_closes_def)
  have len: "length closes = 85" using entry(2) by (simp add: closes_def sample_closes_def Let_def)
  have "72 \<le> last (entry_closes base)" using entry by (metis last_in_set length_0_conv zero_neq_numeral)
  have down: "50 \<le> dmul (last (entry_closes base)) (dsub 1 (dmul (4 / 1000) (of_nat j)))" if "j < 26" for j :: nat
  proof -
    have "dmul (4 / 1000) (of_nat j) \<le> 1 / 10"
      unfolding dmul_def using that representableI [of 1 1] by (intro ctx.rnd_le_rep) (simp_all add: scale_def)
    then have "9 / 10 \<le> dsub 1 (dmul (4 / 1000) (of_nat j))"
      unfolding dsub_def using representableI [of 9 1] by (intro ctx.rep_le_rnd) (simp_all add: scale_def)
    then have "72 * (9 / 10) \<le> last (entry_closes base) * dsub 1 (dmul (4 / 1000) (of_nat j))"
      using \<open>72 \<le> last (entry_closes base)\<close> by (intro mult_mono) simp_all
    then have "of_nat 50 \<le> dmul (last (entry_closes base)) (dsub 1 (dmul (4 / 1000) (of_nat j)))"
      unfolding dmul_def [of "last (entry_closes base)"] using small_representable [of 50] by (intro ctx.rep_le_rnd) simp_all
    then show ?thesis by simp
  qed
  have ge: "\<forall>x \<in> set closes. 1 \<le> x"
  proof
    fix x assume "x \<in> set closes"
    then consider "x \<in> set (entry_closes base)"
      | j where "j < 26" "x = dmul (last (entry_closes base)) (dsub 1 (dmul (4 / 1000) (of_nat j)))"
      by (auto simp: closes_def sample_closes_def Let_def)
    then show "1 \<le> x"
    proof cases
      case 1
      with entry(1) show ?thesis by force
    next
      case 2
      with down [of j] show ?thesis by simp
    qed
  qed
  define a where "a = (case start of Some t \<Rightarrow> t | None \<Rightarrow> now - interval_step tf * 90)"
  define cs where "cs = map (sample_candle_at wave sy tf a closes) [0..<length closes]"
  have ok: "\<forall>c \<in> set cs. candle_ok c"
    using ge assms(2) by (auto simp: cs_def sample_candle_at_def intro!: shaped_candle_ok wave_volume_nonneg)
  then have "build_sample_candles wave now sy tf start base = Inr cs"
    by (simp add: build_sample_candles_def Let_def a_def [symmetric] closes_def [symmetric] cs_def [symmetric]
        make_candles_ok list_all_iff)
  moreover have "series_ok cs None"
    by (rule series_ok_bars [where tf = tf and a = a and i = 0 and j = "length closes"])
      (use ok assms(3) in \<open>auto simp: cs_def sample_candle_at_def shaped_candle_def Let_def\<close>)
  ultimately show ?thesis using len by (simp add: cs_def)
qed

subsection \<open>Properties\<close>

lemma hourly_sorted:
  assumes "hourly_bars now sy n cs"
  shows "sorted (map c_open_time cs)"
  using assms unfolding hourly_bars_def by (auto simp: sorted_iff_nth_mono seconds_def)

lemma hourly_not_shorter:
  assumes "hourly_bars now sy n cs" and "2 \<le> n" and "map_of timeframe_deltas tf = Some d" and "d \<noteq> seconds 3600"
  shows "\<not> series_ok (map (\<lambda>c. c\<lparr>c_timeframe := tf\<rparr>) cs) (Some tf)"
proof
  let ?cs = "map (\<lambda>c. c\<lparr>c_timeframe := tf\<rparr>) cs"
  let ?ts = "map (\<lambda>i. now - seconds 3600 * int n + seconds 3600 * int i) [0..<n]"
  assume ok: "series_ok ?cs (Some tf)"
  have len: "length cs = n" using assms(1) by (simp add: hourly_bars_def)
  have times: "map c_open_time ?cs = ?ts" using assms(1) by (simp add: hourly_bars_def comp_def)
  have "sort (map c_open_time ?cs) = map c_open_time ?cs"
    using hourly_sorted [OF assms(1)] by (intro sorted_sort_id) (simp add: comp_def)
  moreover have "tf \<noteq> []" using assms(3) by (auto simp: timeframe_deltas_def split: if_splits)
  then have "series_timeframe ?cs (Some tf) = tf" by (simp add: series_timeframe_def)
  ultimately have "progression d ?ts" using ok assms(2,3) len times by (auto simp: series_ok_def)
  moreover have "(?ts ! 0, ?ts ! 1) \<in> set (zip ?ts (tl ?ts))"
    using assms(2) by (auto simp: set_zip nth_tl intro!: exI [of _ 0])
  ultimately have "?ts ! 1 = ?ts ! 0 + d" by (auto simp: progression_def)
  with assms(2,4) show False by simp
qed

lemma last_bar_up:
  assumes "72 \<le> c"
  shows "quantize 2 c < quantize 2 (dmul c (dadd 1 (6 / 1000)))"
proof -
  have f: "dadd 1 (6 / 1000) = 1006 / 1000"
    unfolding dadd_def using ctx.rnd_rep [of "1006 / 1000"] representableI [of 1006 3] by (simp add: scale_def)
  have "c * (1006 / 1000) \<le> dmul c (1006 / 1000) * (1 + 1 / 10 ^ 27)"
    unfolding dmul_def using assms by (intro ctx_lower) simp
  then have "c + 4 / 10 \<le> dmul c (1006 / 1000)" using assms by simp
  moreover have "\<bar>quantize 2 c - c\<bar> \<le> 5 / 1000" "\<bar>quantize 2 (dmul c (1006 / 1000)) - dmul c (1006 / 1000)\<bar> \<le> 5 / 1000"
    using quantize_error [of 2] by simp_all
  ultimately show ?thesis unfolding f by linarith
qed

lemma live_closes_last:
  "live_closes base 60 ! 59 = dmul (live_closes base 60 ! 58) (dadd 1 (6 / 1000))"
proof -
  obtain c where "live_closes base 60 = take 46 (trend_closes base 60) @ follow_tail c live_tail"
    by (simp add: live_closes_def Let_def live_tail_def)
  moreover have "length (take 46 (trend_closes base 60)) = 46" by (simp add: trend_closes_def)
  ultimately show ?thesis by (simp add: nth_append live_tail_def Let_def)
qed

lemma live_series_ok:
  assumes "\<forall>i. 0 \<le> wave i"
  shows "\<exists>cs. live_series wave now sy n = Inr cs \<and> hourly_bars now sy 60 cs
    \<and> c_open (last cs) < c_close (last cs) \<and> c_volume (last cs) = 5000"
proof -
  define closes where "closes = live_closes (live_base sy n) 60"
  define cs where "cs = map (session_candle wave sy (now - seconds 3600 * int 60) closes) [0..<60]"
  have ge: "\<forall>x \<in> set closes. 72 \<le> x" and len: "length closes = 60"
    using live_closes_ge [OF live_base_ge, of sy n] by (simp_all add: closes_def)
  have ge1: "\<forall>x \<in> set closes. 1 \<le> x" using ge by (meson dual_order.trans one_le_numeral)
  have ne: "closes \<noteq> []" using len by auto
  have live: "live_series wave now sy n = Inr cs" and bars: "hourly_bars now sy 60 cs"
    using candles_from_closes_ok [OF ge1 assms(1) ne, of now sy]
    unfolding live_series_def closes_def [symmetric] len cs_def by simp_all
  have l: "last cs = session_candle wave sy (now - seconds 3600 * int 60) closes 59"
    by (simp add: cs_def last_map)
  have "72 \<le> closes ! 58" using ge len by simp
  from last_bar_up [OF this] have up: "c_open (last cs) < c_close (last cs)"
    using live_closes_last [of "live_base sy n", folded closes_def] unfolding l by (simp add: session_candle_def shaped_candle_def Let_def)
  have "c_volume (last cs) = 5000" unfolding l by (simp add: session_candle_def shaped_candle_def Let_def len)
  with live bars up show ?thesis by blast
qed

lemma dashboard_series_backtest:
  assumes "\<forall>i. 0 \<le> wave i" and "\<forall>i. - 1 \<le> swing i"
  shows "\<exists>ds. backtest_series wave swing now sy 180 = Inr ds \<and> hourly_bars now sy 180 ds"
proof -
  define bs where "bs = backtest_closes swing (base_price sy) 180"
  have "\<forall>x \<in> set bs. 1 \<le> x"
    using backtest_closes_ge [OF base_price_ge assms(2)] unfolding bs_def by (meson dual_order.trans one_le_numeral)
  moreover have "length bs = 180" by (simp add: bs_def backtest_closes_def)
  ultimately show ?thesis
    using candles_from_closes_ok [OF _ assms(1), of bs now sy] unfolding backtest_series_def bs_def [symmetric]
    by (metis list.size(3) zero_neq_numeral)
qed

text \<open>
  C24. The synthetic market is a market. At every tick, and for every requested backtest, the series of a
  symbol is 60 or 180 sane closed hourly bars without a gap, the last one hour before the clock, and the
  last bar of a tick closes above its opening on the volume of the entry rule. Relabelled with the time
  frame of the ticked strategy, as a tick relabels it, it is such a series only for hourly strategies:
  for the others every hour is full of missing candles.
\<close>

theorem dashboard_series_valid:
  assumes "\<forall>i. 0 \<le> wave i" and "\<forall>i. - 1 \<le> swing i"
  shows "\<exists>cs ds. live_series wave now sy n = Inr cs \<and> hourly_bars now sy 60 cs
    \<and> c_open (last cs) < c_close (last cs) \<and> c_volume (last cs) = 5000
    \<and> backtest_series wave swing now sy 180 = Inr ds \<and> hourly_bars now sy 180 ds
    \<and> (\<forall>sid tf. meta_timeframe sid = Some tf \<longrightarrow>
         series_ok (map (\<lambda>c. c\<lparr>c_timeframe := tf\<rparr>) cs) (Some tf) = (tf = ''1h''))"
proof -
  obtain cs where live: "live_series wave now sy n = Inr cs" and bars: "hourly_bars now sy 60 cs"
    and up: "c_open (last cs) < c_close (last cs)" and vol: "c_volume (last cs) = 5000"
    using live_series_ok [OF assms(1)] by blast
  obtain ds where bser: "backtest_series wave swing now sy 180 = Inr ds" "hourly_bars now sy 180 ds"
    using dashboard_series_backtest [OF assms] by blast
  have rel: "series_ok (map (\<lambda>c. c\<lparr>c_timeframe := tf\<rparr>) cs) (Some tf) = (tf = ''1h'')" if "meta_timeframe sid = Some tf" for sid tf
  proof (cases "tf = ''1h''")
    case True
    have "map (\<lambda>c. c\<lparr>c_timeframe := tf\<rparr>) cs = cs"
      using bars True by (intro map_idI) (simp add: hourly_bars_def)
    with bars True show ?thesis by (simp add: hourly_bars_def)
  next
    case False
    with that have "tf \<in> {''1m'', ''5m''}" by (auto simp: meta_timeframe_def split: if_splits)
    then obtain d where "map_of timeframe_deltas tf = Some d" "d \<noteq> seconds 3600"
      by (auto simp: timeframe_deltas_def seconds_def)
    with hourly_not_shorter [OF bars] False show ?thesis by simp
  qed
  show ?thesis using live bars up vol bser rel by blast
qed

theorem dashboard_series_valid_witness:
  "\<exists>cs. live_series (\<lambda>i. 1) 0 ''BTC/USDT'' 3 = Inr cs \<and> \<not> series_ok (map (\<lambda>c. c\<lparr>c_timeframe := ''1m''\<rparr>) cs) (Some ''1m'')"
proof -
  have "\<forall>i :: nat. (0 :: rat) \<le> 1" "\<forall>i :: nat. - 1 \<le> (0 :: rat)" "meta_timeframe ''ema_crossover'' = Some ''1m''"
    by (simp_all add: meta_timeframe_def)
  with dashboard_series_valid [of "\<lambda>i. 1" "\<lambda>i. 0" 0 "''BTC/USDT''" 3] show ?thesis by fastforce
qed

subsection \<open>Later ticks\<close>

lemma prime_old_candles:
  assumes "\<forall>c \<in> snd ` set vcs. c_symbol c = sy \<and> c_open_time c \<le> t" and "map_of (or_last_open_time x) sy = Some t"
  shows "prime_candles ocfg now vcs x = (0, x)"
proof -
  have "fold (prime_candle ocfg now) vcs (0, x) = (0, x)"
    using assms(1)
  proof (induction vcs)
    case (Cons vc vcs)
    have c: "c_symbol (snd vc) = sy" "c_open_time (snd vc) \<le> t" using Cons.prems by auto
    then have "reject_reason ocfg now (snd vc) x \<noteq> None" 
      unfolding reject_reason_def c(1) assms(2) using c(2) by simp
    then have step: "prime_candle ocfg now vc (0, x) = (0, x)" by (simp add: prime_candle_def case_prod_beta)
    have "fold (prime_candle ocfg now) vcs (0, x) = (0, x)" by (rule Cons.IH) (use Cons.prems in auto)
    then show ?case by (simp only: fold_simps(2) comp_apply step)
  qed simp
  then show ?thesis by (simp add: prime_candles_def)
qed

lemma hourly_provided:
  assumes "hourly_bars now sy n cs" and "n \<le> 120"
  shows "provided_candles (map (\<lambda>c. c\<lparr>c_timeframe := tf\<rparr>) cs) sy tf 120 = map (\<lambda>c. c\<lparr>c_timeframe := tf\<rparr>) cs"
proof -
  let ?cs = "map (\<lambda>c. c\<lparr>c_timeframe := tf\<rparr>) cs"
  have f: "filter (\<lambda>c. c_symbol c = sy \<and> c_timeframe c = tf \<and> c_is_closed c) ?cs = ?cs"
    using assms(1) by (auto simp: hourly_bars_def filter_id_conv)
  have s: "sort_key c_open_time ?cs = ?cs"
    using hourly_sorted [OF assms(1)] by (intro sort_key_id_if_sorted) (simp add: comp_def)
  have "length ?cs \<le> 120" using assms by (simp add: hourly_bars_def)
  then show ?thesis unfolding provided_candles_def f s by (simp add: last_of_def)
qed

lemma hourly_old:
  assumes "hourly_bars now sy n cs" and "c \<in> set (butlast cs)"
  shows "c_symbol c = sy" and "c_open_time c \<le> now - seconds 7200"
proof -
  have len: "length cs = n" using assms(1) by (simp add: hourly_bars_def)
  from assms(2) obtain i where i: "i < n - 1" "c = cs ! i" unfolding in_set_conv_nth using len by (auto simp: nth_butlast)
  have "map c_open_time cs ! i = now - seconds 3600 * int n + seconds 3600 * int i"
    using assms(1) less_imp_diff_less [of i n] i(1) by (simp add: hourly_bars_def nth_upt less_diff_conv)
  then have "c_open_time c = now - seconds 3600 * (int n - int i)" using i len by (simp add: algebra_simps)
  moreover have "2 \<le> int n - int i" using i(1) by linarith
  ultimately show "c_open_time c \<le> now - seconds 7200" by (simp add: seconds_def)
  show "c_symbol c = sy" using assms in_set_butlastD by (fastforce simp: hourly_bars_def)
qed

lemma env_candles:
  "ce_process (env\<lparr>ce_candles := a\<rparr>) = ce_process env" "ce_run_id (env\<lparr>ce_candles := a\<rparr>) = ce_run_id env"
  "ce_correlation_id (env\<lparr>ce_candles := a\<rparr>) = ce_correlation_id env"
  "ce_lock_setup_fails (env\<lparr>ce_candles := a\<rparr>) = ce_lock_setup_fails env"
  "ce_lock_fault (env\<lparr>ce_candles := a\<rparr>) = ce_lock_fault env" "ce_lock_now (env\<lparr>ce_candles := a\<rparr>) = ce_lock_now env"
  "ce_lock_owner (env\<lparr>ce_candles := a\<rparr>) = ce_lock_owner env"
  "ce_release_fault (env\<lparr>ce_candles := a\<rparr>) = ce_release_fault env"
  "ce_persist_fails (env\<lparr>ce_candles := a\<rparr>) = ce_persist_fails env"
  "ce_recon_raises (env\<lparr>ce_candles := a\<rparr>) = ce_recon_raises env" "ce_recon_now (env\<lparr>ce_candles := a\<rparr>) = ce_recon_now env"
  "ce_candles (env\<lparr>ce_candles := a\<rparr>) = a"
  by simp_all

lemma locked_cycle_candles:
  "locked_cycle cfg (env\<lparr>ce_candles := a\<rparr>) target y rt = locked_cycle cfg env target y rt"
proof -
  have "execute_cycle cfg (env\<lparr>ce_candles := a\<rparr>) = execute_cycle cfg env"
    unfolding execute_cycle_def settle_cycle_def reconcile_after_cycle_def completed_result_def env_candles by (rule refl)
  then show ?thesis unfolding locked_cycle_def release_lock_def env_candles by (simp only:)
qed

text \<open>A cycle whose older candles opened no later than the newest bar processed uses its last candle alone.\<close>

lemma cycle_tip_only:
  assumes "\<forall>c \<in> snd ` set (butlast many). c_symbol c = sy \<and> c_open_time c \<le> t" and "many \<noteq> []"
    and "map_of (rt_orchestrators rt) (registry_key cfg) = Some x" and "map_of (or_last_open_time x) sy = Some t"
  shows "run_paper_trading_cycle cfg (env\<lparr>ce_candles := many\<rparr>) rt = run_paper_trading_cycle cfg (env\<lparr>ce_candles := [last many]\<rparr>) rt"
proof -
  define y where "y = get_or_create_orchestrator cfg rt"
  have "map_of (or_last_open_time y) sy = Some t"
    using assms(3,4) by (simp add: y_def get_or_create_orchestrator_def)
  note old = prime_old_candles [OF assms(1) this]
  show ?thesis
    using assms(2) unfolding run_paper_trading_cycle_def Let_def y_def [symmetric]
    unfolding env_candles old locked_cycle_candles by (simp add: prime_candles_def)
qed

text \<open>
  C25. Only the first tick sees the synthetic market. When the orchestrator of the strategy has processed
  a bar that opened at most two hours before the clock, which the tip of any tick of the last hour did, a
  tick does exactly what it would do if its series were the last bar alone: the other 59, engineered for
  an entry, are refused as old, and the strategy decides on the window of before with one bar more.
\<close>

theorem later_tick_tip_only:
  assumes "\<And>sy n. live_series wave now sy n = Inr (te_live te sy n)" and "\<forall>i. 0 \<le> wave i"
    and "map_of (rt_orchestrators (ss_runtime s)) (session_key (tick_symbol (sg_settings cfg))
        (strategy_id (case map_of (ss_param_overrides s) sid of Some p \<Rightarrow> p | None \<Rightarrow> strat))) = Some x"
    and "map_of (or_last_open_time x) (tick_symbol (sg_settings cfg)) = Some t" and "now - seconds 7200 \<le> t"
  shows "tick_cycle cfg base te sid strat s
    = tick_cycle cfg base (te\<lparr>te_live := \<lambda>sy n. [last (te_live te sy n)]\<rparr>) sid strat s"
proof -
  define sy where "sy = tick_symbol (sg_settings cfg)"
  define tf where "tf = (case meta_timeframe sid of Some t \<Rightarrow> t | None \<Rightarrow> st_default_timeframe (sg_settings cfg))"
  define n where "n = (case map_of (ss_ticks s) sy of Some k \<Rightarrow> k | None \<Rightarrow> 0) + 3"
  define cs where "cs = te_live te sy n"
  define rel where "rel = (\<lambda>c :: candle. c\<lparr>c_timeframe := tf\<rparr>)"
  have bars: "hourly_bars now sy 60 cs"
    using live_series_ok [OF assms(2), of now sy n] assms(1) [of sy n] by (simp add: cs_def)
  then have ne: "cs \<noteq> []" by (auto simp: hourly_bars_def)
  have full: "provided_candles (map rel cs) sy tf 120 = map rel cs"
    unfolding rel_def by (rule hourly_provided [OF bars]) simp
  have tip: "provided_candles [rel (last cs)] sy tf 120 = [rel (last cs)]"
    using bars ne by (simp add: provided_candles_def rel_def last_of_def hourly_bars_def)
  let ?prime = "\<lambda>c. (te_prime te c, c)"
  have lasts: "last (map ?prime (map rel cs)) = ?prime (rel (last cs))" "last (map rel cs) = rel (last cs)"
    using ne by (simp_all add: last_map)
  have "c_symbol c = sy \<and> c_open_time c \<le> t" if "c \<in> snd ` set (butlast (map ?prime (map rel cs)))" for c
  proof -
    from that obtain c0 where "c0 \<in> set (butlast cs)" "c = rel c0" by (auto simp: map_butlast [symmetric])
    with hourly_old [OF bars] assms(5) show ?thesis by (force simp: rel_def)
  qed
  then have older: "\<forall>c \<in> snd ` set (butlast (map ?prime (map rel cs))). c_symbol c = sy \<and> c_open_time c \<le> t" by blast
  have many: "map ?prime (map rel cs) \<noteq> []" using ne by simp
  have core: "run_paper_trading_cycle ccfg (env\<lparr>ce_candles := map ?prime (map rel cs)\<rparr>) rt
      = run_paper_trading_cycle ccfg (env\<lparr>ce_candles := [?prime (rel (last cs))]\<rparr>) rt"
    if "map_of (rt_orchestrators rt) (registry_key ccfg) = Some x" for ccfg env rt
    unfolding lasts(1) [symmetric] by (rule cycle_tip_only [OF older many that assms(4) [folded sy_def]])
  let ?te = "te\<lparr>te_live := \<lambda>sy n. [last (te_live te sy n)]\<rparr>"
  have candles: "tick_candles te sy tf n = map rel cs" "tick_candles ?te sy tf n = [rel (last cs)]"
    by (simp_all add: tick_candles_def rel_def cs_def)
  have te: "te_session ?te = te_session te" "te_cycle ?te = te_cycle te" "te_prime ?te = te_prime te" by simp_all
  define p where "p = (case map_of (ss_param_overrides s) sid of Some p \<Rightarrow> p | None \<Rightarrow> strat)"
  define s1 where "s1 = with_paper (set_mark_price (sg_paper cfg) (sv_mark (te_session te)) sy
                 (c_close (rel (last cs))) (ss_paper s)) (s\<lparr>ss_ticks := AList.update sy n (ss_ticks s)\<rparr>)"
  define ccfg where "ccfg = base\<lparr>cc_symbol := sy, cc_timeframe := tf,
                      cc_orchestrator := (cc_orchestrator base)\<lparr>oc_strategy := p, oc_settings := sg_settings cfg\<rparr>\<rparr>"
  have reg: "map_of (rt_orchestrators (ss_runtime s1)) (registry_key ccfg) = Some x"
    using assms(3) by (simp add: s1_def with_paper_def registry_key_def ccfg_def cycle_strategy_def p_def sy_def)
  have one: "map ?prime [rel (last cs)] = [?prime (rel (last cs))]" "last [rel (last cs)] = rel (last cs)" by simp_all
  show ?thesis
    unfolding tick_cycle_def Let_def sy_def [symmetric] tf_def [symmetric] n_def [symmetric] p_def [symmetric]
      te candles full tip lasts one s1_def [symmetric] ccfg_def [symmetric] core [OF reg] by (rule refl)
qed

definition market_tick :: tick_env where
  "market_tick = \<lparr>te_live = (\<lambda>sy n. case live_series (\<lambda>i. 1) 0 sy n of Inr cs \<Rightarrow> cs | Inl e \<Rightarrow> []),
     te_prime = (\<lambda>c. sample_env), te_cycle = sample_cycle_env False, te_session = sample_session_env\<rparr>"

definition ticked_session :: paper_session where
  "ticked_session = sample_session\<lparr>ss_runtime := (ss_runtime sample_session)\<lparr>rt_orchestrators :=
     [(session_key ''BTC/USDT'' (strategy_id (EMACrossover sample_crossover)),
       (sample_orchestrator sample_engine)\<lparr>or_last_open_time := [(''BTC/USDT'', - seconds 3600)]\<rparr>)]\<rparr>\<rparr>"

theorem later_tick_tip_only_witness:
  "tick_cycle sample_session_config (sample_cycle True) market_tick ''ema_crossover'' (EMACrossover sample_crossover) ticked_session
    = tick_cycle sample_session_config (sample_cycle True) (market_tick\<lparr>te_live := \<lambda>sy n. [last (te_live market_tick sy n)]\<rparr>)
        ''ema_crossover'' (EMACrossover sample_crossover) ticked_session"
proof (rule later_tick_tip_only [where wave = "\<lambda>i. 1" and now = 0])
  show "live_series (\<lambda>i. 1) 0 sy n = Inr (te_live market_tick sy n)" for sy n
    using live_series_ok [of "\<lambda>i. 1" 0 sy n] by (auto simp: market_tick_def)
  have sy: "tick_symbol (sg_settings sample_session_config) = ''BTC/USDT''"
    by (simp add: tick_symbol_def sample_session_config_def default_settings_def)
  have none: "ss_param_overrides ticked_session = []" by (simp add: ticked_session_def sample_session_def new_session_def with_paper_def Let_def record_equity_point_def case_prod_beta)
  show "map_of (rt_orchestrators (ss_runtime ticked_session)) (session_key (tick_symbol (sg_settings sample_session_config))
        (strategy_id (case map_of (ss_param_overrides ticked_session) ''ema_crossover'' of Some p \<Rightarrow> p
           | None \<Rightarrow> EMACrossover sample_crossover)))
      = Some ((sample_orchestrator sample_engine)\<lparr>or_last_open_time := [(''BTC/USDT'', - seconds 3600)]\<rparr>)"
    unfolding sy none by (simp add: ticked_session_def)
  show "map_of (or_last_open_time ((sample_orchestrator sample_engine)\<lparr>or_last_open_time := [(''BTC/USDT'', - seconds 3600)]\<rparr>))
      (tick_symbol (sg_settings sample_session_config)) = Some (- seconds 3600)" unfolding sy by simp
qed (simp_all add: seconds_def)

subsection \<open>Requested backtests\<close>

text \<open>
  A requested backtest of a known strategy that evaluates every window completes with one new report, newest first;
  of the request only the strategy, the symbol and the cash have an effect on what it measures: its time
  frame, start and end are copied into the report and the series is the same.
\<close>

lemma session_backtest_exact:
  assumes "get_strategy reg (case bq_strategy_id q of Some s \<Rightarrow> s | None \<Rightarrow> ''ema_trend'') = Inr strat"
    and "\<forall>i. 0 \<le> bv_wave v i" and "\<forall>i. - 1 \<le> bv_swing v i"
    and "session_backtest reg v q reports = (res, reports')"
    and "session_backtest reg v (q\<lparr>bq_timeframe := tf, bq_start := a, bq_end := b\<rparr>) reports = (res2, reports2)"
  shows "case res of
      Inl e \<Rightarrow> reports' = reports \<and> res2 = Inl e
    | Inr r \<Rightarrow> reports' = r # reports \<and> bp_metrics r = round_metrics (bp_metrics r)
        \<and> (\<exists>r2. res2 = Inr r2 \<and> bp_metrics r2 = bp_metrics r)"
proof -
  define sy where "sy = (case bq_symbol q of Some s \<Rightarrow> s | None \<Rightarrow> ''BTC/USDT'')"
  define cash where "cash = (case bq_initial_cash q of Some c \<Rightarrow> if c = 0 then 10000 else c | None \<Rightarrow> (10000 :: decimal))"
  obtain cs where cs: "backtest_series (bv_wave v) (bv_swing v) (bv_now v) sy 180 = Inr cs"
    using dashboard_series_backtest [OF assms(2,3)] by blast
  define run where "run = run_backtest (strategy_evaluate strat) (strategy_name strat)
      (default_backtest_config\<lparr>bc_initial_cash := cash\<rparr>) (bv_run_now v) cs"
  have idem: "round_metrics (round_metrics m) = round_metrics m" for m by (simp add: round_metrics_def)
  show ?thesis
  proof (cases run)
    case (Inl e)
    with assms(1,4,5) cs show ?thesis
      by (auto simp: session_backtest_def sy_def [symmetric] cash_def [symmetric] run_def Let_def)
  next
    case (Inr r)
    with assms(1,4,5) cs show ?thesis
      by (auto simp: session_backtest_def sy_def [symmetric] cash_def [symmetric] run_def [symmetric] Let_def idem)
  qed
qed

end
