(* ===== verification/Audit_Store.thy ===== *)
theory Audit_Store
  imports Paper_Store
begin

text \<open>
  The tables that keep a history beside the state of the session
  (\<open>app/services/paper_persistence.py\<close>, \<open>app/journal/store.py\<close>): events of the kill switch, the
  audit journal, evaluated strategy runs, portfolio snapshots, signals, risk decisions and system
  events. The identifier and the clock reading of a new row are arguments; JSON payloads are left out.
\<close>

subsection \<open>Rows\<close>

record audit_event =
  ae_id :: string
  ae_event_type :: string
  ae_severity :: string
  ae_message :: string
  ae_correlation_id :: "string option"
  ae_order_id :: "string option"
  ae_idempotency_key :: "string option"
  ae_created_at :: timestamp

record kill_event =
  ke_enabled :: string
  ke_reason :: string
  ke_created_at :: timestamp

record snapshot_row =
  nr_cash_balance :: decimal
  nr_equity :: decimal
  nr_realized_pnl :: decimal
  nr_unrealized_pnl :: decimal
  nr_daily_pnl :: decimal
  nr_peak_equity :: decimal
  nr_drawdown :: decimal
  nr_fees_paid :: decimal
  nr_exposure :: decimal
  nr_created_at :: timestamp

record signal_row =
  sw_signal :: trade_signal
  sw_led_to_order :: "string option"

record decision_row =
  dw_idempotency_key :: string
  dw_evaluation :: risk_evaluation
  dw_created_at :: timestamp

record audit_store =
  as_kill_events :: "kill_event list"
  as_journal :: "audit_event list"
  as_runs :: "strategy_run list"
  as_snapshots :: "snapshot_row list"
  as_signals :: "signal_row list"
  as_decisions :: "decision_row list"
  as_system_events :: "audit_event list"

subsection \<open>Writing\<close>

definition record_kill_switch_event :: "timestamp \<Rightarrow> bool \<Rightarrow> string \<Rightarrow> audit_store \<Rightarrow> audit_store" where
  "record_kill_switch_event now enabled reason a =
     a\<lparr>as_kill_events := as_kill_events a @
        [\<lparr>ke_enabled = bool_str enabled,
          ke_reason = (if reason \<noteq> '''' then reason else if enabled then ''enabled'' else ''disabled''),
          ke_created_at = now\<rparr>]\<rparr>"

definition append_audit_event :: "audit_event \<Rightarrow> audit_store \<Rightarrow> audit_store" where
  "append_audit_event e a = a\<lparr>as_journal := as_journal a @ [e]\<rparr>"

definition record_system_event :: "audit_event \<Rightarrow> audit_store \<Rightarrow> audit_store" where
  "record_system_event e a = a\<lparr>as_system_events := as_system_events a @ [e]\<rparr>"

definition record_signal :: "database \<Rightarrow> trade_signal \<Rightarrow> string option \<Rightarrow> audit_store \<Rightarrow> audit_store" where
  "record_signal d sg oid a =
     a\<lparr>as_signals := as_signals a @
        [\<lparr>sw_signal = sg\<lparr>sg_confidence := db_col d (sg_confidence sg),
             sg_suggested_stop := map_option (db_col d) (sg_suggested_stop sg),
             sg_suggested_target := map_option (db_col d) (sg_suggested_target sg)\<rparr>,
          sw_led_to_order = oid\<rparr>]\<rparr>"

definition record_risk_decision :: "database \<Rightarrow> string \<Rightarrow> risk_evaluation \<Rightarrow> audit_store \<Rightarrow> audit_store" where
  "record_risk_decision d key ev a =
     a\<lparr>as_decisions := as_decisions a @
        [\<lparr>dw_idempotency_key = key,
          dw_evaluation = ev\<lparr>ev_approved_quantity := map_option (db_col d) (ev_approved_quantity ev)\<rparr>,
          dw_created_at = db_now d\<rparr>]\<rparr>"

text \<open>The identity of a run: its strategy and its candle.\<close>

definition run_identity :: "strategy_run \<Rightarrow> string \<times> string \<times> string \<times> string \<times> timestamp" where
  "run_identity r =
     (rn_strategy_name r, rn_strategy_version r, rn_symbol r, rn_timeframe r, rn_candle_open_time r)"

definition save_strategy_run :: "strategy_run \<Rightarrow> audit_store \<Rightarrow> audit_store" where
  "save_strategy_run r a =
     (if list_ex (\<lambda>x. rn_run_id x = rn_run_id r) (as_runs a) then a
      else if list_ex (\<lambda>x. run_identity x = run_identity r) (as_runs a) then a
      else a\<lparr>as_runs := as_runs a @ [r]\<rparr>)"

text \<open>The snapshot that goes with a checkpoint.\<close>

definition checkpoint_snapshot :: "database \<Rightarrow> paper_session \<Rightarrow> snapshot_row" where
  "checkpoint_snapshot d s =
     (let ps = ss_paper s; cash = ps_cash ps; reserved = ps_reserved_cash ps; peak = ss_peak_equity s;
          equity = dadd (dadd cash reserved)
            (dsum (map (\<lambda>p. dmul (p_quantity p) (p_current_price p)) (dict_values (ps_positions ps))));
          unrealized = dsub (dsub equity cash) reserved
      in \<lparr>nr_cash_balance = db_col d cash, nr_equity = db_col d equity, nr_realized_pnl = db_col d (ps_realized_pnl ps),
          nr_unrealized_pnl = db_col d unrealized, nr_daily_pnl = db_col d (dsub (dsub equity cash) reserved),
          nr_peak_equity = db_col d peak,
          nr_drawdown = db_col d (if peak > 0 then ddiv (dsub peak equity) peak else 0),
          nr_fees_paid = db_col d (dsum (map f_fee (ps_fills ps))), nr_exposure = db_col d unrealized,
          nr_created_at = db_now d\<rparr>)"

definition save_snapshot :: "database \<Rightarrow> paper_session \<Rightarrow> audit_store \<Rightarrow> audit_store" where
  "save_snapshot d s a = a\<lparr>as_snapshots := as_snapshots a @ [checkpoint_snapshot d s]\<rparr>"

subsection \<open>Reading\<close>

text \<open>\<open>ORDER BY created_at DESC LIMIT limit\<close>; later rows first among equals.\<close>

definition newest :: "('a \<Rightarrow> timestamp) \<Rightarrow> nat \<Rightarrow> 'a list \<Rightarrow> 'a list" where
  "newest created limit rows = take limit (rev (sort_key created rows))"

definition list_audit_events :: "nat \<Rightarrow> audit_store \<Rightarrow> audit_event list" where
  "list_audit_events limit a = newest ae_created_at limit (as_journal a)"

definition list_equity_snapshots :: "nat \<Rightarrow> store \<Rightarrow> (timestamp \<times> decimal \<times> decimal \<times> decimal) list" where
  "list_equity_snapshots limit db = newest fst limit (so_equity_snapshots db)"

subsection \<open>Properties\<close>

lemma newest_props:
  "length (newest t n xs) = min n (length xs)" "set (newest t n xs) \<subseteq> set xs"
  "sorted_wrt (\<lambda>x y. t y \<le> t x) (newest t n xs)"
  "x \<in> set xs \<Longrightarrow> x \<notin> set (newest t n xs) \<Longrightarrow> y \<in> set (newest t n xs) \<Longrightarrow> t x \<le> t y"
proof -
  let ?r = "rev (sort_key t xs)"
  have sorted: "sorted_wrt (\<lambda>x y. t y \<le> t x) ?r"
    using sorted_sort_key [of t xs] by (simp add: sorted_map sorted_wrt_rev)
  have set: "set ?r = set xs" by simp
  show "length (newest t n xs) = min n (length xs)" by (simp add: newest_def)
  show "set (newest t n xs) \<subseteq> set xs" unfolding newest_def using set_take_subset [of n ?r] by simp
  show "sorted_wrt (\<lambda>x y. t y \<le> t x) (newest t n xs)"
    unfolding newest_def using sorted by (rule sorted_wrt_take)
  assume "x \<in> set xs" "x \<notin> set (newest t n xs)" "y \<in> set (newest t n xs)"
  moreover have "?r = take n ?r @ drop n ?r" by simp
  ultimately have "x \<in> set (drop n ?r)" "y \<in> set (take n ?r)"
    unfolding newest_def using set by (metis Un_iff set_append)+
  with sorted show "t x \<le> t y"
    by (metis append_take_drop_id sorted_wrt_append)
qed

definition runs_ok :: "audit_store \<Rightarrow> bool" where
  "runs_ok a \<longleftrightarrow> distinct (map rn_run_id (as_runs a)) \<and> distinct (map run_identity (as_runs a))"

lemma save_strategy_run_cases:
  "as_runs (save_strategy_run r a) = as_runs a \<and> (\<exists>x \<in> set (as_runs a). rn_run_id x = rn_run_id r \<or> run_identity x = run_identity r)
   \<or> as_runs (save_strategy_run r a) = as_runs a @ [r]
     \<and> rn_run_id r \<notin> rn_run_id ` set (as_runs a) \<and> run_identity r \<notin> run_identity ` set (as_runs a)"
  by (auto simp: save_strategy_run_def list_ex_iff)

lemma save_strategy_run_ok: "runs_ok a \<Longrightarrow> runs_ok (save_strategy_run r a)"
  using save_strategy_run_cases [of r a] by (auto simp: runs_ok_def)

text \<open>
  Evaluated runs are recorded once: however often and in whatever order runs are saved, the table
  holds at most one row for an identifier and for a strategy on a candle; rows are never changed or
  removed; and of every run saved, its identifier or its candle is in the table.
\<close>

lemma runs_recorded_once:
  assumes "runs_ok a"
  shows "runs_ok (fold save_strategy_run rs a)
    \<and> (\<exists>later. as_runs (fold save_strategy_run rs a) = as_runs a @ later \<and> set later \<subseteq> set rs)
    \<and> (\<forall>r. r \<in> set rs \<longrightarrow> (\<exists>x \<in> set (as_runs (fold save_strategy_run rs a)).
         rn_run_id x = rn_run_id r \<or> run_identity x = run_identity r))"
  using assms
proof (induction rs arbitrary: a)
  case (Cons r rs)
  let ?a = "save_strategy_run r a" and ?b = "fold save_strategy_run (r # rs) a"
  from Cons.IH [OF save_strategy_run_ok [OF Cons.prems]] obtain later where
    IH: "runs_ok ?b" "as_runs ?b = as_runs ?a @ later" "set later \<subseteq> set rs"
      "\<forall>q. q \<in> set rs \<longrightarrow> (\<exists>x \<in> set (as_runs ?b). rn_run_id x = rn_run_id q \<or> run_identity x = run_identity q)"
    unfolding fold_Cons comp_apply by blast
  have "\<exists>x \<in> set (as_runs ?a). rn_run_id x = rn_run_id r \<or> run_identity x = run_identity r"
    using save_strategy_run_cases [of r a] by auto
  then have "\<exists>x \<in> set (as_runs ?b). rn_run_id x = rn_run_id r \<or> run_identity x = run_identity r"
    unfolding IH(2) by auto
  moreover have "\<exists>later'. as_runs ?b = as_runs a @ later' \<and> set later' \<subseteq> set (r # rs)"
    using save_strategy_run_cases [of r a] IH(2,3) by auto
  ultimately show ?case using IH(1,4) by auto
qed simp

text \<open>
  What a checkpoint's snapshot calls unrealized profit, and profit of the day, is the market value of
  the holdings: for amounts the decimals hold exactly, it does not depend on what was paid for them.
\<close>

lemma snapshot_misstates:
  fixes s d
  defines "ps \<equiv> ss_paper s"
  defines "v \<equiv> dsum (map (\<lambda>p. dmul (p_quantity p) (p_current_price p)) (dict_values (ps_positions ps)))"
  assumes "on_grid 16 (ps_cash ps)" "on_grid 16 (ps_reserved_cash ps)" "on_grid 16 v"
    and "0 \<le> ps_cash ps" "0 \<le> ps_reserved_cash ps" "0 \<le> v" "ps_cash ps + ps_reserved_cash ps + v < 10 ^ 11"
  shows "nr_unrealized_pnl (checkpoint_snapshot d s) = db_col d v \<and> nr_daily_pnl (checkpoint_snapshot d s) = db_col d v"
proof -
  let ?c = "ps_cash ps" and ?r = "ps_reserved_cash ps"
  have exact: "ctx x = x" if "on_grid 16 x" "0 \<le> x" "x < 10 ^ 11" for x :: rat
    using that by (intro ctx_on_grid [of 16]) (auto simp: abs_of_nonneg)
  have "dadd ?c ?r = ?c + ?r"
    unfolding dadd_def using assms by (intro exact on_grid_add) auto
  moreover have "dadd (?c + ?r) v = ?c + ?r + v"
    unfolding dadd_def using assms by (intro exact on_grid_add) auto
  moreover have "dsub (?c + ?r + v) ?c = ?r + v"
    unfolding dsub_def using assms exact [OF on_grid_add, of ?r v] by (simp add: algebra_simps)
  moreover have "dsub (?r + v) ?r = v"
    unfolding dsub_def using assms exact [of v] by simp
  ultimately show ?thesis
    by (simp add: checkpoint_snapshot_def ps_def [symmetric] v_def [symmetric] Let_def)
qed

definition empty_audit :: audit_store where
  "empty_audit = \<lparr>as_kill_events = [], as_journal = [], as_runs = [], as_snapshots = [], as_signals = [],
     as_decisions = [], as_system_events = []\<rparr>"

definition sample_run :: "string \<Rightarrow> strategy_run" where
  "sample_run rid = \<lparr>rn_run_id = rid, rn_strategy_name = ''ema_crossover'', rn_strategy_version = ''1'',
     rn_symbol = ''BTC/USDT'', rn_timeframe = ''1m'', rn_candle_open_time = 0, rn_direction = SigHold,
     rn_outcome = bare_outcome True None\<rparr>"

lemma runs_recorded_once_witness:
  "runs_ok (fold save_strategy_run [sample_run ''a'', sample_run ''a'', sample_run ''b''] empty_audit)
   \<and> length (as_runs (fold save_strategy_run [sample_run ''a'', sample_run ''a'', sample_run ''b''] empty_audit)) = 1"
proof
  show "runs_ok (fold save_strategy_run [sample_run ''a'', sample_run ''a'', sample_run ''b''] empty_audit)"
    using runs_recorded_once [of empty_audit "[sample_run ''a'', sample_run ''a'', sample_run ''b'']"]
    by (simp add: runs_ok_def empty_audit_def)
  show "length (as_runs (fold save_strategy_run [sample_run ''a'', sample_run ''a'', sample_run ''b''] empty_audit)) = 1"
    by (simp add: save_strategy_run_def empty_audit_def sample_run_def run_identity_def)
qed

end
