(* ===== verification/Calendar.thy ===== *)
theory Calendar
  imports Paper_Cycle
begin

text \<open>
  The calendar behind the dates of the program: \<open>civil_month\<close> and \<open>civil_date\<close> against the day number
  of a date of the proleptic Gregorian calendar, which counts the days of whole years and months.
\<close>

subsection \<open>Years of an era\<close>

text \<open>An era has 400 years of 365 days, every fourth leap, but not three of the four centuries.\<close>

definition year_start :: "int \<Rightarrow> int" where
  "year_start y = 365 * y + y div 4 - y div 100"

definition leap_free :: "int \<Rightarrow> int" where
  "leap_free doe = doe - doe div 1460 + doe div 36524 - doe div 146096"

lemma div_diff_le: "0 < k \<Longrightarrow> a \<le> b \<Longrightarrow> b div k - a div k \<le> b - (a :: int)"
proof -
  assume k: "0 < k" and le: "a \<le> b"
  have "(b - a) * 1 \<le> (b - a) * k" using le k by (intro mult_left_mono) simp_all
  then have "b \<le> a + (b - a) * k" by simp
  then have "b div k \<le> (a + (b - a) * k) div k" using k by (rule zdiv_mono1)
  also have "\<dots> = a div k + (b - a)" using k by simp
  finally show ?thesis by simp
qed

lemma leap_free_mono: "a \<le> b \<Longrightarrow> leap_free a \<le> leap_free b"
proof -
  assume le: "a \<le> b"
  have "x div 146096 = x div 36524 div 4" for x :: int using zdiv_zmult2_eq [of 4 x 36524] by simp
  moreover have "b div 1460 - a div 1460 \<le> b - a" using le by (intro div_diff_le) simp_all
  moreover have "b div 36524 div 4 - a div 36524 div 4 \<le> b div 36524 - a div 36524"
    using zdiv_mono1 [OF le, of 36524] by (intro div_diff_le) simp_all
  ultimately show ?thesis unfolding leap_free_def by simp
qed

lemma era_year:
  assumes "0 \<le> y" and "y < 400"
  obtains c q b :: int where "y = 100 * c + 4 * q + b" "0 \<le> c" "c \<le> 3" "0 \<le> q" "q \<le> 24" "0 \<le> b" "b \<le> 3"
    "year_start y = 36524 * c + 1461 * q + 365 * b"
proof -
  define c q b where "c = y div 100" and "q = y mod 100 div 4" and "b = y mod 100 mod 4"
  have y: "y = 100 * c + 4 * q + b" unfolding c_def q_def b_def by simp
  have b: "0 \<le> c" "c \<le> 3" "0 \<le> q" "q \<le> 24" "0 \<le> b" "b \<le> 3"
    using assms unfolding c_def q_def b_def by auto
  have "y div 4 = 25 * c + q" "y div 100 = c" using y b by linarith+
  then have "year_start y = 36524 * c + 1461 * q + 365 * b" unfolding year_start_def using y by simp
  with that y b show thesis by blast
qed

lemma leap_free_start: "0 \<le> y \<Longrightarrow> y < 400 \<Longrightarrow> leap_free (year_start y) = 365 * y"
proof (erule (1) era_year)
  fix c q b :: int
  assume y: "y = 100 * c + 4 * q + b" and b: "0 \<le> c" "c \<le> 3" "0 \<le> q" "q \<le> 24" "0 \<le> b" "b \<le> 3"
    and s: "year_start y = 36524 * c + 1461 * q + 365 * b"
  have "year_start y div 1460 = 25 * c + q" "year_start y div 36524 = c" "year_start y div 146096 = 0"
    unfolding s using b by linarith+
  then show ?thesis unfolding leap_free_def s using y by simp
qed

lemma leap_free_before: "0 < y \<Longrightarrow> y < 400 \<Longrightarrow> leap_free (year_start y - 1) < 365 * y"
proof -
  assume "0 < y" "y < 400"
  then have "0 \<le> y" by simp
  from this \<open>y < 400\<close> show ?thesis
  proof (rule era_year)
    fix c q b :: int
    assume y: "y = 100 * c + 4 * q + b" and b: "0 \<le> c" "c \<le> 3" "0 \<le> q" "q \<le> 24" "0 \<le> b" "b \<le> 3"
      and s: "year_start y = 36524 * c + 1461 * q + 365 * b"
    have pos: "1 \<le> 24 * c + q + 365 * b" using y b \<open>0 < y\<close> by linarith
    have "(year_start y - 1) div 1460 = 25 * c + q" "(year_start y - 1) div 36524 \<le> c" "0 \<le> (year_start y - 1) div 146096"
      unfolding s using b pos by linarith+
    then show ?thesis unfolding leap_free_def s using y by simp
  qed
qed

lemma year_of_day:
  assumes "0 \<le> doe" and "doe < 146097"
  defines "y \<equiv> leap_free doe div 365"
  shows "0 \<le> y" and "y < 400" and "year_start y \<le> doe"
    and "year_start y \<le> doe' \<Longrightarrow> doe' \<le> doe \<Longrightarrow> leap_free doe' div 365 = y"
proof -
  have "leap_free 0 \<le> leap_free doe" "leap_free doe \<le> leap_free 146096"
    using assms(1,2) by (simp_all add: leap_free_mono)
  then have "leap_free 0 div 365 \<le> y" "y \<le> leap_free 146096 div 365" unfolding y_def by (simp_all add: zdiv_mono1)
  then show y: "0 \<le> y" "y < 400" by (simp_all add: leap_free_def)
  show "year_start y \<le> doe"
  proof (rule ccontr)
    assume less: "\<not> year_start y \<le> doe"
    then have "y \<noteq> 0" using assms(1) by (auto simp: year_start_def)
    with y have "leap_free (year_start y - 1) < 365 * y" by (simp add: leap_free_before)
    moreover have "leap_free doe \<le> leap_free (year_start y - 1)" using less by (intro leap_free_mono) simp
    ultimately have "leap_free doe < 365 * y" by simp
    then show False unfolding y_def by simp
  qed
  assume "year_start y \<le> doe'" and "doe' \<le> doe"
  then have "365 * y \<le> leap_free doe'" "leap_free doe' \<le> leap_free doe"
    using leap_free_start [OF y] leap_free_mono by metis+
  then have "365 * y div 365 \<le> leap_free doe' div 365" "leap_free doe' div 365 \<le> y"
    unfolding y_def by (simp_all add: zdiv_mono1)
  then show "leap_free doe' div 365 = y" by simp
qed

lemma year_length: "year_start (y + 1) \<le> year_start y + 366"
proof -
  have "(y + 1) div 4 - y div 4 \<le> 1" using div_diff_le [of 4 y "y + 1"] by simp
  moreover have "y div 100 \<le> (y + 1) div 100" by (rule zdiv_mono1) simp_all
  ultimately show ?thesis unfolding year_start_def by simp
qed

lemma day_of_year:
  assumes "0 \<le> doe" and "doe < 146097"
  defines "y \<equiv> leap_free doe div 365"
  shows "0 \<le> doe - year_start y" and "doe - year_start y \<le> 365"
proof -
  note y = year_of_day [OF assms(1,2), folded y_def]
  show "0 \<le> doe - year_start y" using y(3) by simp
  show "doe - year_start y \<le> 365"
  proof (cases "y = 399")
    case True
    then show ?thesis using assms(2) by (simp add: year_start_def)
  next
    case False
    with y(2) have y1: "0 \<le> y + 1" "y + 1 < 400" using y(1) by simp_all
    have "\<not> year_start (y + 1) \<le> doe"
    proof
      assume "year_start (y + 1) \<le> doe"
      then have "365 * (y + 1) \<le> leap_free doe" using leap_free_start [OF y1] leap_free_mono by metis
      then have "365 * (y + 1) div 365 \<le> y" unfolding y_def by (simp add: zdiv_mono1)
      then show False by simp
    qed
    then show ?thesis using year_length [of y] by simp
  qed
qed

subsection \<open>Dates and day numbers\<close>

text \<open>Days of the years, of the months from March on, and of the month.\<close>

definition month_start :: "int \<Rightarrow> int" where
  "month_start mp = (153 * mp + 2) div 5"

definition days_of_civil :: "int \<times> int \<times> int \<Rightarrow> int" where
  "days_of_civil date =
     (let (y, mo, d) = date;
          y' = (if mo \<le> 2 then y - 1 else y);
          mp = (if mo > 2 then mo - 3 else mo + 9)
      in y' div 400 * 146097 + year_start (y' mod 400) + month_start mp + d - 1 - 719468)"

definition civil_of :: "int \<Rightarrow> int \<Rightarrow> int \<Rightarrow> int \<times> int" where
  "civil_of era yoe mp =
     (let mo = (if mp < 10 then mp + 3 else mp - 9) in (yoe + era * 400 + (if mo \<le> 2 then 1 else 0), mo))"

lemma civil_date_at:
  assumes z: "t div days 1 + 719468 = 146097 * era + doe" and "0 \<le> doe" "doe < 146097"
  defines "yoe \<equiv> leap_free doe div 365"
  defines "doy \<equiv> doe - year_start yoe"
  defines "mp \<equiv> (5 * doy + 2) div 153"
  shows "civil_month t = civil_of era yoe mp"
    and "civil_date t = (fst (civil_of era yoe mp), snd (civil_of era yoe mp), doy - month_start mp + 1)"
proof -
  have q: "(146097 * era + doe) div 146097 = era" "(146097 * era + doe) mod 146097 = doe"
    using assms(2,3) by simp_all
  show m: "civil_month t = civil_of era yoe mp"
    by (simp only: civil_month_def Let_def z q leap_free_def [symmetric] year_start_def [symmetric]
        yoe_def [symmetric] doy_def [symmetric] mp_def [symmetric] civil_of_def)
  show "civil_date t = (fst (civil_of era yoe mp), snd (civil_of era yoe mp), doy - month_start mp + 1)"
    by (simp only: civil_date_def Let_def z q leap_free_def [symmetric] year_start_def [symmetric]
        yoe_def [symmetric] doy_def [symmetric] mp_def [symmetric] month_start_def [symmetric] m)
qed

text \<open>Of a day of the year, the month and the day of the month.\<close>

lemma month_of_day:
  fixes doy :: int
  assumes "0 \<le> doy" and "doy \<le> 365"
  defines "mp \<equiv> (5 * doy + 2) div 153"
  shows "0 \<le> mp" "mp \<le> 11" "month_start mp \<le> doy" "doy \<le> month_start mp + 30"
    and "0 \<le> month_start mp" "(5 * month_start mp + 2) div 153 = mp"
proof -
  show mp: "0 \<le> mp" "mp \<le> 11" using assms(1,2) unfolding mp_def by linarith+
  have d: "153 * mp \<le> 5 * doy + 2" "5 * doy + 2 \<le> 153 * mp + 152" unfolding mp_def by linarith+
  have s: "5 * month_start mp \<le> 153 * mp + 2" "153 * mp - 2 \<le> 5 * month_start mp"
    unfolding month_start_def by linarith+
  show "month_start mp \<le> doy" using s d by linarith
  show "doy \<le> month_start mp + 30" using s d by linarith
  show "0 \<le> month_start mp" using s mp by linarith
  show "(5 * month_start mp + 2) div 153 = mp" using s by linarith
qed

lemma era_day:
  obtains era doe where "t div days 1 + 719468 = 146097 * era + doe" "0 \<le> doe" "doe < (146097 :: int)"
  using that [of "(t div days 1 + 719468) div 146097" "(t div days 1 + 719468) mod 146097"] by simp

lemma days_of_civil_of:
  assumes "0 \<le> yoe" "yoe < 400" "0 \<le> mp" "mp \<le> 11"
  shows "days_of_civil (fst (civil_of era yoe mp), snd (civil_of era yoe mp), d)
    = 146097 * era + year_start yoe + month_start mp + d - 1 - 719468"
proof -
  have "(yoe + era * 400) div 400 = era" "(yoe + era * 400) mod 400 = yoe" using assms(1,2) by simp_all
  then show ?thesis using assms(3,4) by (auto simp: days_of_civil_def civil_of_def Let_def)
qed

text \<open>The calendar is right: a date is a valid one, and its day number is the day it was computed from.\<close>

lemma civil_roundtrip:
  fixes t
  defines "date \<equiv> civil_date t"
  shows "days_of_civil date = t div days 1" and "1 \<le> fst (snd date)" "fst (snd date) \<le> 12"
    and "1 \<le> snd (snd date)" "snd (snd date) \<le> 31" and "(fst date, fst (snd date)) = civil_month t"
proof -
  obtain era doe where z: "t div days 1 + 719468 = 146097 * era + doe" "0 \<le> doe" "doe < 146097" by (rule era_day)
  define yoe doy mp where "yoe = leap_free doe div 365" and "doy = doe - year_start yoe" and "mp = (5 * doy + 2) div 153"
  note y = year_of_day [OF z(2,3), folded yoe_def] and d = day_of_year [OF z(2,3), folded yoe_def, folded doy_def]
  note m = month_of_day [OF d, folded mp_def]
  note at = civil_date_at [OF z, folded yoe_def, folded doy_def, folded mp_def]
  have "days_of_civil date = 146097 * era + year_start yoe + doy - 719468"
    unfolding date_def at(2) by (simp add: days_of_civil_of y m)
  then show "days_of_civil date = t div days 1" using z(1) by (simp add: doy_def)
  show "1 \<le> fst (snd date)" "fst (snd date) \<le> 12" "(fst date, fst (snd date)) = civil_month t"
    using m(1,2) unfolding date_def at by (auto simp: civil_of_def Let_def)
  show "1 \<le> snd (snd date)" "snd (snd date) \<le> 31" using m(3,4) unfolding date_def at by simp_all
qed

text \<open>The first day of the month of a time.\<close>

lemma month_first:
  fixes t
  defines "date \<equiv> civil_date t"
  defines "t' \<equiv> (t div days 1 - (snd (snd date) - 1)) * days 1"
  shows "civil_date t' = (fst date, fst (snd date), 1)"
proof -
  obtain era doe where z: "t div days 1 + 719468 = 146097 * era + doe" "0 \<le> doe" "doe < 146097" by (rule era_day)
  define yoe doy mp where "yoe = leap_free doe div 365" and "doy = doe - year_start yoe" and "mp = (5 * doy + 2) div 153"
  note y = year_of_day [OF z(2,3), folded yoe_def] and d = day_of_year [OF z(2,3), folded yoe_def, folded doy_def]
  note m = month_of_day [OF d, folded mp_def]
  note at = civil_date_at [OF z, folded yoe_def, folded doy_def, folded mp_def]
  have "days 1 \<noteq> 0" by (simp add: days_def seconds_def)
  then have "t' div days 1 = t div days 1 - (doy - month_start mp)" by (simp add: t'_def date_def at)
  then have z': "t' div days 1 + 719468 = 146097 * era + (year_start yoe + month_start mp)"
    using z(1) by (simp add: doy_def)
  have "0 \<le> year_start yoe" using y(1) div_diff_le [of 100 0 "yoe"] unfolding year_start_def by linarith
  then have b: "0 \<le> year_start yoe + month_start mp" "year_start yoe + month_start mp < 146097"
      "year_start yoe \<le> year_start yoe + month_start mp" "year_start yoe + month_start mp \<le> doe"
    using m(3,5) z(3) by (simp_all add: doy_def)
  have "leap_free (year_start yoe + month_start mp) div 365 = yoe" by (rule y(4) [OF b(3,4)])
  with civil_date_at(2) [OF z' b(1,2)] m(6) show ?thesis by (simp add: date_def at)
qed

end
