(* ===== verification/Reports.thy ===== *)
theory Reports
  imports Audit_Store Calendar
begin

text \<open>
  Reports over the paper account: the positions and the context the analytics endpoints read from the
  session (\<open>app/services/paper_session.py\<close>, \<open>app/api/analytics.py\<close>), the views of the portfolio
  manager (\<open>app/portfolio/manager.py\<close>), and the periodic reports with their table
  (\<open>app/analytics/reports.py\<close>). A text field holding a decimal is that decimal, rounded to the places
  it is printed with. Each reading of the clock is an argument; the CSV and JSON renderings are left out.
\<close>

subsection \<open>Views of the session\<close>

text \<open>\<open>_position_dict\<close>\<close>

definition position_view :: "position \<Rightarrow> position" where
  "position_view p =
     p\<lparr>p_quantity := quantize 8 (p_quantity p), p_entry_price := quantize 2 (p_entry_price p),
       p_current_price := quantize 2 (p_current_price p), p_unrealized_pnl := quantize 2 (p_unrealized_pnl p),
       p_realized_pnl := quantize 2 (p_realized_pnl p), p_stop_loss := map_option (quantize 2) (p_stop_loss p),
       p_take_profit := map_option (quantize 2) (p_take_profit p)\<rparr>"

definition session_positions :: "paper_session \<Rightarrow> position list" where
  "session_positions s = map position_view (dict_values (ps_positions (ss_paper s)))"

definition exposure_of :: "position list \<Rightarrow> decimal" where
  "exposure_of ps = dsum (map (\<lambda>p. dabs (dmul (p_quantity p) (p_current_price p))) ps)"

definition curve_equity_point :: "curve_point \<Rightarrow> equity_point" where
  "curve_equity_point c =
     \<lparr>ep_time = Some (cv_time c), ep_equity = cv_equity c, ep_drawdown = Some (cv_drawdown c)\<rparr>"

definition session_points :: "paper_session \<Rightarrow> equity_point list" where
  "session_points s = map curve_equity_point (ss_equity_curve s)"

text \<open>\<open>PerformanceSnapshot.to_dict\<close>\<close>

definition snapshot_view :: "performance_snapshot \<Rightarrow> performance_snapshot" where
  "snapshot_view sn =
     sn\<lparr>sn_current_balance := quantize 2 (sn_current_balance sn),
        sn_starting_balance := quantize 2 (sn_starting_balance sn),
        sn_unrealised_pnl := quantize 2 (sn_unrealised_pnl sn), sn_realised_pnl := quantize 2 (sn_realised_pnl sn),
        sn_daily_pnl := quantize 2 (sn_daily_pnl sn), sn_weekly_pnl := quantize 2 (sn_weekly_pnl sn),
        sn_monthly_pnl := quantize 2 (sn_monthly_pnl sn), sn_roi_pct := quantize 4 (sn_roi_pct sn),
        sn_win_rate := quantize 4 (sn_win_rate sn), sn_loss_rate := quantize 4 (sn_loss_rate sn),
        sn_profit_factor := quantize 4 (sn_profit_factor sn), sn_average_win := quantize 2 (sn_average_win sn),
        sn_average_loss := quantize 2 (sn_average_loss sn), sn_largest_win := quantize 2 (sn_largest_win sn),
        sn_largest_loss := quantize 2 (sn_largest_loss sn), sn_maximum_drawdown := quantize 4 (sn_maximum_drawdown sn),
        sn_average_holding_time := quantize 2 (sn_average_holding_time sn),
        sn_total_fees := quantize 8 (sn_total_fees sn),
        sn_total_simulated_volume := quantize 2 (sn_total_simulated_volume sn)\<rparr>"

subsection \<open>The context of the analytics endpoints\<close>

record account_context =
  ac_current_balance :: decimal
  ac_unrealised_pnl :: decimal
  ac_realised_pnl :: decimal
  ac_starting_balance :: decimal
  ac_open_position_count :: nat
  ac_equity_curve :: "equity_point list"
  ac_kill_switch :: bool
  ac_drawdown :: decimal
  ac_exposure :: decimal
  ac_consecutive_losses :: nat

text \<open>The starting balance is that of the session's configuration; the summary notes a new peak.\<close>

definition account_context :: "session_config \<Rightarrow> paper_session \<Rightarrow> account_context \<times> paper_session" where
  "account_context cfg s =
     (let (sm, s1) = portfolio_summary s; ps = session_positions s1
      in (\<lparr>ac_current_balance = sm_equity sm, ac_unrealised_pnl = dsum (map p_unrealized_pnl ps),
           ac_realised_pnl = sm_realized_pnl sm, ac_starting_balance = pc_initial_cash (sg_paper cfg),
           ac_open_position_count = sm_open_position_count sm, ac_equity_curve = session_points s1,
           ac_kill_switch = sm_kill_switch_enabled sm, ac_drawdown = sm_drawdown sm,
           ac_exposure = exposure_of ps, ac_consecutive_losses = sm_consecutive_losses sm\<rparr>, s1))"

text \<open>The stored snapshots, oldest first, or the session's own curve when there is none.\<close>

definition stored_points :: "nat \<Rightarrow> store \<Rightarrow> equity_point list \<Rightarrow> equity_point list" where
  "stored_points limit db fallback =
     (case list_equity_snapshots limit db of
        [] \<Rightarrow> fallback
      | snaps \<Rightarrow> map (\<lambda>(t, equity, cash, drawdown).
          \<lparr>ep_time = Some t, ep_equity = equity, ep_drawdown = Some drawdown\<rparr>) (rev snaps))"

definition account_performance :: "account_context \<Rightarrow> closed_trade list \<Rightarrow> equity_point list \<Rightarrow> timestamp
  \<Rightarrow> performance_snapshot" where
  "account_performance cx trades curve now =
     compute_performance (ac_starting_balance cx) trades (ac_current_balance cx) (ac_unrealised_pnl cx)
       (Some (ac_realised_pnl cx)) curve (ac_open_position_count cx) now"

definition account_risk_score :: "account_context \<Rightarrow> decimal" where
  "account_risk_score cx =
     risk_score_from_context (ac_drawdown cx) (ac_consecutive_losses cx) (ac_kill_switch cx)"

record overview =
  ov_performance :: performance_snapshot
  ov_kill_switch :: bool
  ov_exposure :: decimal
  ov_risk_score :: decimal
  ov_equity_curve :: equity_series

definition analytics_overview :: "session_config \<Rightarrow> timestamp \<Rightarrow> store \<Rightarrow> trade_table \<Rightarrow> paper_session
  \<Rightarrow> overview \<times> paper_session" where
  "analytics_overview cfg now db tbl s =
     (let (cx, s1) = account_context cfg s; curve = stored_points 500 db (ac_equity_curve cx)
      in (\<lparr>ov_performance = snapshot_view (account_performance cx (all_trades tbl) curve now),
           ov_kill_switch = ac_kill_switch cx, ov_exposure = quantize 2 (ac_exposure cx),
           ov_risk_score = account_risk_score cx,
           ov_equity_curve = build_equity_series curve (ac_starting_balance cx)\<rparr>, s1))"

record performance_page =
  pp_metrics :: performance_snapshot
  pp_equity_curve :: equity_series
  pp_monthly :: "monthly_row list"
  pp_strategies :: "ranking_row list"

definition analytics_performance :: "session_config \<Rightarrow> timestamp \<Rightarrow> store \<Rightarrow> trade_table \<Rightarrow> paper_session
  \<Rightarrow> performance_page \<times> paper_session" where
  "analytics_performance cfg now db tbl s =
     (let (cx, s1) = account_context cfg s; trades = all_trades tbl;
          curve = stored_points 500 db (ac_equity_curve cx)
      in (\<lparr>pp_metrics = snapshot_view (account_performance cx trades curve now),
           pp_equity_curve = build_equity_series curve (ac_starting_balance cx),
           pp_monthly = monthly_performance trades,
           pp_strategies = strategy_rankings (ac_starting_balance cx) trades None\<rparr>, s1))"

subsection \<open>The portfolio manager\<close>

definition manager_period_pnl :: "timestamp \<Rightarrow> int \<Rightarrow> paper_session \<Rightarrow> decimal" where
  "manager_period_pnl now n s =
     (let points = session_points s; cutoff = now - days n;
          in_window = filter (\<lambda>p. case ep_time p of Some t \<Rightarrow> t \<ge> cutoff | None \<Rightarrow> False) points
      in if points = [] then 0
         else if length in_window < 2 then (if n \<le> 1 then sm_daily_pnl (fst (portfolio_summary s)) else 0)
         else dsub (ep_equity (last in_window)) (ep_equity (hd in_window)))"

record manager_view =
  mv_summary :: session_summary
  mv_available_balance :: decimal
  mv_reserved_capital :: decimal
  mv_margin_balance :: decimal
  mv_leverage :: decimal
  mv_exposure :: decimal
  mv_exposure_pct :: decimal
  mv_weekly_pnl :: decimal
  mv_monthly_pnl :: decimal
  mv_allocation :: "(string, decimal) dict"
  mv_position_count :: nat
  mv_equity_curve_points :: nat

definition share_of :: "decimal \<Rightarrow> decimal \<Rightarrow> decimal" where
  "share_of equity amount = (if equity > 0 then quantize 4 (ddiv amount equity) else 0)"

definition manager_snapshot :: "timestamp \<Rightarrow> paper_session \<Rightarrow> manager_view \<times> paper_session" where
  "manager_snapshot now s =
     (let (sm, s1) = portfolio_summary s; ps = ss_paper s1; equity = manager_equity ps;
          positions = session_positions s1; exposure = exposure_of positions
      in (\<lparr>mv_summary = sm, mv_available_balance = ps_cash ps, mv_reserved_capital = ps_reserved_cash ps,
           mv_margin_balance = ps_cash ps, mv_leverage = 1, mv_exposure = quantize 2 exposure,
           mv_exposure_pct = share_of equity exposure,
           mv_weekly_pnl = quantize 2 (manager_period_pnl now 7 s1),
           mv_monthly_pnl = quantize 2 (manager_period_pnl now 30 s1),
           mv_allocation = fold (\<lambda>p. AList.update (p_symbol p)
             (share_of equity (dmul (p_quantity p) (p_current_price p)))) positions [],
           mv_position_count = length positions, mv_equity_curve_points = length (ss_equity_curve s1)\<rparr>, s1))"

subsection \<open>Periodic reports\<close>

datatype report_period = Daily | Weekly | Monthly

text \<open>Days are counted from a Thursday; \<open>weekday()\<close> counts from Monday.\<close>

definition weekday :: "timestamp \<Rightarrow> int" where
  "weekday t = (t div days 1 + 3) mod 7"

definition midnight :: "timestamp \<Rightarrow> timestamp" where
  "midnight t = (t div days 1) * days 1"

definition period_window :: "report_period \<Rightarrow> timestamp \<Rightarrow> timestamp \<times> timestamp" where
  "period_window p now =
     ((case p of
         Daily \<Rightarrow> midnight now
       | Weekly \<Rightarrow> midnight (now - days (weekday now))
       | Monthly \<Rightarrow> (now div days 1 - (snd (snd (civil_date now)) - 1)) * days 1), now)"

definition filter_trades_in_window :: "closed_trade list \<Rightarrow> timestamp \<Rightarrow> timestamp \<Rightarrow> closed_trade list" where
  "filter_trades_in_window trades start end_at =
     filter (\<lambda>t. start \<le> ct_exit_time t \<and> ct_exit_time t \<le> end_at) trades"

record report_payload =
  ry_period :: report_period
  ry_start :: timestamp
  ry_end :: timestamp
  ry_trade_count :: nat
  ry_metrics :: performance_snapshot
  ry_trades :: "closed_trade list"
  ry_generated_at :: timestamp
  ry_report_id :: "string option"

record report_row =
  rr_id :: string
  rr_period :: report_period
  rr_start :: timestamp
  rr_end :: timestamp
  rr_metrics :: performance_snapshot
  rr_trade_count :: nat
  rr_created_at :: timestamp

definition report_key :: "report_row \<Rightarrow> report_period \<times> timestamp \<times> timestamp" where
  "report_key r = (rr_period r, rr_start r, rr_end r)"

text \<open>The identifier, and the clock at the window, at the metrics, at the payload and at the row.\<close>

record report_env =
  re_id :: string
  re_now :: timestamp
  re_metrics_now :: timestamp
  re_generated_at :: timestamp
  re_created_at :: timestamp

definition persist_report :: "report_env \<Rightarrow> report_payload \<Rightarrow> report_row list \<Rightarrow> string \<times> report_row list" where
  "persist_report v y rows =
     (let key = (ry_period y, ry_start y, ry_end y)
      in case find (\<lambda>r. report_key r = key) rows of
           Some r \<Rightarrow> (rr_id r, map (\<lambda>x. if report_key x = key
               then x\<lparr>rr_metrics := ry_metrics y, rr_trade_count := ry_trade_count y, rr_created_at := re_created_at v\<rparr>
               else x) rows)
         | None \<Rightarrow> (re_id v, rows @ [\<lparr>rr_id = re_id v, rr_period = ry_period y, rr_start = ry_start y,
               rr_end = ry_end y, rr_metrics = ry_metrics y, rr_trade_count = ry_trade_count y,
               rr_created_at = re_created_at v\<rparr>]))"

definition report_payload_of :: "report_env \<Rightarrow> report_period \<Rightarrow> account_context \<Rightarrow> trade_table \<Rightarrow> report_payload" where
  "report_payload_of v p cx tbl =
     (let (start, end_at) = period_window p (re_now v);
          trades = filter_trades_in_window (all_trades tbl) start end_at;
          sn = account_performance cx trades (ac_equity_curve cx) (re_metrics_now v)
      in \<lparr>ry_period = p, ry_start = start, ry_end = end_at, ry_trade_count = length trades,
          ry_metrics = snapshot_view sn, ry_trades = trades, ry_generated_at = re_generated_at v,
          ry_report_id = None\<rparr>)"

definition build_period_report :: "report_env \<Rightarrow> report_period \<Rightarrow> account_context \<Rightarrow> trade_table \<Rightarrow> bool
  \<Rightarrow> report_row list \<Rightarrow> report_payload \<times> report_row list" where
  "build_period_report v p cx tbl persist rows =
     (let y = report_payload_of v p cx tbl
      in if persist then (case persist_report v y rows of (rid, rows') \<Rightarrow> (y\<lparr>ry_report_id := Some rid\<rparr>, rows'))
         else (y, rows))"

text \<open>\<open>/analytics/reports/{period}\<close>\<close>

definition analytics_report :: "session_config \<Rightarrow> report_env \<Rightarrow> report_period \<Rightarrow> trade_table \<Rightarrow> report_row list
  \<times> paper_session \<Rightarrow> report_payload \<times> report_row list \<times> paper_session" where
  "analytics_report cfg v p tbl x =
     (let (rows, s) = x; (cx, s1) = account_context cfg s; (y, rows1) = build_period_report v p cx tbl True rows
      in (y, rows1, s1))"

record risk_page =
  rp_exposure :: decimal
  rp_drawdown :: decimal
  rp_risk_score :: decimal
  rp_kill_switch :: bool
  rp_open_position_count :: nat
  rp_consecutive_losses :: nat
  rp_trading_paused :: bool

definition analytics_risk :: "session_config \<Rightarrow> paper_session \<Rightarrow> risk_page \<times> paper_session" where
  "analytics_risk cfg s =
     (let (cx, s1) = account_context cfg s
      in (\<lparr>rp_exposure = quantize 2 (ac_exposure cx), rp_drawdown = ac_drawdown cx,
           rp_risk_score = account_risk_score cx, rp_kill_switch = ac_kill_switch cx,
           rp_open_position_count = ac_open_position_count cx,
           rp_consecutive_losses = ac_consecutive_losses cx,
           rp_trading_paused = sf_trading_paused (ss_flags s1)\<rparr>, s1))"

definition analytics_equity_curve :: "session_config \<Rightarrow> nat \<Rightarrow> store \<Rightarrow> paper_session \<Rightarrow> equity_series \<times> paper_session" where
  "analytics_equity_curve cfg limit db s =
     (let (cx, s1) = account_context cfg s
      in (build_equity_series (stored_points limit db (ac_equity_curve cx)) (ac_starting_balance cx), s1))"

definition analytics_strategies :: "session_config \<Rightarrow> trade_table \<Rightarrow> paper_session
  \<Rightarrow> (ranking_row list \<times> string option) \<times> paper_session" where
  "analytics_strategies cfg tbl s =
     (let (cx, s1) = account_context cfg s
      in ((strategy_rankings (ac_starting_balance cx) (all_trades tbl) None,
           sf_selected_strategy_id (ss_flags s1)), s1))"

subsection \<open>Windows\<close>

lemma day_pos [simp]: "0 < days 1" and day_nonzero [simp]: "days 1 \<noteq> 0"
  by (simp_all add: days_def seconds_def)

lemma days_mult: "days n = n * days 1"
  by (simp add: days_def seconds_def)

lemma midnight_bounds: "midnight t \<le> t" "t - midnight t < days 1" "midnight t div days 1 = t div days 1"
proof -
  have "t = (t div days 1) * days 1 + t mod days 1" by simp
  then show "midnight t \<le> t" "t - midnight t < days 1"
    unfolding midnight_def using pos_mod_bound [OF day_pos, of t] pos_mod_sign [OF day_pos, of t] by linarith+
  show "midnight t div days 1 = t div days 1" unfolding midnight_def using day_pos by simp
qed

definition window_days :: "report_period \<Rightarrow> int" where
  "window_days p = (case p of Daily \<Rightarrow> 1 | Weekly \<Rightarrow> 7 | Monthly \<Rightarrow> 31)"

lemma period_start:
  fixes p now
  defines "start \<equiv> fst (period_window p now)"
  shows "start \<le> now" and "now - start < days (window_days p)" and "start mod days 1 = 0"
    and "p = Weekly \<Longrightarrow> weekday start = 0"
    and "p = Monthly \<Longrightarrow> civil_date start = (fst (civil_date now), fst (snd (civil_date now)), 1)"
proof -
  define k where "k = (case p of Daily \<Rightarrow> 0 | Weekly \<Rightarrow> weekday now | Monthly \<Rightarrow> snd (snd (civil_date now)) - 1)"
  have k: "0 \<le> k" "k < window_days p"
    using civil_roundtrip(4,5) [of now]
    by (auto simp: k_def window_days_def weekday_def split: report_period.split)
  have "(now + - weekday now * days 1) div days 1 = - weekday now + now div days 1"
    by (rule div_mult_self1) (use day_pos in linarith)
  then have "(now - days (weekday now)) div days 1 = now div days 1 - weekday now"
    by (simp add: days_mult [of "weekday now"])
  then have start: "start = (now div days 1 - k) * days 1"
    by (cases p) (simp_all add: start_def period_window_def k_def midnight_def)
  then have shift: "start = midnight now - k * days 1" by (simp add: midnight_def left_diff_distrib)
  have "0 \<le> k * days 1" by (rule mult_nonneg_nonneg [OF k(1) less_imp_le [OF day_pos]])
  then show "start \<le> now" using shift midnight_bounds(1) [of now] by linarith
  have "(k + 1) * days 1 \<le> window_days p * days 1" using k(2) less_imp_le [OF day_pos] by (intro mult_right_mono) simp_all
  then show "now - start < days (window_days p)"
    using shift midnight_bounds(2) [of now] unfolding days_mult [of "window_days p"]
    by (simp add: distrib_right)
  show "start mod days 1 = 0" by (simp add: start)
  show "weekday start = 0" if "p = Weekly"
  proof -
    have "start div days 1 = now div days 1 - weekday now"
      using that day_pos by (simp add: start k_def)
    moreover have "(x - (x + 3) mod 7 + 3) mod 7 = 0" for x :: int by presburger
    ultimately show ?thesis unfolding weekday_def by simp
  qed
  show "civil_date start = (fst (civil_date now), fst (snd (civil_date now)), 1)" if "p = Monthly"
    using month_first [of now] that by (simp add: start k_def)
qed

subsection \<open>Properties\<close>

text \<open>
  C36. A periodic report covers the right trades. Its window ends at the moment of the report and starts
  at a midnight: of that day, of the Monday of that week, or of the first of that month, so it is shorter
  than a day, a week or 31 days; the report lists, by time of exit, exactly the trades of the journal that
  closed in the window, and counts them; and storing it does not change what it says.
\<close>

theorem report_exact:
  fixes v p cx tbl persist rows
  defines "y \<equiv> fst (build_period_report v p cx tbl persist rows)"
  shows "ry_end y = re_now v \<and> ry_start y \<le> re_now v \<and> re_now v - ry_start y < days (window_days p)
    \<and> ry_start y mod days 1 = 0
    \<and> (case p of Daily \<Rightarrow> ry_start y div days 1 = re_now v div days 1 | Weekly \<Rightarrow> weekday (ry_start y) = 0
       | Monthly \<Rightarrow> civil_date (ry_start y) = (fst (civil_date (re_now v)), fst (snd (civil_date (re_now v))), 1))
    \<and> set (ry_trades y) = {t \<in> set (dict_values tbl). ry_start y \<le> ct_exit_time t \<and> ct_exit_time t \<le> re_now v}
    \<and> sorted (map ct_exit_time (ry_trades y)) \<and> ry_trade_count y = length (ry_trades y)"
proof -
  have y: "ry_end y = re_now v" "ry_start y = fst (period_window p (re_now v))"
      "ry_trades y = filter_trades_in_window (all_trades tbl) (ry_start y) (re_now v)"
      "ry_trade_count y = length (ry_trades y)"
    by (simp_all add: y_def build_period_report_def report_payload_of_def period_window_def Let_def case_prod_beta)
  have "sorted (map ct_exit_time (ry_trades y))"
    unfolding y(3) filter_trades_in_window_def all_trades_def
    by (rule sorted_filter) (rule sorted_sort_key)
  moreover have "set (ry_trades y) = {t \<in> set (dict_values tbl). ry_start y \<le> ct_exit_time t \<and> ct_exit_time t \<le> re_now v}"
    unfolding y(3) by (auto simp: filter_trades_in_window_def all_trades_def)
  moreover have "ry_start y div days 1 = re_now v div days 1" if "p = Daily"
    using that midnight_bounds(3) by (simp add: y(2) period_window_def)
  ultimately show ?thesis
    using period_start [where p = p and now = "re_now v", folded y(2)] y(1,4) by (cases p) simp_all
qed

text \<open>The table of the reports holds one row for a period and a window.\<close>

definition reports_ok :: "report_row list \<Rightarrow> bool" where
  "reports_ok rows \<longleftrightarrow> distinct (map report_key rows)"

lemma persist_report_cases:
  fixes y rows
  defines "key \<equiv> (ry_period y, ry_start y, ry_end y)"
  assumes "persist_report v y rows = (rid, rows')"
  obtains (update) r where "r \<in> set rows" "report_key r = key" "rid = rr_id r"
      "map report_key rows' = map report_key rows" "map rr_id rows' = map rr_id rows"
  | (new) r where "\<forall>x \<in> set rows. report_key x \<noteq> key" "rows' = rows @ [r]" "report_key r = key" "rid = rr_id r" "rr_id r = re_id v"
proof (cases "find (\<lambda>r. report_key r = key) rows")
  case None
  define r where "r = \<lparr>rr_id = re_id v, rr_period = ry_period y, rr_start = ry_start y, rr_end = ry_end y,
    rr_metrics = ry_metrics y, rr_trade_count = ry_trade_count y, rr_created_at = re_created_at v\<rparr>"
  have "rid = re_id v" "rows' = rows @ [r]"
    using assms(2) None by (auto simp: persist_report_def key_def [symmetric] Let_def r_def)
  moreover have "\<forall>x \<in> set rows. report_key x \<noteq> key" using None by (auto simp: find_None_iff)
  ultimately show ?thesis by (intro new [of r]) (simp_all add: r_def report_key_def key_def)
next
  case (Some r)
  have r: "r \<in> set rows" "report_key r = key" using Some by (auto simp: find_Some_iff)
  have "rid = rr_id r" and rows': "rows' = map (\<lambda>x. if report_key x = key
      then x\<lparr>rr_metrics := ry_metrics y, rr_trade_count := ry_trade_count y, rr_created_at := re_created_at v\<rparr>
      else x) rows"
    using assms(2) Some by (simp_all add: persist_report_def key_def [symmetric] Let_def)
  moreover have "map report_key rows' = map report_key rows" "map rr_id rows' = map rr_id rows"
    by (simp_all add: rows' report_key_def)
  ultimately show ?thesis using r by (intro update [of r]) simp_all
qed

text \<open>
  The stored reports are kept apart by period and window, and a report of the same window replaces
  the stored one under its identifier. But the window ends at the time of the report: whatever report
  was stored before, one made later is a new row, so the row of a period is never brought up to date.
\<close>

lemma reports_accumulate:
  assumes "reports_ok rows" and "build_period_report v p cx tbl True rows = (y, rows')"
  shows "reports_ok rows' \<and> (\<exists>r \<in> set rows'. report_key r = (p, ry_start y, re_now v) \<and> ry_report_id y = Some (rr_id r))
    \<and> (\<forall>r \<in> set rows. \<exists>r' \<in> set rows'. rr_id r' = rr_id r \<and> report_key r' = report_key r)
    \<and> ((\<forall>r \<in> set rows. rr_end r < re_now v) \<longrightarrow> length rows' = Suc (length rows) \<and> butlast rows' = rows)"
proof -
  let ?y = "report_payload_of v p cx tbl"
  obtain rid where per: "persist_report v ?y rows = (rid, rows')" and y: "y = ?y\<lparr>ry_report_id := Some rid\<rparr>"
    using assms(2) by (auto simp: build_period_report_def Let_def split: prod.splits)
  have key: "(ry_period ?y, ry_start ?y, ry_end ?y) = (p, ry_start y, re_now v)"
    by (simp add: y report_payload_of_def period_window_def Let_def)
  from per show ?thesis
  proof (cases rule: persist_report_cases)
    case (update r)
    have "reports_ok rows'" using assms(1) update(4) by (simp add: reports_ok_def)
    moreover have keep: "\<exists>r' \<in> set rows'. rr_id r' = rr_id q \<and> report_key r' = report_key q" if q: "q \<in> set rows" for q
    proof -
      obtain i where i: "i < length rows" "rows ! i = q" using q by (auto simp: in_set_conv_nth)
      have len: "length rows' = length rows" using update(4) by (metis length_map)
      have "report_key (rows' ! i) = report_key (rows ! i)" "rr_id (rows' ! i) = rr_id (rows ! i)"
        using update(4,5) i(1) len by (metis nth_map)+
      with i len show ?thesis by (metis nth_mem)
    qed
    moreover have "\<not> rr_end r < re_now v" using update(2) unfolding key by (simp add: report_key_def)
    moreover have "ry_report_id y = Some (rr_id r)" by (simp add: y update(3))
    ultimately show ?thesis using keep [OF update(1)] update(1,2) unfolding key by metis
  next
    case (new r)
    then show ?thesis using assms(1) key by (auto simp: reports_ok_def y)
  qed
qed

definition sample_account :: account_context where
  "sample_account = \<lparr>ac_current_balance = 100, ac_unrealised_pnl = 0, ac_realised_pnl = 0, ac_starting_balance = 100,
     ac_open_position_count = 0, ac_equity_curve = [], ac_kill_switch = False, ac_drawdown = 0, ac_exposure = 0,
     ac_consecutive_losses = 0\<rparr>"

definition sample_report_env :: "timestamp \<Rightarrow> report_env" where
  "sample_report_env t = \<lparr>re_id = ''r'', re_now = t, re_metrics_now = t, re_generated_at = t, re_created_at = t\<rparr>"

lemma reports_accumulate_witness:
  "length (snd (build_period_report (sample_report_env 1) Daily sample_account [] True
     (snd (build_period_report (sample_report_env 0) Daily sample_account [] True [])))) = 2"
proof -
  let ?rows = "snd (build_period_report (sample_report_env 0) Daily sample_account [] True [])"
  obtain r where r: "?rows = [r]" "rr_end r = 0"
    by (simp add: build_period_report_def persist_report_def report_payload_of_def period_window_def
        sample_report_env_def Let_def)
  then have "reports_ok ?rows" by (simp add: reports_ok_def)
  from reports_accumulate [OF this prod.collapse [symmetric], of "sample_report_env 1" Daily sample_account "[]"] r
  show ?thesis by (simp add: sample_report_env_def)
qed

end
