(* ===== verification/Advisory.thy ===== *)
theory Advisory
  imports Paper_Session
begin

text \<open>
  The advisory layer, which orders nothing: news sentiment (\<open>app/news/sentiment.py\<close>), the scoring of
  signals (\<open>app/ai/decision.py\<close>), and the readiness view with its alerts
  (\<open>app/monitoring/health.py\<close>). The news items of a provider and the readings of the clock are
  arguments; texts for display are left out.
\<close>

subsection \<open>News\<close>

record raw_news =
  rw_source :: string
  rw_title :: string
  rw_body :: string
  rw_stamp_text :: string
  rw_stamp :: "timestamp option"
  rw_symbols :: "string list"
  rw_sentiment :: decimal
  rw_relevance :: decimal
  rw_confidence :: decimal

record news_item =
  nw_stamp :: timestamp
  nw_symbols :: "string list"
  nw_sentiment :: decimal
  nw_relevance :: decimal
  nw_confidence :: decimal

datatype news_action = NewsAllow | NewsReduce | NewsBlock | NewsConfirm

record news_adjustment =
  na_action :: news_action
  na_size_multiplier :: decimal
  na_reason :: "risk_reason option"

record news_config =
  nc_max_age :: int
  nc_extreme_uncertainty_confidence :: decimal
  nc_reduce_threshold :: decimal

definition default_news :: news_config where
  "default_news = \<lparr>nc_max_age = seconds (6 * 3600), nc_extreme_uncertainty_confidence = 2 / 10,
     nc_reduce_threshold = - (6 / 10)\<rparr>"

definition symbol_aliases :: "(string \<times> string) list" where
  "symbol_aliases = [(''BTC'', ''BTC/USDT''), (''BITCOIN'', ''BTC/USDT''), (''ETH'', ''ETH/USDT''), (''ETHEREUM'', ''ETH/USDT'')]"

definition extract_symbols :: "string \<Rightarrow> string list" where
  "extract_symbols txt =
     fold (\<lambda>(token, symbol) found. if contains token (py_upper txt) \<and> symbol \<notin> set found then found @ [symbol] else found)
       symbol_aliases []"

definition news_key :: "raw_news \<Rightarrow> string" where
  "news_key raw = rw_source raw @ ''|'' @ rw_title raw @ ''|'' @ rw_stamp_text raw"

text \<open>One item; \<open>seen\<close> are the keys of the items taken before.\<close>

definition normalize_news :: "news_config \<Rightarrow> timestamp \<Rightarrow> raw_news \<Rightarrow> string set \<Rightarrow> news_item option \<times> string set" where
  "normalize_news nc now raw seen =
     (if news_key raw \<in> seen then (None, seen)
      else
        case rw_stamp raw of
          None \<Rightarrow> (None, seen)
        | Some ts \<Rightarrow>
            if now - ts > nc_max_age nc then (None, seen)
            else
              (Some \<lparr>nw_stamp = ts,
                 nw_symbols = (if rw_symbols raw \<noteq> [] then rw_symbols raw
                               else extract_symbols (rw_title raw @ '' '' @ rw_body raw)),
                 nw_sentiment = rw_sentiment raw, nw_relevance = rw_relevance raw,
                 nw_confidence = rw_confidence raw\<rparr>, insert (news_key raw) seen))"

fun normalize_all :: "news_config \<Rightarrow> timestamp \<Rightarrow> raw_news list \<Rightarrow> string set \<Rightarrow> news_item list \<times> string set" where
  "normalize_all nc now [] seen = ([], seen)"
| "normalize_all nc now (r # rs) seen =
     (let (item, seen1) = normalize_news nc now r seen; (items, seen2) = normalize_all nc now rs seen1
      in (case item of Some i \<Rightarrow> i # items | None \<Rightarrow> items, seen2))"

definition relevant_news :: "string \<Rightarrow> news_item list \<Rightarrow> news_item list" where
  "relevant_news symbol items = filter (\<lambda>i. symbol \<in> set (nw_symbols i) \<and> 5 / 10 \<le> nw_relevance i) items"

definition assess_news :: "news_config \<Rightarrow> news_item list \<Rightarrow> news_adjustment" where
  "assess_news nc relevant =
     (if relevant = [] then \<lparr>na_action = NewsAllow, na_size_multiplier = 1, na_reason = None\<rparr>
      else if list_ex (\<lambda>i. nw_confidence i \<le> nc_extreme_uncertainty_confidence nc) relevant
      then \<lparr>na_action = NewsBlock, na_size_multiplier = 0, na_reason = Some NEWS_EXTREME_UNCERTAINTY\<rparr>
      else
        let average = ddiv (dsum (map nw_sentiment relevant)) (of_nat (length relevant))
        in if average \<le> nc_reduce_threshold nc
           then \<lparr>na_action = NewsReduce, na_size_multiplier = 5 / 10, na_reason = Some SIZE_REDUCED_BY_NEWS\<rparr>
           else if average < 0 then \<lparr>na_action = NewsConfirm, na_size_multiplier = 1, na_reason = None\<rparr>
           else \<lparr>na_action = NewsAllow, na_size_multiplier = 1, na_reason = None\<rparr>)"

text \<open>\<open>fetched\<close> is what the provider returns for the symbol.\<close>

definition evaluate_for_symbol :: "news_config \<Rightarrow> timestamp \<Rightarrow> raw_news list \<Rightarrow> string \<Rightarrow> string set
  \<Rightarrow> news_adjustment \<times> string set" where
  "evaluate_for_symbol nc now fetched symbol seen =
     (let (items, seen1) = normalize_all nc now fetched seen
      in (assess_news nc (relevant_news symbol items), seen1))"

definition in_memory_fetch :: "raw_news list \<Rightarrow> string option \<Rightarrow> raw_news list" where
  "in_memory_fetch items symbol =
     (case symbol of None \<Rightarrow> items | Some sy \<Rightarrow> filter (\<lambda>r. sy \<in> set (rw_symbols r)) items)"

subsection \<open>Scores\<close>

datatype advisory_reject = HOLD_SIGNAL | LOW_QUALITY_SETUP

record advisory_inputs =
  ai_close :: "decimal option"
  ai_volatility :: "decimal option"
  ai_funding_rate :: "decimal option"
  ai_trend_strength :: "decimal option"

record advisory_decision =
  ad_direction :: signal_direction
  ad_score :: decimal
  ad_confidence :: decimal
  ad_risk_reward :: decimal
  ad_size_fraction :: decimal
  ad_reject :: "advisory_reject option"

definition advisory_score :: "trade_signal \<Rightarrow> advisory_inputs \<Rightarrow> decimal" where
  "advisory_score sg inp =
     (let score = sg_confidence sg;
          score1 = (case ai_trend_strength inp of
                      Some t \<Rightarrow> dadd score (dmul (dsub t (5 / 10)) (2 / 10)) | None \<Rightarrow> score);
          score2 = (case ai_volatility inp of
                      Some v \<Rightarrow> if v > 5 / 100 then dsub score1 (1 / 10)
                                else if v < 5 / 1000 then dsub score1 (5 / 100) else score1
                    | None \<Rightarrow> score1);
          score3 = (case ai_funding_rate inp of
                      Some f \<Rightarrow> if sg_direction sg = SigBuy \<and> f > 5 / 10000 then dsub score2 (5 / 100) else score2
                    | None \<Rightarrow> score2)
      in max 0 (min 1 score3))"

definition risk_reward :: "trade_signal \<Rightarrow> advisory_inputs \<Rightarrow> decimal" where
  "risk_reward sg inp =
     (let entry = or_else (sg_suggested_entry sg) (or_else (ai_close inp) 0);
          stop = or_else (sg_suggested_stop sg) 0; target = or_else (sg_suggested_target sg) 0
      in if stop \<noteq> 0 \<and> target \<noteq> 0 \<and> entry > 0 then
           let risk = dabs (dsub entry stop); reward = dabs (dsub target entry)
           in if risk > 0 then quantize 2 (ddiv reward risk) else 0
         else 0)"

definition advisory_evaluate :: "trade_signal \<Rightarrow> advisory_inputs \<Rightarrow> advisory_decision" where
  "advisory_evaluate sg inp =
     (let score = advisory_score sg inp;
          decide = (\<lambda>direction size reject. \<lparr>ad_direction = direction, ad_score = score,
            ad_confidence = sg_confidence sg, ad_risk_reward = risk_reward sg inp, ad_size_fraction = size,
            ad_reject = reject\<rparr>)
      in if sg_direction sg = SigHold then decide SigHold 0 (Some HOLD_SIGNAL)
         else if score < 55 / 100 then decide SigHold 0 (Some LOW_QUALITY_SETUP)
         else decide (sg_direction sg) (quantize 4 (dadd (5 / 100) (dmul score (15 / 100)))) None)"

subsection \<open>Readiness and alerts\<close>

record health_registry =
  hr_db_healthy :: bool
  hr_redis_healthy :: bool
  hr_market_data_fresh :: bool
  hr_websocket_connected :: bool
  hr_strategy_heartbeat_ok :: bool
  hr_order_engine_ok :: bool
  hr_risk_engine_ok :: bool
  hr_error_count :: nat

definition health_components :: "settings \<Rightarrow> health_registry \<Rightarrow> (string \<times> bool) list" where
  "health_components st hr =
     [(''database'', hr_db_healthy hr), (''redis'', hr_redis_healthy hr), (''market_data'', hr_market_data_fresh hr),
      (''websocket'', hr_websocket_connected hr), (''strategy'', hr_strategy_heartbeat_ok hr),
      (''order_engine'', hr_order_engine_ok hr), (''risk_engine'', hr_risk_engine_ok hr),
      (''kill_switch'', \<not> st_kill_switch_enabled st)]"

definition readiness_status :: "settings \<Rightarrow> health_registry \<Rightarrow> string" where
  "readiness_status st hr =
     (if list_all (\<lambda>(name, healthy). name \<noteq> ''websocket'' \<longrightarrow> healthy) (health_components st hr)
         \<and> \<not> st_kill_switch_enabled st then ''ready'' else ''degraded'')"

definition alert_mapping :: "(string \<times> string) list" where
  "alert_mapping = [(''database'', ''DB_UNAVAILABLE''), (''redis'', ''REDIS_UNAVAILABLE''), (''market_data'', ''DATA_STALE''),
     (''websocket'', ''FEED_DISCONNECTED''), (''risk_engine'', ''RISK_HALT'')]"

definition check_and_alert :: "settings \<Rightarrow> health_registry \<Rightarrow> string list" where
  "check_and_alert st hr =
     concat (map (\<lambda>(name, healthy). if healthy then [] else case map_of alert_mapping name of Some e \<Rightarrow> [e] | None \<Rightarrow> [])
       (health_components st hr))
     @ (if st_kill_switch_enabled st then [''KILL_SWITCH_ACTIVATED''] else [])
     @ (if hr_error_count hr \<ge> 5 then [''REPEATED_EXCHANGE_ERRORS''] else [])"

subsection \<open>Properties\<close>

lemma normalize_news_again:
  assumes "normalize_news nc now raw seen = (item, seen')" and "now \<le> now'" and "seen' \<subseteq> seen2"
  shows "normalize_news nc now' raw seen2 = (None, seen2)"
  using assms by (auto simp: normalize_news_def split: if_splits option.splits)

lemma normalize_all_grows: "normalize_all nc now rs seen = (items, seen') \<Longrightarrow> seen \<subseteq> seen'"
proof (induction rs arbitrary: seen items)
  case (Cons r rs)
  obtain item seen1 where n: "normalize_news nc now r seen = (item, seen1)" by fastforce
  then have "seen \<subseteq> seen1" by (auto simp: normalize_news_def split: if_splits option.splits)
  with Cons n show ?case by (fastforce simp: Let_def split: prod.splits)
qed simp

lemma normalize_all_again:
  assumes "normalize_all nc now rs seen = (items, seen')" and "now \<le> now'" and "seen' \<subseteq> seen2"
  shows "normalize_all nc now' rs seen2 = ([], seen2)"
  using assms
proof (induction rs arbitrary: seen items)
  case (Cons r rs)
  obtain item seen1 where n: "normalize_news nc now r seen = (item, seen1)" by fastforce
  obtain items2 seen2' where rest: "normalize_all nc now rs seen1 = (items2, seen2')" by fastforce
  with Cons.prems(1) n have eq: "seen2' = seen'" by (simp add: Let_def)
  with Cons.prems(3) normalize_all_grows [OF rest] have "seen1 \<subseteq> seen2" by blast
  from normalize_news_again [OF n Cons.prems(2) this] Cons.IH [OF rest [unfolded eq] Cons.prems(2,3)]
  show ?case by (simp add: Let_def)
qed simp

text \<open>
  C40. News only ever restrains: whatever a provider returns, the size is left, halved or set to zero
  and never raised, zero exactly when the symbol is blocked, which takes a relevant item of very low
  confidence. But a restraint holds for one evaluation only: asked again, the service has seen the
  items and allows, although nothing has changed.
\<close>

theorem news_only_restrains:
  assumes "evaluate_for_symbol nc now fetched symbol seen = (adj, seen')" and "now \<le> now'"
  shows "na_size_multiplier adj \<in> {0, 5 / 10, 1} \<and> (na_size_multiplier adj = 0 \<longleftrightarrow> na_action adj = NewsBlock)
    \<and> (na_action adj = NewsBlock \<longrightarrow> (\<exists>i \<in> set (fst (normalize_all nc now fetched seen)).
         symbol \<in> set (nw_symbols i) \<and> 5 / 10 \<le> nw_relevance i
         \<and> nw_confidence i \<le> nc_extreme_uncertainty_confidence nc))
    \<and> na_action (fst (evaluate_for_symbol nc now' fetched symbol seen')) = NewsAllow"
proof -
  obtain items where items: "normalize_all nc now fetched seen = (items, seen')"
    and adj: "adj = assess_news nc (relevant_news symbol items)"
    using assms(1) by (auto simp: evaluate_for_symbol_def Let_def split: prod.splits)
  have "na_action (fst (evaluate_for_symbol nc now' fetched symbol seen')) = NewsAllow"
    using normalize_all_again [OF items assms(2) subset_refl]
    by (simp add: evaluate_for_symbol_def relevant_news_def assess_news_def)
  moreover have "na_action adj = NewsBlock \<longrightarrow> (\<exists>i \<in> set items. symbol \<in> set (nw_symbols i) \<and> 5 / 10 \<le> nw_relevance i
      \<and> nw_confidence i \<le> nc_extreme_uncertainty_confidence nc)"
    unfolding adj by (auto simp: assess_news_def relevant_news_def list_ex_iff Let_def split: if_splits)
  moreover have "na_size_multiplier adj \<in> {0, 5 / 10, 1} \<and> (na_size_multiplier adj = 0 \<longleftrightarrow> na_action adj = NewsBlock)"
    unfolding adj by (simp add: assess_news_def Let_def)
  ultimately show ?thesis unfolding items by (simp only: fst_conv simp_thms)
qed

lemma advisory_score_range: "0 \<le> advisory_score sg inp \<and> advisory_score sg inp \<le> 1"
  by (simp add: advisory_score_def Let_def)

lemma advisory_size_range:
  assumes "0 \<le> s" and "s \<le> 1"
  shows "5 / 100 \<le> quantize 4 (dadd (5 / 100) (dmul s (15 / 100)))
    \<and> quantize 4 (dadd (5 / 100) (dmul s (15 / 100))) \<le> 1 / 5"
proof -
  have grid: "on_grid 4 (5 / 100 :: rat)" "on_grid 4 (1 / 5 :: rat)"
    unfolding on_grid_def by (intro exI [of _ 500], simp) (intro exI [of _ 2000], simp)
  have "dmul s (15 / 100) \<le> ctx (15 / 100)" unfolding dmul_def using assms by (intro ctx_mono) simp
  then have "dmul s (15 / 100) \<le> 15 / 100" by simp
  moreover have "0 \<le> dmul s (15 / 100)" using assms by (intro dmul_nonneg) simp_all
  ultimately have "ctx (5 / 100) \<le> dadd (5 / 100) (dmul s (15 / 100))" "dadd (5 / 100) (dmul s (15 / 100)) \<le> ctx (1 / 5)"
    unfolding dadd_def by (intro ctx_mono; simp)+
  then have "5 / 100 \<le> dadd (5 / 100) (dmul s (15 / 100))" "dadd (5 / 100) (dmul s (15 / 100)) \<le> 1 / 5" by simp_all
  from this [THEN quantize_mono [where d = 4]] grid show ?thesis by (simp add: quantize_grid)
qed

text \<open>
  A recommendation stays within its bounds: the score lies between zero and one, a recommended
  size between a twentieth and a fifth of the account; the direction is the signal's or none, and
  a recommendation is refused, with size zero, exactly for a hold signal or a score below the minimum.
\<close>

lemma advisory_bounded:
  fixes sg inp
  defines "ad \<equiv> advisory_evaluate sg inp"
  shows "0 \<le> ad_score ad \<and> ad_score ad \<le> 1 \<and> 0 \<le> ad_risk_reward ad
    \<and> (if sg_direction sg = SigHold \<or> ad_score ad < 55 / 100
       then ad_reject ad \<noteq> None \<and> ad_direction ad = SigHold \<and> ad_size_fraction ad = 0
       else ad_reject ad = None \<and> ad_direction ad = sg_direction sg
          \<and> 1 / 20 \<le> ad_size_fraction ad \<and> ad_size_fraction ad \<le> 1 / 5)"
proof -
  have "0 \<le> risk_reward sg inp"
    unfolding risk_reward_def Let_def ddiv_def by (auto intro!: quantize_nonneg ctx.rnd_nonneg divide_nonneg_nonneg)
  with advisory_score_range [of sg inp] advisory_size_range [of "advisory_score sg inp"] show ?thesis
    by (simp add: ad_def advisory_evaluate_def Let_def)
qed

text \<open>
  A degraded service is alerted, except when only the strategy heartbeat or the order engine is at
  fault: these have no alert.
\<close>

lemma degraded_alerts:
  assumes "readiness_status st hr = ''degraded''" and "hr_strategy_heartbeat_ok hr" and "hr_order_engine_ok hr"
  shows "check_and_alert st hr \<noteq> []"
  using assms by (auto simp: readiness_status_def check_and_alert_def health_components_def alert_mapping_def split: if_splits)

lemma order_engine_silent:
  assumes "readiness_status st hr = ''ready''" and "hr_websocket_connected hr" and "hr_error_count hr < 5"
  shows "readiness_status st (hr\<lparr>hr_order_engine_ok := False\<rparr>) = ''degraded''
    \<and> check_and_alert st (hr\<lparr>hr_order_engine_ok := False\<rparr>) = []"
  using assms by (auto simp: readiness_status_def check_and_alert_def health_components_def alert_mapping_def split: if_splits)

subsection \<open>A concrete item\<close>

definition sample_news :: raw_news where
  "sample_news = \<lparr>rw_source = ''wire'', rw_title = ''outage'', rw_body = '''', rw_stamp_text = ''t0'', rw_stamp = Some 0,
     rw_symbols = [''BTC/USDT''], rw_sentiment = 0, rw_relevance = 1, rw_confidence = 1 / 10\<rparr>"

theorem news_only_restrains_witness:
  "\<exists>seen. evaluate_for_symbol default_news 0 [sample_news] ''BTC/USDT'' {} =
       (\<lparr>na_action = NewsBlock, na_size_multiplier = 0, na_reason = Some NEWS_EXTREME_UNCERTAINTY\<rparr>, seen)
     \<and> na_action (fst (evaluate_for_symbol default_news 0 [sample_news] ''BTC/USDT'' seen)) = NewsAllow"
proof -
  have "evaluate_for_symbol default_news 0 [sample_news] ''BTC/USDT'' {} =
      (\<lparr>na_action = NewsBlock, na_size_multiplier = 0, na_reason = Some NEWS_EXTREME_UNCERTAINTY\<rparr>,
       {news_key sample_news})"
    by (simp add: evaluate_for_symbol_def normalize_news_def sample_news_def default_news_def assess_news_def
        relevant_news_def seconds_def Let_def)
  with news_only_restrains [OF this, of 0] show ?thesis by blast
qed

end
