(* ===== verification/Views.thy ===== *)
theory Views
  imports Reports Control_Properties Feed_Properties Advisory Access
begin

text \<open>
  The requests that only read: the pages of \<open>app/api/v1.py\<close> with the pagination of \<open>app/api/deps.py\<close>,
  the lists of \<open>app/api/dashboard.py\<close> and \<open>app/api/mvp.py\<close>, the readiness probes, the recovery
  status, the metrics of \<open>app/main.py\<close>, and the advisory score of \<open>app/api/routes.py\<close>. An answer is the
  value the response is built from, a decimal rounded to the places it is printed with; a refusal is
  the status code. \<open>view\<close> names the requests and \<open>look\<close> answers one over the platform.
\<close>

subsection \<open>Pagination\<close>

record pagination =
  pn_limit :: nat
  pn_offset :: nat

record 'a page =
  pe_items :: "'a list"
  pe_total :: nat
  pe_limit :: nat
  pe_offset :: nat

text \<open>A query parameter with its bounds: outside them the request is refused before it is served.\<close>

definition bounded_query :: "int \<Rightarrow> int \<Rightarrow> int \<Rightarrow> int option \<Rightarrow> nat + nat" where
  "bounded_query lo hi d x =
     (let n = (case x of Some n \<Rightarrow> n | None \<Rightarrow> d) in if lo \<le> n \<and> n \<le> hi then Inr (nat n) else Inl 422)"

definition pagination_of :: "int option \<Rightarrow> int option \<Rightarrow> nat + pagination" where
  "pagination_of limit offset =
     (case bounded_query 1 500 50 limit of
        Inl code \<Rightarrow> Inl code
      | Inr n \<Rightarrow>
          (let k = (case offset of Some k \<Rightarrow> k | None \<Rightarrow> 0)
           in if k < 0 then Inl 422 else Inr \<lparr>pn_limit = n, pn_offset = nat k\<rparr>))"

definition page_of :: "pagination \<Rightarrow> 'a list \<Rightarrow> 'a page" where
  "page_of pn xs =
     \<lparr>pe_items = take (pn_limit pn) (drop (pn_offset pn) xs), pe_total = length xs,
      pe_limit = pn_limit pn, pe_offset = pn_offset pn\<rparr>"

text \<open>\<open>xs[:limit]\<close> and \<open>list(reversed(xs[-limit:]))\<close>, for a positive limit.\<close>

definition newest_of :: "nat \<Rightarrow> 'a list \<Rightarrow> 'a list" where
  "newest_of limit xs = rev (drop (length xs - limit) xs)"

subsection \<open>Lists of the session\<close>

text \<open>\<open>_order_dict\<close>\<close>

definition order_view :: "order \<Rightarrow> order" where
  "order_view od =
     od\<lparr>o_quantity := quantize 8 (o_quantity od), o_filled_quantity := quantize 8 (o_filled_quantity od),
        o_price := map_option (quantize 2) (o_price od),
        o_average_fill_price := map_option (quantize 2) (o_average_fill_price od),
        o_fees := quantize 2 (o_fees od)\<rparr>"

definition orders_view :: "(order_status \<Rightarrow> string) \<Rightarrow> string option \<Rightarrow> string option \<Rightarrow> string option
  \<Rightarrow> paper_session \<Rightarrow> order list" where
  "orders_view status_value status symbol date s =
     (let text = (\<lambda>x. case x of Some t \<Rightarrow> t | None \<Rightarrow> '''')
      in map order_view (session_orders status_value (text status) (text symbol) (text date) s))"

definition all_orders :: "paper_session \<Rightarrow> order list" where
  "all_orders s = map order_view (ss_order_history s)"

text \<open>\<open>/api/trades\<close>: the orders that are completely filled.\<close>

definition trades_view :: "paper_session \<Rightarrow> order list" where
  "trades_view s = filter (\<lambda>od. o_status od = Filled) (all_orders s)"

definition fills_view :: "paper_session \<Rightarrow> fill list" where
  "fills_view s = rev (ps_fills (ss_paper s))"

text \<open>\<open>/api/signals\<close>: the signals of the session behind the newest of the cycles.\<close>

definition mvp_signals :: "nat \<Rightarrow> paper_session \<Rightarrow> (trade_signal + session_signal) list \<times> nat" where
  "mvp_signals limit s =
     (let items = map Inr (take limit (ss_signal_log s));
          items' = (case rt_last_signal (ss_runtime s) of Some sg \<Rightarrow> Inl sg # items | None \<Rightarrow> items)
      in (take limit items', length items'))"

definition strategy_latest :: "runtime \<Rightarrow> trade_signal option \<times> strategy_run option" where
  "strategy_latest rt =
     (rt_last_signal rt, case strategy_runs 1 rt of [] \<Rightarrow> None | rn # _ \<Rightarrow> Some rn)"

datatype journal_row =
    SignalRow session_signal
  | RiskRow risk_event
  | OrderRow order
  | CycleRow cycle_result

definition journal_rows :: "paper_session \<Rightarrow> journal_row list" where
  "journal_rows s =
     map SignalRow (ss_signal_log s) @ map RiskRow (ss_risk_event_log s) @ map OrderRow (ss_order_history s)
       @ (case rt_last_cycle (ss_runtime s) of Some r \<Rightarrow> [CycleRow r] | None \<Rightarrow> [])"

record strategy_view =
  sw_strategy_id :: string
  sw_running :: bool
  sw_selected :: bool
  sw_paper_params :: strategy
  sw_governed :: bool
  sw_timeframe :: string

text \<open>\<open>_strategy_dict\<close>; a strategy without an entry in the presentation table is a draft on 1h.\<close>

definition strategy_dict :: "paper_session \<Rightarrow> string \<times> strategy \<Rightarrow> strategy_view" where
  "strategy_dict s x =
     (let (sid, strat) = x
      in \<lparr>sw_strategy_id = sid, sw_running = (sid \<in> ss_running_strategies s),
          sw_selected = (sf_selected_strategy_id (ss_flags s) = Some sid),
          sw_paper_params = (case map_of (ss_param_overrides s) sid of Some ps \<Rightarrow> ps | None \<Rightarrow> strat),
          sw_governed = (sid \<in> paper_governed),
          sw_timeframe = (case meta_timeframe sid of Some tf \<Rightarrow> tf | None \<Rightarrow> ''1h'')\<rparr>)"

definition strategies_view :: "strategy_registry \<Rightarrow> paper_session \<Rightarrow> strategy_view list" where
  "strategies_view reg s = map (strategy_dict s) reg"

subsection \<open>Candles\<close>

definition offline_answer :: "timestamp \<Rightarrow> string \<Rightarrow> string \<Rightarrow> int option \<Rightarrow> nat + candle list" where
  "offline_answer now symbol timeframe limit =
     (case bounded_query 1 500 100 limit of
        Inl code \<Rightarrow> Inl code
      | Inr n \<Rightarrow>
          (case offline_candles default_offline now symbol timeframe n of
             Inl e \<Rightarrow> Inl (status_of e)
           | Inr cs \<Rightarrow> Inr cs))"

definition versioned_candles :: "timestamp \<Rightarrow> string option \<Rightarrow> string option \<Rightarrow> int option \<Rightarrow> nat + candle list" where
  "versioned_candles now symbol timeframe limit =
     offline_answer now (case symbol of Some sy \<Rightarrow> sy | None \<Rightarrow> ''BTC/USDT'')
       (case timeframe of Some tf \<Rightarrow> tf | None \<Rightarrow> ''1m'') limit"

definition mvp_candles :: "settings \<Rightarrow> timestamp \<Rightarrow> string option \<Rightarrow> string option \<Rightarrow> int option \<Rightarrow> nat + candle list" where
  "mvp_candles st now symbol timeframe limit =
     (let given = (\<lambda>x d. case x of Some t \<Rightarrow> if t = '''' then d else t | None \<Rightarrow> d)
      in offline_answer now (given symbol (st_default_symbol st)) (given timeframe (st_default_timeframe st)) limit)"

subsection \<open>Health\<close>

record system_health =
  sh_halted :: bool
  sh_kill_switch_enabled :: bool
  sh_database_ok :: bool
  sh_market_data_ok :: bool
  sh_risk_engine_ok :: bool

definition system_status :: "platform_config \<Rightarrow> request_env \<Rightarrow> platform \<Rightarrow> system_health" where
  "system_status pg q p =
     (let kill = control_killed pg p
      in \<lparr>sh_halted = kill, sh_kill_switch_enabled = kill, sh_database_ok = qe_database_up q,
          sh_market_data_ok = True, sh_risk_engine_ok = True\<rparr>)"

definition versioned_ready :: "platform_config \<Rightarrow> nat" where
  "versioned_ready pg = (if st_trading_mode (sg_settings (pg_session pg)) \<noteq> ''paper'' then 503 else 200)"

definition mvp_readiness :: "platform_config \<Rightarrow> platform \<Rightarrow> nat" where
  "mvp_readiness pg p =
     (let st = sg_settings (pg_session pg)
      in if st_trading_mode st \<noteq> ''paper'' then 503
         else if st_enable_reconciliation st \<and> \<not> is_reconciliation_healthy (rt_recon (ss_runtime (pl_session p)))
         then 503 else 200)"

subsection \<open>Recovery\<close>

text \<open>The last run of the reconciliation, while it is healthy.\<close>

definition last_successful :: "recon_state \<Rightarrow> timestamp option" where
  "last_successful r = (if rc_healthy r \<and> \<not> rc_halted r then rc_last_run_at r else None)"

definition recovery_equity :: "paper_state \<Rightarrow> decimal" where
  "recovery_equity ps =
     dadd (ps_cash ps)
       (foldl (\<lambda>total p. dadd total (dmul (p_quantity p) (p_current_price p))) 0 (dict_values (ps_positions ps)))"

definition open_order_count :: "paper_state \<Rightarrow> nat" where
  "open_order_count ps =
     length (filter (\<lambda>od. o_status od \<in> {Submitted, PartiallyFilled, Approved, RiskPending})
       (dict_values (ps_orders ps)))"

record recovery_view =
  ry_reconciliation :: recon_state
  ry_flags :: session_flags
  ry_risk :: risk_state
  ry_last_cycle :: "cycle_result option"
  ry_cash :: decimal
  ry_equity :: decimal
  ry_realized_pnl :: decimal
  ry_peak_equity :: decimal
  ry_daily_start_equity :: decimal
  ry_open_positions :: nat
  ry_open_orders :: nat
  ry_fills :: nat
  ry_positions :: "position list"
  ry_running_strategies :: "string set"
  ry_last_successful :: "timestamp option"

definition recovery_status :: "paper_session \<Rightarrow> recovery_view" where
  "recovery_status s =
     (let rt = ss_runtime s; ps = rt_paper rt
      in \<lparr>ry_reconciliation = rt_recon rt, ry_flags = rt_flags rt, ry_risk = rt_risk rt,
          ry_last_cycle = rt_last_cycle rt, ry_cash = ps_cash ps, ry_equity = recovery_equity ps,
          ry_realized_pnl = ps_realized_pnl ps, ry_peak_equity = ss_peak_equity s,
          ry_daily_start_equity = ss_daily_start_equity s, ry_open_positions = length (ps_positions ps),
          ry_open_orders = open_order_count ps, ry_fills = length (ps_fills ps),
          ry_positions = dict_values (ps_positions ps), ry_running_strategies = ss_running_strategies s,
          ry_last_successful = last_successful (rt_recon rt)\<rparr>)"

record scheduler_view =
  sy_running :: bool
  sy_last_ok :: "timestamp option"
  sy_last_failure_at :: "timestamp option"
  sy_last_error :: "string option"
  sy_cycle_count :: nat
  sy_consecutive_failures :: nat
  sy_paused_by_failures :: bool
  sy_heartbeat_at :: "timestamp option"
  sy_enabled_by_config :: bool

definition scheduler_status :: "platform \<Rightarrow> scheduler_view" where
  "scheduler_status p =
     (let sc = pl_scheduler p
      in \<lparr>sy_running = sc_running sc, sy_last_ok = sc_last_ok sc, sy_last_failure_at = sc_last_failure_at sc,
          sy_last_error = sc_last_error sc, sy_cycle_count = sc_cycle_count sc,
          sy_consecutive_failures = sc_consecutive_failures sc, sy_paused_by_failures = sc_paused_by_failures sc,
          sy_heartbeat_at = sc_heartbeat_at sc, sy_enabled_by_config = pl_scheduler_enabled p\<rparr>)"

record metrics_view =
  mx_orders :: nat
  mx_positions :: nat
  mx_signals :: nat
  mx_risk_events :: nat
  mx_kill_switch_enabled :: bool
  mx_scheduler :: scheduler_view
  mx_reconciliation :: recon_state
  mx_last_cycle :: "cycle_result option"

definition metrics :: "platform \<Rightarrow> metrics_view" where
  "metrics p =
     (let s = pl_session p; rt = ss_runtime s
      in \<lparr>mx_orders = length (all_orders s), mx_positions = length (session_positions s),
          mx_signals = length (ss_signal_log s), mx_risk_events = length (ss_risk_event_log s),
          mx_kill_switch_enabled = sf_kill_switch_enabled (rt_flags rt), mx_scheduler = scheduler_status p,
          mx_reconciliation = rt_recon rt, mx_last_cycle = rt_last_cycle rt\<rparr>)"

subsection \<open>The requests that read\<close>

text \<open>
  A list and its page may come from more than one route; each constructor is one answer. Reading the
  portfolio, alone or in the export of the journal, notes a new peak of the equity.
\<close>

datatype view =
    SystemStatus
  | VersionedReady
  | MvpReadiness
  | ViewCandles "string option" "string option" "int option"
  | MvpCandles "string option" "string option" "int option"
  | StrategyLatest
  | SignalPage "int option" "int option"
  | RiskPage "int option" "int option"
  | OrderPage "int option" "int option"
  | FillPage "int option" "int option"
  | HistoryPage "int option" "int option"
  | JournalPage "int option" "int option"
  | OrderList "string option" "string option" "string option"
  | MvpSignals "int option"
  | Trades
  | Positions
  | EquityCurve
  | Strategies
  | Summary
  | SystemEvents "int option"
  | SchedulerStatus
  | RecoveryStatus
  | Metrics

datatype answer =
    Refused nat
  | AHealth system_health
  | AReady
  | ACandles "candle list"
  | ALatest "trade_signal option \<times> strategy_run option"
  | ASignalPage "session_signal page"
  | ARiskPage "risk_event page"
  | AOrderPage "order page"
  | AFillPage "fill page"
  | AHistoryPage "curve_point page"
  | AJournalPage "journal_row page"
  | AOrders "order list"
  | AMvpSignals "(trade_signal + session_signal) list \<times> nat"
  | APositions "position list"
  | ACurve "curve_point list"
  | AStrategies "strategy_view list"
  | ASummary session_summary
  | AEvents "string list \<times> nat"
  | AScheduler scheduler_view
  | ARecovery recovery_view
  | AMetrics metrics_view

definition paged :: "('a page \<Rightarrow> answer) \<Rightarrow> int option \<Rightarrow> int option \<Rightarrow> 'a list \<Rightarrow> answer" where
  "paged f limit offset xs =
     (case pagination_of limit offset of Inl code \<Rightarrow> Refused code | Inr pn \<Rightarrow> f (page_of pn xs))"

definition candle_answer :: "nat + candle list \<Rightarrow> answer" where
  "candle_answer x = (case x of Inl code \<Rightarrow> Refused code | Inr cs \<Rightarrow> ACandles cs)"

fun look :: "(order_status \<Rightarrow> string) \<Rightarrow> platform_config \<Rightarrow> request_env \<Rightarrow> view \<Rightarrow> platform \<Rightarrow> answer \<times> platform" where
  "look sv pg q SystemStatus p = (AHealth (system_status pg q p), p)"
| "look sv pg q VersionedReady p = (if versioned_ready pg = 200 then AReady else Refused (versioned_ready pg), p)"
| "look sv pg q MvpReadiness p = (if mvp_readiness pg p = 200 then AReady else Refused (mvp_readiness pg p), p)"
| "look sv pg q (ViewCandles sy tf n) p = (candle_answer (versioned_candles (qe_now q) sy tf n), p)"
| "look sv pg q (MvpCandles sy tf n) p =
     (candle_answer (mvp_candles (platform_settings pg p) (qe_now q) sy tf n), p)"
| "look sv pg q StrategyLatest p = (ALatest (strategy_latest (ss_runtime (pl_session p))), p)"
| "look sv pg q (SignalPage n k) p = (paged ASignalPage n k (ss_signal_log (pl_session p)), p)"
| "look sv pg q (RiskPage n k) p = (paged ARiskPage n k (ss_risk_event_log (pl_session p)), p)"
| "look sv pg q (OrderPage n k) p = (paged AOrderPage n k (all_orders (pl_session p)), p)"
| "look sv pg q (FillPage n k) p = (paged AFillPage n k (fills_view (pl_session p)), p)"
| "look sv pg q (HistoryPage n k) p = (paged AHistoryPage n k (ss_equity_curve (pl_session p)), p)"
| "look sv pg q (JournalPage n k) p =
     (case pagination_of n k of
        Inl code \<Rightarrow> (Refused code, p)
      | Inr pn \<Rightarrow> (AJournalPage (page_of pn (rev (journal_rows (pl_session p)))), snd (control_view p)))"
| "look sv pg q (OrderList status symbol date) p =
     (AOrders (orders_view sv status symbol date (pl_session p)), p)"
| "look sv pg q (MvpSignals n) p =
     (case bounded_query 1 200 50 n of
        Inl code \<Rightarrow> (Refused code, p) | Inr k \<Rightarrow> (AMvpSignals (mvp_signals k (pl_session p)), p))"
| "look sv pg q Trades p = (AOrders (trades_view (pl_session p)), p)"
| "look sv pg q Positions p = (APositions (session_positions (pl_session p)), p)"
| "look sv pg q EquityCurve p = (ACurve (ss_equity_curve (pl_session p)), p)"
| "look sv pg q Strategies p = (AStrategies (strategies_view (qe_registry q) (pl_session p)), p)"
| "look sv pg q Summary p = (ASummary (fst (portfolio_summary (pl_session p))), snd (control_view p))"
| "look sv pg q (SystemEvents n) p =
     (case bounded_query 1 200 50 n of
        Inl code \<Rightarrow> (Refused code, p)
      | Inr k \<Rightarrow> (AEvents (newest_of k (pl_events p), length (pl_events p)), p))"
| "look sv pg q SchedulerStatus p = (AScheduler (scheduler_status p), p)"
| "look sv pg q RecoveryStatus p = (ARecovery (recovery_status (pl_session p)), p)"
| "look sv pg q Metrics p = (AMetrics (metrics p), p)"

subsection \<open>Pages\<close>

lemma bounded_query_Inr: "bounded_query lo hi d x = Inr n \<Longrightarrow> lo \<le> int n \<or> lo < 0"
  by (auto simp: bounded_query_def Let_def split: option.splits if_splits)

lemma pagination_limit:
  assumes "pagination_of limit offset = Inr pn"
  shows "1 \<le> pn_limit pn \<and> pn_limit pn \<le> 500"
  using assms by (auto simp: pagination_of_def bounded_query_def Let_def split: sum.splits option.splits if_splits)

lemma take_pages: "concat (map (\<lambda>j. take n (drop (j * n) xs)) [0..<m]) = take (m * n) xs"
proof (induction m)
  case (Suc m)
  then show ?case by (simp add: take_add [symmetric] add.commute)
qed simp

text \<open>
  Paging through a list with any accepted limit reads every item exactly once and in order: the pages
  at the multiples of the limit, one after another, are the list, and each of them reports its whole
  length. A limit is accepted from 1 to 500 and an offset from 0; anything else is refused.
\<close>

lemma pages_partition:
  "(case pagination_of limit offset of
      Inl code \<Rightarrow> code = 422 \<and> (\<exists>n. limit = Some n \<and> (n < 1 \<or> 500 < n) \<or> offset = Some n \<and> n < 0)
    | Inr pn \<Rightarrow>
        pe_total (page_of pn xs) = length xs \<and> length (pe_items (page_of pn xs)) \<le> 500
      \<and> pe_items (page_of pn xs) = take (pn_limit pn) (drop (pn_offset pn) xs)
      \<and> concat (map (\<lambda>j. pe_items (page_of (pn\<lparr>pn_offset := j * pn_limit pn\<rparr>) xs)) [0..<length xs]) = xs)"
proof (cases "pagination_of limit offset")
  case (Inl code)
  then show ?thesis
    by (auto simp: pagination_of_def bounded_query_def Let_def split: sum.splits option.splits if_splits)
next
  case (Inr pn)
  note pagination_limit [OF Inr]
  moreover from this have "length xs \<le> length xs * pn_limit pn" by simp
  ultimately show ?thesis by (simp add: Inr page_of_def take_pages min.coboundedI2)
qed

subsection \<open>Reading changes nothing\<close>

fun look_all :: "(order_status \<Rightarrow> string) \<Rightarrow> platform_config \<Rightarrow> (request_env \<times> view) list \<Rightarrow> platform \<Rightarrow> platform" where
  "look_all sv pg [] p = p"
| "look_all sv pg ((q, v) # vs) p = look_all sv pg vs (snd (look sv pg q v p))"

text \<open>The session with the peak of its equity noted.\<close>

definition peak_noted :: "platform \<Rightarrow> platform" where
  "peak_noted = on_session (\<lambda>s. s\<lparr>ss_peak_equity := max (ss_peak_equity s) (session_equity (ss_paper s))\<rparr>)"

lemma control_view_peak: "snd (control_view p) = peak_noted p"
  by (simp add: control_view_def peak_noted_def on_session_def portfolio_summary_def session_portfolio_def Let_def)

lemma peak_noted_twice: "peak_noted (peak_noted p) = peak_noted p"
  by (simp add: peak_noted_def on_session_def)

lemma look_state: "snd (look sv pg q v p) \<in> {p, peak_noted p}"
  by (cases v) (auto simp: control_view_peak split: sum.splits)

lemma look_all_state: "look_all sv pg vs p \<in> {p, peak_noted p}"
proof (induction vs arbitrary: p)
  case (Cons x vs)
  obtain q v where x: "x = (q, v)" by fastforce
  have "look_all sv pg vs p' \<in> {p, peak_noted p}" if "p' \<in> {p, peak_noted p}" for p'
    using that Cons.IH [of p'] by (auto simp: peak_noted_twice)
  from this [OF look_state [of sv pg q v p]] show ?case by (simp add: x)
qed simp

lemma look_peak:
  assumes "v \<noteq> RecoveryStatus"
  shows "fst (look sv pg q v (peak_noted p)) = fst (look sv pg q v p)"
proof -
  have fields: "pl_scheduler (peak_noted p) = pl_scheduler p" "pl_events (peak_noted p) = pl_events p"
      "pl_scheduler_enabled (peak_noted p) = pl_scheduler_enabled p"
      "ss_runtime (pl_session (peak_noted p)) = ss_runtime (pl_session p)"
      "ss_order_history (pl_session (peak_noted p)) = ss_order_history (pl_session p)"
      "ss_signal_log (pl_session (peak_noted p)) = ss_signal_log (pl_session p)"
      "ss_risk_event_log (pl_session (peak_noted p)) = ss_risk_event_log (pl_session p)"
      "ss_equity_curve (pl_session (peak_noted p)) = ss_equity_curve (pl_session p)"
      "ss_running_strategies (pl_session (peak_noted p)) = ss_running_strategies (pl_session p)"
      "ss_param_overrides (pl_session (peak_noted p)) = ss_param_overrides (pl_session p)"
    by (simp_all add: peak_noted_def on_session_def)
  have summary: "fst (portfolio_summary (pl_session (peak_noted p))) = fst (portfolio_summary (pl_session p))"
    by (simp add: peak_noted_def on_session_def portfolio_summary_def session_portfolio_def Let_def)
  have lists: "all_orders (pl_session (peak_noted p)) = all_orders (pl_session p)"
      "trades_view (pl_session (peak_noted p)) = trades_view (pl_session p)"
      "orders_view sv st sy d (pl_session (peak_noted p)) = orders_view sv st sy d (pl_session p)"
      "fills_view (pl_session (peak_noted p)) = fills_view (pl_session p)"
      "mvp_signals n (pl_session (peak_noted p)) = mvp_signals n (pl_session p)"
      "journal_rows (pl_session (peak_noted p)) = journal_rows (pl_session p)"
      "session_positions (pl_session (peak_noted p)) = session_positions (pl_session p)"
      "strategies_view reg (pl_session (peak_noted p)) = strategies_view reg (pl_session p)" for st sy d n reg
    by (simp_all add: all_orders_def trades_view_def orders_view_def session_orders_def fills_view_def mvp_signals_def
        journal_rows_def session_positions_def strategies_view_def strategy_dict_def fields Let_def cong: map_cong)
  from assms show ?thesis
    by (cases v) (simp_all add: fields summary lists system_status_def control_killed_def mvp_readiness_def
        platform_settings_def metrics_def scheduler_status_def Let_def split: sum.split)
qed


text \<open>
  The ledger of the scheduler is the one of the dashboard, but its orders and signals are noted in
  no list of the session: a turn leaves the order, trade, signal and risk lists as they were, whatever
  it bought or sold. Only the fills show it.
\<close>

lemma scheduler_unlisted:
  "let p' = scheduler_event pg q p
   in all_orders (pl_session p') = all_orders (pl_session p) \<and> trades_view (pl_session p') = trades_view (pl_session p)
    \<and> orders_view sv status symbol date (pl_session p') = orders_view sv status symbol date (pl_session p)
    \<and> ss_signal_log (pl_session p') = ss_signal_log (pl_session p)
    \<and> ss_risk_event_log (pl_session p') = ss_risk_event_log (pl_session p)
    \<and> ss_equity_curve (pl_session p') = ss_equity_curve (pl_session p)"
  by (simp add: scheduler_event_def all_orders_def trades_view_def orders_view_def session_orders_def Let_def
      split: prod.split)

text \<open>While a buy rests, the recovery status reports less equity than the portfolio: it leaves out the reservation.\<close>

lemma recovery_omits_reserve:
  "recovery_equity (ss_paper resting_session) + ps_reserved_cash (ss_paper resting_session)
     = session_equity (ss_paper resting_session) \<and> 0 < ps_reserved_cash (ss_paper resting_session)"
proof -
  have "\<exists>s'. submit default_paper_config sample_env sample_buy (sample_risk (1 / 100)) sample_engine
        = Inr (sample_order, s') \<and> ps_positions s' = []"
    by (simp add: sample_engine_def new_engine_def submit_def register_order_def new_order_def place_order_def
      lock_notional_def reserve_price_def reserve_buy_def fill_or_rest_def rests_at_def Let_def or_else_def
      update_order_def sample_buy_def sample_env_def sample_risk_def default_paper_config_def
      sample_order_def empty_meta_def dec_ops quantize_def half_even_def)
  with sample_resting_eq(1) have "ps_positions sample_resting = []" by simp
  then show ?thesis
    by (simp add: resting_session_fields sample_resting_eq recovery_equity_def session_equity_def dict_values_def dec_ops)
qed

subsection \<open>The score of a signal\<close>

text \<open>
  The payload of \<open>/ai/score-signal\<close>, its numbers given as numbers of JSON; a missing or zero confidence
  is a half. What the score does not depend on is left out. A confidence outside zero and one
  is refused by the model class, which nothing handles.
\<close>

record score_payload =
  sp_direction :: "string option"
  sp_strategy_name :: "string option"
  sp_symbol :: "string option"
  sp_confidence :: "decimal option"
  sp_reason :: "string option"
  sp_suggested_entry :: "decimal option"
  sp_suggested_stop :: "decimal option"
  sp_suggested_target :: "decimal option"
  sp_volatility :: "decimal option"
  sp_funding_rate :: "decimal option"
  sp_trend_strength :: "decimal option"

definition payload_direction :: "string option \<Rightarrow> signal_direction" where
  "payload_direction t =
     (let d = py_lower (text_or t ''hold'')
      in case filter (\<lambda>x. signal_direction_value x = d) [SigBuy, SigSell, SigHold, SigExit] of
           [] \<Rightarrow> SigHold
         | x # _ \<Rightarrow> x)"

definition payload_signal :: "settings \<Rightarrow> timestamp \<Rightarrow> score_payload \<Rightarrow> trade_signal" where
  "payload_signal st now sp =
     \<lparr>sg_strategy_name = text_or (sp_strategy_name sp) ''advisory'', sg_strategy_version = ''0'',
      sg_symbol = text_or (sp_symbol sp) (st_default_symbol st), sg_timestamp = now,
      sg_direction = payload_direction (sp_direction sp),
      sg_confidence = or_else (sp_confidence sp) (5 / 10), sg_rationale = text_or (sp_reason sp) '''',
      sg_suggested_stop = sp_suggested_stop sp, sg_suggested_target = sp_suggested_target sp,
      sg_suggested_entry = sp_suggested_entry sp, sg_fingerprint = FpEmpty\<rparr>"

definition ai_score_signal :: "settings \<Rightarrow> timestamp \<Rightarrow> score_payload \<Rightarrow> nat + advisory_decision" where
  "ai_score_signal st now sp =
     (case make_signal (payload_signal st now sp) of
        Inl e \<Rightarrow> Inl 500
      | Inr sg \<Rightarrow> Inr (advisory_evaluate sg
          \<lparr>ai_close = None, ai_volatility = sp_volatility sp, ai_funding_rate = sp_funding_rate sp,
           ai_trend_strength = sp_trend_strength sp\<rparr>))"

text \<open>
  A request for a score fails exactly when its confidence is not between zero and one; otherwise the
  recommendation keeps its bounds: the direction asked for or none, a score between zero and one, and a
  size that is zero when it is refused and otherwise between a twentieth and a fifth of the account. A
  confidence of zero counts as a half.
\<close>

lemma score_request_exact:
  "(case ai_score_signal st now sp of
      Inl code \<Rightarrow> code = 500 \<and> (case sp_confidence sp of Some c \<Rightarrow> c < 0 \<or> 1 < c | None \<Rightarrow> False)
    | Inr ad \<Rightarrow>
        ad_confidence ad = (if sp_confidence sp \<in> {None, Some 0} then 1 / 2 else the (sp_confidence sp))
      \<and> 0 \<le> ad_score ad \<and> ad_score ad \<le> 1
      \<and> (ad_direction ad, ad_size_fraction ad) \<in>
          {(SigHold, 0)} \<union> {payload_direction (sp_direction sp)} \<times> {1 / 20 .. 1 / 5})"
proof (cases "ai_score_signal st now sp")
  case (Inl code)
  then show ?thesis
    by (auto simp: ai_score_signal_def make_signal_def payload_signal_def or_else_def split: option.splits if_splits)
next
  case (Inr ad)
  then obtain inp where ad: "ad = advisory_evaluate (payload_signal st now sp) inp"
    by (auto simp: ai_score_signal_def make_signal_def split: if_splits)
  have "ad_confidence ad = sg_confidence (payload_signal st now sp)"
    by (simp add: ad advisory_evaluate_def Let_def)
  moreover have "sg_direction (payload_signal st now sp) = payload_direction (sp_direction sp)"
    by (simp add: payload_signal_def)
  moreover note advisory_bounded [of "payload_signal st now sp" inp, folded ad]
  ultimately show ?thesis
    by (auto simp: Inr payload_signal_def or_else_def split: option.splits if_splits)
qed

subsection \<open>The trades of the journal\<close>

definition analytics_trades :: "(string \<Rightarrow> string \<Rightarrow> bool) \<Rightarrow> string option \<Rightarrow> string option \<Rightarrow> string option
  \<Rightarrow> string option \<Rightarrow> int option \<Rightarrow> int option \<Rightarrow> trade_table \<Rightarrow> nat + closed_trade list \<times> nat" where
  "analytics_trades matches symbol strat side q limit offset tbl =
     (case bounded_query 1 500 100 limit of
        Inl code \<Rightarrow> Inl code
      | Inr n \<Rightarrow>
          (let k = (case offset of Some k \<Rightarrow> k | None \<Rightarrow> 0)
           in if k < 0 then Inl 422
              else let trades = list_trades matches symbol strat side q (int n) k tbl in Inr (trades, length trades)))"

definition analytics_trade_detail :: "string \<Rightarrow> trade_table \<Rightarrow> nat + closed_trade" where
  "analytics_trade_detail tid tbl = (case journal_get tid tbl of None \<Rightarrow> Inl 404 | Some t \<Rightarrow> Inr t)"

text \<open>The pages of the journal, newest exit first, one after another, are one list of rows of the table.\<close>

lemma trade_pages:
  assumes "1 \<le> n" and "n \<le> 500"
  shows "\<exists>rows. sorted (map (\<lambda>t. - ct_exit_time t) rows) \<and> set rows \<subseteq> set (dict_values tbl)
    \<and> (\<forall>m. concat (map (\<lambda>j. fst (projr (analytics_trades matches symbol strat side q (Some (int n)) (Some (int (j * n))) tbl)))
            [0..<m]) = take (m * n) rows)"
proof -
  define narrowed where "narrowed = (\<lambda>b P (xs :: closed_trade list). if b then filter P xs else xs)"
  define given where "given = (\<lambda>x :: string option. case x of None \<Rightarrow> False | Some t \<Rightarrow> t \<noteq> [])"
  define rows where "rows = narrowed (given q) (\<lambda>t. matches (the q) (ct_symbol t)
         \<or> matches (the q) (ct_strategy_name t) \<or> matches (the q) (ct_id t))
      (narrowed (given side) (\<lambda>t. ct_side t = py_lower (the side))
      (narrowed (given strat) (\<lambda>t. ct_strategy_name t = the strat)
      (narrowed (given symbol) (\<lambda>t. ct_symbol t = py_upper (the symbol))
         (sort_key (\<lambda>t. - ct_exit_time t) (dict_values tbl)))))"
  have kept: "sorted (map f xs) \<Longrightarrow> sorted (map f (narrowed b P xs))" "set (narrowed b P xs) \<subseteq> set xs"
    for f :: "closed_trade \<Rightarrow> int" and b P xs
    by (auto simp: narrowed_def sorted_filter)
  have page: "list_trades matches symbol strat side q (int n) (int k) tbl = take n (drop k rows)" for k
  proof -
    have "nat (min (max (int n) 1) 500) = n" "nat (max 0 (int k)) = k" using assms by auto
    then show ?thesis unfolding list_trades_def rows_def Let_def given_def narrowed_def by (simp only:)
  qed
  have query: "bounded_query 1 500 100 (Some (int n)) = Inr n"
    using assms by (simp add: bounded_query_def)
  have "sorted (map (\<lambda>t. - ct_exit_time t) rows)"
    unfolding rows_def by (intro kept(1)) simp
  moreover have "set rows \<subseteq> set (dict_values tbl)"
    unfolding rows_def by (intro order.trans [OF kept(2)]) simp
  moreover have "fst (projr (analytics_trades matches symbol strat side q (Some (int n)) (Some (int (j * n))) tbl))
      = take n (drop (j * n) rows)" for j
    by (simp add: analytics_trades_def query page Let_def del: of_nat_mult)
  ultimately show ?thesis by (intro exI [of _ rows]) (simp add: take_pages del: of_nat_mult)
qed

subsection \<open>Concrete readings\<close>


end
