(* ===== verification/Soak.thy ===== *)
theory Soak
  imports Platform_Properties Feed_Properties
begin

text \<open>
  The soak of the paper account (\<open>app/services/paper_soak.py\<close>): cycles over synthetic candles with
  simulated failures of the feed and the database, duplicate and delayed bars, reconciliations, toggles
  of the kill switch and restarts, on the same \<open>platform\<close> the requests act on. What the random generator
  draws, the clock and the faults of the database are arguments, one record for each pass of the loop;
  the log of events and the files written at the end are left out.
\<close>

subsection \<open>Configuration and state\<close>

record soak_config =
  kf_duration_hours :: rat
  kf_restart_minutes :: rat
  kf_max_cycles :: "int option"

text \<open>A draw of \<open>rng.random()\<close> is a number from zero to below one.\<close>

record soak_draws =
  dw_now :: timestamp
  dw_feed :: rat
  dw_database :: rat
  dw_overlap :: rat
  dw_symbol :: string
  dw_force :: rat
  dw_duplicate :: rat
  dw_delayed :: rat
  dw_reconcile :: rat
  dw_kill :: rat
  dw_restart_now :: timestamp
  dw_next_now :: timestamp
  dw_series_now :: timestamp
  dw_prime :: "candle \<Rightarrow> paper_env"
  dw_request :: request_env
  dw_persist_fails :: bool
  dw_snapshot_fails :: bool
  dw_hydrate :: hydrate_env

record soak_state =
  ks_platform :: platform
  ks_next_restart :: timestamp
  ks_cycles :: nat
  ks_restarts :: nat
  ks_md_failures :: nat
  ks_duplicates :: nat
  ks_recon_runs :: nat
  ks_kill_toggles :: nat
  ks_invariant_failures :: nat
  ks_overlaps :: nat
  ks_db_disconnects :: nat
  ks_reports :: "invariant_report list"

datatype soak_error = NotPaper | CycleError py_error | DatabaseError

definition soak_limit :: "soak_config \<Rightarrow> int" where
  "soak_limit cfg =
     (case kf_max_cycles cfg of Some n \<Rightarrow> n | None \<Rightarrow> max 8 \<lfloor>kf_duration_hours cfg * 3600 / 5\<rfloor>)"

definition soak_deadline :: "soak_config \<Rightarrow> timestamp \<Rightarrow> timestamp" where
  "soak_deadline cfg started = started + half_even (kf_duration_hours cfg * 3600000000)"

definition restart_after :: "soak_config \<Rightarrow> timestamp \<Rightarrow> timestamp" where
  "restart_after cfg t = t + half_even (kf_restart_minutes cfg * 60000000)"

subsection \<open>One pass\<close>

definition database_down :: "soak_draws \<Rightarrow> bool" where
  "database_down w \<longleftrightarrow> dw_database w < 5 / 100"

definition feed_health :: "soak_draws \<Rightarrow> paper_session \<Rightarrow> paper_session" where
  "feed_health w s = with_risk ((ss_risk s)\<lparr>rs_market_data_healthy := \<not> dw_feed w < 8 / 100\<rparr>) s"

definition tip_repeated :: "soak_draws \<Rightarrow> candle list \<Rightarrow> candle list" where
  "tip_repeated w cs = (if dw_duplicate w < 12 / 100 then cs @ [last cs] else cs)"

definition tip_delayed :: "soak_draws \<Rightarrow> candle list \<Rightarrow> candle list" where
  "tip_delayed w cs =
     (if dw_delayed w < 8 / 100 \<and> cs \<noteq> []
      then butlast cs @ [(last cs)\<lparr>c_open_time := c_open_time (last cs) - seconds 300\<rparr>] else cs)"

definition soak_candles :: "soak_draws \<Rightarrow> py_error + candle list" where
  "soak_candles w =
     (case build_ema_crossover_candles (dw_series_now w) (dw_symbol w) ''1m'' None 65000 80 (dw_force w < 55 / 100) of
        Inl e \<Rightarrow> Inl e
      | Inr cs \<Rightarrow> Inr (tip_delayed w (tip_repeated w cs)))"

definition soak_body :: "soak_draws \<Rightarrow> cycle_body" where
  "soak_body w = \<lparr>cb_symbol = dw_symbol w, cb_timeframe = ''1m'', cb_strategy_id = ''ema_crossover'', cb_confirm = ''''\<rparr>"

definition soak_cycle :: "platform_config \<Rightarrow> soak_draws \<Rightarrow> platform \<Rightarrow> py_error option \<times> platform" where
  "soak_cycle pg w p =
     (let q = dw_request w
      in case (soak_candles w, get_strategy (qe_registry q) ''ema_crossover'') of
           (Inr cs, Inr strat) \<Rightarrow>
             (let env = (qe_cycle q)\<lparr>ce_candles :=
                    map (\<lambda>c. (dw_prime w c, c)) (provided_candles cs (dw_symbol w) ''1m'' 120)\<rparr>;
                  (res, rt) = run_paper_trading_cycle (requested_cycle pg (soak_body w) strat p) env
                    (ss_runtime (pl_session p))
              in (case res of Inl e \<Rightarrow> Some e | Inr r \<Rightarrow> None,
                  p\<lparr>pl_session := (pl_session p)\<lparr>ss_runtime := rt\<rparr>, pl_store := qe_writes q (pl_store p)\<rparr>))
         | (Inl e, _) \<Rightarrow> (Some e, p)
         | (_, Inl e) \<Rightarrow> (Some e, p))"

definition soak_persist :: "platform_config \<Rightarrow> soak_draws \<Rightarrow> platform \<Rightarrow> soak_error option \<times> platform" where
  "soak_persist pg w p =
     (if database_down w then (None, p)
      else
        let s = pl_session p;
            (ok, db) = persist_paper_session (pg_database pg) (dw_persist_fails w) s (pl_store p)
        in if ok then (None, p\<lparr>pl_store := save_cycle_keys (rt_processed_keys (ss_runtime s)) db\<rparr>)
           else (Some DatabaseError, p\<lparr>pl_store := db\<rparr>))"

definition soak_reconcile :: "platform_config \<Rightarrow> soak_draws \<Rightarrow> platform \<Rightarrow> platform" where
  "soak_reconcile pg w p =
     (let q = dw_request w
      in reconcile_session pg (q\<lparr>qe_write_fails := qe_write_fails q \<or> database_down w\<rparr>) p)"

definition soak_toggle :: "soak_draws \<Rightarrow> platform \<Rightarrow> platform" where
  "soak_toggle w p = control_kill (dw_request w) False (control_kill (dw_request w) True p)"

text \<open>A restart: the snapshot, a new session, and what the store gives back; without a database, halted.\<close>

definition clear_session_halt :: "paper_session \<Rightarrow> paper_session" where
  "clear_session_halt s =
     (let (r, rs) = clear_reconciliation_halt (rt_recon (ss_runtime s), ss_risk s) in with_recon r (with_risk rs s))"

definition soak_reset :: "platform_config \<Rightarrow> request_env \<Rightarrow> platform \<Rightarrow> platform" where
  "soak_reset pg q p = on_session clear_session_halt (reset_platform pg q p)"

definition soak_restart :: "platform_config \<Rightarrow> soak_draws \<Rightarrow> platform \<Rightarrow> soak_error option \<times> platform" where
  "soak_restart pg w p =
     (if database_down w
      then (None, on_session (\<lambda>s. with_recon (apply_halt_from_storage True (rt_recon (ss_runtime s)))
              (database_health False s)) (soak_reset pg (dw_request w) p))
      else
        let (ok, db) = persist_paper_session (pg_database pg) (dw_snapshot_fails w) (pl_session p) (pl_store p);
            p1 = p\<lparr>pl_store := db\<rparr>
        in if \<not> ok then (Some DatabaseError, p1)
           else (None, on_session (\<lambda>s. set_processed_cycle_keys (load_cycle_keys db)
                  (hydrate_session (pg_session pg) (dw_hydrate w) db s)) (soak_reset pg (dw_request w) p1)))"

definition counted :: "bool \<Rightarrow> nat \<Rightarrow> nat" where
  "counted b n = (if b then n + 1 else n)"

text \<open>What a pass does after a cycle that returned: the check, the writes, and the disturbances.\<close>

definition soak_settle :: "platform_config \<Rightarrow> soak_config \<Rightarrow> soak_draws \<Rightarrow> soak_state \<Rightarrow> soak_error option \<times> soak_state" where
  "soak_settle pg cfg w x =
     (let report = check_paper (ss_paper (pl_session (ks_platform x)));
          x2 = x\<lparr>ks_cycles := ks_cycles x + 1, ks_reports := ks_reports x @ [report],
                 ks_invariant_failures := counted (\<not> ir_ok report) (ks_invariant_failures x)\<rparr>;
          (e3, p3) = soak_persist pg w (ks_platform x)
      in case e3 of
           Some e \<Rightarrow> (Some e, x2\<lparr>ks_platform := p3\<rparr>)
         | None \<Rightarrow>
             let p4 = (if dw_reconcile w < 2 / 10 then soak_reconcile pg w p3 else p3);
                 p5 = (if dw_kill w < 7 / 100 then soak_toggle w p4 else p4);
                 x5 = x2\<lparr>ks_platform := p5, ks_recon_runs := counted (dw_reconcile w < 2 / 10) (ks_recon_runs x2),
                         ks_kill_toggles := counted (dw_kill w < 7 / 100) (ks_kill_toggles x2)\<rparr>
             in if dw_restart_now w < ks_next_restart x then (None, x5)
                else
                  let (e6, p6) = soak_restart pg w p5;
                      x6 = x5\<lparr>ks_platform := p6, ks_restarts := ks_restarts x5 + 1\<rparr>
                  in case e6 of
                       Some e \<Rightarrow> (Some e, x6)
                     | None \<Rightarrow> (None, x6\<lparr>ks_next_restart := restart_after cfg (dw_next_now w)\<rparr>))"

definition soak_pass :: "platform_config \<Rightarrow> soak_config \<Rightarrow> soak_draws \<Rightarrow> soak_state \<Rightarrow> soak_error option \<times> soak_state" where
  "soak_pass pg cfg w x =
     (let p1 = on_session (feed_health w) (ks_platform x);
          (e2, p2) = soak_cycle pg w p1;
          x2 = x\<lparr>ks_platform := p2, ks_md_failures := counted (dw_feed w < 8 / 100) (ks_md_failures x),
                 ks_db_disconnects := counted (database_down w) (ks_db_disconnects x),
                 ks_overlaps := counted (dw_overlap w < 1 / 10) (ks_overlaps x),
                 ks_duplicates := counted (dw_duplicate w < 12 / 100 \<and> soak_candles w \<in> range Inr) (ks_duplicates x)\<rparr>
      in case e2 of
           Some e \<Rightarrow> (Some (CycleError e), x2)
         | None \<Rightarrow> soak_settle pg cfg w x2)"

subsection \<open>The loop\<close>

text \<open>\<open>left\<close> passes remain below the limit; pass number \<open>n\<close> has the draws \<open>dw n\<close>.\<close>

fun soak_loop :: "platform_config \<Rightarrow> soak_config \<Rightarrow> timestamp \<Rightarrow> (nat \<Rightarrow> soak_draws) \<Rightarrow> nat \<Rightarrow> soak_state
  \<Rightarrow> soak_error option \<times> soak_state" where
  "soak_loop pg cfg deadline dw 0 x = (None, x)"
| "soak_loop pg cfg deadline dw (Suc left) x =
     (let w = dw (ks_cycles x)
      in if deadline \<le> dw_now w then (None, x)
         else case soak_pass pg cfg w x of
                (Some e, x1) \<Rightarrow> (Some e, x1)
              | (None, x1) \<Rightarrow> soak_loop pg cfg deadline dw left x1)"

definition soak_start :: "platform_config \<Rightarrow> soak_config \<Rightarrow> timestamp \<Rightarrow> request_env \<Rightarrow> platform \<Rightarrow> soak_state" where
  "soak_start pg cfg started q p =
     \<lparr>ks_platform = soak_reset pg q p, ks_next_restart = restart_after cfg started, ks_cycles = 0, ks_restarts = 0,
      ks_md_failures = 0, ks_duplicates = 0, ks_recon_runs = 0, ks_kill_toggles = 0, ks_invariant_failures = 0,
      ks_overlaps = 0, ks_db_disconnects = 0, ks_reports = []\<rparr>"

definition run_paper_soak :: "platform_config \<Rightarrow> soak_config \<Rightarrow> timestamp \<Rightarrow> request_env \<Rightarrow> (nat \<Rightarrow> soak_draws) \<Rightarrow> platform
  \<Rightarrow> soak_error option \<times> soak_state" where
  "run_paper_soak pg cfg started q dw p =
     (let x = soak_start pg cfg started q p
      in if st_trading_mode (sg_settings (pg_session pg)) \<noteq> ''paper'' then (Some NotPaper, x\<lparr>ks_platform := p\<rparr>)
         else soak_loop pg cfg (soak_deadline cfg started) dw (nat (soak_limit cfg)) x)"

definition soak_ok :: "soak_state \<Rightarrow> bool" where
  "soak_ok x \<longleftrightarrow> ks_invariant_failures x = 0"

subsection \<open>The soak ends, and its verdict\<close>

definition reports_counted :: "soak_state \<Rightarrow> bool" where
  "reports_counted x \<longleftrightarrow> length (ks_reports x) = ks_cycles x
     \<and> ks_invariant_failures x = length (filter (\<lambda>r. \<not> ir_ok r) (ks_reports x))"

lemma soak_settle_counts:
  assumes "soak_settle pg cfg w x = (e, x')" and "reports_counted x"
  shows "reports_counted x'" "ks_cycles x' = Suc (ks_cycles x)"
  using assms
  by (auto simp: soak_settle_def reports_counted_def counted_def Let_def split: prod.splits option.splits if_splits)

lemma soak_pass_counts:
  assumes "soak_pass pg cfg w x = (e, x')" and "reports_counted x"
  shows "reports_counted x'" "ks_cycles x' \<le> Suc (ks_cycles x)" "e = None \<Longrightarrow> ks_cycles x' = Suc (ks_cycles x)"
  using assms soak_settle_counts [of pg cfg w]
  by (auto simp: soak_pass_def reports_counted_def Let_def split: prod.splits option.splits)

lemma soak_loop_ends:
  assumes "soak_loop pg cfg deadline dw left x = (e, x')" and "reports_counted x"
  shows "reports_counted x' \<and> ks_cycles x' \<le> ks_cycles x + left
    \<and> (e = None \<longrightarrow> ks_cycles x' = ks_cycles x + left \<or> deadline \<le> dw_now (dw (ks_cycles x')))"
  using assms
proof (induction left arbitrary: x)
  case (Suc left)
  show ?case
  proof (cases "deadline \<le> dw_now (dw (ks_cycles x))")
    case False
    obtain e1 x1 where p: "soak_pass pg cfg (dw (ks_cycles x)) x = (e1, x1)" by fastforce
    note counts = soak_pass_counts [OF p Suc.prems(2)]
    show ?thesis
    proof (cases e1)
      case None
      with Suc.prems(1) False p have "soak_loop pg cfg deadline dw left x1 = (e, x')" by (simp add: Let_def)
      from Suc.IH [OF this counts(1)] counts(3) [OF None] show ?thesis by simp
    next
      case (Some err)
      with Suc.prems(1) False p counts show ?thesis by (auto simp: Let_def)
    qed
  qed (use Suc.prems in \<open>auto simp: Let_def\<close>)
qed simp

text \<open>
  C37. A soak always ends, after at most as many cycles as its limit; when nothing raised it has run them
  all or the time was up. There is one accounting report for every cycle, the failures count the reports
  that found one, and the soak is judged good exactly when no report found any.
\<close>

theorem soak_ends:
  fixes pg cfg started q dw p
  defines "out \<equiv> run_paper_soak pg cfg started q dw p"
  defines "e \<equiv> fst out" and "x \<equiv> snd out"
  shows "int (ks_cycles x) \<le> max 0 (soak_limit cfg) \<and> length (ks_reports x) = ks_cycles x
    \<and> soak_ok x = list_all ir_ok (ks_reports x)
    \<and> (case e of
          None \<Rightarrow> int (ks_cycles x) = max 0 (soak_limit cfg) \<or> soak_deadline cfg started \<le> dw_now (dw (ks_cycles x))
        | Some _ \<Rightarrow> True)"
proof -
  have start: "reports_counted (soak_start pg cfg started q p)" "ks_cycles (soak_start pg cfg started q p) = 0"
    by (simp_all add: reports_counted_def soak_start_def)
  have ok: "soak_ok x' = list_all ir_ok (ks_reports x')" if "reports_counted x'" for x'
    using that by (simp add: soak_ok_def reports_counted_def filter_empty_conv list_all_iff)
  show ?thesis
  proof (cases "st_trading_mode (sg_settings (pg_session pg)) = ''paper''")
    case True
    then have "soak_loop pg cfg (soak_deadline cfg started) dw (nat (soak_limit cfg)) (soak_start pg cfg started q p) = (e, x)"
      by (simp add: e_def x_def out_def run_paper_soak_def)
    from soak_loop_ends [OF this start(1)] show ?thesis
      by (cases e) (auto simp: start ok reports_counted_def)
  next
    case False
    then show ?thesis
      by (simp add: e_def x_def out_def run_paper_soak_def Let_def soak_start_def soak_ok_def)
  qed
qed

subsection \<open>The account of a soak\<close>

lemma soak_cycle_path: "platform_path pg p (snd (soak_cycle pg w p))"
proof -
  have "cycle_pair (requested_cycle pg body strat p) \<in> platform_pairs pg" for body strat
    by (simp add: requested_cycle_def platform_pairs_def)
  then show ?thesis
    by (auto simp: soak_cycle_def Let_def split: sum.split prod.split intro: cycle_path)
qed

lemma soak_frames [simp]:
  "ss_paper (feed_health w s) = ss_paper s"
  "ss_paper (pl_session (snd (soak_persist pg w p))) = ss_paper (pl_session p)"
  "ss_paper (pl_session (soak_reconcile pg w p)) = ss_paper (pl_session p)"
  "ss_paper (pl_session (soak_toggle w p)) = ss_paper (pl_session p)"
  by (simp_all add: feed_health_def soak_persist_def soak_reconcile_def soak_toggle_def control_kill_def
      write_store_def on_session_def Let_def case_prod_beta)

lemma soak_settle_path:
  assumes "dw_restart_now w < ks_next_restart x"
  shows "ss_paper (pl_session (ks_platform (snd (soak_settle pg cfg w x)))) = ss_paper (pl_session (ks_platform x))
    \<and> ks_next_restart (snd (soak_settle pg cfg w x)) = ks_next_restart x"
proof -
  have persist: "ss_paper (pl_session p') = ss_paper (pl_session p)" if "soak_persist pg w p = (e, p')" for p e p'
    using soak_frames(2) [of pg w p] that by simp
  from assms show ?thesis
    by (auto simp: soak_settle_def Let_def dest: persist split: prod.splits option.splits)
qed

lemma soak_pass_path:
  assumes "dw_restart_now w < ks_next_restart x"
  shows "platform_path pg (ks_platform x) (ks_platform (snd (soak_pass pg cfg w x)))
    \<and> ks_next_restart (snd (soak_pass pg cfg w x)) = ks_next_restart x"
proof -
  let ?p1 = "on_session (feed_health w) (ks_platform x)"
  have "platform_path pg (ks_platform x) (snd (soak_cycle pg w ?p1))"
    using soak_cycle_path [of pg ?p1 w] by (simp add: on_session_def)
  with soak_settle_path [of w _ pg cfg] assms show ?thesis
    by (auto simp: soak_pass_def Let_def split: prod.splits option.splits)
qed

lemma soak_loop_path:
  assumes "\<forall>n. dw_restart_now (dw n) < ks_next_restart x"
  shows "platform_path pg (ks_platform x) (ks_platform (snd (soak_loop pg cfg deadline dw left x)))"
  using assms
proof (induction left arbitrary: x)
  case (Suc left)
  obtain e1 x1 where p: "soak_pass pg cfg (dw (ks_cycles x)) x = (e1, x1)" by fastforce
  have step: "platform_path pg (ks_platform x) (ks_platform x1)" "ks_next_restart x1 = ks_next_restart x"
    using soak_pass_path [of "dw (ks_cycles x)" x pg cfg] Suc.prems p by auto
  from Suc.prems step(2) have "platform_path pg (ks_platform x1) (ks_platform (snd (soak_loop pg cfg deadline dw left x1)))"
    by (intro Suc.IH) simp
  with step(1) p show ?case by (auto simp: Let_def split: option.split intro: rtranclp_trans)
qed simp

text \<open>
  While no restart is due, a soak moves its account only as the platform does: whatever is drawn, and
  whatever fails, the account after it is connected to the one it started from by marks and by orders
  the risk engine accepted.
\<close>

lemma soak_account_guarded:
  assumes "\<forall>n. dw_restart_now (dw n) < restart_after cfg started"
  shows "platform_path pg (soak_reset pg q p)
      (ks_platform (snd (soak_loop pg cfg (soak_deadline cfg started) dw left (soak_start pg cfg started q p))))"
  using soak_loop_path [of dw "soak_start pg cfg started q p"] assms by (simp add: soak_start_def)

text \<open>A toggle leaves the switch disengaged before any cycle could run, so no cycle of a soak meets it engaged.\<close>

lemma soak_toggle_unkilled: "\<not> sf_kill_switch_enabled (ss_flags (pl_session (soak_toggle w p)))"
  by (simp add: soak_toggle_def control_kill_def write_store_def on_session_def set_kill_switch_def Let_def)

end
