(* ===== verification/Symbols.thy ===== *)
theory Symbols
  imports Access
begin

text \<open>
  The list of supported symbols as the settings read it (\<open>_parse_symbols\<close> in \<open>app/core/config.py\<close>): a
  JSON list, a text separated by commas or semicolons, or a list. Decoding JSON is an argument, the texts
  of the elements where the text is a list. Proved: what is written back is read again, and no text but
  a JSON list gives an empty list or a blank symbol.
\<close>

datatype symbols_value =
    NoSymbols
  | SymbolsText string
  | SymbolsList "string list"

definition default_symbols :: "string list" where
  "default_symbols = [''BTC/USDT'']"

definition nonblank :: "string list \<Rightarrow> string list" where
  "nonblank xs = filter (\<lambda>p. p \<noteq> '''') (map py_strip xs)"

definition separated_symbols :: "string \<Rightarrow> string list" where
  "separated_symbols raw =
     (let parts = nonblank (split_on (CHR '','') (map (\<lambda>c. if c = CHR '';'' then CHR '','' else c) raw))
      in if parts = [] then default_symbols else parts)"

definition parse_symbols :: "(string \<Rightarrow> string list option) \<Rightarrow> symbols_value \<Rightarrow> string list" where
  "parse_symbols json_list value =
     (case value of
        NoSymbols \<Rightarrow> default_symbols
      | SymbolsList xs \<Rightarrow> nonblank xs
      | SymbolsText text \<Rightarrow>
          if text = '''' then default_symbols
          else
            let raw = py_strip text
            in case (if take 1 raw = ''['' then json_list raw else None) of
                 Some xs \<Rightarrow> nonblank xs
               | None \<Rightarrow> separated_symbols raw)"

text \<open>A symbol as it is written in a list: not blank, no separator in it, no space around it.\<close>

definition symbol_text :: "string \<Rightarrow> bool" where
  "symbol_text s \<longleftrightarrow> s \<noteq> '''' \<and> CHR '','' \<notin> set s \<and> CHR '';'' \<notin> set s \<and> py_strip s = s"

fun join_comma :: "string list \<Rightarrow> string" where
  "join_comma [] = ''''"
| "join_comma [x] = x"
| "join_comma (x # xs) = x @ '','' @ join_comma xs"

subsection \<open>Space at the ends\<close>

lemma strip_ends:
  assumes "py_strip s \<noteq> ''''"
  shows "\<not> is_space (hd (py_strip s))" "\<not> is_space (last (py_strip s))"
proof -
  let ?t = "dropWhile is_space s"
  let ?u = "dropWhile is_space (rev ?t)"
  have u: "?u \<noteq> []" using assms by (simp add: py_strip_def)
  then show "\<not> is_space (last (py_strip s))" using hd_dropWhile [of is_space "rev ?t"] by (simp add: py_strip_def last_rev)
  obtain xs where "rev ?t = xs @ ?u" using takeWhile_dropWhile_id [of is_space "rev ?t"] by metis
  then have "?t = rev ?u @ rev xs" by (metis rev_append rev_rev_ident)
  with u have "hd ?t = hd (rev ?u)" by (metis hd_append rev_is_Nil_conv)
  moreover have "?t \<noteq> []" using u by (cases ?t) simp_all
  then have "\<not> is_space (hd ?t)" by (rule hd_dropWhile)
  ultimately show "\<not> is_space (hd (py_strip s))" by (simp add: py_strip_def)
qed

lemma strip_unchanged:
  assumes "s \<noteq> ''''" and "\<not> is_space (hd s)" and "\<not> is_space (last s)"
  shows "py_strip s = s"
proof -
  have "dropWhile is_space s = s" using assms(1,2) by (cases s) simp_all
  moreover have "dropWhile is_space (rev s) = rev s"
    using assms(1,3) by (cases s rule: rev_cases) simp_all
  ultimately show ?thesis by (simp add: py_strip_def)
qed

lemma strip_twice: "py_strip (py_strip s) = py_strip s"
proof (cases "py_strip s = ''''")
  case True
  moreover have "py_strip '''' = ''''" by (simp add: py_strip_def)
  ultimately show ?thesis by simp
qed (simp add: strip_unchanged strip_ends)

subsection \<open>What is written is read\<close>

lemma join_comma_ends:
  assumes "list_all symbol_text ss" and "ss \<noteq> []"
  shows "join_comma ss \<noteq> ''''" "hd (join_comma ss) = hd (hd ss)" "last (join_comma ss) = last (last ss)"
  using assms by (induction ss rule: join_comma.induct) (auto simp: symbol_text_def hd_append last_append)

lemma join_comma_split:
  assumes "list_all symbol_text ss" and "ss \<noteq> []"
  shows "split_on (CHR '','') (join_comma ss) = ss"
  using assms
proof (induction ss rule: join_comma.induct)
  case (3 x y ys)
  then show ?case by (simp add: symbol_text_def split_on_sep)
qed (simp_all add: symbol_text_def split_on_none)

lemma join_comma_semicolon: "list_all symbol_text ss \<Longrightarrow> CHR '';'' \<notin> set (join_comma ss)"
  by (induction ss rule: join_comma.induct) (auto simp: symbol_text_def)

lemma nonblank_parts: "set (nonblank xs) \<subseteq> {p. p \<noteq> '''' \<and> py_strip p = p}"
  by (auto simp: nonblank_def strip_twice)

text \<open>
  The list of symbols survives being written and read: joined with commas, any list of symbols without
  blanks and separators is read back as it is, unless it looks like JSON. And whatever is read, no symbol
  is blank or has space around it, and only a JSON list or a list can be empty.
\<close>

lemma symbols_roundtrip:
  assumes "list_all symbol_text ss" and "ss \<noteq> []" and "hd (hd ss) \<noteq> CHR ''[''"
  shows "parse_symbols json_list (SymbolsText (join_comma ss)) = ss
    \<and> set (parse_symbols json_list value) \<subseteq> {p. p \<noteq> '''' \<and> py_strip p = p}
    \<and> (parse_symbols json_list (SymbolsText text) \<noteq> [] \<or> json_list (py_strip text) \<noteq> None)"
proof (intro conjI)
  note ends = join_comma_ends [OF assms(1,2)]
  have strip: "py_strip s = s" "s \<noteq> ''''" if "s \<in> set ss" for s
    using that assms(1) by (auto simp: list_all_iff symbol_text_def)
  have space: "\<not> is_space (hd s)" "\<not> is_space (last s)" if "s \<in> set ss" for s
    using strip_ends [of s] strip [OF that] by simp_all
  have raw: "py_strip (join_comma ss) = join_comma ss"
    using ends space assms(2) by (intro strip_unchanged) simp_all
  have first: "take 1 (join_comma ss) \<noteq> ''[''"
    using ends(1,2) assms(3) by (cases "join_comma ss") simp_all
  have "map (\<lambda>c. if c = CHR '';'' then CHR '','' else c) (join_comma ss) = join_comma ss"
    using join_comma_semicolon [OF assms(1)] by (intro map_idI) auto
  moreover have "nonblank ss = ss"
    using strip by (auto simp: nonblank_def map_idI filter_id_conv)
  ultimately have "separated_symbols (join_comma ss) = ss"
    using join_comma_split [OF assms(1,2)] assms(2) by (simp add: separated_symbols_def Let_def)
  then show "parse_symbols json_list (SymbolsText (join_comma ss)) = ss"
    using ends(1) raw first by (simp add: parse_symbols_def Let_def)
next
  have default: "set default_symbols \<subseteq> {p. p \<noteq> '''' \<and> py_strip p = p}"
    by (simp add: default_symbols_def py_strip_def is_space_def Let_def)
  with nonblank_parts show "set (parse_symbols json_list value) \<subseteq> {p. p \<noteq> '''' \<and> py_strip p = p}"
    by (auto simp: parse_symbols_def separated_symbols_def Let_def split: symbols_value.splits option.splits if_splits)
next
  show "parse_symbols json_list (SymbolsText text) \<noteq> [] \<or> json_list (py_strip text) \<noteq> None"
    by (auto simp: parse_symbols_def separated_symbols_def default_symbols_def Let_def split: option.splits)
qed

lemma symbols_roundtrip_witness:
  "parse_symbols (\<lambda>t. None) (SymbolsText (join_comma [''BTC/USDT'', ''ETH/USDT''])) = [''BTC/USDT'', ''ETH/USDT'']"
  by (rule symbols_roundtrip [THEN conjunct1])
    (simp_all add: symbol_text_def py_strip_def is_space_def Let_def)

text \<open>A list in JSON that is broken is not refused: it is split at its commas, brackets and quotes kept.\<close>

lemma broken_json_is_split:
  "parse_symbols (\<lambda>t. None) (SymbolsText ''[BTC/USDT,ETH/USDT'') = [''[BTC/USDT'', ''ETH/USDT'']"
  by (simp add: parse_symbols_def separated_symbols_def nonblank_def py_strip_def is_space_def Let_def)

end
