(* ===== verification/Spec2Isabelle.thy ===== *)
theory Spec2Isabelle
  imports Config_Properties Accounting_Properties Platform_Properties Market_Hub Users Testnet
    Session_Market Views Soak Symbols
begin

text \<open>
  Project Atlas is a paper trading platform for cryptocurrencies (\<open>src/app\<close>, Python): it loads candles,
  evaluates a strategy, passes every order through one risk engine, and executes it in a simulated
  ledger; a scheduler, a dashboard and an HTTP interface drive it, and its state survives restarts in
  a database. This development models that program and proves what makes it correct. It is a shallow
  embedding: every function of the code is an Isabelle function of the same name where the name is
  free, the state it mutates is a record it takes and returns, and an exception is a value of \<open>Inl\<close>.

  \<^bold>\<open>Parts and how they interact.\<close> Bottom up, with the theory that models each part:

  \<^item> \<open>Prelude\<close>: Python exceptions (\<open>py_error\<close>), dictionaries as association lists in insertion order,
    timestamps as microseconds. \<open>Decimal_Arith\<close>: \<open>decimal.Decimal\<close> with 28 significant digits and
    half-even rounding (\<open>dadd\<close>, \<open>dmul\<close>, \<open>ddiv\<close>, \<open>quantize\<close>); the locale \<open>rounding\<close> holds what any
    such rounding satisfies and is interpreted for \<open>ctx\<close>. \<open>Decimal_Root\<close>: its square root (\<open>dsqrt\<close>).
  \<^item> \<open>Domain\<close>: \<open>models/domain\<close>. \<open>Config_Safety\<close>: \<open>core/config.py\<close>, \<open>runtime_mode.py\<close>, \<open>safety.py\<close>,
    \<open>execution/live_gate.py\<close>, \<open>futures.py\<close>. \<open>Symbols\<close>: how the settings read their list of symbols.
  \<^item> \<open>Risk_Engine\<close>: \<open>risk/engine.py\<close>. \<open>evaluate\<close> is the one method split into the groups its early
    returns form: \<open>check_gates\<close>, \<open>check_health\<close>, \<open>check_validity\<close>, \<open>check_precision\<close>,
    \<open>check_frequency\<close>, \<open>check_losses\<close>, the sizing steps, \<open>check_final\<close>.
  \<^item> \<open>Paper_Engine\<close>: \<open>execution/paper/engine.py\<close>, the ledger of cash, reservations, orders, fills and
    positions. \<open>Gateway\<close>: \<open>execution/gateway.py\<close> and \<open>broker.py\<close>, the only way from a request through
    the risk engine to a ledger; what it asks of a backend is the locale \<open>order_backend\<close>,
    and of one that keeps idempotency keys \<open>execution_backend\<close>, interpreted for the paper engine.
    \<open>Testnet\<close>: \<open>execution/exchange/testnet.py\<close>, the second backend, which satisfies the weaker locale
    only; what the exchange answers is an argument.
  \<^item> \<open>Indicators\<close> and \<open>Strategies\<close>: \<open>indicators\<close>, \<open>strategies\<close>; the contract of a strategy is the
    locale \<open>long_only_strategy\<close>, interpreted for the five strategies and the configured one.
    \<open>Backtest\<close>: \<open>backtesting\<close>. \<open>Trade_Journal\<close>: \<open>analytics/trade_journal.py\<close> and \<open>performance.py\<close>.
  \<^item> \<open>Candle_Validation\<close>: \<open>market_data/validators\<close>. \<open>Market_Feed\<close>: providers, retries, facade, hub,
    sources, the candle table and the websocket client; what a cycle asks of a source is the locale
    \<open>candle_feed\<close>, interpreted for the live and for the resolved source. \<open>Market_Hub\<close>: prices,
    symbols and the advisory derivatives of the providers, and the health of the hub.
  \<^item> \<open>Accounting\<close>: \<open>accounting/invariants.py\<close>, \<open>services/reconciliation.py\<close>, \<open>portfolio\<close>.
  \<^item> \<open>Orchestrator\<close>: \<open>services/trading_orchestrator.py\<close>, one strategy on one ledger, candle by candle.
    \<open>Cycle_Lock\<close>: \<open>services/cycle_lock.py\<close>. \<open>Paper_Cycle\<close>: \<open>services/paper_cycle.py\<close>, one run over the
    newest candle under the lock, with its \<open>runtime\<close> of flags, ledgers, keys and runs. \<open>Scheduler\<close>:
    \<open>services/trading_scheduler.py\<close>.
  \<^item> \<open>Paper_Session\<close>: \<open>services/paper_session.py\<close>, the account the dashboard operates, around the same
    runtime; \<open>Session_Market\<close>: the synthetic series it trades on, its backtest and
    \<open>services/sample_market.py\<close>, with the sine of the library as an argument. \<open>Paper_Store\<close> and
    \<open>Audit_Store\<close>: \<open>services/paper_persistence.py\<close>, \<open>journal/store.py\<close> and the start-up: what is
    written, what is read back, in which precedence.
  \<^item> \<open>Control_Plane\<close>: the requests of \<open>api\<close> that change something, behind the admin token, with the
    scheduler's turns, the reconciliation loop and restarts between them; the record \<open>platform\<close> is all
    the state they share and \<open>happen\<close> one event on it.
  \<^item> \<open>Reports\<close>: \<open>api/analytics.py\<close>, \<open>analytics/reports.py\<close> and \<open>portfolio/manager.py\<close>, what is reported
    of an account and its journal, over the calendar of \<open>Calendar\<close>. \<open>Views\<close>: the requests of \<open>api\<close> that
    only read, with their pages; \<open>look\<close> is one of them on the platform. \<open>Soak\<close>:
    \<open>services/paper_soak.py\<close>, the loop of cycles, failures and restarts on that platform.
  \<^item> \<open>Access\<close>: \<open>auth/tokens.py\<close>, \<open>core/cors.py\<close>, \<open>core/security.py\<close>. \<open>Users\<close>: \<open>auth/passwords.py\<close>,
    \<open>auth/store.py\<close> and the log-in. \<open>Advisory\<close>: \<open>news\<close>, \<open>ai/decision.py\<close>,
    \<open>monitoring/health.py\<close>, which order nothing.

  \<^bold>\<open>What is proved.\<close> The theories named \<open>_Properties\<close>, and the ends of the small ones, hold the
  properties; each is one theorem under a numbered text, followed or closed by a witness at a concrete
  state. Their groups:

  \<^item> Orders: an accepted order has passed every gate and is within every limit (\<open>Risk_Properties\<close>);
    no order reaches a ledger around the risk engine, from the gateway (\<open>Gateway\<close>, \<open>Testnet\<close>), the orchestrator
    (\<open>Orchestrator_Properties\<close>) or the dashboard (\<open>Session_Properties\<close>), and none is executed twice.
  \<^item> Money: in every reachable ledger cash and reservations are not negative, every reserved amount
    belongs to an open order, and fills stay within their orders (\<open>Paper_Ledger\<close>, \<open>Paper_Steps\<close>,
    \<open>Paper_Properties\<close>); the accounting checks accept such ledgers (\<open>Accounting_Properties\<close>).
  \<^item> Halts: kill switch, pause, circuit breaker, reconciliation and failed writes block cycles, the
    scheduler and the dashboard (\<open>Paper_Cycle_Properties\<close>, \<open>Scheduler_Properties\<close>,
    \<open>Session_Properties\<close>); over any sequence of requests, turns and reconciliations an engaged switch
    holds (\<open>Control_Properties\<close>), and whatever happens the account moves only by marks and by orders
    the risk engine accepted (\<open>Platform_Properties\<close>, the relation \<open>account_step\<close>).
  \<^item> Repetition: cycles are idempotent, their lock is exclusive and released, keys are used once,
    ticks are delivered once, candles and runs are stored once.
  \<^item> Durability: what a persisted session reads back, what a failed start leaves, what precedence
    loses (\<open>Store_Properties\<close>), and which decisions of an operator survive (\<open>Control_Properties\<close>).
  \<^item> Signals: strategies are long only and, like the indicators and the backtest, do not look ahead;
    feeds hand on valid series only (\<open>Feed_Properties\<close>); the Bollinger bands enclose their middle.
  \<^item> Reading changes nothing but the noted peak of the equity (\<open>Views\<close>), and a soak ends (\<open>Soak\<close>).
  \<^item> Reports: a report covers exactly the trades of its window, which starts at a midnight of the right
    day (\<open>Calendar\<close> has the round trip between dates and day numbers).

  Where the code does not do what it says, the theorem states what it does: a disengaged kill switch
  comes back after a restart, a reset account too, journalled orders hide those of the checkpoint, a
  failing live feed is replaced by synthetic candles, the forming bar is taken for closed, news is
  forgotten after one look.

  \<^bold>\<open>Bounds and choices.\<close> Decimals are rationals and every operation rounds to 28 digits, as in the
  code; the limits on exponents are not modelled. Theorems that need exact sums assume amounts of
  at most eight places below \<open>amount_limit\<close>, which is 10 to the 20, so that no sum of two needs a 29th
  digit; the ledger keeps its amounts on that grid. Timestamps and Python integers are unbounded. Clock
  readings, fresh identifiers, random delays, faults of the database and what an exchange answers are
  arguments, so that the theorems hold for all of them. Loops are structural recursions; the few that
  are not have a measure (\<open>missing_from\<close>), and those with a limit in the code keep that limit: four
  passes of closing a position, five attempts of a retry, the cycles of a soak. No fuel is used beyond
  these. Concurrency is interleaving of whole operations, which the locks of the code make atomic.

  \<^bold>\<open>Not modelled.\<close> The annual growth rate of a backtest, which is a floating-point power; JSON shapes and
  texts for display, report files, logging, the object-relational mapping and schema migrations, the
  clients of the exchanges behind a provider, the command line and the acceptance script. They compute
  nothing the modelled parts depend on, or are code of libraries that appears here as a parameter.
\<close>

end
